(* ===== verification/Prelude.thy ===== *)
theory Prelude
  imports Main "HOL-Library.Word"
begin

text \<open>
  Shared ground of the development: the return codes of
  \<^verbatim>\<open>utils/common/include/sensors_errors.h\<close>, 32-bit signed arithmetic with its wrap-around
  written out, and the generic lemmas on lists the component proofs share.
\<close>

section \<open>Return codes\<close>

text \<open>
  Every operation returns an \<^verbatim>\<open>int32_t\<close> code. The codes of this repository are small numbers
  (\<^verbatim>\<open>ErrorCode\<close>, \<^verbatim>\<open>ERROR\<close>, \<^verbatim>\<open>SUCCESS\<close>) or are counted from an offset that the base library
  computes for a module (\<^verbatim>\<open>ErrCodeOffset\<close>, not part of this repository). A code is modelled as a
  plain number (\<open>Errno\<close>) or as its position in the block of the service module
  (\<open>ServiceErr\<close>) or of the native client module (\<open>NativeErr\<close>), or as the name of a code of the
  base library (\<open>BaseErr\<close>); the blocks are disjoint from the plain codes and from each other, which
  is what the offsets are for.
\<close>

datatype errcode = Errno int | ServiceErr nat | NativeErr nat | BaseErr string

abbreviation (input) ERR_OK :: errcode where "ERR_OK \<equiv> Errno 0"
abbreviation (input) NO_ERROR :: errcode where "NO_ERROR \<equiv> Errno 0"
abbreviation (input) SUCCESS :: errcode where "SUCCESS \<equiv> Errno 0"
abbreviation (input) ERROR :: errcode where "ERROR \<equiv> Errno (-1)"
abbreviation (input) PERMISSION_DENIED :: errcode where "PERMISSION_DENIED \<equiv> Errno 201"
abbreviation (input) PARAMETER_ERROR :: errcode where "PARAMETER_ERROR \<equiv> Errno 401"
abbreviation (input) IS_NOT_SUPPORTED :: errcode where "IS_NOT_SUPPORTED \<equiv> Errno 801"
abbreviation (input) DEVICE_OPERATION_FAILED :: errcode where "DEVICE_OPERATION_FAILED \<equiv> Errno 14600101"

abbreviation (input) LIGHT_HDF_CONNECT_ERR :: errcode where "LIGHT_HDF_CONNECT_ERR \<equiv> ServiceErr 0"
abbreviation (input) LIGHT_ID_NOT_SUPPORT :: errcode where "LIGHT_ID_NOT_SUPPORT \<equiv> ServiceErr 1"
abbreviation (input) LIGHT_ERR :: errcode where "LIGHT_ERR \<equiv> ServiceErr 2"
abbreviation (input) LIGHT_END_ERROR :: errcode where "LIGHT_END_ERROR \<equiv> ServiceErr 4"
abbreviation (input) VIBRATOR_HDF_CONNECT_ERR :: errcode where "VIBRATOR_HDF_CONNECT_ERR \<equiv> ServiceErr 5"
abbreviation (input) VIBRATOR_ON_ERR :: errcode where "VIBRATOR_ON_ERR \<equiv> ServiceErr 6"
abbreviation (input) VIBRATOR_OFF_ERR :: errcode where "VIBRATOR_OFF_ERR \<equiv> ServiceErr 7"
abbreviation (input) DUMP_PARAM_ERR :: errcode where "DUMP_PARAM_ERR \<equiv> ServiceErr 11"

abbreviation (input) MISCDEVICE_NATIVE_SAM_ERR :: errcode where "MISCDEVICE_NATIVE_SAM_ERR \<equiv> NativeErr 0"
abbreviation (input) MISC_NATIVE_GET_SERVICE_ERR :: errcode where "MISC_NATIVE_GET_SERVICE_ERR \<equiv> NativeErr 1"
abbreviation (input) MISC_NATIVE_SAM_ERR :: errcode where "MISC_NATIVE_SAM_ERR \<equiv> NativeErr 2"
abbreviation (input) MISC_NO_INIT_ERR :: errcode where "MISC_NO_INIT_ERR \<equiv> NativeErr 3"
abbreviation (input) MISC_INVALID_OPERATION_ERR :: errcode where "MISC_INVALID_OPERATION_ERR \<equiv> NativeErr 4"
abbreviation (input) MISC_NAME_NOT_FOUND_ERR :: errcode where "MISC_NAME_NOT_FOUND_ERR \<equiv> NativeErr 5"

abbreviation (input) ERR_NO_INIT :: errcode where "ERR_NO_INIT \<equiv> BaseErr ''ERR_NO_INIT''"
abbreviation (input) ERR_INVALID_VALUE :: errcode where "ERR_INVALID_VALUE \<equiv> BaseErr ''ERR_INVALID_VALUE''"

section \<open>32-bit signed integers\<close>

text \<open>
  \<^verbatim>\<open>int32_t\<close> values are HOL integers; an addition, subtraction or multiplication whose operands
  are not bounded by a check before it is wrapped into the 32-bit range (the two's complement
  result that the compiled code computes; the C++ standard leaves it undefined for plain
  \<^verbatim>\<open>int32_t\<close> and defines it for \<^verbatim>\<open>std::atomic_int32_t\<close>).
\<close>

definition int32 :: "int \<Rightarrow> bool" where
  "int32 x \<longleftrightarrow> -2147483648 \<le> x \<and> x \<le> 2147483647"

definition wrap32 :: "int \<Rightarrow> int" where
  "wrap32 x = (x + 2147483648) mod 4294967296 - 2147483648"

lemma wrap32_int32 [simp, intro]: "int32 (wrap32 x)"
  unfolding int32_def wrap32_def
  using pos_mod_bound [of 4294967296 "x + 2147483648"] pos_mod_sign [of 4294967296 "x + 2147483648"]
  by linarith

lemma wrap32_id: "int32 x \<Longrightarrow> wrap32 x = x"
  by (simp add: int32_def wrap32_def)

lemma wrap32_idem [simp]: "wrap32 (wrap32 x) = wrap32 x"
  by (rule wrap32_id) simp

lemma int32I: "-2147483648 \<le> x \<Longrightarrow> x \<le> 2147483647 \<Longrightarrow> int32 x"
  by (simp add: int32_def)

lemma wrap32_small: "-2147483648 \<le> x \<Longrightarrow> x \<le> 2147483647 \<Longrightarrow> wrap32 x = x"
  by (simp add: wrap32_id int32I)

text \<open>\<^verbatim>\<open>std::max(std::min(x, hi), lo)\<close>, the clamp the code writes out at every adjustment.\<close>

definition clamp :: "int \<Rightarrow> int \<Rightarrow> int \<Rightarrow> int" where
  "clamp lo hi x = max (min x hi) lo"

lemma clamp_bounds: "lo \<le> hi \<Longrightarrow> lo \<le> clamp lo hi x \<and> clamp lo hi x \<le> hi"
  by (simp add: clamp_def)

lemma clamp_id: "lo \<le> x \<Longrightarrow> x \<le> hi \<Longrightarrow> clamp lo hi x = x"
  by (simp add: clamp_def)

lemma clamp_mono: "x \<le> y \<Longrightarrow> clamp lo hi x \<le> clamp lo hi y"
  by (auto simp: clamp_def)

section \<open>Lists\<close>

text \<open>Updating the last element in place, as \<^verbatim>\<open>v.back().f = x\<close> does.\<close>

fun upd_back :: "('a \<Rightarrow> 'a) \<Rightarrow> 'a list \<Rightarrow> 'a list" where
  "upd_back f [] = []"
| "upd_back f [x] = [f x]"
| "upd_back f (x # xs) = x # upd_back f xs"

lemma upd_back_snoc [simp]: "upd_back f (xs @ [x]) = xs @ [f x]"
  by (induction f xs rule: upd_back.induct) (auto simp: neq_Nil_conv)

lemma length_upd_back [simp]: "length (upd_back f xs) = length xs"
  by (induction f xs rule: upd_back.induct) auto

text \<open>Adjacent elements of a list are related.\<close>

fun adjacent :: "('a \<Rightarrow> 'a \<Rightarrow> bool) \<Rightarrow> 'a list \<Rightarrow> bool" where
  "adjacent R (x # y # zs) \<longleftrightarrow> R x y \<and> adjacent R (y # zs)"
| "adjacent R _ \<longleftrightarrow> True"

lemma adjacent_snoc:
  "adjacent R (xs @ [x, y]) \<longleftrightarrow> adjacent R (xs @ [x]) \<and> R x y"
proof (induction xs)
  case Nil
  then show ?case by simp
next
  case (Cons z zs)
  then show ?case by (cases zs) auto
qed

lemma adjacent_snoc_last:
  "xs \<noteq> [] \<Longrightarrow> adjacent R (xs @ [y]) \<longleftrightarrow> adjacent R xs \<and> R (last xs) y"
  by (cases xs rule: rev_cases) (auto simp: adjacent_snoc)

lemma adjacent_singleton [simp]: "adjacent R [x]"
  by simp

lemma adjacent_nth:
  "adjacent R xs \<longleftrightarrow> (\<forall>i. Suc i < length xs \<longrightarrow> R (xs ! i) (xs ! Suc i))"
proof (induction R xs rule: adjacent.induct)
  case (1 R x y zs)
  then show ?case by (auto simp: nth_Cons' less_Suc_eq_0_disj)
qed auto

section \<open>Loops that may give up\<close>

text \<open>\<^verbatim>\<open>for (i : is) { ... return ERROR; ... }\<close> over an accumulated state.\<close>

fun try_fold :: "('i \<Rightarrow> 's \<Rightarrow> 's option) \<Rightarrow> 'i list \<Rightarrow> 's \<Rightarrow> 's option" where
  "try_fold f [] s = Some s"
| "try_fold f (i # is) s = (case f i s of None \<Rightarrow> None | Some s' \<Rightarrow> try_fold f is s')"

lemma try_fold_invariant:
  assumes "try_fold f is s = Some s'" and "P s"
    and "\<And>i s s'. i \<in> set is \<Longrightarrow> P s \<Longrightarrow> f i s = Some s' \<Longrightarrow> P s'"
  shows "P s'"
  using assms
proof (induction "is" arbitrary: s)
  case (Cons i "is")
  then obtain s1 where s1: "f i s = Some s1" "try_fold f is s1 = Some s'"
    by (auto split: option.splits)
  have "P s1" using Cons.prems(2) s1(1) Cons.prems(3) [of i s s1] by simp
  with s1(2) show ?case using Cons.prems(3) by (intro Cons.IH [of s1]) auto
qed simp

text \<open>A round that adds at most \<open>c\<close> to a size adds at most \<open>c\<close> times the number of rounds in all.\<close>

lemma try_fold_bound:
  fixes m :: "'s \<Rightarrow> nat"
  assumes "try_fold f is s = Some s'"
    and "\<And>i s s'. f i s = Some s' \<Longrightarrow> m s' \<le> m s + c"
  shows "m s' \<le> m s + c * length is"
  using assms(1)
proof (induction "is" arbitrary: s)
  case (Cons i "is")
  then obtain s1 where s1: "f i s = Some s1" "try_fold f is s1 = Some s'"
    by (auto split: option.splits)
  from Cons.IH [OF s1(2)] assms(2) [OF s1(1)] show ?case by simp
qed simp

lemma try_fold_bound_inv:
  fixes m :: "'s \<Rightarrow> nat"
  assumes "try_fold f is s = Some s'" and "P s"
    and "\<And>i s s'. P s \<Longrightarrow> f i s = Some s' \<Longrightarrow> m s' \<le> m s + c \<and> P s'"
  shows "m s' \<le> m s + c * length is \<and> P s'"
  using assms(1,2)
proof (induction "is" arbitrary: s)
  case (Cons i "is")
  then obtain s1 where s1: "f i s = Some s1" "try_fold f is s1 = Some s'"
    by (auto split: option.splits)
  from assms(3) [OF Cons.prems(2) s1(1)] have "m s1 \<le> m s + c" "P s1" by auto
  with Cons.IH [OF s1(2)] show ?case by simp
qed simp

lemma try_fold_count:
  assumes "try_fold f is [] = Some xs" and "\<And>i s s'. f i s = Some s' \<Longrightarrow> length s' = Suc (length s)"
  shows "length xs = length is"
proof -
  have "try_fold f is s = Some xs \<Longrightarrow> length xs = length s + length is" for s
    by (induction "is" arbitrary: s) (auto split: option.splits dest: assms(2))
  from this [OF assms(1)] show ?thesis by simp
qed

lemma try_fold_append:
  "try_fold f (xs @ ys) s = (case try_fold f xs s of None \<Rightarrow> None | Some s' \<Rightarrow> try_fold f ys s')"
  by (induction xs arbitrary: s) (auto split: option.splits)

lemma try_fold_last: "try_fold f (xs @ [x]) s = Some s' \<Longrightarrow> \<exists>r. f x r = Some s'"
  by (auto simp: try_fold_append split: option.splits)

text \<open>The indices of an array of a signed size.\<close>

definition indices :: "int \<Rightarrow> int list" where
  "indices n = map int [0..<nat n]"

lemma length_indices [simp]: "length (indices n) = nat n"
  by (simp add: indices_def)

lemma set_indices [simp]: "set (indices n) = {i. 0 \<le> i \<and> i < n}"
  by (auto simp: indices_def) (metis atLeastLessThan_iff image_eqI int_nat_eq less_eq_nat.simps(1) nat_less_eq_zless)

lemma indices_snoc: "0 < n \<Longrightarrow> indices n = indices (n - 1) @ [n - 1]"
proof -
  assume "0 < n"
  then obtain k where "nat n = Suc k" "nat (n - 1) = k" "n - 1 = int k"
    by (metis Suc_nat_eq_nat_zadd1 diff_add_cancel int_nat_eq add.commute zle_diff1_eq)
  then show ?thesis by (simp add: indices_def)
qed

end
