(* ===== verification/Parcel.thy ===== *)
theory Parcel
  imports Prelude "HOL-Library.Monad_Syntax"
begin

text \<open>
  The parcel interface of the inter-process calls. \<^verbatim>\<open>Parcel\<close> itself belongs to another
  repository (\<^verbatim>\<open>parcel.h\<close>), so its operations are a parameter: a record of functions on an
  abstract parcel \<open>'p\<close>. What this repository relies on is that a parcel is first in, first out;
  \<open>parcel_fifo\<close> states it over a view \<open>unread\<close> of the values written and not yet read.

  The locale \<open>parcel_codec\<close> is the contract a \<^verbatim>\<open>Marshalling\<close>/\<^verbatim>\<open>Unmarshalling\<close> pair has to
  fulfil, with the round trip and the counted-array lemmas proved once for all pairs.
\<close>

section \<open>Parcel operations\<close>

datatype item = Int32 int | Uint32 "32 word" | Boolean bool | Text string

record 'p parcel_ops =
  WriteInt32 :: "'p \<Rightarrow> int \<Rightarrow> 'p option"
  WriteUint32 :: "'p \<Rightarrow> 32 word \<Rightarrow> 'p option"
  WriteBool :: "'p \<Rightarrow> bool \<Rightarrow> 'p option"
  WriteString :: "'p \<Rightarrow> string \<Rightarrow> 'p option"
  ReadInt32 :: "'p \<Rightarrow> (int \<times> 'p) option"
  ReadUint32 :: "'p \<Rightarrow> (32 word \<times> 'p) option"
  ReadBool :: "'p \<Rightarrow> (bool \<times> 'p) option"
  ReadString :: "'p \<Rightarrow> (string \<times> 'p) option"

text \<open>One \<^verbatim>\<open>if (!parcel.WriteX(v)) return false;\<close> of a marshalling function.\<close>

fun write_item :: "'p parcel_ops \<Rightarrow> item \<Rightarrow> 'p \<Rightarrow> 'p option" where
  "write_item P (Int32 x) p = WriteInt32 P p x"
| "write_item P (Uint32 x) p = WriteUint32 P p x"
| "write_item P (Boolean x) p = WriteBool P p x"
| "write_item P (Text x) p = WriteString P p x"

text \<open>A sequence of such statements: the first write that fails ends the marshalling.\<close>

fun write_items :: "'p parcel_ops \<Rightarrow> item list \<Rightarrow> 'p \<Rightarrow> 'p option" where
  "write_items P [] p = Some p"
| "write_items P (it # its) p = write_item P it p \<bind> write_items P its"

text \<open>A read loop \<^verbatim>\<open>for (i = 0; i < n; ++i)\<close> whose body reads one element and may give up.\<close>

fun read_n :: "nat \<Rightarrow> ('p \<Rightarrow> ('a \<times> 'p) option) \<Rightarrow> 'p \<Rightarrow> ('a list \<times> 'p) option" where
  "read_n 0 rd p = Some ([], p)"
| "read_n (Suc n) rd p =
     do { (x, p) \<leftarrow> rd p; (xs, p) \<leftarrow> read_n n rd p; Some (x # xs, p) }"

lemma length_read_n: "read_n n rd p = Some (xs, p') \<Longrightarrow> length xs = n"
  by (induction n arbitrary: p xs) (auto split: Option.bind_splits)

lemma read_n_all:
  assumes "\<And>p x p'. rd p = Some (x, p') \<Longrightarrow> Q x"
  shows "read_n n rd p = Some (xs, p') \<Longrightarrow> \<forall>x\<in>set xs. Q x"
  using assms by (induction n arbitrary: p xs) (auto split: Option.bind_splits)

section \<open>The first-in-first-out law\<close>

definition parcel_fifo :: "'p parcel_ops \<Rightarrow> ('p \<Rightarrow> item list) \<Rightarrow> bool" where
  "parcel_fifo P unread \<longleftrightarrow>
     (\<forall>p it p'. write_item P it p = Some p' \<longrightarrow> unread p' = unread p @ [it]) \<and>
     (\<forall>p x r. unread p = Int32 x # r \<longrightarrow> (\<exists>p'. ReadInt32 P p = Some (x, p') \<and> unread p' = r)) \<and>
     (\<forall>p x r. unread p = Uint32 x # r \<longrightarrow> (\<exists>p'. ReadUint32 P p = Some (x, p') \<and> unread p' = r)) \<and>
     (\<forall>p x r. unread p = Boolean x # r \<longrightarrow> (\<exists>p'. ReadBool P p = Some (x, p') \<and> unread p' = r)) \<and>
     (\<forall>p x r. unread p = Text x # r \<longrightarrow> (\<exists>p'. ReadString P p = Some (x, p') \<and> unread p' = r))"

lemma fifo_write_items:
  "parcel_fifo P unread \<Longrightarrow> write_items P its p = Some p' \<Longrightarrow> unread p' = unread p @ its"
proof (induction its arbitrary: p)
  case Nil
  then show ?case by simp
next
  case (Cons it its)
  then obtain q where q: "write_item P it p = Some q" and r: "write_items P its q = Some p'"
    by (auto split: Option.bind_splits)
  from q Cons.prems(1) have "unread q = unread p @ [it]"
    by (auto simp: parcel_fifo_def)
  with Cons.IH [OF Cons.prems(1) r] show ?case by simp
qed

text \<open>
  A decoder \<open>reads\<close> a value when it succeeds with it and leaves the rest unread. The rules
  below follow the statements of a decoder; \<open>reads_intro\<close> collects them.
\<close>

definition reads :: "('p \<Rightarrow> item list) \<Rightarrow> ('a \<times> 'p) option \<Rightarrow> 'a \<Rightarrow> item list \<Rightarrow> bool" where
  "reads unread res v r \<longleftrightarrow> (\<exists>p'. res = Some (v, p') \<and> unread p' = r)"

named_theorems reads_intro \<open>decoding steps under the first-in-first-out law\<close>

lemma reads_return [reads_intro]: "unread p = r \<Longrightarrow> v = w \<Longrightarrow> reads unread (Some (v, p)) w r"
  by (simp add: reads_def)

lemma reads_bind:
  "reads unread m x q \<Longrightarrow> (\<And>p'. unread p' = q \<Longrightarrow> reads unread (k (x, p')) v r) \<Longrightarrow>
   reads unread (m \<bind> k) v r"
  by (auto simp: reads_def)

lemma reads_guard [reads_intro]:
  "\<not> c \<Longrightarrow> reads unread m v r \<Longrightarrow> reads unread (if c then None else m) v r"
  by simp

lemma reads_Int32 [reads_intro]:
  "parcel_fifo P unread \<Longrightarrow> unread p = Int32 x # q \<Longrightarrow>
   (\<And>p'. unread p' = q \<Longrightarrow> reads unread (k (x, p')) v r) \<Longrightarrow> reads unread (ReadInt32 P p \<bind> k) v r"
  by (rule reads_bind) (auto simp: parcel_fifo_def reads_def)

lemma reads_Uint32 [reads_intro]:
  "parcel_fifo P unread \<Longrightarrow> unread p = Uint32 x # q \<Longrightarrow>
   (\<And>p'. unread p' = q \<Longrightarrow> reads unread (k (x, p')) v r) \<Longrightarrow> reads unread (ReadUint32 P p \<bind> k) v r"
  by (rule reads_bind) (auto simp: parcel_fifo_def reads_def)

lemma reads_Boolean [reads_intro]:
  "parcel_fifo P unread \<Longrightarrow> unread p = Boolean x # q \<Longrightarrow>
   (\<And>p'. unread p' = q \<Longrightarrow> reads unread (k (x, p')) v r) \<Longrightarrow> reads unread (ReadBool P p \<bind> k) v r"
  by (rule reads_bind) (auto simp: parcel_fifo_def reads_def)

lemma reads_Text [reads_intro]:
  "parcel_fifo P unread \<Longrightarrow> unread p = Text x # q \<Longrightarrow>
   (\<And>p'. unread p' = q \<Longrightarrow> reads unread (k (x, p')) v r) \<Longrightarrow> reads unread (ReadString P p \<bind> k) v r"
  by (rule reads_bind) (auto simp: parcel_fifo_def reads_def)

text \<open>The same steps for a decoder that is going to fail further on.\<close>

lemma fails_Int32:
  "parcel_fifo P unread \<Longrightarrow> unread p = Int32 x # q \<Longrightarrow>
   (\<And>p'. unread p' = q \<Longrightarrow> k (x, p') = None) \<Longrightarrow> ReadInt32 P p \<bind> k = None"
proof -
  assume F: "parcel_fifo P unread" and u: "unread p = Int32 x # q"
    and k: "\<And>p'. unread p' = q \<Longrightarrow> k (x, p') = None"
  from F u obtain p' where "ReadInt32 P p = Some (x, p')" "unread p' = q"
    unfolding parcel_fifo_def by blast
  with k show ?thesis by simp
qed

section \<open>The marshalling contract\<close>

text \<open>
  \<open>items v\<close> is what the marshalling of \<open>v\<close> writes, \<open>rd\<close> the unmarshalling, \<open>ok\<close> the values the
  reader accepts and \<open>sent\<close> what is left of a value after the trip: a pair that does not send
  every field restores the others to their initial values.
\<close>

locale parcel_codec =
  fixes items :: "'a \<Rightarrow> item list"
    and rd :: "'p parcel_ops \<Rightarrow> 'p \<Rightarrow> ('a \<times> 'p) option"
    and ok :: "'a \<Rightarrow> bool"
    and sent :: "'a \<Rightarrow> 'a"
  assumes decode: "parcel_fifo P unread \<Longrightarrow> ok v \<Longrightarrow> unread p = items v @ r \<Longrightarrow>
    reads unread (rd P p) (sent v) r"
begin

lemma roundtrip:
  assumes "parcel_fifo P unread" and "ok v" and "unread p = []"
    and "write_items P (items v) p = Some p1"
  shows "\<exists>p2. rd P p1 = Some (sent v, p2) \<and> unread p2 = []"
  using decode [OF assms(1,2), of p1 "[]"] fifo_write_items [OF assms(1,4)] assms(3)
  by (simp add: reads_def)

text \<open>Consecutive messages in one parcel do not disturb each other.\<close>

lemma decode_n:
  assumes "parcel_fifo P unread"
  shows "list_all ok vs \<Longrightarrow> unread p = concat (map items vs) @ r \<Longrightarrow>
    reads unread (read_n (length vs) (rd P) p) (map sent vs) r"
proof (induction vs arbitrary: p)
  case Nil
  then show ?case by (auto intro: reads_intro)
next
  case (Cons v vs)
  have "reads unread (rd P p) (sent v) (concat (map items vs) @ r)"
    using Cons.prems by (intro decode [OF assms]) simp_all
  then show ?case
    using Cons by (auto intro!: reads_bind reads_return)
qed

lemma decode_loop:
  assumes "parcel_fifo P unread" and "list_all ok vs" and "unread p = concat (map items vs) @ q"
    and "n = length vs"
    and "\<And>p'. unread p' = q \<Longrightarrow> reads unread (k (map sent vs, p')) v r"
  shows "reads unread (read_n n (rd P) p \<bind> k) v r"
  using decode_n [OF assms(1-3)] assms(4,5) by (auto intro: reads_bind)

end

text \<open>
  A pair is strict when the reader also turns down every representable value (\<open>repr\<close>: its array
  sizes fit the 32-bit count that is written) that breaks its checks.
\<close>

locale strict_codec = parcel_codec items rd ok sent
  for items :: "'a \<Rightarrow> item list"
    and rd :: "'p parcel_ops \<Rightarrow> 'p \<Rightarrow> ('a \<times> 'p) option"
    and ok :: "'a \<Rightarrow> bool"
    and sent :: "'a \<Rightarrow> 'a" +
  fixes repr :: "'a \<Rightarrow> bool"
  assumes reject: "parcel_fifo P unread \<Longrightarrow> repr v \<Longrightarrow> \<not> ok v \<Longrightarrow> unread p = items v @ r \<Longrightarrow>
    rd P p = None"
begin

lemma accepted_iff:
  assumes F: "parcel_fifo P unread" and "repr v" and "unread p = []"
    and W: "write_items P (items v) p = Some p1"
  shows "(\<exists>w p2. rd P p1 = Some (w, p2)) \<longleftrightarrow> ok v"
proof
  show "ok v \<Longrightarrow> \<exists>w p2. rd P p1 = Some (w, p2)"
    using roundtrip [OF F _ assms(3) W] by blast
  show "\<exists>w p2. rd P p1 = Some (w, p2) \<Longrightarrow> ok v"
    using reject [OF F assms(2), of p1 "[]"] fifo_write_items [OF F W] assms(3) by (cases "ok v") auto
qed

text \<open>One bad element spoils a counted array.\<close>

lemma reject_n:
  assumes F: "parcel_fifo P unread"
  shows "list_all repr vs \<Longrightarrow> \<not> list_all ok vs \<Longrightarrow> unread p = concat (map items vs) @ r \<Longrightarrow>
    read_n (length vs) (rd P) p = None"
proof (induction vs arbitrary: p)
  case Nil
  then show ?case by simp
next
  case (Cons v vs)
  show ?case
  proof (cases "ok v")
    case True
    have "reads unread (rd P p) (sent v) (concat (map items vs) @ r)"
      using Cons.prems True by (intro decode [OF F]) simp_all
    then show ?thesis
      using Cons True by (auto simp: reads_def)
  next
    case False
    then have "rd P p = None"
      using Cons.prems by (intro reject [OF F, of v _ "concat (map items vs) @ r"]) simp_all
    then show ?thesis by simp
  qed
qed

lemma reject_loop:
  assumes "parcel_fifo P unread" and "list_all repr vs" and "\<not> list_all ok vs"
    and "unread p = concat (map items vs) @ q" and "n = length vs"
  shows "read_n n (rd P) p \<bind> k = None"
  using reject_n [OF assms(1-4)] assms(5) by simp

end

section \<open>A concrete parcel for the witnesses\<close>

text \<open>An instance of the parameter: the parcel is the list of unread values itself.\<close>

definition list_parcel :: "item list parcel_ops" where
  "list_parcel = \<lparr>
     WriteInt32 = (\<lambda>p x. Some (p @ [Int32 x])),
     WriteUint32 = (\<lambda>p x. Some (p @ [Uint32 x])),
     WriteBool = (\<lambda>p x. Some (p @ [Boolean x])),
     WriteString = (\<lambda>p x. Some (p @ [Text x])),
     ReadInt32 = (\<lambda>p. case p of Int32 x # r \<Rightarrow> Some (x, r) | _ \<Rightarrow> None),
     ReadUint32 = (\<lambda>p. case p of Uint32 x # r \<Rightarrow> Some (x, r) | _ \<Rightarrow> None),
     ReadBool = (\<lambda>p. case p of Boolean x # r \<Rightarrow> Some (x, r) | _ \<Rightarrow> None),
     ReadString = (\<lambda>p. case p of Text x # r \<Rightarrow> Some (x, r) | _ \<Rightarrow> None) \<rparr>"

lemma write_item_list_parcel [simp]: "write_item list_parcel it p = Some (p @ [it])"
  by (cases it) (simp_all add: list_parcel_def)

lemma write_items_list_parcel [simp]: "write_items list_parcel its p = Some (p @ its)"
  by (induction its arbitrary: p) auto

lemma list_parcel_fifo: "parcel_fifo list_parcel (\<lambda>p. p)"
  by (simp add: parcel_fifo_def) (simp add: list_parcel_def)

end
