(* ===== verification/Float32.thy ===== *)
theory Float32
  imports Prelude Complex_Main
begin

text \<open>
  The \<^verbatim>\<open>float\<close> and \<^verbatim>\<open>double\<close> arithmetic of the effect code. A floating-point value is the
  rational number it stands for; an operation is computed exactly and rounded to the nearest
  number with a significand of \<open>p\<close> bits, ties to even (\<open>p = 24\<close> for \<^verbatim>\<open>float\<close>, \<open>p = 53\<close> for
  \<^verbatim>\<open>double\<close>). The values here stay far from the exponent limits of both formats, so overflow and
  subnormal numbers are left out. A conversion to \<^verbatim>\<open>int32_t\<close> truncates.
\<close>

section \<open>Rounding\<close>

definition pow2 :: "int \<Rightarrow> rat" where
  "pow2 e = (if 0 \<le> e then 2 ^ nat e else 1 / 2 ^ nat (- e))"

function bitlen :: "int \<Rightarrow> nat" where
  "bitlen n = (if n \<le> 0 then 0 else Suc (bitlen (n div 2)))"
  by auto
termination by (relation "measure nat") auto

declare bitlen.simps [simp del]

text \<open>The exponent of the leading bit of a positive number.\<close>

definition ilog2 :: "rat \<Rightarrow> int" where
  "ilog2 x =
     (let (a, b) = quotient_of x;
          k = int (bitlen a) - int (bitlen b)
      in if pow2 k \<le> x then k else k - 1)"

definition round_half_even :: "rat \<Rightarrow> int" where
  "round_half_even x =
     (let f = \<lfloor>x\<rfloor>; d = x - of_int f
      in if d < 1 / 2 then f else if 1 / 2 < d then f + 1 else if even f then f else f + 1)"

definition fl :: "nat \<Rightarrow> rat \<Rightarrow> rat" where
  "fl p x =
     (if x = 0 then 0
      else let u = pow2 (ilog2 \<bar>x\<bar> - int p + 1) in of_int (round_half_even (x / u)) * u)"

definition fl32 :: "rat \<Rightarrow> rat" where "fl32 x = fl 24 x"
definition fl64 :: "rat \<Rightarrow> rat" where "fl64 x = fl 53 x"

text \<open>\<^verbatim>\<open>static_cast<int32_t>(x)\<close> for a value in range.\<close>

definition trunc :: "rat \<Rightarrow> int" where
  "trunc x = (if x < 0 then \<lceil>x\<rceil> else \<lfloor>x\<rfloor>)"

text \<open>
  Converting a value that is not a number (\<open>None\<close>) or does not fit to \<^verbatim>\<open>int32_t\<close> is undefined in
  C++: what the platform makes of it is the parameter \<open>U\<close>.
\<close>

definition double_to_int32 :: "(rat option \<Rightarrow> int) \<Rightarrow> rat option \<Rightarrow> int" where
  "double_to_int32 U d =
     (case d of None \<Rightarrow> U None | Some x \<Rightarrow> if int32 (trunc x) then trunc x else U (Some x))"

section \<open>Powers of two\<close>

lemma pow2_pos [simp]: "0 < pow2 e"
  by (simp add: pow2_def)

lemma pow2_nonneg [simp]: "0 \<le> pow2 e"
  by (simp add: less_imp_le)

lemma pow2_nonzero [simp]: "pow2 e \<noteq> 0"
  using pow2_pos [of e] by linarith

lemma pow2_Suc: "pow2 (e + 1) = 2 * pow2 e"
proof (cases "0 \<le> e")
  case True
  then show ?thesis by (simp add: pow2_def nat_add_distrib)
next
  case False
  then have "nat (- e) = Suc (nat (- (e + 1)))" by linarith
  with False show ?thesis by (cases "e = -1") (simp_all add: pow2_def field_simps)
qed

lemma pow2_nat [simp]: "pow2 (int n) = 2 ^ n"
  by (simp add: pow2_def)

lemma pow2_add_nat: "pow2 (e + int n) = pow2 e * 2 ^ n"
proof (induction n)
  case (Suc n)
  have "pow2 (e + int (Suc n)) = pow2 ((e + int n) + 1)" by (simp add: algebra_simps)
  then show ?case using Suc by (simp add: pow2_Suc)
qed simp

lemma pow2_diff_nat: "pow2 (e - int n) * 2 ^ n = pow2 e"
  using pow2_add_nat [of "e - int n" n] by simp

lemma pow2_mono: "d \<le> e \<Longrightarrow> pow2 d \<le> pow2 e"
proof -
  assume "d \<le> e"
  then have "e = d + int (nat (e - d))" by simp
  then have "pow2 e = pow2 d * 2 ^ nat (e - d)" by (metis pow2_add_nat)
  then show ?thesis by simp
qed

lemma bitlen_bounds: "0 < n \<Longrightarrow> 2 ^ (bitlen n - 1) \<le> n \<and> n < 2 ^ bitlen n \<and> 0 < bitlen n"
proof (induction n rule: bitlen.induct)
  case (1 n)
  show ?case
  proof (cases "n = 1")
    case True
    then show ?thesis by (simp add: bitlen.simps)
  next
    case False
    with 1 have IH: "2 ^ (bitlen (n div 2) - 1) \<le> n div 2" "n div 2 < 2 ^ bitlen (n div 2)"
      "0 < bitlen (n div 2)" by auto
    from 1 have "bitlen n = Suc (bitlen (n div 2))" by (subst bitlen.simps) simp
    moreover have "(2::int) ^ bitlen (n div 2) = 2 * 2 ^ (bitlen (n div 2) - 1)"
      using IH(3) by (cases "bitlen (n div 2)") auto
    moreover have "2 * (n div 2) \<le> n" and "n < 2 * (n div 2) + 2" by presburger+
    ultimately show ?thesis using IH by (auto intro: order_trans [of _ "2 * (n div 2)"])
  qed
qed

text \<open>The exponent is the right one.\<close>

lemma ilog2_bounds:
  assumes "0 < x"
  shows "pow2 (ilog2 x) \<le> x" and "x < pow2 (ilog2 x + 1)"
proof -
  obtain a b where q: "quotient_of x = (a, b)" by (cases "quotient_of x")
  from q have b: "0 < b" by (rule quotient_of_denom_pos)
  from q have x: "x = of_int a / of_int b" by (rule quotient_of_div)
  with assms b have a: "0 < a" by (simp add: zero_less_divide_iff)
  let ?m = "bitlen a" and ?n = "bitlen b"
  have A: "2 ^ (?m - 1) \<le> a" "a < 2 ^ ?m" "0 < ?m" and B: "2 ^ (?n - 1) \<le> b" "b < 2 ^ ?n" "0 < ?n"
    using bitlen_bounds [of a] bitlen_bounds [of b] a b by auto
  have a2: "(2::rat) ^ (?m - 1) \<le> of_int a" "of_int a < (2::rat) ^ ?m"
    using A by (metis of_int_le_iff of_int_less_iff of_int_numeral of_int_power)+
  have b2: "(2::rat) ^ (?n - 1) \<le> of_int b" "of_int b < (2::rat) ^ ?n"
    using B by (metis of_int_le_iff of_int_less_iff of_int_numeral of_int_power)+
  define k where "k = int ?m - int ?n"
  have m: "(2::rat) ^ ?m = 2 * 2 ^ (?m - 1)" and n: "(2::rat) ^ ?n = 2 * 2 ^ (?n - 1)"
    using A(3) B(3) by (metis Suc_diff_1 power_Suc)+
  have k: "pow2 k * 2 ^ ?n = 2 ^ ?m"
    using pow2_diff_nat [of "int ?m" ?n] by (simp add: k_def)
  have up: "x < pow2 (k + 1)"
  proof -
    have "of_int a < (2::rat) ^ ?m" by (rule a2)
    also have "\<dots> = pow2 (k + 1) * 2 ^ (?n - 1)" using k n by (simp add: pow2_Suc)
    also have "\<dots> \<le> pow2 (k + 1) * of_int b" using b2(1) by (intro mult_left_mono) auto
    finally show ?thesis using b by (simp add: x pos_divide_less_eq)
  qed
  have low: "pow2 (k - 1) \<le> x"
  proof -
    have "pow2 (k - 1) * of_int b \<le> pow2 (k - 1) * 2 ^ ?n"
      using b2(2) by (intro mult_left_mono) auto
    also have "\<dots> = 2 ^ (?m - 1)" using k m pow2_Suc [of "k - 1"] by simp
    also have "\<dots> \<le> of_int a" by (rule a2)
    finally show ?thesis using b by (simp add: x pos_le_divide_eq)
  qed
  have "ilog2 x = (if pow2 k \<le> x then k else k - 1)"
    by (simp add: ilog2_def q k_def)
  then show "pow2 (ilog2 x) \<le> x" and "x < pow2 (ilog2 x + 1)"
    using low up by (auto split: if_splits)
qed

section \<open>Rounding error and exactness\<close>

lemma round_half_even_of_int [simp]: "round_half_even (of_int n) = n"
  by (simp add: round_half_even_def)

lemma round_half_even_error: "\<bar>of_int (round_half_even x) - x\<bar> \<le> 1 / 2"
  unfolding round_half_even_def Let_def
  using of_int_floor_le [of x] floor_correct [of x] by (auto simp: abs_le_iff)

lemma fl_0 [simp]: "fl p 0 = 0"
  by (simp add: fl_def)

text \<open>A result is off by at most one part in \<open>2 ^ p\<close>.\<close>

lemma fl_error: "\<bar>fl p x - x\<bar> * 2 ^ p \<le> \<bar>x\<bar>"
proof (cases "x = 0")
  case False
  define u where "u = pow2 (ilog2 \<bar>x\<bar> - int p + 1)"
  have u: "0 < u" by (simp add: u_def)
  have "fl p x - x = (of_int (round_half_even (x / u)) - x / u) * u"
    unfolding fl_def u_def [symmetric] Let_def using False u by (simp add: left_diff_distrib)
  then have "\<bar>fl p x - x\<bar> \<le> 1 / 2 * u"
    using round_half_even_error [of "x / u"] u by (simp add: abs_mult)
  then have "\<bar>fl p x - x\<bar> * 2 ^ p \<le> 1 / 2 * u * 2 ^ p"
    by (rule mult_right_mono) simp
  also have "\<dots> = pow2 (ilog2 \<bar>x\<bar>)"
    using pow2_diff_nat [of "ilog2 \<bar>x\<bar> + 1" p] pow2_Suc [of "ilog2 \<bar>x\<bar>"]
    by (simp add: u_def algebra_simps)
  also have "\<dots> \<le> \<bar>x\<bar>" using False by (intro ilog2_bounds) simp
  finally show ?thesis .
qed simp

text \<open>A value that already has a \<open>p\<close>-bit significand is not changed.\<close>

lemma fl_exact:
  assumes "x = of_int m * pow2 e" and "\<bar>m\<bar> < 2 ^ p"
  shows "fl p x = x"
proof (cases "x = 0")
  case False
  define d where "d = ilog2 \<bar>x\<bar> - int p + 1"
  have m: "m \<noteq> 0" and mx: "\<bar>x\<bar> = of_int \<bar>m\<bar> * pow2 e"
    using False assms(1) by (auto simp: abs_mult)
  have "of_int \<bar>m\<bar> < (2::rat) ^ p"
    using assms(2) by (metis of_int_less_iff of_int_numeral of_int_power)
  then have "\<bar>x\<bar> < pow2 (e + int p)"
    unfolding mx pow2_add_nat by (simp add: mult.commute)
  moreover have "pow2 (ilog2 \<bar>x\<bar>) \<le> \<bar>x\<bar>" using False by (intro ilog2_bounds) simp
  ultimately have "ilog2 \<bar>x\<bar> < e + int p"
    using pow2_mono [of "e + int p" "ilog2 \<bar>x\<bar>"] by (metis leI le_less_trans not_le)
  then have "d \<le> e" by (simp add: d_def)
  then have "e = d + int (nat (e - d))" by simp
  then have "pow2 e = pow2 d * 2 ^ nat (e - d)" by (metis pow2_add_nat)
  then have "x / pow2 d = of_int (m * 2 ^ nat (e - d))"
    by (simp add: assms(1))
  then have "fl p x = of_int (m * 2 ^ nat (e - d)) * pow2 d"
    unfolding fl_def d_def [symmetric] Let_def using False by (simp only: round_half_even_of_int) simp
  also have "\<dots> = x"
    using \<open>pow2 e = pow2 d * 2 ^ nat (e - d)\<close> by (simp add: assms(1))
  finally show ?thesis .
qed simp

lemma fl_of_int: "\<bar>n\<bar> < 2 ^ p \<Longrightarrow> fl p (of_int n) = of_int n"
  using fl_exact [of "of_int n" n 0 p] by (simp add: pow2_def)

lemma fl32_of_int: "\<bar>n\<bar> < 16777216 \<Longrightarrow> fl32 (of_int n) = of_int n"
  unfolding fl32_def by (rule fl_of_int) simp

lemma fl32_error: "\<bar>fl32 x - x\<bar> \<le> \<bar>x\<bar> / 16777216"
  using fl_error [of 24 x] by (simp add: fl32_def field_simps)

lemma fl64_error: "\<bar>fl64 x - x\<bar> \<le> \<bar>x\<bar> / 9007199254740992"
  using fl_error [of 53 x] by (simp add: fl64_def field_simps)

lemma trunc_of_int [simp]: "trunc (of_int n) = n"
  by (simp add: trunc_def)

lemma trunc_bounds:
  assumes "of_int a - 1 < x" and "x < of_int b + 1" and "a \<le> 0" and "0 \<le> b"
  shows "a \<le> trunc x" and "trunc x \<le> b"
  using assms by (auto simp: trunc_def le_ceiling_iff ceiling_le_iff floor_le_iff le_floor_iff
      split: if_splits)

end
