(* ===== verification/Json.thy ===== *)
theory Json
  imports Float32 "HOL-Library.Monad_Syntax"
begin

text \<open>
  The JSON access layer, \<^verbatim>\<open>utils/common/src/json_parser.cpp\<close>, over the cJSON library. cJSON is
  third-party code, so its functions are a parameter: a record of functions on an abstract
  node type \<open>'j\<close>. A pointer to a node is \<open>'j option\<close>, \<open>None\<close> being the null pointer, on which
  every \<^verbatim>\<open>cJSON_Is...\<close> test is false.
\<close>

section \<open>The cJSON library\<close>

record 'j cjson =
  cJSON_Parse :: "string \<Rightarrow> 'j option"
  cJSON_IsArray :: "'j \<Rightarrow> bool"
  cJSON_IsObject :: "'j \<Rightarrow> bool"
  cJSON_IsString :: "'j \<Rightarrow> bool"
  cJSON_IsNumber :: "'j \<Rightarrow> bool"
  cJSON_HasObjectItem :: "'j \<Rightarrow> string \<Rightarrow> bool"
  cJSON_GetObjectItem :: "'j \<Rightarrow> string \<Rightarrow> 'j option"
  cJSON_GetArraySize :: "'j \<Rightarrow> int"
  cJSON_GetArrayItem :: "'j \<Rightarrow> int \<Rightarrow> 'j option"
  valuestring :: "'j \<Rightarrow> string"
  valueint :: "'j \<Rightarrow> int"
  valuedouble :: "'j \<Rightarrow> rat option"

text \<open>
  A double is \<open>None\<close> when it is not a number.
\<close>

definition double_mult :: "rat option \<Rightarrow> rat \<Rightarrow> rat option" where
  "double_mult d y = map_option (\<lambda>x. fl64 (x * y)) d"

section \<open>The parser\<close>

definition HasObjectItem :: "'j cjson \<Rightarrow> 'j option \<Rightarrow> string \<Rightarrow> bool" where
  "HasObjectItem J j key = (case j of None \<Rightarrow> False | Some n \<Rightarrow> cJSON_HasObjectItem J n key)"

definition GetObjectItem :: "'j cjson \<Rightarrow> 'j option \<Rightarrow> string \<Rightarrow> 'j option" where
  "GetObjectItem J j key =
     (case j of
        None \<Rightarrow> None
      | Some n \<Rightarrow>
          if \<not> cJSON_IsObject J n then None
          else if \<not> cJSON_HasObjectItem J n key then None
          else cJSON_GetObjectItem J n key)"

definition IsArray :: "'j cjson \<Rightarrow> 'j option \<Rightarrow> bool" where
  "IsArray J j = (case j of None \<Rightarrow> False | Some n \<Rightarrow> cJSON_IsArray J n)"

definition IsString :: "'j cjson \<Rightarrow> 'j option \<Rightarrow> bool" where
  "IsString J j = (case j of None \<Rightarrow> False | Some n \<Rightarrow> cJSON_IsString J n)"

definition ParseJsonArray :: "'j cjson \<Rightarrow> 'j option \<Rightarrow> string \<Rightarrow> string list \<Rightarrow> string list option" where
  "ParseJsonArray J j key vals =
     (case GetObjectItem J j key of
        None \<Rightarrow> None
      | Some a \<Rightarrow>
          if \<not> cJSON_IsArray J a then None
          else try_fold
            (\<lambda>i vals. case cJSON_GetArrayItem J a i of
                None \<Rightarrow> None
              | Some v \<Rightarrow> if \<not> cJSON_IsString J v then None else Some (vals @ [valuestring J v]))
            (indices (cJSON_GetArraySize J a)) vals)"

definition GetIntValue :: "'j cjson \<Rightarrow> (rat option \<Rightarrow> int) \<Rightarrow> 'j \<Rightarrow> int" where
  "GetIntValue J U j = (if \<not> cJSON_IsNumber J j then double_to_int32 U None else valueint J j)"

definition GetDoubleValue :: "'j cjson \<Rightarrow> 'j \<Rightarrow> rat option" where
  "GetDoubleValue J j = (if \<not> cJSON_IsNumber J j then None else valuedouble J j)"

definition GetStringValue :: "'j cjson \<Rightarrow> 'j \<Rightarrow> string" where
  "GetStringValue J j = (if \<not> cJSON_IsString J j then '''' else valuestring J j)"

section \<open>A concrete JSON tree for the witnesses\<close>

datatype json = JNum int rat | JStr string | JArr "json list" | JObj "(string \<times> json) list"

fun json_is_obj :: "json \<Rightarrow> bool" where "json_is_obj (JObj _) = True" | "json_is_obj _ = False"
fun json_is_arr :: "json \<Rightarrow> bool" where "json_is_arr (JArr _) = True" | "json_is_arr _ = False"
fun json_is_str :: "json \<Rightarrow> bool" where "json_is_str (JStr _) = True" | "json_is_str _ = False"
fun json_is_num :: "json \<Rightarrow> bool" where "json_is_num (JNum _ _) = True" | "json_is_num _ = False"
fun json_fields :: "json \<Rightarrow> (string \<times> json) list" where "json_fields (JObj fs) = fs" | "json_fields _ = []"
fun json_elems :: "json \<Rightarrow> json list" where "json_elems (JArr vs) = vs" | "json_elems _ = []"
fun json_string :: "json \<Rightarrow> string" where "json_string (JStr s) = s" | "json_string _ = ''''"
fun json_int :: "json \<Rightarrow> int" where "json_int (JNum n _) = n" | "json_int _ = 0"
fun json_double :: "json \<Rightarrow> rat" where "json_double (JNum _ x) = x" | "json_double _ = 0"

definition json_ops :: "(string \<Rightarrow> json option) \<Rightarrow> json cjson" where
  "json_ops parse = \<lparr>
     cJSON_Parse = parse,
     cJSON_IsArray = json_is_arr, cJSON_IsObject = json_is_obj,
     cJSON_IsString = json_is_str, cJSON_IsNumber = json_is_num,
     cJSON_HasObjectItem = (\<lambda>j k. map_of (json_fields j) k \<noteq> None),
     cJSON_GetObjectItem = (\<lambda>j k. map_of (json_fields j) k),
     cJSON_GetArraySize = (\<lambda>j. int (length (json_elems j))),
     cJSON_GetArrayItem = (\<lambda>j i. if 0 \<le> i \<and> nat i < length (json_elems j) then Some (json_elems j ! nat i) else None),
     valuestring = json_string, valueint = json_int, valuedouble = (\<lambda>j. Some (json_double j))\<rparr>"

definition jint :: "int \<Rightarrow> json" where "jint n = JNum n (of_int n)"

end
