(* ===== verification/CStrings.thy ===== *)
theory CStrings
  imports Prelude
begin

text \<open>
  The string functions of the C++ standard library that the code calls:
  \<^verbatim>\<open>std::to_string\<close>, \<^verbatim>\<open>strtoll\<close> in base 10 with its saturation, \<^verbatim>\<open>std::string::find\<close> used as a
  containment test, and \<^verbatim>\<open>std::regex_replace\<close> with a pattern that has no special character.
\<close>

section \<open>Decimal numbers\<close>

definition digit :: "nat \<Rightarrow> char" where
  "digit d = char_of (48 + d)"

definition digit_value :: "char \<Rightarrow> int" where
  "digit_value c = int (of_char c :: nat) - 48"

definition is_digit :: "char \<Rightarrow> bool" where
  "is_digit c \<longleftrightarrow> (of_char c :: nat) \<in> {48..57}"

definition is_space :: "char \<Rightarrow> bool" where
  "is_space c \<longleftrightarrow> (of_char c :: nat) = 32 \<or> (of_char c :: nat) \<in> {9..13}"

fun digits :: "nat \<Rightarrow> string" where
  "digits n = (if n < 10 then [digit n] else digits (n div 10) @ [digit (n mod 10)])"

declare digits.simps [simp del]

definition to_string :: "int \<Rightarrow> string" where
  "to_string x = (if x < 0 then CHR ''-'' # digits (nat (- x)) else digits (nat x))"

definition value_of :: "string \<Rightarrow> int" where
  "value_of s = foldl (\<lambda>a c. 10 * a + digit_value c) 0 s"

definition strtoll :: "string \<Rightarrow> int" where
  "strtoll s =
     (let r = dropWhile is_space s;
          (neg, r) = (case r of c # t \<Rightarrow> if c = CHR ''-'' then (True, t)
                                        else if c = CHR ''+'' then (False, t) else (False, r)
                      | [] \<Rightarrow> (False, r));
          m = value_of (takeWhile is_digit r)
      in clamp (- 9223372036854775808) 9223372036854775807 (if neg then - m else m))"

lemma digit_is_digit [simp]: "d < 10 \<Longrightarrow> is_digit (digit d)"
  by (simp add: is_digit_def digit_def)

lemma digit_value_digit [simp]: "d < 10 \<Longrightarrow> digit_value (digit d) = int d"
  by (simp add: digit_value_def digit_def)

lemma digits_all: "list_all is_digit (digits n)"
  by (induction n rule: digits.induct) (subst digits.simps, simp)

lemma digits_nonempty: "digits n \<noteq> []"
  by (subst digits.simps) simp

lemma value_of_snoc: "value_of (s @ [c]) = 10 * value_of s + digit_value c"
  by (simp add: value_of_def)

lemma value_of_digits: "value_of (digits n) = int n"
proof (induction n rule: digits.induct)
  case (1 n)
  show ?case
  proof (cases "n < 10")
    case True
    then show ?thesis by (subst digits.simps) (simp add: value_of_def)
  next
    case False
    have "value_of (digits n) = value_of (digits (n div 10) @ [digit (n mod 10)])"
      using False by (subst digits.simps) simp
    then show ?thesis
      using 1 [OF False] by (simp add: value_of_snoc) presburger
  qed
qed

lemma is_digit_not_space: "is_digit c \<Longrightarrow> \<not> is_space c"
  by (auto simp: is_digit_def is_space_def)

lemma is_digit_not_sign: "is_digit c \<Longrightarrow> c \<noteq> CHR ''-'' \<and> c \<noteq> CHR ''+''"
  by (auto simp: is_digit_def)

text \<open>What \<^verbatim>\<open>std::to_string\<close> prints of a 64-bit number, \<^verbatim>\<open>strtoll\<close> reads back.\<close>

lemma strtoll_to_string:
  assumes "- 9223372036854775808 \<le> x" and "x \<le> 9223372036854775807"
  shows "strtoll (to_string x) = x"
proof -
  have take: "takeWhile is_digit (digits n) = digits n" for n
    using digits_all [of n] by (simp add: list_all_iff takeWhile_eq_all_conv)
  have drop: "dropWhile is_space (digits n) = digits n" for n
    using digits_all [of n] by (cases "digits n") (auto simp: is_digit_not_space)
  obtain c t where d: "digits (nat x) = c # t" "is_digit c"
    using digits_all [of "nat x"] digits_nonempty [of "nat x"] by (cases "digits (nat x)") auto
  show ?thesis
  proof (cases "x < 0")
    case True
    then have "dropWhile is_space (to_string x) = CHR ''-'' # digits (nat (- x))"
      by (simp add: to_string_def is_space_def)
    with True assms show ?thesis
      by (simp add: strtoll_def take value_of_digits clamp_id)
  next
    case False
    with drop [of "nat x"] have "dropWhile is_space (to_string x) = c # t"
      by (simp add: to_string_def d)
    with False assms take [of "nat x"] is_digit_not_sign [OF d(2)] value_of_digits [of "nat x"]
    show ?thesis
      unfolding d(1) by (simp add: strtoll_def clamp_id)
  qed
qed

section \<open>Searching and replacing\<close>

fun starts_with :: "string \<Rightarrow> string \<Rightarrow> bool" where
  "starts_with [] s \<longleftrightarrow> True"
| "starts_with (p # ps) (c # s) \<longleftrightarrow> p = c \<and> starts_with ps s"
| "starts_with (p # ps) [] \<longleftrightarrow> False"

text \<open>\<^verbatim>\<open>s.find(p) != std::string::npos\<close>\<close>

fun contains :: "string \<Rightarrow> string \<Rightarrow> bool" where
  "contains p [] \<longleftrightarrow> p = []"
| "contains p (c # s) \<longleftrightarrow> starts_with p (c # s) \<or> contains p s"

lemma starts_with_iff: "starts_with p s \<longleftrightarrow> (\<exists>r. s = p @ r)"
  by (induction p s rule: starts_with.induct) auto

lemma contains_iff: "contains p s \<longleftrightarrow> (\<exists>a b. s = a @ p @ b)"
proof (induction s)
  case Nil
  then show ?case by simp
next
  case (Cons c s)
  have "(\<exists>a b. c # s = a @ p @ b) \<longleftrightarrow> (\<exists>b. c # s = p @ b) \<or> (\<exists>a b. s = a @ p @ b)"
    by (metis append_Cons append_Nil append_eq_Cons_conv)
  with Cons show ?case by (simp add: starts_with_iff)
qed

text \<open>\<^verbatim>\<open>std::regex_replace(s, pattern, r)\<close>: every occurrence, from left to right.\<close>

function replace_all :: "string \<Rightarrow> string \<Rightarrow> string \<Rightarrow> string" where
  "replace_all p r [] = []"
| "replace_all p r (c # s) =
     (if p \<noteq> [] \<and> starts_with p (c # s) then r @ replace_all p r (drop (length p) (c # s))
      else c # replace_all p r s)"
  by pat_completeness auto
termination
  by (relation "measure (\<lambda>(p, r, s). length s)") (auto simp: neq_Nil_conv)

lemma replace_all_id: "p \<noteq> [] \<Longrightarrow> \<not> contains p s \<Longrightarrow> replace_all p r s = s"
  by (induction s) auto

end
