(* ===== verification/PriorityManager.thy ===== *)
theory PriorityManager
  imports VibratorInfos Json CStrings
begin

text \<open>
  Who may vibrate: \<^verbatim>\<open>services/miscdevice_service/src/vibration_priority_manager.cpp\<close>. The state
  is the class's members (and the file's \<^verbatim>\<open>g_currentUserId\<close>); the settings service (DataShare), the
  account service, the access tokens and cJSON are other repositories and are a parameter, the
  record \<open>settings_env\<close>, together with the build options of \<^verbatim>\<open>miscdevice.gni\<close>. The calls made to a
  DataShare helper that change something there are recorded in \<open>pm_calls\<close>.
\<close>

section \<open>State and environment\<close>

datatype VibrateStatus =
    VIBRATION | IGNORE_BACKGROUND | IGNORE_LOW_POWER | IGNORE_GLOBAL_SETTINGS | IGNORE_RINGTONE
  | IGNORE_REPEAT | IGNORE_ALARM | IGNORE_UNKNOWN | IGNORE_RINGER_MODE | IGNORE_FEEDBACK
  | IGNORE_RINGER_VIBRATE_WHEN_RING | IGNORE_VIBRATOR_MUTE

abbreviation (input) RINGER_MODE_INVALID :: int where "RINGER_MODE_INVALID \<equiv> -1"
abbreviation (input) RINGER_MODE_SILENT :: int where "RINGER_MODE_SILENT \<equiv> 0"
abbreviation (input) RINGER_MODE_NORMAL :: int where "RINGER_MODE_NORMAL \<equiv> 2"
abbreviation (input) FEEDBACK_MODE_INVALID :: int where "FEEDBACK_MODE_INVALID \<equiv> -1"
abbreviation (input) FEEDBACK_MODE_OFF :: int where "FEEDBACK_MODE_OFF \<equiv> 0"
abbreviation (input) FEEDBACK_MODE_ON :: int where "FEEDBACK_MODE_ON \<equiv> 1"
abbreviation (input) VIBRATE_WHEN_RING_MODE_INVALID :: int where "VIBRATE_WHEN_RING_MODE_INVALID \<equiv> -1"
abbreviation (input) VIBRATE_WHEN_RING_MODE_OFF :: int where "VIBRATE_WHEN_RING_MODE_OFF \<equiv> 0"
abbreviation (input) VIBRATE_WHEN_RING_MODE_ON :: int where "VIBRATE_WHEN_RING_MODE_ON \<equiv> 1"
abbreviation (input) FEEDBACK_INTENSITY_INVALID :: int where "FEEDBACK_INTENSITY_INVALID \<equiv> -1"
abbreviation (input) FEEDBACK_INTENSITY_STRONGE :: int where "FEEDBACK_INTENSITY_STRONGE \<equiv> 0"
abbreviation (input) FEEDBACK_INTENSITY_NONE :: int where "FEEDBACK_INTENSITY_NONE \<equiv> 2"
abbreviation (input) DONOTDISTURB_SWITCH_INVALID :: int where "DONOTDISTURB_SWITCH_INVALID \<equiv> -1"
abbreviation (input) DONOTDISTURB_SWITCH_OFF :: int where "DONOTDISTURB_SWITCH_OFF \<equiv> 0"
abbreviation (input) DONOTDISTURB_SWITCH_ON :: int where "DONOTDISTURB_SWITCH_ON \<equiv> 1"

abbreviation (input) SETTING_FEEDBACK_KEY :: string where "SETTING_FEEDBACK_KEY \<equiv> ''physic_navi_haptic_feedback_enabled''"
abbreviation (input) SETTING_RINGER_MODE_KEY :: string where "SETTING_RINGER_MODE_KEY \<equiv> ''ringer_mode''"
abbreviation (input) SETTING_URI_PROXY :: string where
  "SETTING_URI_PROXY \<equiv> ''datashare:///com.ohos.settingsdata/entry/settingsdata/SETTINGSDATA?Proxy=true''"
abbreviation (input) SETTING_USER_URI_PROXY :: string where
  "SETTING_USER_URI_PROXY \<equiv> ''datashare:///com.ohos.settingsdata/entry/settingsdata/USER_SETTINGSDATA_''"
abbreviation (input) USER_SETTING_SECURE_URI_PROXY :: string where
  "USER_SETTING_SECURE_URI_PROXY \<equiv>
     ''datashare:///com.ohos.settingsdata/entry/settingsdata/USER_SETTINGSDATA_SECURE_##USERID##?Proxy=true''"
abbreviation (input) DO_NOT_DISTURB_SWITCH :: string where "DO_NOT_DISTURB_SWITCH \<equiv> ''focus_mode_enable''"
abbreviation (input) DO_NOT_DISTURB_WHITE_LIST :: string where
  "DO_NOT_DISTURB_WHITE_LIST \<equiv> ''intelligent_scene_notification_white_list''"
abbreviation (input) VIBRATE_WHEN_RINGING_KEY :: string where "VIBRATE_WHEN_RINGING_KEY \<equiv> ''hw_vibrate_when_ringing''"
abbreviation (input) USER_SETTINGS_ENABLE_IME :: string where "USER_SETTINGS_ENABLE_IME \<equiv> ''settings.inputmethod.enable_ime''"
abbreviation (input) SETTING_CROWN_FEEDBACK_KEY :: string where "SETTING_CROWN_FEEDBACK_KEY \<equiv> ''watch_crown_feedback_enabled''"
abbreviation (input) SETTING_VIBRATE_INTENSITY_KEY :: string where "SETTING_VIBRATE_INTENSITY_KEY \<equiv> ''vibration_intensity_index''"
abbreviation (input) SCENEBOARD_BUNDLENAME :: string where "SCENEBOARD_BUNDLENAME \<equiv> ''com.ohos.sceneboard''"

record WhiteListAppInfo =
  wl_bundle :: string
  wl_uid :: int

text \<open>The three observers of the current user's settings, and the one of the global settings.\<close>

datatype observer = GlobalObserver | UserObserver | User100Observer | UserImfObserver

datatype ds_call = RegisterCall string observer | UnregisterCall string observer | NotifyCall string | ExecCb observer

record priority_state =
  pm_remoteObj :: bool
  pm_feedback :: int
  pm_ringerMode :: int
  pm_vibrateWhenRing :: int
  pm_dndSwitch :: int
  pm_whiteList :: "WhiteListAppInfo list"
  pm_imeNames :: "string list"
  pm_imeInitialized :: bool
  pm_crownFeedback :: int
  pm_intensity :: int
  pm_mute :: bool
  pm_userId :: int
  pm_userObserver :: bool
  pm_user100Observer :: bool
  pm_userImfObserver :: bool
  pm_calls :: "ds_call list"

text \<open>
  \<open>ds_Creator\<close> says whether a helper can be created for a URI; \<open>ds_Query\<close> gives the result set of a
  query, \<open>None\<close> the null pointer, otherwise the number of rows and what \<^verbatim>\<open>GetString\<close> returns.
\<close>

record 'j settings_env =
  INPUT_METHOD :: bool
  CROWN :: bool
  DO_NOT_DISTURB :: bool
  ds_Creator :: "string \<Rightarrow> bool"
  ds_Query :: "string \<Rightarrow> string \<Rightarrow> (int \<times> errcode \<times> string) option"
  activeUserIds :: "int \<times> int list"
  token_native :: bool
  system_app :: bool
  env_json :: "'j cjson"

definition initial_priority :: priority_state where
  "initial_priority = \<lparr>pm_remoteObj = False, pm_feedback = -1, pm_ringerMode = -1, pm_vibrateWhenRing = -1,
     pm_dndSwitch = -1, pm_whiteList = [], pm_imeNames = [], pm_imeInitialized = False, pm_crownFeedback = -1,
     pm_intensity = -1, pm_mute = False, pm_userId = 100, pm_userObserver = False, pm_user100Observer = False,
     pm_userImfObserver = False, pm_calls = []\<rparr>"

section \<open>Reading settings\<close>

definition ReplaceUserIdForUri :: "string \<Rightarrow> int \<Rightarrow> string" where
  "ReplaceUserIdForUri uri userId =
     (let result = replace_all ''##USERID##'' (to_string userId) uri
      in if length result > 2048 then uri else result)"

definition DoNotDisturbAssembleUri :: "priority_state \<Rightarrow> string \<Rightarrow> string" where
  "DoNotDisturbAssembleUri s key =
     ReplaceUserIdForUri USER_SETTING_SECURE_URI_PROXY (pm_userId s) @ ''&key='' @ key"

definition AssembleUri :: "priority_state \<Rightarrow> string \<Rightarrow> string \<Rightarrow> string \<Rightarrow> string" where
  "AssembleUri s uriProxy key tableType =
     (if pm_userId s > 0 \<and> tableType = ''system''
      then uriProxy @ to_string (pm_userId s) @ ''?Proxy=true''
      else uriProxy) @ ''&key='' @ key"

definition CreateDataShareHelper :: "'j settings_env \<Rightarrow> priority_state \<Rightarrow> string \<Rightarrow> string \<Rightarrow> bool" where
  "CreateDataShareHelper E s tableUrl tableType =
     (if \<not> pm_remoteObj s then False
      else if pm_userId s > 0 \<and> tableType = ''system''
           then ds_Creator E (tableUrl @ to_string (pm_userId s) @ ''?Proxy=true'')
      else ds_Creator E tableUrl)"

text \<open>The part that both string readers share: query the URI and take the first row.\<close>

definition query_string :: "'j settings_env \<Rightarrow> string \<Rightarrow> string \<Rightarrow> errcode + string" where
  "query_string E uri key =
     (case ds_Query E uri key of
        None \<Rightarrow> Inl MISC_INVALID_OPERATION_ERR
      | Some (count, ret, val) \<Rightarrow>
          if count = 0 then Inl MISC_NAME_NOT_FOUND_ERR
          else if ret \<noteq> ERR_OK then Inl ERROR
          else Inr val)"

definition PM_GetStringValue :: "'j settings_env \<Rightarrow> priority_state \<Rightarrow> string \<Rightarrow> string \<Rightarrow> string \<Rightarrow> errcode + string" where
  "PM_GetStringValue E s uriProxy key tableType =
     (if \<not> CreateDataShareHelper E s uriProxy tableType then Inl MISC_NO_INIT_ERR
      else query_string E (AssembleUri s uriProxy key tableType) key)"

definition PM_GetLongValue :: "'j settings_env \<Rightarrow> priority_state \<Rightarrow> string \<Rightarrow> string \<Rightarrow> string \<Rightarrow> errcode + int" where
  "PM_GetLongValue E s uri key tableType =
     (case PM_GetStringValue E s uri key tableType of Inl ret \<Rightarrow> Inl ret | Inr v \<Rightarrow> Inr (strtoll v))"

definition PM_GetIntValue :: "'j settings_env \<Rightarrow> priority_state \<Rightarrow> string \<Rightarrow> string \<Rightarrow> string \<Rightarrow> errcode + int" where
  "PM_GetIntValue E s uri key tableType =
     (case PM_GetLongValue E s uri key tableType of Inl ret \<Rightarrow> Inl ret | Inr v \<Rightarrow> Inr (wrap32 v))"

definition GetDoNotDisturbStringValue :: "'j settings_env \<Rightarrow> priority_state \<Rightarrow> string \<Rightarrow> errcode + string" where
  "GetDoNotDisturbStringValue E s key =
     (if \<not> CreateDataShareHelper E s
            (ReplaceUserIdForUri USER_SETTING_SECURE_URI_PROXY (pm_userId s)) ''normal''
      then Inl MISC_NO_INIT_ERR
      else query_string E (DoNotDisturbAssembleUri s key) key)"

definition GetDoNotDisturbLongValue :: "'j settings_env \<Rightarrow> priority_state \<Rightarrow> string \<Rightarrow> errcode + int" where
  "GetDoNotDisturbLongValue E s key =
     (case GetDoNotDisturbStringValue E s key of Inl ret \<Rightarrow> Inl ret | Inr v \<Rightarrow> Inr (strtoll v))"

definition GetDoNotDisturbIntValue :: "'j settings_env \<Rightarrow> priority_state \<Rightarrow> string \<Rightarrow> errcode + int" where
  "GetDoNotDisturbIntValue E s key =
     (case GetDoNotDisturbLongValue E s key of Inl ret \<Rightarrow> Inl ret | Inr v \<Rightarrow> Inr (wrap32 v))"

definition white_list_item :: "'j cjson \<Rightarrow> 'j \<Rightarrow> int \<Rightarrow> WhiteListAppInfo list \<Rightarrow> WhiteListAppInfo list option" where
  "white_list_item J a i value =
     (case cJSON_GetArrayItem J a i of
        None \<Rightarrow> None
      | Some v \<Rightarrow>
          if \<not> cJSON_IsObject J v then None
          else if \<not> cJSON_HasObjectItem J v ''bundle'' \<or> \<not> cJSON_HasObjectItem J v ''uid'' then None
          else (case (cJSON_GetObjectItem J v ''bundle'', cJSON_GetObjectItem J v ''uid'') of
                  (Some b, Some u) \<Rightarrow>
                    if \<not> cJSON_IsString J b \<or> \<not> cJSON_IsNumber J u then None
                    else Some (value @ [\<lparr>wl_bundle = valuestring J b, wl_uid = valueint J u\<rparr>])
                | _ \<Rightarrow> None))"

definition GetWhiteListValue :: "'j settings_env \<Rightarrow> priority_state \<Rightarrow> string \<Rightarrow> errcode + WhiteListAppInfo list" where
  "GetWhiteListValue E s key =
     (case GetDoNotDisturbStringValue E s key of
        Inl ret \<Rightarrow> Inl ret
      | Inr v \<Rightarrow>
          if v = [] then Inl ERROR
          else (case cJSON_Parse (env_json E) v of
                  None \<Rightarrow> Inl ERROR
                | Some a \<Rightarrow>
                    if \<not> cJSON_IsArray (env_json E) a then Inl ERROR
                    else (case try_fold (white_list_item (env_json E) a)
                                 (indices (cJSON_GetArraySize (env_json E) a)) [] of
                            None \<Rightarrow> Inl ERROR
                          | Some value \<Rightarrow> Inr value)))"

section \<open>Keeping the settings up to date\<close>

definition InitDoNotDisturbData :: "'j settings_env \<Rightarrow> priority_state \<Rightarrow> priority_state" where
  "InitDoNotDisturbData E s =
     (let s = (case GetDoNotDisturbIntValue E s DO_NOT_DISTURB_SWITCH of
                 Inl _ \<Rightarrow> s\<lparr>pm_dndSwitch := DONOTDISTURB_SWITCH_OFF\<rparr>
               | Inr v \<Rightarrow> s\<lparr>pm_dndSwitch := v\<rparr>)
      in if pm_dndSwitch s = DONOTDISTURB_SWITCH_ON then
           (case GetWhiteListValue E s DO_NOT_DISTURB_WHITE_LIST of
              Inl _ \<Rightarrow> s\<lparr>pm_dndSwitch := DONOTDISTURB_SWITCH_OFF\<rparr>
            | Inr wl \<Rightarrow>
                if length wl = 0 then s\<lparr>pm_whiteList := []\<rparr>
                else if length wl > 100 then s\<lparr>pm_whiteList := take 100 wl\<rparr>
                else s\<lparr>pm_whiteList := wl\<rparr>)
         else if pm_dndSwitch s = DONOTDISTURB_SWITCH_OFF then s\<lparr>pm_whiteList := []\<rparr>
         else s)"

definition InitVibrateWhenRing :: "'j settings_env \<Rightarrow> priority_state \<Rightarrow> priority_state" where
  "InitVibrateWhenRing E s =
     (case PM_GetIntValue E s SETTING_USER_URI_PROXY VIBRATE_WHEN_RINGING_KEY ''system'' of
        Inl _ \<Rightarrow> s\<lparr>pm_vibrateWhenRing := VIBRATE_WHEN_RING_MODE_ON\<rparr>
      | Inr v \<Rightarrow> s\<lparr>pm_vibrateWhenRing := v\<rparr>)"

text \<open>
  The loop of \<^verbatim>\<open>InitInputMethodData\<close>: a malformed entry ends it with the names read so far and
  without marking the list as initialised.
\<close>

fun ime_loop :: "'j cjson \<Rightarrow> 'j \<Rightarrow> int list \<Rightarrow> string list \<Rightarrow> string list \<times> bool" where
  "ime_loop J a [] names = (names, True)"
| "ime_loop J a (i # is) names =
     (case cJSON_GetArrayItem J a i of
        None \<Rightarrow> (names, False)
      | Some v \<Rightarrow>
          (case cJSON_GetObjectItem J v ''bundleName'' of
             None \<Rightarrow> (names, False)
           | Some b \<Rightarrow>
               if \<not> cJSON_IsString J b then (names, False)
               else ime_loop J a is (names @ [valuestring J b])))"

definition InitInputMethodData :: "'j settings_env \<Rightarrow> priority_state \<Rightarrow> priority_state" where
  "InitInputMethodData E s =
     (case PM_GetStringValue E s SETTING_USER_URI_PROXY USER_SETTINGS_ENABLE_IME ''system'' of
        Inl _ \<Rightarrow> s
      | Inr v \<Rightarrow>
          if v = [] then s
          else (case cJSON_Parse (env_json E) v of
                  None \<Rightarrow> s
                | Some j \<Rightarrow>
                    (case cJSON_GetObjectItem (env_json E) j ''inputmethods'' of
                       None \<Rightarrow> s
                     | Some a \<Rightarrow>
                         if \<not> cJSON_IsArray (env_json E) a then s
                         else let (names, done) = ime_loop (env_json E) a (indices (cJSON_GetArraySize (env_json E) a)) []
                              in s\<lparr>pm_imeNames := names, pm_imeInitialized := pm_imeInitialized s \<or> done\<rparr>)))"

definition UpdateInputMethodBundleNames :: "'j settings_env \<Rightarrow> priority_state \<Rightarrow> priority_state" where
  "UpdateInputMethodBundleNames E s = (if pm_imeInitialized s then s else InitInputMethodData E s)"

definition MiscCrownIntensityFeedbackInit :: "'j settings_env \<Rightarrow> priority_state \<Rightarrow> priority_state" where
  "MiscCrownIntensityFeedbackInit E s =
     (let s = (case PM_GetIntValue E s SETTING_URI_PROXY SETTING_CROWN_FEEDBACK_KEY ''normal'' of
                 Inl _ \<Rightarrow> s | Inr v \<Rightarrow> s\<lparr>pm_crownFeedback := v\<rparr>)
      in case PM_GetIntValue E s SETTING_URI_PROXY SETTING_VIBRATE_INTENSITY_KEY ''normal'' of
           Inl _ \<Rightarrow> s\<lparr>pm_intensity := FEEDBACK_INTENSITY_STRONGE\<rparr>
         | Inr v \<Rightarrow> s\<lparr>pm_intensity := v\<rparr>)"

text \<open>The function that \<^verbatim>\<open>Init\<close> gives to the global observer; a failed read keeps the old value.\<close>

definition global_update :: "'j settings_env \<Rightarrow> priority_state \<Rightarrow> priority_state" where
  "global_update E s =
     (let s = (case PM_GetIntValue E s SETTING_URI_PROXY SETTING_FEEDBACK_KEY ''normal'' of
                 Inl _ \<Rightarrow> s | Inr v \<Rightarrow> s\<lparr>pm_feedback := v\<rparr>);
          s = (case PM_GetIntValue E s SETTING_URI_PROXY SETTING_RINGER_MODE_KEY ''normal'' of
                 Inl _ \<Rightarrow> s | Inr v \<Rightarrow> s\<lparr>pm_ringerMode := v\<rparr>)
      in if CROWN E then MiscCrownIntensityFeedbackInit E s else s)"

text \<open>\<^verbatim>\<open>MiscDeviceObserver::OnChange\<close> runs the update function of its observer.\<close>

definition OnChange :: "'j settings_env \<Rightarrow> observer \<Rightarrow> priority_state \<Rightarrow> priority_state" where
  "OnChange E ob s =
     (case ob of
        GlobalObserver \<Rightarrow> global_update E s
      | UserObserver \<Rightarrow> InitDoNotDisturbData E s
      | User100Observer \<Rightarrow> InitVibrateWhenRing E s
      | UserImfObserver \<Rightarrow> InitInputMethodData E s)"

text \<open>The blocks of \<^verbatim>\<open>UpdateStatus\<close>: a status that is still invalid is read, with a default.\<close>

definition update_feedback :: "'j settings_env \<Rightarrow> priority_state \<Rightarrow> priority_state" where
  "update_feedback E s =
     (if pm_feedback s = FEEDBACK_MODE_INVALID then
        (case PM_GetIntValue E s SETTING_URI_PROXY SETTING_FEEDBACK_KEY ''normal'' of
           Inl _ \<Rightarrow> s\<lparr>pm_feedback := FEEDBACK_MODE_ON\<rparr> | Inr v \<Rightarrow> s\<lparr>pm_feedback := v\<rparr>)
      else s)"

definition update_ringerMode :: "'j settings_env \<Rightarrow> priority_state \<Rightarrow> priority_state" where
  "update_ringerMode E s =
     (if pm_ringerMode s = RINGER_MODE_INVALID then
        (case PM_GetIntValue E s SETTING_URI_PROXY SETTING_RINGER_MODE_KEY ''normal'' of
           Inl _ \<Rightarrow> s\<lparr>pm_ringerMode := RINGER_MODE_NORMAL\<rparr> | Inr v \<Rightarrow> s\<lparr>pm_ringerMode := v\<rparr>)
      else s)"

definition update_dnd :: "'j settings_env \<Rightarrow> priority_state \<Rightarrow> priority_state" where
  "update_dnd E s = (if pm_dndSwitch s = DONOTDISTURB_SWITCH_INVALID then InitDoNotDisturbData E s else s)"

definition update_whenRing :: "'j settings_env \<Rightarrow> priority_state \<Rightarrow> priority_state" where
  "update_whenRing E s =
     (if pm_vibrateWhenRing s = VIBRATE_WHEN_RING_MODE_INVALID then InitVibrateWhenRing E s else s)"

definition update_crownFeedback :: "'j settings_env \<Rightarrow> priority_state \<Rightarrow> priority_state" where
  "update_crownFeedback E s =
     (if pm_crownFeedback s = FEEDBACK_MODE_INVALID then
        (case PM_GetIntValue E s SETTING_URI_PROXY SETTING_CROWN_FEEDBACK_KEY ''normal'' of
           Inl _ \<Rightarrow> s\<lparr>pm_crownFeedback := FEEDBACK_MODE_ON\<rparr> | Inr v \<Rightarrow> s\<lparr>pm_crownFeedback := v\<rparr>)
      else s)"

definition update_intensity :: "'j settings_env \<Rightarrow> priority_state \<Rightarrow> priority_state" where
  "update_intensity E s =
     (if pm_intensity s = FEEDBACK_INTENSITY_INVALID then
        (case PM_GetIntValue E s SETTING_URI_PROXY SETTING_VIBRATE_INTENSITY_KEY ''normal'' of
           Inl _ \<Rightarrow> s\<lparr>pm_intensity := FEEDBACK_INTENSITY_STRONGE\<rparr> | Inr v \<Rightarrow> s\<lparr>pm_intensity := v\<rparr>)
      else s)"

definition UpdateStatus :: "'j settings_env \<Rightarrow> priority_state \<Rightarrow> priority_state" where
  "UpdateStatus E s =
     (let s = update_feedback E s;
          s = update_ringerMode E s;
          s = update_dnd E s;
          s = (if INPUT_METHOD E then UpdateInputMethodBundleNames E (update_whenRing E s) else s)
      in if CROWN E then update_intensity E (update_crownFeedback E s) else s)"

lemmas update_defs = update_feedback_def update_ringerMode_def update_dnd_def update_whenRing_def
  update_crownFeedback_def update_intensity_def

section \<open>Observers\<close>

definition ds_do :: "ds_call list \<Rightarrow> priority_state \<Rightarrow> priority_state" where
  "ds_do cs s = s\<lparr>pm_calls := pm_calls s @ cs\<rparr>"

definition RegisterObserver :: "'j settings_env \<Rightarrow> priority_state \<Rightarrow> errcode \<times> priority_state" where
  "RegisterObserver E s =
     (if \<not> CreateDataShareHelper E s SETTING_URI_PROXY ''normal'' then (MISC_NO_INIT_ERR, s)
      else let reg = (\<lambda>key. let u = AssembleUri s SETTING_URI_PROXY key ''normal''
                            in [RegisterCall u GlobalObserver, NotifyCall u])
        in (ERR_OK, ds_do
              (reg SETTING_FEEDBACK_KEY
               @ (if CROWN E then reg SETTING_CROWN_FEEDBACK_KEY @ reg SETTING_VIBRATE_INTENSITY_KEY else [])
               @ reg SETTING_RINGER_MODE_KEY @ [ExecCb GlobalObserver]) s))"

text \<open>\<open>ob\<close> is whether the observer handed over is not the null pointer.\<close>

definition UnregisterObserver :: "'j settings_env \<Rightarrow> bool \<Rightarrow> priority_state \<Rightarrow> errcode \<times> priority_state" where
  "UnregisterObserver E ob s =
     (if \<not> ob then (MISC_NO_INIT_ERR, s)
      else if \<not> CreateDataShareHelper E s SETTING_URI_PROXY ''normal'' then (MISC_NO_INIT_ERR, s)
      else let unreg = (\<lambda>key. [UnregisterCall (AssembleUri s SETTING_URI_PROXY key ''normal'') GlobalObserver])
        in (ERR_OK, ds_do
              (unreg SETTING_FEEDBACK_KEY
               @ (if CROWN E then unreg SETTING_CROWN_FEEDBACK_KEY @ unreg SETTING_VIBRATE_INTENSITY_KEY else [])
               @ unreg SETTING_RINGER_MODE_KEY) s))"

definition RegisterUserObserver :: "'j settings_env \<Rightarrow> priority_state \<Rightarrow> errcode \<times> priority_state" where
  "RegisterUserObserver E s =
     (let s = s\<lparr>pm_userObserver := True\<rparr> in
      if \<not> CreateDataShareHelper E s (ReplaceUserIdForUri USER_SETTING_SECURE_URI_PROXY (pm_userId s)) ''normal''
      then (MISC_NO_INIT_ERR, s)
      else let sw = DoNotDisturbAssembleUri s DO_NOT_DISTURB_SWITCH;
               wl = DoNotDisturbAssembleUri s DO_NOT_DISTURB_WHITE_LIST
        in (ERR_OK, ds_do [RegisterCall sw UserObserver, NotifyCall sw, RegisterCall wl UserObserver, NotifyCall wl,
                           ExecCb UserObserver] s))"

definition UnregisterUserObserver :: "'j settings_env \<Rightarrow> priority_state \<Rightarrow> errcode \<times> priority_state" where
  "UnregisterUserObserver E s =
     (if \<not> pm_userObserver s then (MISC_NO_INIT_ERR, s)
      else if \<not> CreateDataShareHelper E s (ReplaceUserIdForUri USER_SETTING_SECURE_URI_PROXY (pm_userId s)) ''normal''
      then (MISC_NO_INIT_ERR, s\<lparr>pm_userObserver := False\<rparr>)
      else (ERR_OK, ds_do [UnregisterCall (DoNotDisturbAssembleUri s DO_NOT_DISTURB_SWITCH) UserObserver,
                           UnregisterCall (DoNotDisturbAssembleUri s DO_NOT_DISTURB_WHITE_LIST) UserObserver]
                     (s\<lparr>pm_userObserver := False\<rparr>)))"

definition RegisterUser100Observer :: "'j settings_env \<Rightarrow> priority_state \<Rightarrow> errcode \<times> priority_state" where
  "RegisterUser100Observer E s =
     (let s = s\<lparr>pm_user100Observer := True\<rparr> in
      if \<not> CreateDataShareHelper E s SETTING_USER_URI_PROXY ''system'' then (MISC_NO_INIT_ERR, s)
      else let u = AssembleUri s SETTING_USER_URI_PROXY VIBRATE_WHEN_RINGING_KEY ''system''
        in (ERR_OK, ds_do [RegisterCall u User100Observer, NotifyCall u, ExecCb User100Observer] s))"

definition UnregisterUser100Observer :: "'j settings_env \<Rightarrow> priority_state \<Rightarrow> errcode \<times> priority_state" where
  "UnregisterUser100Observer E s =
     (if \<not> pm_user100Observer s then (MISC_NO_INIT_ERR, s)
      else if \<not> CreateDataShareHelper E s SETTING_USER_URI_PROXY ''system''
      then (MISC_NO_INIT_ERR, s\<lparr>pm_user100Observer := False\<rparr>)
      else (ERR_OK, ds_do [UnregisterCall (AssembleUri s SETTING_USER_URI_PROXY VIBRATE_WHEN_RINGING_KEY ''system'')
                             User100Observer] (s\<lparr>pm_user100Observer := False\<rparr>)))"

definition RegisterUserImfObserver :: "'j settings_env \<Rightarrow> priority_state \<Rightarrow> errcode \<times> priority_state" where
  "RegisterUserImfObserver E s =
     (let s = s\<lparr>pm_userImfObserver := True\<rparr> in
      if \<not> CreateDataShareHelper E s SETTING_USER_URI_PROXY ''system'' then (MISC_NO_INIT_ERR, s)
      else let u = AssembleUri s SETTING_USER_URI_PROXY USER_SETTINGS_ENABLE_IME ''system''
        in (ERR_OK, ds_do [RegisterCall u UserImfObserver, NotifyCall u, ExecCb UserImfObserver] s))"

definition UnregisterUserImfObserver :: "'j settings_env \<Rightarrow> priority_state \<Rightarrow> errcode \<times> priority_state" where
  "UnregisterUserImfObserver E s =
     (if \<not> pm_userImfObserver s then (MISC_NO_INIT_ERR, s)
      else if \<not> CreateDataShareHelper E s SETTING_USER_URI_PROXY ''system''
      then (MISC_NO_INIT_ERR, s\<lparr>pm_userImfObserver := False\<rparr>)
      else (ERR_OK, ds_do [UnregisterCall (AssembleUri s SETTING_USER_URI_PROXY USER_SETTINGS_ENABLE_IME ''system'')
                             UserImfObserver] (s\<lparr>pm_userImfObserver := False\<rparr>)))"

definition UpdateCurrentUserId :: "'j settings_env \<Rightarrow> priority_state \<Rightarrow> priority_state" where
  "UpdateCurrentUserId E s =
     (let (ret, ids) = activeUserIds E in
      if ret \<noteq> 0 then s else if ids = [] then s else s\<lparr>pm_userId := hd ids\<rparr>)"

definition ReregisterCurrentUserObserver :: "'j settings_env \<Rightarrow> priority_state \<Rightarrow> priority_state" where
  "ReregisterCurrentUserObserver E s =
     (let s = (if DO_NOT_DISTURB E then snd (UnregisterUserObserver E s) else s);
          s = (if INPUT_METHOD E then
                 let s = snd (UnregisterUser100Observer E s);
                     s = snd (UnregisterUserImfObserver E s);
                     s = UpdateCurrentUserId E s;
                     s = snd (RegisterUserImfObserver E s)
                 in snd (RegisterUser100Observer E s)
               else s)
      in if DO_NOT_DISTURB E then snd (RegisterUserObserver E s) else s)"

text \<open>
  \<^verbatim>\<open>Init\<close>; the parameters say whether the system ability manager and the remote object are there. The
  observer it creates is a local variable that hides the member \<^verbatim>\<open>observer_\<close>, so that the member
  stays null.
\<close>

definition Init :: "'j settings_env \<Rightarrow> bool \<Rightarrow> bool \<Rightarrow> priority_state \<Rightarrow> bool \<times> priority_state" where
  "Init E sm remote s =
     (if \<not> sm then (False, s)
      else let s = s\<lparr>pm_remoteObj := remote\<rparr> in
        if \<not> remote then (False, s)
        else case RegisterObserver E s of
               (ret, s) \<Rightarrow> if ret \<noteq> ERR_OK then (False, s) else (True, ReregisterCurrentUserObserver E s))"

definition SetIgnoreSwitchStatus :: "bool \<Rightarrow> priority_state \<Rightarrow> priority_state" where
  "SetIgnoreSwitchStatus status s = s\<lparr>pm_mute := status\<rparr>"

text \<open>The destructor: \<open>remoteObj_\<close> is cleared first, and the member \<^verbatim>\<open>observer_\<close> is null.\<close>

definition destroy :: "'j settings_env \<Rightarrow> priority_state \<Rightarrow> priority_state" where
  "destroy E s =
     (let s = s\<lparr>pm_remoteObj := False\<rparr>;
          s = snd (UnregisterObserver E False s);
          s = snd (UnregisterUserObserver E s);
          s = (if INPUT_METHOD E then snd (UnregisterUser100Observer E s) else s)
      in snd (UnregisterUserImfObserver E s))"

section \<open>The decision\<close>

definition IgnoreAppVibrations :: "priority_state \<Rightarrow> VibrateInfo \<Rightarrow> bool" where
  "IgnoreAppVibrations s info =
     (if vi_usage info \<noteq> USAGE_NOTIFICATION \<and> vi_usage info \<noteq> USAGE_RING then False
      else if pm_dndSwitch s \<noteq> DONOTDISTURB_SWITCH_ON then False
      else if list_ex (\<lambda>w. vi_packageName info = wl_bundle w \<and> vi_uid info = wl_uid w) (pm_whiteList s) then False
      else True)"

definition ShouldIgnoreByIntensity :: "priority_state \<Rightarrow> VibrateInfo \<Rightarrow> bool" where
  "ShouldIgnoreByIntensity s info =
     (if contains ''crown'' (vi_effect info) then pm_crownFeedback s = FEEDBACK_MODE_OFF
      else if pm_intensity s = FEEDBACK_INTENSITY_NONE then
        \<not> (contains ''short'' (vi_effect info) \<or> contains ''feedback'' (vi_effect info))
      else False)"

definition ShouldIgnoreInputMethod :: "priority_state \<Rightarrow> VibrateInfo \<Rightarrow> bool" where
  "ShouldIgnoreInputMethod s info =
     (if vi_packageName info = SCENEBOARD_BUNDLENAME then False
      else vi_packageName info \<in> set (pm_imeNames s))"

definition IsSystemServiceCalling :: "'j settings_env \<Rightarrow> bool" where
  "IsSystemServiceCalling E = token_native E"

definition IsSystemCalling :: "'j settings_env \<Rightarrow> bool" where
  "IsSystemCalling E = (if IsSystemServiceCalling E then True else system_app E)"

definition IsLoopVibrate :: "VibrateInfo \<Rightarrow> bool" where
  "IsLoopVibrate info \<longleftrightarrow> vi_mode info = VIBRATE_PRESET \<and> vi_count info > 1"

text \<open>
  The vibration a device is playing: \<open>None\<close> when it has no thread, otherwise whether the thread is
  running and the request it plays; \<open>hdi_running\<close> is the answer of \<^verbatim>\<open>IsVibratorRunning\<close>.
\<close>

type_synonym thread_view = "(bool \<times> VibrateInfo) option"

definition IsCurrentVibrate :: "thread_view \<Rightarrow> bool \<Rightarrow> bool" where
  "IsCurrentVibrate th hdi_running = (case th of None \<Rightarrow> False | Some (running, _) \<Rightarrow> running \<or> hdi_running)"

definition ShouldIgnoreCurrent :: "VibrateInfo \<Rightarrow> VibrateInfo \<Rightarrow> VibrateStatus" where
  "ShouldIgnoreCurrent info current =
     (if vi_usage current = USAGE_ALARM then IGNORE_ALARM
      else if IsLoopVibrate current then IGNORE_REPEAT
      else if vi_usage current \<noteq> vi_usage info \<and> vi_usage info = USAGE_UNKNOWN then IGNORE_UNKNOWN
      else VIBRATION)"

definition ringer_usage :: "VibrateInfo \<Rightarrow> bool" where
  "ringer_usage info \<longleftrightarrow> vi_usage info = USAGE_ALARM \<or> vi_usage info = USAGE_RING
     \<or> vi_usage info = USAGE_NOTIFICATION \<or> vi_usage info = USAGE_COMMUNICATION"

definition feedback_usage :: "VibrateInfo \<Rightarrow> bool" where
  "feedback_usage info \<longleftrightarrow> vi_usage info = USAGE_TOUCH \<or> vi_usage info = USAGE_MEDIA \<or> vi_usage info = USAGE_UNKNOWN
     \<or> vi_usage info = USAGE_PHYSICAL_FEEDBACK \<or> vi_usage info = USAGE_SIMULATE_REALITY"

text \<open>The user's settings, which a system caller with the system usage flag skips.\<close>

definition settings_verdict :: "'j settings_env \<Rightarrow> priority_state \<Rightarrow> VibrateInfo \<Rightarrow> VibrateStatus option" where
  "settings_verdict E s info =
     (if \<not> IsSystemCalling E \<or> vi_systemUsage info = False then
        if IgnoreAppVibrations s info then Some IGNORE_GLOBAL_SETTINGS
        else if ringer_usage info \<and> pm_ringerMode s = RINGER_MODE_SILENT then Some IGNORE_RINGER_MODE
        else if INPUT_METHOD E \<and> (vi_usage info = USAGE_RING \<or> vi_usage info = USAGE_COMMUNICATION)
             \<and> pm_ringerMode s = RINGER_MODE_NORMAL \<and> pm_vibrateWhenRing s = VIBRATE_WHEN_RING_MODE_OFF
             then Some IGNORE_RINGER_VIBRATE_WHEN_RING
        else if (feedback_usage info \<and> pm_feedback s = FEEDBACK_MODE_OFF)
             \<and> (INPUT_METHOD E \<longrightarrow> \<not> ShouldIgnoreInputMethod s info) then Some IGNORE_FEEDBACK
        else None
      else None)"

definition ShouldIgnoreVibrate ::
    "'j settings_env \<Rightarrow> VibrateInfo \<Rightarrow> thread_view \<Rightarrow> bool \<Rightarrow> priority_state \<Rightarrow> VibrateStatus \<times> priority_state" where
  "ShouldIgnoreVibrate E info th hdi_running s =
     (let s = UpdateStatus E s in
      (if ringer_usage info \<and> pm_mute s then IGNORE_VIBRATOR_MUTE
       else case settings_verdict E s info of
         Some v \<Rightarrow> v
       | None \<Rightarrow>
           if CROWN E \<and> ShouldIgnoreByIntensity s info then IGNORE_FEEDBACK
           else (case th of
             None \<Rightarrow> VIBRATION
           | Some (_, current) \<Rightarrow>
               if \<not> IsCurrentVibrate th hdi_running then VIBRATION
               else if IsLoopVibrate info then VIBRATION
               else ShouldIgnoreCurrent info current), s))"

section \<open>The decision as a table\<close>

fun first_match :: "(bool \<times> 'a) list \<Rightarrow> 'a \<Rightarrow> 'a" where
  "first_match [] d = d"
| "first_match ((c, v) # rules) d = (if c then v else first_match rules d)"

text \<open>
  The policy as an ordered list of rules: mute first, then the user's settings for callers that are
  not trusted, then the watch crown, then the vibration in progress.
\<close>

definition trusted :: "'j settings_env \<Rightarrow> VibrateInfo \<Rightarrow> bool" where
  "trusted E info \<longleftrightarrow> (token_native E \<or> system_app E) \<and> vi_systemUsage info"

definition disturbing :: "priority_state \<Rightarrow> VibrateInfo \<Rightarrow> bool" where
  "disturbing s info \<longleftrightarrow> (vi_usage info = USAGE_NOTIFICATION \<or> vi_usage info = USAGE_RING) \<and>
     pm_dndSwitch s = DONOTDISTURB_SWITCH_ON \<and>
     (\<forall>w\<in>set (pm_whiteList s). vi_packageName info \<noteq> wl_bundle w \<or> vi_uid info \<noteq> wl_uid w)"

definition busy :: "thread_view \<Rightarrow> bool \<Rightarrow> bool" where
  "busy th hdi_running \<longleftrightarrow> th \<noteq> None \<and> (fst (the th) \<or> hdi_running)"

definition priority_rules ::
    "'j settings_env \<Rightarrow> priority_state \<Rightarrow> VibrateInfo \<Rightarrow> thread_view \<Rightarrow> bool \<Rightarrow> (bool \<times> VibrateStatus) list" where
  "priority_rules E s info th hdi_running =
     [(ringer_usage info \<and> pm_mute s, IGNORE_VIBRATOR_MUTE),
      (\<not> trusted E info \<and> disturbing s info, IGNORE_GLOBAL_SETTINGS),
      (\<not> trusted E info \<and> ringer_usage info \<and> pm_ringerMode s = RINGER_MODE_SILENT, IGNORE_RINGER_MODE),
      (\<not> trusted E info \<and> INPUT_METHOD E \<and> (vi_usage info = USAGE_RING \<or> vi_usage info = USAGE_COMMUNICATION)
         \<and> pm_ringerMode s = RINGER_MODE_NORMAL \<and> pm_vibrateWhenRing s = VIBRATE_WHEN_RING_MODE_OFF,
       IGNORE_RINGER_VIBRATE_WHEN_RING),
      (\<not> trusted E info \<and> feedback_usage info \<and> pm_feedback s = FEEDBACK_MODE_OFF \<and>
         \<not> (INPUT_METHOD E \<and> vi_packageName info \<noteq> SCENEBOARD_BUNDLENAME \<and> vi_packageName info \<in> set (pm_imeNames s)),
       IGNORE_FEEDBACK),
      (CROWN E \<and> ShouldIgnoreByIntensity s info, IGNORE_FEEDBACK),
      (\<not> busy th hdi_running \<or> IsLoopVibrate info, VIBRATION),
      (vi_usage (snd (the th)) = USAGE_ALARM, IGNORE_ALARM),
      (IsLoopVibrate (snd (the th)), IGNORE_REPEAT),
      (vi_usage info = USAGE_UNKNOWN \<and> vi_usage (snd (the th)) \<noteq> USAGE_UNKNOWN, IGNORE_UNKNOWN)]"

lemma IgnoreAppVibrations_iff: "IgnoreAppVibrations s info \<longleftrightarrow> disturbing s info"
  by (auto simp: IgnoreAppVibrations_def disturbing_def list_ex_iff)

lemma settings_verdict_trusted [simp]: "trusted E info \<Longrightarrow> settings_verdict E s info = None"
  by (auto simp: settings_verdict_def trusted_def IsSystemCalling_def IsSystemServiceCalling_def)

lemma settings_verdict_rules:
  "\<not> trusted E info \<Longrightarrow> settings_verdict E s info =
     (if disturbing s info then Some IGNORE_GLOBAL_SETTINGS
      else if ringer_usage info \<and> pm_ringerMode s = RINGER_MODE_SILENT then Some IGNORE_RINGER_MODE
      else if INPUT_METHOD E \<and> (vi_usage info = USAGE_RING \<or> vi_usage info = USAGE_COMMUNICATION)
           \<and> pm_ringerMode s = RINGER_MODE_NORMAL \<and> pm_vibrateWhenRing s = VIBRATE_WHEN_RING_MODE_OFF
           then Some IGNORE_RINGER_VIBRATE_WHEN_RING
      else if feedback_usage info \<and> pm_feedback s = FEEDBACK_MODE_OFF \<and>
         \<not> (INPUT_METHOD E \<and> vi_packageName info \<noteq> SCENEBOARD_BUNDLENAME \<and> vi_packageName info \<in> set (pm_imeNames s))
           then Some IGNORE_FEEDBACK
      else None)"
  by (auto simp: settings_verdict_def trusted_def IsSystemCalling_def IsSystemServiceCalling_def
      IgnoreAppVibrations_iff ShouldIgnoreInputMethod_def)

lemma case_option_if:
  "(case (if c then Some v else x) of None \<Rightarrow> d | Some w \<Rightarrow> f w) =
     (if c then f v else (case x of None \<Rightarrow> d | Some w \<Rightarrow> f w))"
  by simp

lemma ShouldIgnoreVibrate_rules:
  "ShouldIgnoreVibrate E info th hdi_running s =
     (first_match (priority_rules E (UpdateStatus E s) info th hdi_running) VIBRATION, UpdateStatus E s)"
proof -
  have last: "(case th of None \<Rightarrow> VIBRATION
      | Some (_, current) \<Rightarrow> if \<not> IsCurrentVibrate th hdi_running then VIBRATION
               else if IsLoopVibrate info then VIBRATION else ShouldIgnoreCurrent info current)
    = first_match [(\<not> busy th hdi_running \<or> IsLoopVibrate info, VIBRATION),
      (vi_usage (snd (the th)) = USAGE_ALARM, IGNORE_ALARM),
      (IsLoopVibrate (snd (the th)), IGNORE_REPEAT),
      (vi_usage info = USAGE_UNKNOWN \<and> vi_usage (snd (the th)) \<noteq> USAGE_UNKNOWN, IGNORE_UNKNOWN)] VIBRATION"
    by (cases th) (auto simp: busy_def IsCurrentVibrate_def ShouldIgnoreCurrent_def)
  show ?thesis
  proof (cases "trusted E info")
    case True
    then show ?thesis
      unfolding ShouldIgnoreVibrate_def Let_def last priority_rules_def
      by (simp only: settings_verdict_trusted first_match.simps simp_thms option.case if_True if_False)
  next
    case False
    then show ?thesis
      unfolding ShouldIgnoreVibrate_def Let_def last priority_rules_def
      by (simp only: settings_verdict_rules case_option_if first_match.simps simp_thms option.case if_True if_False)
  qed
qed

section \<open>Reachable states\<close>

text \<open>
  The operations in any order, each one with the settings as they are at that moment, one of the
  environments of \<open>Es\<close>.
\<close>

inductive priority_reach :: "('j settings_env) set \<Rightarrow> priority_state \<Rightarrow> bool" for Es where
  start: "priority_reach Es initial_priority"
| init: "priority_reach Es s \<Longrightarrow> E \<in> Es \<Longrightarrow> priority_reach Es (snd (Init E sm remote s))"
| change: "priority_reach Es s \<Longrightarrow> E \<in> Es \<Longrightarrow> priority_reach Es (OnChange E ob s)"
| decide: "priority_reach Es s \<Longrightarrow> E \<in> Es \<Longrightarrow>
    priority_reach Es (snd (ShouldIgnoreVibrate E info th hdi_running s))"
| user: "priority_reach Es s \<Longrightarrow> E \<in> Es \<Longrightarrow> priority_reach Es (ReregisterCurrentUserObserver E s)"
| mute: "priority_reach Es s \<Longrightarrow> priority_reach Es (SetIgnoreSwitchStatus b s)"

text \<open>Only \<open>InitDoNotDisturbData\<close> touches the white list.\<close>

lemma white_list_observers [simp]:
  "pm_whiteList (ds_do cs s) = pm_whiteList s"
  "pm_whiteList (snd (RegisterObserver E s)) = pm_whiteList s"
  "pm_whiteList (snd (UnregisterUserObserver E s)) = pm_whiteList s"
  "pm_whiteList (snd (RegisterUserObserver E s)) = pm_whiteList s"
  "pm_whiteList (snd (UnregisterUser100Observer E s)) = pm_whiteList s"
  "pm_whiteList (snd (RegisterUser100Observer E s)) = pm_whiteList s"
  "pm_whiteList (snd (UnregisterUserImfObserver E s)) = pm_whiteList s"
  "pm_whiteList (snd (RegisterUserImfObserver E s)) = pm_whiteList s"
  "pm_whiteList (UpdateCurrentUserId E s) = pm_whiteList s"
  by (simp_all add: RegisterObserver_def UnregisterUserObserver_def RegisterUserObserver_def
      UnregisterUser100Observer_def RegisterUser100Observer_def UnregisterUserImfObserver_def
      RegisterUserImfObserver_def UpdateCurrentUserId_def ds_do_def Let_def split: prod.splits)

lemma white_list_settings [simp]:
  "pm_whiteList (InitVibrateWhenRing E s) = pm_whiteList s"
  "pm_whiteList (InitInputMethodData E s) = pm_whiteList s"
  "pm_whiteList (UpdateInputMethodBundleNames E s) = pm_whiteList s"
  "pm_whiteList (MiscCrownIntensityFeedbackInit E s) = pm_whiteList s"
  by (simp_all add: InitVibrateWhenRing_def InitInputMethodData_def UpdateInputMethodBundleNames_def
      MiscCrownIntensityFeedbackInit_def Let_def split: sum.split option.split prod.split)

lemma white_list_Reregister [simp]: "pm_whiteList (ReregisterCurrentUserObserver E s) = pm_whiteList s"
  by (simp add: ReregisterCurrentUserObserver_def Let_def)

lemma white_list_Init [simp]: "pm_whiteList (snd (Init E sm remote s)) = pm_whiteList s"
proof -
  have "pm_whiteList t = pm_whiteList s'" if "RegisterObserver E s' = (ret, t)" for s' ret t
    using white_list_observers(2) [of E s'] that by simp
  from this [of "s\<lparr>pm_remoteObj := remote\<rparr>"] show ?thesis
    by (auto simp: Init_def Let_def split: prod.split)
qed

lemma InitDoNotDisturbData_white_list:
  "length (pm_whiteList s) \<le> 100 \<Longrightarrow> length (pm_whiteList (InitDoNotDisturbData E s)) \<le> 100"
  by (simp add: InitDoNotDisturbData_def Let_def split: sum.split)

lemma white_list_updates [simp]:
  "pm_whiteList (update_feedback E s) = pm_whiteList s" "pm_whiteList (update_ringerMode E s) = pm_whiteList s"
  "pm_whiteList (update_whenRing E s) = pm_whiteList s" "pm_whiteList (update_crownFeedback E s) = pm_whiteList s"
  "pm_whiteList (update_intensity E s) = pm_whiteList s"
  by (simp_all add: update_defs split: sum.split)

lemma UpdateStatus_white_list:
  "length (pm_whiteList s) \<le> 100 \<Longrightarrow> length (pm_whiteList (UpdateStatus E s)) \<le> 100"
  by (simp add: UpdateStatus_def Let_def update_dnd_def InitDoNotDisturbData_white_list)

lemma OnChange_white_list:
  "length (pm_whiteList s) \<le> 100 \<Longrightarrow> length (pm_whiteList (OnChange E ob s)) \<le> 100"
  by (simp add: OnChange_def global_update_def Let_def InitDoNotDisturbData_white_list
      split: observer.split sum.split)

lemma priority_reach_white_list: "priority_reach Es s \<Longrightarrow> length (pm_whiteList s) \<le> 100"
proof (induction rule: priority_reach.induct)
  case start
  then show ?case by (simp add: initial_priority_def)
qed (simp_all add: OnChange_white_list ShouldIgnoreVibrate_rules UpdateStatus_white_list SetIgnoreSwitchStatus_def)

section \<open>Registrations\<close>

text \<open>What is registered with DataShare after a sequence of calls.\<close>

fun register_call :: "ds_call \<Rightarrow> (string \<times> observer) set \<Rightarrow> (string \<times> observer) set" where
  "register_call (RegisterCall u ob) R = insert (u, ob) R"
| "register_call (UnregisterCall u ob) R = R - {(u, ob)}"
| "register_call (NotifyCall u) R = R"
| "register_call (ExecCb ob) R = R"

definition registered :: "priority_state \<Rightarrow> (string \<times> observer) set" where
  "registered s = fold register_call (pm_calls s) {}"

definition user_registrations :: "priority_state \<Rightarrow> (string \<times> observer) set" where
  "user_registrations s =
     {(DoNotDisturbAssembleUri s DO_NOT_DISTURB_SWITCH, UserObserver),
      (DoNotDisturbAssembleUri s DO_NOT_DISTURB_WHITE_LIST, UserObserver),
      (AssembleUri s SETTING_USER_URI_PROXY VIBRATE_WHEN_RINGING_KEY ''system'', User100Observer),
      (AssembleUri s SETTING_USER_URI_PROXY USER_SETTINGS_ENABLE_IME ''system'', UserImfObserver)}"

lemma registered_ds_do: "registered (ds_do cs s) = fold register_call cs (registered s)"
  by (simp add: registered_def ds_do_def)

lemma uri_cong:
  "pm_userId s = pm_userId t \<Longrightarrow> DoNotDisturbAssembleUri s k = DoNotDisturbAssembleUri t k"
  "pm_userId s = pm_userId t \<Longrightarrow> AssembleUri s p k y = AssembleUri t p k y"
  by (simp_all add: DoNotDisturbAssembleUri_def AssembleUri_def)

lemma ds_do_simps [simp]:
  "pm_userId (ds_do cs s) = pm_userId s" "pm_remoteObj (ds_do cs s) = pm_remoteObj s"
  "pm_userObserver (ds_do cs s) = pm_userObserver s" "pm_user100Observer (ds_do cs s) = pm_user100Observer s"
  "pm_userImfObserver (ds_do cs s) = pm_userImfObserver s"
  "CreateDataShareHelper E (ds_do cs s) u y = CreateDataShareHelper E s u y"
  by (simp_all add: ds_do_def CreateDataShareHelper_def)

lemma registered_simps [simp]:
  "registered (s\<lparr>pm_userObserver := b\<rparr>) = registered s" "registered (s\<lparr>pm_user100Observer := b\<rparr>) = registered s"
  "registered (s\<lparr>pm_userImfObserver := b\<rparr>) = registered s" "registered (s\<lparr>pm_userId := n\<rparr>) = registered s"
  by (simp_all add: registered_def)

text \<open>When the helpers can be created, each operation moves its own registrations and keeps the rest.\<close>

definition connected :: "'j settings_env \<Rightarrow> priority_state \<Rightarrow> bool" where
  "connected E s \<longleftrightarrow> pm_remoteObj s \<and> (\<forall>u. ds_Creator E u)"

lemma connected_helper: "connected E s \<Longrightarrow> CreateDataShareHelper E s u y"
  by (simp add: connected_def CreateDataShareHelper_def)

lemma unregister_user:
  assumes "connected E s" and "pm_userObserver s" and "pm_user100Observer s" and "pm_userImfObserver s"
    and "registered s = G \<union> user_registrations s" and "\<forall>(u, ob)\<in>G. ob = GlobalObserver"
    and t: "t = snd (UnregisterUserImfObserver E (snd (UnregisterUser100Observer E (snd (UnregisterUserObserver E s)))))"
  shows "registered t = G \<and> connected E t \<and> pm_userId t = pm_userId s"
proof -
  let ?s1 = "snd (UnregisterUserObserver E s)" and ?s2 = "snd (UnregisterUser100Observer E (snd (UnregisterUserObserver E s)))"
  let ?dnd = "DoNotDisturbAssembleUri s" and ?uri = "\<lambda>k. AssembleUri s SETTING_USER_URI_PROXY k ''system''"
  have c1: "connected E ?s1" "pm_userId ?s1 = pm_userId s" "pm_user100Observer ?s1" "pm_userImfObserver ?s1"
      "registered ?s1 = registered s - {(?dnd DO_NOT_DISTURB_SWITCH, UserObserver)} - {(?dnd DO_NOT_DISTURB_WHITE_LIST, UserObserver)}"
    using assms(1-4) connected_helper [OF assms(1)]
    by (simp_all add: UnregisterUserObserver_def registered_ds_do connected_def)
  have c2: "connected E ?s2" "pm_userId ?s2 = pm_userId s" "pm_userImfObserver ?s2"
      "registered ?s2 = registered ?s1 - {(?uri VIBRATE_WHEN_RINGING_KEY, User100Observer)}"
    using c1(1-4) connected_helper [OF c1(1)] uri_cong(2) [OF c1(2)]
    by (simp_all add: UnregisterUser100Observer_def registered_ds_do connected_def)
  have "registered t = registered ?s2 - {(?uri USER_SETTINGS_ENABLE_IME, UserImfObserver)}"
      "connected E t" "pm_userId t = pm_userId s"
    using c2(1-3) connected_helper [OF c2(1)] uri_cong(2) [OF c2(2)]
    by (simp_all add: t UnregisterUserImfObserver_def registered_ds_do connected_def)
  moreover have "(G \<union> user_registrations s) - {(?dnd DO_NOT_DISTURB_SWITCH, UserObserver)}
      - {(?dnd DO_NOT_DISTURB_WHITE_LIST, UserObserver)} - {(?uri VIBRATE_WHEN_RINGING_KEY, User100Observer)}
      - {(?uri USER_SETTINGS_ENABLE_IME, UserImfObserver)} = G"
    using assms(6) by (auto simp: user_registrations_def)
  ultimately show ?thesis using c1(5) c2(4) assms(5) by simp
qed

lemma register_user:
  assumes "connected E s"
    and t: "t = snd (RegisterUserObserver E (snd (RegisterUser100Observer E (snd (RegisterUserImfObserver E s)))))"
  shows "registered t = registered s \<union> user_registrations s \<and> pm_userId t = pm_userId s"
proof -
  let ?s1 = "snd (RegisterUserImfObserver E s)" and ?s2 = "snd (RegisterUser100Observer E (snd (RegisterUserImfObserver E s)))"
  have c: "CreateDataShareHelper E s' u y" if "pm_remoteObj s'" for s' u y
    using assms(1) that by (intro connected_helper) (simp add: connected_def)
  have r: "pm_remoteObj s" using assms(1) by (simp add: connected_def)
  have c1: "pm_remoteObj ?s1" "pm_userId ?s1 = pm_userId s"
      "registered ?s1 = insert (AssembleUri s SETTING_USER_URI_PROXY USER_SETTINGS_ENABLE_IME ''system'', UserImfObserver) (registered s)"
    using r by (simp_all add: RegisterUserImfObserver_def Let_def c registered_ds_do uri_cong(2) [of "s\<lparr>pm_userImfObserver := True\<rparr>" s])
  have c2: "pm_remoteObj ?s2" "pm_userId ?s2 = pm_userId s"
      "registered ?s2 = insert (AssembleUri s SETTING_USER_URI_PROXY VIBRATE_WHEN_RINGING_KEY ''system'', User100Observer) (registered ?s1)"
    using c1(1,2) by (simp_all add: RegisterUser100Observer_def Let_def c registered_ds_do
        uri_cong(2) [of "?s1\<lparr>pm_user100Observer := True\<rparr>" s])
  have "registered t = insert (DoNotDisturbAssembleUri s DO_NOT_DISTURB_WHITE_LIST, UserObserver)
      (insert (DoNotDisturbAssembleUri s DO_NOT_DISTURB_SWITCH, UserObserver) (registered ?s2))"
      "pm_userId t = pm_userId s"
    using c2(1,2) by (simp_all add: t RegisterUserObserver_def Let_def c registered_ds_do
        uri_cong(1) [of "?s2\<lparr>pm_userObserver := True\<rparr>" s])
  then show ?thesis using c1(3) c2(3) by (auto simp: user_registrations_def)
qed

section \<open>Defaults\<close>

lemma no_helper:
  assumes "\<And>u. \<not> ds_Creator E u"
  shows "PM_GetIntValue E s u k y = Inl MISC_NO_INIT_ERR" and "PM_GetStringValue E s u k y = Inl MISC_NO_INIT_ERR"
    and "GetDoNotDisturbIntValue E s k = Inl MISC_NO_INIT_ERR"
  using assms by (simp_all add: PM_GetIntValue_def PM_GetLongValue_def PM_GetStringValue_def CreateDataShareHelper_def
      GetDoNotDisturbIntValue_def GetDoNotDisturbLongValue_def GetDoNotDisturbStringValue_def)

lemma UpdateStatus_no_helper:
  assumes "\<And>u. \<not> ds_Creator E u"
  shows "UpdateStatus E initial_priority =
    initial_priority\<lparr>pm_feedback := 1, pm_ringerMode := 2, pm_dndSwitch := 0,
      pm_vibrateWhenRing := (if INPUT_METHOD E then 1 else -1),
      pm_crownFeedback := (if CROWN E then 1 else -1), pm_intensity := (if CROWN E then 0 else -1)\<rparr>"
  by (simp add: UpdateStatus_def Let_def update_defs initial_priority_def no_helper [OF assms]
      InitDoNotDisturbData_def InitVibrateWhenRing_def UpdateInputMethodBundleNames_def InitInputMethodData_def)

lemma UpdateStatus_mute [simp]: "pm_mute (UpdateStatus E s) = pm_mute s"
proof -
  have "pm_mute (InitDoNotDisturbData E t) = pm_mute t" "pm_mute (UpdateInputMethodBundleNames E t) = pm_mute t"
    "pm_mute (InitVibrateWhenRing E t) = pm_mute t" for t
    by (simp_all add: InitDoNotDisturbData_def UpdateInputMethodBundleNames_def InitInputMethodData_def
        InitVibrateWhenRing_def Let_def split: sum.split option.split prod.split)
  moreover from this have "pm_mute (update_feedback E t) = pm_mute t" "pm_mute (update_ringerMode E t) = pm_mute t"
    "pm_mute (update_dnd E t) = pm_mute t" "pm_mute (update_whenRing E t) = pm_mute t"
    "pm_mute (update_crownFeedback E t) = pm_mute t" "pm_mute (update_intensity E t) = pm_mute t" for t
    by (simp_all add: update_defs split: sum.split)
  ultimately show ?thesis by (simp add: UpdateStatus_def Let_def)
qed

section \<open>Properties\<close>

text \<open>An alarm in progress is never interrupted except by a looping preset: while the device plays a
  vibration of usage alarm, any other request is turned down, whoever makes it.\<close>

theorem alarm_not_interrupted:
  assumes "busy th hdi_running" and "vi_usage (snd (the th)) = USAGE_ALARM" and "\<not> IsLoopVibrate info"
  shows "fst (ShouldIgnoreVibrate E info th hdi_running s) \<noteq> VIBRATION"
  using assms by (simp add: ShouldIgnoreVibrate_rules priority_rules_def)

definition sample_env :: "json settings_env" where
  "sample_env = \<lparr>INPUT_METHOD = True, CROWN = False, DO_NOT_DISTURB = True, ds_Creator = (\<lambda>_. True),
     ds_Query = (\<lambda>_ _. None), activeUserIds = (0, [101]), token_native = False, system_app = True,
     env_json = json_ops (\<lambda>_. None)\<rparr>"

lemma alarm_not_interrupted_witness:
  "fst (ShouldIgnoreVibrate sample_env (default_info\<lparr>vi_usage := 5\<rparr>) (Some (True, default_info\<lparr>vi_usage := 1\<rparr>))
     False initial_priority) \<noteq> VIBRATION"
  by (rule alarm_not_interrupted) (simp_all add: busy_def default_info_def IsLoopVibrate_def)

text \<open>A trusted caller (a system service or system application that sets the system usage flag) is not
  silenced by the user's settings: on an idle device without the watch crown its request vibrates,
  unless it has a ringer usage while the vibrator is muted.\<close>

theorem trusted_caller_vibrates:
  assumes "trusted E info" and "\<not> CROWN E" and "\<not> busy th hdi_running" and "\<not> (ringer_usage info \<and> pm_mute s)"
  shows "fst (ShouldIgnoreVibrate E info th hdi_running s) = VIBRATION"
  using assms by (simp add: ShouldIgnoreVibrate_rules priority_rules_def)

lemma trusted_caller_vibrates_witness:
  "fst (ShouldIgnoreVibrate sample_env (default_info\<lparr>vi_usage := 2, vi_systemUsage := True\<rparr>) None False
     (initial_priority\<lparr>pm_ringerMode := 0, pm_feedback := 0\<rparr>)) = VIBRATION"
  by (rule trusted_caller_vibrates)
    (simp_all add: trusted_def sample_env_def default_info_def busy_def initial_priority_def)

text \<open>When the settings cannot be read at all the policy fails open: a new manager without any
  DataShare helper lets every request vibrate on an idle device.\<close>

theorem settings_unreadable_fail_open:
  assumes "\<forall>u. \<not> ds_Creator E u" and "\<not> busy th hdi_running"
  shows "fst (ShouldIgnoreVibrate E info th hdi_running initial_priority) = VIBRATION"
proof -
  have u: "UpdateStatus E initial_priority =
    initial_priority\<lparr>pm_feedback := 1, pm_ringerMode := 2, pm_dndSwitch := 0,
      pm_vibrateWhenRing := (if INPUT_METHOD E then 1 else -1),
      pm_crownFeedback := (if CROWN E then 1 else -1), pm_intensity := (if CROWN E then 0 else -1)\<rparr>"
    using assms(1) by (intro UpdateStatus_no_helper) simp
  show ?thesis
    unfolding ShouldIgnoreVibrate_rules u
    using assms(2) by (simp add: priority_rules_def initial_priority_def disturbing_def ShouldIgnoreByIntensity_def)
qed

lemma settings_unreadable_fail_open_witness:
  "fst (ShouldIgnoreVibrate (sample_env\<lparr>ds_Creator := (\<lambda>_. False)\<rparr>) (default_info\<lparr>vi_usage := 3\<rparr>) None False
     initial_priority) = VIBRATION"
  by (rule settings_unreadable_fail_open) (simp_all add: busy_def)

text \<open>The white list never holds more than 100 applications, whatever the settings service returns
  and in whatever order the operations and notifications come.\<close>

theorem white_list_bounded:
  assumes "priority_reach Es s"
  shows "length (pm_whiteList s) \<le> 100"
  using priority_reach_white_list [OF assms] .

lemma white_list_bounded_witness:
  "length (pm_whiteList (OnChange sample_env UserObserver initial_priority)) \<le> 100"
  by (rule white_list_bounded [of "{sample_env}"]) (rule priority_reach.intros, rule priority_reach.intros, simp)

text \<open>A change of the active user moves the observers: when every helper can be created, after
  \<^verbatim>\<open>ReregisterCurrentUserObserver\<close> the per-user settings of the new user are registered, those of
  the old one are not, and the global registrations are untouched.\<close>

theorem user_switch_moves_observers:
  assumes "INPUT_METHOD E" and "DO_NOT_DISTURB E" and "connected E s"
    and "pm_userObserver s" and "pm_user100Observer s" and "pm_userImfObserver s"
    and "registered s = G \<union> user_registrations s" and "\<forall>(u, ob)\<in>G. ob = GlobalObserver"
  shows "registered (ReregisterCurrentUserObserver E s) =
      G \<union> user_registrations (s\<lparr>pm_userId := pm_userId (UpdateCurrentUserId E s)\<rparr>)"
proof -
  let ?t = "snd (UnregisterUserImfObserver E (snd (UnregisterUser100Observer E (snd (UnregisterUserObserver E s)))))"
  let ?v = "UpdateCurrentUserId E ?t"
  have t: "registered ?t = G" "connected E ?t" "pm_userId ?t = pm_userId s"
    using unregister_user [OF assms(3-8) refl] by simp_all
  have v: "registered ?v = G" "connected E ?v" "pm_userId ?v = pm_userId (UpdateCurrentUserId E s)"
    using t by (simp_all add: UpdateCurrentUserId_def connected_def split: prod.split)
  have "user_registrations ?v = user_registrations (s\<lparr>pm_userId := pm_userId (UpdateCurrentUserId E s)\<rparr>)"
    using v(3) by (simp add: user_registrations_def DoNotDisturbAssembleUri_def AssembleUri_def)
  then show ?thesis
    using register_user [OF v(2) refl] v(1) assms(1,2)
    by (simp add: ReregisterCurrentUserObserver_def Let_def)
qed

definition user_observed :: priority_state where
  "user_observed = (let s = initial_priority\<lparr>pm_remoteObj := True, pm_userObserver := True, pm_user100Observer := True,
       pm_userImfObserver := True\<rparr>
     in s\<lparr>pm_calls := [RegisterCall (DoNotDisturbAssembleUri s DO_NOT_DISTURB_SWITCH) UserObserver,
       RegisterCall (DoNotDisturbAssembleUri s DO_NOT_DISTURB_WHITE_LIST) UserObserver,
       RegisterCall (AssembleUri s SETTING_USER_URI_PROXY VIBRATE_WHEN_RINGING_KEY ''system'') User100Observer,
       RegisterCall (AssembleUri s SETTING_USER_URI_PROXY USER_SETTINGS_ENABLE_IME ''system'') UserImfObserver]\<rparr>)"

lemma user_switch_moves_observers_witness:
  "registered (ReregisterCurrentUserObserver sample_env user_observed) =
     {} \<union> user_registrations (user_observed\<lparr>pm_userId := pm_userId (UpdateCurrentUserId sample_env user_observed)\<rparr>)"
proof (rule user_switch_moves_observers)
  show "registered user_observed = {} \<union> user_registrations user_observed"
    by (auto simp: registered_def user_registrations_def user_observed_def Let_def DoNotDisturbAssembleUri_def
        AssembleUri_def)
qed (simp_all add: sample_env_def user_observed_def Let_def connected_def)

text \<open>The destructor never unregisters anything: it clears the remote object before it asks for the
  helpers, so that each of its calls fails and every observer stays registered.\<close>

theorem destructor_unregisters_nothing:
  "registered (destroy E s) = registered s"
proof -
  have "pm_calls (destroy E s) = pm_calls s"
    by (simp add: destroy_def Let_def UnregisterObserver_def UnregisterUserObserver_def
        UnregisterUser100Observer_def UnregisterUserImfObserver_def CreateDataShareHelper_def)
  then show ?thesis by (simp add: registered_def)
qed

end
