(* ===== verification/VibrationPolicy.thy ===== *)
theory VibrationPolicy
  imports PriorityManager "HOL-Library.Sublist"
begin

text \<open>
  Who may vibrate, stated for a user: which settings a usage of a vibration is subject to, and what each of them
  says, over the values that the settings service holds. \<open>ShouldIgnoreVibrate\<close> of \<open>PriorityManager\<close>, which goes through the
  settings one after the other and works on copies that the observers keep, decides accordingly.
\<close>

section \<open>The settings of a user\<close>






section \<open>The policy\<close>











section \<open>The copies of the settings\<close>







text \<open>Two states of the same user see the same settings.\<close>

definition same_user :: "priority_state \<Rightarrow> priority_state \<Rightarrow> bool" where
  "same_user s t \<longleftrightarrow> pm_remoteObj t = pm_remoteObj s \<and> pm_userId t = pm_userId s \<and> pm_mute t = pm_mute s"


lemma same_user_refl [simp]: "same_user s s"
  by (simp add: same_user_def)

lemma same_user_fields [simp]:
  "same_user s (t\<lparr>pm_feedback := n\<rparr>) = same_user s t" "same_user s (t\<lparr>pm_ringerMode := n\<rparr>) = same_user s t"
  "same_user s (t\<lparr>pm_dndSwitch := n\<rparr>) = same_user s t" "same_user s (t\<lparr>pm_whiteList := wl\<rparr>) = same_user s t"
  "same_user s (t\<lparr>pm_vibrateWhenRing := n\<rparr>) = same_user s t" "same_user s (t\<lparr>pm_imeNames := names\<rparr>) = same_user s t"
  "same_user s (t\<lparr>pm_imeNames := names, pm_imeInitialized := b\<rparr>) = same_user s t"
  "same_user s (t\<lparr>pm_crownFeedback := n\<rparr>) = same_user s t" "same_user s (t\<lparr>pm_intensity := n\<rparr>) = same_user s t"
  by (simp_all add: same_user_def)












text \<open>The readers do not look at the copies.\<close>

lemma PM_GetIntValue_fields [simp]:
  "PM_GetIntValue E (s\<lparr>pm_feedback := n\<rparr>) u k y = PM_GetIntValue E s u k y"
  "PM_GetIntValue E (s\<lparr>pm_ringerMode := n\<rparr>) u k y = PM_GetIntValue E s u k y"
  "PM_GetIntValue E (s\<lparr>pm_crownFeedback := n\<rparr>) u k y = PM_GetIntValue E s u k y"
  by (simp_all add: PM_GetIntValue_def PM_GetLongValue_def PM_GetStringValue_def CreateDataShareHelper_def AssembleUri_def)



text \<open>An observer leaves the copies of the others alone.\<close>

lemma other_fields [simp]:
  "pm_feedback (InitDoNotDisturbData E s) = pm_feedback s" "pm_ringerMode (InitDoNotDisturbData E s) = pm_ringerMode s"
  "pm_crownFeedback (InitDoNotDisturbData E s) = pm_crownFeedback s" "pm_intensity (InitDoNotDisturbData E s) = pm_intensity s"
  "pm_vibrateWhenRing (InitDoNotDisturbData E s) = pm_vibrateWhenRing s"
  by (auto simp: InitDoNotDisturbData_def Let_def split: sum.split)

lemma ime_fields [simp]:
  "pm_feedback (InitInputMethodData E s) = pm_feedback s" "pm_ringerMode (InitInputMethodData E s) = pm_ringerMode s"
  "pm_crownFeedback (InitInputMethodData E s) = pm_crownFeedback s" "pm_intensity (InitInputMethodData E s) = pm_intensity s"
  "pm_vibrateWhenRing (InitInputMethodData E s) = pm_vibrateWhenRing s" "pm_dndSwitch (InitInputMethodData E s) = pm_dndSwitch s"
  by (simp_all add: InitInputMethodData_def Let_def split_beta split: sum.split option.split)










section \<open>The verdict\<close>








end
