(* ===== verification/Marshalling.thy ===== *)
theory Marshalling
  imports VibratorInfos
begin

text \<open>
  \<^verbatim>\<open>Marshalling\<close> and \<^verbatim>\<open>Unmarshalling\<close> of \<^verbatim>\<open>utils/common/src/vibrator_infos.cpp\<close>. The
  \<open>_items\<close> functions list the values a marshalling writes, in order; the readers follow the
  statements of the unmarshalling functions, \<open>None\<close> being the null pointer they return on a
  failed read or check.
\<close>

section \<open>Curve points, events and patterns\<close>

definition point_items :: "VibrateCurvePoint \<Rightarrow> item list" where
  "point_items c = [Int32 (cp_time c), Int32 (cp_intensity c), Int32 (cp_frequency c)]"

definition event_items :: "VibrateEvent \<Rightarrow> item list" where
  "event_items e =
     [Int32 (tag_code (ev_tag e)), Int32 (ev_time e), Int32 (ev_duration e), Int32 (ev_intensity e),
      Int32 (ev_frequency e), Int32 (ev_index e), Int32 (wrap32 (int (length (ev_points e))))]
     @ concat (map point_items (ev_points e))"

definition pattern_items :: "VibratePattern \<Rightarrow> item list" where
  "pattern_items a =
     [Int32 (pat_startTime a), Int32 (pat_patternDuration a),
      Int32 (wrap32 (int (length (pat_events a))))]
     @ concat (map event_items (pat_events a))"

definition package_items :: "VibratePackage \<Rightarrow> item list" where
  "package_items k =
     [Int32 (pkg_packageDuration k), Int32 (wrap32 (int (length (pkg_patterns k))))]
     @ concat (map pattern_items (pkg_patterns k))"

definition VibratePattern_Marshalling ::
    "'p parcel_ops \<Rightarrow> VibratePattern \<Rightarrow> 'p \<Rightarrow> 'p option" where
  "VibratePattern_Marshalling P a p = write_items P (pattern_items a) p"

definition VibratePackage_Marshalling ::
    "'p parcel_ops \<Rightarrow> VibratePackage \<Rightarrow> 'p \<Rightarrow> 'p option" where
  "VibratePackage_Marshalling P k p = write_items P (package_items k) p"

definition read_point :: "'p parcel_ops \<Rightarrow> 'p \<Rightarrow> (VibrateCurvePoint \<times> 'p) option" where
  "read_point P p =
     do { (t, p) \<leftarrow> ReadInt32 P p; (i, p) \<leftarrow> ReadInt32 P p; (f, p) \<leftarrow> ReadInt32 P p;
          Some (\<lparr>cp_time = t, cp_intensity = i, cp_frequency = f\<rparr>, p) }"

text \<open>
  The event loop body is the same in both unmarshalling functions, except that only
  \<^verbatim>\<open>VibratePackage::Unmarshalling\<close> rejects a negative number of points (\<open>strict\<close>); a loop
  with a negative bound does not run, so \<open>nat\<close> gives its number of rounds.
\<close>

definition read_event :: "bool \<Rightarrow> 'p parcel_ops \<Rightarrow> 'p \<Rightarrow> (VibrateEvent \<times> 'p) option" where
  "read_event strict P p =
     do { (tag, p) \<leftarrow> ReadInt32 P p;
          if tag \<noteq> tag_code EVENT_TAG_CONTINUOUS \<and> tag \<noteq> tag_code EVENT_TAG_TRANSIENT then None
          else do {
            (t, p) \<leftarrow> ReadInt32 P p; (d, p) \<leftarrow> ReadInt32 P p; (i, p) \<leftarrow> ReadInt32 P p;
            (f, p) \<leftarrow> ReadInt32 P p; (x, p) \<leftarrow> ReadInt32 P p;
            (pointSize, p) \<leftarrow> ReadInt32 P p;
            if pointSize > MAX_POINT_SIZE \<or> (strict \<and> pointSize < 0) then None
            else do {
              (pts, p) \<leftarrow> read_n (nat pointSize) (read_point P) p;
              Some (\<lparr>ev_tag = tag_of_code tag, ev_time = t, ev_duration = d, ev_intensity = i,
                     ev_frequency = f, ev_index = x, ev_points = pts\<rparr>, p) } } }"

definition VibratePattern_Unmarshalling ::
    "'p parcel_ops \<Rightarrow> 'p \<Rightarrow> (VibratePattern \<times> 'p) option" where
  "VibratePattern_Unmarshalling P p =
     do { (st, p) \<leftarrow> ReadInt32 P p; (pd, p) \<leftarrow> ReadInt32 P p;
          (eventSize, p) \<leftarrow> ReadInt32 P p;
          if eventSize > MAX_EVENT_SIZE then None
          else do {
            (evs, p) \<leftarrow> read_n (nat eventSize) (read_event False P) p;
            Some (\<lparr>pat_startTime = st, pat_patternDuration = pd, pat_events = evs\<rparr>, p) } }"

text \<open>The pattern loop body of \<^verbatim>\<open>VibratePackage::Unmarshalling\<close>.\<close>

definition read_pattern :: "'p parcel_ops \<Rightarrow> 'p \<Rightarrow> (VibratePattern \<times> 'p) option" where
  "read_pattern P p =
     do { (st, p) \<leftarrow> ReadInt32 P p; (pd, p) \<leftarrow> ReadInt32 P p;
          (eventSize, p) \<leftarrow> ReadInt32 P p;
          if eventSize > MAX_EVENT_SIZE \<or> eventSize < 0 then None
          else do {
            (evs, p) \<leftarrow> read_n (nat eventSize) (read_event True P) p;
            Some (\<lparr>pat_startTime = st, pat_patternDuration = pd, pat_events = evs\<rparr>, p) } }"

definition VibratePackage_Unmarshalling ::
    "'p parcel_ops \<Rightarrow> 'p \<Rightarrow> (VibratePackage \<times> 'p) option" where
  "VibratePackage_Unmarshalling P p =
     do { (pd, p) \<leftarrow> ReadInt32 P p; (patternNum, p) \<leftarrow> ReadInt32 P p;
          if patternNum < 0 \<or> patternNum > MAX_PATTERN_NUM then None
          else do {
            (ps, p) \<leftarrow> read_n (nat patternNum) (read_pattern P) p;
            Some (\<lparr>pkg_patterns = ps, pkg_packageDuration = pd\<rparr>, p) } }"

subsection \<open>The limits of the wire format\<close>

definition event_ok :: "VibrateEvent \<Rightarrow> bool" where
  "event_ok e \<longleftrightarrow> ev_tag e \<noteq> EVENT_TAG_UNKNOWN \<and> int (length (ev_points e)) \<le> MAX_POINT_SIZE"

definition pattern_ok :: "VibratePattern \<Rightarrow> bool" where
  "pattern_ok a \<longleftrightarrow> int (length (pat_events a)) \<le> MAX_EVENT_SIZE \<and> list_all event_ok (pat_events a)"

definition package_ok :: "VibratePackage \<Rightarrow> bool" where
  "package_ok k \<longleftrightarrow> int (length (pkg_patterns k)) \<le> MAX_PATTERN_NUM \<and> list_all pattern_ok (pkg_patterns k)"

lemmas wire_limits = MAX_EVENT_SIZE_def MAX_POINT_SIZE_def MAX_PATTERN_NUM_def

text \<open>Whatever the bytes of a parcel are, an accepted value respects the limits.\<close>

lemma read_event_ok: "read_event s P p = Some (e, p') \<Longrightarrow> event_ok e"
  by (auto simp: read_event_def event_ok_def tag_of_code_def wire_limits nat_le_iff split: Option.bind_splits if_splits
      dest!: length_read_n)

lemma read_n_event_ok:
  "read_n n (read_event s P) p = Some (xs, p') \<Longrightarrow> length xs = n \<and> list_all event_ok xs"
  unfolding list_all_iff by (rule conjI, erule length_read_n, erule read_n_all [rotated], rule read_event_ok)

lemma read_pattern_ok: "read_pattern P p = Some (a, p') \<Longrightarrow> pattern_ok a"
  by (auto simp: read_pattern_def pattern_ok_def wire_limits nat_le_iff split: Option.bind_splits if_splits
      dest!: read_n_event_ok)

lemma read_n_pattern_ok:
  "read_n n (read_pattern P) p = Some (xs, p') \<Longrightarrow> length xs = n \<and> list_all pattern_ok xs"
  unfolding list_all_iff by (rule conjI, erule length_read_n, erule read_n_all [rotated], rule read_pattern_ok)

lemma VibratePattern_Unmarshalling_ok: "VibratePattern_Unmarshalling P p = Some (a, p') \<Longrightarrow> pattern_ok a"
  by (auto simp: VibratePattern_Unmarshalling_def pattern_ok_def wire_limits nat_le_iff
      split: Option.bind_splits if_splits dest!: read_n_event_ok)

lemma VibratePackage_Unmarshalling_ok: "VibratePackage_Unmarshalling P p = Some (k, p') \<Longrightarrow> package_ok k"
  by (auto simp: VibratePackage_Unmarshalling_def package_ok_def wire_limits nat_le_iff
      split: Option.bind_splits if_splits dest!: read_n_pattern_ok)

subsection \<open>The contract\<close>

interpretation point_codec: parcel_codec point_items read_point "\<lambda>_. True" "\<lambda>c. c"
  by unfold_locales (auto simp: point_items_def read_point_def intro!: reads_intro)

lemma list_all_top [simp]: "list_all (\<lambda>_. True) xs"
  by (simp add: list_all_iff)

lemma wrap32_length [simp]: "length xs \<le> 1000 \<Longrightarrow> wrap32 (int (length xs)) = int (length xs)"
  by (rule wrap32_small) auto

interpretation event_codec: parcel_codec event_items "read_event s" event_ok "\<lambda>e. e"
proof
  fix P :: "'p parcel_ops" and unread p v r
  assume F: "parcel_fifo P unread" and ok: "event_ok v" and u: "unread p = event_items v @ r"
  from ok have "ev_tag v \<noteq> EVENT_TAG_CONTINUOUS \<Longrightarrow> ev_tag v = EVENT_TAG_TRANSIENT"
    and "length (ev_points v) \<le> 16"
    by (cases "ev_tag v"; simp add: event_ok_def wire_limits)+
  with F u show "reads unread (read_event s P p) v r"
    unfolding read_event_def event_items_def
    by (auto simp: wire_limits intro!: reads_intro point_codec.decode_loop)
qed

interpretation pattern_codec: parcel_codec pattern_items VibratePattern_Unmarshalling pattern_ok "\<lambda>a. a"
  by unfold_locales (auto simp: pattern_items_def VibratePattern_Unmarshalling_def pattern_ok_def wire_limits
      intro!: reads_intro event_codec.decode_loop)

interpretation inner_pattern_codec: parcel_codec pattern_items read_pattern pattern_ok "\<lambda>a. a"
  by unfold_locales (auto simp: pattern_items_def read_pattern_def pattern_ok_def wire_limits
      intro!: reads_intro event_codec.decode_loop)

interpretation package_codec: parcel_codec package_items VibratePackage_Unmarshalling package_ok "\<lambda>k. k"
  by unfold_locales (auto simp: package_items_def VibratePackage_Unmarshalling_def package_ok_def wire_limits
      intro!: reads_intro inner_pattern_codec.decode_loop)

subsection \<open>The limits are exact\<close>

text \<open>Array sizes that the 32-bit count can express.\<close>

definition event_repr :: "VibrateEvent \<Rightarrow> bool" where
  "event_repr e \<longleftrightarrow> int32 (int (length (ev_points e)))"

definition pattern_repr :: "VibratePattern \<Rightarrow> bool" where
  "pattern_repr a \<longleftrightarrow> int32 (int (length (pat_events a))) \<and> list_all event_repr (pat_events a)"

definition package_repr :: "VibratePackage \<Rightarrow> bool" where
  "package_repr k \<longleftrightarrow> int32 (int (length (pkg_patterns k))) \<and> list_all pattern_repr (pkg_patterns k)"

interpretation event_strict: strict_codec event_items "read_event s" event_ok "\<lambda>e. e" event_repr
proof
  fix P :: "'p parcel_ops" and unread p v r
  assume F: "parcel_fifo P unread" and v: "event_repr v" "\<not> event_ok v"
    and u: "unread p = event_items v @ r"
  from v have "ev_tag v = EVENT_TAG_UNKNOWN \<or> length (ev_points v) > 16"
    and "wrap32 (int (length (ev_points v))) = int (length (ev_points v))"
    by (auto simp: event_ok_def event_repr_def wire_limits wrap32_id)
  with F u show "read_event s P p = None"
    unfolding read_event_def event_items_def
    by (cases "ev_tag v") (auto simp: wire_limits intro!: fails_Int32)
qed

interpretation inner_pattern_strict:
  strict_codec pattern_items read_pattern pattern_ok "\<lambda>a. a" pattern_repr
  by unfold_locales (auto simp: pattern_items_def read_pattern_def pattern_ok_def pattern_repr_def
      wire_limits wrap32_id intro!: fails_Int32 event_strict.reject_loop)

interpretation package_strict:
  strict_codec package_items VibratePackage_Unmarshalling package_ok "\<lambda>k. k" package_repr
  by unfold_locales (auto simp: package_items_def VibratePackage_Unmarshalling_def package_ok_def
      package_repr_def wire_limits wrap32_id intro!: fails_Int32 inner_pattern_strict.reject_loop)

section \<open>Properties\<close>

text \<open>C10. Round trip: a vibration package within the limits of the wire format, marshalled into an
  empty parcel, is unmarshalled to the same package, with nothing left in the parcel.\<close>

theorem package_roundtrip:
  assumes "parcel_fifo P unread" and "package_ok k" and "unread p = []"
    and "VibratePackage_Marshalling P k p = Some p1"
  shows "\<exists>p2. VibratePackage_Unmarshalling P p1 = Some (k, p2) \<and> unread p2 = []"
  using assms(4) unfolding VibratePackage_Marshalling_def by (rule package_codec.roundtrip [OF assms(1-3)])

definition sample_event :: VibrateEvent where
  "sample_event = \<lparr>ev_tag = EVENT_TAG_CONTINUOUS, ev_time = 5, ev_duration = 60, ev_intensity = 80,
     ev_frequency = 50, ev_index = 0,
     ev_points = [\<lparr>cp_time = 0, cp_intensity = 10, cp_frequency = -3\<rparr>]\<rparr>"

definition sample_package :: VibratePackage where
  "sample_package = \<lparr>pkg_patterns = [\<lparr>pat_startTime = 10, pat_patternDuration = 70,
     pat_events = [sample_event, sample_event\<lparr>ev_tag := EVENT_TAG_TRANSIENT, ev_time := 90, ev_points := []\<rparr>]\<rparr>],
     pkg_packageDuration = 150\<rparr>"

lemmas sample_defs = sample_package_def sample_event_def package_ok_def pattern_ok_def event_ok_def
  package_repr_def pattern_repr_def event_repr_def wire_limits int32_def

lemma package_roundtrip_witness:
  "\<exists>p2. VibratePackage_Unmarshalling list_parcel (package_items sample_package) = Some (sample_package, p2) \<and> p2 = []"
  by (rule package_roundtrip [OF list_parcel_fifo, of sample_package "[]"])
    (simp_all add: VibratePackage_Marshalling_def sample_defs)

text \<open>The limits are exact: of the packages whose sizes the 32-bit counts can express, the
  receiver accepts just those with at most 1000 patterns, 16 events a pattern, 16 points an event
  and no event of unknown tag; every other package is turned down as a whole.\<close>

theorem package_accepted_iff:
  assumes "parcel_fifo P unread" and "package_repr k" and "unread p = []"
    and "VibratePackage_Marshalling P k p = Some p1"
  shows "(\<exists>w p2. VibratePackage_Unmarshalling P p1 = Some (w, p2)) \<longleftrightarrow> package_ok k"
  using assms(4) unfolding VibratePackage_Marshalling_def by (rule package_strict.accepted_iff [OF assms(1-3)])

lemma package_accepted_iff_witness:
  "(\<exists>w p2. VibratePackage_Unmarshalling list_parcel
       (package_items (sample_package\<lparr>pkg_patterns := [\<lparr>pat_startTime = 0, pat_patternDuration = 0,
          pat_events = replicate 17 sample_event\<rparr>]\<rparr>)) = Some (w, p2)) \<longleftrightarrow> False"
proof -
  have "package_ok (sample_package\<lparr>pkg_patterns := [\<lparr>pat_startTime = 0, pat_patternDuration = 0,
          pat_events = replicate 17 sample_event\<rparr>]\<rparr>) = False"
    by (simp add: sample_defs)
  then show ?thesis
    using package_accepted_iff [OF list_parcel_fifo, of "sample_package\<lparr>pkg_patterns :=
        [\<lparr>pat_startTime = 0, pat_patternDuration = 0, pat_events = replicate 17 sample_event\<rparr>]\<rparr>" "[]"]
    by (simp add: VibratePackage_Marshalling_def sample_defs list_all_iff)
qed

text \<open>C11. Whatever the contents of a parcel and however its operations behave, a package that
  \<^verbatim>\<open>VibratePackage::Unmarshalling\<close> accepts respects the limits, so the arrays that the service
  goes on to walk are bounded by 1000 patterns of 16 events of 16 points.\<close>

theorem package_from_any_parcel_bounded:
  assumes "VibratePackage_Unmarshalling P p = Some (k, p')"
  shows "length (pkg_patterns k) \<le> 1000 \<and>
    (\<forall>a\<in>set (pkg_patterns k). length (pat_events a) \<le> 16 \<and>
       (\<forall>e\<in>set (pat_events a). ev_tag e \<noteq> EVENT_TAG_UNKNOWN \<and> length (ev_points e) \<le> 16))"
  using VibratePackage_Unmarshalling_ok [OF assms]
  by (auto simp: package_ok_def pattern_ok_def event_ok_def wire_limits list_all_iff)

lemma package_from_any_parcel_bounded_witness:
  "length (pkg_patterns sample_package) \<le> 1000 \<and>
     length (pat_events (hd (pkg_patterns sample_package))) \<le> 16"
proof -
  obtain p2 where "VibratePackage_Unmarshalling list_parcel (package_items sample_package) = Some (sample_package, p2)"
    using package_codec.roundtrip [OF list_parcel_fifo, of sample_package "[]" "package_items sample_package"]
    by (auto simp: sample_defs)
  from package_from_any_parcel_bounded [OF this] show ?thesis
    by (simp add: sample_package_def)
qed

end
