(* ===== verification/IpcInfos.thy ===== *)
theory IpcInfos
  imports Marshalling
begin

text \<open>
  The flat messages of \<^verbatim>\<open>utils/common/src/vibrator_infos.cpp\<close>, \<^verbatim>\<open>light_info_ipc.cpp\<close> and
  \<^verbatim>\<open>light_animation_ipc.cpp\<close>: no array, no check beyond the success of each read. Several of
  them do not send all their fields; a freshly created object keeps the header's initial
  values in the fields that are not read, and the last argument of each interpretation of
  \<open>parcel_codec\<close> says which these are.
\<close>

section \<open>Vibrator messages\<close>

definition VibratorCapacity_items :: "VibratorCapacity \<Rightarrow> item list" where
  "VibratorCapacity_items c =
     [Boolean (isSupportHdHaptic c), Boolean (isSupportPresetMapping c), Boolean (isSupportTimeDelay c)]"

definition VibratorCapacity_Unmarshalling :: "'p parcel_ops \<Rightarrow> 'p \<Rightarrow> (VibratorCapacity \<times> 'p) option" where
  "VibratorCapacity_Unmarshalling P p =
     do { (h, p) \<leftarrow> ReadBool P p; (m, p) \<leftarrow> ReadBool P p; (d, p) \<leftarrow> ReadBool P p;
          Some (\<lparr>isSupportHdHaptic = h, isSupportPresetMapping = m, isSupportTimeDelay = d\<rparr>, p) }"

definition VibrateParameter_items :: "VibrateParameter \<Rightarrow> item list" where
  "VibrateParameter_items v = [Int32 (vp_intensity v), Int32 (vp_frequency v)]"

definition VibrateParameter_Unmarshalling :: "'p parcel_ops \<Rightarrow> 'p \<Rightarrow> (VibrateParameter \<times> 'p) option" where
  "VibrateParameter_Unmarshalling P p =
     do { (i, p) \<leftarrow> ReadInt32 P p; (f, p) \<leftarrow> ReadInt32 P p;
          Some (default_parameter\<lparr>vp_intensity := i, vp_frequency := f\<rparr>, p) }"

definition VibratorInfoIPC_items :: "VibratorInfoIPC \<Rightarrow> item list" where
  "VibratorInfoIPC_items v =
     [Int32 (info_deviceId v), Int32 (info_vibratorId v), Text (info_deviceName v),
      Boolean (info_isSupportHdHaptic v), Boolean (info_isLocalVibrator v)]"

definition VibratorInfoIPC_Unmarshalling :: "'p parcel_ops \<Rightarrow> 'p \<Rightarrow> (VibratorInfoIPC \<times> 'p) option" where
  "VibratorInfoIPC_Unmarshalling P p =
     do { (d, p) \<leftarrow> ReadInt32 P p; (v, p) \<leftarrow> ReadInt32 P p; (n, p) \<leftarrow> ReadString P p;
          (h, p) \<leftarrow> ReadBool P p; (l, p) \<leftarrow> ReadBool P p;
          Some (\<lparr>info_deviceId = d, info_vibratorId = v, info_deviceName = n,
                 info_isSupportHdHaptic = h, info_isLocalVibrator = l, info_position = 0\<rparr>, p) }"

definition VibratorIdentifierIPC_items :: "VibratorIdentifierIPC \<Rightarrow> item list" where
  "VibratorIdentifierIPC_items v = [Int32 (id_deviceId v), Int32 (id_vibratorId v)]"

definition VibratorIdentifierIPC_Unmarshalling ::
    "'p parcel_ops \<Rightarrow> 'p \<Rightarrow> (VibratorIdentifierIPC \<times> 'p) option" where
  "VibratorIdentifierIPC_Unmarshalling P p =
     do { (d, p) \<leftarrow> ReadInt32 P p; (v, p) \<leftarrow> ReadInt32 P p;
          Some (\<lparr>id_deviceId = d, id_vibratorId = v, id_position = 0, id_isLocalVibrator = False\<rparr>, p) }"

definition EffectInfoIPC_items :: "EffectInfoIPC \<Rightarrow> item list" where
  "EffectInfoIPC_items v = [Int32 (ei_duration v), Boolean (ei_isSupportEffect v)]"

definition EffectInfoIPC_Unmarshalling :: "'p parcel_ops \<Rightarrow> 'p \<Rightarrow> (EffectInfoIPC \<times> 'p) option" where
  "EffectInfoIPC_Unmarshalling P p =
     do { (d, p) \<leftarrow> ReadInt32 P p; (s, p) \<leftarrow> ReadBool P p;
          Some (\<lparr>ei_duration = d, ei_isSupportEffect = s\<rparr>, p) }"

definition CustomHapticInfoIPC_items :: "CustomHapticInfoIPC \<Rightarrow> item list" where
  "CustomHapticInfoIPC_items v =
     [Int32 (ch_usage v), Boolean (ch_systemUsage v), Uint32 (vp_sessionId (ch_parameter v)),
      Int32 (vp_intensity (ch_parameter v)), Int32 (vp_frequency (ch_parameter v)),
      Int32 (vp_reserved (ch_parameter v))]"

definition CustomHapticInfoIPC_Unmarshalling ::
    "'p parcel_ops \<Rightarrow> 'p \<Rightarrow> (CustomHapticInfoIPC \<times> 'p) option" where
  "CustomHapticInfoIPC_Unmarshalling P p =
     do { (u, p) \<leftarrow> ReadInt32 P p; (y, p) \<leftarrow> ReadBool P p; (s, p) \<leftarrow> ReadUint32 P p;
          (i, p) \<leftarrow> ReadInt32 P p; (f, p) \<leftarrow> ReadInt32 P p; (r, p) \<leftarrow> ReadInt32 P p;
          Some (\<lparr>ch_usage = u, ch_systemUsage = y, ch_parameter =
                  \<lparr>vp_intensity = i, vp_frequency = f, vp_reserved = r, vp_sessionId = s\<rparr>\<rparr>, p) }"

definition PrimitiveEffectIPC_items :: "PrimitiveEffectIPC \<Rightarrow> item list" where
  "PrimitiveEffectIPC_items v =
     [Int32 (pe_intensity v), Int32 (pe_usage v), Boolean (pe_systemUsage v), Int32 (pe_count v)]"

definition PrimitiveEffectIPC_Unmarshalling ::
    "'p parcel_ops \<Rightarrow> 'p \<Rightarrow> (PrimitiveEffectIPC \<times> 'p) option" where
  "PrimitiveEffectIPC_Unmarshalling P p =
     do { (i, p) \<leftarrow> ReadInt32 P p; (u, p) \<leftarrow> ReadInt32 P p; (y, p) \<leftarrow> ReadBool P p;
          (c, p) \<leftarrow> ReadInt32 P p;
          Some (\<lparr>pe_intensity = i, pe_usage = u, pe_systemUsage = y, pe_count = c\<rparr>, p) }"

section \<open>Light messages\<close>

record LightInfoIPC =
  li_lightName :: string
  li_lightId :: int
  li_lightNumber :: int
  li_lightType :: int

record LightAnimationIPC =
  la_mode :: int
  la_onTime :: int
  la_offTime :: int

definition LightInfoIPC_items :: "LightInfoIPC \<Rightarrow> item list" where
  "LightInfoIPC_items v =
     [Text (li_lightName v), Int32 (li_lightId v), Int32 (li_lightNumber v), Int32 (li_lightType v)]"

definition LightInfoIPC_Unmarshalling :: "'p parcel_ops \<Rightarrow> 'p \<Rightarrow> (LightInfoIPC \<times> 'p) option" where
  "LightInfoIPC_Unmarshalling P p =
     do { (n, p) \<leftarrow> ReadString P p; (i, p) \<leftarrow> ReadInt32 P p; (k, p) \<leftarrow> ReadInt32 P p;
          (t, p) \<leftarrow> ReadInt32 P p;
          Some (\<lparr>li_lightName = n, li_lightId = i, li_lightNumber = k, li_lightType = t\<rparr>, p) }"

definition LightAnimationIPC_items :: "LightAnimationIPC \<Rightarrow> item list" where
  "LightAnimationIPC_items v = [Int32 (la_mode v), Int32 (la_onTime v), Int32 (la_offTime v)]"

definition LightAnimationIPC_Unmarshalling ::
    "'p parcel_ops \<Rightarrow> 'p \<Rightarrow> (LightAnimationIPC \<times> 'p) option" where
  "LightAnimationIPC_Unmarshalling P p =
     do { (m, p) \<leftarrow> ReadInt32 P p; (n, p) \<leftarrow> ReadInt32 P p; (f, p) \<leftarrow> ReadInt32 P p;
          Some (\<lparr>la_mode = m, la_onTime = n, la_offTime = f\<rparr>, p) }"

section \<open>The contract\<close>

interpretation capacity_codec:
  parcel_codec VibratorCapacity_items VibratorCapacity_Unmarshalling "\<lambda>_. True" "\<lambda>v. v"
  by unfold_locales
    (auto simp: VibratorCapacity_items_def VibratorCapacity_Unmarshalling_def intro!: reads_intro)

interpretation parameter_codec:
  parcel_codec VibrateParameter_items VibrateParameter_Unmarshalling "\<lambda>_. True"
    "\<lambda>v. v\<lparr>vp_reserved := 0, vp_sessionId := 0\<rparr>"
  by unfold_locales
    (auto simp: VibrateParameter_items_def VibrateParameter_Unmarshalling_def default_parameter_def
      intro!: reads_intro)

interpretation info_codec:
  parcel_codec VibratorInfoIPC_items VibratorInfoIPC_Unmarshalling "\<lambda>_. True"
    "\<lambda>v. v\<lparr>info_position := 0\<rparr>"
  by unfold_locales
    (auto simp: VibratorInfoIPC_items_def VibratorInfoIPC_Unmarshalling_def intro!: reads_intro)

interpretation identifier_codec:
  parcel_codec VibratorIdentifierIPC_items VibratorIdentifierIPC_Unmarshalling "\<lambda>_. True"
    "\<lambda>v. mk_identifier (id_deviceId v) (id_vibratorId v)"
  by unfold_locales
    (auto simp: VibratorIdentifierIPC_items_def VibratorIdentifierIPC_Unmarshalling_def mk_identifier_def
      intro!: reads_intro)

interpretation effect_codec:
  parcel_codec EffectInfoIPC_items EffectInfoIPC_Unmarshalling "\<lambda>_. True" "\<lambda>v. v"
  by unfold_locales (auto simp: EffectInfoIPC_items_def EffectInfoIPC_Unmarshalling_def intro!: reads_intro)

interpretation haptic_codec:
  parcel_codec CustomHapticInfoIPC_items CustomHapticInfoIPC_Unmarshalling "\<lambda>_. True" "\<lambda>v. v"
  by unfold_locales
    (auto simp: CustomHapticInfoIPC_items_def CustomHapticInfoIPC_Unmarshalling_def intro!: reads_intro)

interpretation primitive_codec:
  parcel_codec PrimitiveEffectIPC_items PrimitiveEffectIPC_Unmarshalling "\<lambda>_. True" "\<lambda>v. v"
  by unfold_locales
    (auto simp: PrimitiveEffectIPC_items_def PrimitiveEffectIPC_Unmarshalling_def intro!: reads_intro)

interpretation light_codec:
  parcel_codec LightInfoIPC_items LightInfoIPC_Unmarshalling "\<lambda>_. True" "\<lambda>v. v"
  by unfold_locales
    (auto simp: LightInfoIPC_items_def LightInfoIPC_Unmarshalling_def intro!: reads_intro)

interpretation animation_codec:
  parcel_codec LightAnimationIPC_items LightAnimationIPC_Unmarshalling "\<lambda>_. True" "\<lambda>v. v"
  by unfold_locales
    (auto simp: LightAnimationIPC_items_def LightAnimationIPC_Unmarshalling_def intro!: reads_intro)

section \<open>Properties\<close>

text \<open>The position of a vibrator never crosses a process boundary: a description sent with
  \<^verbatim>\<open>VibratorInfoIPC::Marshalling\<close> arrives with every other field intact and position 0, whatever
  the sender's position was.\<close>

theorem info_roundtrip_drops_position:
  assumes "parcel_fifo P unread" and "unread p = []"
    and "write_items P (VibratorInfoIPC_items v) p = Some p1"
  shows "\<exists>p2. VibratorInfoIPC_Unmarshalling P p1 = Some (v\<lparr>info_position := 0\<rparr>, p2) \<and> unread p2 = []"
  by (rule info_codec.roundtrip [OF assms(1) TrueI assms(2,3)])

lemma info_roundtrip_drops_position_witness:
  "\<exists>p2. VibratorInfoIPC_Unmarshalling list_parcel
      [Int32 1, Int32 2, Text ''motor'', Boolean True, Boolean True]
    = Some (\<lparr>info_deviceId = 1, info_vibratorId = 2, info_deviceName = ''motor'',
        info_isSupportHdHaptic = True, info_isLocalVibrator = True, info_position = 0\<rparr>, p2) \<and> p2 = []"
  using info_roundtrip_drops_position [OF list_parcel_fifo refl write_items_list_parcel, of
      "\<lparr>info_deviceId = 1, info_vibratorId = 2, info_deviceName = ''motor'',
        info_isSupportHdHaptic = True, info_isLocalVibrator = True, info_position = 3\<rparr>"]
  by (simp add: VibratorInfoIPC_items_def)

text \<open>A custom haptic request arrives complete, session and reserved field included, whereas a
  bare \<^verbatim>\<open>VibrateParameter\<close> loses both.\<close>

theorem haptic_and_parameter_roundtrip:
  assumes "parcel_fifo P unread" and "unread p = []" and "unread q = []"
    and "write_items P (CustomHapticInfoIPC_items h) p = Some p1"
    and "write_items P (VibrateParameter_items (ch_parameter h)) q = Some q1"
  shows "(\<exists>p2. CustomHapticInfoIPC_Unmarshalling P p1 = Some (h, p2) \<and> unread p2 = []) \<and>
    (\<exists>q2. VibrateParameter_Unmarshalling P q1
       = Some ((ch_parameter h)\<lparr>vp_reserved := 0, vp_sessionId := 0\<rparr>, q2) \<and> unread q2 = [])"
  by (rule conjI, rule haptic_codec.roundtrip [OF assms(1) TrueI assms(2,4)],
      rule parameter_codec.roundtrip [OF assms(1) TrueI assms(3,5)])

lemma haptic_and_parameter_roundtrip_witness:
  "(\<exists>p2. CustomHapticInfoIPC_Unmarshalling list_parcel
       [Int32 1, Boolean False, Uint32 7, Int32 90, Int32 (-5), Int32 4]
     = Some (\<lparr>ch_usage = 1, ch_systemUsage = False, ch_parameter =
         \<lparr>vp_intensity = 90, vp_frequency = -5, vp_reserved = 4, vp_sessionId = 7\<rparr>\<rparr>, p2) \<and> p2 = []) \<and>
   (\<exists>q2. VibrateParameter_Unmarshalling list_parcel [Int32 90, Int32 (-5)]
     = Some (\<lparr>vp_intensity = 90, vp_frequency = -5, vp_reserved = 0, vp_sessionId = 0\<rparr>, q2) \<and> q2 = [])"
  using haptic_and_parameter_roundtrip [OF list_parcel_fifo refl refl write_items_list_parcel write_items_list_parcel, of
      "\<lparr>ch_usage = 1, ch_systemUsage = False, ch_parameter =
         \<lparr>vp_intensity = 90, vp_frequency = -5, vp_reserved = 4, vp_sessionId = 7\<rparr>\<rparr>"]
  by (simp add: CustomHapticInfoIPC_items_def VibrateParameter_items_def)

end
