(* ===== verification/Lights.thy ===== *)
theory Lights
  imports IpcInfos
begin

text \<open>
  The lights of the service: the driver connection and the mock connection behind
  \<^verbatim>\<open>ILightHdiConnection\<close>, \<^verbatim>\<open>services/miscdevice_service/hdi_connection\<close>, and the light handlers
  of \<^verbatim>\<open>miscdevice_service.cpp\<close>. The state of the light service is separate from that of the
  vibrator service, with which it shares nothing.
\<close>

section \<open>The driver\<close>

record HdfLightInfo =
  hli_lightName :: string
  hli_lightId :: int
  hli_lightNumber :: int
  hli_lightType :: int

record HdfLightEffect =
  hle_singleColor :: int
  hle_flashMode :: int
  hle_onTime :: int
  hle_offTime :: int

text \<open>The operations of \<^verbatim>\<open>ILightInterface\<close> on the driver's state.\<close>

record 'd light_driver =
  ld_GetLightInfo :: "'d \<Rightarrow> int \<times> HdfLightInfo list"
  ld_TurnOnLight :: "int \<Rightarrow> HdfLightEffect \<Rightarrow> 'd \<Rightarrow> int \<times> 'd"
  ld_TurnOffLight :: "int \<Rightarrow> 'd \<Rightarrow> int \<times> 'd"
  ld_AddDeathRecipient :: "'d \<Rightarrow> 'd"
  ld_RemoveDeathRecipient :: "'d \<Rightarrow> 'd"

section \<open>The driver connection\<close>

text \<open>\<^verbatim>\<open>HdiLightConnection\<close>: whether the interface and the observer are there, and the driver.\<close>

record 'd hdi_light =
  hl_interface :: bool
  hl_observer :: bool
  hl_driver :: 'd

definition HL_RegisterHdiDeathRecipient :: "'d light_driver \<Rightarrow> 'd hdi_light \<Rightarrow> 'd hdi_light" where
  "HL_RegisterHdiDeathRecipient D c =
     (if \<not> hl_interface c then c
      else c\<lparr>hl_observer := True, hl_driver := ld_AddDeathRecipient D (hl_driver c)\<rparr>)"

definition HL_UnregisterHdiDeathRecipient :: "'d light_driver \<Rightarrow> 'd hdi_light \<Rightarrow> 'd hdi_light" where
  "HL_UnregisterHdiDeathRecipient D c =
     (if \<not> hl_interface c \<or> \<not> hl_observer c then c else c\<lparr>hl_driver := ld_RemoveDeathRecipient D (hl_driver c)\<rparr>)"

text \<open>The driver service is asked for ten times; the list holds the answers.\<close>

fun HL_connect_loop :: "'d light_driver \<Rightarrow> bool list \<Rightarrow> 'd hdi_light \<Rightarrow> errcode \<times> 'd hdi_light" where
  "HL_connect_loop D [] c = (ERR_INVALID_VALUE, c)"
| "HL_connect_loop D (b # bs) c =
     (let c = c\<lparr>hl_interface := b\<rparr>
      in if b then (ERR_OK, HL_RegisterHdiDeathRecipient D c) else HL_connect_loop D bs c)"

definition HL_ConnectHdi :: "'d light_driver \<Rightarrow> bool list \<Rightarrow> 'd hdi_light \<Rightarrow> errcode \<times> 'd hdi_light" where
  "HL_ConnectHdi D found c = HL_connect_loop D (take 10 found) c"

definition HL_GetLightList :: "'d light_driver \<Rightarrow> 'd hdi_light \<Rightarrow> LightInfoIPC list \<Rightarrow> errcode \<times> LightInfoIPC list" where
  "HL_GetLightList D c lights =
     (if \<not> hl_interface c then (ERROR, lights)
      else let (ret, infos) = ld_GetLightInfo D (hl_driver c)
        in if ret \<noteq> 0 then (Errno ret, lights)
           else (ERR_OK, lights @ map (\<lambda>v. \<lparr>li_lightName = hli_lightName v, li_lightId = hli_lightId v,
                   li_lightNumber = hli_lightNumber v, li_lightType = hli_lightType v\<rparr>) infos))"

definition HL_TurnOn ::
    "'d light_driver \<Rightarrow> int \<Rightarrow> int \<Rightarrow> LightAnimationIPC \<Rightarrow> 'd hdi_light \<Rightarrow> errcode \<times> 'd hdi_light" where
  "HL_TurnOn D lightId singleColor a c =
     (if \<not> hl_interface c then (ERROR, c)
      else let (ret, d) = ld_TurnOnLight D lightId \<lparr>hle_singleColor = singleColor, hle_flashMode = la_mode a,
                 hle_onTime = la_onTime a, hle_offTime = la_offTime a\<rparr> (hl_driver c)
        in (if ret < 0 then Errno ret else ERR_OK, c\<lparr>hl_driver := d\<rparr>))"

definition HL_TurnOff :: "'d light_driver \<Rightarrow> int \<Rightarrow> 'd hdi_light \<Rightarrow> errcode \<times> 'd hdi_light" where
  "HL_TurnOff D lightId c =
     (if \<not> hl_interface c then (ERROR, c)
      else let (ret, d) = ld_TurnOffLight D lightId (hl_driver c)
        in (if ret < 0 then Errno ret else ERR_OK, c\<lparr>hl_driver := d\<rparr>))"

definition HL_DestroyHdiConnection :: "'d light_driver \<Rightarrow> 'd hdi_light \<Rightarrow> errcode \<times> 'd hdi_light" where
  "HL_DestroyHdiConnection D c = (ERR_OK, HL_UnregisterHdiDeathRecipient D c)"

definition HL_Reconnect :: "'d light_driver \<Rightarrow> bool list \<Rightarrow> 'd hdi_light \<Rightarrow> 'd hdi_light" where
  "HL_Reconnect D found c = snd (HL_ConnectHdi D found c)"

definition HL_ProcessDeathObserver :: "'d light_driver \<Rightarrow> bool list \<Rightarrow> bool \<Rightarrow> 'd hdi_light \<Rightarrow> 'd hdi_light" where
  "HL_ProcessDeathObserver D found promoted c =
     (if \<not> promoted \<or> \<not> hl_observer c then c
      else HL_Reconnect D found (c\<lparr>hl_driver := ld_RemoveDeathRecipient D (hl_driver c)\<rparr>))"

section \<open>The mock connection\<close>

text \<open>\<^verbatim>\<open>CompatibleLightConnection\<close> keeps the list of lights that are on.\<close>

definition mock_lights :: "LightInfoIPC list" where
  "mock_lights = [\<lparr>li_lightName = ''light_test'', li_lightId = 1, li_lightNumber = 3, li_lightType = 1\<rparr>]"

definition supportLights :: "int list" where
  "supportLights = [1]"

definition CLC_GetLightList :: "LightInfoIPC list \<Rightarrow> errcode \<times> LightInfoIPC list" where
  "CLC_GetLightList lights = (ERR_OK, lights @ mock_lights)"

definition LIGHT_MODE_BLINK :: int where "LIGHT_MODE_BLINK = 1"
definition LIGHT_MODE_GRADIENT :: int where "LIGHT_MODE_GRADIENT = 2"
definition LIGHT_MODE_BUTT :: int where "LIGHT_MODE_BUTT = 3"

definition CLC_TurnOn :: "int \<Rightarrow> int \<Rightarrow> LightAnimationIPC \<Rightarrow> int list \<Rightarrow> errcode \<times> int list" where
  "CLC_TurnOn lightId singleColor a on =
     (if lightId \<notin> set supportLights then (LIGHT_ID_NOT_SUPPORT, on)
      else if (la_mode a = LIGHT_MODE_BLINK \<or> la_mode a = LIGHT_MODE_GRADIENT) \<and> (la_onTime a \<le> 0 \<or> la_offTime a \<le> 0)
        then (LIGHT_ERR, on)
      else if lightId \<in> set on then (ERR_OK, on)
      else (ERR_OK, on @ [lightId]))"

definition CLC_TurnOff :: "int \<Rightarrow> int list \<Rightarrow> errcode \<times> int list" where
  "CLC_TurnOff lightId on =
     (if lightId \<notin> set supportLights then (LIGHT_ID_NOT_SUPPORT, on)
      else if lightId \<notin> set on then (LIGHT_END_ERROR, on)
      else (ERR_OK, remove1 lightId on))"

section \<open>The connection of the service\<close>

text \<open>The object behind \<^verbatim>\<open>ILightHdiConnection\<close>.\<close>

datatype 'd light_connection = HdiLight "'d hdi_light" | CompatibleLight "int list"

fun con_ConnectHdi :: "'d light_driver \<Rightarrow> bool list \<Rightarrow> 'd light_connection \<Rightarrow> errcode \<times> 'd light_connection" where
  "con_ConnectHdi D found (HdiLight c) = (let (ret, c) = HL_ConnectHdi D found c in (ret, HdiLight c))"
| "con_ConnectHdi D found (CompatibleLight on) = (ERR_OK, CompatibleLight on)"

fun con_GetLightList :: "'d light_driver \<Rightarrow> 'd light_connection \<Rightarrow> LightInfoIPC list \<Rightarrow> errcode \<times> LightInfoIPC list" where
  "con_GetLightList D (HdiLight c) lights = HL_GetLightList D c lights"
| "con_GetLightList D (CompatibleLight on) lights = CLC_GetLightList lights"

fun con_TurnOn ::
    "'d light_driver \<Rightarrow> int \<Rightarrow> int \<Rightarrow> LightAnimationIPC \<Rightarrow> 'd light_connection \<Rightarrow> errcode \<times> 'd light_connection" where
  "con_TurnOn D i color a (HdiLight c) = (let (ret, c) = HL_TurnOn D i color a c in (ret, HdiLight c))"
| "con_TurnOn D i color a (CompatibleLight on) = (let (ret, on) = CLC_TurnOn i color a on in (ret, CompatibleLight on))"

fun con_TurnOff :: "'d light_driver \<Rightarrow> int \<Rightarrow> 'd light_connection \<Rightarrow> errcode \<times> 'd light_connection" where
  "con_TurnOff D i (HdiLight c) = (let (ret, c) = HL_TurnOff D i c in (ret, HdiLight c))"
| "con_TurnOff D i (CompatibleLight on) = (let (ret, on) = CLC_TurnOff i on in (ret, CompatibleLight on))"

fun con_DestroyHdiConnection :: "'d light_driver \<Rightarrow> 'd light_connection \<Rightarrow> errcode \<times> 'd light_connection" where
  "con_DestroyHdiConnection D (HdiLight c) = (let (ret, c) = HL_DestroyHdiConnection D c in (ret, HdiLight c))"
| "con_DestroyHdiConnection D (CompatibleLight on) = (ERR_OK, CompatibleLight on)"

text \<open>\<^verbatim>\<open>LightHdiConnection\<close>, a singleton: the connection, if there is one, and the lights it has listed.\<close>

record 'd light_hdi =
  lh_connection :: "'d light_connection option"
  lh_lights :: "LightInfoIPC list"

definition LHC_ConnectHdiService :: "'d light_driver \<Rightarrow> bool list \<Rightarrow> 'd light_hdi \<Rightarrow> errcode \<times> 'd light_hdi" where
  "LHC_ConnectHdiService D found h =
     (case lh_connection h of
        None \<Rightarrow> (ERROR, h)
      | Some c \<Rightarrow>
          let (ret, c) = con_ConnectHdi D found c; h = h\<lparr>lh_connection := Some c\<rparr> in
          if ret \<noteq> ERR_OK then (LIGHT_HDF_CONNECT_ERR, h)
          else let (ret, lights) = con_GetLightList D c (lh_lights h) in (ret, h\<lparr>lh_lights := lights\<rparr>))"

text \<open>A new driver connection, over the driver in its current state, and the mock when it fails.\<close>

definition LHC_ConnectHdi :: "'d light_driver \<Rightarrow> 'd \<Rightarrow> bool list \<Rightarrow> 'd light_hdi \<Rightarrow> errcode \<times> 'd light_hdi" where
  "LHC_ConnectHdi D d found h =
     (let (ret, h) = LHC_ConnectHdiService D found
            (h\<lparr>lh_connection := Some (HdiLight \<lparr>hl_interface = False, hl_observer = False, hl_driver = d\<rparr>)\<rparr>) in
      if ret = ERR_OK then (ERR_OK, h)
      else LHC_ConnectHdiService D found (h\<lparr>lh_connection := Some (CompatibleLight [])\<rparr>))"

definition LHC_GetLightList :: "'d light_hdi \<Rightarrow> errcode \<times> LightInfoIPC list" where
  "LHC_GetLightList h = (ERR_OK, lh_lights h)"

definition LHC_TurnOn ::
    "'d light_driver \<Rightarrow> int \<Rightarrow> int \<Rightarrow> LightAnimationIPC \<Rightarrow> 'd light_hdi \<Rightarrow> errcode \<times> 'd light_hdi" where
  "LHC_TurnOn D i color a h =
     (case lh_connection h of
        None \<Rightarrow> (ERROR, h)
      | Some c \<Rightarrow> let (ret, c) = con_TurnOn D i color a c
          in (if ret \<noteq> ERR_OK then LIGHT_ID_NOT_SUPPORT else ERR_OK, h\<lparr>lh_connection := Some c\<rparr>))"

definition LHC_TurnOff :: "'d light_driver \<Rightarrow> int \<Rightarrow> 'd light_hdi \<Rightarrow> errcode \<times> 'd light_hdi" where
  "LHC_TurnOff D i h =
     (case lh_connection h of
        None \<Rightarrow> (ERROR, h)
      | Some c \<Rightarrow> let (ret, c) = con_TurnOff D i c
          in (if ret \<noteq> ERR_OK then LIGHT_ERR else ERR_OK, h\<lparr>lh_connection := Some c\<rparr>))"

definition LHC_DestroyHdiConnection :: "'d light_driver \<Rightarrow> 'd light_hdi \<Rightarrow> errcode \<times> 'd light_hdi" where
  "LHC_DestroyHdiConnection D h =
     (case lh_connection h of
        None \<Rightarrow> (ERROR, h)
      | Some c \<Rightarrow> let (ret, c) = con_DestroyHdiConnection D c
          in (if ret \<noteq> ERR_OK then LIGHT_HDF_CONNECT_ERR else ERR_OK, h\<lparr>lh_connection := Some c\<rparr>))"

section \<open>The handlers of the service\<close>

record 'd light_service =
  ls_infos :: "LightInfoIPC list"
  ls_connection :: "'d light_hdi"

definition InitLightInterface :: "'d light_driver \<Rightarrow> 'd \<Rightarrow> bool list \<Rightarrow> 'd light_service \<Rightarrow> bool \<times> 'd light_service" where
  "InitLightInterface D d found s =
     (let (ret, h) = LHC_ConnectHdi D d found (ls_connection s) in (ret = ERR_OK, s\<lparr>ls_connection := h\<rparr>))"

definition IsValid :: "int \<Rightarrow> 'd light_service \<Rightarrow> bool" where
  "IsValid lightId s \<longleftrightarrow> list_ex (\<lambda>item. lightId = li_lightId item) (ls_infos s)"

definition IsLightAnimationValid :: "LightAnimationIPC \<Rightarrow> bool" where
  "IsLightAnimationValid a \<longleftrightarrow>
     \<not> (la_mode a < 0 \<or> la_mode a \<ge> LIGHT_MODE_BUTT) \<and> \<not> (la_onTime a < 0 \<or> la_offTime a < 0)"

definition Light_GetLightList :: "'d light_service \<Rightarrow> (errcode \<times> LightInfoIPC list) \<times> 'd light_service" where
  "Light_GetLightList s =
     (let s = s\<lparr>ls_infos := snd (LHC_GetLightList (ls_connection s))\<rparr> in ((ERR_OK, take 255 (ls_infos s)), s))"

definition Light_TurnOn ::
    "'d light_driver \<Rightarrow> bool \<Rightarrow> int \<Rightarrow> int \<Rightarrow> LightAnimationIPC \<Rightarrow> 'd light_service \<Rightarrow> errcode \<times> 'd light_service" where
  "Light_TurnOn D permission lightId singleColor a s =
     (if \<not> permission then (PERMISSION_DENIED, s)
      else if \<not> IsValid lightId s then (MISCDEVICE_NATIVE_SAM_ERR, s)
      else if \<not> IsLightAnimationValid a then (MISCDEVICE_NATIVE_SAM_ERR, s)
      else let (ret, h) = LHC_TurnOn D lightId singleColor a (ls_connection s)
        in (if ret \<noteq> ERR_OK then ERROR else ret, s\<lparr>ls_connection := h\<rparr>))"

definition Light_TurnOff ::
    "'d light_driver \<Rightarrow> bool \<Rightarrow> int \<Rightarrow> 'd light_service \<Rightarrow> errcode \<times> 'd light_service" where
  "Light_TurnOff D permission lightId s =
     (if \<not> permission then (PERMISSION_DENIED, s)
      else if \<not> IsValid lightId s then (MISCDEVICE_NATIVE_SAM_ERR, s)
      else let (ret, h) = LHC_TurnOff D lightId (ls_connection s)
        in (if ret \<noteq> ERR_OK then ERROR else ret, s\<lparr>ls_connection := h\<rparr>))"

section \<open>The contract of a light device\<close>

datatype light_request = TurnLightOn int int LightAnimationIPC | TurnLightOff int

fun light_step ::
    "(int \<Rightarrow> int \<Rightarrow> LightAnimationIPC \<Rightarrow> 'c \<Rightarrow> errcode \<times> 'c) \<Rightarrow> (int \<Rightarrow> 'c \<Rightarrow> errcode \<times> 'c) \<Rightarrow> light_request \<Rightarrow> 'c \<Rightarrow> errcode \<times> 'c" where
  "light_step on off (TurnLightOn i color a) c = on i color a c"
| "light_step on off (TurnLightOff i) c = off i c"

fun light_run ::
    "(int \<Rightarrow> int \<Rightarrow> LightAnimationIPC \<Rightarrow> 'c \<Rightarrow> errcode \<times> 'c) \<Rightarrow> (int \<Rightarrow> 'c \<Rightarrow> errcode \<times> 'c) \<Rightarrow> light_request list \<Rightarrow> 'c
      \<Rightarrow> errcode list \<times> 'c" where
  "light_run on off [] c = ([], c)"
| "light_run on off (r # rs) c =
     (let (e, c) = light_step on off r c; (es, c) = light_run on off rs c in (e # es, c))"

text \<open>The lights that are on after requests with these results: the last accepted request for a light decides.\<close>

fun lit_by :: "light_request \<Rightarrow> int set \<Rightarrow> int set" where
  "lit_by (TurnLightOn i color a) L = insert i L"
| "lit_by (TurnLightOff i) L = L - {i}"

fun lit_after :: "light_request list \<Rightarrow> errcode list \<Rightarrow> int set \<Rightarrow> int set" where
  "lit_after (r # rs) (e # es) L = lit_after rs es (if e = ERR_OK then lit_by r L else L)"
| "lit_after _ _ L = L"

locale light_device =
  fixes turn_on :: "int \<Rightarrow> int \<Rightarrow> LightAnimationIPC \<Rightarrow> 'c \<Rightarrow> errcode \<times> 'c"
    and turn_off :: "int \<Rightarrow> 'c \<Rightarrow> errcode \<times> 'c"
    and lit :: "'c \<Rightarrow> int set"
    and ok :: "'c \<Rightarrow> bool"
  assumes on_lit: "ok c \<Longrightarrow> turn_on i color a c = (e, c') \<Longrightarrow> ok c' \<and> lit c' = (if e = ERR_OK then insert i (lit c) else lit c)"
    and off_lit: "ok c \<Longrightarrow> turn_off i c = (e, c') \<Longrightarrow> ok c' \<and> lit c' = (if e = ERR_OK then lit c - {i} else lit c)"
begin

lemma step_lit:
  "ok c \<Longrightarrow> light_step turn_on turn_off r c = (e, c') \<Longrightarrow> ok c' \<and> lit c' = (if e = ERR_OK then lit_by r (lit c) else lit c)"
  using on_lit [of c _ _ _ e c'] off_lit [of c _ e c'] by (cases r) simp_all

lemma run_lit:
  "ok c \<Longrightarrow> light_run turn_on turn_off rs c = (es, c') \<Longrightarrow> ok c' \<and> lit c' = lit_after rs es (lit c) \<and> length es = length rs"
proof (induction rs arbitrary: c es c')
  case (Cons r rs)
  obtain e c1 where s: "light_step turn_on turn_off r c = (e, c1)" by fastforce
  obtain es' c2 where rest: "light_run turn_on turn_off rs c1 = (es', c2)" by fastforce
  from step_lit [OF Cons.prems(1) s] Cons.IH [OF _ rest] Cons.prems(2) s rest show ?case by auto
qed simp

end

text \<open>A device behind another layer that hides it behind checks and other codes.\<close>

locale light_relay = light_device +
  fixes on2 :: "int \<Rightarrow> int \<Rightarrow> LightAnimationIPC \<Rightarrow> 'b \<Rightarrow> errcode \<times> 'b"
    and off2 :: "int \<Rightarrow> 'b \<Rightarrow> errcode \<times> 'b"
    and inner :: "'b \<Rightarrow> 'a"
    and ready :: "'b \<Rightarrow> bool"
  assumes on_relay: "ready b \<Longrightarrow> on2 i color a b = (e, b') \<Longrightarrow> ready b' \<and> (e \<noteq> ERR_OK \<and> inner b' = inner b \<or>
      (\<exists>e'. turn_on i color a (inner b) = (e', inner b') \<and> (e = ERR_OK \<longleftrightarrow> e' = ERR_OK)))"
    and off_relay: "ready b \<Longrightarrow> off2 i b = (e, b') \<Longrightarrow> ready b' \<and> (e \<noteq> ERR_OK \<and> inner b' = inner b \<or>
      (\<exists>e'. turn_off i (inner b) = (e', inner b') \<and> (e = ERR_OK \<longleftrightarrow> e' = ERR_OK)))"

sublocale light_relay \<subseteq> relayed: light_device on2 off2 "\<lambda>b. lit (inner b)" "\<lambda>b. ready b \<and> ok (inner b)"
proof unfold_locales
  fix b b' i color a e
  assume "ready b \<and> ok (inner b)" and "on2 i color a b = (e, b')"
  then show "(ready b' \<and> ok (inner b')) \<and> lit (inner b') = (if e = ERR_OK then insert i (lit (inner b)) else lit (inner b))"
    using on_relay [of b i color a e b'] on_lit [of "inner b" i color a _ "inner b'"] by auto
next
  fix b b' i e
  assume "ready b \<and> ok (inner b)" and "off2 i b = (e, b')"
  then show "(ready b' \<and> ok (inner b')) \<and> lit (inner b') = (if e = ERR_OK then lit (inner b) - {i} else lit (inner b))"
    using off_relay [of b i e b'] off_lit [of "inner b" i _ "inner b'"] by auto
qed

interpretation mock: light_device CLC_TurnOn CLC_TurnOff set distinct
  by unfold_locales (auto simp: CLC_TurnOn_def CLC_TurnOff_def split: if_splits)

text \<open>The lights that are on, for a service that is connected to the mock.\<close>

fun mock_of :: "'d light_connection option \<Rightarrow> int list" where
  "mock_of (Some (CompatibleLight on)) = on"
| "mock_of _ = []"

fun is_mock :: "'d light_connection option \<Rightarrow> bool" where
  "is_mock (Some (CompatibleLight on)) \<longleftrightarrow> True"
| "is_mock _ \<longleftrightarrow> False"

lemma is_mock_iff: "is_mock c \<longleftrightarrow> (\<exists>on. c = Some (CompatibleLight on))"
  by (cases c rule: is_mock.cases) auto

interpretation served: light_relay CLC_TurnOn CLC_TurnOff set distinct "Light_TurnOn D permission" "Light_TurnOff D permission"
    "\<lambda>s. mock_of (lh_connection (ls_connection s))" "\<lambda>s. is_mock (lh_connection (ls_connection s))"
  for D :: "'d light_driver" and permission
  by unfold_locales
    (auto simp: Light_TurnOn_def Light_TurnOff_def LHC_TurnOn_def LHC_TurnOff_def is_mock_iff split: if_splits prod.splits)

text \<open>The lights of the mock follow the requests: after any sequence of requests to the service over the mock
  connection, with or without the permission and for any ids, a light is on exactly when the last request for it that was
  accepted turned it on, or it was on before and there was none.\<close>

theorem lights_follow_requests:
  assumes "lh_connection (ls_connection s) = Some (CompatibleLight on)" and "distinct on"
    and "light_run (Light_TurnOn D permission) (Light_TurnOff D permission) rs s = (es, s')"
  shows "\<exists>on'. lh_connection (ls_connection s') = Some (CompatibleLight on') \<and> distinct on' \<and>
    set on' = lit_after rs es (set on) \<and> length es = length rs"
  using served.relayed.run_lit [OF _ assms(3)] assms(1,2) by (auto simp: is_mock_iff)

definition sample_lights :: "unit light_service" where
  "sample_lights = \<lparr>ls_infos = mock_lights, ls_connection = \<lparr>lh_connection = Some (CompatibleLight []), lh_lights = mock_lights\<rparr>\<rparr>"

definition sample_light_driver :: "unit light_driver" where
  "sample_light_driver = \<lparr>ld_GetLightInfo = (\<lambda>d. (-1, [])), ld_TurnOnLight = (\<lambda>i e d. (-1, d)), ld_TurnOffLight = (\<lambda>i d. (-1, d)),
     ld_AddDeathRecipient = (\<lambda>d. d), ld_RemoveDeathRecipient = (\<lambda>d. d)\<rparr>"

lemma lights_follow_requests_witness:
  "\<exists>es s' on'. light_run (Light_TurnOn sample_light_driver True) (Light_TurnOff sample_light_driver True)
       [TurnLightOn 1 255 \<lparr>la_mode = 0, la_onTime = 0, la_offTime = 0\<rparr>, TurnLightOff 7] sample_lights = (es, s') \<and>
     lh_connection (ls_connection s') = Some (CompatibleLight on') \<and> set on' = {1}"
proof -
  let ?rs = "[TurnLightOn 1 255 \<lparr>la_mode = 0, la_onTime = 0, la_offTime = 0\<rparr>, TurnLightOff 7]"
  obtain es s' where r: "light_run (Light_TurnOn sample_light_driver True) (Light_TurnOff sample_light_driver True) ?rs sample_lights =
      (es, s')" by fastforce
  have "fst (light_run (Light_TurnOn sample_light_driver True) (Light_TurnOff sample_light_driver True) ?rs sample_lights) =
      [ERR_OK, MISCDEVICE_NATIVE_SAM_ERR]"
    by code_simp
  then have "lit_after ?rs es (set []) = {1}" using r by simp
  with lights_follow_requests [OF _ _ r] r show ?thesis by (fastforce simp: sample_lights_def)
qed

text \<open>The list of lights is added to, not replaced, when the service connects once more.\<close>

lemma lights_listed_twice:
  assumes "\<And>d. fst (ld_GetLightInfo D d) \<noteq> 0" and "lh_lights h = []" and "LHC_ConnectHdi D d found h = (e, h1)"
    and "LHC_ConnectHdi D d' found' h1 = (e', h2)"
  shows "lh_lights h1 = mock_lights \<and> lh_lights h2 = mock_lights @ mock_lights"
proof -
  have connect: "lh_lights (snd (LHC_ConnectHdi D d found h)) = lh_lights h @ mock_lights" for d found and h :: "'a light_hdi"
    using assms(1)
    by (auto simp: LHC_ConnectHdi_def LHC_ConnectHdiService_def HL_GetLightList_def CLC_GetLightList_def Let_def split_beta)
  from connect [of d found h] connect [of d' found' h1] assms(2-4) show ?thesis by simp
qed

end
