(* ===== verification/LightClient.thy ===== *)
theory LightClient
  imports Lights
begin

text \<open>
  The light side of the client library, \<^verbatim>\<open>frameworks/native/light/src/light_client.cpp\<close>, and the
  functions applications link to, \<^verbatim>\<open>frameworks/native/light/light_agent.cpp\<close>, over the generated
  interface, which is a record of operations on the state of the service; and which of their requests reach the driver.
\<close>

section \<open>State and environment\<close>

record LightInfo =
  lif_lightName :: string
  lif_lightId :: int
  lif_lightNumber :: int
  lif_lightType :: int

record LightAnimation =
  lan_mode :: int
  lan_onTime :: int
  lan_offTime :: int

text \<open>The members; \<open>lc_infos\<close> is the array for the applications, \<open>None\<close> when it is null.\<close>

record light_client =
  lc_proxy :: bool
  lc_deathObserver :: bool
  lc_list :: "LightInfoIPC list"
  lc_infos :: "LightInfo list option"
  lc_count :: int

definition initial_light_client :: light_client where
  "initial_light_client = \<lparr>lc_proxy = False, lc_deathObserver = False, lc_list = [], lc_infos = None, lc_count = -1\<rparr>"

record light_env =
  le_sm :: bool
  le_service :: bool
  le_observer :: bool
  le_remote :: bool
  le_malloc :: "nat \<Rightarrow> bool"

record 's light_proxy =
  lx_GetLightList :: "'s \<Rightarrow> (errcode \<times> LightInfoIPC list) \<times> 's"
  lx_TurnOn :: "int \<Rightarrow> int \<Rightarrow> LightAnimationIPC \<Rightarrow> 's \<Rightarrow> errcode \<times> 's"
  lx_TurnOff :: "int \<Rightarrow> 's \<Rightarrow> errcode \<times> 's"

section \<open>The client library\<close>

text \<open>The code that \<^verbatim>\<open>GetLightList\<close> returns is not looked at.\<close>

definition InitLightClient :: "light_env \<Rightarrow> 's light_proxy \<Rightarrow> light_client \<times> 's \<Rightarrow> errcode \<times> light_client \<times> 's" where
  "InitLightClient E P = (\<lambda>(cl, s).
     if lc_proxy cl then (ERR_OK, cl, s)
     else if \<not> le_sm E then (MISC_NATIVE_SAM_ERR, cl, s)
     else if le_service E then
       let cl = cl\<lparr>lc_proxy := True, lc_deathObserver := le_observer E\<rparr> in
       if \<not> le_observer E then (MISC_NATIVE_GET_SERVICE_ERR, cl, s)
       else if \<not> le_remote E then (MISC_NATIVE_GET_SERVICE_ERR, cl, s)
       else let ((ret, lights), s) = lx_GetLightList P s in (ERR_OK, cl\<lparr>lc_list := lights\<rparr>, s)
     else (MISC_NATIVE_GET_SERVICE_ERR, cl, s))"

definition IsLightIdValid :: "light_env \<Rightarrow> 's light_proxy \<Rightarrow> int \<Rightarrow> light_client \<times> 's \<Rightarrow> bool \<times> light_client \<times> 's" where
  "IsLightIdValid E P lightId st =
     (let (ret, cl, s) = InitLightClient E P st in
      if ret \<noteq> ERR_OK then (False, cl, s)
      else (list_ex (\<lambda>item. lightId = li_lightId item) (lc_list cl), cl, s))"

text \<open>A name fits into the 128 characters of the array with its final null character.\<close>

definition name_fits :: "LightInfoIPC \<Rightarrow> bool" where
  "name_fits v \<longleftrightarrow> length (li_lightName v) < 128"

definition light_info :: "LightInfoIPC \<Rightarrow> LightInfo" where
  "light_info v = \<lparr>lif_lightName = li_lightName v, lif_lightId = li_lightId v, lif_lightNumber = li_lightNumber v,
     lif_lightType = li_lightType v\<rparr>"

definition ConvertLightInfos :: "light_env \<Rightarrow> light_client \<Rightarrow> errcode \<times> light_client" where
  "ConvertLightInfos E cl =
     (if lc_list cl = [] then (ERROR, cl)
      else if length (lc_list cl) > 255 then (ERROR, cl)
      else if \<not> le_malloc E (length (lc_list cl)) then (ERROR, cl)
      else if \<not> list_all name_fits (lc_list cl)
        then (ERROR, cl\<lparr>lc_infos := Some (map light_info (takeWhile name_fits (lc_list cl)))\<rparr>)
      else (SUCCESS, cl\<lparr>lc_infos := Some (map light_info (lc_list cl)), lc_count := int (length (lc_list cl))\<rparr>))"

definition ClearLightInfos :: "light_client \<Rightarrow> light_client" where
  "ClearLightInfos cl = cl\<lparr>lc_infos := None\<rparr>"

text \<open>\<open>null\<close> holds when there is no place for the answer; the answer is the array and its size.\<close>

definition LC_GetLightList ::
    "light_env \<Rightarrow> 's light_proxy \<Rightarrow> bool \<Rightarrow> light_client \<times> 's \<Rightarrow> (errcode + LightInfo list \<times> int) \<times> light_client \<times> 's" where
  "LC_GetLightList E P null st =
     (if null then (Inl ERROR, st)
      else let (ret, cl, s) = InitLightClient E P st in
        if ret \<noteq> ERR_OK then (Inl ERROR, cl, s)
        else case lc_infos cl of
          Some infos \<Rightarrow> (Inr (infos, lc_count cl), cl, s)
        | None \<Rightarrow>
            let (ret, cl) = ConvertLightInfos E cl in
            if ret \<noteq> ERR_OK then (Inl ERROR, ClearLightInfos cl, s)
            else (case lc_infos cl of None \<Rightarrow> (Inl ERROR, cl, s) | Some infos \<Rightarrow> (Inr (infos, lc_count cl), cl, s)))"

definition LC_IsLightAnimationValid :: "LightAnimation \<Rightarrow> bool" where
  "LC_IsLightAnimationValid a \<longleftrightarrow>
     \<not> (lan_mode a < 0 \<or> lan_mode a \<ge> LIGHT_MODE_BUTT) \<and> \<not> (lan_onTime a < 0 \<or> lan_offTime a < 0)"

definition animation_ipc :: "LightAnimation \<Rightarrow> LightAnimationIPC" where
  "animation_ipc a = \<lparr>la_mode = lan_mode a, la_onTime = lan_onTime a, la_offTime = lan_offTime a\<rparr>"

definition LC_TurnOn ::
    "light_env \<Rightarrow> 's light_proxy \<Rightarrow> int \<Rightarrow> int \<Rightarrow> LightAnimation \<Rightarrow> light_client \<times> 's \<Rightarrow> errcode \<times> light_client \<times> 's" where
  "LC_TurnOn E P lightId singleColor a st =
     (let (valid, cl, s) = IsLightIdValid E P lightId st in
      if \<not> valid then (PARAMETER_ERROR, cl, s)
      else if \<not> LC_IsLightAnimationValid a then (PARAMETER_ERROR, cl, s)
      else if \<not> lc_proxy cl then (ERROR, cl, s)
      else let (ret, s) = lx_TurnOn P lightId singleColor (animation_ipc a) s in (ret, cl, s))"

definition LC_TurnOff ::
    "light_env \<Rightarrow> 's light_proxy \<Rightarrow> int \<Rightarrow> light_client \<times> 's \<Rightarrow> errcode \<times> light_client \<times> 's" where
  "LC_TurnOff E P lightId st =
     (let (valid, cl, s) = IsLightIdValid E P lightId st in
      if \<not> valid then (LIGHT_ID_NOT_SUPPORT, cl, s)
      else if \<not> lc_proxy cl then (ERROR, cl, s)
      else let (ret, s) = lx_TurnOff P lightId s in (ret, cl, s))"

definition LC_ProcessDeathObserver :: "light_env \<Rightarrow> 's light_proxy \<Rightarrow> light_client \<times> 's \<Rightarrow> light_client \<times> 's" where
  "LC_ProcessDeathObserver E P = (\<lambda>(cl, s). snd (InitLightClient E P (cl\<lparr>lc_proxy := False\<rparr>, s)))"

section \<open>The functions for applications\<close>

definition AGL_GetLightList ::
    "light_env \<Rightarrow> 's light_proxy \<Rightarrow> bool \<Rightarrow> light_client \<times> 's \<Rightarrow> (errcode + LightInfo list \<times> int) \<times> light_client \<times> 's" where
  "AGL_GetLightList E P null st =
     (if null then (Inl ERROR, st)
      else let (r, st) = LC_GetLightList E P null st in (case r of Inl e \<Rightarrow> Inl ERROR | Inr v \<Rightarrow> Inr v, st))"

definition AGL_TurnOn ::
    "light_env \<Rightarrow> 's light_proxy \<Rightarrow> int \<Rightarrow> int \<Rightarrow> LightAnimation \<Rightarrow> light_client \<times> 's \<Rightarrow> errcode \<times> light_client \<times> 's" where
  "AGL_TurnOn E P lightId color a st =
     (if lightId < 0 then (ERROR, st)
      else let (ret, st) = LC_TurnOn E P lightId color a st in (if ret \<noteq> ERR_OK then ERROR else SUCCESS, st))"

definition AGL_TurnOff ::
    "light_env \<Rightarrow> 's light_proxy \<Rightarrow> int \<Rightarrow> light_client \<times> 's \<Rightarrow> errcode \<times> light_client \<times> 's" where
  "AGL_TurnOff E P lightId st =
     (if lightId < 0 then (ERROR, st)
      else let (ret, st) = LC_TurnOff E P lightId st in (if ret \<noteq> ERR_OK then ERROR else SUCCESS, st))"

section \<open>From the application to the driver\<close>

text \<open>The interface connected to the light service itself.\<close>

definition direct_light_proxy :: "'d light_driver \<Rightarrow> bool \<Rightarrow> 'd light_service light_proxy" where
  "direct_light_proxy D permission = \<lparr>lx_GetLightList = Light_GetLightList, lx_TurnOn = Light_TurnOn D permission,
     lx_TurnOff = Light_TurnOff D permission\<rparr>"

definition turned_on :: "int \<Rightarrow> int \<Rightarrow> LightAnimation \<Rightarrow> HdfLightEffect" where
  "turned_on lightId color a = \<lparr>hle_singleColor = color, hle_flashMode = lan_mode a, hle_onTime = lan_onTime a,
     hle_offTime = lan_offTime a\<rparr>"

text \<open>
  The lights that the application's library knows when it makes a request, and those that the service knows then: a library that has
  not connected yet connects first, which makes the service take over the list of its connection.
\<close>

definition known_to_client :: "light_client \<Rightarrow> 'd light_service \<Rightarrow> LightInfoIPC list" where
  "known_to_client cl s = (if lc_proxy cl then lc_list cl else take 255 (lh_lights (ls_connection s)))"

definition known_to_service :: "light_client \<Rightarrow> 'd light_service \<Rightarrow> LightInfoIPC list" where
  "known_to_service cl s = (if lc_proxy cl then ls_infos s else lh_lights (ls_connection s))"

definition known_light :: "int \<Rightarrow> light_client \<Rightarrow> 'd light_service \<Rightarrow> bool" where
  "known_light i cl s \<longleftrightarrow> i \<in> li_lightId ` set (known_to_client cl s) \<and> i \<in> li_lightId ` set (known_to_service cl s)"

lemma IsLightIdValid_known:
  assumes "lc_proxy cl \<or> le_sm E \<and> le_service E \<and> le_observer E \<and> le_remote E"
  shows "\<exists>cl'. IsLightIdValid E (direct_light_proxy D permission) i (cl, s) =
    (i \<in> li_lightId ` set (known_to_client cl s), cl', s\<lparr>ls_infos := known_to_service cl s\<rparr>) \<and> lc_proxy cl'"
  using assms
  by (auto simp: IsLightIdValid_def InitLightClient_def direct_light_proxy_def Light_GetLightList_def LHC_GetLightList_def
      known_to_client_def known_to_service_def list_ex_iff image_iff)

lemma IsValid_known: "IsValid i (s\<lparr>ls_infos := infos\<rparr>) \<longleftrightarrow> i \<in> li_lightId ` set infos"
  by (auto simp: IsValid_def list_ex_iff)

text \<open>The handlers over the driver connection.\<close>

lemma Light_TurnOn_driver:
  assumes "lh_connection (ls_connection s) = Some (HdiLight c)" and "hl_interface c"
    and "on = ld_TurnOnLight D i \<lparr>hle_singleColor = color, hle_flashMode = la_mode a, hle_onTime = la_onTime a, hle_offTime = la_offTime a\<rparr> (hl_driver c)"
  shows "Light_TurnOn D permission i color a s =
    (if \<not> permission then (PERMISSION_DENIED, s)
     else if \<not> IsValid i s \<or> \<not> IsLightAnimationValid a then (MISCDEVICE_NATIVE_SAM_ERR, s)
     else (if fst on < 0 then ERROR else ERR_OK,
       s\<lparr>ls_connection := (ls_connection s)\<lparr>lh_connection := Some (HdiLight (c\<lparr>hl_driver := snd on\<rparr>))\<rparr>\<rparr>))"
  using assms by (simp add: Light_TurnOn_def LHC_TurnOn_def HL_TurnOn_def split_beta Let_def)

lemma Light_TurnOff_driver:
  assumes "lh_connection (ls_connection s) = Some (HdiLight c)" and "hl_interface c" and "off = ld_TurnOffLight D i (hl_driver c)"
  shows "Light_TurnOff D permission i s =
    (if \<not> permission then (PERMISSION_DENIED, s)
     else if \<not> IsValid i s then (MISCDEVICE_NATIVE_SAM_ERR, s)
     else (if fst off < 0 then ERROR else ERR_OK,
       s\<lparr>ls_connection := (ls_connection s)\<lparr>lh_connection := Some (HdiLight (c\<lparr>hl_driver := snd off\<rparr>))\<rparr>\<rparr>))"
  using assms by (simp add: Light_TurnOff_def LHC_TurnOff_def HL_TurnOff_def split_beta Let_def)

text \<open>C35. A request for a light reaches the driver exactly when it is to: an application, whether its library has connected before or
  not, that turns a light on is told that this worked exactly when the id is not negative and known to its library and to the service,
  the mode is one of the three, no time is negative, the caller has the permission and the driver takes the request; the driver then gets
  exactly the colour, mode and times of the caller, once, and it is called in no other case than this and its own refusal. The
  same holds, but for the mode and the times, when it turns a light off.\<close>

theorem light_request_reaches_driver:
  assumes "lc_proxy cl \<or> le_sm E \<and> le_service E \<and> le_observer E \<and> le_remote E"
    and "lh_connection (ls_connection s) = Some (HdiLight c)" and "hl_interface c"
    and "AGL_TurnOn E (direct_light_proxy D permission) lightId color a (cl, s) = (r, cl', s')"
    and "AGL_TurnOff E (direct_light_proxy D permission) lightId (cl, s) = (q, cl'', s'')"
  shows "let known = 0 \<le> lightId \<and> known_light lightId cl s \<and> permission;
             asked = known \<and> 0 \<le> lan_mode a \<and> lan_mode a < 3 \<and> 0 \<le> lan_onTime a \<and> 0 \<le> lan_offTime a;
             on = ld_TurnOnLight D lightId (turned_on lightId color a) (hl_driver c);
             off = ld_TurnOffLight D lightId (hl_driver c)
    in r = (if asked \<and> fst on \<ge> 0 then SUCCESS else ERROR) \<and>
       lh_connection (ls_connection s') = Some (HdiLight (if asked then c\<lparr>hl_driver := snd on\<rparr> else c)) \<and>
       q = (if known \<and> fst off \<ge> 0 then SUCCESS else ERROR) \<and>
       lh_connection (ls_connection s'') = Some (HdiLight (if known then c\<lparr>hl_driver := snd off\<rparr> else c))"
proof -
  let ?P = "direct_light_proxy D permission" and ?s = "s\<lparr>ls_infos := known_to_service cl s\<rparr>"
  let ?on = "ld_TurnOnLight D lightId (turned_on lightId color a) (hl_driver c)" and ?off = "ld_TurnOffLight D lightId (hl_driver c)"
  obtain cl1 where valid: "IsLightIdValid E ?P lightId (cl, s) = (lightId \<in> li_lightId ` set (known_to_client cl s), cl1, ?s)" "lc_proxy cl1"
    using IsLightIdValid_known [OF assms(1)] by blast
  have c: "lh_connection (ls_connection ?s) = Some (HdiLight c)" using assms(2) by simp
  have on: "?on = ld_TurnOnLight D lightId \<lparr>hle_singleColor = color, hle_flashMode = la_mode (animation_ipc a),
      hle_onTime = la_onTime (animation_ipc a), hle_offTime = la_offTime (animation_ipc a)\<rparr> (hl_driver c)"
    by (simp add: turned_on_def animation_ipc_def)
  have mode: "IsLightAnimationValid (animation_ipc a) \<longleftrightarrow> LC_IsLightAnimationValid a"
    "LC_IsLightAnimationValid a \<longleftrightarrow> 0 \<le> lan_mode a \<and> lan_mode a < 3 \<and> 0 \<le> lan_onTime a \<and> 0 \<le> lan_offTime a"
    by (auto simp: IsLightAnimationValid_def LC_IsLightAnimationValid_def animation_ipc_def LIGHT_MODE_BUTT_def)
  let ?known = "0 \<le> lightId \<and> known_light lightId cl s \<and> permission"
  have ons: "r = (if (?known \<and> LC_IsLightAnimationValid a) \<and> fst ?on \<ge> 0 then SUCCESS else ERROR) \<and>
      lh_connection (ls_connection s') = Some (HdiLight (if ?known \<and> LC_IsLightAnimationValid a then c\<lparr>hl_driver := snd ?on\<rparr> else c))"
    using assms(4) valid c assms(2)
    by (cases "lightId \<in> li_lightId ` set (known_to_client cl s)"; cases "lightId \<in> li_lightId ` set (known_to_service cl s)")
      (auto simp: AGL_TurnOn_def LC_TurnOn_def direct_light_proxy_def Light_TurnOn_driver [OF c assms(3) on] IsValid_known known_light_def mode(1)
        split: if_splits)
  have offs: "q = (if ?known \<and> fst ?off \<ge> 0 then SUCCESS else ERROR) \<and>
      lh_connection (ls_connection s'') = Some (HdiLight (if ?known then c\<lparr>hl_driver := snd ?off\<rparr> else c))"
    using assms(5) valid c assms(2)
    by (cases "lightId \<in> li_lightId ` set (known_to_client cl s)"; cases "lightId \<in> li_lightId ` set (known_to_service cl s)")
      (auto simp: AGL_TurnOff_def LC_TurnOff_def direct_light_proxy_def Light_TurnOff_driver [OF c assms(3) refl] IsValid_known known_light_def
        split: if_splits)
  from ons offs show ?thesis unfolding Let_def mode(2) by simp
qed

definition sample_light_env :: light_env where
  "sample_light_env = \<lparr>le_sm = True, le_service = True, le_observer = True, le_remote = True, le_malloc = (\<lambda>_. True)\<rparr>"

text \<open>A driver that remembers the effects it was given.\<close>

definition logging_driver :: "(int \<times> HdfLightEffect) list light_driver" where
  "logging_driver = \<lparr>ld_GetLightInfo = (\<lambda>d. (0, [])), ld_TurnOnLight = (\<lambda>i e d. (0, d @ [(i, e)])), ld_TurnOffLight = (\<lambda>i d. (0, d)),
     ld_AddDeathRecipient = (\<lambda>d. d), ld_RemoveDeathRecipient = (\<lambda>d. d)\<rparr>"

lemma light_request_reaches_driver_witness:
  "\<exists>cl' s'. AGL_TurnOn sample_light_env (direct_light_proxy logging_driver True) 1 255 \<lparr>lan_mode = 1, lan_onTime = 5, lan_offTime = 5\<rparr>
      (initial_light_client, \<lparr>ls_infos = [], ls_connection = \<lparr>lh_connection =
         Some (HdiLight \<lparr>hl_interface = True, hl_observer = True, hl_driver = []\<rparr>), lh_lights = mock_lights\<rparr>\<rparr>) = (SUCCESS, cl', s') \<and>
    lh_connection (ls_connection s') = Some (HdiLight \<lparr>hl_interface = True, hl_observer = True, hl_driver =
      [(1, \<lparr>hle_singleColor = 255, hle_flashMode = 1, hle_onTime = 5, hle_offTime = 5\<rparr>)]\<rparr>)"
proof -
  let ?a = "\<lparr>lan_mode = 1, lan_onTime = 5, lan_offTime = 5\<rparr>"
  let ?c = "\<lparr>hl_interface = True, hl_observer = True, hl_driver = ([] :: (int \<times> HdfLightEffect) list)\<rparr>"
  let ?s = "\<lparr>ls_infos = [], ls_connection = \<lparr>lh_connection = Some (HdiLight ?c), lh_lights = mock_lights\<rparr>\<rparr>"
  obtain r cl' s' where t: "AGL_TurnOn sample_light_env (direct_light_proxy logging_driver True) 1 255 ?a (initial_light_client, ?s) =
      (r, cl', s')" using prod.exhaust by metis
  obtain q cl'' s'' where o: "AGL_TurnOff sample_light_env (direct_light_proxy logging_driver True) 1 (initial_light_client, ?s) =
      (q, cl'', s'')" using prod.exhaust by metis
  have "known_light 1 initial_light_client ?s"
    by (simp add: known_light_def known_to_client_def known_to_service_def initial_light_client_def mock_lights_def)
  with light_request_reaches_driver [OF _ _ _ t o, of ?c] t show ?thesis
    by (auto simp: sample_light_env_def logging_driver_def turned_on_def)
qed

end
