(* ===== verification/ClientPackages.thy ===== *)
theory ClientPackages
  imports Marshalling
begin

text \<open>
  The packages of the client library, \<^verbatim>\<open>frameworks/native/vibrator/src/vibrator_service_client.cpp\<close>:
  the structs of \<^verbatim>\<open>interfaces/inner_api/vibrator/vibrator_agent_type.h\<close>, which hold counted arrays
  behind pointers, their conversion to and from the structs that are sent to the service, the seek
  operation and what is freed. The modulation is in \<open>ClientModulation\<close>.
\<close>

section \<open>Outcomes\<close>

text \<open>
  A function that walks arrays may read behind a null pointer or behind the end of an array, which
  C++ leaves undefined (\<open>Crash\<close>), give up with a code, or finish.
\<close>

datatype 'a outcome = Crash | Fail errcode | Done 'a

fun obind :: "'a outcome \<Rightarrow> ('a \<Rightarrow> 'b outcome) \<Rightarrow> 'b outcome" where
  "obind (Done x) f = f x"
| "obind (Fail e) f = Fail e"
| "obind Crash f = Crash"

text \<open>\<^verbatim>\<open>for (i : is) v.emplace_back(f(i))\<close>, with the early exits of \<open>f\<close>.\<close>

fun collect :: "('i \<Rightarrow> 'a outcome) \<Rightarrow> 'i list \<Rightarrow> 'a list outcome" where
  "collect f [] = Done []"
| "collect f (i # is) = obind (f i) (\<lambda>x. obind (collect f is) (\<lambda>xs. Done (x # xs)))"

text \<open>A pointer to the first of so many elements; \<open>None\<close> is the null pointer.\<close>

type_synonym 'a array = "'a list option"

definition elem :: "'a array \<Rightarrow> int \<Rightarrow> 'a outcome" where
  "elem a i = (case a of None \<Rightarrow> Crash
     | Some xs \<Rightarrow> if 0 \<le> i \<and> nat i < length xs then Done (xs ! nat i) else Crash)"

section \<open>Structs\<close>

datatype VibratorEventType = EVENT_TYPE_UNKNOWN | EVENT_TYPE_CONTINUOUS | EVENT_TYPE_TRANSIENT

record VibratorCurvePoint =
  vcp_time :: int
  vcp_intensity :: int
  vcp_frequency :: int

record VibratorEvent =
  ve_type :: VibratorEventType
  ve_time :: int
  ve_duration :: int
  ve_intensity :: int
  ve_frequency :: int
  ve_index :: int
  ve_pointNum :: int
  ve_points :: "VibratorCurvePoint array"

record VibratorPattern =
  vpt_time :: int
  vpt_eventNum :: int
  vpt_patternDuration :: int
  vpt_events :: "VibratorEvent array"

record VibratorPackage =
  vpk_patternNum :: int
  vpk_packageDuration :: int
  vpk_patterns :: "VibratorPattern array"

text \<open>The casts between the two enumerations, which have the same codes.\<close>

fun tag_of_type :: "VibratorEventType \<Rightarrow> VibrateTag" where
  "tag_of_type EVENT_TYPE_UNKNOWN = EVENT_TAG_UNKNOWN"
| "tag_of_type EVENT_TYPE_CONTINUOUS = EVENT_TAG_CONTINUOUS"
| "tag_of_type EVENT_TYPE_TRANSIENT = EVENT_TAG_TRANSIENT"

fun type_of_tag :: "VibrateTag \<Rightarrow> VibratorEventType" where
  "type_of_tag EVENT_TAG_UNKNOWN = EVENT_TYPE_UNKNOWN"
| "type_of_tag EVENT_TAG_CONTINUOUS = EVENT_TYPE_CONTINUOUS"
| "type_of_tag EVENT_TAG_TRANSIENT = EVENT_TYPE_TRANSIENT"

lemma tag_type [simp]: "tag_of_type (type_of_tag t) = t"
  by (cases t) simp_all

section \<open>To the structs of the service\<close>

definition ipc_point :: "VibratorCurvePoint \<Rightarrow> VibrateCurvePoint" where
  "ipc_point c = \<lparr>cp_time = vcp_time c, cp_intensity = vcp_intensity c, cp_frequency = vcp_frequency c\<rparr>"

definition ipc_event :: "VibratorEvent \<Rightarrow> VibrateCurvePoint list \<Rightarrow> VibrateEvent" where
  "ipc_event e ps = \<lparr>ev_tag = tag_of_type (ve_type e), ev_time = ve_time e, ev_duration = ve_duration e,
     ev_intensity = ve_intensity e, ev_frequency = ve_frequency e, ev_index = ve_index e, ev_points = ps\<rparr>"

definition read_points :: "VibratorCurvePoint array \<Rightarrow> int \<Rightarrow> VibrateCurvePoint list outcome" where
  "read_points a n = collect (\<lambda>k. obind (elem a k) (\<lambda>c. Done (ipc_point c))) (indices n)"

text \<open>A null pointer to the points skips every round of the loop.\<close>

definition points_unless_null :: "VibratorCurvePoint array \<Rightarrow> int \<Rightarrow> VibrateCurvePoint list outcome" where
  "points_unless_null a n = (if a = None then Done [] else read_points a n)"

definition convert_event :: "VibratorEvent \<Rightarrow> VibrateEvent outcome" where
  "convert_event e = obind (points_unless_null (ve_points e) (ve_pointNum e)) (\<lambda>ps. Done (ipc_event e ps))"

definition convert_pattern :: "VibratorPattern \<Rightarrow> VibratePattern outcome" where
  "convert_pattern a =
     obind (collect (\<lambda>j. if vpt_events a = None then Fail ERROR else obind (elem (vpt_events a) j) convert_event)
              (indices (vpt_eventNum a)))
       (\<lambda>es. Done \<lparr>pat_startTime = vpt_time a, pat_patternDuration = vpt_patternDuration a, pat_events = es\<rparr>)"

definition ConvertVibratorPackage_ipc :: "VibratorPackage \<Rightarrow> VibratePackage outcome" where
  "ConvertVibratorPackage_ipc k =
     obind (collect (\<lambda>i. if vpk_patterns k = None then Fail ERROR else obind (elem (vpk_patterns k) i) convert_pattern)
              (indices (vpk_patternNum k)))
       (\<lambda>as. Done \<lparr>pkg_patterns = as, pkg_packageDuration = vpk_packageDuration k\<rparr>)"

text \<open>
  The pattern of \<^verbatim>\<open>InitPlayPattern\<close>: an event whose number of points is out of bounds goes without
  points, and the duration of the pattern is taken over only when there is an event.
\<close>

definition play_event :: "VibratorEvent \<Rightarrow> VibrateEvent outcome" where
  "play_event e =
     (if ve_pointNum e < 4 \<or> ve_pointNum e > 16 then Done (ipc_event e [])
      else obind (points_unless_null (ve_points e) (ve_pointNum e)) (\<lambda>ps. Done (ipc_event e ps)))"

definition play_pattern :: "VibratorPattern \<Rightarrow> VibratePattern outcome" where
  "play_pattern a =
     (if vpt_eventNum a < 0 \<or> vpt_eventNum a > 1000 then Fail ERROR
      else obind (collect (\<lambda>i. if vpt_events a = None then Fail ERROR else obind (elem (vpt_events a) i) play_event)
                    (indices (vpt_eventNum a)))
             (\<lambda>es. Done \<lparr>pat_startTime = vpt_time a,
                pat_patternDuration = (if es = [] then 0 else vpt_patternDuration a), pat_events = es\<rparr>))"

section \<open>From the structs of the service\<close>

text \<open>
  \<open>A n\<close> says whether \<^verbatim>\<open>malloc\<close> gives memory for \<open>n\<close> elements; it may refuse, also for no element at
  all. \<open>d\<close> is \<^verbatim>\<open>clientPatternDuration\<close>, which a pattern without events takes over from the one before.
\<close>

definition c_point :: "VibrateCurvePoint \<Rightarrow> VibratorCurvePoint" where
  "c_point c = \<lparr>vcp_time = cp_time c, vcp_intensity = cp_intensity c, vcp_frequency = cp_frequency c\<rparr>"

definition c_event :: "(nat \<Rightarrow> bool) \<Rightarrow> VibrateEvent \<Rightarrow> VibratorEvent outcome" where
  "c_event A e =
     (if \<not> A (length (ev_points e)) then Fail ERROR
      else Done \<lparr>ve_type = type_of_tag (ev_tag e), ve_time = ev_time e, ve_duration = ev_duration e,
             ve_intensity = ev_intensity e, ve_frequency = ev_frequency e, ve_index = ev_index e,
             ve_pointNum = wrap32 (int (length (ev_points e))), ve_points = Some (map c_point (ev_points e))\<rparr>)"

definition pattern_end :: "int \<Rightarrow> VibrateEvent list \<Rightarrow> int" where
  "pattern_end d es = (if es = [] then d else wrap32 (ev_time (last es) + ev_duration (last es)))"

fun c_patterns :: "(nat \<Rightarrow> bool) \<Rightarrow> int \<Rightarrow> VibratePattern list \<Rightarrow> VibratorPattern list outcome" where
  "c_patterns A d [] = Done []"
| "c_patterns A d (a # as) =
     (if \<not> A (length (pat_events a)) then Fail ERROR
      else obind (collect (c_event A) (pat_events a)) (\<lambda>es.
        let d' = pattern_end d (pat_events a) in
        obind (c_patterns A d' as) (\<lambda>rest. Done (\<lparr>vpt_time = pat_startTime a,
          vpt_eventNum = wrap32 (int (length (pat_events a))), vpt_patternDuration = d', vpt_events = Some es\<rparr> # rest))))"

definition ConvertVibratorPackage_c :: "(nat \<Rightarrow> bool) \<Rightarrow> VibratePackage \<Rightarrow> VibratorPackage outcome" where
  "ConvertVibratorPackage_c A k =
     (if \<not> A (length (pkg_patterns k)) then Fail ERROR
      else obind (c_patterns A 0 (pkg_patterns k)) (\<lambda>as.
        Done \<lparr>vpk_patternNum = wrap32 (int (length (pkg_patterns k))), vpk_packageDuration = pkg_packageDuration k,
          vpk_patterns = Some as\<rparr>))"

section \<open>Seeking\<close>

definition blank_event :: VibrateEvent where
  "blank_event = \<lparr>ev_tag = EVENT_TAG_CONTINUOUS, ev_time = 0, ev_duration = 0, ev_intensity = 0, ev_frequency = 0,
     ev_index = 0, ev_points = []\<rparr>"

text \<open>
  Whether the event has begun before the pattern and is not taken over as it is; then what is left of
  a continuous event is added when at least 100 ms of it are left. The result is the pattern and the
  event that was made (\<^verbatim>\<open>vibrateEvent\<close>).
\<close>

definition SkipEventAndConvertVibratorEvent ::
    "VibratorEvent \<Rightarrow> VibratePattern \<Rightarrow> int \<Rightarrow> VibrateEvent \<Rightarrow> bool \<times> VibratePattern \<times> VibrateEvent" where
  "SkipEventAndConvertVibratorEvent e a patternStartTime v =
     (let eventStartTime = wrap32 (ve_time e + patternStartTime);
          left = wrap32 (wrap32 (eventStartTime + ve_duration e) - pat_startTime a)
      in if pat_startTime a > eventStartTime then
           if ve_type e = EVENT_TYPE_CONTINUOUS \<and> left \<ge> 100 then
             let v' = v\<lparr>ev_tag := tag_of_type (ve_type e), ev_duration := left, ev_intensity := ve_intensity e,
                        ev_frequency := ve_frequency e, ev_index := ve_index e\<rparr>
             in (True, a\<lparr>pat_patternDuration := wrap32 (pat_patternDuration a + left), pat_events := pat_events a @ [v']\<rparr>, v')
           else (True, a, v)
         else (False, a, v))"

definition ConvertVibratorPattern :: "VibratorPattern \<Rightarrow> VibratePattern outcome" where
  "ConvertVibratorPattern a =
     (if vpt_eventNum a < 0 \<or> vpt_eventNum a > 1000 \<or> vpt_events a = None
      then Done \<lparr>pat_startTime = vpt_time a, pat_patternDuration = vpt_patternDuration a, pat_events = []\<rparr>
      else obind (collect (\<lambda>j. obind (elem (vpt_events a) j) (\<lambda>e.
                    obind (read_points (ve_points e) (ve_pointNum e mod 4294967296)) (\<lambda>ps. Done (ipc_event e ps))))
                  (indices (vpt_eventNum a)))
             (\<lambda>es. Done \<lparr>pat_startTime = vpt_time a, pat_patternDuration = vpt_patternDuration a, pat_events = es\<rparr>))"

text \<open>One event of a pattern that begins before the seek time; the state is the duration of the package and the pattern.\<close>

definition seek_event ::
    "int \<Rightarrow> int \<Rightarrow> VibratorEvent \<Rightarrow> int \<times> VibratePattern \<Rightarrow> (int \<times> VibratePattern) outcome" where
  "seek_event seekTime patternStartTime e = (\<lambda>(packageDuration, a).
     let (skip, a', v) = SkipEventAndConvertVibratorEvent e a patternStartTime blank_event in
     if skip then
       let d = wrap32 (wrap32 (packageDuration - ve_duration e) + ev_duration v)
       in Done (if d < 0 then 0 else d, a')
     else obind (if ve_pointNum e < 4 \<or> ve_pointNum e > 16 then Done [] else read_points (ve_points e) (ve_pointNum e))
       (\<lambda>ps. Done (packageDuration, a\<lparr>pat_patternDuration := wrap32 (pat_patternDuration a + ve_duration e),
          pat_events := pat_events a @
            [(ipc_event e ps)\<lparr>ev_time := wrap32 (wrap32 (ve_time e + patternStartTime) - seekTime)\<rparr>]\<rparr>)))"

fun ofold :: "('i \<Rightarrow> 's \<Rightarrow> 's outcome) \<Rightarrow> 'i list \<Rightarrow> 's \<Rightarrow> 's outcome" where
  "ofold f [] s = Done s"
| "ofold f (i # is) s = obind (f i s) (ofold f is)"

definition seek_pattern :: "int \<Rightarrow> VibratorPattern \<Rightarrow> int \<times> VibratePattern list \<Rightarrow> (int \<times> VibratePattern list) outcome" where
  "seek_pattern seekTime p = (\<lambda>(packageDuration, out).
     if vpt_time p \<ge> seekTime then obind (ConvertVibratorPattern p) (\<lambda>a. Done (packageDuration, out @ [a]))
     else if vpt_eventNum p \<le> 0 \<or> vpt_eventNum p > 16 then Done (packageDuration, out)
     else obind (ofold (\<lambda>j s. obind (elem (vpt_events p) j) (\<lambda>e. seek_event seekTime (vpt_time p) e s))
                   (indices (vpt_eventNum p))
                   (packageDuration, \<lparr>pat_startTime = seekTime, pat_patternDuration = 0, pat_events = []\<rparr>))
            (\<lambda>(d, a). Done (d, if pat_events a = [] then out else out @ [a])))"

definition ConvertSeekVibratorPackage :: "VibratorPackage \<Rightarrow> int \<Rightarrow> VibratePackage outcome" where
  "ConvertSeekVibratorPackage k seekTime =
     (if vpk_patternNum k < 0 \<or> vpk_patternNum k > 1000
      then Done \<lparr>pkg_patterns = [], pkg_packageDuration = vpk_packageDuration k\<rparr>
      else obind (ofold (\<lambda>i s. obind (elem (vpk_patterns k) i) (\<lambda>p. seek_pattern seekTime p s))
                    (indices (vpk_patternNum k)) (vpk_packageDuration k, []))
             (\<lambda>(d, as). Done \<lparr>pkg_patterns = as, pkg_packageDuration = d\<rparr>))"

definition SeekTimeOnPackage :: "(nat \<Rightarrow> bool) \<Rightarrow> int \<Rightarrow> VibratorPackage \<Rightarrow> VibratorPackage outcome" where
  "SeekTimeOnPackage A seekTime k = obind (ConvertSeekVibratorPackage k seekTime) (ConvertVibratorPackage_c A)"

section \<open>Freeing\<close>

text \<open>The blocks of memory of a package, named by their place in it.\<close>

datatype block = PatternsBlock | EventsBlock nat | PointsBlock nat nat

text \<open>What \<^verbatim>\<open>FreeVibratorPackage\<close> frees, in order.\<close>

definition free_events :: "nat \<Rightarrow> VibratorPattern \<Rightarrow> block list outcome" where
  "free_events i a =
     (if vpt_eventNum a \<le> 0 \<or> vpt_events a = None then Done []
      else obind (collect (\<lambda>j. obind (elem (vpt_events a) j) (\<lambda>e.
                   Done (if ve_points e \<noteq> None then [PointsBlock i (nat j)] else []))) (indices (vpt_eventNum a)))
             (\<lambda>bs. Done (concat bs @ [EventsBlock i])))"

definition FreeVibratorPackage :: "VibratorPackage \<Rightarrow> block list outcome" where
  "FreeVibratorPackage k =
     (if vpk_patternNum k \<le> 0 \<or> vpk_patterns k = None then Fail ERROR
      else obind (collect (\<lambda>i. obind (elem (vpk_patterns k) i) (free_events (nat i))) (indices (vpk_patternNum k)))
             (\<lambda>bs. Done (concat bs @ [PatternsBlock])))"

section \<open>Loops over arrays\<close>

lemma elem_nth [simp]: "i < length xs \<Longrightarrow> elem (Some xs) (int i) = Done (xs ! i)"
  by (simp add: elem_def)

lemma collect_map: "(\<And>i. i \<in> set is \<Longrightarrow> f i = Done (g i)) \<Longrightarrow> collect f is = Done (map g is)"
  by (induction "is") auto

lemma collect_cong: "is = js \<Longrightarrow> (\<And>i. i \<in> set js \<Longrightarrow> f i = g i) \<Longrightarrow> collect f is = collect g js"
  by (induction js arbitrary: "is") auto

lemma collect_map_arg: "collect f (map h is) = collect (\<lambda>i. f (h i)) is"
  by (induction "is") auto

lemma collect_Done:
  "collect f is = Done xs \<longleftrightarrow> length xs = length is \<and> (\<forall>n < length is. f (is ! n) = Done (xs ! n))"
proof (induction "is" arbitrary: xs)
  case (Cons i "is")
  have bind: "obind o1 g = Done y \<longleftrightarrow> (\<exists>x. o1 = Done x \<and> g x = Done y)" for o1 :: "'a outcome" and g and y :: "'a list"
    by (cases o1) auto
  have bind2: "obind o1 g = Done y \<longleftrightarrow> (\<exists>x. o1 = Done x \<and> g x = Done y)" for o1 :: "'a list outcome" and g and y :: "'a list"
    by (cases o1) auto
  show ?case
    by (cases xs) (auto simp: bind bind2 Cons.IH nth_Cons less_Suc_eq_0_disj split: nat.splits)
qed auto

text \<open>Walking an array by its indices is walking the list of its elements.\<close>

lemma nths_indices: "map (\<lambda>i. xs ! nat i) (indices (int (length xs))) = xs"
  by (rule nth_equalityI) (simp_all add: indices_def)

lemma collect_array:
  "n = int (length xs) \<Longrightarrow> collect (\<lambda>i. obind (elem (Some xs) i) f) (indices n) = collect f xs"
proof -
  assume n: "n = int (length xs)"
  have "collect (\<lambda>i. obind (elem (Some xs) i) f) (indices n) = collect (\<lambda>i. f (xs ! nat i)) (indices n)"
    by (rule collect_cong) (auto simp: elem_def n nat_less_iff)
  also have "\<dots> = collect f (map (\<lambda>i. xs ! nat i) (indices n))" by (simp add: collect_map_arg)
  finally show ?thesis using nths_indices [of xs] n by simp
qed

lemma ofold_cong: "(\<And>i s. i \<in> set is \<Longrightarrow> f i s = g i s) \<Longrightarrow> ofold f is s = ofold g is s"
  by (induction "is" arbitrary: s) (auto intro!: arg_cong2 [where f = obind])

lemma ofold_map: "ofold f (map h is) s = ofold (\<lambda>i. f (h i)) is s"
  by (induction "is" arbitrary: s) (auto intro!: arg_cong2 [where f = obind])

lemma ofold_array:
  "n = int (length xs) \<Longrightarrow> ofold (\<lambda>i s. obind (elem (Some xs) i) (\<lambda>x. f x s)) (indices n) s = ofold f xs s"
proof -
  assume n: "n = int (length xs)"
  have "ofold (\<lambda>i s. obind (elem (Some xs) i) (\<lambda>x. f x s)) (indices n) s = ofold (\<lambda>i. f (xs ! nat i)) (indices n) s"
    by (rule ofold_cong) (auto simp: elem_def n nat_less_iff)
  also have "\<dots> = ofold f (map (\<lambda>i. xs ! nat i) (indices n)) s" by (simp add: ofold_map)
  finally show ?thesis using nths_indices [of xs] n by simp
qed

section \<open>There and back\<close>

text \<open>Every pattern gets the end of its last event as its duration.\<close>

fun with_ends :: "int \<Rightarrow> VibratePattern list \<Rightarrow> VibratePattern list" where
  "with_ends d [] = []"
| "with_ends d (a # as) = a\<lparr>pat_patternDuration := pattern_end d (pat_events a)\<rparr> # with_ends (pattern_end d (pat_events a)) as"

lemma read_points_back: "n = int (length ps) \<Longrightarrow> read_points (Some (map c_point ps)) n = Done ps"
proof -
  assume n: "n = int (length ps)"
  have "collect (\<lambda>c. Done (ipc_point c)) (map c_point ps) = Done (map ipc_point (map c_point ps))"
    by (rule collect_map) simp
  moreover have "map ipc_point (map c_point ps) = ps"
    by (induction ps) (simp_all add: ipc_point_def c_point_def)
  ultimately show ?thesis using collect_array [of n "map c_point ps" "\<lambda>c. Done (ipc_point c)"] n
    by (simp add: read_points_def)
qed

lemma convert_event_back:
  assumes "c_event A e = Done c" and "length (ev_points e) \<le> 16"
  shows "convert_event c = Done e"
proof -
  have "wrap32 (int (length (ev_points e))) = int (length (ev_points e))" using assms(2) by (simp add: wrap32_small)
  with assms(1) show ?thesis
    by (auto simp: c_event_def convert_event_def points_unless_null_def read_points_back ipc_event_def split: if_splits)
qed

lemma convert_events_back:
  "collect (c_event A) es = Done cs \<Longrightarrow> list_all (\<lambda>e. length (ev_points e) \<le> 16) es \<Longrightarrow> collect convert_event cs = Done es"
  by (simp add: collect_Done list_all_length) (metis convert_event_back)

lemma obind_Done: "obind p f = Done y \<longleftrightarrow> (\<exists>x. p = Done x \<and> f x = Done y)"
  by (cases p) auto

lemma convert_patterns_back:
  "c_patterns A d as = Done cs \<Longrightarrow>
   list_all (\<lambda>a. length (pat_events a) \<le> 16 \<and> list_all (\<lambda>e. length (ev_points e) \<le> 16) (pat_events a)) as \<Longrightarrow>
   collect convert_pattern cs = Done (with_ends d as) \<and> length cs = length as"
proof (induction A d as arbitrary: cs rule: c_patterns.induct)
  case (2 A d a as)
  let ?d = "pattern_end d (pat_events a)"
  obtain es rest where es: "collect (c_event A) (pat_events a) = Done es" and rest: "c_patterns A ?d as = Done rest"
    and cs: "cs = \<lparr>vpt_time = pat_startTime a, vpt_eventNum = wrap32 (int (length (pat_events a))),
       vpt_patternDuration = ?d, vpt_events = Some es\<rparr> # rest" and A: "A (length (pat_events a))"
    using "2.prems"(1) by (auto simp: obind_Done Let_def split: if_splits)
  have len: "length es = length (pat_events a)" using es by (simp add: collect_Done)
  have n: "wrap32 (int (length (pat_events a))) = int (length es)" using "2.prems"(2) len by (simp add: wrap32_small)
  have "collect convert_event es = Done (pat_events a)" using convert_events_back [OF es] "2.prems"(2) by simp
  then have "convert_pattern (hd cs) = Done (a\<lparr>pat_patternDuration := ?d\<rparr>)"
    using collect_array [OF n, of convert_event] by (simp add: convert_pattern_def cs)
  with "2.IH" [OF _ refl rest] A "2.prems"(2) cs show ?case by simp
qed auto

text \<open>A package that the client has been given by the decoder comes back unchanged when it is played,
  up to the durations of its patterns: the client library replaces each by the end of the last event, and by that of the
  pattern before when there are no events.\<close>

theorem client_package_roundtrip:
  assumes "package_ok k" and "ConvertVibratorPackage_c A k = Done c"
  shows "ConvertVibratorPackage_ipc c = Done (k\<lparr>pkg_patterns := with_ends 0 (pkg_patterns k)\<rparr>)"
proof -
  obtain bs where bs: "c_patterns A 0 (pkg_patterns k) = Done bs" and c: "c = \<lparr>vpk_patternNum = wrap32 (int (length (pkg_patterns k))),
      vpk_packageDuration = pkg_packageDuration k, vpk_patterns = Some bs\<rparr>"
    using assms(2) by (auto simp: ConvertVibratorPackage_c_def obind_Done split: if_splits)
  have ok: "list_all (\<lambda>a. length (pat_events a) \<le> 16 \<and> list_all (\<lambda>e. length (ev_points e) \<le> 16) (pat_events a)) (pkg_patterns k)"
    "length (pkg_patterns k) \<le> 1000"
    using assms(1) by (auto simp: package_ok_def pattern_ok_def event_ok_def list_all_iff MAX_PATTERN_NUM_def MAX_EVENT_SIZE_def MAX_POINT_SIZE_def)
  note conv = convert_patterns_back [OF bs ok(1)]
  have n: "wrap32 (int (length (pkg_patterns k))) = int (length bs)" using ok(2) conv by (simp add: wrap32_small)
  show ?thesis
    using conv collect_array [OF n, of convert_pattern] by (simp add: ConvertVibratorPackage_ipc_def c)
qed

definition sample_pkg :: VibratePackage where
  "sample_pkg = \<lparr>pkg_patterns = [\<lparr>pat_startTime = 0, pat_patternDuration = 0, pat_events =
     [\<lparr>ev_tag = EVENT_TAG_CONTINUOUS, ev_time = 0, ev_duration = 500, ev_intensity = 50, ev_frequency = 0, ev_index = 0,
       ev_points = []\<rparr>,
      \<lparr>ev_tag = EVENT_TAG_TRANSIENT, ev_time = 600, ev_duration = 20, ev_intensity = 80, ev_frequency = 10, ev_index = 0,
       ev_points = []\<rparr>]\<rparr>], pkg_packageDuration = 620\<rparr>"

lemma client_package_roundtrip_witness:
  "obind (ConvertVibratorPackage_c (\<lambda>n. True) sample_pkg) ConvertVibratorPackage_ipc =
     Done (sample_pkg\<lparr>pkg_patterns := with_ends 0 (pkg_patterns sample_pkg)\<rparr>)"
proof -
  have "package_ok sample_pkg" by code_simp
  moreover obtain c where "ConvertVibratorPackage_c (\<lambda>n. True) sample_pkg = Done c"
    by (simp add: ConvertVibratorPackage_c_def sample_pkg_def c_event_def)
  ultimately show ?thesis using client_package_roundtrip [of sample_pkg "\<lambda>n. True"] by simp
qed

end
