(* ===== verification/ClientSeek.thy ===== *)
theory ClientSeek
  imports ClientPackages
begin

text \<open>
  What seeking in a package keeps: \<^verbatim>\<open>SeekTimeOnPackage\<close> is specified by what the events play on the
  time axis of the package, and shown to read no array out of bounds.
\<close>

section \<open>Well-formed packages\<close>

definition event_whole :: "VibratorEvent \<Rightarrow> bool" where
  "event_whole e \<longleftrightarrow> (ve_pointNum e = 0 \<or> (\<exists>ps. ve_points e = Some ps \<and> ve_pointNum e = int (length ps) \<and> length ps \<le> 16)) \<and>
     0 \<le> ve_time e \<and> ve_time e \<le> 100000000 \<and> 0 \<le> ve_duration e \<and> ve_duration e \<le> 100000000"

definition events_of :: "VibratorPattern \<Rightarrow> VibratorEvent list" where
  "events_of p = (case vpt_events p of None \<Rightarrow> [] | Some es \<Rightarrow> es)"

definition pattern_whole :: "VibratorPattern \<Rightarrow> bool" where
  "pattern_whole p \<longleftrightarrow> vpt_events p = Some (events_of p) \<and> vpt_eventNum p = int (length (events_of p)) \<and>
     1 \<le> length (events_of p) \<and> length (events_of p) \<le> 16 \<and> list_all event_whole (events_of p) \<and>
     0 \<le> vpt_time p \<and> vpt_time p \<le> 1000000000"

definition patterns_of :: "VibratorPackage \<Rightarrow> VibratorPattern list" where
  "patterns_of k = (case vpk_patterns k of None \<Rightarrow> [] | Some ps \<Rightarrow> ps)"

definition package_whole :: "VibratorPackage \<Rightarrow> bool" where
  "package_whole k \<longleftrightarrow> vpk_patterns k = Some (patterns_of k) \<and> vpk_patternNum k = int (length (patterns_of k)) \<and>
     length (patterns_of k) \<le> 1000 \<and> list_all pattern_whole (patterns_of k)"

section \<open>What a package plays\<close>

text \<open>
  An event with its place on the time axis of the package. The times of the points of its curve count from its begin.
\<close>

record sound =
  so_tag :: VibrateTag
  so_begin :: int
  so_end :: int
  so_intensity :: int
  so_frequency :: int
  so_index :: int
  so_curve :: "VibrateCurvePoint list"

abbreviation so_length :: "sound \<Rightarrow> int" where
  "so_length x \<equiv> so_end x - so_begin x"

definition sound :: "VibratePattern \<Rightarrow> VibrateEvent \<Rightarrow> sound" where
  "sound a e = \<lparr>so_tag = ev_tag e, so_begin = pat_startTime a + ev_time e, so_end = pat_startTime a + ev_time e + ev_duration e,
     so_intensity = ev_intensity e, so_frequency = ev_frequency e, so_index = ev_index e, so_curve = ev_points e\<rparr>"

lemma sound_update [simp]:
  "sound (a\<lparr>pat_patternDuration := d, pat_events := es\<rparr>) = sound a"
  by (simp add: sound_def fun_eq_iff)

definition c_curve :: "VibratorEvent \<Rightarrow> VibrateCurvePoint list" where
  "c_curve e = (case ve_points e of None \<Rightarrow> [] | Some ps \<Rightarrow>
     map (\<lambda>c. \<lparr>cp_time = vcp_time c, cp_intensity = vcp_intensity c, cp_frequency = vcp_frequency c\<rparr>) (take (nat (ve_pointNum e)) ps))"

definition c_sound :: "VibratorPattern \<Rightarrow> VibratorEvent \<Rightarrow> sound" where
  "c_sound p e = \<lparr>so_tag = tag_of_type (ve_type e), so_begin = vpt_time p + ve_time e,
     so_end = vpt_time p + ve_time e + ve_duration e, so_intensity = ve_intensity e, so_frequency = ve_frequency e,
     so_index = ve_index e, so_curve = c_curve e\<rparr>"

definition pattern_sounds :: "VibratePattern \<Rightarrow> int \<times> int \<times> sound list" where
  "pattern_sounds a = (pat_startTime a, pat_patternDuration a, map (sound a) (pat_events a))"

text \<open>
  From time \<open>s\<close> on: an event that begins later stays as it is, but for a curve of less than four points; the rest of
  a continuous event stays, without its curve, when it lasts at least 100 ms; everything else is dropped, and so is a pattern of
  which nothing is left.
\<close>

definition sound_from :: "int \<Rightarrow> sound \<Rightarrow> sound list" where
  "sound_from s x =
     (if s \<le> so_begin x then [x\<lparr>so_curve := if length (so_curve x) < 4 then [] else so_curve x\<rparr>]
      else if so_tag x = EVENT_TAG_CONTINUOUS \<and> 100 \<le> so_end x - s then [x\<lparr>so_begin := s, so_curve := []\<rparr>]
      else [])"

definition seek_spec :: "int \<Rightarrow> VibratorPattern \<Rightarrow> (int \<times> int \<times> sound list) list" where
  "seek_spec s p =
     (let sounds = map (c_sound p) (events_of p);
          rest = concat (map (sound_from s) sounds)
      in if s \<le> vpt_time p then [(vpt_time p, vpt_patternDuration p, sounds)]
         else if rest = [] then [] else [(s, sum_list (map so_length rest), rest)])"

text \<open>The time that seeking takes from an event, and from a pattern.\<close>

definition time_lost :: "int \<Rightarrow> sound \<Rightarrow> int" where
  "time_lost s x = so_length x - sum_list (map so_length (sound_from s x))"

definition pattern_lost :: "int \<Rightarrow> VibratorPattern \<Rightarrow> int" where
  "pattern_lost s p = (if s \<le> vpt_time p then 0 else sum_list (map (\<lambda>e. time_lost s (c_sound p e)) (events_of p)))"

section \<open>The functions meet the specification\<close>

lemma read_points_whole:
  assumes "event_whole e"
  shows "read_points (ve_points e) (ve_pointNum e) = Done (c_curve e)"
proof (cases "ve_pointNum e = 0")
  case True
  then show ?thesis by (simp add: read_points_def indices_def c_curve_def split: option.split)
next
  case False
  with assms obtain ps where ps: "ve_points e = Some ps" "ve_pointNum e = int (length ps)" by (auto simp: event_whole_def)
  have "collect (\<lambda>c. Done (ipc_point c)) ps = Done (map ipc_point ps)" by (rule collect_map) simp
  with collect_array [OF ps(2), of "\<lambda>c. Done (ipc_point c)"] ps show ?thesis by (simp add: read_points_def c_curve_def ipc_point_def)
qed

lemma c_curve_length: "event_whole e \<Longrightarrow> int (length (c_curve e)) = ve_pointNum e"
  by (auto simp: event_whole_def c_curve_def split: option.splits)

lemma ConvertVibratorPattern_sounds:
  assumes "pattern_whole p"
  shows "\<exists>a. ConvertVibratorPattern p = Done a \<and> pattern_sounds a = (vpt_time p, vpt_patternDuration p, map (c_sound p) (events_of p))"
proof -
  let ?f = "\<lambda>e. obind (read_points (ve_points e) (ve_pointNum e mod 4294967296)) (\<lambda>ps. Done (ipc_event e ps))"
  have p: "vpt_events p = Some (events_of p)" "vpt_eventNum p = int (length (events_of p))" "length (events_of p) \<le> 16"
    using assms by (auto simp: pattern_whole_def)
  have one: "?f e = Done (ipc_event e (c_curve e))" if "e \<in> set (events_of p)" for e
  proof -
    have w: "event_whole e" using assms that by (simp add: pattern_whole_def list_all_iff)
    then have "ve_pointNum e mod 4294967296 = ve_pointNum e" by (auto simp: event_whole_def)
    with read_points_whole [OF w] show ?thesis by simp
  qed
  have "collect ?f (events_of p) = Done (map (\<lambda>e. ipc_event e (c_curve e)) (events_of p))" by (rule collect_map) (rule one)
  then show ?thesis
    using p collect_array [OF p(2), of ?f]
    by (simp add: ConvertVibratorPattern_def pattern_sounds_def sound_def c_sound_def ipc_event_def comp_def)
qed

text \<open>The state of the loop over events: the duration of the package, and the pattern, whose duration is that of its events.\<close>

definition loop_ok :: "int \<Rightarrow> nat \<Rightarrow> int \<Rightarrow> VibratePattern \<Rightarrow> bool" where
  "loop_ok s n d a \<longleftrightarrow> pat_startTime a = s \<and> pat_patternDuration a = sum_list (map so_length (map (sound a) (pat_events a))) \<and>
     0 \<le> pat_patternDuration a \<and> pat_patternDuration a + 100000000 * int n \<le> 2000000000 \<and> 0 \<le> d \<and> d < 2147483648"

lemma time_lost_bounds: "event_whole e \<Longrightarrow> 0 \<le> time_lost s (c_sound p e)"
  by (auto simp: time_lost_def sound_from_def c_sound_def event_whole_def)

lemma seek_event_sounds:
  assumes "event_whole e" and "vpt_time p < s" and "0 \<le> vpt_time p" and "s \<le> 1000000000" and "loop_ok s (Suc n) d a"
  shows "\<exists>a'. seek_event s (vpt_time p) e (d, a) = Done (max 0 (d - time_lost s (c_sound p e)), a') \<and>
    map (sound a') (pat_events a') = map (sound a) (pat_events a) @ sound_from s (c_sound p e) \<and>
    loop_ok s n (max 0 (d - time_lost s (c_sound p e))) a'"
proof -
  have e: "0 \<le> ve_time e" "ve_time e \<le> 100000000" "0 \<le> ve_duration e" "ve_duration e \<le> 100000000"
    using assms(1) by (simp_all add: event_whole_def)
  have a: "pat_startTime a = s" "0 \<le> d" "d < 2147483648" "0 \<le> pat_patternDuration a"
    "pat_patternDuration a + 100000000 * int (Suc n) \<le> 2000000000"
    "pat_patternDuration a = sum_list (map so_length (map (sound a) (pat_events a)))"
    using assms(5) by (simp_all add: loop_ok_def)
  define left where "left = ve_time e + vpt_time p + ve_duration e - s"
  have w: "wrap32 (ve_time e + vpt_time p) = ve_time e + vpt_time p"
    "wrap32 (ve_time e + vpt_time p + ve_duration e) = ve_time e + vpt_time p + ve_duration e"
    "wrap32 (ve_time e + vpt_time p - s) = ve_time e + vpt_time p - s" "wrap32 left = left"
    "wrap32 (d - ve_duration e) = d - ve_duration e"
    using assms e a by (auto simp: left_def intro!: wrap32_small)
  have points: "(if ve_pointNum e < 4 \<or> ve_pointNum e > 16 then Done [] else read_points (ve_points e) (ve_pointNum e)) =
      Done (if length (c_curve e) < 4 then [] else c_curve e)"
    using read_points_whole [OF assms(1)] c_curve_length [OF assms(1)] assms(1) by (auto simp: event_whole_def)
  have tag: "ve_type e = EVENT_TYPE_CONTINUOUS \<longleftrightarrow> tag_of_type (ve_type e) = EVENT_TAG_CONTINUOUS" by (cases "ve_type e") simp_all
  show ?thesis
  proof (cases "s \<le> ve_time e + vpt_time p")
    case True
    have d: "wrap32 (pat_patternDuration a + ve_duration e) = pat_patternDuration a + ve_duration e"
      using a e by (intro wrap32_small) simp_all
    show ?thesis
      unfolding seek_event_def SkipEventAndConvertVibratorEvent_def Let_def
      using True w points d a e
      by (auto simp: sound_from_def c_sound_def sound_def ipc_event_def time_lost_def loop_ok_def)
  next
    case early: False
    show ?thesis
    proof (cases "ve_type e = EVENT_TYPE_CONTINUOUS \<and> 100 \<le> left")
      case True
      have d: "wrap32 (pat_patternDuration a + left) = pat_patternDuration a + left"
        "wrap32 (d - ve_duration e + left) = d - ve_duration e + left"
        using a e early True by (auto simp: left_def intro!: wrap32_small)
      show ?thesis
        unfolding seek_event_def SkipEventAndConvertVibratorEvent_def Let_def
        using True early w d a e tag
        by (auto simp: sound_from_def c_sound_def sound_def blank_event_def time_lost_def loop_ok_def left_def)
    next
      case False
      show ?thesis
        unfolding seek_event_def SkipEventAndConvertVibratorEvent_def Let_def
        using False early w a e tag
        by (auto simp: sound_from_def c_sound_def blank_event_def time_lost_def loop_ok_def left_def)
    qed
  qed
qed

lemma max_lost: "0 \<le> (l :: int) \<Longrightarrow> max 0 (max 0 (d - l) - l') = max 0 (d - (l + l'))" if "0 \<le> l'"
  using that by (simp add: max_def)

lemma seek_events_sounds:
  assumes "vpt_time p < s" and "0 \<le> vpt_time p" and "s \<le> 1000000000"
  shows "list_all event_whole es \<Longrightarrow> loop_ok s (length es) d a \<Longrightarrow>
    \<exists>a'. ofold (seek_event s (vpt_time p)) es (d, a) = Done (max 0 (d - sum_list (map (\<lambda>e. time_lost s (c_sound p e)) es)), a') \<and>
      map (sound a') (pat_events a') = map (sound a) (pat_events a) @ concat (map (sound_from s) (map (c_sound p) es)) \<and>
      loop_ok s 0 (max 0 (d - sum_list (map (\<lambda>e. time_lost s (c_sound p e)) es))) a'"
proof (induction es arbitrary: d a)
  case Nil
  then show ?case by (simp add: loop_ok_def)
next
  case (Cons e es)
  have e: "event_whole e" "list_all event_whole es" "loop_ok s (Suc (length es)) d a" using Cons.prems by simp_all
  let ?d = "max 0 (d - time_lost s (c_sound p e))"
  obtain a1 where step: "seek_event s (vpt_time p) e (d, a) = Done (?d, a1)" "loop_ok s (length es) ?d a1"
    "map (sound a1) (pat_events a1) = map (sound a) (pat_events a) @ sound_from s (c_sound p e)"
    using seek_event_sounds [OF e(1) assms e(3)] by blast
  have "0 \<le> sum_list (map (\<lambda>e. time_lost s (c_sound p e)) es)"
    using e(2) by (intro sum_list_nonneg) (auto simp: list_all_iff time_lost_bounds)
  note lost = max_lost [OF this time_lost_bounds [OF e(1)], of d s p]
  from Cons.IH [OF e(2) step(2)] step(1,3) show ?case unfolding lost by auto
qed

lemma seek_pattern_sounds:
  assumes "pattern_whole p" and "s \<le> 1000000000" and "0 \<le> d" and "d < 2147483648"
  shows "\<exists>out'. seek_pattern s p (d, out) = Done (max 0 (d - pattern_lost s p), out') \<and>
    map pattern_sounds out' = map pattern_sounds out @ seek_spec s p"
proof (cases "s \<le> vpt_time p")
  case True
  with ConvertVibratorPattern_sounds [OF assms(1)] assms(3) show ?thesis by (auto simp: seek_pattern_def seek_spec_def pattern_lost_def)
next
  case False
  have p: "vpt_events p = Some (events_of p)" "vpt_eventNum p = int (length (events_of p))" "1 \<le> length (events_of p)"
    "length (events_of p) \<le> 16" "list_all event_whole (events_of p)" "0 \<le> vpt_time p"
    using assms by (auto simp: pattern_whole_def)
  let ?a = "\<lparr>pat_startTime = s, pat_patternDuration = 0, pat_events = []\<rparr>" and ?d = "max 0 (d - pattern_lost s p)"
  have "loop_ok s (length (events_of p)) d ?a" using assms p by (simp add: loop_ok_def)
  then obtain a1 where fold: "ofold (seek_event s (vpt_time p)) (events_of p) (d, ?a) = Done (?d, a1)" "loop_ok s 0 ?d a1"
    "map (sound a1) (pat_events a1) = concat (map (sound_from s) (map (c_sound p) (events_of p)))"
    using seek_events_sounds [OF _ p(6) assms(2) p(5), of d ?a] False by (auto simp: pattern_lost_def)
  have empty: "pat_events a1 = [] \<longleftrightarrow> concat (map (sound_from s) (map (c_sound p) (events_of p))) = []"
    using fold(3) by (metis Nil_is_map_conv)
  have "events_of p \<noteq> []" using p(3) by auto
  then have "seek_pattern s p (d, out) = Done (?d, if pat_events a1 = [] then out else out @ [a1])"
    using False p ofold_array [OF p(2), of "\<lambda>e s'. seek_event s (vpt_time p) e s'" "(d, ?a)"] fold(1)
    by (simp add: seek_pattern_def)
  moreover have "pat_startTime a1 = s" "pat_patternDuration a1 = sum_list (map so_length (map (sound a1) (pat_events a1)))"
    using fold(2) unfolding loop_ok_def by blast+
  ultimately show ?thesis using fold(3) empty False
    by (auto simp: seek_spec_def Let_def pattern_sounds_def simp del: map_map)
qed

lemma pattern_lost_bounds: "pattern_whole p \<Longrightarrow> 0 \<le> pattern_lost s p"
  by (auto simp: pattern_lost_def pattern_whole_def list_all_iff time_lost_bounds intro!: sum_list_nonneg)

lemma seek_patterns_sounds:
  assumes "s \<le> 1000000000"
  shows "list_all pattern_whole ps \<Longrightarrow> 0 \<le> d \<Longrightarrow> d < 2147483648 \<Longrightarrow>
    \<exists>out'. ofold (seek_pattern s) ps (d, out) = Done (max 0 (d - sum_list (map (pattern_lost s) ps)), out') \<and>
      map pattern_sounds out' = map pattern_sounds out @ concat (map (seek_spec s) ps)"
proof (induction ps arbitrary: d out)
  case (Cons p ps)
  then have p: "pattern_whole p" "list_all pattern_whole ps" by simp_all
  let ?d = "max 0 (d - pattern_lost s p)"
  obtain out1 where step: "seek_pattern s p (d, out) = Done (?d, out1)"
    "map pattern_sounds out1 = map pattern_sounds out @ seek_spec s p"
    using seek_pattern_sounds [OF p(1) assms Cons.prems(2,3)] by blast
  have d: "0 \<le> ?d" "?d < 2147483648" using Cons.prems(2,3) pattern_lost_bounds [OF p(1), of s] by (auto simp: max_def)
  have "0 \<le> sum_list (map (pattern_lost s) ps)"
    using p(2) by (intro sum_list_nonneg) (auto simp: list_all_iff pattern_lost_bounds)
  note lost = max_lost [OF this pattern_lost_bounds [OF p(1)], of d s]
  from Cons.IH [OF p(2) d, of out1] step show ?case unfolding lost by auto
qed simp

text \<open>C25. Seeking in a well-formed package never reads out of bounds, and what is left is exactly what the
  package plays from that time on: later patterns whole; of the earlier ones the events that begin later, each at its time and with its tag,
  duration, intensity, frequency, index and curve (of at least four points); and the rest of a continuous event that goes on for at
  least 100 ms, with its intensity, frequency and index but without its curve. The duration of a pattern that was cut is that
  of its events, and the package gets shorter by exactly the time that was taken from its events, down to 0.\<close>

theorem seek_keeps_exactly_the_rest:
  assumes "package_whole k" and "s \<le> 1000000000" and "0 \<le> vpk_packageDuration k" and "vpk_packageDuration k < 2147483648"
  shows "\<exists>k'. ConvertSeekVibratorPackage k s = Done k' \<and>
    map pattern_sounds (pkg_patterns k') = concat (map (seek_spec s) (patterns_of k)) \<and>
    pkg_packageDuration k' = max 0 (vpk_packageDuration k - sum_list (map (pattern_lost s) (patterns_of k)))"
proof -
  have k: "vpk_patterns k = Some (patterns_of k)" "vpk_patternNum k = int (length (patterns_of k))"
    "length (patterns_of k) \<le> 1000" "list_all pattern_whole (patterns_of k)"
    using assms(1) by (auto simp: package_whole_def)
  from seek_patterns_sounds [OF assms(2) k(4) assms(3,4), of "[]"]
    ofold_array [OF k(2), of "\<lambda>p s'. seek_pattern s p s'" "(vpk_packageDuration k, [])"] k
  show ?thesis by (auto simp: ConvertSeekVibratorPackage_def)
qed

definition sample_c_package :: VibratorPackage where
  "sample_c_package = (case ConvertVibratorPackage_c (\<lambda>n. True) sample_pkg of Done c \<Rightarrow> c
     | _ \<Rightarrow> \<lparr>vpk_patternNum = 0, vpk_packageDuration = 0, vpk_patterns = None\<rparr>)"

text \<open>A continuous event of 500 ms with a curve, and a transient one; from 300 ms on the curve is gone.\<close>

definition sample_seek_package :: VibratorPackage where
  "sample_seek_package = \<lparr>vpk_patternNum = 1, vpk_packageDuration = 620, vpk_patterns = Some [
     \<lparr>vpt_time = 0, vpt_eventNum = 2, vpt_patternDuration = 620, vpt_events = Some [
        \<lparr>ve_type = EVENT_TYPE_CONTINUOUS, ve_time = 0, ve_duration = 500, ve_intensity = 50, ve_frequency = 7, ve_index = 1,
          ve_pointNum = 4, ve_points = Some (map (\<lambda>t. \<lparr>vcp_time = t, vcp_intensity = 80, vcp_frequency = 3\<rparr>) [0, 100, 350, 500])\<rparr>,
        \<lparr>ve_type = EVENT_TYPE_TRANSIENT, ve_time = 600, ve_duration = 20, ve_intensity = 90, ve_frequency = 10, ve_index = 2,
          ve_pointNum = 0, ve_points = None\<rparr>]\<rparr>]\<rparr>"

lemma seek_keeps_exactly_the_rest_witness:
  "\<exists>k'. ConvertSeekVibratorPackage sample_seek_package 300 = Done k' \<and> pkg_packageDuration k' = 320 \<and>
    map pattern_sounds (pkg_patterns k') = [(300, 220,
      [\<lparr>so_tag = EVENT_TAG_CONTINUOUS, so_begin = 300, so_end = 500, so_intensity = 50, so_frequency = 7, so_index = 1, so_curve = []\<rparr>,
       \<lparr>so_tag = EVENT_TAG_TRANSIENT, so_begin = 600, so_end = 620, so_intensity = 90, so_frequency = 10, so_index = 2, so_curve = []\<rparr>])]"
proof -
  have "package_whole sample_seek_package"
    by (simp add: package_whole_def sample_seek_package_def patterns_of_def pattern_whole_def events_of_def event_whole_def)
  moreover have "concat (map (seek_spec 300) (patterns_of sample_seek_package)) = [(300, 220,
      [\<lparr>so_tag = EVENT_TAG_CONTINUOUS, so_begin = 300, so_end = 500, so_intensity = 50, so_frequency = 7, so_index = 1, so_curve = []\<rparr>,
       \<lparr>so_tag = EVENT_TAG_TRANSIENT, so_begin = 600, so_end = 620, so_intensity = 90, so_frequency = 10, so_index = 2, so_curve = []\<rparr>])]"
    by code_simp
  moreover have "vpk_packageDuration sample_seek_package = 620" by (simp add: sample_seek_package_def)
  moreover have "sum_list (map (pattern_lost 300) (patterns_of sample_seek_package)) = 300" by code_simp
  ultimately show ?thesis using seek_keeps_exactly_the_rest [of sample_seek_package 300] by auto
qed

text \<open>The waveform after the time point is not the one that played there: the curve of an event that is cut is dropped.\<close>

lemma seek_drops_curve_of_cut_event:
  assumes "so_begin x < s" and "y \<in> set (sound_from s x)"
  shows "so_curve y = []"
proof -
  have "sound_from s x = [] \<or> sound_from s x = [x\<lparr>so_begin := s, so_curve := []\<rparr>]" using assms(1) by (simp add: sound_from_def)
  with assms(2) show ?thesis by (elim disjE) simp_all
qed

end
