(* ===== verification/ClientModulation.thy ===== *)
theory ClientModulation
  imports ClientSeek
begin

text \<open>
  \<^verbatim>\<open>ModulatePackage\<close> of the client library, \<^verbatim>\<open>vibrator_service_client.cpp\<close>: the intensity and
  frequency of every event of a package, or of every point of its curve, are adjusted by the part of a
  modulation curve in which it lies. \<open>A n\<close> says whether \<^verbatim>\<open>calloc\<close> gives memory for \<open>n\<close> elements; what
  is freed after a failure is in \<open>PackageMemory\<close>.
\<close>

section \<open>Intervals of the modulation curve\<close>

record VibratorCurveInterval =
  iv_beginTime :: int
  iv_endTime :: int
  iv_intensity :: int
  iv_frequency :: int

definition interval_of :: "int \<Rightarrow> VibratorCurvePoint \<Rightarrow> int \<Rightarrow> VibratorCurveInterval" where
  "interval_of off c e = \<lparr>iv_beginTime = wrap32 (off + vcp_time c), iv_endTime = wrap32 (off + e),
     iv_intensity = vcp_intensity c, iv_frequency = vcp_frequency c\<rparr>"

text \<open>The loop from index \<open>i\<close>, for \<open>m\<close> more rounds.\<close>

fun interval_loop :: "VibratorEvent \<Rightarrow> int \<Rightarrow> nat \<Rightarrow> int \<Rightarrow> VibratorCurveInterval list outcome" where
  "interval_loop v off 0 i = Done []"
| "interval_loop v off (Suc m) i =
     obind (elem (ve_points v) i) (\<lambda>c.
       if vcp_time c < ve_duration v then
         obind (if i + 1 < ve_pointNum v then obind (elem (ve_points v) (i + 1)) (\<lambda>c'. Done (min (vcp_time c') (ve_duration v)))
                else Done (ve_duration v)) (\<lambda>e.
         obind (interval_loop v off m (i + 1)) (\<lambda>rest. Done (interval_of off c e # rest)))
       else Done [])"

definition ConvertVibratorEventsToCurveIntervals :: "VibratorEvent \<Rightarrow> int \<Rightarrow> VibratorCurveInterval list outcome" where
  "ConvertVibratorEventsToCurveIntervals v patternTimeOffset =
     interval_loop v (wrap32 (patternTimeOffset + ve_time v)) (nat (ve_pointNum v)) 0"

function search_loop :: "VibratorCurveInterval list \<Rightarrow> int \<Rightarrow> int \<Rightarrow> int \<Rightarrow> int" where
  "search_loop ivs v headIdx tailIdx =
     (if tailIdx - headIdx > 1 then
        let middleIdx = (tailIdx - headIdx) div 2 + headIdx in
        if iv_endTime (ivs ! nat middleIdx) < v then search_loop ivs v middleIdx tailIdx
        else search_loop ivs v headIdx middleIdx
      else tailIdx)"
  by pat_completeness auto

termination
  by (relation "measure (\<lambda>(ivs, v, h, t). nat (t - h))") auto

declare search_loop.simps [simp del]

text \<open>The new value of \<^verbatim>\<open>idx\<close>.\<close>

definition BinarySearchInterval :: "VibratorCurveInterval list \<Rightarrow> int \<Rightarrow> int \<Rightarrow> int" where
  "BinarySearchInterval ivs v idx =
     (if ivs = [] then idx
      else if v < iv_beginTime (hd ivs) \<or> v > iv_endTime (last ivs) then -1
      else if v \<ge> iv_beginTime (hd ivs) \<and> v \<le> iv_endTime (hd ivs) then 0
      else search_loop ivs v 0 (int (length ivs) - 1))"

section \<open>Modulation\<close>

definition RestrictFrequencyRange :: "int \<Rightarrow> int" where
  "RestrictFrequencyRange f = (if f > 100 then 100 else if f < -100 then -100 else f)"

definition RestrictIntensityRange :: "int \<Rightarrow> int" where
  "RestrictIntensityRange i = (if i > 100 then 100 else if i < 0 then 0 else i)"

text \<open>\<^verbatim>\<open>x / 100\<close> rounds toward zero.\<close>

definition percent :: "int \<Rightarrow> int" where
  "percent x = sgn x * (\<bar>x\<bar> div 100)"

definition adjusted_intensity :: "VibratorCurveInterval \<Rightarrow> int \<Rightarrow> int" where
  "adjusted_intensity iv x = RestrictIntensityRange (percent (wrap32 (x * iv_intensity iv)))"

definition adjusted_frequency :: "VibratorCurveInterval \<Rightarrow> int \<Rightarrow> int" where
  "adjusted_frequency iv x = RestrictFrequencyRange (wrap32 (x + iv_frequency iv))"

definition ModulateEventWithoutCurvePoints ::
    "VibratorCurveInterval list \<Rightarrow> int \<Rightarrow> VibratorEvent \<Rightarrow> VibratorEvent outcome" where
  "ModulateEventWithoutCurvePoints ivs patternStartTime e =
     (let after = e\<lparr>ve_pointNum := 0, ve_points := None\<rparr>;
          idx = BinarySearchInterval ivs (wrap32 (ve_time e + patternStartTime)) 0
      in if ivs = [] then Fail ERROR
         else if idx \<ge> 0 then
           if idx \<ge> int (length ivs) then Fail ERROR
           else Done (after\<lparr>ve_intensity := adjusted_intensity (ivs ! nat idx) (ve_intensity e),
                            ve_frequency := adjusted_frequency (ivs ! nat idx) (ve_frequency e)\<rparr>)
         else Done after)"

definition adjusted_point :: "VibratorCurveInterval \<Rightarrow> VibratorCurvePoint \<Rightarrow> VibratorCurvePoint" where
  "adjusted_point iv c = c\<lparr>vcp_intensity := adjusted_intensity iv (vcp_intensity c),
     vcp_frequency := adjusted_frequency iv (vcp_frequency c)\<rparr>"

text \<open>One round of the loop of \<^verbatim>\<open>GetCurveListAfterModulation\<close>; the state is \<^verbatim>\<open>modIdx\<close> and the list so far.\<close>

definition curve_round ::
    "VibratorCurveInterval list \<Rightarrow> int \<Rightarrow> VibratorCurvePoint \<Rightarrow> int \<times> VibratorCurvePoint list
      \<Rightarrow> (int \<times> VibratorCurvePoint list) outcome" where
  "curve_round ivs startTimeOffset c = (\<lambda>(modIdx, out).
     let modIdx = BinarySearchInterval ivs (wrap32 (startTimeOffset + vcp_time c)) modIdx in
     if modIdx \<ge> 0 then obind (elem (Some ivs) modIdx) (\<lambda>iv. Done (modIdx, out @ [adjusted_point iv c]))
     else Done (modIdx, out @ [c]))"

definition GetCurveListAfterModulation ::
    "(nat \<Rightarrow> bool) \<Rightarrow> VibratorCurveInterval list \<Rightarrow> VibratorEvent \<Rightarrow> int \<Rightarrow> VibratorCurvePoint list outcome" where
  "GetCurveListAfterModulation A ivs e patternOffset =
     (if \<not> A (nat (ve_pointNum e)) then Fail ERROR
      else obind (ofold (\<lambda>i s. obind (elem (ve_points e) i) (\<lambda>c. curve_round ivs (wrap32 (patternOffset + ve_time e)) c s))
                    (indices (ve_pointNum e)) (0, []))
             (\<lambda>(modIdx, out). Done out))"

definition ModulateEventWithCurvePoints ::
    "(nat \<Rightarrow> bool) \<Rightarrow> VibratorCurveInterval list \<Rightarrow> int \<Rightarrow> VibratorEvent \<Rightarrow> VibratorEvent outcome" where
  "ModulateEventWithCurvePoints A ivs patternStartTime e =
     (if ve_pointNum e = 0 \<or> ve_points e = None then Fail ERROR
      else if ve_pointNum e < 4 \<or> ve_pointNum e > 16 then Fail ERROR
      else obind (GetCurveListAfterModulation A ivs e patternStartTime) (\<lambda>ps. Done (e\<lparr>ve_points := Some ps\<rparr>)))"

definition ModulateVibratorEvent ::
    "(nat \<Rightarrow> bool) \<Rightarrow> VibratorEvent \<Rightarrow> int \<Rightarrow> VibratorEvent \<Rightarrow> VibratorEvent outcome" where
  "ModulateVibratorEvent A curve patternStartTime e =
     obind (ConvertVibratorEventsToCurveIntervals curve 0) (\<lambda>ivs.
       if ve_type e \<noteq> EVENT_TYPE_CONTINUOUS \<or> ve_pointNum e = 0 \<or> ve_points e = None
       then ModulateEventWithoutCurvePoints ivs patternStartTime e
       else ModulateEventWithCurvePoints A ivs patternStartTime e)"

definition ModulateVibratorPattern ::
    "(nat \<Rightarrow> bool) \<Rightarrow> VibratorEvent \<Rightarrow> VibratorPattern \<Rightarrow> VibratorPattern outcome" where
  "ModulateVibratorPattern A curve p =
     (if vpt_eventNum p \<le> 0 \<or> vpt_events p = None then Fail ERROR
      else if \<not> A (nat (vpt_eventNum p)) then Fail ERROR
      else obind (collect (\<lambda>i. obind (elem (vpt_events p) i) (ModulateVibratorEvent A curve (vpt_time p)))
                    (indices (vpt_eventNum p))) (\<lambda>es. Done (p\<lparr>vpt_events := Some es\<rparr>)))"

definition ModulatePackage ::
    "(nat \<Rightarrow> bool) \<Rightarrow> VibratorEvent \<Rightarrow> VibratorPackage \<Rightarrow> VibratorPackage outcome" where
  "ModulatePackage A curve k =
     (if vpk_patternNum k \<le> 0 \<or> vpk_patterns k = None then Fail ERROR
      else if ve_time curve < 0 \<or> ve_duration curve < 0 \<or> ve_pointNum curve \<le> 0 \<or> ve_points curve = None then Fail ERROR
      else if \<not> A (nat (vpk_patternNum k)) then Fail ERROR
      else obind (collect (\<lambda>i. obind (elem (vpk_patterns k) i) (ModulateVibratorPattern A curve)) (indices (vpk_patternNum k)))
             (\<lambda>ps. Done (k\<lparr>vpk_patterns := Some ps\<rparr>)))"

section \<open>The search\<close>

text \<open>The specification: the first interval that contains the value, found by trying one after the other.\<close>

definition iv_contains :: "int \<Rightarrow> VibratorCurveInterval \<Rightarrow> bool" where
  "iv_contains v iv \<longleftrightarrow> iv_beginTime iv \<le> v \<and> v \<le> iv_endTime iv"

fun first_containing :: "int \<Rightarrow> VibratorCurveInterval list \<Rightarrow> int \<Rightarrow> int" where
  "first_containing v [] n = -1"
| "first_containing v (iv # ivs) n = (if iv_contains v iv then n else first_containing v ivs (n + 1))"

text \<open>Each interval begins where the one before ends.\<close>

definition contiguous :: "VibratorCurveInterval list \<Rightarrow> bool" where
  "contiguous ivs \<longleftrightarrow> list_all (\<lambda>iv. iv_beginTime iv \<le> iv_endTime iv) ivs \<and> adjacent (\<lambda>a b. iv_beginTime b = iv_endTime a) ivs"

lemma contiguous_ends:
  assumes "contiguous ivs" and "i \<le> j" and "j < length ivs"
  shows "iv_endTime (ivs ! i) \<le> iv_endTime (ivs ! j)"
  using assms(2,3)
proof (induction j)
  case (Suc j)
  have step: "iv_endTime (ivs ! j) \<le> iv_endTime (ivs ! Suc j)"
    using assms(1) Suc.prems(2) by (auto simp: contiguous_def adjacent_nth list_all_length dest: spec [of _ "Suc j"] spec [of _ j])
  show ?case
  proof (cases "i = Suc j")
    case False
    then have "iv_endTime (ivs ! i) \<le> iv_endTime (ivs ! j)" using Suc by simp
    with step show ?thesis by linarith
  qed simp
qed simp

lemma first_containing_nth:
  "i < length ivs \<Longrightarrow> iv_contains v (ivs ! i) \<Longrightarrow> \<forall>j < i. \<not> iv_contains v (ivs ! j) \<Longrightarrow> first_containing v ivs n = n + int i"
proof (induction ivs arbitrary: i n)
  case (Cons iv ivs)
  show ?case
  proof (cases i)
    case 0
    with Cons.prems show ?thesis by simp
  next
    case (Suc k)
    with Cons.prems have "\<not> iv_contains v iv" by (metis nth_Cons_0 zero_less_Suc)
    moreover have "\<forall>j < k. \<not> iv_contains v (ivs ! j)" using Cons.prems(3) Suc by (metis Suc_less_eq nth_Cons_Suc)
    ultimately show ?thesis using Cons Suc by simp
  qed
qed simp

lemma first_containing_none: "\<forall>iv \<in> set ivs. \<not> iv_contains v iv \<Longrightarrow> first_containing v ivs n = -1"
  by (induction ivs arbitrary: n) auto

lemma search_loop_bounds:
  assumes "contiguous ivs"
  shows "0 \<le> h \<Longrightarrow> h < t \<Longrightarrow> t < int (length ivs) \<Longrightarrow> iv_endTime (ivs ! nat h) < v \<Longrightarrow> v \<le> iv_endTime (ivs ! nat t) \<Longrightarrow>
    \<exists>r. search_loop ivs v h t = int r \<and> 0 < r \<and> r < length ivs \<and> iv_endTime (ivs ! (r - 1)) < v \<and> v \<le> iv_endTime (ivs ! r)"
proof (induction ivs v h t rule: search_loop.induct)
  case (1 ivs v h t)
  show ?case
  proof (cases "t - h > 1")
    case True
    let ?m = "(t - h) div 2 + h"
    have m: "h < ?m" "?m < t" using True by linarith+
    show ?thesis
    proof (cases "iv_endTime (ivs ! nat ?m) < v")
      case less: True
      with "1.IH"(1) [OF True refl less] m "1.prems" True show ?thesis by (subst search_loop.simps) (simp add: Let_def)
    next
      case False
      with "1.IH"(2) [OF True refl False] m "1.prems" True show ?thesis by (subst search_loop.simps) (simp add: Let_def)
    qed
  next
    case False
    then have "t = h + 1" using "1.prems"(2) by linarith
    moreover have "search_loop ivs v h t = t" using False by (subst search_loop.simps) simp
    moreover have "nat t - 1 = nat h" using \<open>t = h + 1\<close> "1.prems"(1) by simp
    ultimately show ?thesis using "1.prems" by (intro exI [of _ "nat t"]) auto
  qed
qed

lemma search_first:
  assumes "contiguous ivs" and "ivs \<noteq> []"
  shows "BinarySearchInterval ivs v idx = first_containing v ivs 0"
proof -
  have hd: "hd ivs = ivs ! 0" and last: "last ivs = ivs ! (length ivs - 1)"
    using assms(2) by (simp_all add: hd_conv_nth last_conv_nth)
  have ends: "iv_endTime iv \<le> iv_endTime (last ivs)" if "iv \<in> set ivs" for iv
    using that contiguous_ends [OF assms(1), of _ "length ivs - 1"] assms(2) unfolding last by (auto simp: in_set_conv_nth)
  have begins: "iv_beginTime (hd ivs) \<le> iv_beginTime iv" if "iv \<in> set ivs" for iv
  proof -
    obtain j where j: "j < length ivs" "iv = ivs ! j" using \<open>iv \<in> set ivs\<close> by (auto simp: in_set_conv_nth)
    show ?thesis
    proof (cases j)
      case 0
      then show ?thesis using j hd by simp
    next
      case (Suc i)
      have "iv_beginTime (ivs ! j) = iv_endTime (ivs ! i)" using assms(1) j Suc by (auto simp: contiguous_def adjacent_nth)
      moreover have "iv_endTime (ivs ! 0) \<le> iv_endTime (ivs ! i)" using contiguous_ends [OF assms(1), of 0 i] j Suc by simp
      moreover have "iv_beginTime (ivs ! 0) \<le> iv_endTime (ivs ! 0)" using assms by (auto simp: contiguous_def list_all_length)
      ultimately show ?thesis using hd j by simp
    qed
  qed
  show ?thesis
  proof (cases "v < iv_beginTime (hd ivs) \<or> v > iv_endTime (last ivs)")
    case True
    then have "\<forall>iv \<in> set ivs. \<not> iv_contains v iv" using ends begins by (fastforce simp: iv_contains_def)
    with True assms(2) show ?thesis by (simp add: BinarySearchInterval_def first_containing_none)
  next
    case in_range: False
    show ?thesis
    proof (cases "v \<le> iv_endTime (hd ivs)")
      case True
      with in_range assms(2) show ?thesis by (cases ivs) (auto simp: BinarySearchInterval_def iv_contains_def)
    next
      case False
      have "length ivs \<noteq> 1" using False in_range hd last by auto
      then have n: "1 < length ivs" using assms(2) by (cases ivs) auto
      obtain r where r: "search_loop ivs v 0 (int (length ivs) - 1) = int r" "0 < r" "r < length ivs"
        "iv_endTime (ivs ! (r - 1)) < v" "v \<le> iv_endTime (ivs ! r)"
        using search_loop_bounds [OF assms(1), of 0 "int (length ivs) - 1" v] n False in_range hd last
        by (auto simp: nat_diff_distrib)
      have "iv_beginTime (ivs ! r) = iv_endTime (ivs ! (r - 1))"
        using assms(1) r(2,3) by (auto simp: contiguous_def adjacent_nth dest: spec [of _ "r - 1"])
      then have "iv_contains v (ivs ! r)" using r by (simp add: iv_contains_def)
      moreover have "\<forall>j < r. \<not> iv_contains v (ivs ! j)"
      proof (intro allI impI)
        fix j assume "j < r"
        then have "iv_endTime (ivs ! j) \<le> iv_endTime (ivs ! (r - 1))" using contiguous_ends [OF assms(1), of j "r - 1"] r(2,3) by simp
        with r(4) show "\<not> iv_contains v (ivs ! j)" by (simp add: iv_contains_def)
      qed
      ultimately have "first_containing v ivs 0 = int r" using first_containing_nth [OF r(3), of v 0] by simp
      with r(1) False in_range assms(2) show ?thesis by (simp add: BinarySearchInterval_def)
    qed
  qed
qed

text \<open>The binary search finds the first interval that contains the value, as trying them one after the
  other would, on intervals each of which begins where the one before ends; otherwise it gives -1.\<close>

theorem binary_search_is_linear_search:
  assumes "contiguous ivs" and "ivs \<noteq> []"
  shows "BinarySearchInterval ivs v idx = first_containing v ivs 0"
  using assms by (rule search_first)

definition sample_intervals :: "VibratorCurveInterval list" where
  "sample_intervals = map (\<lambda>(b, e). \<lparr>iv_beginTime = b, iv_endTime = e, iv_intensity = 50, iv_frequency = 1\<rparr>)
     [(0, 100), (100, 200), (200, 350), (350, 500)]"

lemma binary_search_is_linear_search_witness:
  "BinarySearchInterval sample_intervals 200 7 = 1"
proof -
  have "contiguous sample_intervals" "sample_intervals \<noteq> []" "first_containing 200 sample_intervals 0 = 1" by code_simp+
  with binary_search_is_linear_search show ?thesis by metis
qed

section \<open>What modulation does\<close>

text \<open>The intervals of a curve whose points are all there.\<close>

fun intervals_of :: "int \<Rightarrow> int \<Rightarrow> VibratorCurvePoint list \<Rightarrow> VibratorCurveInterval list" where
  "intervals_of off dur [] = []"
| "intervals_of off dur (c # cs) =
     (if vcp_time c < dur
      then interval_of off c (case cs of [] \<Rightarrow> dur | c' # _ \<Rightarrow> min (vcp_time c') dur) # intervals_of off dur cs else [])"

lemma interval_loop_whole:
  "ve_points v = Some (ys @ cs) \<Longrightarrow> ve_pointNum v = int (length (ys @ cs)) \<Longrightarrow>
   interval_loop v off (length cs) (int (length ys)) = Done (intervals_of off (ve_duration v) cs)"
proof (induction cs arbitrary: ys)
  case (Cons c cs)
  have here: "elem (ve_points v) (int (length ys)) = Done c"
    using Cons.prems(1) by (simp add: elem_def nth_append)
  have "elem (ve_points v) (int (length ys) + 1) = Done c'" if "cs = c' # cs'" for c' cs'
    using Cons.prems(1) that by (simp add: elem_def nat_add_distrib nth_append)
  moreover have "interval_loop v off (length cs) (int (length ys) + 1) = Done (intervals_of off (ve_duration v) cs)"
    using Cons.IH [of "ys @ [c]"] Cons.prems by (simp add: add.commute)
  ultimately show ?case using here Cons.prems(2) by (cases cs) simp_all
qed simp

definition curve_points :: "VibratorEvent \<Rightarrow> VibratorCurvePoint list" where
  "curve_points e = (case ve_points e of None \<Rightarrow> [] | Some ps \<Rightarrow> ps)"

definition curve_whole :: "VibratorEvent \<Rightarrow> bool" where
  "curve_whole v \<longleftrightarrow> ve_points v = Some (curve_points v) \<and> ve_pointNum v = int (length (curve_points v)) \<and> curve_points v \<noteq> [] \<and>
     sorted_wrt (\<lambda>c d. vcp_time c \<le> vcp_time d) (curve_points v) \<and>
     list_all (\<lambda>c. 0 \<le> vcp_time c \<and> vcp_time c \<le> 100000000) (curve_points v) \<and>
     vcp_time (hd (curve_points v)) < ve_duration v \<and> ve_duration v \<le> 100000000 \<and> 0 \<le> ve_time v \<and> ve_time v \<le> 100000000"

definition curve_intervals :: "VibratorEvent \<Rightarrow> VibratorCurveInterval list" where
  "curve_intervals v = intervals_of (ve_time v) (ve_duration v) (curve_points v)"

lemma intervals_contiguous:
  assumes "0 \<le> off" and "off \<le> 100000000" and "dur \<le> 100000000"
  shows "sorted_wrt (\<lambda>c d. vcp_time c \<le> vcp_time d) cs \<Longrightarrow> list_all (\<lambda>c. 0 \<le> vcp_time c \<and> vcp_time c \<le> 100000000) cs \<Longrightarrow>
    contiguous (intervals_of off dur cs)"
proof (induction cs)
  case (Cons c cs)
  have ih: "contiguous (intervals_of off dur cs)" using Cons by simp
  show ?case
  proof (cases "vcp_time c < dur")
    case True
    have small: "wrap32 (off + x) = off + x" if "0 \<le> x" "x \<le> 100000000" for x
      using that assms by (intro wrap32_small) auto
    show ?thesis
    proof (cases cs)
      case Nil
      with True Cons.prems assms small show ?thesis by (simp add: contiguous_def interval_of_def)
    next
      case (Cons c' cs')
      have t: "0 \<le> vcp_time c" "vcp_time c \<le> vcp_time c'" "vcp_time c' \<le> 100000000" using Cons.prems Cons by auto
      with ih True Cons assms(3) show ?thesis
        by (cases "vcp_time c' < dur") (auto simp: contiguous_def interval_of_def small)
    qed
  qed (simp add: contiguous_def)
qed (simp add: contiguous_def)

lemma curve_intervals_ok:
  assumes "curve_whole v"
  shows "ConvertVibratorEventsToCurveIntervals v 0 = Done (curve_intervals v)"
    and "contiguous (curve_intervals v)" and "curve_intervals v \<noteq> []"
proof -
  have v: "ve_points v = Some (curve_points v)" "ve_pointNum v = int (length (curve_points v))" "curve_points v \<noteq> []"
    "vcp_time (hd (curve_points v)) < ve_duration v" "0 \<le> ve_time v" "ve_time v \<le> 100000000" "ve_duration v \<le> 100000000"
    "sorted_wrt (\<lambda>c d. vcp_time c \<le> vcp_time d) (curve_points v)"
    "list_all (\<lambda>c. 0 \<le> vcp_time c \<and> vcp_time c \<le> 100000000) (curve_points v)"
    using assms by (auto simp: curve_whole_def)
  have "wrap32 (ve_time v) = ve_time v" using v(5,6) by (intro wrap32_small) auto
  with interval_loop_whole [of v "[]" "curve_points v" "ve_time v"] v(1,2)
  show "ConvertVibratorEventsToCurveIntervals v 0 = Done (curve_intervals v)"
    by (simp add: ConvertVibratorEventsToCurveIntervals_def curve_intervals_def)
  show "contiguous (curve_intervals v)"
    unfolding curve_intervals_def by (rule intervals_contiguous [OF v(5,6,7,8,9)])
  show "curve_intervals v \<noteq> []"
    using v(3,4) by (cases "curve_points v") (simp_all add: curve_intervals_def)
qed

text \<open>The specification: the part of the curve at a time, and what it does to a point or an event.\<close>

definition part_at :: "VibratorEvent \<Rightarrow> int \<Rightarrow> VibratorCurveInterval option" where
  "part_at curve t = List.find (iv_contains t) (curve_intervals curve)"

definition modulated_point :: "VibratorEvent \<Rightarrow> int \<Rightarrow> VibratorCurvePoint \<Rightarrow> VibratorCurvePoint" where
  "modulated_point curve start c =
     (case part_at curve (start + vcp_time c) of None \<Rightarrow> c | Some iv \<Rightarrow> adjusted_point iv c)"

definition has_curve :: "VibratorEvent \<Rightarrow> bool" where
  "has_curve e \<longleftrightarrow> ve_type e = EVENT_TYPE_CONTINUOUS \<and> ve_pointNum e \<noteq> 0 \<and> ve_points e \<noteq> None"

definition modulated_event :: "VibratorEvent \<Rightarrow> int \<Rightarrow> VibratorEvent \<Rightarrow> VibratorEvent" where
  "modulated_event curve start e =
     (if has_curve e then e\<lparr>ve_points := Some (map (modulated_point curve (start + ve_time e)) (curve_points e))\<rparr>
      else case part_at curve (start + ve_time e) of
             None \<Rightarrow> e\<lparr>ve_pointNum := 0, ve_points := None\<rparr>
           | Some iv \<Rightarrow> e\<lparr>ve_pointNum := 0, ve_points := None, ve_intensity := adjusted_intensity iv (ve_intensity e),
                         ve_frequency := adjusted_frequency iv (ve_frequency e)\<rparr>)"

definition modulated_package :: "VibratorEvent \<Rightarrow> VibratorPackage \<Rightarrow> VibratorPackage" where
  "modulated_package curve k = k\<lparr>vpk_patterns := Some (map (\<lambda>p. p\<lparr>vpt_events :=
     Some (map (modulated_event curve (vpt_time p)) (events_of p))\<rparr>) (patterns_of k))\<rparr>"

text \<open>A continuous event with a curve has 4 to 16 points, at times that are no negative numbers.\<close>

definition event_modulable :: "VibratorEvent \<Rightarrow> bool" where
  "event_modulable e \<longleftrightarrow> event_whole e \<and> (has_curve e \<longrightarrow> 4 \<le> ve_pointNum e \<and> ve_pointNum e \<le> 16 \<and>
     list_all (\<lambda>c. 0 \<le> vcp_time c \<and> vcp_time c \<le> 100000000) (curve_points e))"

definition package_modulable :: "VibratorPackage \<Rightarrow> bool" where
  "package_modulable k \<longleftrightarrow> package_whole k \<and> patterns_of k \<noteq> [] \<and>
     list_all (\<lambda>p. list_all event_modulable (events_of p)) (patterns_of k)"

lemma first_containing_find:
  "List.find (iv_contains v) ivs = None \<Longrightarrow> first_containing v ivs 0 = -1"
  "List.find (iv_contains v) ivs = Some iv \<Longrightarrow> \<exists>i. first_containing v ivs 0 = int i \<and> i < length ivs \<and> ivs ! i = iv"
proof -
  show "List.find (iv_contains v) ivs = None \<Longrightarrow> first_containing v ivs 0 = -1"
    by (auto simp: find_None_iff intro: first_containing_none)
  assume "List.find (iv_contains v) ivs = Some iv"
  then obtain i where "i < length ivs" "iv_contains v (ivs ! i)" "iv = ivs ! i" "\<forall>j < i. \<not> iv_contains v (ivs ! j)"
    by (auto simp: find_Some_iff)
  with first_containing_nth [of i ivs v 0] show "\<exists>i. first_containing v ivs 0 = int i \<and> i < length ivs \<and> ivs ! i = iv"
    by auto
qed

lemma search_part:
  assumes "curve_whole v"
  shows "(part_at v t = None \<longrightarrow> BinarySearchInterval (curve_intervals v) t idx = -1) \<and>
    (\<forall>iv. part_at v t = Some iv \<longrightarrow> (\<exists>i. BinarySearchInterval (curve_intervals v) t idx = int i \<and>
       i < length (curve_intervals v) \<and> curve_intervals v ! i = iv))"
  using first_containing_find [of t "curve_intervals v"]
  by (simp add: part_at_def search_first [OF curve_intervals_ok(2,3) [OF assms]])

lemma modulate_plain:
  assumes "curve_whole v" and "\<not> has_curve e" and "wrap32 (ve_time e + start) = start + ve_time e"
  shows "ModulateVibratorEvent A v start e = Done (modulated_event v start e)"
proof -
  have c: "ve_type e \<noteq> EVENT_TYPE_CONTINUOUS \<or> ve_pointNum e = 0 \<or> ve_points e = None" using assms(2) by (auto simp: has_curve_def)
  show ?thesis
    using curve_intervals_ok(1,3) [OF assms(1)] c assms(2,3) search_part [OF assms(1), of "start + ve_time e" 0]
    by (cases "part_at v (start + ve_time e)")
      (auto simp: ModulateVibratorEvent_def ModulateEventWithoutCurvePoints_def modulated_event_def)
qed

lemma curve_round_point:
  assumes "curve_whole v" and "wrap32 (off + vcp_time c) = off + vcp_time c"
  shows "\<exists>m'. curve_round (curve_intervals v) off c (m0, out) = Done (m', out @ [modulated_point v off c])"
  using search_part [OF assms(1), of "off + vcp_time c" m0] assms(2)
  by (cases "part_at v (off + vcp_time c)") (auto simp: curve_round_def Let_def modulated_point_def)

lemma curve_fold_points:
  assumes "curve_whole v"
  shows "list_all (\<lambda>c. wrap32 (off + vcp_time c) = off + vcp_time c) cs \<Longrightarrow>
    \<exists>m'. ofold (curve_round (curve_intervals v) off) cs (m0, out) = Done (m', out @ map (modulated_point v off) cs)"
proof (induction cs arbitrary: m0 out)
  case (Cons c cs)
  obtain m1 where "curve_round (curve_intervals v) off c (m0, out) = Done (m1, out @ [modulated_point v off c])"
    using curve_round_point [OF assms, of off c m0 out] Cons.prems by auto
  moreover obtain m2 where "ofold (curve_round (curve_intervals v) off) cs (m1, out @ [modulated_point v off c]) =
      Done (m2, (out @ [modulated_point v off c]) @ map (modulated_point v off) cs)"
    using Cons.IH [of m1 "out @ [modulated_point v off c]"] Cons.prems by auto
  ultimately show ?case by simp
qed simp

lemma modulate_curve:
  assumes v: "curve_whole v" and e: "event_modulable e" "has_curve e" and A: "A (nat (ve_pointNum e))"
    and start: "0 \<le> start" "start \<le> 1000000000"
  shows "ModulateVibratorEvent A v start e = Done (modulated_event v start e)"
proof -
  obtain ps where ps: "ve_points e = Some ps" "ve_pointNum e = int (length ps)" "curve_points e = ps"
    using e by (auto simp: event_modulable_def event_whole_def has_curve_def curve_points_def)
  have bounds: "0 \<le> ve_time e" "ve_time e \<le> 100000000" "list_all (\<lambda>c. 0 \<le> vcp_time c \<and> vcp_time c \<le> 100000000) ps"
    "4 \<le> ve_pointNum e" "ve_pointNum e \<le> 16"
    using e ps by (auto simp: event_modulable_def event_whole_def)
  let ?off = "start + ve_time e"
  have off: "wrap32 (start + ve_time e) = ?off" using bounds start by (intro wrap32_small) auto
  have "list_all (\<lambda>c. wrap32 (?off + vcp_time c) = ?off + vcp_time c) ps"
    using bounds start by (auto simp: list_all_iff intro!: wrap32_small)
  from curve_fold_points [OF v this, of 0 "[]"] obtain m where
    "ofold (curve_round (curve_intervals v) ?off) ps (0, []) = Done (m, map (modulated_point v ?off) ps)" by auto
  with ofold_array [OF ps(2), of "curve_round (curve_intervals v) ?off" "(0, [])"]
  have "GetCurveListAfterModulation A (curve_intervals v) e start = Done (map (modulated_point v ?off) ps)"
    using A ps(1) off by (simp add: GetCurveListAfterModulation_def)
  then show ?thesis
    using curve_intervals_ok(1) [OF v] e(2) ps bounds
    by (simp add: ModulateVibratorEvent_def ModulateEventWithCurvePoints_def modulated_event_def has_curve_def)
qed

lemma modulate_event:
  assumes "curve_whole v" and "event_modulable e" and "\<forall>n. A n" and "0 \<le> start" and "start \<le> 1000000000"
  shows "ModulateVibratorEvent A v start e = Done (modulated_event v start e)"
proof (cases "has_curve e")
  case True
  then show ?thesis using modulate_curve [of v e A start] assms by blast
next
  case False
  have "wrap32 (ve_time e + start) = start + ve_time e"
    using assms(2,4,5) by (subst wrap32_small) (auto simp: event_modulable_def event_whole_def)
  then show ?thesis by (rule modulate_plain [OF assms(1) False])
qed

text \<open>C26. Modulating a well-formed package with a well-formed curve changes the intensities and
  frequencies (and drops the points of an event that is not continuous, which mean nothing): every point of an
  event's curve, and every event without one, is adjusted by the part of the modulation curve at its own time on the
  time axis of the package, and left alone where the modulation curve does not reach.\<close>

theorem modulation_pointwise:
  assumes "curve_whole curve" and "package_modulable k" and "\<forall>n. A n"
  shows "ModulatePackage A curve k = Done (modulated_package curve k)"
proof -
  have k: "vpk_patterns k = Some (patterns_of k)" "vpk_patternNum k = int (length (patterns_of k))" "patterns_of k \<noteq> []"
    using assms(2) by (auto simp: package_modulable_def package_whole_def)
  have pattern: "ModulateVibratorPattern A curve p =
      Done (p\<lparr>vpt_events := Some (map (modulated_event curve (vpt_time p)) (events_of p))\<rparr>)"
    if "p \<in> set (patterns_of k)" for p
  proof -
    have p: "vpt_events p = Some (events_of p)" "vpt_eventNum p = int (length (events_of p))" "1 \<le> length (events_of p)"
      "0 \<le> vpt_time p" "vpt_time p \<le> 1000000000" "list_all event_modulable (events_of p)"
      using assms(2) that by (auto simp: package_modulable_def package_whole_def pattern_whole_def list_all_iff)
    have "collect (ModulateVibratorEvent A curve (vpt_time p)) (events_of p) =
        Done (map (modulated_event curve (vpt_time p)) (events_of p))"
      using p(4-6) by (intro collect_map modulate_event [OF assms(1) _ assms(3)]) (auto simp: list_all_iff)
    with collect_array [OF p(2), of "ModulateVibratorEvent A curve (vpt_time p)"] p(1-3) assms(3)
    show ?thesis by (auto simp: ModulateVibratorPattern_def)
  qed
  have "collect (ModulateVibratorPattern A curve) (patterns_of k) =
      Done (map (\<lambda>p. p\<lparr>vpt_events := Some (map (modulated_event curve (vpt_time p)) (events_of p))\<rparr>) (patterns_of k))"
    by (rule collect_map) (rule pattern)
  moreover have "0 \<le> ve_time curve" "0 \<le> ve_duration curve" "0 < ve_pointNum curve" "ve_points curve \<noteq> None"
    using assms(1) by (auto simp: curve_whole_def neq_Nil_conv)
  ultimately show ?thesis
    using collect_array [OF k(2), of "ModulateVibratorPattern A curve"] k assms(3)
    by (simp add: ModulatePackage_def modulated_package_def)
qed

definition sample_curve :: VibratorEvent where
  "sample_curve = \<lparr>ve_type = EVENT_TYPE_CONTINUOUS, ve_time = 0, ve_duration = 1000, ve_intensity = -1, ve_frequency = -1,
     ve_index = 0, ve_pointNum = 2, ve_points = Some [\<lparr>vcp_time = 0, vcp_intensity = 50, vcp_frequency = 0\<rparr>,
       \<lparr>vcp_time = 500, vcp_intensity = 100, vcp_frequency = 20\<rparr>]\<rparr>"

lemma modulation_pointwise_witness:
  "ModulatePackage (\<lambda>n. True) sample_curve sample_c_package = Done (modulated_package sample_curve sample_c_package)"
proof (rule modulation_pointwise)
  show "curve_whole sample_curve" by (simp add: curve_whole_def sample_curve_def curve_points_def)
  show "package_modulable sample_c_package"
    by (simp add: package_modulable_def package_whole_def sample_c_package_def sample_pkg_def ConvertVibratorPackage_c_def
        c_event_def patterns_of_def pattern_whole_def events_of_def event_whole_def event_modulable_def has_curve_def
        curve_points_def wrap32_def)
qed simp

text \<open>A modulation curve whose first point is not before its end, for instance one of duration 0, is not
  rejected; with an event that has a curve the first element of an empty vector is read.\<close>

theorem modulation_reads_empty_vector:
  assumes "0 \<le> ve_time curve" and "0 < ve_pointNum curve" and "ve_points curve = Some (c # cs)"
    and "0 \<le> ve_duration curve" and "ve_duration curve \<le> vcp_time c"
    and "vpk_patterns k = Some (p # ps)" and "0 < vpk_patternNum k" and "vpt_events p = Some (e # es)" and "0 < vpt_eventNum p"
    and "ve_type e = EVENT_TYPE_CONTINUOUS" and "4 \<le> ve_pointNum e" and "ve_pointNum e \<le> 16" and "ve_points e = Some (d # ds)"
    and "\<forall>n. A n"
  shows "ModulatePackage A curve k = Crash"
proof -
  have first: "indices n = 0 # map int [1..<nat n]" if "0 < n" for n
  proof -
    have "[0..<nat n] = 0 # [1..<nat n]" using that by (simp add: upt_conv_Cons)
    then show ?thesis by (simp add: indices_def)
  qed
  have at0: "elem (Some (x # xs)) 0 = Done x" for x :: 'b and xs by (simp add: elem_def)
  have ivs: "ConvertVibratorEventsToCurveIntervals curve 0 = Done []"
  proof -
    obtain m where "nat (ve_pointNum curve) = Suc m" using assms(2) by (metis Suc_pred zero_less_nat_eq)
    then show ?thesis using assms(3,5) by (simp add: ConvertVibratorEventsToCurveIntervals_def elem_def)
  qed
  have "ofold (\<lambda>i s. obind (elem (ve_points e) i) (\<lambda>c. curve_round [] off c s)) (indices (ve_pointNum e)) (0, []) = Crash" for off
    using assms(11,13) first [of "ve_pointNum e"] by (simp add: elem_def curve_round_def Let_def BinarySearchInterval_def)
  then have "ModulateVibratorEvent A curve (vpt_time p) e = Crash"
    using ivs assms(10-14)
    by (simp add: ModulateVibratorEvent_def ModulateEventWithCurvePoints_def GetCurveListAfterModulation_def)
  then have "ModulateVibratorPattern A curve p = Crash"
    using assms(8,9,14) first [OF assms(9)] by (simp add: ModulateVibratorPattern_def elem_def)
  then show ?thesis
    using assms(1-4,6,7,14) first [OF assms(7)] by (simp add: ModulatePackage_def elem_def)
qed

definition curved_event :: VibratorEvent where
  "curved_event = sample_curve\<lparr>ve_pointNum := 4, ve_points := Some (map (\<lambda>t. \<lparr>vcp_time = t, vcp_intensity = 50, vcp_frequency = 0\<rparr>)
     [0, 100, 200, 300])\<rparr>"

lemma modulation_reads_empty_vector_witness:
  "ModulatePackage (\<lambda>n. True) (sample_curve\<lparr>ve_duration := 0\<rparr>) \<lparr>vpk_patternNum = 1, vpk_packageDuration = 0, vpk_patterns =
     Some [\<lparr>vpt_time = 0, vpt_eventNum = 1, vpt_patternDuration = 0, vpt_events = Some [curved_event]\<rparr>]\<rparr> = Crash"
  by (rule modulation_reads_empty_vector
      [where c = "\<lparr>vcp_time = 0, vcp_intensity = 50, vcp_frequency = 0\<rparr>" and d = "\<lparr>vcp_time = 0, vcp_intensity = 50, vcp_frequency = 0\<rparr>"
         and p = "\<lparr>vpt_time = 0, vpt_eventNum = 1, vpt_patternDuration = 0, vpt_events = Some [curved_event]\<rparr>" and e = curved_event])
    (simp_all add: sample_curve_def curved_event_def)

end
