(* ===== verification/OhDecoder.thy ===== *)
theory OhDecoder
  imports Marshalling Json "HOL-Library.Multiset"
begin

text \<open>
  The decoder of the OpenHarmony haptic files,
  \<^verbatim>\<open>utils/haptic_decoder/oh_json/src/default_vibrator_decoder.cpp\<close>. A parse function that returns
  \<^verbatim>\<open>ERROR\<close> is \<open>None\<close> (every failure of a parse function is \<^verbatim>\<open>ERROR\<close>); the class members
  \<^verbatim>\<open>version_\<close> and \<^verbatim>\<open>channelNumber_\<close> are passed on as values.

  What the platform and the standard library leave open is a parameter: the result of an
  undefined conversion, and which of the sorted orders \<^verbatim>\<open>std::sort\<close> gives to elements with
  equal keys.
\<close>

section \<open>Platform\<close>

record platform =
  undef_int :: "rat option \<Rightarrow> int"
  sort_events :: "VibrateEvent list \<Rightarrow> VibrateEvent list"
  sort_points :: "VibrateCurvePoint list \<Rightarrow> VibrateCurvePoint list"

definition sorts :: "('a \<Rightarrow> int) \<Rightarrow> ('a list \<Rightarrow> 'a list) \<Rightarrow> bool" where
  "sorts key f \<longleftrightarrow> (\<forall>xs. mset (f xs) = mset xs \<and> sorted (map key (f xs)))"

lemma sortsD:
  assumes "sorts key f"
  shows "set (f xs) = set xs" and "length (f xs) = length xs" and "sorted (map key (f xs))"
  using assms by (auto simp: sorts_def dest: mset_eq_setD mset_eq_length)

lemma sorts_sort_key: "sorts key (sort_key key)"
  by (simp add: sorts_def)

record RawFileDescriptor =
  rfd_fd :: int
  rfd_offset :: int
  rfd_length :: int

section \<open>Operations\<close>

definition OH_CheckEventParameters :: "VibrateEvent \<Rightarrow> bool" where
  "OH_CheckEventParameters e =
     (if ev_time e < 0 \<or> ev_time e > 1800000 then False
      else if ev_duration e < 0 \<or> ev_duration e > 5000 then False
      else if ev_intensity e < 0 \<or> ev_intensity e > 100 then False
      else if ev_frequency e < 0 \<or> ev_frequency e > 100 then False
      else True)"

definition OH_curve_point ::
    "'j cjson \<Rightarrow> platform \<Rightarrow> int \<Rightarrow> 'j \<Rightarrow> VibrateCurvePoint option" where
  "OH_curve_point J S duration item =
     do { timeItem \<leftarrow> GetObjectItem J (Some item) ''Time'';
          let t = GetIntValue J (undef_int S) timeItem;
          if t < 0 \<or> t > duration then None
          else do {
            intensityItem \<leftarrow> GetObjectItem J (Some item) ''Intensity'';
            let i = double_to_int32 (undef_int S) (double_mult (GetDoubleValue J intensityItem) 100);
            if i < 0 \<or> i > 100 then None
            else do {
              frequencyItem \<leftarrow> GetObjectItem J (Some item) ''Frequency'';
              let f = GetIntValue J (undef_int S) frequencyItem;
              if f < -100 \<or> f > 100 then None
              else Some \<lparr>cp_time = t, cp_intensity = i, cp_frequency = f\<rparr> } } }"

definition OH_ParseCurve ::
    "'j cjson \<Rightarrow> platform \<Rightarrow> 'j \<Rightarrow> VibrateEvent \<Rightarrow> VibrateEvent option" where
  "OH_ParseCurve J S curveItem e =
     (if \<not> IsArray J (Some curveItem) then None
      else let size = cJSON_GetArraySize J curveItem in
        if size < 4 \<or> size > 16 then None
        else do {
          pts \<leftarrow> try_fold
            (\<lambda>i pts. do { item \<leftarrow> cJSON_GetArrayItem J curveItem i;
                          pt \<leftarrow> OH_curve_point J S (ev_duration e) item;
                          Some (pts @ [pt]) })
            (indices size) (ev_points e);
          Some (e\<lparr>ev_points := sort_points S pts\<rparr>) })"

definition OH_ParseEvent :: "'j cjson \<Rightarrow> platform \<Rightarrow> 'j \<Rightarrow> VibrateEvent option" where
  "OH_ParseEvent J S eventItem =
     do { typeItem \<leftarrow> GetObjectItem J (Some eventItem) ''Type'';
          let curType = GetStringValue J typeItem;
          (tag, duration) \<leftarrow>
            (if curType = ''continuous'' then
               do { durationItem \<leftarrow> GetObjectItem J (Some eventItem) ''Duration'';
                    Some (EVENT_TAG_CONTINUOUS, GetIntValue J (undef_int S) durationItem) }
             else if curType = ''transient'' then Some (EVENT_TAG_TRANSIENT, 48)
             else None);
          startTimeItem \<leftarrow> GetObjectItem J (Some eventItem) ''StartTime'';
          parametersItem \<leftarrow> GetObjectItem J (Some eventItem) ''Parameters'';
          intensityItem \<leftarrow> GetObjectItem J (Some parametersItem) ''Intensity'';
          frequencyItem \<leftarrow> GetObjectItem J (Some parametersItem) ''Frequency'';
          let e = \<lparr>ev_tag = tag, ev_time = GetIntValue J (undef_int S) startTimeItem,
                   ev_duration = duration,
                   ev_intensity = GetIntValue J (undef_int S) intensityItem,
                   ev_frequency = GetIntValue J (undef_int S) frequencyItem,
                   ev_index = 0, ev_points = []\<rparr>;
          if \<not> OH_CheckEventParameters e then None
          else if curType = ''continuous'' \<and> HasObjectItem J (Some parametersItem) ''Curve'' then
            do { curveItem \<leftarrow> GetObjectItem J (Some parametersItem) ''Curve'';
                 OH_ParseCurve J S curveItem e }
          else Some e }"

text \<open>
  \<^verbatim>\<open>ParsePattern\<close> appends to the events of the pattern it is given and sets its duration to the
  sum of the durations of the events it added.
\<close>

definition OH_ParsePattern ::
    "'j cjson \<Rightarrow> platform \<Rightarrow> 'j \<Rightarrow> VibratePattern \<Rightarrow> VibratePattern option" where
  "OH_ParsePattern J S patternItem origin =
     (if \<not> IsArray J (Some patternItem) then None
      else let size = cJSON_GetArraySize J patternItem in
        if size > 128 then None
        else do {
          (total, evs) \<leftarrow> try_fold
            (\<lambda>i (total, evs). do {
               item \<leftarrow> cJSON_GetArrayItem J patternItem i;
               eventItem \<leftarrow> GetObjectItem J (Some item) ''Event'';
               e \<leftarrow> OH_ParseEvent J S eventItem;
               Some (total + ev_duration e, evs @ [e]) })
            (indices size) (0, pat_events origin);
          Some (origin\<lparr>pat_events := evs, pat_patternDuration := total\<rparr>) })"

definition OH_ParseChannelParameters :: "'j cjson \<Rightarrow> platform \<Rightarrow> 'j \<Rightarrow> unit option" where
  "OH_ParseChannelParameters J S parameters =
     do { indexItem \<leftarrow> GetObjectItem J (Some parameters) ''Index'';
          let indexVal = GetIntValue J (undef_int S) indexItem;
          if indexVal \<ge> 0 \<and> indexVal < 3 then Some () else None }"

definition OH_CheckMetadata :: "'j cjson \<Rightarrow> platform \<Rightarrow> 'j option \<Rightarrow> int option" where
  "OH_CheckMetadata J S parser =
     do { metadataItem \<leftarrow> GetObjectItem J parser ''MetaData'';
          versionItem \<leftarrow> GetObjectItem J (Some metadataItem) ''Version'';
          if GetDoubleValue J versionItem \<noteq> Some 1 then None
          else do {
            channelNumberItem \<leftarrow> GetObjectItem J (Some metadataItem) ''ChannelNumber'';
            let channelNumber = GetIntValue J (undef_int S) channelNumberItem;
            if channelNumber \<le> 0 \<or> channelNumber \<ge> 3 then None else Some channelNumber } }"

definition OH_ParseChannel ::
    "'j cjson \<Rightarrow> platform \<Rightarrow> 'j option \<Rightarrow> int \<Rightarrow> VibratePattern \<Rightarrow> VibratePackage
      \<Rightarrow> (VibratePattern \<times> VibratePackage) option" where
  "OH_ParseChannel J S parser channelNumber origin pkg =
     do { channelsItem \<leftarrow> GetObjectItem J parser ''Channels'';
          if \<not> IsArray J (Some channelsItem) then None
          else let size = cJSON_GetArraySize J channelsItem in
            if size \<noteq> channelNumber then None
            else do {
              (total, origin) \<leftarrow> try_fold
                (\<lambda>i (total, origin). do {
                   channelItem \<leftarrow> cJSON_GetArrayItem J channelsItem i;
                   parameters \<leftarrow> GetObjectItem J (Some channelItem) ''Parameters'';
                   _ \<leftarrow> OH_ParseChannelParameters J S parameters;
                   patternItem \<leftarrow> GetObjectItem J (Some channelItem) ''Pattern'';
                   origin \<leftarrow> OH_ParsePattern J S patternItem origin;
                   Some (total + pat_patternDuration origin, origin) })
                (indices size) (0, origin);
              Some (origin\<lparr>pat_events := sort_events S (pat_events origin)\<rparr>,
                    pkg\<lparr>pkg_packageDuration := total\<rparr>) } }"

text \<open>The loop of \<^verbatim>\<open>PatternSplit\<close>: the current slice is \<open>(st, sl)\<close>, the finished ones are \<open>out\<close>.\<close>

fun split_loop ::
    "VibrateEvent list \<Rightarrow> int \<Rightarrow> VibrateEvent list \<Rightarrow> VibratePattern list \<Rightarrow> VibratePattern list" where
  "split_loop [] st sl out = out"
| "split_loop (e # es) st sl out =
     (let sl = sl @ [e\<lparr>ev_time := ev_time e - st\<rparr>]
      in if length sl \<ge> 16 \<or> es = [] then
           split_loop es (case es of e' # _ \<Rightarrow> ev_time e' | [] \<Rightarrow> 0) []
             (out @ [\<lparr>pat_startTime = st, pat_patternDuration = 0, pat_events = sl\<rparr>])
         else split_loop es st sl out)"

definition PatternSplit :: "VibratePattern \<Rightarrow> VibratePackage \<Rightarrow> VibratePackage" where
  "PatternSplit origin pkg =
     (if pat_events origin = [] then pkg
      else pkg\<lparr>pkg_patterns :=
        split_loop (pat_events origin) (ev_time (hd (pat_events origin))) [] (pkg_patterns pkg)\<rparr>)"

definition OH_DecodeEffect ::
    "'j cjson \<Rightarrow> platform \<Rightarrow> RawFileDescriptor \<Rightarrow> 'j option \<Rightarrow> VibratePackage \<Rightarrow> errcode + VibratePackage" where
  "OH_DecodeEffect J S fd parser pkg =
     (if rfd_fd fd < 0 \<or> rfd_offset fd < 0 \<or> rfd_length fd \<le> 0 \<or> rfd_length fd > 65536 then
        Inl PARAMETER_ERROR
      else case OH_CheckMetadata J S parser of
        None \<Rightarrow> Inl ERROR
      | Some channelNumber \<Rightarrow>
          (case OH_ParseChannel J S parser channelNumber
                  \<lparr>pat_startTime = 0, pat_patternDuration = 0, pat_events = []\<rparr> pkg of
             None \<Rightarrow> Inl ERROR
           | Some (origin, pkg) \<Rightarrow> Inr (PatternSplit origin pkg)))"

section \<open>What an accepted event looks like\<close>

definition oh_point_ok :: "int \<Rightarrow> VibrateCurvePoint \<Rightarrow> bool" where
  "oh_point_ok d c \<longleftrightarrow> 0 \<le> cp_time c \<and> cp_time c \<le> d \<and> 0 \<le> cp_intensity c \<and> cp_intensity c \<le> 100
     \<and> -100 \<le> cp_frequency c \<and> cp_frequency c \<le> 100"

definition oh_event_ok :: "VibrateEvent \<Rightarrow> bool" where
  "oh_event_ok e \<longleftrightarrow> OH_CheckEventParameters e \<and> ev_tag e \<noteq> EVENT_TAG_UNKNOWN \<and> ev_index e = 0
     \<and> (ev_points e = [] \<or> 4 \<le> length (ev_points e)) \<and> length (ev_points e) \<le> 16
     \<and> list_all (oh_point_ok (ev_duration e)) (ev_points e) \<and> sorted (map cp_time (ev_points e))"

lemma OH_CheckEventParameters_iff:
  "OH_CheckEventParameters e \<longleftrightarrow> 0 \<le> ev_time e \<and> ev_time e \<le> 1800000 \<and> 0 \<le> ev_duration e \<and>
     ev_duration e \<le> 5000 \<and> 0 \<le> ev_intensity e \<and> ev_intensity e \<le> 100 \<and>
     0 \<le> ev_frequency e \<and> ev_frequency e \<le> 100"
  by (auto simp: OH_CheckEventParameters_def)

lemma oh_event_ok_event_ok: "oh_event_ok e \<Longrightarrow> event_ok e"
  by (simp add: oh_event_ok_def event_ok_def wire_limits)

lemma OH_curve_point_ok: "OH_curve_point J S d item = Some c \<Longrightarrow> oh_point_ok d c"
  by (auto simp: OH_curve_point_def oh_point_ok_def Let_def split: Option.bind_splits if_splits)

lemma OH_ParseCurve_ok:
  assumes S: "sorts cp_time (sort_points S)" and p: "OH_ParseCurve J S c e = Some e'" and e: "ev_points e = []"
  shows "\<exists>pts. e' = e\<lparr>ev_points := pts\<rparr> \<and> 4 \<le> length pts \<and> length pts \<le> 16 \<and>
    list_all (oh_point_ok (ev_duration e)) pts \<and> sorted (map cp_time pts)"
proof -
  let ?n = "cJSON_GetArraySize J c"
  let ?f = "\<lambda>i pts. do { item \<leftarrow> cJSON_GetArrayItem J c i; pt \<leftarrow> OH_curve_point J S (ev_duration e) item;
    Some (pts @ [pt]) }"
  from p e obtain pts where n: "4 \<le> ?n" "?n \<le> 16" and t: "try_fold ?f (indices ?n) [] = Some pts"
    and e': "e' = e\<lparr>ev_points := sort_points S pts\<rparr>"
    by (auto simp: OH_ParseCurve_def Let_def split: if_splits Option.bind_splits)
  have "list_all (oh_point_ok (ev_duration e)) pts"
    by (rule try_fold_invariant [OF t]) (auto split: Option.bind_splits dest: OH_curve_point_ok)
  moreover have "length pts = length (indices ?n)"
    by (rule try_fold_count [OF t]) (auto split: Option.bind_splits)
  ultimately show ?thesis
    using n sortsD [OF S, of pts] by (auto simp: e' list_all_iff)
qed

lemma OH_ParseEvent_ok:
  assumes S: "sorts cp_time (sort_points S)" and p: "OH_ParseEvent J S j = Some e"
  shows "oh_event_ok e"
  using p unfolding OH_ParseEvent_def
  by (auto simp: Option.bind_eq_Some_conv Let_def oh_event_ok_def OH_CheckEventParameters_iff
      split: if_splits dest!: OH_ParseCurve_ok [OF S])

text \<open>
  The state of the pattern loop: the events read so far are acceptable and the running total is
  the sum of the durations of those the loop added.
\<close>

definition total_duration :: "VibrateEvent list \<Rightarrow> int" where
  "total_duration es = sum_list (map ev_duration es)"

lemma OH_ParsePattern_ok:
  assumes S: "sorts cp_time (sort_points S)" and p: "OH_ParsePattern J S j o1 = Some o2"
    and o1: "list_all oh_event_ok (pat_events o1)"
  shows "list_all oh_event_ok (pat_events o2) \<and>
    total_duration (pat_events o2) = total_duration (pat_events o1) + pat_patternDuration o2 \<and>
    length (pat_events o2) \<le> length (pat_events o1) + 128"
proof -
  let ?n = "cJSON_GetArraySize J j"
  let ?f = "\<lambda>i (total, evs). do { item \<leftarrow> cJSON_GetArrayItem J j i;
               eventItem \<leftarrow> GetObjectItem J (Some item) ''Event'';
               e \<leftarrow> OH_ParseEvent J S eventItem;
               Some (total + ev_duration e, evs @ [e]) }"
  from p obtain total evs where n: "?n \<le> 128" and t: "try_fold ?f (indices ?n) (0, pat_events o1) = Some (total, evs)"
    and o2: "o2 = o1\<lparr>pat_events := evs, pat_patternDuration := total\<rparr>"
    by (auto simp: OH_ParsePattern_def Let_def split: if_splits Option.bind_splits)
  have "list_all oh_event_ok (snd (total, evs)) \<and>
      total_duration (snd (total, evs)) = total_duration (pat_events o1) + fst (total, evs)"
    by (rule try_fold_invariant [OF t])
      (use o1 in \<open>auto simp: total_duration_def split: Option.bind_splits dest: OH_ParseEvent_ok [OF S]\<close>)
  moreover have "length (snd (total, evs)) \<le> length (snd (0 :: int, pat_events o1)) + 1 * length (indices ?n)"
    by (rule try_fold_bound [OF t]) (auto split: Option.bind_splits)
  ultimately show ?thesis using n by (auto simp: o2)
qed

lemma OH_ParseChannel_ok:
  assumes S: "sorts cp_time (sort_points S)" "sorts ev_time (sort_events S)"
    and p: "OH_ParseChannel J S parser cn o1 k = Some (o2, k')" and o1: "pat_events o1 = []"
  shows "list_all oh_event_ok (pat_events o2) \<and> sorted (map ev_time (pat_events o2)) \<and>
    pkg_packageDuration k' = total_duration (pat_events o2) \<and> length (pat_events o2) \<le> 128 * nat cn \<and>
    pkg_patterns k' = pkg_patterns k"
proof -
  from p obtain c where c: "cJSON_GetArraySize J c = cn"
    and "OH_ParseChannel J S parser cn o1 k = do {
              (total, origin) \<leftarrow> try_fold
                (\<lambda>i (total, origin). do {
                   channelItem \<leftarrow> cJSON_GetArrayItem J c i;
                   parameters \<leftarrow> GetObjectItem J (Some channelItem) ''Parameters'';
                   _ \<leftarrow> OH_ParseChannelParameters J S parameters;
                   patternItem \<leftarrow> GetObjectItem J (Some channelItem) ''Pattern'';
                   origin \<leftarrow> OH_ParsePattern J S patternItem origin;
                   Some (total + pat_patternDuration origin, origin) })
                (indices cn) (0, o1);
              Some (origin\<lparr>pat_events := sort_events S (pat_events origin)\<rparr>,
                    k\<lparr>pkg_packageDuration := total\<rparr>) }"
    by (auto simp: OH_ParseChannel_def Let_def split: if_splits Option.bind_splits)
  with p obtain total o3 where
    t: "try_fold (\<lambda>i (total, origin). do {
                   channelItem \<leftarrow> cJSON_GetArrayItem J c i;
                   parameters \<leftarrow> GetObjectItem J (Some channelItem) ''Parameters'';
                   _ \<leftarrow> OH_ParseChannelParameters J S parameters;
                   patternItem \<leftarrow> GetObjectItem J (Some channelItem) ''Pattern'';
                   origin \<leftarrow> OH_ParsePattern J S patternItem origin;
                   Some (total + pat_patternDuration origin, origin) }) (indices cn) (0, o1) = Some (total, o3)"
    and o2: "o2 = o3\<lparr>pat_events := sort_events S (pat_events o3)\<rparr>" and k': "k' = k\<lparr>pkg_packageDuration := total\<rparr>"
    by (auto split: Option.bind_splits)
  have inv: "list_all oh_event_ok (pat_events (snd (total, o3))) \<and>
      total_duration (pat_events (snd (total, o3))) = fst (total, o3)"
    by (rule try_fold_invariant [OF t])
      (use o1 in \<open>auto simp: total_duration_def [of "[]"] split: Option.bind_splits dest!: OH_ParsePattern_ok [OF S(1)]\<close>)
  have "length (pat_events (snd (total, o3))) \<le> length (pat_events (snd (0 :: int, o1))) + 128 * length (indices cn)
      \<and> list_all oh_event_ok (pat_events (snd (total, o3)))"
    by (rule try_fold_bound_inv [OF t])
      (use o1 in \<open>auto split: Option.bind_splits dest!: OH_ParsePattern_ok [OF S(1)]\<close>)
  moreover have "total_duration (sort_events S es) = total_duration es" for es
    using S(2) unfolding sorts_def total_duration_def by (metis mset_map sum_mset_sum_list)
  ultimately show ?thesis
    using inv o1 sortsD [OF S(2), of "pat_events o3"] by (auto simp: o2 k' list_all_iff)
qed

section \<open>Splitting into patterns\<close>

text \<open>The events of a package on one time axis, the way the player sees them.\<close>

definition absolute_events :: "VibratePattern \<Rightarrow> VibrateEvent list" where
  "absolute_events a = map (\<lambda>e. e\<lparr>ev_time := ev_time e + pat_startTime a\<rparr>) (pat_events a)"

definition unsplit :: "VibratePattern list \<Rightarrow> VibrateEvent list" where
  "unsplit ps = concat (map absolute_events ps)"

definition slice_ok :: "VibratePattern \<Rightarrow> bool" where
  "slice_ok a \<longleftrightarrow> pat_events a \<noteq> [] \<and> length (pat_events a) \<le> 16 \<and> ev_time (hd (pat_events a)) = 0"

lemma unsplit_append [simp]: "unsplit (ps @ qs) = unsplit ps @ unsplit qs"
  by (simp add: unsplit_def)

lemma split_loop_events:
  "(es = [] \<Longrightarrow> sl = []) \<Longrightarrow>
   unsplit (split_loop es st sl out) = unsplit out @ map (\<lambda>e. e\<lparr>ev_time := ev_time e + st\<rparr>) sl @ es"
proof (induction es st sl out rule: split_loop.induct)
  case (2 e es st sl out)
  then show ?case
    by (auto simp: Let_def unsplit_def absolute_events_def)
qed simp

lemma split_loop_slices:
  "list_all slice_ok out \<Longrightarrow> length sl < 16 \<Longrightarrow>
   (sl = [] \<longrightarrow> es \<noteq> [] \<longrightarrow> st = ev_time (hd es)) \<Longrightarrow> (sl \<noteq> [] \<longrightarrow> ev_time (hd sl) = 0) \<Longrightarrow>
   list_all slice_ok (split_loop es st sl out)"
proof (induction es st sl out rule: split_loop.induct)
  case (2 e es st sl out)
  let ?sl = "sl @ [e\<lparr>ev_time := ev_time e - st\<rparr>]"
  have hd: "ev_time (hd ?sl) = 0"
    using "2.prems" by (cases sl) auto
  show ?case
  proof (cases "length ?sl \<ge> 16 \<or> es = []")
    case True
    have "list_all slice_ok (split_loop es (case es of e' # _ \<Rightarrow> ev_time e' | [] \<Rightarrow> 0) []
             (out @ [\<lparr>pat_startTime = st, pat_patternDuration = 0, pat_events = ?sl\<rparr>]))"
      using "2.prems" True hd by (intro "2.IH"(1) [OF refl]) (auto simp: slice_ok_def split: list.splits)
    with True show ?thesis by (simp add: Let_def)
  next
    case False
    have "list_all slice_ok (split_loop es st ?sl out)"
      using "2.prems" False hd by (intro "2.IH"(2) [OF refl]) (auto split: list.splits)
    with False show ?thesis by (simp add: Let_def)
  qed
qed simp

lemma split_loop_count:
  "(es = [] \<Longrightarrow> sl = []) \<Longrightarrow> length sl < 16 \<Longrightarrow>
   length (split_loop es st sl out) = length out + (length sl + length es + 15) div 16"
proof (induction es st sl out rule: split_loop.induct)
  case (2 e es st sl out)
  show ?case
  proof (cases "Suc (length sl) \<ge> 16 \<or> es = []")
    case True
    then have "length sl = 15 \<or> es = []" using "2.prems" by auto
    with True 2 show ?thesis
      by (auto simp: Let_def)
  qed (use 2 in \<open>auto simp: Let_def\<close>)
qed simp

lemma PatternSplit_props:
  assumes "pkg_patterns k = []"
  shows "unsplit (pkg_patterns (PatternSplit o1 k)) = pat_events o1"
    and "list_all slice_ok (pkg_patterns (PatternSplit o1 k))"
    and "length (pkg_patterns (PatternSplit o1 k)) = (length (pat_events o1) + 15) div 16"
    and "pkg_packageDuration (PatternSplit o1 k) = pkg_packageDuration k"
  using assms split_loop_events [of "pat_events o1" "[]"] split_loop_slices [of "[]" "[]" "pat_events o1" "ev_time (hd (pat_events o1))"]
    split_loop_count [of "pat_events o1" "[]"]
  by (auto simp: PatternSplit_def unsplit_def)

lemma list_all_unsplit:
  assumes "\<And>e t. Q (e\<lparr>ev_time := t\<rparr>) \<longleftrightarrow> Q e"
  shows "list_all Q (unsplit ps) \<longleftrightarrow> list_all (\<lambda>a. list_all Q (pat_events a)) ps"
  by (auto simp: list_all_iff unsplit_def absolute_events_def assms)

lemma OH_decode_cases:
  assumes "OH_DecodeEffect J S fd parser k = Inr k'"
  shows "\<exists>cn o2 k1. cn < 3 \<and> k' = PatternSplit o2 k1 \<and> OH_ParseChannel J S parser cn
    \<lparr>pat_startTime = 0, pat_patternDuration = 0, pat_events = []\<rparr> k = Some (o2, k1)"
  using assms
proof -
  from assms obtain cn o2 k1 where c: "OH_CheckMetadata J S parser = Some cn" and k': "k' = PatternSplit o2 k1"
    and p: "OH_ParseChannel J S parser cn
      \<lparr>pat_startTime = 0, pat_patternDuration = 0, pat_events = []\<rparr> k = Some (o2, k1)"
    by (auto simp: OH_DecodeEffect_def split: if_splits option.splits)
  from c have "cn < 3"
    by (auto simp: OH_CheckMetadata_def Let_def split: if_splits Option.bind_splits)
  with k' p show ?thesis by blast
qed

lemma OH_decoded_package:
  assumes "sorts cp_time (sort_points S)" and "sorts ev_time (sort_events S)"
    and "pkg_patterns k = []" and "OH_DecodeEffect J S fd parser k = Inr k'"
  shows "package_ok k' \<and> length (pkg_patterns k') \<le> 16 \<and>
    list_all oh_event_ok (unsplit (pkg_patterns k')) \<and>
    sorted (map ev_time (unsplit (pkg_patterns k'))) \<and>
    pkg_packageDuration k' = total_duration (unsplit (pkg_patterns k'))"
proof -
  obtain cn o2 k1 where k': "cn < 3" "k' = PatternSplit o2 k1"
    and p: "OH_ParseChannel J S parser cn \<lparr>pat_startTime = 0, pat_patternDuration = 0, pat_events = []\<rparr> k = Some (o2, k1)"
    using OH_decode_cases [OF assms(4)] by blast
  note o2 = OH_ParseChannel_ok [OF assms(1,2) p, simplified]
  have k1: "pkg_patterns k1 = []" using o2 assms(3) by simp
  note sp = PatternSplit_props [OF k1, of o2]
  have "length (pat_events o2) \<le> 256" using o2 k'(1) by (auto intro: order_trans)
  then have n: "length (pkg_patterns k') \<le> 16" using sp(3) by (simp add: k'(2))
  have "list_all event_ok (unsplit (pkg_patterns k'))"
    using o2 sp(1) by (auto simp: k'(2) list_all_iff oh_event_ok_event_ok)
  then have "list_all (\<lambda>a. list_all event_ok (pat_events a)) (pkg_patterns k')"
    by (subst (asm) list_all_unsplit) (simp_all add: event_ok_def)
  with n sp(2) have "package_ok k'"
    by (auto simp: package_ok_def pattern_ok_def slice_ok_def wire_limits k'(2) list_all_iff)
  with n o2 sp show ?thesis by (simp add: k'(2))
qed

section \<open>Properties\<close>

text \<open>Splitting loses nothing: the patterns that \<^verbatim>\<open>PatternSplit\<close> makes carry, put back on the time
  axis with their start times, exactly the events it was given in their order; no pattern is
  empty or has more than 16 events, each pattern's first event is at its start, and there are
  just as many patterns as 16 to a pattern need.\<close>

theorem PatternSplit_lossless:
  "unsplit (pkg_patterns (PatternSplit origin (k\<lparr>pkg_patterns := []\<rparr>))) = pat_events origin \<and>
   list_all slice_ok (pkg_patterns (PatternSplit origin (k\<lparr>pkg_patterns := []\<rparr>))) \<and>
   length (pkg_patterns (PatternSplit origin (k\<lparr>pkg_patterns := []\<rparr>))) = (length (pat_events origin) + 15) div 16"
  by (simp add: PatternSplit_props)

text \<open>C13. A haptic file that the OpenHarmony decoder accepts gives a package that the service will
  accept over IPC, of at most 16 patterns, with all events in time order, every value in the
  documented range, and a package duration that is the sum of the event durations.\<close>

theorem OH_DecodeEffect_package:
  assumes "sorts cp_time (sort_points S)" and "sorts ev_time (sort_events S)"
    and "pkg_patterns k = []" and "OH_DecodeEffect J S fd parser k = Inr k'"
  shows "package_ok k' \<and> length (pkg_patterns k') \<le> 16 \<and>
    list_all oh_event_ok (unsplit (pkg_patterns k')) \<and>
    sorted (map ev_time (unsplit (pkg_patterns k'))) \<and>
    pkg_packageDuration k' = total_duration (unsplit (pkg_patterns k'))"
  using OH_decoded_package [OF assms] .

definition sample_platform :: platform where
  "sample_platform = \<lparr>undef_int = (\<lambda>_. 0), sort_events = sort_key ev_time, sort_points = sort_key cp_time\<rparr>"

definition sample_oh_event :: "string \<Rightarrow> int \<Rightarrow> json" where
  "sample_oh_event ty t = JObj [(''Event'', JObj [(''Type'', JStr ty), (''Duration'', jint 50), (''StartTime'', jint t),
     (''Parameters'', JObj [(''Intensity'', jint 80), (''Frequency'', jint 40)])])]"

definition sample_oh_json :: json where
  "sample_oh_json = JObj [
     (''MetaData'', JObj [(''Version'', jint 1), (''ChannelNumber'', jint 1)]),
     (''Channels'', JArr [JObj [(''Parameters'', JObj [(''Index'', jint 0)]),
        (''Pattern'', JArr [sample_oh_event ''continuous'' 120, sample_oh_event ''transient'' 30])]])]"

definition sample_oh_decode :: "errcode + VibratePackage" where
  "sample_oh_decode = OH_DecodeEffect (json_ops (\<lambda>_. None)) sample_platform
     \<lparr>rfd_fd = 3, rfd_offset = 0, rfd_length = 400\<rparr> (Some sample_oh_json) empty_package"

lemma sample_oh_decode_value:
  "case sample_oh_decode of Inl _ \<Rightarrow> False | Inr k \<Rightarrow> pkg_packageDuration k = 98"
  by code_simp

lemma OH_DecodeEffect_package_witness:
  "length (pkg_patterns (projr sample_oh_decode)) \<le> 16 \<and>
   sorted (map ev_time (unsplit (pkg_patterns (projr sample_oh_decode)))) \<and>
   98 = total_duration (unsplit (pkg_patterns (projr sample_oh_decode)))"
proof -
  obtain k' where k': "sample_oh_decode = Inr k'" "pkg_packageDuration k' = 98"
    using sample_oh_decode_value by (auto split: sum.splits)
  show ?thesis
    using OH_DecodeEffect_package [OF _ _ _ k'(1) [unfolded sample_oh_decode_def]] k'(2)
    by (simp add: k'(1) sample_platform_def sorts_sort_key empty_package_def)
qed

end
