(* ===== verification/HeDecoder.thy ===== *)
theory HeDecoder
  imports OhDecoder
begin

text \<open>
  The decoder of the HE haptic files, \<^verbatim>\<open>utils/haptic_decoder/he_json/src/he_vibrator_decoder.cpp\<close>,
  the choice between the two decoders,
  \<^verbatim>\<open>utils/haptic_decoder/interface/vibrator_decoder_creator.cpp\<close>, and the contract both fulfil
  (\<^verbatim>\<open>i_vibrator_decoder.h\<close>). As in the other decoder \<open>None\<close> stands for \<^verbatim>\<open>ERROR\<close>.
\<close>

section \<open>Operations\<close>

text \<open>\<^verbatim>\<open>cJSON_IsNumber(json) ? json->valueint : -1\<close>\<close>

definition he_int :: "'j cjson \<Rightarrow> 'j \<Rightarrow> int" where
  "he_int J j = (if cJSON_IsNumber J j then valueint J j else -1)"

definition HE_CheckCommonParameters :: "VibrateEvent \<Rightarrow> bool" where
  "HE_CheckCommonParameters e =
     (if ev_time e < 0 then False
      else if ev_index e < 0 \<or> ev_index e > 2 then False
      else if ev_intensity e < 0 \<or> ev_intensity e > 100 then False
      else True)"

definition HE_CheckTransientParameters :: "VibrateEvent \<Rightarrow> bool" where
  "HE_CheckTransientParameters e = (if ev_frequency e < -50 \<or> ev_frequency e > 150 then False else True)"

definition HE_CheckContinuousParameters :: "VibrateEvent \<Rightarrow> bool" where
  "HE_CheckContinuousParameters e =
     (if ev_frequency e < 0 \<or> ev_frequency e > 100 then False
      else if ev_duration e \<le> 0 \<or> ev_duration e > 5000 then False
      else let pointNum = length (ev_points e) in
        if pointNum < 4 \<or> pointNum > 16 then False
        else if cp_time (ev_points e ! 0) \<noteq> 0 \<or> cp_intensity (ev_points e ! 0) \<noteq> 0 then False
        else if cp_time (ev_points e ! (pointNum - 1)) \<noteq> ev_duration e
             \<or> cp_intensity (ev_points e ! (pointNum - 1)) \<noteq> 0 then False
        else True)"

definition HE_CheckEventParameters :: "VibrateEvent \<Rightarrow> bool" where
  "HE_CheckEventParameters e =
     (if \<not> HE_CheckCommonParameters e then False
      else case ev_tag e of
        EVENT_TAG_TRANSIENT \<Rightarrow> HE_CheckTransientParameters e
      | EVENT_TAG_CONTINUOUS \<Rightarrow> HE_CheckContinuousParameters e
      | EVENT_TAG_UNKNOWN \<Rightarrow> False)"

text \<open>One round of the curve loop: the time of the previous point and the points so far.\<close>

definition HE_curve_step ::
    "'j cjson \<Rightarrow> platform \<Rightarrow> int \<Rightarrow> 'j \<Rightarrow> int \<Rightarrow> int \<times> VibrateCurvePoint list \<Rightarrow> (int \<times> VibrateCurvePoint list) option" where
  "HE_curve_step J S duration curve i = (\<lambda>(previous, pts).
     do { item \<leftarrow> cJSON_GetArrayItem J curve i;
          timeJSON \<leftarrow> GetObjectItem J (Some item) ''Time'';
          let t = he_int J timeJSON;
          if t \<le> previous \<or> t > duration then None
          else do {
            intensityJSON \<leftarrow> GetObjectItem J (Some item) ''Intensity'';
            let x = (if cJSON_IsNumber J intensityJSON
                     then double_to_int32 (undef_int S) (double_mult (valuedouble J intensityJSON) 100)
                     else -1);
            if x < 0 \<or> x > 100 then None
            else do {
              frequencyJSON \<leftarrow> GetObjectItem J (Some item) ''Frequency'';
              let f = he_int J frequencyJSON;
              if f < -100 \<or> f > 100 then None
              else Some (t, pts @ [\<lparr>cp_time = t, cp_intensity = x, cp_frequency = f\<rparr>]) } } })"

definition HE_ParseCurve :: "'j cjson \<Rightarrow> platform \<Rightarrow> 'j \<Rightarrow> VibrateEvent \<Rightarrow> VibrateEvent option" where
  "HE_ParseCurve J S curve e =
     (if \<not> IsArray J (Some curve) then None
      else let size = cJSON_GetArraySize J curve in
        if size < 4 \<or> size > 16 then None
        else do {
          (_, pts) \<leftarrow> try_fold (HE_curve_step J S (ev_duration e) curve) (indices size) (-1, ev_points e);
          Some (e\<lparr>ev_points := pts\<rparr>) })"

definition HE_ParseEvent :: "'j cjson \<Rightarrow> platform \<Rightarrow> 'j \<Rightarrow> VibrateEvent option" where
  "HE_ParseEvent J S eventJSON =
     do { typeJSON \<leftarrow> GetObjectItem J (Some eventJSON) ''Type'';
          let ty = (if cJSON_IsString J typeJSON then valuestring J typeJSON else '''');
          (tag, duration) \<leftarrow>
            (if ty = ''transient'' then Some (EVENT_TAG_TRANSIENT, 48)
             else if ty = ''continuous'' then
               do { durationJSON \<leftarrow> GetObjectItem J (Some eventJSON) ''Duration'';
                    Some (EVENT_TAG_CONTINUOUS, he_int J durationJSON) }
             else None);
          index \<leftarrow>
            (if HasObjectItem J (Some eventJSON) ''Index'' then
               do { indexJSON \<leftarrow> GetObjectItem J (Some eventJSON) ''Index''; Some (he_int J indexJSON) }
             else Some 0);
          timeJSON \<leftarrow> GetObjectItem J (Some eventJSON) ''RelativeTime'';
          paramJSON \<leftarrow> GetObjectItem J (Some eventJSON) ''Parameters'';
          intensityJSON \<leftarrow> GetObjectItem J (Some paramJSON) ''Intensity'';
          frequencyJSON \<leftarrow> GetObjectItem J (Some paramJSON) ''Frequency'';
          let e = \<lparr>ev_tag = tag, ev_time = he_int J timeJSON, ev_duration = duration,
                   ev_intensity = he_int J intensityJSON, ev_frequency = he_int J frequencyJSON,
                   ev_index = index, ev_points = []\<rparr>;
          e \<leftarrow> (if tag = EVENT_TAG_CONTINUOUS then
                  do { curveJSON \<leftarrow> GetObjectItem J (Some paramJSON) ''Curve'';
                       HE_ParseCurve J S curveJSON e }
                else Some e);
          if \<not> HE_CheckEventParameters e then None else Some e }"

definition HE_pattern_step ::
    "'j cjson \<Rightarrow> platform \<Rightarrow> 'j \<Rightarrow> int \<Rightarrow> int \<times> VibrateEvent list \<Rightarrow> (int \<times> VibrateEvent list) option" where
  "HE_pattern_step J S patternJSON i = (\<lambda>(previous, evs).
     do { item \<leftarrow> cJSON_GetArrayItem J patternJSON i;
          eventJSON \<leftarrow> GetObjectItem J (Some item) ''Event'';
          e \<leftarrow> HE_ParseEvent J S eventJSON;
          if ev_time e < previous then None else Some (ev_time e, evs @ [e]) })"

definition HE_ParsePattern ::
    "'j cjson \<Rightarrow> platform \<Rightarrow> 'j \<Rightarrow> VibratePattern \<Rightarrow> VibratePattern option" where
  "HE_ParsePattern J S patternJSON a =
     (if \<not> IsArray J (Some patternJSON) then None
      else let size = cJSON_GetArraySize J patternJSON in
        if size \<le> 0 \<or> size > 16 then None
        else do {
          (_, evs) \<leftarrow> try_fold (HE_pattern_step J S patternJSON) (indices size) (0, pat_events a);
          Some (a\<lparr>pat_events := evs\<rparr>) })"

definition HE_list_step ::
    "'j cjson \<Rightarrow> platform \<Rightarrow> 'j \<Rightarrow> int \<Rightarrow> int \<times> VibratePattern list \<Rightarrow> (int \<times> VibratePattern list) option" where
  "HE_list_step J S listJSON i = (\<lambda>(previous, ps).
     do { item \<leftarrow> cJSON_GetArrayItem J listJSON i;
          timeJSON \<leftarrow> GetObjectItem J (Some item) ''AbsoluteTime'';
          let t = he_int J timeJSON;
          if t \<le> previous then None
          else do {
            patternJSON \<leftarrow> GetObjectItem J (Some item) ''Pattern'';
            a \<leftarrow> HE_ParsePattern J S patternJSON \<lparr>pat_startTime = t, pat_patternDuration = 0, pat_events = []\<rparr>;
            Some (t, ps @ [a]) } })"

definition HE_ParsePatternList ::
    "'j cjson \<Rightarrow> platform \<Rightarrow> 'j \<Rightarrow> VibratePackage \<Rightarrow> VibratePackage option" where
  "HE_ParsePatternList J S listJSON k =
     (if \<not> IsArray J (Some listJSON) then None
      else let size = cJSON_GetArraySize J listJSON in
        if size \<le> 0 then None
        else do {
          (_, ps) \<leftarrow> try_fold (HE_list_step J S listJSON) (indices size) (-1, pkg_patterns k);
          Some (k\<lparr>pkg_patterns := ps\<rparr>) })"

definition HE_ParseVersion :: "'j cjson \<Rightarrow> 'j option \<Rightarrow> int" where
  "HE_ParseVersion J parser =
     (case do { metadataJSON \<leftarrow> GetObjectItem J parser ''Metadata'';
                GetObjectItem J (Some metadataJSON) ''Version'' } of
        None \<Rightarrow> -1
      | Some versionJSON \<Rightarrow> he_int J versionJSON)"

definition HE_DecodeEffect ::
    "'j cjson \<Rightarrow> platform \<Rightarrow> RawFileDescriptor \<Rightarrow> 'j option \<Rightarrow> VibratePackage \<Rightarrow> errcode + VibratePackage" where
  "HE_DecodeEffect J S fd parser k =
     (let version = HE_ParseVersion J parser; k = k\<lparr>pkg_patterns := []\<rparr>;
          res =
            (if version = 1 then
               do { patternJSON \<leftarrow> GetObjectItem J parser ''Pattern'';
                    a \<leftarrow> HE_ParsePattern J S patternJSON
                           \<lparr>pat_startTime = 0, pat_patternDuration = 0, pat_events = []\<rparr>;
                    Some (k\<lparr>pkg_patterns := pkg_patterns k @ [a]\<rparr>) }
             else if version = 2 then
               do { listJSON \<leftarrow> GetObjectItem J parser ''PatternList''; HE_ParsePatternList J S listJSON k }
             else None)
      in case res of None \<Rightarrow> Inl ERROR | Some k' \<Rightarrow> Inr k')"

text \<open>
  \<^verbatim>\<open>CreateDecoder\<close>: a file with the \<^verbatim>\<open>Channels\<close> tag goes to the OpenHarmony decoder, any other to
  the HE decoder.
\<close>

definition CheckJsonMetadata :: "'j cjson \<Rightarrow> 'j option \<Rightarrow> bool" where
  "CheckJsonMetadata J parser = HasObjectItem J parser ''Channels''"

definition CreateDecoder ::
    "'j cjson \<Rightarrow> platform \<Rightarrow> 'j option \<Rightarrow>
      RawFileDescriptor \<Rightarrow> 'j option \<Rightarrow> VibratePackage \<Rightarrow> errcode + VibratePackage" where
  "CreateDecoder J S parser = (if CheckJsonMetadata J parser then OH_DecodeEffect J S else HE_DecodeEffect J S)"

section \<open>What an accepted HE event looks like\<close>

definition he_curve_ok :: "int \<Rightarrow> VibrateCurvePoint list \<Rightarrow> bool" where
  "he_curve_ok d pts \<longleftrightarrow> sorted_wrt (<) (map cp_time pts) \<and>
     list_all (\<lambda>c. 0 \<le> cp_time c \<and> cp_time c \<le> d \<and> 0 \<le> cp_intensity c \<and> cp_intensity c \<le> 100
       \<and> -100 \<le> cp_frequency c \<and> cp_frequency c \<le> 100) pts"

definition he_event_ok :: "VibrateEvent \<Rightarrow> bool" where
  "he_event_ok e \<longleftrightarrow> HE_CheckEventParameters e \<and> he_curve_ok (ev_duration e) (ev_points e)
     \<and> (ev_tag e = EVENT_TAG_TRANSIENT \<longrightarrow> ev_points e = [] \<and> ev_duration e = 48)"

definition he_pattern_ok :: "VibratePattern \<Rightarrow> bool" where
  "he_pattern_ok a \<longleftrightarrow> pat_events a \<noteq> [] \<and> length (pat_events a) \<le> 16 \<and>
     list_all he_event_ok (pat_events a) \<and> sorted (map ev_time (pat_events a)) \<and> 0 \<le> pat_startTime a"

lemma he_event_ok_event_ok: "he_event_ok e \<Longrightarrow> event_ok e"
  by (cases "ev_tag e")
    (auto simp: he_event_ok_def event_ok_def HE_CheckEventParameters_def HE_CheckContinuousParameters_def
      Let_def wire_limits split: if_splits)

lemma he_pattern_ok_pattern_ok: "he_pattern_ok a \<Longrightarrow> pattern_ok a"
  by (auto simp: he_pattern_ok_def pattern_ok_def wire_limits list_all_iff he_event_ok_event_ok)

lemma sorted_wrt_less_snoc:
  "sorted_wrt (<) (xs @ [y :: int]) \<longleftrightarrow> sorted_wrt (<) xs \<and> (xs \<noteq> [] \<longrightarrow> last xs < y)"
  by (cases xs rule: rev_cases) (auto simp: sorted_wrt_append intro: order.strict_trans)

lemma sorted_snoc_last:
  "sorted (xs @ [y :: int]) \<longleftrightarrow> sorted xs \<and> (xs \<noteq> [] \<longrightarrow> last xs \<le> y)"
  by (cases xs rule: rev_cases) (auto simp: sorted_append intro: order.trans)

text \<open>The loop invariants: the remembered time is the time of the last element.\<close>

lemma HE_ParseCurve_ok:
  assumes p: "HE_ParseCurve J S c e = Some e'" and e: "ev_points e = []"
  shows "\<exists>pts. e' = e\<lparr>ev_points := pts\<rparr> \<and> he_curve_ok (ev_duration e) pts"
proof -
  from p e obtain t pts where t: "try_fold (HE_curve_step J S (ev_duration e) c)
      (indices (cJSON_GetArraySize J c)) (-1, []) = Some (t, pts)" and e': "e' = e\<lparr>ev_points := pts\<rparr>"
    by (auto simp: HE_ParseCurve_def Let_def split: if_splits Option.bind_splits)
  have "(\<lambda>(t, pts). he_curve_ok (ev_duration e) pts \<and> -1 \<le> t \<and> (pts \<noteq> [] \<longrightarrow> cp_time (last pts) = t)) (t, pts)"
    by (rule try_fold_invariant [OF t])
      (auto simp: HE_curve_step_def he_curve_ok_def Let_def sorted_wrt_less_snoc last_map
        split: Option.bind_splits if_splits)
  with e' show ?thesis by auto
qed

lemma HE_ParseEvent_ok: "HE_ParseEvent J S j = Some e \<Longrightarrow> he_event_ok e"
  unfolding HE_ParseEvent_def
  by (auto simp: Option.bind_eq_Some_conv Let_def he_event_ok_def he_curve_ok_def [of _ "[]"]
      split: if_splits dest!: HE_ParseCurve_ok)

lemma HE_ParsePattern_ok:
  assumes p: "HE_ParsePattern J S j a = Some a'" and a: "pat_events a = []" "0 \<le> pat_startTime a"
  shows "he_pattern_ok a' \<and> pat_startTime a' = pat_startTime a"
proof -
  let ?n = "cJSON_GetArraySize J j"
  from p a obtain t evs where t: "try_fold (HE_pattern_step J S j) (indices ?n) (0, []) = Some (t, evs)"
    and n: "0 < ?n" "?n \<le> 16" and a': "a' = a\<lparr>pat_events := evs\<rparr>"
    by (auto simp: HE_ParsePattern_def Let_def split: if_splits Option.bind_splits)
  have "(\<lambda>(t, evs). list_all he_event_ok evs \<and> sorted (map ev_time evs) \<and>
      (evs \<noteq> [] \<longrightarrow> ev_time (last evs) = t)) (t, evs)"
    by (rule try_fold_invariant [OF t])
      (auto simp: HE_pattern_step_def sorted_snoc_last last_map
        split: Option.bind_splits if_splits dest: HE_ParseEvent_ok)
  moreover have "length (snd (t, evs)) \<le> length (snd (0 :: int, [] :: VibrateEvent list)) + 1 * length (indices ?n)"
    by (rule try_fold_bound [OF t]) (auto simp: HE_pattern_step_def split: Option.bind_splits if_splits)
  moreover have "evs \<noteq> []"
  proof -
    from n t obtain s where "HE_pattern_step J S j (?n - 1) s = Some (t, evs)"
      by (auto simp: indices_snoc dest: try_fold_last)
    then show ?thesis by (auto simp: HE_pattern_step_def split: Option.bind_splits if_splits prod.splits)
  qed
  ultimately show ?thesis using n a by (auto simp: a' he_pattern_ok_def)
qed

lemma HE_ParsePatternList_ok:
  assumes p: "HE_ParsePatternList J S j k = Some k'" and k: "pkg_patterns k = []"
  shows "pkg_patterns k' \<noteq> [] \<and> list_all he_pattern_ok (pkg_patterns k') \<and>
    sorted_wrt (<) (map pat_startTime (pkg_patterns k')) \<and> pkg_packageDuration k' = pkg_packageDuration k"
proof -
  let ?n = "cJSON_GetArraySize J j"
  from p k obtain t ps where t: "try_fold (HE_list_step J S j) (indices ?n) (-1, []) = Some (t, ps)"
    and n: "0 < ?n" and k': "k' = k\<lparr>pkg_patterns := ps\<rparr>"
    by (auto simp: HE_ParsePatternList_def Let_def split: if_splits Option.bind_splits)
  have "(\<lambda>(t, ps). list_all he_pattern_ok ps \<and> sorted_wrt (<) (map pat_startTime ps) \<and> -1 \<le> t \<and>
      (ps \<noteq> [] \<longrightarrow> pat_startTime (last ps) = t)) (t, ps)"
    by (rule try_fold_invariant [OF t])
      (auto simp: HE_list_step_def Let_def sorted_wrt_less_snoc last_map
        split: Option.bind_splits if_splits dest!: HE_ParsePattern_ok)
  moreover from n t obtain s where "HE_list_step J S j (?n - 1) s = Some (t, ps)"
    by (auto simp: indices_snoc dest: try_fold_last)
  then have "ps \<noteq> []"
    by (auto simp: HE_list_step_def Let_def split: Option.bind_splits if_splits prod.splits)
  ultimately show ?thesis by (simp add: k')
qed

section \<open>The decoder contract\<close>

definition platform_ok :: "platform \<Rightarrow> bool" where
  "platform_ok S \<longleftrightarrow> sorts ev_time (sort_events S) \<and> sorts cp_time (sort_points S)"

text \<open>
  What the client relies on, whichever decoder the file was given to: the patterns of an accepted
  file fit the wire format, so that the package reaches the service.
\<close>

locale vibrator_decoder =
  fixes decode :: "'j cjson \<Rightarrow> platform \<Rightarrow> RawFileDescriptor \<Rightarrow> 'j option \<Rightarrow> VibratePackage
    \<Rightarrow> errcode + VibratePackage"
  assumes patterns_fit: "platform_ok S \<Longrightarrow> pkg_patterns k = [] \<Longrightarrow> decode J S fd parser k = Inr k' \<Longrightarrow>
    list_all pattern_ok (pkg_patterns k')"
begin

lemma delivered:
  assumes "platform_ok S" and "pkg_patterns k = []" and "decode J S fd parser k = Inr k'"
    and "length (pkg_patterns k') \<le> 1000"
    and "parcel_fifo P unread" and "unread p = []" and "VibratePackage_Marshalling P k' p = Some p1"
  shows "\<exists>p2. VibratePackage_Unmarshalling P p1 = Some (k', p2) \<and> unread p2 = []"
proof -
  have ok: "package_ok k'"
    using patterns_fit [OF assms(1-3)] assms(4) by (simp add: package_ok_def wire_limits)
  show ?thesis
    using assms(7) unfolding VibratePackage_Marshalling_def
    by (rule package_codec.roundtrip [OF assms(5) ok assms(6)])
qed

end

lemma OH_patterns_fit:
  assumes "platform_ok S" and "pkg_patterns k = []" and "OH_DecodeEffect J S fd parser k = Inr k'"
  shows "package_ok k' \<and> length (pkg_patterns k') \<le> 16"
proof -
  from assms(1) have S: "sorts cp_time (sort_points S)" "sorts ev_time (sort_events S)"
    by (simp_all add: platform_ok_def)
  show ?thesis using OH_decoded_package [OF S assms(2,3)] by simp
qed

lemma HE_decode_ok:
  assumes k: "HE_DecodeEffect J S fd parser k = Inr k'"
  shows "pkg_patterns k' \<noteq> [] \<and> list_all he_pattern_ok (pkg_patterns k') \<and>
    sorted_wrt (<) (map pat_startTime (pkg_patterns k')) \<and> pkg_packageDuration k' = pkg_packageDuration k"
  using k unfolding HE_DecodeEffect_def Let_def
  by (auto simp: Option.bind_eq_Some_conv split: if_splits option.splits
      dest!: HE_ParsePatternList_ok HE_ParsePattern_ok)

interpretation oh_decoder: vibrator_decoder OH_DecodeEffect
  by unfold_locales (auto simp: package_ok_def dest!: OH_patterns_fit)

interpretation he_decoder: vibrator_decoder HE_DecodeEffect
  by unfold_locales (auto simp: list_all_iff he_pattern_ok_pattern_ok dest!: HE_decode_ok)

interpretation file_decoder: vibrator_decoder "\<lambda>J S fd parser. CreateDecoder J S parser fd parser"
  by unfold_locales (auto simp: CreateDecoder_def split: if_splits
      dest: oh_decoder.patterns_fit he_decoder.patterns_fit)

section \<open>Properties\<close>

text \<open>C14. A haptic file that the HE decoder accepts gives at least one pattern; every pattern has 1 to
  16 events in time order with index, intensity and frequency in range, every continuous event a
  curve of 4 to 16 points with strictly increasing times that starts and ends in silence and
  spans the event exactly; the patterns start at strictly increasing times. The package duration
  is not filled in.\<close>

theorem HE_DecodeEffect_package:
  assumes "HE_DecodeEffect J S fd parser k = Inr k'"
  shows "pkg_patterns k' \<noteq> [] \<and> list_all he_pattern_ok (pkg_patterns k') \<and>
    sorted_wrt (<) (map pat_startTime (pkg_patterns k')) \<and> pkg_packageDuration k' = pkg_packageDuration k"
  using HE_decode_ok [OF assms] .

definition sample_he_json :: json where
  "sample_he_json = JObj [
     (''Metadata'', JObj [(''Version'', jint 1)]),
     (''Pattern'', JArr [JObj [(''Event'', JObj [(''Type'', JStr ''transient''), (''RelativeTime'', jint 25),
        (''Parameters'', JObj [(''Intensity'', jint 70), (''Frequency'', jint (-20))])])]])]"

definition sample_he_decode :: "errcode + VibratePackage" where
  "sample_he_decode = HE_DecodeEffect (json_ops (\<lambda>_. None)) sample_platform
     \<lparr>rfd_fd = 3, rfd_offset = 0, rfd_length = 200\<rparr> (Some sample_he_json) empty_package"

lemma sample_he_decode_value:
  "case sample_he_decode of Inl _ \<Rightarrow> False | Inr k \<Rightarrow> length (pkg_patterns k) = 1"
  by code_simp

lemma HE_DecodeEffect_package_witness:
  "list_all he_pattern_ok (pkg_patterns (projr sample_he_decode)) \<and>
   length (pkg_patterns (projr sample_he_decode)) = 1 \<and> pkg_packageDuration (projr sample_he_decode) = 0"
proof -
  obtain k' where k': "sample_he_decode = Inr k'" "length (pkg_patterns k') = 1"
    using sample_he_decode_value by (auto split: sum.splits)
  show ?thesis
    using HE_DecodeEffect_package [OF k'(1) [unfolded sample_he_decode_def]] k'(2)
    by (simp add: k'(1) empty_package_def)
qed

text \<open>C12. Whichever decoder a file is given to, a package it produces with at most 1000 patterns
  reaches the service unchanged.\<close>

theorem decoded_file_delivered:
  assumes "platform_ok S" and "pkg_patterns k = []"
    and "CreateDecoder J S parser fd parser k = Inr k'" and "length (pkg_patterns k') \<le> 1000"
    and "parcel_fifo P unread" and "unread p = []" and "VibratePackage_Marshalling P k' p = Some p1"
  shows "\<exists>p2. VibratePackage_Unmarshalling P p1 = Some (k', p2) \<and> unread p2 = []"
  using assms by (rule file_decoder.delivered)

lemma decoded_file_delivered_witness:
  "\<exists>p2. VibratePackage_Unmarshalling list_parcel (package_items (projr sample_he_decode))
     = Some (projr sample_he_decode, p2) \<and> p2 = []"
proof -
  obtain k' where k': "sample_he_decode = Inr k'" "length (pkg_patterns k') = 1"
    using sample_he_decode_value by (auto split: sum.splits)
  have "\<not> CheckJsonMetadata (json_ops (\<lambda>_. None)) (Some sample_he_json)"
    by code_simp
  then have "CreateDecoder (json_ops (\<lambda>_. None)) sample_platform (Some sample_he_json)
      \<lparr>rfd_fd = 3, rfd_offset = 0, rfd_length = 200\<rparr> (Some sample_he_json) empty_package = Inr k'"
    using k'(1) by (simp add: CreateDecoder_def sample_he_decode_def)
  from decoded_file_delivered [OF _ _ this _ list_parcel_fifo, of "[]" "package_items k'"] k'(2)
  show ?thesis
    by (simp add: k'(1) platform_ok_def sample_platform_def sorts_sort_key empty_package_def
        VibratePackage_Marshalling_def)
qed

end
