(* ===== verification/StdMap.thy ===== *)
theory StdMap
  imports Prelude
begin

text \<open>
  \<^verbatim>\<open>std::map\<close>: a list of key/value pairs in increasing key order, which is also the order of a
  range-based \<^verbatim>\<open>for\<close> loop. The locale \<open>map_store\<close> is what the code relies on of a map; it is
  interpreted on the list.
\<close>

section \<open>Operations\<close>

type_synonym ('k, 'v) stdmap = "('k \<times> 'v) list"

text \<open>\<^verbatim>\<open>m.find(k)\<close>, \<^verbatim>\<open>m[k] = v\<close>, \<^verbatim>\<open>m.insert({k, v})\<close> (no effect when the key is there), \<^verbatim>\<open>m.erase(k)\<close>.\<close>

definition sm_find :: "'k \<Rightarrow> ('k, 'v) stdmap \<Rightarrow> 'v option" where
  "sm_find k m = map_of m k"

fun sm_assign :: "'k::linorder \<Rightarrow> 'v \<Rightarrow> ('k, 'v) stdmap \<Rightarrow> ('k, 'v) stdmap" where
  "sm_assign k v [] = [(k, v)]"
| "sm_assign k v ((k', v') # m) =
     (if k < k' then (k, v) # (k', v') # m
      else if k = k' then (k, v) # m
      else (k', v') # sm_assign k v m)"

definition sm_insert :: "'k::linorder \<Rightarrow> 'v \<Rightarrow> ('k, 'v) stdmap \<Rightarrow> ('k, 'v) stdmap" where
  "sm_insert k v m = (if sm_find k m = None then sm_assign k v m else m)"

definition sm_erase :: "'k \<Rightarrow> ('k, 'v) stdmap \<Rightarrow> ('k, 'v) stdmap" where
  "sm_erase k m = filter (\<lambda>(k', v). k' \<noteq> k) m"

definition sm_ok :: "('k::linorder, 'v) stdmap \<Rightarrow> bool" where
  "sm_ok m \<longleftrightarrow> sorted_wrt (<) (map fst m)"

lemma sm_find_assign [simp]: "sm_find j (sm_assign k v m) = (if j = k then Some v else sm_find j m)"
  by (induction k v m rule: sm_assign.induct) (auto simp: sm_find_def)

lemma sm_find_erase [simp]: "sm_find j (sm_erase k m) = (if j = k then None else sm_find j m)"
  by (induction m) (auto simp: sm_erase_def sm_find_def)

lemma sm_find_Nil [simp]: "sm_find k [] = None"
  by (simp add: sm_find_def)

lemma set_fst_assign [simp]: "fst ` set (sm_assign k v m) = insert k (fst ` set m)"
  by (induction k v m rule: sm_assign.induct) auto

lemma sm_ok_Nil [simp]: "sm_ok []"
  by (simp add: sm_ok_def)

lemma sm_ok_assign [simp]: "sm_ok m \<Longrightarrow> sm_ok (sm_assign k v m)"
  unfolding sm_ok_def by (induction k v m rule: sm_assign.induct) auto

lemma sm_ok_erase [simp]: "sm_ok m \<Longrightarrow> sm_ok (sm_erase k m)"
  unfolding sm_ok_def sm_erase_def by (induction m) auto

lemma sm_ok_insert [simp]: "sm_ok m \<Longrightarrow> sm_ok (sm_insert k v m)"
  by (simp add: sm_insert_def)

lemma sm_find_in_set: "sm_find k m = Some v \<Longrightarrow> (k, v) \<in> set m"
  by (simp add: sm_find_def map_of_SomeD)

lemma sm_find_iff: "sm_ok m \<Longrightarrow> (k, v) \<in> set m \<longleftrightarrow> sm_find k m = Some v"
  unfolding sm_ok_def sm_find_def
  by (metis map_of_eq_Some_iff strict_sorted_iff)

lemma length_sm_erase_le [simp]: "length (sm_erase k m) \<le> length m"
  by (simp add: sm_erase_def)

lemma length_sm_assign: "length (sm_assign k v m) \<le> Suc (length m)"
  by (induction k v m rule: sm_assign.induct) auto

section \<open>The interface\<close>

locale map_store =
  fixes find :: "'k \<Rightarrow> 'm \<Rightarrow> 'v option"
    and assign :: "'k \<Rightarrow> 'v \<Rightarrow> 'm \<Rightarrow> 'm"
    and erase :: "'k \<Rightarrow> 'm \<Rightarrow> 'm"
    and ok :: "'m \<Rightarrow> bool"
    and empty :: 'm
  assumes find_empty: "find k empty = None" and ok_empty: "ok empty"
    and find_assign: "ok m \<Longrightarrow> find j (assign k v m) = (if j = k then Some v else find j m)"
    and find_erase: "ok m \<Longrightarrow> find j (erase k m) = (if j = k then None else find j m)"
    and ok_assign: "ok m \<Longrightarrow> ok (assign k v m)"
    and ok_erase: "ok m \<Longrightarrow> ok (erase k m)"
begin

text \<open>Assigning a list of pairs one after the other: the last pair of a key decides.\<close>

lemma find_assign_all:
  "ok m \<Longrightarrow> ok (fold (\<lambda>(k, v). assign k v) kvs m) \<and>
   find j (fold (\<lambda>(k, v). assign k v) kvs m) =
     (case map_of (rev kvs) j of Some v \<Rightarrow> Some v | None \<Rightarrow> find j m)"
proof (induction kvs arbitrary: m)
  case (Cons kv kvs)
  obtain k v where "kv = (k, v)" by (cases kv)
  with Cons show ?case
    by (auto simp: ok_assign find_assign map_add_def split: option.splits)
qed simp

lemma find_erase_all:
  "ok m \<Longrightarrow> ok (fold erase ks m) \<and> find j (fold erase ks m) = (if j \<in> set ks then None else find j m)"
  by (induction ks arbitrary: m) (auto simp: ok_erase find_erase)

end

interpretation std: map_store sm_find sm_assign sm_erase sm_ok "[]"
  by unfold_locales simp_all

end
