(* ===== verification/Client.thy ===== *)
theory Client
  imports ClientModulation HeDecoder StdMap "HOL-Library.AList" "HOL-Library.Product_Lexorder"
begin

text \<open>
  The client library, \<^verbatim>\<open>frameworks/native/vibrator/src/vibrator_service_client.cpp\<close>: the connection to
  the service, the parameters kept for the next request, the subscribers and the calls that are passed
  on. The service is behind the generated interface \<^verbatim>\<open>IMiscdeviceService\<close>, a record of
  operations on its state. Functions with the name of a handler of the service have the prefix \<open>CL_\<close>.
\<close>

section \<open>State and environment\<close>

record misc_identifier =
  mi_deviceId :: int
  mi_vibratorId :: int

text \<open>Identifiers are compared by device and then by vibrator.\<close>

definition key_of :: "misc_identifier \<Rightarrow> int \<times> int" where
  "key_of i = (mi_deviceId i, mi_vibratorId i)"

definition ipc_identifier :: "misc_identifier \<Rightarrow> VibratorIdentifierIPC" where
  "ipc_identifier i = mk_identifier (mi_deviceId i) (mi_vibratorId i)"

record VibratorParameter =
  vprm_intensity :: int
  vprm_frequency :: int
  vprm_reserved :: int
  vprm_sessionId :: "32 word"

record VibratorEffectParameter =
  vep_loopCount :: int
  vep_usage :: int
  vep_systemUsage :: bool
  vep_sessionId :: "32 word"
  vep_vibratorParameter :: VibratorParameter

definition default_VibratorParameter :: VibratorParameter where
  "default_VibratorParameter = \<lparr>vprm_intensity = 100, vprm_frequency = 0, vprm_reserved = 0, vprm_sessionId = 0\<rparr>"

definition default_effect_parameter :: VibratorEffectParameter where
  "default_effect_parameter = \<lparr>vep_loopCount = 1, vep_usage = USAGE_UNKNOWN, vep_systemUsage = False, vep_sessionId = 0,
     vep_vibratorParameter = default_VibratorParameter\<rparr>"

record PrimitiveEffect =
  pre_intensity :: int
  pre_usage :: int
  pre_systemUsage :: bool
  pre_count :: int

record VibratorInfos =
  vin_deviceId :: int
  vin_vibratorId :: int
  vin_deviceName :: string
  vin_isSupportHdHaptic :: bool
  vin_isLocalVibrator :: bool

text \<open>The members that are not null (or hold a library), and the maps. Subscribers are numbered by their address.\<close>

record client =
  cl_proxy :: bool
  cl_stub :: bool
  cl_deathObserver :: bool
  cl_handle :: bool
  cl_users :: "nat list"
  cl_effects :: "(int \<times> int, VibratorEffectParameter) stdmap"
  cl_supported :: "(string \<times> bool) list"

definition initial_client :: client where
  "initial_client = \<lparr>cl_proxy = False, cl_stub = False, cl_deathObserver = False, cl_handle = False, cl_users = [],
     cl_effects = [], cl_supported = []\<rparr>"

text \<open>
  What the calls of the system answer: whether the manager is there, gives the service and the
  memory for the observer, whether the remote objects are there, whether the decoder library can be
  loaded with both its functions, the content of a file (a parsed document, \<open>None\<close> when there is none)
  and the callback of a subscriber.
\<close>

record 'j client_env =
  ce_sm :: bool
  ce_service :: bool
  ce_observer :: bool
  ce_remote :: bool
  ce_stubRemote :: bool
  ce_library :: bool
  ce_json :: "'j cjson"
  ce_platform :: platform
  ce_file :: "RawFileDescriptor \<Rightarrow> 'j option"
  ce_malloc :: "nat \<Rightarrow> bool"
  ce_callback :: "nat \<Rightarrow> nat option"

record 's misc_proxy =
  px_Vibrate :: "VibratorIdentifierIPC \<Rightarrow> int \<Rightarrow> int \<Rightarrow> bool \<Rightarrow> 's \<Rightarrow> errcode \<times> 's"
  px_PlayVibratorEffect :: "VibratorIdentifierIPC \<Rightarrow> string \<Rightarrow> int \<Rightarrow> int \<Rightarrow> bool \<Rightarrow> 's \<Rightarrow> errcode \<times> 's"
  px_PlayVibratorCustom :: "VibratorIdentifierIPC \<Rightarrow> VibratePackage \<Rightarrow> CustomHapticInfoIPC \<Rightarrow> 's \<Rightarrow> errcode \<times> 's"
  px_PlayPattern :: "VibratorIdentifierIPC \<Rightarrow> VibratePattern \<Rightarrow> CustomHapticInfoIPC \<Rightarrow> 's \<Rightarrow> errcode \<times> 's"
  px_PlayPackageBySessionId :: "VibratorIdentifierIPC \<Rightarrow> VibratePackage \<Rightarrow> CustomHapticInfoIPC \<Rightarrow> 's \<Rightarrow> errcode \<times> 's"
  px_PlayPrimitiveEffect :: "VibratorIdentifierIPC \<Rightarrow> string \<Rightarrow> PrimitiveEffectIPC \<Rightarrow> 's \<Rightarrow> errcode \<times> 's"
  px_StopVibrator :: "VibratorIdentifierIPC \<Rightarrow> 's \<Rightarrow> errcode \<times> 's"
  px_StopVibratorByMode :: "VibratorIdentifierIPC \<Rightarrow> string \<Rightarrow> 's \<Rightarrow> errcode \<times> 's"
  px_StopVibrateBySessionId :: "VibratorIdentifierIPC \<Rightarrow> 32 word \<Rightarrow> 's \<Rightarrow> errcode \<times> 's"
  px_IsSupportEffect :: "VibratorIdentifierIPC \<Rightarrow> string \<Rightarrow> 's \<Rightarrow> (errcode + bool) \<times> 's"
  px_GetDelayTime :: "VibratorIdentifierIPC \<Rightarrow> 's \<Rightarrow> (errcode + int) \<times> 's"
  px_GetVibratorCapacity :: "VibratorIdentifierIPC \<Rightarrow> 's \<Rightarrow> (errcode + VibratorCapacity) \<times> 's"
  px_GetVibratorList :: "VibratorIdentifierIPC \<Rightarrow> 's \<Rightarrow> (errcode + VibratorInfoIPC list) \<times> 's"
  px_GetEffectInfo :: "VibratorIdentifierIPC \<Rightarrow> string \<Rightarrow> 's \<Rightarrow> (errcode + EffectInfoIPC) \<times> 's"
  px_TransferClientRemoteObject :: "'s \<Rightarrow> errcode \<times> 's"
  px_SubscribeVibratorPlugInfo :: "'s \<Rightarrow> errcode \<times> 's"
  px_DisableVibratorByPid :: "int \<Rightarrow> 's \<Rightarrow> errcode \<times> 's"
  px_EnableVibratorByPid :: "int \<Rightarrow> 's \<Rightarrow> errcode \<times> 's"

section \<open>The connection\<close>

definition CL_TransferClientRemoteObject ::
    "'j client_env \<Rightarrow> 's misc_proxy \<Rightarrow> client \<times> 's \<Rightarrow> errcode \<times> client \<times> 's" where
  "CL_TransferClientRemoteObject E P = (\<lambda>(cl, s).
     if \<not> cl_stub cl then (ERROR, cl, s)
     else if \<not> ce_stubRemote E then (MISC_NATIVE_GET_SERVICE_ERR, cl, s)
     else if \<not> cl_proxy cl then (ERROR, cl, s)
     else let (ret, s) = px_TransferClientRemoteObject P s in (ret, cl, s))"

definition InitServiceClient :: "'j client_env \<Rightarrow> 's misc_proxy \<Rightarrow> client \<times> 's \<Rightarrow> errcode \<times> client \<times> 's" where
  "InitServiceClient E P = (\<lambda>(cl, s).
     if cl_proxy cl then (ERR_OK, cl, s)
     else let cl = cl\<lparr>cl_stub := True\<rparr> in
       if \<not> ce_sm E then (MISC_NATIVE_SAM_ERR, cl, s)
       else if ce_service E then
         let cl = cl\<lparr>cl_proxy := True, cl_deathObserver := ce_observer E\<rparr> in
         if \<not> ce_observer E then (MISC_NATIVE_GET_SERVICE_ERR, cl, s)
         else if \<not> ce_remote E then (MISC_NATIVE_GET_SERVICE_ERR, cl, s)
         else let (ret, cl, s) = CL_TransferClientRemoteObject E P (cl, s)
           in if ret \<noteq> ERR_OK then (ERROR, cl, s) else (ERR_OK, cl, s)
       else (MISC_NATIVE_GET_SERVICE_ERR, cl, s))"

text \<open>The frame of every call: connect, check the proxy, pass the call on.\<close>

definition client_call ::
    "'j client_env \<Rightarrow> 's misc_proxy \<Rightarrow> ('s \<Rightarrow> errcode \<times> 's) \<Rightarrow> client \<times> 's \<Rightarrow> errcode \<times> client \<times> 's" where
  "client_call E P f st =
     (let (ret, cl, s) = InitServiceClient E P st in
      if ret \<noteq> ERR_OK then (MISC_NATIVE_GET_SERVICE_ERR, cl, s)
      else if \<not> cl_proxy cl then (ERROR, cl, s)
      else let (ret, s) = f s in (ret, cl, s))"

definition client_query ::
    "'j client_env \<Rightarrow> 's misc_proxy \<Rightarrow> ('s \<Rightarrow> (errcode + 'v) \<times> 's) \<Rightarrow> client \<times> 's \<Rightarrow> (errcode + 'v) \<times> client \<times> 's" where
  "client_query E P f st =
     (let (ret, cl, s) = InitServiceClient E P st in
      if ret \<noteq> ERR_OK then (Inl MISC_NATIVE_GET_SERVICE_ERR, cl, s)
      else if \<not> cl_proxy cl then (Inl ERROR, cl, s)
      else let (r, s) = f s in (r, cl, s))"

definition CL_ProcessDeathObserver :: "'j client_env \<Rightarrow> 's misc_proxy \<Rightarrow> client \<times> 's \<Rightarrow> client \<times> 's" where
  "CL_ProcessDeathObserver E P = (\<lambda>(cl, s). snd (InitServiceClient E P (cl\<lparr>cl_proxy := False\<rparr>, s)))"

section \<open>Calls that are passed on\<close>

definition CL_Vibrate where
  "CL_Vibrate E P i timeOut usage systemUsage =
     client_call E P (px_Vibrate P (ipc_identifier i) timeOut usage systemUsage)"

definition CL_VibrateEffect where
  "CL_VibrateEffect E P i effect loopCount usage systemUsage =
     client_call E P (px_PlayVibratorEffect P (ipc_identifier i) effect loopCount usage systemUsage)"

definition CL_StopVibratorByMode where
  "CL_StopVibratorByMode E P i mode = client_call E P (px_StopVibratorByMode P (ipc_identifier i) mode)"

definition CL_StopVibrator where
  "CL_StopVibrator E P i = client_call E P (px_StopVibrator P (ipc_identifier i))"

definition CL_StopVibrateBySessionId where
  "CL_StopVibrateBySessionId E P i session = client_call E P (px_StopVibrateBySessionId P (ipc_identifier i) session)"

definition CL_PlayPrimitiveEffect where
  "CL_PlayPrimitiveEffect E P i effect p = client_call E P (px_PlayPrimitiveEffect P (ipc_identifier i) effect
     \<lparr>pe_intensity = pre_intensity p, pe_usage = pre_usage p, pe_systemUsage = pre_systemUsage p, pe_count = pre_count p\<rparr>)"

definition CL_GetDelayTime where
  "CL_GetDelayTime E P i = client_query E P (px_GetDelayTime P (ipc_identifier i))"

definition CL_DisableVibratorByPid where
  "CL_DisableVibratorByPid E P pid = client_call E P (px_DisableVibratorByPid P pid)"

definition CL_EnableVibratorByPid where
  "CL_EnableVibratorByPid E P pid = client_call E P (px_EnableVibratorByPid P pid)"

definition CL_GetVibratorList ::
    "'j client_env \<Rightarrow> 's misc_proxy \<Rightarrow> misc_identifier \<Rightarrow> client \<times> 's \<Rightarrow> (errcode + VibratorInfos list) \<times> client \<times> 's" where
  "CL_GetVibratorList E P i st =
     (let (r, st) = client_query E P (px_GetVibratorList P (ipc_identifier i)) st in
      (case r of Inl e \<Rightarrow> Inl e | Inr infos \<Rightarrow> Inr (map (\<lambda>v. \<lparr>vin_deviceId = info_deviceId v, vin_vibratorId = info_vibratorId v,
         vin_deviceName = info_deviceName v, vin_isSupportHdHaptic = info_isSupportHdHaptic v,
         vin_isLocalVibrator = info_isLocalVibrator v\<rparr>) infos), st))"

definition CL_GetEffectInfo ::
    "'j client_env \<Rightarrow> 's misc_proxy \<Rightarrow> misc_identifier \<Rightarrow> string \<Rightarrow> client \<times> 's \<Rightarrow> (errcode + bool) \<times> client \<times> 's" where
  "CL_GetEffectInfo E P i effectType st =
     (let (r, st) = client_query E P (px_GetEffectInfo P (ipc_identifier i) effectType) st in
      (case r of Inl e \<Rightarrow> Inl e | Inr e \<Rightarrow> Inr (ei_isSupportEffect e), st))"

section \<open>Capacities\<close>

definition CL_GetVibratorCapacity ::
    "'s misc_proxy \<Rightarrow> misc_identifier \<Rightarrow> client \<times> 's \<Rightarrow> (errcode + VibratorCapacity) \<times> client \<times> 's" where
  "CL_GetVibratorCapacity P i = (\<lambda>(cl, s).
     if \<not> cl_proxy cl then (Inl ERROR, cl, s)
     else let (r, s) = px_GetVibratorCapacity P (ipc_identifier i) s in (r, cl, s))"

text \<open>A code returned as \<^verbatim>\<open>bool\<close> is true unless it is 0; a capacity that was not received is the default one.\<close>

definition code_as_bool :: "errcode \<Rightarrow> bool" where
  "code_as_bool e \<longleftrightarrow> e \<noteq> Errno 0"

definition capacity_or_default :: "errcode + VibratorCapacity \<Rightarrow> VibratorCapacity" where
  "capacity_or_default r = (case r of Inl _ \<Rightarrow> default_capacity | Inr c \<Rightarrow> c)"

definition CL_IsHdHapticSupported ::
    "'j client_env \<Rightarrow> 's misc_proxy \<Rightarrow> misc_identifier \<Rightarrow> client \<times> 's \<Rightarrow> bool \<times> client \<times> 's" where
  "CL_IsHdHapticSupported E P i st =
     (let (ret, cl, s) = InitServiceClient E P st in
      if ret \<noteq> ERR_OK then (code_as_bool MISC_NATIVE_GET_SERVICE_ERR, cl, s)
      else if \<not> cl_proxy cl then (code_as_bool ERROR, cl, s)
      else let (r, st) = CL_GetVibratorCapacity P i (cl, s) in (isSupportHdHaptic (capacity_or_default r), st))"

definition CL_IsSupportVibratorCustom ::
    "'j client_env \<Rightarrow> 's misc_proxy \<Rightarrow> misc_identifier \<Rightarrow> client \<times> 's \<Rightarrow> bool \<times> client \<times> 's" where
  "CL_IsSupportVibratorCustom E P i st =
     (let (ret, cl, s) = InitServiceClient E P st in
      if \<not> cl_proxy cl then (code_as_bool ERROR, cl, s)
      else let (r, st) = CL_GetVibratorCapacity P i (cl, s); c = capacity_or_default r
        in (isSupportHdHaptic c \<or> isSupportPresetMapping c \<or> isSupportTimeDelay c, st))"

text \<open>The answers of the service are kept by the name of the effect.\<close>

definition CL_IsSupportEffect ::
    "'j client_env \<Rightarrow> 's misc_proxy \<Rightarrow> misc_identifier \<Rightarrow> string \<Rightarrow> client \<times> 's \<Rightarrow> (errcode + bool) \<times> client \<times> 's" where
  "CL_IsSupportEffect E P i effect st =
     (let (ret, cl, s) = InitServiceClient E P st in
      if ret \<noteq> ERR_OK then (Inl MISC_NATIVE_GET_SERVICE_ERR, cl, s)
      else case map_of (cl_supported cl) effect of
        Some state \<Rightarrow> (Inr state, cl, s)
      | None \<Rightarrow>
          if \<not> cl_proxy cl then (Inl ERROR, cl, s)
          else let (r, s) = px_IsSupportEffect P (ipc_identifier i) effect s in
            (case r of Inl e \<Rightarrow> (Inl e, cl, s)
             | Inr state \<Rightarrow> (Inr state, cl\<lparr>cl_supported := AList.update effect state (cl_supported cl)\<rparr>, s)))"

section \<open>Custom vibrations\<close>

definition LoadDecoderLibrary :: "'j client_env \<Rightarrow> client \<Rightarrow> errcode \<times> client" where
  "LoadDecoderLibrary E cl =
     (if cl_handle cl then (ERR_OK, cl)
      else if \<not> ce_library E then (ERROR, cl) else (ERR_OK, cl\<lparr>cl_handle := True\<rparr>))"

definition haptic_info :: "int \<Rightarrow> bool \<Rightarrow> int \<Rightarrow> int \<Rightarrow> 32 word \<Rightarrow> CustomHapticInfoIPC" where
  "haptic_info usage systemUsage intensity frequency session = \<lparr>ch_usage = usage, ch_systemUsage = systemUsage,
     ch_parameter = \<lparr>vp_intensity = intensity, vp_frequency = frequency, vp_reserved = 0, vp_sessionId = session\<rparr>\<rparr>"

definition decode_file :: "'j client_env \<Rightarrow> RawFileDescriptor \<Rightarrow> errcode + VibratePackage" where
  "decode_file E fd = CreateDecoder (ce_json E) (ce_platform E) (ce_file E fd) fd (ce_file E fd) empty_package"

definition CL_PlayVibratorCustom ::
    "'j client_env \<Rightarrow> 's misc_proxy \<Rightarrow> misc_identifier \<Rightarrow> RawFileDescriptor \<Rightarrow> int \<Rightarrow> bool \<Rightarrow> VibratorParameter
      \<Rightarrow> client \<times> 's \<Rightarrow> errcode \<times> client \<times> 's" where
  "CL_PlayVibratorCustom E P i fd usage systemUsage p st =
     (let (ret, cl, s) = InitServiceClient E P st in
      if ret \<noteq> ERR_OK then (MISC_NATIVE_GET_SERVICE_ERR, cl, s)
      else if \<not> cl_proxy cl then (ERROR, cl, s)
      else let (ret, cl) = LoadDecoderLibrary E cl in
        if ret \<noteq> ERR_OK then (ERROR, cl, s)
        else case decode_file E fd of
          Inl _ \<Rightarrow> (ERROR, cl, s)
        | Inr pkg \<Rightarrow>
            let (ret, s) = px_PlayVibratorCustom P (ipc_identifier i) pkg
                  (haptic_info usage systemUsage (vprm_intensity p) (vprm_frequency p) 0) s
            in (ret, cl, s))"

text \<open>The package for the caller, or a crash that the reading of an array may lead to.\<close>

definition CL_PreProcess :: "'j client_env \<Rightarrow> RawFileDescriptor \<Rightarrow> client \<Rightarrow> VibratorPackage outcome \<times> client" where
  "CL_PreProcess E fd cl =
     (let (ret, cl) = LoadDecoderLibrary E cl in
      if ret \<noteq> ERR_OK then (Fail ERROR, cl)
      else case decode_file E fd of
        Inl _ \<Rightarrow> (Fail ERROR, cl)
      | Inr pkg \<Rightarrow> (ConvertVibratorPackage_c (ce_malloc E) pkg, cl))"

text \<open>\<open>None\<close> is a read behind the end of an array of the caller.\<close>

definition InitPlayPattern ::
    "'j client_env \<Rightarrow> 's misc_proxy \<Rightarrow> misc_identifier \<Rightarrow> VibratorPattern \<Rightarrow> int \<Rightarrow> bool \<Rightarrow> VibratorParameter
      \<Rightarrow> client \<times> 's \<Rightarrow> (errcode \<times> client \<times> 's) option" where
  "InitPlayPattern E P i a usage systemUsage p st =
     (let (ret, cl, s) = InitServiceClient E P st in
      if ret \<noteq> ERR_OK then Some (MISC_NATIVE_GET_SERVICE_ERR, cl, s)
      else case play_pattern a of
        Crash \<Rightarrow> None
      | Fail e \<Rightarrow> Some (e, cl, s)
      | Done pattern \<Rightarrow>
          Some (if \<not> cl_proxy cl then (ERROR, cl, s)
                else let (ret, s) = px_PlayPattern P (ipc_identifier i) pattern
                       (haptic_info usage systemUsage (vprm_intensity p) (vprm_frequency p) (vprm_sessionId p)) s
                  in (ret, cl, s)))"

definition CL_PlayPattern ::
    "'j client_env \<Rightarrow> 's misc_proxy \<Rightarrow> misc_identifier \<Rightarrow> VibratorPattern \<Rightarrow> int \<Rightarrow> bool \<Rightarrow> VibratorParameter
      \<Rightarrow> client \<times> 's \<Rightarrow> (errcode \<times> client \<times> 's) option" where
  "CL_PlayPattern E P i a usage systemUsage p st =
     (let (ret, st) = InitServiceClient E P st in
      if ret \<noteq> ERR_OK then Some (MISC_NATIVE_GET_SERVICE_ERR, st)
      else InitPlayPattern E P i a usage systemUsage p st)"

definition CL_PlayPackageBySessionId ::
    "'j client_env \<Rightarrow> 's misc_proxy \<Rightarrow> misc_identifier \<Rightarrow> VibratorEffectParameter \<Rightarrow> VibratorPackage
      \<Rightarrow> client \<times> 's \<Rightarrow> (errcode \<times> client \<times> 's) option" where
  "CL_PlayPackageBySessionId E P i p k st =
     (let (ret, cl, s) = InitServiceClient E P st in
      if ret \<noteq> ERR_OK then Some (MISC_NATIVE_GET_SERVICE_ERR, cl, s)
      else case ConvertVibratorPackage_ipc k of
        Crash \<Rightarrow> None
      | Fail _ \<Rightarrow> Some (PARAMETER_ERROR, cl, s)
      | Done package \<Rightarrow>
          Some (if \<not> cl_proxy cl then (ERROR, cl, s)
                else let (ret, s) = px_PlayPackageBySessionId P (ipc_identifier i) package
                       (haptic_info (vep_usage p) (vep_systemUsage p) (vprm_intensity (vep_vibratorParameter p))
                          (vprm_frequency (vep_vibratorParameter p)) (vep_sessionId p)) s
                  in (ret, cl, s)))"

section \<open>Parameters of the next request\<close>

definition GetVibratorEffectParameter :: "misc_identifier \<Rightarrow> client \<Rightarrow> VibratorEffectParameter" where
  "GetVibratorEffectParameter i cl =
     (case sm_find (key_of i) (cl_effects cl) of Some p \<Rightarrow> p | None \<Rightarrow> default_effect_parameter)"

definition upd_effect :: "misc_identifier \<Rightarrow> (VibratorEffectParameter \<Rightarrow> VibratorEffectParameter) \<Rightarrow> client \<Rightarrow> client" where
  "upd_effect i f cl = cl\<lparr>cl_effects := sm_assign (key_of i) (f (GetVibratorEffectParameter i cl)) (cl_effects cl)\<rparr>"

definition CL_SetUsage :: "misc_identifier \<Rightarrow> int \<Rightarrow> bool \<Rightarrow> client \<Rightarrow> client" where
  "CL_SetUsage i usage systemUsage = upd_effect i (\<lambda>p. p\<lparr>vep_usage := usage, vep_systemUsage := systemUsage\<rparr>)"

definition CL_SetLoopCount :: "misc_identifier \<Rightarrow> int \<Rightarrow> client \<Rightarrow> client" where
  "CL_SetLoopCount i loopCount = upd_effect i (\<lambda>p. p\<lparr>vep_loopCount := loopCount\<rparr>)"

definition CL_SetParameters :: "misc_identifier \<Rightarrow> VibratorParameter \<Rightarrow> client \<Rightarrow> client" where
  "CL_SetParameters i parameter = upd_effect i (\<lambda>p. p\<lparr>vep_vibratorParameter := parameter\<rparr>)"

section \<open>Plug events\<close>

record VibratorStatusEvent =
  se_type :: int
  se_deviceId :: int
  se_vibratorCnt :: int
  se_timestamp :: int

text \<open>A user is the null pointer (\<open>None\<close>) or an address.\<close>

definition CL_SubscribeVibratorPlugInfo ::
    "'j client_env \<Rightarrow> 's misc_proxy \<Rightarrow> nat option \<Rightarrow> client \<times> 's \<Rightarrow> errcode \<times> client \<times> 's" where
  "CL_SubscribeVibratorPlugInfo E P u st =
     (case u of
        None \<Rightarrow> (ERROR, st)
      | Some user \<Rightarrow>
          if ce_callback E user = None then (ERROR, st)
          else let (ret, cl, s) = InitServiceClient E P st in
            if ret \<noteq> ERR_OK then (MISC_NATIVE_GET_SERVICE_ERR, cl, s)
            else if user \<in> set (cl_users cl) then (SUCCESS, cl, s)
            else let cl = cl\<lparr>cl_users := insort user (cl_users cl)\<rparr> in
              if \<not> ce_stubRemote E then (MISC_NATIVE_GET_SERVICE_ERR, cl, s)
              else if \<not> cl_proxy cl then (ERROR, cl, s)
              else let (ret, s) = px_SubscribeVibratorPlugInfo P s
                in if ret \<noteq> ERR_OK then (ret, cl, s) else (SUCCESS, cl, s))"

definition UnsubscribeVibratorPlugInfo :: "'j client_env \<Rightarrow> nat option \<Rightarrow> client \<Rightarrow> errcode \<times> client" where
  "UnsubscribeVibratorPlugInfo E u cl =
     (case u of
        None \<Rightarrow> (ERROR, cl)
      | Some user \<Rightarrow>
          if ce_callback E user = None then (ERROR, cl)
          else if user \<notin> set (cl_users cl) then (ERROR, cl)
          else (SUCCESS, cl\<lparr>cl_users := remove1 user (cl_users cl)\<rparr>))"

text \<open>The set of callbacks, in the order of their addresses; the users' callbacks are not null.\<close>

definition GetSubscribeUserCallback :: "'j client_env \<Rightarrow> client \<Rightarrow> nat list" where
  "GetSubscribeUserCallback E cl = sorted_list_of_set (set (List.map_filter (ce_callback E) (cl_users cl)))"

text \<open>The callbacks that are run, and the client after a plug event.\<close>

definition HandleVibratorData :: "'j client_env \<Rightarrow> VibratorStatusEvent \<Rightarrow> client \<Rightarrow> nat list \<times> client" where
  "HandleVibratorData E ev cl =
     (let cl = (if se_type ev = 0 then cl\<lparr>cl_effects := filter (\<lambda>((d, v), p). d \<noteq> se_deviceId ev) (cl_effects cl)\<rparr> else cl)
      in (GetSubscribeUserCallback E cl, cl))"

definition Stub_ProcessPlugEvent :: "'j client_env \<Rightarrow> int \<Rightarrow> int \<Rightarrow> int \<Rightarrow> int \<Rightarrow> client \<Rightarrow> errcode \<times> nat list \<times> client" where
  "Stub_ProcessPlugEvent E now eventCode deviceId vibratorCnt cl =
     (if eventCode < -1 \<or> eventCode > 1 then (PARAMETER_ERROR, [], cl)
      else let (callbacks, cl) = HandleVibratorData E \<lparr>se_type = eventCode, se_deviceId = deviceId,
             se_vibratorCnt = vibratorCnt, se_timestamp = now\<rparr> cl in (NO_ERROR, callbacks, cl))"

end
