(* ===== verification/Agent.thy ===== *)
theory Agent
  imports Client
begin

text \<open>
  The functions applications link to, \<^verbatim>\<open>frameworks/native/vibrator/vibrator_agent.cpp\<close>: each checks its
  arguments, passes the parameters stored for the vibrator to the client library, resets them and maps
  the result to the documented codes. The functions without an identifier use the default one. The
  functions have the prefix \<open>AG_\<close>.
\<close>

section \<open>Results\<close>

text \<open>The state an agent works on: the client library and the service behind it.\<close>

type_synonym 's agent_state = "client \<times> 's"

definition NormalizeErrCode :: "errcode \<Rightarrow> errcode" where
  "NormalizeErrCode code =
     (if code = PERMISSION_DENIED then PERMISSION_DENIED
      else if code = PARAMETER_ERROR then PARAMETER_ERROR
      else if code = IS_NOT_SUPPORTED then IS_NOT_SUPPORTED
      else DEVICE_OPERATION_FAILED)"

definition agent_result :: "errcode \<Rightarrow> errcode" where
  "agent_result ret = (if ret \<noteq> ERR_OK then NormalizeErrCode ret else SUCCESS)"

definition agent_value :: "(errcode + 'v) \<Rightarrow> (errcode + 'v)" where
  "agent_value r = (case r of Inl e \<Rightarrow> Inl (NormalizeErrCode e) | Inr v \<Rightarrow> Inr v)"

fun agent_outcome :: "'v outcome \<Rightarrow> 'v outcome" where
  "agent_outcome Crash = Crash"
| "agent_outcome (Fail e) = Fail (NormalizeErrCode e)"
| "agent_outcome (Done v) = Done v"

definition default_identifier :: misc_identifier where
  "default_identifier = \<lparr>mi_deviceId = -1, mi_vibratorId = -1\<rparr>"

section \<open>Settings for the next request\<close>

definition AG_SetLoopCountEnhanced :: "misc_identifier \<Rightarrow> int \<Rightarrow> client \<Rightarrow> bool \<times> client" where
  "AG_SetLoopCountEnhanced i loopCount cl =
     (if loopCount \<le> 0 then (False, cl) else (True, CL_SetLoopCount i loopCount cl))"

definition AG_SetLoopCount :: "int \<Rightarrow> client \<Rightarrow> bool \<times> client" where
  "AG_SetLoopCount = AG_SetLoopCountEnhanced default_identifier"

definition AG_SetUsageEnhanced :: "misc_identifier \<Rightarrow> int \<Rightarrow> bool \<Rightarrow> client \<Rightarrow> bool \<times> client" where
  "AG_SetUsageEnhanced i usage systemUsage cl =
     (if usage < 0 \<or> usage \<ge> USAGE_MAX then (False, cl) else (True, CL_SetUsage i usage systemUsage cl))"

definition AG_SetUsage :: "int \<Rightarrow> bool \<Rightarrow> client \<Rightarrow> bool \<times> client" where
  "AG_SetUsage = AG_SetUsageEnhanced default_identifier"

definition AG_SetParametersEnhanced :: "misc_identifier \<Rightarrow> VibratorParameter \<Rightarrow> client \<Rightarrow> bool \<times> client" where
  "AG_SetParametersEnhanced i p cl =
     (if vprm_intensity p < 0 \<or> vprm_intensity p > 100 \<or> vprm_frequency p < -100 \<or> vprm_frequency p > 100 then (False, cl)
      else (True, CL_SetParameters i p cl))"

definition AG_SetParameters :: "VibratorParameter \<Rightarrow> client \<Rightarrow> bool \<times> client" where
  "AG_SetParameters = AG_SetParametersEnhanced default_identifier"

text \<open>What the functions put back after a request.\<close>

definition reset_count :: "misc_identifier \<Rightarrow> client \<Rightarrow> client" where
  "reset_count i cl = CL_SetLoopCount i 1 (CL_SetUsage i USAGE_UNKNOWN False cl)"

definition reset_usage :: "misc_identifier \<Rightarrow> client \<Rightarrow> client" where
  "reset_usage i cl = CL_SetUsage i USAGE_UNKNOWN False cl"

definition reset_parameter :: "misc_identifier \<Rightarrow> VibratorParameter \<Rightarrow> client \<Rightarrow> client" where
  "reset_parameter i p cl =
     CL_SetParameters i (p\<lparr>vprm_intensity := 100, vprm_frequency := 0\<rparr>) (CL_SetUsage i USAGE_UNKNOWN False cl)"

section \<open>Requests to vibrate\<close>

definition AG_StartVibratorEnhanced ::
    "'j client_env \<Rightarrow> 's misc_proxy \<Rightarrow> misc_identifier \<Rightarrow> string option \<Rightarrow> 's agent_state \<Rightarrow> errcode \<times> 's agent_state" where
  "AG_StartVibratorEnhanced E P i effectId st =
     (case effectId of
        None \<Rightarrow> (PARAMETER_ERROR, st)
      | Some effect \<Rightarrow>
          let p = GetVibratorEffectParameter i (fst st);
              (ret, cl, s) = CL_VibrateEffect E P i effect (vep_loopCount p) (vep_usage p) (vep_systemUsage p) st
          in (agent_result ret, reset_count i cl, s))"

definition AG_StartVibrator ::
    "'j client_env \<Rightarrow> 's misc_proxy \<Rightarrow> string option \<Rightarrow> 's agent_state \<Rightarrow> errcode \<times> 's agent_state" where
  "AG_StartVibrator E P = AG_StartVibratorEnhanced E P default_identifier"

definition AG_StartVibratorOnceEnhanced ::
    "'j client_env \<Rightarrow> 's misc_proxy \<Rightarrow> misc_identifier \<Rightarrow> int \<Rightarrow> 's agent_state \<Rightarrow> errcode \<times> 's agent_state" where
  "AG_StartVibratorOnceEnhanced E P i duration st =
     (if duration \<le> 0 then (PARAMETER_ERROR, st)
      else let p = GetVibratorEffectParameter i (fst st);
               (ret, cl, s) = CL_Vibrate E P i duration (vep_usage p) (vep_systemUsage p) st
           in (agent_result ret, reset_usage i cl, s))"

definition AG_StartVibratorOnce ::
    "'j client_env \<Rightarrow> 's misc_proxy \<Rightarrow> int \<Rightarrow> 's agent_state \<Rightarrow> errcode \<times> 's agent_state" where
  "AG_StartVibratorOnce E P = AG_StartVibratorOnceEnhanced E P default_identifier"

definition AG_PlayVibratorCustomEnhanced ::
    "'j client_env \<Rightarrow> 's misc_proxy \<Rightarrow> misc_identifier \<Rightarrow> int \<Rightarrow> int \<Rightarrow> int \<Rightarrow> 's agent_state \<Rightarrow> errcode \<times> 's agent_state" where
  "AG_PlayVibratorCustomEnhanced E P i fd off len st =
     (if fd < 0 \<or> off < 0 \<or> len \<le> 0 then (PARAMETER_ERROR, st)
      else let p = GetVibratorEffectParameter i (fst st);
               (ret, cl, s) = CL_PlayVibratorCustom E P i \<lparr>rfd_fd = fd, rfd_offset = off, rfd_length = len\<rparr>
                 (vep_usage p) (vep_systemUsage p) (vep_vibratorParameter p) st
           in (agent_result ret, reset_parameter i (vep_vibratorParameter p) cl, s))"

definition AG_PlayVibratorCustom ::
    "'j client_env \<Rightarrow> 's misc_proxy \<Rightarrow> int \<Rightarrow> int \<Rightarrow> int \<Rightarrow> 's agent_state \<Rightarrow> errcode \<times> 's agent_state" where
  "AG_PlayVibratorCustom E P = AG_PlayVibratorCustomEnhanced E P default_identifier"

text \<open>\<open>None\<close> is a read behind the end of an array of the caller, as in \<open>Client\<close>.\<close>

definition AG_PlayPatternEnhanced ::
    "'j client_env \<Rightarrow> 's misc_proxy \<Rightarrow> misc_identifier \<Rightarrow> VibratorPattern \<Rightarrow> 's agent_state \<Rightarrow> (errcode \<times> 's agent_state) option" where
  "AG_PlayPatternEnhanced E P i a st =
     (let p = GetVibratorEffectParameter i (fst st) in
      map_option (\<lambda>(ret, cl, s). (agent_result ret, reset_parameter i (vep_vibratorParameter p) cl, s))
        (CL_PlayPattern E P i a (vep_usage p) (vep_systemUsage p) (vep_vibratorParameter p) st))"

definition AG_PlayPattern ::
    "'j client_env \<Rightarrow> 's misc_proxy \<Rightarrow> VibratorPattern \<Rightarrow> 's agent_state \<Rightarrow> (errcode \<times> 's agent_state) option" where
  "AG_PlayPattern E P = AG_PlayPatternEnhanced E P default_identifier"

definition AG_PlayPatternBySessionId ::
    "'j client_env \<Rightarrow> 's misc_proxy \<Rightarrow> 32 word \<Rightarrow> VibratorPattern \<Rightarrow> 's agent_state \<Rightarrow> (errcode \<times> 's agent_state) option" where
  "AG_PlayPatternBySessionId E P session a st =
     (if session = 0 then Some (PARAMETER_ERROR, st)
      else let p = GetVibratorEffectParameter default_identifier (fst st);
               v = (vep_vibratorParameter p)\<lparr>vprm_sessionId := session\<rparr> in
        map_option (\<lambda>(ret, cl, s). (agent_result ret, reset_parameter default_identifier v cl, s))
          (CL_PlayPattern E P default_identifier a (vep_usage p) (vep_systemUsage p) v st))"

text \<open>A failure leaves the settings as they are.\<close>

definition AG_PlayPackageBySessionId ::
    "'j client_env \<Rightarrow> 's misc_proxy \<Rightarrow> 32 word \<Rightarrow> VibratorPackage \<Rightarrow> 's agent_state \<Rightarrow> (errcode \<times> 's agent_state) option" where
  "AG_PlayPackageBySessionId E P session k st =
     (if session = 0 then Some (PARAMETER_ERROR, st)
      else let p = (GetVibratorEffectParameter default_identifier (fst st))\<lparr>vep_sessionId := session\<rparr> in
        map_option (\<lambda>(ret, cl, s).
            if ret \<noteq> ERR_OK then (NormalizeErrCode ret, cl, s)
            else (SUCCESS, reset_parameter default_identifier (vep_vibratorParameter p) cl, s))
          (CL_PlayPackageBySessionId E P default_identifier p k st))"

definition AG_PlayPrimitiveEffectEnhanced ::
    "'j client_env \<Rightarrow> 's misc_proxy \<Rightarrow> misc_identifier \<Rightarrow> string option \<Rightarrow> int \<Rightarrow> 's agent_state \<Rightarrow> errcode \<times> 's agent_state" where
  "AG_PlayPrimitiveEffectEnhanced E P i effectId intensity st =
     (case effectId of
        None \<Rightarrow> (PARAMETER_ERROR, st)
      | Some effect \<Rightarrow>
          let p = GetVibratorEffectParameter i (fst st);
              (ret, cl, s) = CL_PlayPrimitiveEffect E P i effect \<lparr>pre_intensity = intensity, pre_usage = vep_usage p,
                pre_systemUsage = vep_systemUsage p, pre_count = vep_loopCount p\<rparr> st
          in (agent_result ret, reset_count i cl, s))"

definition AG_PlayPrimitiveEffect ::
    "'j client_env \<Rightarrow> 's misc_proxy \<Rightarrow> string option \<Rightarrow> int \<Rightarrow> 's agent_state \<Rightarrow> errcode \<times> 's agent_state" where
  "AG_PlayPrimitiveEffect E P = AG_PlayPrimitiveEffectEnhanced E P default_identifier"

section \<open>Requests to stop\<close>

definition AG_StopVibratorEnhanced ::
    "'j client_env \<Rightarrow> 's misc_proxy \<Rightarrow> misc_identifier \<Rightarrow> string option \<Rightarrow> 's agent_state \<Rightarrow> errcode \<times> 's agent_state" where
  "AG_StopVibratorEnhanced E P i mode st =
     (case mode of
        None \<Rightarrow> (PARAMETER_ERROR, st)
      | Some m \<Rightarrow>
          if m \<noteq> ''time'' \<and> m \<noteq> ''preset'' then (PARAMETER_ERROR, st)
          else let (ret, st) = CL_StopVibratorByMode E P i m st in (agent_result ret, st))"

definition AG_StopVibrator ::
    "'j client_env \<Rightarrow> 's misc_proxy \<Rightarrow> string option \<Rightarrow> 's agent_state \<Rightarrow> errcode \<times> 's agent_state" where
  "AG_StopVibrator E P = AG_StopVibratorEnhanced E P default_identifier"

definition AG_CancelEnhanced ::
    "'j client_env \<Rightarrow> 's misc_proxy \<Rightarrow> misc_identifier \<Rightarrow> 's agent_state \<Rightarrow> errcode \<times> 's agent_state" where
  "AG_CancelEnhanced E P i st = (let (ret, st) = CL_StopVibrator E P i st in (agent_result ret, st))"

definition AG_Cancel :: "'j client_env \<Rightarrow> 's misc_proxy \<Rightarrow> 's agent_state \<Rightarrow> errcode \<times> 's agent_state" where
  "AG_Cancel E P = AG_CancelEnhanced E P default_identifier"

definition AG_StopVibrateBySessionId ::
    "'j client_env \<Rightarrow> 's misc_proxy \<Rightarrow> 32 word \<Rightarrow> 's agent_state \<Rightarrow> errcode \<times> 's agent_state" where
  "AG_StopVibrateBySessionId E P session st =
     (if session = 0 then (PARAMETER_ERROR, st)
      else let (ret, st) = CL_StopVibrateBySessionId E P default_identifier session st in (agent_result ret, st))"

definition AG_DisableVibratorByPid ::
    "'j client_env \<Rightarrow> 's misc_proxy \<Rightarrow> int \<Rightarrow> 's agent_state \<Rightarrow> errcode \<times> 's agent_state" where
  "AG_DisableVibratorByPid E P pid st =
     (if pid \<le> 0 then (PARAMETER_ERROR, st)
      else let (ret, st) = CL_DisableVibratorByPid E P pid st in (agent_result ret, st))"

definition AG_EnableVibratorByPid ::
    "'j client_env \<Rightarrow> 's misc_proxy \<Rightarrow> int \<Rightarrow> 's agent_state \<Rightarrow> errcode \<times> 's agent_state" where
  "AG_EnableVibratorByPid E P pid st =
     (if pid \<le> 0 then (PARAMETER_ERROR, st)
      else let (ret, st) = CL_EnableVibratorByPid E P pid st in (agent_result ret, st))"

section \<open>Queries\<close>

definition AG_IsSupportVibratorCustomEnhanced ::
    "'j client_env \<Rightarrow> 's misc_proxy \<Rightarrow> misc_identifier \<Rightarrow> 's agent_state \<Rightarrow> bool \<times> 's agent_state" where
  "AG_IsSupportVibratorCustomEnhanced E P i st = CL_IsSupportVibratorCustom E P i st"

definition AG_IsSupportVibratorCustom ::
    "'j client_env \<Rightarrow> 's misc_proxy \<Rightarrow> 's agent_state \<Rightarrow> bool \<times> 's agent_state" where
  "AG_IsSupportVibratorCustom E P = AG_IsSupportVibratorCustomEnhanced E P default_identifier"

definition AG_IsHdHapticSupportedEnhanced ::
    "'j client_env \<Rightarrow> 's misc_proxy \<Rightarrow> misc_identifier \<Rightarrow> 's agent_state \<Rightarrow> bool \<times> 's agent_state" where
  "AG_IsHdHapticSupportedEnhanced E P i st = CL_IsHdHapticSupported E P i st"

definition AG_IsHdHapticSupported ::
    "'j client_env \<Rightarrow> 's misc_proxy \<Rightarrow> 's agent_state \<Rightarrow> bool \<times> 's agent_state" where
  "AG_IsHdHapticSupported E P = AG_IsHdHapticSupportedEnhanced E P default_identifier"

text \<open>\<open>null\<close> holds when there is no place for the answer.\<close>

definition AG_IsSupportEffectEnhanced ::
    "'j client_env \<Rightarrow> 's misc_proxy \<Rightarrow> misc_identifier \<Rightarrow> string option \<Rightarrow> bool \<Rightarrow> 's agent_state
      \<Rightarrow> (errcode + bool) \<times> 's agent_state" where
  "AG_IsSupportEffectEnhanced E P i effectId null st =
     (case effectId of
        None \<Rightarrow> (Inl PARAMETER_ERROR, st)
      | Some effect \<Rightarrow>
          if null then (Inl PARAMETER_ERROR, st)
          else let (r, st) = CL_IsSupportEffect E P i effect st in (agent_value r, st))"

definition AG_IsSupportEffect ::
    "'j client_env \<Rightarrow> 's misc_proxy \<Rightarrow> string option \<Rightarrow> bool \<Rightarrow> 's agent_state \<Rightarrow> (errcode + bool) \<times> 's agent_state" where
  "AG_IsSupportEffect E P = AG_IsSupportEffectEnhanced E P default_identifier"

definition AG_GetDelayTimeEnhanced ::
    "'j client_env \<Rightarrow> 's misc_proxy \<Rightarrow> misc_identifier \<Rightarrow> 's agent_state \<Rightarrow> (errcode + int) \<times> 's agent_state" where
  "AG_GetDelayTimeEnhanced E P i st = (let (r, st) = CL_GetDelayTime E P i st in (agent_value r, st))"

definition AG_GetDelayTime ::
    "'j client_env \<Rightarrow> 's misc_proxy \<Rightarrow> 's agent_state \<Rightarrow> (errcode + int) \<times> 's agent_state" where
  "AG_GetDelayTime E P = AG_GetDelayTimeEnhanced E P default_identifier"

definition AG_GetVibratorList ::
    "'j client_env \<Rightarrow> 's misc_proxy \<Rightarrow> misc_identifier \<Rightarrow> 's agent_state \<Rightarrow> (errcode + VibratorInfos list) \<times> 's agent_state" where
  "AG_GetVibratorList E P i st = (let (r, st) = CL_GetVibratorList E P i st in (agent_value r, st))"

text \<open>A failed query is answered with \<^verbatim>\<open>SUCCESS\<close> and no support.\<close>

definition AG_GetEffectInfo ::
    "'j client_env \<Rightarrow> 's misc_proxy \<Rightarrow> misc_identifier \<Rightarrow> string \<Rightarrow> 's agent_state \<Rightarrow> (errcode \<times> bool) \<times> 's agent_state" where
  "AG_GetEffectInfo E P i effectType st =
     (let (r, st) = CL_GetEffectInfo E P i effectType st in
      ((SUCCESS, case r of Inl e \<Rightarrow> False | Inr supported \<Rightarrow> supported), st))"

section \<open>Packages of the caller\<close>

definition AG_PreProcess :: "'j client_env \<Rightarrow> RawFileDescriptor \<Rightarrow> client \<Rightarrow> VibratorPackage outcome \<times> client" where
  "AG_PreProcess E fd cl = (let (r, cl) = CL_PreProcess E fd cl in (agent_outcome r, cl))"

definition AG_SeekTimeOnPackage :: "(nat \<Rightarrow> bool) \<Rightarrow> int \<Rightarrow> VibratorPackage \<Rightarrow> VibratorPackage outcome" where
  "AG_SeekTimeOnPackage A seekTime k = agent_outcome (SeekTimeOnPackage A seekTime k)"

definition AG_ModulatePackage ::
    "(nat \<Rightarrow> bool) \<Rightarrow> VibratorCurvePoint array \<Rightarrow> int \<Rightarrow> int \<Rightarrow> VibratorPackage \<Rightarrow> VibratorPackage outcome" where
  "AG_ModulatePackage A modulationCurve curvePointNum duration k =
     agent_outcome (ModulatePackage A \<lparr>ve_type = EVENT_TYPE_CONTINUOUS, ve_time = 0, ve_duration = duration,
       ve_intensity = -1, ve_frequency = -1, ve_index = 0, ve_pointNum = curvePointNum, ve_points = modulationCurve\<rparr> k)"

definition AG_FreeVibratorPackage :: "VibratorPackage \<Rightarrow> block list outcome" where
  "AG_FreeVibratorPackage k = agent_outcome (FreeVibratorPackage k)"

section \<open>Plug events\<close>

definition AG_SubscribeVibratorPlug ::
    "'j client_env \<Rightarrow> 's misc_proxy \<Rightarrow> nat \<Rightarrow> 's agent_state \<Rightarrow> errcode \<times> 's agent_state" where
  "AG_SubscribeVibratorPlug E P user st =
     (if ce_callback E user = None then (PARAMETER_ERROR, st)
      else let (ret, st) = CL_SubscribeVibratorPlugInfo E P (Some user) st in (agent_result ret, st))"

definition AG_UnSubscribeVibratorPlug :: "'j client_env \<Rightarrow> nat \<Rightarrow> client \<Rightarrow> errcode \<times> client" where
  "AG_UnSubscribeVibratorPlug E user cl =
     (if ce_callback E user = None then (PARAMETER_ERROR, cl)
      else let (ret, cl) = UnsubscribeVibratorPlugInfo E (Some user) cl in (agent_result ret, cl))"

section \<open>The C interface\<close>

text \<open>\<^verbatim>\<open>frameworks/capi/vibrator.cpp\<close>; of the attribute only the usage is read.\<close>

definition OH_Vibrator_PlayVibration ::
    "'j client_env \<Rightarrow> 's misc_proxy \<Rightarrow> int \<Rightarrow> int \<Rightarrow> 's agent_state \<Rightarrow> errcode \<times> 's agent_state" where
  "OH_Vibrator_PlayVibration E P duration usage = (\<lambda>(cl, s).
     if duration \<le> 0 then (PARAMETER_ERROR, cl, s)
     else if usage < USAGE_UNKNOWN \<or> usage \<ge> USAGE_MAX then (PARAMETER_ERROR, cl, s)
     else let (set, cl) = AG_SetUsage usage False cl in
       if \<not> set then (PARAMETER_ERROR, cl, s) else AG_StartVibratorOnce E P duration (cl, s))"

definition OH_Vibrator_PlayVibrationCustom ::
    "'j client_env \<Rightarrow> 's misc_proxy \<Rightarrow> RawFileDescriptor \<Rightarrow> int \<Rightarrow> 's agent_state \<Rightarrow> errcode \<times> 's agent_state" where
  "OH_Vibrator_PlayVibrationCustom E P fd usage st =
     (let (supported, cl, s) = AG_IsSupportVibratorCustom E P st in
      if \<not> supported then (IS_NOT_SUPPORTED, cl, s)
      else if rfd_fd fd < 0 \<or> rfd_offset fd < 0 \<or> rfd_length fd \<le> 0 then (PARAMETER_ERROR, cl, s)
      else if usage < USAGE_UNKNOWN \<or> usage \<ge> USAGE_MAX then (PARAMETER_ERROR, cl, s)
      else let (set, cl) = AG_SetUsage usage False cl in
        if \<not> set then (PARAMETER_ERROR, cl, s)
        else AG_PlayVibratorCustom E P (rfd_fd fd) (rfd_offset fd) (rfd_length fd) (cl, s))"

definition OH_Vibrator_Cancel :: "'j client_env \<Rightarrow> 's misc_proxy \<Rightarrow> 's agent_state \<Rightarrow> errcode \<times> 's agent_state" where
  "OH_Vibrator_Cancel E P st = AG_Cancel E P st"

end
