(* ===== verification/Matcher.thy ===== *)
theory Matcher
  imports VibratorInfos Float32 StdMap "HOL-Library.Signed_Division"
begin

text \<open>
  The custom vibration matcher,
  \<^verbatim>\<open>services/miscdevice_service/haptic_matcher/src/custom_vibration_matcher.cpp\<close>: a package of
  patterns is flattened into one sequence of events (\<^verbatim>\<open>MixedWaveProcess\<close>), which is then turned
  into the time effects or primitive effects of the driver. The parameter \<open>U\<close> is the platform's
  result for an undefined conversion of a float to \<^verbatim>\<open>int32_t\<close>.

  \<^verbatim>\<open>ProcessContinuousEvent\<close> and \<^verbatim>\<open>ProcessContinuousEventSlice\<close>, which have no caller, are in \<open>ContinuousSlices\<close>.
\<close>

section \<open>Driver types\<close>

text \<open>
  The union \<^verbatim>\<open>CompositeEffect\<close> and the struct \<^verbatim>\<open>HdfWaveInformation\<close> of the driver interface, with
  the members the code sets.
\<close>

datatype CompositeEffect =
    TimeEffect (delay: int) (eff_time: int) (eff_intensity: int) (eff_frequency: int)
  | PrimitiveEffect (delay: int) (effectId: int) (eff_intensity: int)

record HdfWaveInformation =
  wave_id :: int
  wave_intensity :: rat
  wave_frequency :: rat
  wave_duration :: int

section \<open>Curves\<close>

definition float_to_int32 :: "(rat option \<Rightarrow> int) \<Rightarrow> rat \<Rightarrow> int" where
  "float_to_int32 U x = double_to_int32 U (Some x)"

definition Interpolation :: "(rat option \<Rightarrow> int) \<Rightarrow> int \<Rightarrow> int \<Rightarrow> int \<Rightarrow> int \<Rightarrow> int \<Rightarrow> int" where
  "Interpolation U x1 x2 y1 y2 x =
     (if x1 = x2 then y1
      else let delta_y = fl32 (of_int (wrap32 (y2 - y1)));
               delta_x = fl32 (of_int (wrap32 (x2 - x1)))
        in float_to_int32 U
          (fl32 (fl32 (of_int y1) + fl32 (fl32 (delta_y / delta_x) * fl32 (of_int (wrap32 (x - x1)))))))"

text \<open>The body of the last loop of \<^verbatim>\<open>PreProcessEvent\<close>.\<close>

definition scale_point :: "(rat option \<Rightarrow> int) \<Rightarrow> VibrateEvent \<Rightarrow> VibrateCurvePoint \<Rightarrow> VibrateCurvePoint" where
  "scale_point U e c =
     \<lparr>cp_time = wrap32 (cp_time c + ev_time e),
      cp_intensity = min (max (float_to_int32 U
          (fl32 (fl32 (of_int (cp_intensity c)) * fl32 (fl32 (of_int (ev_intensity e)) / 100)))) 0) 100,
      cp_frequency = min (max (wrap32 (cp_frequency c + ev_frequency e)) 0) 100\<rparr>"

definition PreProcessEvent :: "(rat option \<Rightarrow> int) \<Rightarrow> VibrateEvent \<Rightarrow> VibrateEvent" where
  "PreProcessEvent U e =
     (let pts = (if ev_points e = []
                 then [\<lparr>cp_time = 0, cp_intensity = 100, cp_frequency = 0\<rparr>,
                       \<lparr>cp_time = ev_duration e, cp_intensity = 100, cp_frequency = 0\<rparr>]
                 else ev_points e);
          e = e\<lparr>ev_duration := max (ev_duration e) 15\<rparr>
      in e\<lparr>ev_points := map (scale_point U e) pts\<rparr>)"

text \<open>
  \<^verbatim>\<open>MergeCurve\<close>. The two inner loops are \<open>take_out\<close>: while the point is outside the overlap, or the
  other curve is used up (\<open>fin\<close>), it is copied.
\<close>

function take_out ::
    "VibrateCurvePoint list \<Rightarrow> bool \<Rightarrow> int \<Rightarrow> int \<Rightarrow> nat \<Rightarrow> VibrateCurvePoint list \<Rightarrow> nat \<times> VibrateCurvePoint list" where
  "take_out c fin lo hi i out =
     (if i < length c \<and> (cp_time (c ! i) < lo \<or> cp_time (c ! i) > hi \<or> fin)
      then take_out c fin lo hi (Suc i) (out @ [c ! i]) else (i, out))"
  by auto
termination by (relation "measure (\<lambda>(c, fin, lo, hi, i, out). length c - i)") auto

declare take_out.simps [simp del]

text \<open>The step on two points of the overlap: the new point, and the two indices after it.\<close>

definition merge_step ::
    "(rat option \<Rightarrow> int) \<Rightarrow> VibrateCurvePoint list \<Rightarrow> VibrateCurvePoint list \<Rightarrow> nat \<Rightarrow> nat
      \<Rightarrow> VibrateCurvePoint \<times> nat \<times> nat" where
  "merge_step U cl cr i j =
     (let l = cl ! i; r = cr ! j in
      if cp_time l < cp_time r \<and> j > 0 then
        let p = cr ! (j - 1);
            intensity = Interpolation U (cp_time p) (cp_time r) (cp_intensity p) (cp_intensity r) (cp_time l);
            frequency = Interpolation U (cp_time p) (cp_time r) (cp_frequency p) (cp_frequency r) (cp_time l)
        in (\<lparr>cp_time = cp_time l, cp_intensity = max (cp_intensity l) intensity,
             cp_frequency = wrap32 (cp_frequency l + frequency) sdiv 2\<rparr>, Suc i, j)
      else if cp_time l > cp_time r \<and> i > 0 then
        let p = cl ! (i - 1);
            intensity = Interpolation U (cp_time p) (cp_time l) (cp_intensity p) (cp_intensity l) (cp_time r);
            frequency = Interpolation U (cp_time p) (cp_time l) (cp_frequency p) (cp_frequency l) (cp_time r)
        in (\<lparr>cp_time = cp_time r, cp_intensity = max (cp_intensity r) intensity,
             cp_frequency = wrap32 (cp_frequency r + frequency) sdiv 2\<rparr>, i, Suc j)
      else
        (\<lparr>cp_time = cp_time r, cp_intensity = max (cp_intensity l) (cp_intensity r),
          cp_frequency = wrap32 (cp_frequency l + cp_frequency r) sdiv 2\<rparr>, Suc i, Suc j))"

lemma take_out_index: "take_out c fin lo hi i out = (k, out') \<Longrightarrow> i \<le> k \<and> (i \<le> length c \<longrightarrow> k \<le> length c)"
proof (induction c fin lo hi i out rule: take_out.induct)
  case (1 c fin lo hi i out)
  then show ?case
    by (subst (asm) (2) take_out.simps) (auto split: if_splits dest: Suc_leD)
qed

lemma take_out_stop:
  "take_out c fin lo hi i out = (k, out') \<Longrightarrow> k < length c \<Longrightarrow>
   lo \<le> cp_time (c ! k) \<and> cp_time (c ! k) \<le> hi \<and> \<not> fin"
proof (induction c fin lo hi i out rule: take_out.induct)
  case (1 c fin lo hi i out)
  then show ?case
    by (subst (asm) (2) take_out.simps) (auto split: if_splits)
qed

lemma merge_step_index:
  "merge_step U cl cr i j = (p, i', j') \<Longrightarrow> i \<le> i' \<and> i' \<le> Suc i \<and> j \<le> j' \<and> j' \<le> Suc j \<and> i + j < i' + j'"
  by (auto simp: merge_step_def Let_def split: if_splits)

function merge_loop ::
    "(rat option \<Rightarrow> int) \<Rightarrow> VibrateCurvePoint list \<Rightarrow> VibrateCurvePoint list \<Rightarrow> int \<Rightarrow> int \<Rightarrow> nat \<Rightarrow> nat
      \<Rightarrow> VibrateCurvePoint list \<Rightarrow> VibrateCurvePoint list" where
  "merge_loop U cl cr lo hi i j out =
     (if i < length cl \<or> j < length cr then
        let (i, out) = take_out cl (length cr \<le> j) lo hi i out;
            (j, out) = take_out cr (length cl \<le> i) lo hi j out
        in if i < length cl \<and> j < length cr
           then let (p, i', j') = merge_step U cl cr i j in merge_loop U cl cr lo hi i' j' (out @ [p])
           else merge_loop U cl cr lo hi i j out
      else out)"
  by pat_completeness auto
termination
proof (relation "measure (\<lambda>(U, cl, cr, lo, hi, i, j, out). (length cl - i) + (length cr - j))", goal_cases)
  case (2 U cl cr lo hi i j out x i1 out1 y j1 out2 z p w i2 j2)
  then have t1: "take_out cl (length cr \<le> j) lo hi i out = (i1, out1)"
    and t2: "take_out cr (length cl \<le> i1) lo hi j out1 = (j1, out2)"
    and t3: "merge_step U cl cr i1 j1 = (p, i2, j2)" and "i1 < length cl" "j1 < length cr" by simp_all
  then show ?case
    using take_out_index [OF t1] take_out_index [OF t2] merge_step_index [OF t3] by auto
next
  case (3 U cl cr lo hi i j out x i1 out1 y j1 out2)
  then have t1: "take_out cl (length cr \<le> j) lo hi i out = (i1, out1)"
    and t2: "take_out cr (length cl \<le> i1) lo hi j out1 = (j1, out2)" by simp_all
  have "i \<le> i1" "j \<le> j1" using take_out_index [OF t1] take_out_index [OF t2] by auto
  moreover have "i1 < length cl \<Longrightarrow> j < length cr" "j1 < length cr \<Longrightarrow> i1 < length cl"
    using take_out_stop [OF t1] take_out_stop [OF t2] by auto
  moreover have "i < length cl \<or> j < length cr" "\<not> (i1 < length cl \<and> j1 < length cr)" using 3 by simp_all
  ultimately show ?case by (cases "i1 < length cl"; cases "j1 < length cr"; auto)
qed simp

declare merge_loop.simps [simp del]

definition MergeCurve ::
    "(rat option \<Rightarrow> int) \<Rightarrow> VibrateCurvePoint list \<Rightarrow> VibrateCurvePoint list \<Rightarrow> VibrateCurvePoint list" where
  "MergeCurve U cl cr =
     (if cl = [] then cr
      else if cr = [] then cl
      else merge_loop U cl cr (max (cp_time (hd cl)) (cp_time (hd cr)))
             (min (cp_time (last cl)) (cp_time (last cr))) 0 0 [])"

section \<open>Mixing the patterns of a package\<close>

text \<open>
  One event, already moved to the time axis of the package and pre-processed, is appended to the
  output: after a transient event as it is; after a continuous one that has ended, shortening
  that one so that the vibrator gets its \<^verbatim>\<open>VIBRATOR_DELAY\<close> of 20 ms; otherwise merged into it.
\<close>

definition merge_events :: "(rat option \<Rightarrow> int) \<Rightarrow> VibrateEvent \<Rightarrow> VibrateEvent \<Rightarrow> VibrateEvent" where
  "merge_events U b e =
     \<lparr>ev_tag = EVENT_TAG_CONTINUOUS, ev_time = ev_time b,
      ev_duration = wrap32 (max (wrap32 (ev_time b + ev_duration b)) (wrap32 (ev_time e + ev_duration e)) - ev_time b),
      ev_intensity = ev_intensity b, ev_frequency = ev_frequency b, ev_index = ev_index b,
      ev_points = MergeCurve U (ev_points b) (ev_points e)\<rparr>"

definition shorten :: "VibrateEvent \<Rightarrow> VibrateEvent \<Rightarrow> VibrateEvent" where
  "shorten e b =
     (let diffTime = wrap32 (wrap32 (ev_time e - ev_time b) - ev_duration b)
      in b\<lparr>ev_duration := max (wrap32 (ev_duration b + (if diffTime < 20 then diffTime - 20 else 0))) 0\<rparr>)"

definition mix_event :: "(rat option \<Rightarrow> int) \<Rightarrow> VibrateEvent \<Rightarrow> VibrateEvent list \<Rightarrow> VibrateEvent list" where
  "mix_event U e out =
     (if out = [] \<or> ev_tag (last out) = EVENT_TAG_TRANSIENT then out @ [e]
      else if ev_time e \<ge> wrap32 (ev_time (last out) + ev_duration (last out))
           then upd_back (shorten e) out @ [e]
      else butlast out @ [merge_events U (last out) e])"

definition place_event :: "(rat option \<Rightarrow> int) \<Rightarrow> int \<Rightarrow> VibrateEvent \<Rightarrow> VibrateEvent" where
  "place_event U start e = PreProcessEvent U (e\<lparr>ev_time := wrap32 (ev_time e + start)\<rparr>)"

definition placed_events :: "(rat option \<Rightarrow> int) \<Rightarrow> VibratePackage \<Rightarrow> VibrateEvent list" where
  "placed_events U k = concat (map (\<lambda>a. map (place_event U (pat_startTime a)) (pat_events a)) (pkg_patterns k))"

definition MixedWaveProcess :: "(rat option \<Rightarrow> int) \<Rightarrow> VibratePackage \<Rightarrow> VibratePattern" where
  "MixedWaveProcess U k =
     \<lparr>pat_startTime = 0, pat_patternDuration = 0, pat_events = fold (mix_event U) (placed_events U k) []\<rparr>"

section \<open>Effects for the driver\<close>

text \<open>
  \<^verbatim>\<open>NormalizedWaveInfo\<close>: the table \<^verbatim>\<open>waveInfos_\<close> from the wave descriptions of the driver, each
  wave's intensity and frequency scaled to 0..100.
\<close>

definition NormalizedWaveInfo ::
    "(rat option \<Rightarrow> int) \<Rightarrow> HdfWaveInformation list \<Rightarrow> (int, int \<times> int \<times> int) stdmap
      \<Rightarrow> (int, int \<times> int \<times> int) stdmap" where
  "NormalizedWaveInfo U infos m =
     (let maxIntensity = fold (\<lambda>w x. if x > wave_intensity w then x else wave_intensity w) infos (wave_intensity (hd infos));
          minFrequency = fold (\<lambda>w x. if x < wave_frequency w then x else wave_frequency w) infos (wave_frequency (hd infos));
          maxFrequency = fold (\<lambda>w x. if x > wave_frequency w then x else wave_frequency w) infos (wave_frequency (hd infos));
          intensityEqualValue = fl32 (maxIntensity / 100);
          frequencyEqualValue = fl32 (fl32 (maxFrequency - minFrequency) / 100);
          epsilon = fl32 (1 / 100000)
      in if \<bar>intensityEqualValue\<bar> \<le> epsilon \<or> \<bar>frequencyEqualValue\<bar> \<le> epsilon then m
         else fold (\<lambda>w. sm_assign (wave_id w)
             (float_to_int32 U (fl32 (wave_intensity w / intensityEqualValue)),
              float_to_int32 U (fl32 (fl32 (wave_frequency w - minFrequency) / frequencyEqualValue)),
              wave_duration w)) infos m)"

text \<open>The constructor of a matcher for one vibrator.\<close>

definition CustomVibrationMatcher ::
    "(rat option \<Rightarrow> int) \<Rightarrow> HdfWaveInformation list \<Rightarrow> (int, int \<times> int \<times> int) stdmap" where
  "CustomVibrationMatcher U infos = (if infos \<noteq> [] then NormalizedWaveInfo U infos [] else [])"

definition weight_sum :: "VibrateEvent \<Rightarrow> int \<times> int \<times> int \<Rightarrow> rat" where
  "weight_sum e info =
     fl32 (fl32 (1 / 2 * fl32 (of_int \<bar>wrap32 (ev_intensity e - fst info)\<bar>))
         + fl32 (1 / 2 * fl32 (of_int \<bar>wrap32 (ev_frequency e - fst (snd info))\<bar>)))"

definition match_step :: "VibrateEvent \<Rightarrow> int \<times> int \<times> int \<times> int \<Rightarrow> int \<times> rat \<Rightarrow> int \<times> rat" where
  "match_step e w best =
     (if weight_sum e (snd w) < snd best then (fst w, weight_sum e (snd w)) else best)"

definition match_wave :: "(int, int \<times> int \<times> int) stdmap \<Rightarrow> VibrateEvent \<Rightarrow> int \<times> rat" where
  "match_wave waves e = fold (match_step e) waves (0, 100)"

text \<open>The accumulated state of \<^verbatim>\<open>TransformEffect\<close>: \<^verbatim>\<open>preStartTime\<close>, \<^verbatim>\<open>preDuration\<close> and the effects.\<close>

type_synonym effect_state = "int \<times> int \<times> CompositeEffect list"

definition ProcessTransientEvent ::
    "(int, int \<times> int \<times> int) stdmap \<Rightarrow> VibrateEvent \<Rightarrow> effect_state \<Rightarrow> effect_state" where
  "ProcessTransientEvent waves e = (\<lambda>(preStart, preDuration, effs).
     (ev_time e, ev_duration e,
      effs @ [PrimitiveEffect (wrap32 (ev_time e - preStart)) (- fst (match_wave waves e)) 100]))"

definition effect_step ::
    "(int, int \<times> int \<times> int) stdmap \<Rightarrow> VibrateEvent \<Rightarrow> effect_state \<Rightarrow> effect_state option" where
  "effect_step waves e = (\<lambda>(preStart, preDuration, effs).
     if ev_tag e = EVENT_TAG_CONTINUOUS \<or> waves = [] then
       Some (ev_time e, ev_duration e,
             effs @ [PrimitiveEffect (wrap32 (ev_time e - preStart)) (ev_duration e) (ev_intensity e)])
     else if ev_tag e = EVENT_TAG_TRANSIENT then
       Some (ProcessTransientEvent waves e (preStart, preDuration, effs))
     else None)"

definition TransformEffect ::
    "(rat option \<Rightarrow> int) \<Rightarrow> (int, int \<times> int \<times> int) stdmap \<Rightarrow> VibratePackage \<Rightarrow> CompositeEffect list
      \<Rightarrow> CompositeEffect list option" where
  "TransformEffect U waves k effs =
     (let flat = MixedWaveProcess U k in
      if pat_events flat = [] then None
      else case try_fold (effect_step waves) (pat_events flat) (pat_startTime flat, 0, effs) of
             None \<Rightarrow> None
           | Some (preStart, preDuration, effs) \<Rightarrow> Some (effs @ [PrimitiveEffect preDuration 0 0]))"

definition time_step :: "VibrateEvent \<Rightarrow> int \<times> CompositeEffect list \<Rightarrow> int \<times> CompositeEffect list" where
  "time_step e = (\<lambda>(front, effs).
     (ev_time e, effs @ [TimeEffect (wrap32 (ev_time e - front)) (ev_duration e) (ev_intensity e) (ev_frequency e)]))"

definition TransformTime ::
    "(rat option \<Rightarrow> int) \<Rightarrow> VibratePackage \<Rightarrow> CompositeEffect list \<Rightarrow> CompositeEffect list option" where
  "TransformTime U k effs =
     (let flat = MixedWaveProcess U k in
      if pat_events flat = [] then None
      else Some (snd (fold time_step (pat_events flat) (0, effs))
             @ [TimeEffect (ev_duration (last (pat_events flat))) 0 0 0]))"

section \<open>Spacing of the mixed events\<close>

text \<open>An event that lies within the positive 32-bit range, where no sum below wraps around.\<close>

definition in_span :: "VibrateEvent \<Rightarrow> bool" where
  "in_span e \<longleftrightarrow> 0 \<le> ev_time e \<and> 0 \<le> ev_duration e \<and> ev_time e + ev_duration e \<le> 2147483647"

definition package_in_span :: "VibratePackage \<Rightarrow> bool" where
  "package_in_span k \<longleftrightarrow> list_all (\<lambda>a. list_all (\<lambda>e.
     in_span (e\<lparr>ev_time := ev_time e + pat_startTime a, ev_duration := max (ev_duration e) 15\<rparr>))
     (pat_events a)) (pkg_patterns k)"

text \<open>A continuous event ends 20 ms before the next event starts, or has been cut to nothing.\<close>

definition gap :: "VibrateEvent \<Rightarrow> VibrateEvent \<Rightarrow> bool" where
  "gap x y \<longleftrightarrow> ev_tag x = EVENT_TAG_TRANSIENT \<or> ev_duration x = 0 \<or> ev_time x + ev_duration x + 20 \<le> ev_time y"

lemma PreProcessEvent_simps [simp]:
  "ev_time (PreProcessEvent U e) = ev_time e" "ev_duration (PreProcessEvent U e) = max (ev_duration e) 15"
  "ev_tag (PreProcessEvent U e) = ev_tag e" "ev_intensity (PreProcessEvent U e) = ev_intensity e"
  "ev_frequency (PreProcessEvent U e) = ev_frequency e"
  by (simp_all add: PreProcessEvent_def Let_def)

lemma placed_in_span: "package_in_span k \<Longrightarrow> list_all in_span (placed_events U k)"
  by (fastforce simp: list_all_iff package_in_span_def placed_events_def place_event_def in_span_def
      wrap32_small)

lemma shorten_gap:
  assumes "in_span b" and "in_span e" and "ev_time b + ev_duration b \<le> ev_time e"
  shows "gap (shorten e b) e" and "in_span (shorten e b)" and "ev_time (shorten e b) = ev_time b"
    and "ev_tag (shorten e b) = ev_tag b"
  using assms by (auto simp: shorten_def Let_def in_span_def gap_def wrap32_small)

lemma merge_events_span:
  assumes "in_span b" and "in_span e"
  shows "in_span (merge_events U b e)" and "ev_time (merge_events U b e) = ev_time b"
  using assms by (auto simp: merge_events_def in_span_def wrap32_small)

lemma gap_time: "ev_time y = ev_time z \<Longrightarrow> gap x y = gap x z"
  by (simp add: gap_def)

lemma adjacent_last_cong:
  "(\<And>x. R x y = R x z) \<Longrightarrow> adjacent R (xs @ [y]) = adjacent R (xs @ [z])"
  by (cases xs rule: rev_cases) (auto simp: adjacent_snoc)

lemma mix_event_inv:
  assumes e: "in_span e" and out: "list_all in_span out" "adjacent gap out"
  shows "list_all in_span (mix_event U e out) \<and> adjacent gap (mix_event U e out)"
proof (cases out rule: rev_cases)
  case Nil
  then show ?thesis using e by (simp add: mix_event_def)
next
  case (snoc xs b)
  then have b: "in_span b" using out(1) by simp
  then have w: "wrap32 (ev_time b + ev_duration b) = ev_time b + ev_duration b"
    by (simp add: in_span_def wrap32_small)
  note sh = shorten_gap [OF b e] and me = merge_events_span [OF b e, of U]
  have same: "adjacent gap (xs @ [c]) \<longleftrightarrow> adjacent gap out" if "ev_time c = ev_time b" for c
    unfolding snoc by (rule adjacent_last_cong) (rule gap_time, fact that)
  have xs: "list_all in_span xs" using out(1) snoc by simp
  have m: "mix_event U e out = (if ev_tag b = EVENT_TAG_TRANSIENT then out @ [e]
      else if ev_time b + ev_duration b \<le> ev_time e then xs @ [shorten e b, e] else xs @ [merge_events U b e])"
    by (simp add: mix_event_def snoc w)
  consider (transient) "ev_tag b = EVENT_TAG_TRANSIENT" "mix_event U e out = out @ [e]"
    | (after) "ev_time b + ev_duration b \<le> ev_time e" "mix_event U e out = xs @ [shorten e b, e]"
    | (merge) "mix_event U e out = xs @ [merge_events U b e]"
    unfolding m by (cases "ev_tag b = EVENT_TAG_TRANSIENT"; cases "ev_time b + ev_duration b \<le> ev_time e") simp_all
  then show ?thesis
  proof cases
    case transient
    then show ?thesis using out e by (simp add: snoc adjacent_snoc gap_def)
  next
    case after
    then show ?thesis using sh xs e out(2) same [of "shorten e b"] by (simp add: adjacent_snoc)
  next
    case merge
    then show ?thesis using me xs out(2) same [of "merge_events U b e"] by simp
  qed
qed

lemma mix_events_inv:
  "list_all in_span es \<Longrightarrow> list_all in_span out \<Longrightarrow> adjacent gap out \<Longrightarrow>
   list_all in_span (fold (mix_event U) es out) \<and> adjacent gap (fold (mix_event U) es out)"
proof (induction es arbitrary: out)
  case (Cons e es)
  then show ?case using mix_event_inv [of e out U] by simp
qed simp

lemma MixedWaveProcess_spaced:
  "package_in_span k \<Longrightarrow>
   list_all in_span (pat_events (MixedWaveProcess U k)) \<and> adjacent gap (pat_events (MixedWaveProcess U k))"
  by (simp add: MixedWaveProcess_def mix_events_inv placed_in_span)

section \<open>Delays\<close>

fun diffs :: "int \<Rightarrow> int list \<Rightarrow> int list" where
  "diffs p [] = []"
| "diffs p (t # ts) = (t - p) # diffs t ts"

lemma sum_list_diffs: "sum_list (diffs p ts) = (if ts = [] then 0 else last ts - p)"
  by (induction p ts rule: diffs.induct) auto

lemma take_diffs: "take n (diffs p ts) = diffs p (take n ts)"
  by (induction p ts arbitrary: n rule: diffs.induct) (auto simp: take_Cons split: nat.splits)

lemma length_diffs [simp]: "length (diffs p ts) = length ts"
  by (induction p ts rule: diffs.induct) auto

text \<open>
  What both transformations promise the driver: the delays of the effects are the differences of
  the start times of the mixed events, followed by the duration of the last event.
\<close>

locale effect_transformer =
  fixes flat :: "VibratePackage \<Rightarrow> VibrateEvent list"
    and transform :: "VibratePackage \<Rightarrow> CompositeEffect list option"
    and ok :: "VibratePackage \<Rightarrow> bool"
  assumes delays: "ok k \<Longrightarrow> transform k = Some effs \<Longrightarrow>
      flat k \<noteq> [] \<and> map delay effs = diffs 0 (map ev_time (flat k)) @ [ev_duration (last (flat k))]"
begin

lemma effect_count:
  assumes "ok k" and "transform k = Some effs"
  shows "length effs = Suc (length (flat k))"
  using arg_cong [OF conjunct2 [OF delays [OF assms]], of length] by simp

lemma effect_starts:
  assumes k: "ok k" and t: "transform k = Some effs" and i: "i < length (flat k)"
  shows "sum_list (map delay (take (Suc i) effs)) = ev_time (flat k ! i)"
proof -
  have "map delay (take (Suc i) effs) = take (Suc i) (map delay effs)" by (simp add: take_map)
  also have "\<dots> = diffs 0 (map ev_time (take (Suc i) (flat k)))"
    using delays [OF k t] i by (simp add: take_diffs take_map)
  finally show ?thesis
    using i by (simp add: sum_list_diffs take_Suc_conv_app_nth last_map)
qed

lemma effect_end:
  assumes "ok k" and "transform k = Some effs"
  shows "sum_list (map delay effs) = ev_time (last (flat k)) + ev_duration (last (flat k))"
  using delays [OF assms] by (simp add: sum_list_diffs last_map)

end

lemma in_span_diff: "in_span e \<Longrightarrow> 0 \<le> p \<Longrightarrow> p \<le> 2147483647 \<Longrightarrow> wrap32 (ev_time e - p) = ev_time e - p"
  by (simp add: in_span_def wrap32_small)

lemma time_steps:
  "list_all in_span es \<Longrightarrow> 0 \<le> p \<Longrightarrow> p \<le> 2147483647 \<Longrightarrow>
   map delay (snd (fold time_step es (p, effs))) = map delay effs @ diffs p (map ev_time es)"
proof (induction es arbitrary: p effs)
  case (Cons e es)
  then have "0 \<le> ev_time e" "ev_time e \<le> 2147483647" by (auto simp: in_span_def)
  with Cons show ?case by (simp add: time_step_def in_span_diff)
qed simp

lemma effect_step_Some:
  "effect_step waves e (p, d, effs) = Some s \<Longrightarrow> in_span e \<Longrightarrow> 0 \<le> p \<Longrightarrow> p \<le> 2147483647 \<Longrightarrow>
   \<exists>x. s = (ev_time e, ev_duration e, effs @ [x]) \<and> delay x = ev_time e - p"
  by (auto simp: effect_step_def ProcessTransientEvent_def in_span_diff split: if_splits)

lemma effect_steps:
  "list_all in_span es \<Longrightarrow> 0 \<le> p \<Longrightarrow> p \<le> 2147483647 \<Longrightarrow>
   try_fold (effect_step waves) es (p, d, effs) = Some (p', d', effs') \<Longrightarrow>
   map delay effs' = map delay effs @ diffs p (map ev_time es) \<and> d' = (if es = [] then d else ev_duration (last es))"
proof (induction es arbitrary: p d effs)
  case (Cons e es)
  then have e: "0 \<le> ev_time e" "ev_time e \<le> 2147483647" "in_span e" by (auto simp: in_span_def)
  from Cons.prems(4) obtain s1 where s1: "effect_step waves e (p, d, effs) = Some s1"
    "try_fold (effect_step waves) es s1 = Some (p', d', effs')" by (auto split: option.splits)
  from effect_step_Some [OF s1(1) e(3) Cons.prems(2,3)] obtain x where
    "s1 = (ev_time e, ev_duration e, effs @ [x])" and s: "s1 = s1" "delay x = ev_time e - p" by blast
  with s1 have s: "delay x = ev_time e - p"
    "try_fold (effect_step waves) es (ev_time e, ev_duration e, effs @ [x]) = Some (p', d', effs')" by simp_all
  from Cons.IH [OF _ e(1,2) s(2)] Cons.prems(1) s(1) show ?case by auto
qed auto

interpretation time_effects: effect_transformer
  "\<lambda>k. pat_events (MixedWaveProcess U k)" "\<lambda>k. TransformTime U k []" package_in_span
  by unfold_locales
    (auto simp: TransformTime_def Let_def time_steps MixedWaveProcess_spaced split: if_splits)

interpretation primitive_effects: effect_transformer
  "\<lambda>k. pat_events (MixedWaveProcess U k)" "\<lambda>k. TransformEffect U waves k []" package_in_span
proof
  fix k effs
  assume k: "package_in_span k" and t: "TransformEffect U waves k [] = Some effs"
  let ?es = "pat_events (MixedWaveProcess U k)"
  have p: "pat_startTime (MixedWaveProcess U k) = 0" by (simp add: MixedWaveProcess_def)
  from t obtain a d effs1 where "?es \<noteq> []" and f: "try_fold (effect_step waves) ?es (0, 0, []) = Some (a, d, effs1)"
    and "effs = effs1 @ [PrimitiveEffect d 0 0]"
    by (auto simp: TransformEffect_def Let_def p split: if_splits option.splits)
  then show "?es \<noteq> [] \<and> map delay effs = diffs 0 (map ev_time ?es) @ [ev_duration (last ?es)]"
    using effect_steps [OF _ _ _ f] MixedWaveProcess_spaced [OF k, of U] by simp
qed

section \<open>The nearest wave\<close>

lemma fl32_half: "\<bar>n\<bar> < 16777216 \<Longrightarrow> fl32 (of_int n / 2) = of_int n / 2"
  unfolding fl32_def by (rule fl_exact [of _ n "-1"]) (simp_all add: pow2_def)

definition wave_distance :: "VibrateEvent \<Rightarrow> int \<times> int \<times> int \<Rightarrow> int" where
  "wave_distance e info = \<bar>ev_intensity e - fst info\<bar> + \<bar>ev_frequency e - fst (snd info)\<bar>"

text \<open>Values for which the float computation of the distance is exact.\<close>

definition wave_small :: "VibrateEvent \<Rightarrow> int \<times> int \<times> int \<Rightarrow> bool" where
  "wave_small e info \<longleftrightarrow> \<bar>ev_intensity e\<bar> \<le> 1000000 \<and> \<bar>ev_frequency e\<bar> \<le> 1000000 \<and>
     \<bar>fst info\<bar> \<le> 1000000 \<and> \<bar>fst (snd info)\<bar> \<le> 1000000"

lemma weight_sum_exact:
  assumes "wave_small e info"
  shows "weight_sum e info = of_int (wave_distance e info) / 2"
proof -
  let ?a = "\<bar>ev_intensity e - fst info\<bar>" and ?b = "\<bar>ev_frequency e - fst (snd info)\<bar>"
  have ab: "?a < 8000000" "?b < 8000000" using assms unfolding wave_small_def by linarith+
  have w: "wrap32 (ev_intensity e - fst info) = ev_intensity e - fst info"
      "wrap32 (ev_frequency e - fst (snd info)) = ev_frequency e - fst (snd info)"
    using ab by (simp_all add: wrap32_small)
  have a: "fl32 (1 / 2 * fl32 (of_int ?a)) = of_int ?a / 2" and b: "fl32 (1 / 2 * fl32 (of_int ?b)) = of_int ?b / 2"
    using ab fl32_of_int [of ?a] fl32_of_int [of ?b] fl32_half [of ?a] fl32_half [of ?b]
    by (simp_all del: of_int_abs)
  have "fl32 (of_int ?a / 2 + of_int ?b / 2) = of_int (?a + ?b) / 2"
    using fl32_half [of "?a + ?b"] ab by (simp add: add_divide_distrib)
  then show ?thesis
    unfolding weight_sum_def w wave_distance_def a b .
qed

text \<open>The loop keeps the first of the smallest weights below the initial bound.\<close>

lemma match_fold:
  "fold (match_step e) ws best = (m, v) \<Longrightarrow>
   v \<le> snd best \<and> (\<forall>w\<in>set ws. v \<le> weight_sum e (snd w)) \<and>
   ((m, v) = best \<or> (\<exists>w\<in>set ws. m = fst w \<and> v = weight_sum e (snd w) \<and> v < snd best))"
proof (induction ws arbitrary: best)
  case (Cons w ws)
  then have "fold (match_step e) ws (match_step e w best) = (m, v)" by simp
  from Cons.IH [OF this] show ?case
    by (cases "weight_sum e (snd w) < snd best") (auto simp: match_step_def)
qed auto

lemma match_wave_nearest:
  assumes "\<forall>w\<in>set ws. wave_small e (snd w)"
  shows "(\<exists>w\<in>set ws. fst (match_wave ws e) = fst w \<and> wave_distance e (snd w) < 200 \<and>
            (\<forall>x\<in>set ws. wave_distance e (snd w) \<le> wave_distance e (snd x)))
       \<or> (fst (match_wave ws e) = 0 \<and> (\<forall>x\<in>set ws. 200 \<le> wave_distance e (snd x)))"
proof -
  obtain m v where mv: "match_wave ws e = (m, v)" by (cases "match_wave ws e")
  then have f: "fold (match_step e) ws (0, 100) = (m, v)" by (simp add: match_wave_def)
  have ex: "weight_sum e (snd w) = of_int (wave_distance e (snd w)) / 2" if "w \<in> set ws" for w
    using that assms by (intro weight_sum_exact) auto
  note mf = match_fold [OF f]
  show ?thesis
  proof (cases "(m, v) = (0, 100)")
    case True
    then have "\<forall>x\<in>set ws. (100 :: rat) \<le> of_int (wave_distance e (snd x)) / 2"
      using mf ex by auto
    then show ?thesis using True mv by auto
  next
    case False
    then obtain w where w: "w \<in> set ws" "m = fst w" "v = weight_sum e (snd w)" "v < 100"
      using mf by auto
    have "wave_distance e (snd w) \<le> wave_distance e (snd x)" if "x \<in> set ws" for x
      using mf that ex [OF that] ex [OF w(1)] w(3) by auto
    moreover have "wave_distance e (snd w) < 200" using w ex [OF w(1)] by auto
    ultimately show ?thesis using w mv by auto
  qed
qed

section \<open>Merging curves\<close>

abbreviation (input) point_times :: "VibrateCurvePoint list \<Rightarrow> int set" where
  "point_times c \<equiv> cp_time ` set c"

lemma take_out_spec:
  "take_out c fin lo hi i out = (k, out') \<Longrightarrow> \<exists>xs. out' = out @ xs \<and> drop i c = xs @ drop k c"
proof (induction c fin lo hi i out rule: take_out.induct)
  case (1 c fin lo hi i out)
  then show ?case
    by (subst (asm) (2) take_out.simps) (auto split: if_splits simp: Cons_nth_drop_Suc [symmetric])
qed

lemma merge_step_times:
  assumes "merge_step U cl cr i j = (p, i', j')" and "i < length cl" and "j < length cr"
    and "cp_time (hd cl) \<le> cp_time (cr ! j)" and "cp_time (hd cr) \<le> cp_time (cl ! i)"
  shows "insert (cp_time p) (point_times (drop i' cl) \<union> point_times (drop j' cr)) = point_times (drop i cl) \<union> point_times (drop j cr)"
proof -
  have "hd cl = cl ! 0" "hd cr = cr ! 0" using assms(2,3) by (auto intro: hd_conv_nth)
  with assms show ?thesis
    by (auto simp: merge_step_def Let_def Cons_nth_drop_Suc [symmetric] split: if_splits)
qed

lemma merge_loop_props:
  "cp_time (hd cl) \<le> lo \<Longrightarrow> cp_time (hd cr) \<le> lo \<Longrightarrow>
   point_times (merge_loop U cl cr lo hi i j out) = point_times out \<union> point_times (drop i cl) \<union> point_times (drop j cr) \<and>
   length (merge_loop U cl cr lo hi i j out) \<le> length out + (length cl - i) + (length cr - j)"
proof (induction U cl cr lo hi i j out rule: merge_loop.induct)
  case (1 U cl cr lo hi i j out)
  show ?case
  proof (cases "i < length cl \<or> j < length cr")
    case False
    then show ?thesis by (subst (1 2) merge_loop.simps) simp
  next
    case True
    obtain i1 out1 where t1: "take_out cl (length cr \<le> j) lo hi i out = (i1, out1)" by fastforce
    obtain j1 out2 where t2: "take_out cr (length cl \<le> i1) lo hi j out1 = (j1, out2)" by fastforce
    obtain xs where xs: "out1 = out @ xs" "drop i cl = xs @ drop i1 cl" using take_out_spec [OF t1] by blast
    obtain ys where ys: "out2 = out1 @ ys" "drop j cr = ys @ drop j1 cr" using take_out_spec [OF t2] by blast
    have len: "length xs + (length cl - i1) = length cl - i" "length ys + (length cr - j1) = length cr - j"
      using arg_cong [OF xs(2), of length] arg_cong [OF ys(2), of length] by simp_all
    have dr: "point_times (drop i cl) = point_times xs \<union> point_times (drop i1 cl)" "point_times (drop j cr) = point_times ys \<union> point_times (drop j1 cr)"
      "point_times out2 = point_times out \<union> point_times xs \<union> point_times ys" "length out2 = length out + length xs + length ys"
      by (simp_all only: xs ys set_append image_Un Un_assoc length_append)
    show ?thesis
    proof (cases "i1 < length cl \<and> j1 < length cr")
      case both: True
      obtain p i2 j2 where st: "merge_step U cl cr i1 j1 = (p, i2, j2)" by (cases "merge_step U cl cr i1 j1")
      have ins: "insert (cp_time p) (point_times (drop i2 cl) \<union> point_times (drop j2 cr)) = point_times (drop i1 cl) \<union> point_times (drop j1 cr)"
        using both take_out_stop [OF t1] take_out_stop [OF t2] 1(3,4)
        by (intro merge_step_times [OF st]) auto
      have less: "length cl - i2 + (length cr - j2) < length cl - i1 + (length cr - j1)"
        using merge_step_index [OF st] both by auto
      have eq: "merge_loop U cl cr lo hi i j out = merge_loop U cl cr lo hi i2 j2 (out2 @ [p])"
        using True both t2 by (subst merge_loop.simps) (simp add: t1 st)
      note IH = "1.IH"(1) [OF True t1 [symmetric] refl t2 [symmetric] refl both st [symmetric] refl refl 1(3,4)]
      have "point_times (merge_loop U cl cr lo hi i j out)
          = point_times out2 \<union> insert (cp_time p) (point_times (drop i2 cl) \<union> point_times (drop j2 cr))"
        unfolding eq conjunct1 [OF IH] by (simp add: Un_assoc)
      then show ?thesis
        using IH less len unfolding eq ins dr by (simp add: Un_ac dr(4))
    next
      case not_both: False
      have eq: "merge_loop U cl cr lo hi i j out = merge_loop U cl cr lo hi i1 j1 out2"
        using True not_both by (subst merge_loop.simps) (simp only: t1 t2 Let_def prod.case if_True if_False)
      note IH = "1.IH"(2) [OF True t1 [symmetric] refl t2 [symmetric] refl not_both 1(3,4)]
      show ?thesis
        using IH len unfolding eq dr by (simp add: Un_ac)
    qed
  qed
qed

lemma MergeCurve_props:
  "point_times (MergeCurve U cl cr) = point_times cl \<union> point_times cr \<and> length (MergeCurve U cl cr) \<le> length cl + length cr"
  using merge_loop_props [of cl "max (cp_time (hd cl)) (cp_time (hd cr))" cr U _ 0 0 "[]"]
  by (auto simp: MergeCurve_def)

section \<open>Properties\<close>

text \<open>The vibrator is never driven without a break: after mixing, every event lies in the
  positive time range with a non-negative duration, and a continuous event that is followed by
  another one ends at least 20 ms before it or has been shortened to nothing.\<close>

theorem mixed_events_spaced:
  assumes "package_in_span k"
  shows "list_all in_span (pat_events (MixedWaveProcess U k)) \<and>
    (\<forall>i. Suc i < length (pat_events (MixedWaveProcess U k)) \<longrightarrow>
       gap (pat_events (MixedWaveProcess U k) ! i) (pat_events (MixedWaveProcess U k) ! Suc i))"
  using MixedWaveProcess_spaced [OF assms, of U] by (simp add: adjacent_nth)

definition two_events :: VibratePackage where
  "two_events = \<lparr>pkg_patterns = [\<lparr>pat_startTime = 100, pat_patternDuration = 0, pat_events =
     [\<lparr>ev_tag = EVENT_TAG_CONTINUOUS, ev_time = 0, ev_duration = 50, ev_intensity = 80, ev_frequency = 40,
        ev_index = 0, ev_points = []\<rparr>,
      \<lparr>ev_tag = EVENT_TAG_TRANSIENT, ev_time = 60, ev_duration = 48, ev_intensity = 90, ev_frequency = 30,
        ev_index = 0, ev_points = []\<rparr>]\<rparr>], pkg_packageDuration = 0\<rparr>"

lemma two_events_in_span: "package_in_span two_events"
  by (simp add: package_in_span_def two_events_def in_span_def)

lemma two_events_mixed:
  "map (\<lambda>e. (ev_time e, ev_duration e)) (pat_events (MixedWaveProcess (\<lambda>_. 0) two_events)) = [(100, 40), (160, 48)]"
  by code_simp

lemma mixed_events_spaced_witness:
  "list_all in_span (pat_events (MixedWaveProcess (\<lambda>_. 0) two_events)) \<and>
   gap (pat_events (MixedWaveProcess (\<lambda>_. 0) two_events) ! 0) (pat_events (MixedWaveProcess (\<lambda>_. 0) two_events) ! 1)"
  using mixed_events_spaced [OF two_events_in_span, of "\<lambda>_. 0"]
    arg_cong [OF two_events_mixed, of length] by simp

text \<open>The time effects play the mixed events on schedule: there is one effect for each event and a
  closing one, the delays up to an effect add up to the start time of its event, and all delays
  together to the end of the last event.\<close>

theorem time_effects_on_schedule:
  assumes "package_in_span k" and "TransformTime U k [] = Some effs"
  shows "length effs = Suc (length (pat_events (MixedWaveProcess U k))) \<and>
    (\<forall>i < length (pat_events (MixedWaveProcess U k)).
       sum_list (map delay (take (Suc i) effs)) = ev_time (pat_events (MixedWaveProcess U k) ! i)) \<and>
    sum_list (map delay effs) = ev_time (last (pat_events (MixedWaveProcess U k)))
      + ev_duration (last (pat_events (MixedWaveProcess U k)))"
  using time_effects.effect_count [OF assms] time_effects.effect_starts [OF assms]
    time_effects.effect_end [OF assms] by blast

lemma two_events_time:
  "TransformTime (\<lambda>_. 0) two_events []
     = Some [TimeEffect 100 40 80 40, TimeEffect 60 48 90 30, TimeEffect 48 0 0 0]"
  by code_simp

lemma time_effects_on_schedule_witness:
  "length (pat_events (MixedWaveProcess (\<lambda>_. 0) two_events)) = 2 \<and>
   ev_time (pat_events (MixedWaveProcess (\<lambda>_. 0) two_events) ! 1) = 160"
  using time_effects_on_schedule [OF two_events_in_span two_events_time] by (auto dest!: spec [of _ "Suc 0"])

text \<open>C33. The primitive effects play the mixed events on the same schedule, whatever waves the driver
  offers.\<close>

theorem primitive_effects_on_schedule:
  assumes "package_in_span k" and "TransformEffect U waves k [] = Some effs"
  shows "length effs = Suc (length (pat_events (MixedWaveProcess U k))) \<and>
    (\<forall>i < length (pat_events (MixedWaveProcess U k)).
       sum_list (map delay (take (Suc i) effs)) = ev_time (pat_events (MixedWaveProcess U k) ! i)) \<and>
    sum_list (map delay effs) = ev_time (last (pat_events (MixedWaveProcess U k)))
      + ev_duration (last (pat_events (MixedWaveProcess U k)))"
  using primitive_effects.effect_count [OF assms] primitive_effects.effect_starts [OF assms]
    primitive_effects.effect_end [OF assms] by blast

lemma two_events_primitive:
  "TransformEffect (\<lambda>_. 0) [(7, (50, 50, 20)), (9, (95, 30, 20))] two_events []
     = Some [PrimitiveEffect 100 40 80, PrimitiveEffect 60 (-9) 100, PrimitiveEffect 48 0 0]"
  by code_simp

lemma primitive_effects_on_schedule_witness:
  "length (pat_events (MixedWaveProcess (\<lambda>_. 0) two_events)) = 2 \<and>
   ev_time (pat_events (MixedWaveProcess (\<lambda>_. 0) two_events) ! 1) = 160"
  using primitive_effects_on_schedule [OF two_events_in_span two_events_primitive] by (auto dest!: spec [of _ "Suc 0"])

text \<open>A transient event is played with the nearest wave of the driver: the effect is a wave whose
  distance in intensity plus frequency is the least of all, when the least distance is below 200,
  and effect 0 otherwise. The float computation of the weights does not disturb the choice.\<close>

theorem transient_event_nearest_wave:
  assumes "\<forall>w\<in>set waves. wave_small e (snd w)"
    and "ProcessTransientEvent waves e (preStart, preDuration, effs) = (s, d, effs')"
  shows "(\<exists>w\<in>set waves. effectId (last effs') = - fst w \<and> wave_distance e (snd w) < 200 \<and>
            (\<forall>x\<in>set waves. wave_distance e (snd w) \<le> wave_distance e (snd x)))
       \<or> (effectId (last effs') = 0 \<and> (\<forall>x\<in>set waves. 200 \<le> wave_distance e (snd x)))"
proof -
  have "effectId (last effs') = - fst (match_wave waves e)"
    using assms(2) by (auto simp: ProcessTransientEvent_def)
  then show ?thesis
    using match_wave_nearest [OF assms(1)] by (simp only: neg_equal_iff_equal neg_equal_0_iff_equal)
qed

lemma transient_event_nearest_wave_witness:
  "effectId (last [PrimitiveEffect 60 (-9) 100]) = -9 \<and>
   wave_distance (last (pat_events (hd (pkg_patterns two_events)))) (95, 30, 20) = 5"
proof -
  have "ProcessTransientEvent [(7, (50, 50, 20)), (9, (95, 30, 20))]
      (last (pat_events (hd (pkg_patterns two_events)))) (0, 0, []) = (60, 48, [PrimitiveEffect 60 (-9) 100])"
    by code_simp
  from transient_event_nearest_wave [OF _ this] show ?thesis
    by (simp add: two_events_def wave_small_def wave_distance_def)
qed

text \<open>Merging two curves terminates with a curve that has a point at every time at which one of
  them has a point and at no other time, and at most as many points as both together.\<close>

theorem merge_curve_times:
  "cp_time ` set (MergeCurve U cl cr) = cp_time ` set cl \<union> cp_time ` set cr \<and>
   length (MergeCurve U cl cr) \<le> length cl + length cr"
  by (rule MergeCurve_props)

text \<open>The merged curve need not be in time order, although both curves are: when the second curve
  ends before the first, the rest of the first is copied before the overlap is walked.\<close>

theorem merge_curve_unsorted:
  "map cp_time (MergeCurve (\<lambda>_. 0)
      (map (\<lambda>t. \<lparr>cp_time = t, cp_intensity = 50, cp_frequency = 50\<rparr>) [0, 10, 100])
      (map (\<lambda>t. \<lparr>cp_time = t, cp_intensity = 50, cp_frequency = 50\<rparr>) [5, 20, 30, 50]))
   = [0, 5, 10, 100, 20, 30, 50]"
  by code_simp

end
