(* ===== verification/Hdi.thy ===== *)
theory Hdi
  imports Matcher Marshalling
begin

text \<open>
  The connection to the vibrator driver,
  \<^verbatim>\<open>services/miscdevice_service/hdi_connection\<close>: the interface \<^verbatim>\<open>IVibratorHdiConnection\<close>, its
  implementation over the driver (\<^verbatim>\<open>hdi_connection.cpp\<close>) and the wrapper that the service and the
  vibrator thread call (\<^verbatim>\<open>vibrator_hdi_connection.cpp\<close>). The driver service (\<^verbatim>\<open>IVibratorInterface\<close>)
  is another repository: a record of functions on an abstract driver state.
\<close>

section \<open>Driver\<close>

record DeviceVibratorInfo =
  dv_deviceId :: int
  dv_vibratorId :: int

record HdfEffectInfo =
  hei_duration :: int
  hei_isSupportEffect :: bool

record HdfVibratorInfo =
  hvi_deviceId :: int
  hvi_vibratorId :: int
  hvi_deviceName :: string
  hvi_isSupportHdHaptic :: bool
  hvi_position :: int
  hvi_isLocal :: bool

datatype HdfVibratorMode = MODE_ONCE | MODE_PRESET | MODE_HDHAPTIC

datatype HdfEffectType = EFFECT_TYPE_TIME | EFFECT_TYPE_PRIMITIVE | EFFECT_TYPE_BUTT

record HdfCompositeEffect =
  hce_type :: HdfEffectType
  hce_effects :: "CompositeEffect list"

record CurvePoint =
  hp_time :: int
  hp_intensity :: int
  hp_frequency :: int

record HapticEvent =
  he_type :: int
  he_time :: int
  he_duration :: int
  he_intensity :: int
  he_frequency :: int
  he_index :: int
  he_pointNum :: int
  he_points :: "CurvePoint list"

record HapticPaket =
  pk_time :: int
  pk_eventNum :: int
  pk_events :: "HapticEvent list"

record HdfVibratorPackage =
  hpk_patternNum :: int
  hpk_packageduration :: int
  hpk_patterns :: "HapticPaket list"

text \<open>The functions of the driver; each returns its raw code, negative or positive on failure.\<close>

record 'd driver =
  drv_StartOnce :: "DeviceVibratorInfo \<Rightarrow> 32 word \<Rightarrow> 'd \<Rightarrow> int \<times> 'd"
  drv_Start :: "DeviceVibratorInfo \<Rightarrow> string \<Rightarrow> 'd \<Rightarrow> int \<times> 'd"
  drv_StartByIntensity :: "DeviceVibratorInfo \<Rightarrow> string \<Rightarrow> int \<Rightarrow> 'd \<Rightarrow> int \<times> 'd"
  drv_EnableCompositeEffect :: "DeviceVibratorInfo \<Rightarrow> HdfCompositeEffect \<Rightarrow> 'd \<Rightarrow> int \<times> 'd"
  drv_IsVibratorRunning :: "DeviceVibratorInfo \<Rightarrow> 'd \<Rightarrow> bool"
  drv_Stop :: "DeviceVibratorInfo \<Rightarrow> HdfVibratorMode \<Rightarrow> 'd \<Rightarrow> int \<times> 'd"
  drv_GetHapticStartUpTime :: "DeviceVibratorInfo \<Rightarrow> int \<Rightarrow> 'd \<Rightarrow> int \<times> int"
  drv_GetHapticCapacity :: "DeviceVibratorInfo \<Rightarrow> 'd \<Rightarrow> int \<times> VibratorCapacity"
  drv_GetEffectInfo :: "DeviceVibratorInfo \<Rightarrow> string \<Rightarrow> 'd \<Rightarrow> int \<times> HdfEffectInfo"
  drv_PlayHapticPattern :: "DeviceVibratorInfo \<Rightarrow> HapticPaket \<Rightarrow> 'd \<Rightarrow> int \<times> 'd"
  drv_PlayPatternBySessionId :: "DeviceVibratorInfo \<Rightarrow> 32 word \<Rightarrow> HapticPaket \<Rightarrow> 'd \<Rightarrow> int \<times> 'd"
  drv_PlayPackageBySession :: "DeviceVibratorInfo \<Rightarrow> 32 word \<Rightarrow> HdfVibratorPackage \<Rightarrow> 'd \<Rightarrow> int \<times> 'd"
  drv_StopVibrateBySessionId :: "DeviceVibratorInfo \<Rightarrow> 32 word \<Rightarrow> 'd \<Rightarrow> int \<times> 'd"
  drv_GetVibratorInfo :: "'d \<Rightarrow> int \<times> HdfVibratorInfo list"
  drv_GetAllWaveInfo :: "DeviceVibratorInfo \<Rightarrow> 'd \<Rightarrow> int \<times> HdfWaveInformation list"
  drv_GetDeviceVibratorInfo :: "DeviceVibratorInfo \<Rightarrow> 'd \<Rightarrow> int \<times> HdfVibratorInfo list"
  drv_RegVibratorPlugCallback :: "'d \<Rightarrow> int \<times> 'd"
  drv_UnRegVibratorPlugCallback :: "'d \<Rightarrow> int \<times> 'd"
  drv_AddDeathRecipient :: "'d \<Rightarrow> 'd"
  drv_RemoveDeathRecipient :: "'d \<Rightarrow> 'd"

section \<open>The connection interface\<close>

text \<open>\<^verbatim>\<open>IVibratorHdiConnection\<close> as a record of operations on the state of a connection.\<close>

record 'c hdi_ops =
  op_StartOnce :: "VibratorIdentifierIPC \<Rightarrow> 32 word \<Rightarrow> 'c \<Rightarrow> errcode \<times> 'c"
  op_Start :: "VibratorIdentifierIPC \<Rightarrow> string \<Rightarrow> 'c \<Rightarrow> errcode \<times> 'c"
  op_StartByIntensity :: "VibratorIdentifierIPC \<Rightarrow> string \<Rightarrow> int \<Rightarrow> 'c \<Rightarrow> errcode \<times> 'c"
  op_EnableCompositeEffect :: "VibratorIdentifierIPC \<Rightarrow> HdfCompositeEffect \<Rightarrow> 'c \<Rightarrow> errcode \<times> 'c"
  op_IsVibratorRunning :: "VibratorIdentifierIPC \<Rightarrow> 'c \<Rightarrow> bool"
  op_FindEffectInfo :: "VibratorIdentifierIPC \<Rightarrow> string \<Rightarrow> 'c \<Rightarrow> HdfEffectInfo option"
  op_Stop :: "VibratorIdentifierIPC \<Rightarrow> HdfVibratorMode \<Rightarrow> 'c \<Rightarrow> errcode \<times> 'c"
  op_GetDelayTime :: "VibratorIdentifierIPC \<Rightarrow> int \<Rightarrow> 'c \<Rightarrow> errcode + int"
  op_GetVibratorCapacity :: "VibratorIdentifierIPC \<Rightarrow> VibratorCapacity \<Rightarrow> 'c \<Rightarrow> errcode + VibratorCapacity"
  op_PlayPattern :: "VibratorIdentifierIPC \<Rightarrow> VibratePattern \<Rightarrow> 'c \<Rightarrow> errcode \<times> 'c"
  op_PlayPatternBySessionId :: "VibratorIdentifierIPC \<Rightarrow> 32 word \<Rightarrow> VibratePattern \<Rightarrow> 'c \<Rightarrow> errcode \<times> 'c"
  op_PlayPackageBySessionId :: "VibratorIdentifierIPC \<Rightarrow> 32 word \<Rightarrow> VibratePackage \<Rightarrow> 'c \<Rightarrow> errcode \<times> 'c"
  op_StopVibrateBySessionId :: "VibratorIdentifierIPC \<Rightarrow> 32 word \<Rightarrow> 'c \<Rightarrow> errcode \<times> 'c"
  op_DestroyHdiConnection :: "'c \<Rightarrow> errcode \<times> 'c"
  op_GetVibratorInfo :: "'c \<Rightarrow> errcode \<times> HdfVibratorInfo list"
  op_GetAllWaveInfo :: "VibratorIdentifierIPC \<Rightarrow> 'c \<Rightarrow> errcode \<times> HdfWaveInformation list"
  op_GetVibratorList :: "VibratorIdentifierIPC \<Rightarrow> 'c \<Rightarrow> errcode \<times> HdfVibratorInfo list"
  op_GetEffectInfo :: "VibratorIdentifierIPC \<Rightarrow> string \<Rightarrow> 'c \<Rightarrow> errcode \<times> HdfEffectInfo"
  op_RegisterVibratorPlugCallback :: "'c \<Rightarrow> errcode \<times> 'c"

text \<open>
  The calls that no implementation passes on: a preset without a name and an empty list of effects
  are turned down, and the connection is left as it was.
\<close>

locale hdi_connection =
  fixes ops :: "'c hdi_ops"
  assumes start_unnamed: "\<exists>e. op_Start ops i [] c = (e, c) \<and> e \<noteq> ERR_OK"
    and start_intensity_unnamed: "\<exists>e. op_StartByIntensity ops i [] n c = (e, c) \<and> e \<noteq> ERR_OK"
    and composite_empty: "\<exists>e. op_EnableCompositeEffect ops i \<lparr>hce_type = t, hce_effects = []\<rparr> c = (e, c) \<and> e \<noteq> ERR_OK"

section \<open>\<^verbatim>\<open>HdiConnection\<close>\<close>

text \<open>
  The state: the driver and whether \<^verbatim>\<open>vibratorInterface_\<close>, \<^verbatim>\<open>g_eventCallback\<close>, \<^verbatim>\<open>devicePlugCb_\<close>
  and \<^verbatim>\<open>hdiDeathObserver_\<close> are not null.
\<close>

record 'd hdi_state =
  hs_driver :: 'd
  hs_interface :: bool
  hs_eventCallback :: bool
  hs_plugCb :: bool
  hs_deathObserver :: bool

definition device_of :: "VibratorIdentifierIPC \<Rightarrow> DeviceVibratorInfo" where
  "device_of i = \<lparr>dv_deviceId = id_deviceId i, dv_vibratorId = id_vibratorId i\<rparr>"

text \<open>
  A call of the driver: without an interface it fails; a code for which \<open>bad\<close> holds is returned,
  any other becomes \<^verbatim>\<open>ERR_OK\<close>.
\<close>

definition drv_call :: "(int \<Rightarrow> bool) \<Rightarrow> ('d \<Rightarrow> int \<times> 'd) \<Rightarrow> 'd hdi_state \<Rightarrow> errcode \<times> 'd hdi_state" where
  "drv_call bad f c =
     (if \<not> hs_interface c then (ERR_INVALID_VALUE, c)
      else let (ret, d) = f (hs_driver c)
        in (if bad ret then Errno ret else ERR_OK, c\<lparr>hs_driver := d\<rparr>))"

definition HdiConnection_StartOnce where
  "HdiConnection_StartOnce D i duration c = drv_call (\<lambda>r. r < 0) (drv_StartOnce D (device_of i) duration) c"

definition HdiConnection_Start where
  "HdiConnection_Start D i effectType c =
     (if effectType = [] then (VIBRATOR_ON_ERR, c)
      else drv_call (\<lambda>r. r < 0) (drv_Start D (device_of i) effectType) c)"

definition HdiConnection_StartByIntensity where
  "HdiConnection_StartByIntensity D i effect intensity c =
     (if effect = [] then (VIBRATOR_ON_ERR, c)
      else drv_call (\<lambda>r. r < 0) (drv_StartByIntensity D (device_of i) effect intensity) c)"

definition HdiConnection_EnableCompositeEffect where
  "HdiConnection_EnableCompositeEffect D i e c =
     (if hce_effects e = [] then (VIBRATOR_ON_ERR, c)
      else drv_call (\<lambda>r. r < 0) (drv_EnableCompositeEffect D (device_of i) e) c)"

definition HdiConnection_IsVibratorRunning where
  "HdiConnection_IsVibratorRunning D i c =
     (if \<not> hs_interface c then False else drv_IsVibratorRunning D (device_of i) (hs_driver c))"

definition HdiConnection_FindEffectInfo where
  "HdiConnection_FindEffectInfo D i effect c =
     (if \<not> hs_interface c then None
      else let (ret, info) = drv_GetEffectInfo D (device_of i) effect (hs_driver c)
        in if ret \<noteq> 0 then None else Some info)"

definition HdiConnection_Stop where
  "HdiConnection_Stop D i mode c = drv_call (\<lambda>r. r < 0) (drv_Stop D (device_of i) mode) c"

definition HdiConnection_GetDelayTime where
  "HdiConnection_GetDelayTime D i mode c =
     (if \<not> hs_interface c then Inl ERR_INVALID_VALUE
      else let (ret, t) = drv_GetHapticStartUpTime D (device_of i) mode (hs_driver c)
        in if ret < 0 then Inl (Errno ret) else Inr t)"

definition HdiConnection_GetVibratorCapacity where
  "HdiConnection_GetVibratorCapacity D i (capacity :: VibratorCapacity) c =
     (if \<not> hs_interface c then Inl ERR_INVALID_VALUE
      else let (ret, h) = drv_GetHapticCapacity D (device_of i) (hs_driver c)
        in if ret < 0 then Inl (Errno ret) else Inr h)"

text \<open>The conversions to the driver's types; the counts are cast to \<^verbatim>\<open>int32_t\<close> and bound the loops.\<close>

definition haptic_point :: "VibrateCurvePoint \<Rightarrow> CurvePoint" where
  "haptic_point c = \<lparr>hp_time = cp_time c, hp_intensity = cp_intensity c, hp_frequency = cp_frequency c\<rparr>"

definition counted :: "'a list \<Rightarrow> 'a list" where
  "counted xs = take (nat (wrap32 (int (length xs)))) xs"

definition haptic_event :: "VibrateEvent \<Rightarrow> HapticEvent" where
  "haptic_event e =
     \<lparr>he_type = tag_code (ev_tag e), he_time = ev_time e, he_duration = ev_duration e,
      he_intensity = ev_intensity e, he_frequency = ev_frequency e, he_index = ev_index e,
      he_pointNum = wrap32 (int (length (ev_points e))),
      he_points = map haptic_point (counted (ev_points e))\<rparr>"

definition GetHapticPaket :: "VibratePattern \<Rightarrow> HapticPaket" where
  "GetHapticPaket a =
     \<lparr>pk_time = pat_startTime a, pk_eventNum = wrap32 (int (length (pat_events a))),
      pk_events = map haptic_event (counted (pat_events a))\<rparr>"

definition GetVibratorPackage :: "VibratePackage \<Rightarrow> HdfVibratorPackage" where
  "GetVibratorPackage k =
     \<lparr>hpk_patternNum = wrap32 (int (length (pkg_patterns k))), hpk_packageduration = pkg_packageDuration k,
      hpk_patterns = map GetHapticPaket (counted (pkg_patterns k))\<rparr>"

definition HdiConnection_PlayPattern where
  "HdiConnection_PlayPattern D i a c =
     drv_call (\<lambda>r. r < 0) (drv_PlayHapticPattern D (device_of i) (GetHapticPaket a)) c"

definition HdiConnection_PlayPatternBySessionId where
  "HdiConnection_PlayPatternBySessionId D i session a c =
     drv_call (\<lambda>r. r \<noteq> 0) (drv_PlayPatternBySessionId D (device_of i) session (GetHapticPaket a)) c"

definition HdiConnection_PlayPackageBySessionId where
  "HdiConnection_PlayPackageBySessionId D i session k c =
     drv_call (\<lambda>r. r \<noteq> 0) (drv_PlayPackageBySession D (device_of i) session (GetVibratorPackage k)) c"

definition HdiConnection_StopVibrateBySessionId where
  "HdiConnection_StopVibrateBySessionId D i session c =
     drv_call (\<lambda>r. r \<noteq> 0) (drv_StopVibrateBySessionId D (device_of i) session) c"

definition HdiConnection_GetVibratorInfo where
  "HdiConnection_GetVibratorInfo D c =
     (if \<not> hs_interface c then (ERR_INVALID_VALUE, [])
      else let (ret, l) = drv_GetVibratorInfo D (hs_driver c) in (Errno ret, l))"

definition HdiConnection_GetAllWaveInfo where
  "HdiConnection_GetAllWaveInfo D i c =
     (if \<not> hs_interface c then (ERR_INVALID_VALUE, [])
      else let (ret, l) = drv_GetAllWaveInfo D (device_of i) (hs_driver c) in (Errno ret, l))"

definition HdiConnection_GetVibratorList where
  "HdiConnection_GetVibratorList D i c =
     (if \<not> hs_interface c then (ERR_INVALID_VALUE, [])
      else let (ret, l) = drv_GetDeviceVibratorInfo D (device_of i) (hs_driver c) in (Errno ret, l))"

text \<open>The effect information of a failed call is what \<^verbatim>\<open>HdfEffectInfo\<close> is initialised to.\<close>

definition no_effect_info :: HdfEffectInfo where
  "no_effect_info = \<lparr>hei_duration = 0, hei_isSupportEffect = False\<rparr>"

definition HdiConnection_GetEffectInfo where
  "HdiConnection_GetEffectInfo D i effectType c =
     (if \<not> hs_interface c then (ERR_INVALID_VALUE, no_effect_info)
      else let (ret, info) = drv_GetEffectInfo D (device_of i) effectType (hs_driver c) in (Errno ret, info))"

definition RegisterHdiDeathRecipient :: "'d driver \<Rightarrow> 'd hdi_state \<Rightarrow> 'd hdi_state" where
  "RegisterHdiDeathRecipient D c =
     (if \<not> hs_interface c then c
      else c\<lparr>hs_deathObserver := True, hs_driver := drv_AddDeathRecipient D (hs_driver c)\<rparr>)"

definition UnregisterHdiDeathRecipient :: "'d driver \<Rightarrow> 'd hdi_state \<Rightarrow> 'd hdi_state" where
  "UnregisterHdiDeathRecipient D c =
     (if \<not> hs_interface c \<or> \<not> hs_deathObserver c then c
      else c\<lparr>hs_driver := drv_RemoveDeathRecipient D (hs_driver c)\<rparr>)"

text \<open>
  \<^verbatim>\<open>ConnectHdi\<close> asks for the driver service ten times; \<open>found\<close> lists the answers.
\<close>

fun connect_loop :: "'d driver \<Rightarrow> bool list \<Rightarrow> 'd hdi_state \<Rightarrow> errcode \<times> 'd hdi_state" where
  "connect_loop D [] c = (ERR_INVALID_VALUE, c)"
| "connect_loop D (b # bs) c =
     (let c = c\<lparr>hs_interface := b\<rparr> in
      if b then (ERR_OK, RegisterHdiDeathRecipient D (c\<lparr>hs_eventCallback := True\<rparr>))
      else connect_loop D bs c)"

definition HdiConnection_ConnectHdi :: "'d driver \<Rightarrow> bool list \<Rightarrow> 'd hdi_state \<Rightarrow> errcode \<times> 'd hdi_state" where
  "HdiConnection_ConnectHdi D found c = connect_loop D (take 10 found) c"

definition HdiConnection_DestroyHdiConnection where
  "HdiConnection_DestroyHdiConnection D c =
     (if \<not> hs_interface c then (ERR_NO_INIT, c)
      else let (ret, d) = drv_UnRegVibratorPlugCallback D (hs_driver c); c = c\<lparr>hs_driver := d\<rparr>
        in if ret \<noteq> 0 then (Errno ret, c)
           else (ERR_OK, UnregisterHdiDeathRecipient D (c\<lparr>hs_eventCallback := False\<rparr>)))"

definition HdiConnection_RegisterVibratorPlugCallback where
  "HdiConnection_RegisterVibratorPlugCallback D cb c =
     (if \<not> cb then (ERR_NO_INIT, c)
      else if \<not> hs_interface c then (ERR_NO_INIT, c)
      else if \<not> hs_eventCallback c then (ERR_NO_INIT, c)
      else let (ret, d) = drv_RegVibratorPlugCallback D (hs_driver c);
               c = c\<lparr>hs_driver := d, hs_plugCb := True\<rparr>
        in if ret \<noteq> 0 then (Errno ret, c) else (ERR_OK, c))"

text \<open>The death of the driver service: the connection is made anew.\<close>

definition Reconnect :: "'d driver \<Rightarrow> bool list \<Rightarrow> 'd hdi_state \<Rightarrow> 'd hdi_state" where
  "Reconnect D found c = snd (HdiConnection_ConnectHdi D found c)"

definition HdiConnection_ProcessDeathObserver ::
    "'d driver \<Rightarrow> bool list \<Rightarrow> bool \<Rightarrow> 'd hdi_state \<Rightarrow> 'd hdi_state" where
  "HdiConnection_ProcessDeathObserver D found promoted c =
     (if \<not> promoted \<or> \<not> hs_deathObserver c then c
      else Reconnect D found (c\<lparr>hs_driver := drv_RemoveDeathRecipient D (hs_driver c)\<rparr>))"

definition HdiConnection :: "'d driver \<Rightarrow> 'd hdi_state hdi_ops" where
  "HdiConnection D =
     \<lparr>op_StartOnce = HdiConnection_StartOnce D, op_Start = HdiConnection_Start D,
      op_StartByIntensity = HdiConnection_StartByIntensity D,
      op_EnableCompositeEffect = HdiConnection_EnableCompositeEffect D,
      op_IsVibratorRunning = HdiConnection_IsVibratorRunning D,
      op_FindEffectInfo = HdiConnection_FindEffectInfo D, op_Stop = HdiConnection_Stop D,
      op_GetDelayTime = HdiConnection_GetDelayTime D,
      op_GetVibratorCapacity = HdiConnection_GetVibratorCapacity D,
      op_PlayPattern = HdiConnection_PlayPattern D,
      op_PlayPatternBySessionId = HdiConnection_PlayPatternBySessionId D,
      op_PlayPackageBySessionId = HdiConnection_PlayPackageBySessionId D,
      op_StopVibrateBySessionId = HdiConnection_StopVibrateBySessionId D,
      op_DestroyHdiConnection = HdiConnection_DestroyHdiConnection D,
      op_GetVibratorInfo = HdiConnection_GetVibratorInfo D,
      op_GetAllWaveInfo = HdiConnection_GetAllWaveInfo D,
      op_GetVibratorList = HdiConnection_GetVibratorList D,
      op_GetEffectInfo = HdiConnection_GetEffectInfo D,
      op_RegisterVibratorPlugCallback = HdiConnection_RegisterVibratorPlugCallback D True\<rparr>"

interpretation hdi: hdi_connection "HdiConnection D"
  by unfold_locales (simp_all add: HdiConnection_def HdiConnection_Start_def HdiConnection_StartByIntensity_def
      HdiConnection_EnableCompositeEffect_def)

section \<open>The wrapper \<^verbatim>\<open>VibratorHdiConnection\<close>\<close>

text \<open>
  The state is the pointer \<^verbatim>\<open>iVibratorHdiConnection_\<close>. Every operation fails without a connection;
  those that start or stop a vibration replace any failure by one code of the service.
\<close>

definition via ::
    "errcode option \<Rightarrow> ('c \<Rightarrow> errcode \<times> 'c) \<Rightarrow> 'c option \<Rightarrow> errcode \<times> 'c option" where
  "via code f p =
     (case p of
        None \<Rightarrow> (VIBRATOR_HDF_CONNECT_ERR, None)
      | Some c \<Rightarrow> (let (ret, c) = f c
          in (case code of None \<Rightarrow> ret | Some e \<Rightarrow> if ret \<noteq> ERR_OK then e else ERR_OK, Some c)))"

definition VHC_StartOnce where
  "VHC_StartOnce (ops :: 'c hdi_ops) i duration = via (Some VIBRATOR_ON_ERR) (op_StartOnce ops i duration)"

definition VHC_Start where
  "VHC_Start (ops :: 'c hdi_ops) i effectType = via (Some VIBRATOR_ON_ERR) (op_Start ops i effectType)"

definition VHC_StartByIntensity where
  "VHC_StartByIntensity (ops :: 'c hdi_ops) i effect intensity = via (Some VIBRATOR_ON_ERR) (op_StartByIntensity ops i effect intensity)"

definition VHC_EnableCompositeEffect where
  "VHC_EnableCompositeEffect (ops :: 'c hdi_ops) i hdfEffect = via (Some VIBRATOR_ON_ERR) (op_EnableCompositeEffect ops i hdfEffect)"

definition VHC_IsVibratorRunning where
  "VHC_IsVibratorRunning (ops :: 'c hdi_ops) i p = (case p of None \<Rightarrow> False | Some c \<Rightarrow> op_IsVibratorRunning ops i c)"

definition VHC_FindEffectInfo where
  "VHC_FindEffectInfo (ops :: 'c hdi_ops) i effect p = (case p of None \<Rightarrow> None | Some c \<Rightarrow> op_FindEffectInfo ops i effect c)"

definition VHC_Stop where
  "VHC_Stop (ops :: 'c hdi_ops) i mode = via (Some VIBRATOR_OFF_ERR) (op_Stop ops i mode)"

definition VHC_GetDelayTime where
  "VHC_GetDelayTime (ops :: 'c hdi_ops) i mode p = (case p of None \<Rightarrow> Inl VIBRATOR_HDF_CONNECT_ERR | Some c \<Rightarrow> op_GetDelayTime ops i mode c)"

definition VHC_GetVibratorCapacity where
  "VHC_GetVibratorCapacity (ops :: 'c hdi_ops) i capacity p = (case p of None \<Rightarrow> Inl VIBRATOR_HDF_CONNECT_ERR | Some c \<Rightarrow> op_GetVibratorCapacity ops i capacity c)"

definition VHC_PlayPattern where
  "VHC_PlayPattern (ops :: 'c hdi_ops) i a = via None (op_PlayPattern ops i a)"

definition VHC_PlayPatternBySessionId where
  "VHC_PlayPatternBySessionId (ops :: 'c hdi_ops) i session a = via None (op_PlayPatternBySessionId ops i session a)"

definition VHC_PlayPackageBySessionId where
  "VHC_PlayPackageBySessionId (ops :: 'c hdi_ops) i session k = via None (op_PlayPackageBySessionId ops i session k)"

definition VHC_StopVibrateBySessionId where
  "VHC_StopVibrateBySessionId (ops :: 'c hdi_ops) i session = via None (op_StopVibrateBySessionId ops i session)"

definition VHC_DestroyHdiConnection where
  "VHC_DestroyHdiConnection (ops :: 'c hdi_ops) = via (Some VIBRATOR_HDF_CONNECT_ERR) (op_DestroyHdiConnection ops)"

definition VHC_GetVibratorInfo where
  "VHC_GetVibratorInfo (ops :: 'c hdi_ops) p = (case p of None \<Rightarrow> (VIBRATOR_HDF_CONNECT_ERR, []) | Some c \<Rightarrow> op_GetVibratorInfo ops c)"

definition VHC_GetAllWaveInfo where
  "VHC_GetAllWaveInfo (ops :: 'c hdi_ops) i p = (case p of None \<Rightarrow> (VIBRATOR_HDF_CONNECT_ERR, []) | Some c \<Rightarrow> op_GetAllWaveInfo ops i c)"

definition VHC_GetVibratorList where
  "VHC_GetVibratorList (ops :: 'c hdi_ops) i p = (case p of None \<Rightarrow> (VIBRATOR_HDF_CONNECT_ERR, []) | Some c \<Rightarrow> op_GetVibratorList ops i c)"

definition VHC_GetEffectInfo where
  "VHC_GetEffectInfo (ops :: 'c hdi_ops) i effectType p = (case p of None \<Rightarrow> (VIBRATOR_HDF_CONNECT_ERR, no_effect_info)
      | Some c \<Rightarrow> op_GetEffectInfo ops i effectType c)"

definition VHC_RegisterVibratorPlugCallback where
  "VHC_RegisterVibratorPlugCallback (ops :: 'c hdi_ops) = via (Some VIBRATOR_ON_ERR) (op_RegisterVibratorPlugCallback ops)"

lemmas VHC_defs = VHC_StartOnce_def VHC_Start_def VHC_StartByIntensity_def VHC_EnableCompositeEffect_def VHC_IsVibratorRunning_def VHC_FindEffectInfo_def VHC_Stop_def VHC_GetDelayTime_def VHC_GetVibratorCapacity_def VHC_PlayPattern_def
  VHC_PlayPatternBySessionId_def VHC_PlayPackageBySessionId_def VHC_StopVibrateBySessionId_def VHC_DestroyHdiConnection_def VHC_GetVibratorInfo_def VHC_GetAllWaveInfo_def VHC_GetVibratorList_def VHC_GetEffectInfo_def VHC_RegisterVibratorPlugCallback_def

definition VibratorHdiConnection :: "'c hdi_ops \<Rightarrow> 'c option hdi_ops" where
  "VibratorHdiConnection ops =
     \<lparr>op_StartOnce = VHC_StartOnce ops,
      op_Start = VHC_Start ops,
      op_StartByIntensity = VHC_StartByIntensity ops,
      op_EnableCompositeEffect = VHC_EnableCompositeEffect ops,
      op_IsVibratorRunning = VHC_IsVibratorRunning ops,
      op_FindEffectInfo = VHC_FindEffectInfo ops,
      op_Stop = VHC_Stop ops,
      op_GetDelayTime = VHC_GetDelayTime ops,
      op_GetVibratorCapacity = VHC_GetVibratorCapacity ops,
      op_PlayPattern = VHC_PlayPattern ops,
      op_PlayPatternBySessionId = VHC_PlayPatternBySessionId ops,
      op_PlayPackageBySessionId = VHC_PlayPackageBySessionId ops,
      op_StopVibrateBySessionId = VHC_StopVibrateBySessionId ops,
      op_DestroyHdiConnection = VHC_DestroyHdiConnection ops,
      op_GetVibratorInfo = VHC_GetVibratorInfo ops,
      op_GetAllWaveInfo = VHC_GetAllWaveInfo ops,
      op_GetVibratorList = VHC_GetVibratorList ops,
      op_GetEffectInfo = VHC_GetEffectInfo ops,
      op_RegisterVibratorPlugCallback = VHC_RegisterVibratorPlugCallback ops\<rparr>"

text \<open>
  What the wrapper adds to the contract: the codes its caller sees. The contract of the wrapped
  connection carries over.
\<close>

locale vibrator_device =
  fixes dev :: "'c hdi_ops"
  assumes start_code: "fst (op_StartOnce dev i d p) \<in> {ERR_OK, VIBRATOR_ON_ERR, VIBRATOR_HDF_CONNECT_ERR}"
    and intensity_code: "fst (op_StartByIntensity dev i e n p) \<in> {ERR_OK, VIBRATOR_ON_ERR, VIBRATOR_HDF_CONNECT_ERR}"
    and composite_code: "fst (op_EnableCompositeEffect dev i h p) \<in> {ERR_OK, VIBRATOR_ON_ERR, VIBRATOR_HDF_CONNECT_ERR}"
    and stop_code: "fst (op_Stop dev i m p) \<in> {ERR_OK, VIBRATOR_OFF_ERR, VIBRATOR_HDF_CONNECT_ERR}"
    and unnamed_fails: "fst (op_StartByIntensity dev i [] n p) \<noteq> ERR_OK"
    and unnamed_unchanged: "snd (op_StartByIntensity dev i [] n p) = p"
    and empty_fails: "fst (op_EnableCompositeEffect dev i \<lparr>hce_type = t, hce_effects = []\<rparr> p) \<noteq> ERR_OK"
    and empty_unchanged: "snd (op_EnableCompositeEffect dev i \<lparr>hce_type = t, hce_effects = []\<rparr> p) = p"

lemma via_code: "fst (via (Some e) f p) \<in> {ERR_OK, e, VIBRATOR_HDF_CONNECT_ERR}"
  by (auto simp: via_def split: option.splits prod.splits)

lemma via_failed:
  assumes "\<And>c. \<exists>e. f c = (e, c) \<and> e \<noteq> ERR_OK" and "x \<noteq> ERR_OK"
  shows "fst (via (Some x) f p) \<noteq> ERR_OK \<and> snd (via (Some x) f p) = p"
proof (cases p)
  case (Some c)
  with assms(1) [of c] assms(2) show ?thesis by (auto simp: via_def)
qed (simp add: via_def)

sublocale hdi_connection \<subseteq> wrapped: vibrator_device "VibratorHdiConnection ops"
proof
  fix p :: "'c option" and i n t
  show "fst (op_StartByIntensity (VibratorHdiConnection ops) i [] n p) \<noteq> ERR_OK"
    "snd (op_StartByIntensity (VibratorHdiConnection ops) i [] n p) = p"
    using via_failed [where f = "op_StartByIntensity ops i [] n" and x = VIBRATOR_ON_ERR and p = p]
      start_intensity_unnamed [of i n]
    by (simp_all add: VibratorHdiConnection_def VHC_defs)
  show "fst (op_EnableCompositeEffect (VibratorHdiConnection ops) i \<lparr>hce_type = t, hce_effects = []\<rparr> p) \<noteq> ERR_OK"
    "snd (op_EnableCompositeEffect (VibratorHdiConnection ops) i \<lparr>hce_type = t, hce_effects = []\<rparr> p) = p"
    using via_failed [where f = "op_EnableCompositeEffect ops i \<lparr>hce_type = t, hce_effects = []\<rparr>"
        and x = VIBRATOR_ON_ERR and p = p] composite_empty [of i t]
    by (simp_all add: VibratorHdiConnection_def VHC_defs)
qed (simp_all add: VibratorHdiConnection_def VHC_defs via_code [simplified])

text \<open>\<^verbatim>\<open>ConnectHdi\<close> of the wrapper in a build with the driver interface.\<close>

definition VibratorHdiConnection_ConnectHdi ::
    "'d driver \<Rightarrow> 'd \<Rightarrow> bool list \<Rightarrow> errcode \<times> 'd hdi_state option" where
  "VibratorHdiConnection_ConnectHdi D d found =
     (let (ret, c) = HdiConnection_ConnectHdi D found
        \<lparr>hs_driver = d, hs_interface = False, hs_eventCallback = False, hs_plugCb = False, hs_deathObserver = False\<rparr>
      in (ret, Some c))"

section \<open>Packets\<close>

text \<open>Reading a packet back.\<close>

definition point_of :: "CurvePoint \<Rightarrow> VibrateCurvePoint" where
  "point_of c = \<lparr>cp_time = hp_time c, cp_intensity = hp_intensity c, cp_frequency = hp_frequency c\<rparr>"

definition event_of :: "HapticEvent \<Rightarrow> VibrateEvent" where
  "event_of e = \<lparr>ev_tag = tag_of_code (he_type e), ev_time = he_time e, ev_duration = he_duration e,
     ev_intensity = he_intensity e, ev_frequency = he_frequency e, ev_index = he_index e,
     ev_points = map point_of (he_points e)\<rparr>"

definition pattern_of :: "HapticPaket \<Rightarrow> VibratePattern" where
  "pattern_of p = \<lparr>pat_startTime = pk_time p, pat_patternDuration = 0, pat_events = map event_of (pk_events p)\<rparr>"

text \<open>The counts agree with the lists, as the driver expects them.\<close>

definition packet_ok :: "HapticPaket \<Rightarrow> bool" where
  "packet_ok p \<longleftrightarrow> pk_eventNum p = int (length (pk_events p)) \<and>
     list_all (\<lambda>e. he_pointNum e = int (length (he_points e))) (pk_events p)"

lemma counted_all [simp]: "int32 (int (length xs)) \<Longrightarrow> counted xs = xs"
  by (simp add: counted_def wrap32_id)

lemma point_of_haptic_point [simp]: "point_of (haptic_point c) = c"
  by (simp add: point_of_def haptic_point_def)

lemma map_point_of [simp]: "map (point_of \<circ> haptic_point) cs = cs"
  by (rule map_idI) simp

lemma haptic_event_back: "event_repr e \<Longrightarrow> event_of (haptic_event e) = e \<and>
    he_pointNum (haptic_event e) = int (length (he_points (haptic_event e)))"
  by (simp add: event_repr_def event_of_def haptic_event_def wrap32_id)

lemma GetHapticPaket_back:
  assumes "pattern_repr a"
  shows "pattern_of (GetHapticPaket a) = a\<lparr>pat_patternDuration := 0\<rparr> \<and> packet_ok (GetHapticPaket a)"
proof -
  have "map (event_of \<circ> haptic_event) (pat_events a) = pat_events a"
    using assms by (intro map_idI) (simp add: pattern_repr_def list_all_iff haptic_event_back)
  with assms show ?thesis
    by (auto simp: pattern_of_def GetHapticPaket_def packet_ok_def pattern_repr_def wrap32_id list_all_iff
        haptic_event_back)
qed

lemma GetVibratorPackage_back:
  assumes "package_repr k"
  shows "map pattern_of (hpk_patterns (GetVibratorPackage k)) = map (\<lambda>a. a\<lparr>pat_patternDuration := 0\<rparr>) (pkg_patterns k) \<and>
    list_all packet_ok (hpk_patterns (GetVibratorPackage k)) \<and>
    hpk_patternNum (GetVibratorPackage k) = int (length (hpk_patterns (GetVibratorPackage k))) \<and>
    hpk_packageduration (GetVibratorPackage k) = pkg_packageDuration k"
  using assms by (auto simp: GetVibratorPackage_def package_repr_def list_all_iff wrap32_id GetHapticPaket_back)

section \<open>Properties\<close>

text \<open>The driver gets the whole package: the packets built by \<^verbatim>\<open>GetVibratorPackage\<close>, read back, are
  the patterns of the package with every event and curve point in order (only the pattern
  durations are not sent), and every count agrees with its list.\<close>

theorem driver_package_complete:
  assumes "package_repr k"
  shows "map pattern_of (hpk_patterns (GetVibratorPackage k)) = map (\<lambda>a. a\<lparr>pat_patternDuration := 0\<rparr>) (pkg_patterns k) \<and>
    list_all packet_ok (hpk_patterns (GetVibratorPackage k)) \<and>
    hpk_patternNum (GetVibratorPackage k) = int (length (hpk_patterns (GetVibratorPackage k))) \<and>
    hpk_packageduration (GetVibratorPackage k) = pkg_packageDuration k"
  using GetVibratorPackage_back [OF assms] .

lemma driver_package_complete_witness:
  "hpk_patternNum (GetVibratorPackage sample_package) = int (length (hpk_patterns (GetVibratorPackage sample_package))) \<and>
   hpk_packageduration (GetVibratorPackage sample_package) = 150"
proof -
  have "package_repr sample_package" by (simp add: sample_defs)
  from driver_package_complete [OF this] show ?thesis by (simp add: sample_package_def)
qed

end
