(* ===== verification/Compatible.thy ===== *)
theory Compatible
  imports Hdi
begin

text \<open>
  The mock connection of engineering builds,
  \<^verbatim>\<open>services/miscdevice_service/hdi_connection/adapter/src/compatible_connection.cpp\<close>: instead of a
  driver a thread waits for the duration of the vibration. The state is the thread object (is it
  joinable, is its function still running) and the statics of the file; the end of the thread's
  function, \<^verbatim>\<open>VibrateProcess\<close>, is a step of its own.
\<close>

section \<open>Operations\<close>

definition g_vibratorEffect :: "(string \<times> int) list" where
  "g_vibratorEffect =
     [(''haptic.clock.timer'', 2000), (''haptic.default.effect'', 804), (''haptic.fail'', 60),
      (''haptic.charging'', 100), (''haptic.threshold'', 42), (''haptic.slide.light'', 10),
      (''haptic.long_press.light'', 80), (''haptic.long_press.medium'', 80), (''haptic.long_press.heavy'', 80),
      (''haptic.effect.hard'', 50), (''haptic.effect.soft'', 30), (''haptic.effect.sharp'', 20),
      (''haptic.notice.success'', 139), (''haptic.notice.fail'', 277), (''haptic.notice.warning'', 2200)]"

record compatible_state =
  cc_joinable :: bool
  cc_alive :: bool
  cc_duration :: int
  cc_isStop :: bool
  cc_mode :: HdfVibratorMode

definition compatible_init :: compatible_state where
  "compatible_init = \<lparr>cc_joinable = False, cc_alive = False, cc_duration = 0, cc_isStop = True, cc_mode = MODE_ONCE\<rparr>"

text \<open>\<^verbatim>\<open>if (!vibrateThread_.joinable()) { ... }\<close>, the same in every start function.\<close>

definition cc_spawn :: "compatible_state \<Rightarrow> compatible_state" where
  "cc_spawn c = (if \<not> cc_joinable c then c\<lparr>cc_joinable := True, cc_alive := True, cc_isStop := False\<rparr> else c)"

definition CC_StartOnce :: "VibratorIdentifierIPC \<Rightarrow> 32 word \<Rightarrow> compatible_state \<Rightarrow> errcode \<times> compatible_state" where
  "CC_StartOnce i duration c =
     (ERR_OK, (cc_spawn (c\<lparr>cc_duration := sint duration\<rparr>))\<lparr>cc_mode := MODE_ONCE\<rparr>)"

definition CC_Start :: "VibratorIdentifierIPC \<Rightarrow> string \<Rightarrow> compatible_state \<Rightarrow> errcode \<times> compatible_state" where
  "CC_Start i effectType c =
     (case map_of g_vibratorEffect effectType of
        None \<Rightarrow> (VIBRATOR_ON_ERR, c)
      | Some d \<Rightarrow> (ERR_OK, (cc_spawn (c\<lparr>cc_duration := d\<rparr>))\<lparr>cc_mode := MODE_PRESET\<rparr>))"

definition CC_StartByIntensity ::
    "VibratorIdentifierIPC \<Rightarrow> string \<Rightarrow> int \<Rightarrow> compatible_state \<Rightarrow> errcode \<times> compatible_state" where
  "CC_StartByIntensity i effect intensity c =
     (case map_of g_vibratorEffect effect of
        None \<Rightarrow> (VIBRATOR_ON_ERR, c)
      | Some d \<Rightarrow> (ERR_OK, (cc_spawn (c\<lparr>cc_duration := d\<rparr>))\<lparr>cc_mode := MODE_PRESET\<rparr>))"

definition CC_EnableCompositeEffect ::
    "VibratorIdentifierIPC \<Rightarrow> HdfCompositeEffect \<Rightarrow> compatible_state \<Rightarrow> errcode \<times> compatible_state" where
  "CC_EnableCompositeEffect i h c =
     (if hce_effects h = [] then (VIBRATOR_ON_ERR, c)
      else let d = (if hce_type h = EFFECT_TYPE_TIME \<or> hce_type h = EFFECT_TYPE_PRIMITIVE
                    then fold (\<lambda>e d. wrap32 (d + delay e)) (hce_effects h) 0 else 0)
        in (ERR_OK, (cc_spawn (c\<lparr>cc_duration := d\<rparr>))\<lparr>cc_mode := MODE_PRESET\<rparr>))"

definition CC_IsVibratorRunning :: "VibratorIdentifierIPC \<Rightarrow> compatible_state \<Rightarrow> bool" where
  "CC_IsVibratorRunning i c = (\<not> cc_isStop c)"

definition CC_FindEffectInfo :: "VibratorIdentifierIPC \<Rightarrow> string \<Rightarrow> compatible_state \<Rightarrow> HdfEffectInfo option" where
  "CC_FindEffectInfo i effect c =
     (case map_of g_vibratorEffect effect of
        None \<Rightarrow> Some \<lparr>hei_duration = 0, hei_isSupportEffect = False\<rparr>
      | Some d \<Rightarrow> Some \<lparr>hei_duration = d, hei_isSupportEffect = True\<rparr>)"

text \<open>Stopping joins the thread, which ends because it sees \<^verbatim>\<open>isStop_\<close>.\<close>

definition CC_Stop :: "VibratorIdentifierIPC \<Rightarrow> HdfVibratorMode \<Rightarrow> compatible_state \<Rightarrow> errcode \<times> compatible_state" where
  "CC_Stop i mode c =
     (if cc_mode c \<noteq> mode then (VIBRATOR_OFF_ERR, c)
      else if cc_joinable c then (ERR_OK, c\<lparr>cc_isStop := True, cc_alive := False, cc_joinable := False\<rparr>)
      else (ERR_OK, c))"

text \<open>The thread's function has waited for the duration and ends.\<close>

definition VibrateProcess_end :: "compatible_state \<Rightarrow> compatible_state" where
  "VibrateProcess_end c = (if cc_alive c then c\<lparr>cc_alive := False, cc_isStop := True\<rparr> else c)"

definition CompatibleConnection :: "compatible_state hdi_ops" where
  "CompatibleConnection =
     \<lparr>op_StartOnce = CC_StartOnce, op_Start = CC_Start, op_StartByIntensity = CC_StartByIntensity,
      op_EnableCompositeEffect = CC_EnableCompositeEffect, op_IsVibratorRunning = CC_IsVibratorRunning,
      op_FindEffectInfo = CC_FindEffectInfo, op_Stop = CC_Stop,
      op_GetDelayTime = (\<lambda>i m c. Inr 10), op_GetVibratorCapacity = (\<lambda>i v c. Inr v),
      op_PlayPattern = (\<lambda>i a c. (ERR_OK, c)), op_PlayPatternBySessionId = (\<lambda>i s a c. (ERR_OK, c)),
      op_PlayPackageBySessionId = (\<lambda>i s k c. (ERR_OK, c)), op_StopVibrateBySessionId = (\<lambda>i s c. (ERR_OK, c)),
      op_DestroyHdiConnection = (\<lambda>c. (ERR_OK, c)), op_GetVibratorInfo = (\<lambda>c. (ERR_OK, [])),
      op_GetAllWaveInfo = (\<lambda>i c. (ERR_OK, [])), op_GetVibratorList = (\<lambda>i c. (ERR_OK, [])),
      op_GetEffectInfo = (\<lambda>i e c. (ERR_OK, no_effect_info)),
      op_RegisterVibratorPlugCallback = (\<lambda>c. (ERR_OK, c))\<rparr>"

interpretation compatible: hdi_connection CompatibleConnection
  by unfold_locales (simp_all add: CompatibleConnection_def CC_Start_def CC_StartByIntensity_def
      CC_EnableCompositeEffect_def g_vibratorEffect_def)

section \<open>States\<close>

text \<open>A live thread can be joined, and \<^verbatim>\<open>IsVibratorRunning\<close> says whether it is alive.\<close>

inductive compatible_reach :: "compatible_state \<Rightarrow> bool" where
  init: "compatible_reach compatible_init"
| once: "compatible_reach c \<Longrightarrow> compatible_reach (snd (CC_StartOnce i d c))"
| preset: "compatible_reach c \<Longrightarrow> compatible_reach (snd (CC_Start i e c))"
| intensity: "compatible_reach c \<Longrightarrow> compatible_reach (snd (CC_StartByIntensity i e n c))"
| composite: "compatible_reach c \<Longrightarrow> compatible_reach (snd (CC_EnableCompositeEffect i h c))"
| stop: "compatible_reach c \<Longrightarrow> compatible_reach (snd (CC_Stop i m c))"
| finish: "compatible_reach c \<Longrightarrow> compatible_reach (VibrateProcess_end c)"

lemma compatible_invariant:
  "compatible_reach c \<Longrightarrow> (cc_alive c \<longrightarrow> cc_joinable c) \<and> (cc_isStop c \<longleftrightarrow> \<not> cc_alive c)"
proof (induction rule: compatible_reach.induct)
  case init
  then show ?case by (simp add: compatible_init_def)
qed (auto simp: CC_StartOnce_def CC_Start_def CC_StartByIntensity_def CC_EnableCompositeEffect_def CC_Stop_def
    VibrateProcess_end_def cc_spawn_def Let_def split: option.split)

section \<open>Properties\<close>

text \<open>The mock connection does not recover from a vibration that ran to its end: the thread object
  stays joinable, so every later start is answered with success although no thread is running,
  until the vibration is stopped in the mode it was started in.\<close>

theorem compatible_start_after_end_is_lost:
  assumes "compatible_reach c" and "cc_joinable c" and "\<not> cc_alive c"
  shows "fst (CC_StartOnce i d c) = ERR_OK \<and> \<not> cc_alive (snd (CC_StartOnce i d c)) \<and>
    \<not> CC_IsVibratorRunning j (snd (CC_StartOnce i d c))"
  using compatible_invariant [OF assms(1)] assms(2,3)
  by (simp add: CC_StartOnce_def cc_spawn_def CC_IsVibratorRunning_def)

lemma compatible_start_after_end_is_lost_witness:
  "fst (CC_StartOnce (mk_identifier 0 0) 100
      (VibrateProcess_end (snd (CC_StartOnce (mk_identifier 0 0) 50 compatible_init)))) = ERR_OK \<and>
   \<not> cc_alive (snd (CC_StartOnce (mk_identifier 0 0) 100
      (VibrateProcess_end (snd (CC_StartOnce (mk_identifier 0 0) 50 compatible_init))))) \<and>
   \<not> CC_IsVibratorRunning (mk_identifier 0 0) (snd (CC_StartOnce (mk_identifier 0 0) 100
      (VibrateProcess_end (snd (CC_StartOnce (mk_identifier 0 0) 50 compatible_init)))))"
proof (rule compatible_start_after_end_is_lost)
  show "compatible_reach (VibrateProcess_end (snd (CC_StartOnce (mk_identifier 0 0) 50 compatible_init)))"
    by (intro compatible_reach.finish compatible_reach.once compatible_reach.init)
qed (simp_all add: VibrateProcess_end_def CC_StartOnce_def cc_spawn_def compatible_init_def)

end
