(* ===== verification/VibratorThread.thy ===== *)
theory VibratorThread
  imports Compatible
begin

text \<open>
  The thread that plays a vibration, \<^verbatim>\<open>services/miscdevice_service/src/vibrator_thread.cpp\<close>. The
  device is any record of the interface \<open>hdi_ops\<close>; the functions pass on its state together with the
  members of the thread. The thread waits on a condition variable that a stop request signals: the
  waits read a script, whose entries say whether a wait runs to its end (\<open>None\<close>, also after the last
  entry) or is signalled after so many milliseconds (\<open>Some\<close>). A clock adds up the time that
  passed, and every call that starts or stops something is recorded with its time. \<open>T\<close> is what the
  passing of time does to the device.
\<close>

section \<open>State\<close>

datatype device_call =
    CallStartOnce VibratorIdentifierIPC "32 word"
  | CallStartByIntensity VibratorIdentifierIPC string int
  | CallPlayPattern VibratorIdentifierIPC VibratePattern
  | CallEnableCompositeEffect VibratorIdentifierIPC HdfCompositeEffect
  | CallStop VibratorIdentifierIPC HdfVibratorMode

text \<open>The members of the class, and what a run of the thread works on besides.\<close>

record vibrator_thread =
  th_info :: VibrateInfo
  th_waves :: "HdfWaveInformation list"
  th_params :: VibratorIdentifierIPC
  th_exitFlag :: bool

record 'c thread = vibrator_thread +
  th_dev :: 'c
  th_script :: "int option list"
  th_clock :: int
  th_calls :: "(int \<times> device_call) list"

definition device_call :: "device_call \<Rightarrow> ('c \<Rightarrow> errcode \<times> 'c) \<Rightarrow> 'c thread \<Rightarrow> errcode \<times> 'c thread" where
  "device_call k f st =
     (let (ret, d) = f (th_dev st)
      in (ret, st\<lparr>th_dev := d, th_calls := th_calls st @ [(th_clock st, k)]\<rparr>))"

definition pass :: "(int \<Rightarrow> 'c \<Rightarrow> 'c) \<Rightarrow> int \<Rightarrow> 'c thread \<Rightarrow> 'c thread" where
  "pass T ms st = st\<lparr>th_clock := th_clock st + ms, th_dev := T ms (th_dev st)\<rparr>"

text \<open>\<^verbatim>\<open>cv_.wait_for(lock, ms, [this] { return exitFlag_.load(); })\<close>\<close>

definition wait_for :: "(int \<Rightarrow> 'c \<Rightarrow> 'c) \<Rightarrow> int \<Rightarrow> 'c thread \<Rightarrow> 'c thread" where
  "wait_for T ms st =
     (if th_exitFlag st then st
      else case th_script st of
        [] \<Rightarrow> pass T (max 0 ms) st
      | None # s \<Rightarrow> pass T (max 0 ms) (st\<lparr>th_script := s\<rparr>)
      | Some m # s \<Rightarrow> pass T (min (max 0 m) (max 0 ms)) (st\<lparr>th_script := s, th_exitFlag := True\<rparr>))"

section \<open>Playing\<close>

definition PlayOnce ::
    "'c hdi_ops \<Rightarrow> (int \<Rightarrow> 'c \<Rightarrow> 'c) \<Rightarrow> VibrateInfo \<Rightarrow> VibratorIdentifierIPC \<Rightarrow> 'c thread \<Rightarrow> errcode \<times> 'c thread" where
  "PlayOnce V T info i st =
     (let duration = word_of_int (vi_duration info);
          (ret, st) = device_call (CallStartOnce i duration) (op_StartOnce V i duration) st
      in if ret \<noteq> SUCCESS then (ERROR, st)
         else let st = wait_for T (vi_duration info) st
           in if th_exitFlag st then (SUCCESS, snd (device_call (CallStop i MODE_ONCE) (op_Stop V i MODE_ONCE) st))
              else (SUCCESS, st))"

text \<open>The loop of \<^verbatim>\<open>HandleMultipleVibrations\<close>; \<^verbatim>\<open>RETRY_NUMBER\<close> is 6.\<close>

fun retry_loop :: "'c hdi_ops \<Rightarrow> (int \<Rightarrow> 'c \<Rightarrow> 'c) \<Rightarrow> VibratorIdentifierIPC \<Rightarrow> nat \<Rightarrow> 'c thread \<Rightarrow> 'c thread" where
  "retry_loop V T i 0 st = st"
| "retry_loop V T i (Suc n) st =
     (if \<not> op_IsVibratorRunning V i (th_dev st) then st else retry_loop V T i n (pass T 5 st))"

definition HandleMultipleVibrations ::
    "'c hdi_ops \<Rightarrow> (int \<Rightarrow> 'c \<Rightarrow> 'c) \<Rightarrow> VibratorIdentifierIPC \<Rightarrow> 'c thread \<Rightarrow> 'c thread" where
  "HandleMultipleVibrations V T i st =
     (if op_IsVibratorRunning V i (th_dev st) then
        let st = snd (device_call (CallStop i MODE_PRESET) (op_Stop V i MODE_PRESET) st);
            st = snd (device_call (CallStop i MODE_HDHAPTIC) (op_Stop V i MODE_HDHAPTIC) st)
        in retry_loop V T i 6 st
      else st)"

text \<open>The loop of \<^verbatim>\<open>PlayEffect\<close>: \<open>k\<close> is the round and \<open>n\<close> the number of rounds left.\<close>

fun effect_loop ::
    "'c hdi_ops \<Rightarrow> (int \<Rightarrow> 'c \<Rightarrow> 'c) \<Rightarrow> VibrateInfo \<Rightarrow> VibratorIdentifierIPC \<Rightarrow> nat \<Rightarrow> nat \<Rightarrow> 'c thread
      \<Rightarrow> errcode \<times> 'c thread" where
  "effect_loop V T info i k 0 st = (SUCCESS, st)"
| "effect_loop V T info i k (Suc n) st =
     (let (duration, st) = (if k \<ge> 1 then (wrap32 (vi_duration info + 10), HandleMultipleVibrations V T i st)
                            else (vi_duration info, st));
          (ret, st) = device_call (CallStartByIntensity i (vi_effect info) (vi_intensity info))
                        (op_StartByIntensity V i (vi_effect info) (vi_intensity info)) st
      in if ret \<noteq> SUCCESS then (ERROR, st)
         else let st = wait_for T duration st
           in if th_exitFlag st then (SUCCESS, snd (device_call (CallStop i MODE_PRESET) (op_Stop V i MODE_PRESET) st))
              else effect_loop V T info i (Suc k) n st)"

definition PlayEffect ::
    "'c hdi_ops \<Rightarrow> (int \<Rightarrow> 'c \<Rightarrow> 'c) \<Rightarrow> VibrateInfo \<Rightarrow> VibratorIdentifierIPC \<Rightarrow> 'c thread \<Rightarrow> errcode \<times> 'c thread" where
  "PlayEffect V T info i st =
     (if vi_count info < 0 \<or> vi_count info > 1000 then (ERROR, st)
      else effect_loop V T info i 0 (nat (vi_count info)) st)"

text \<open>The loop of \<^verbatim>\<open>PlayCustomByHdHptic\<close>; \<open>prev\<close> is the start time of the pattern before.\<close>

fun hd_loop ::
    "'c hdi_ops \<Rightarrow> (int \<Rightarrow> 'c \<Rightarrow> 'c) \<Rightarrow> VibratorIdentifierIPC \<Rightarrow> int option \<Rightarrow> VibratePattern list \<Rightarrow> 'c thread
      \<Rightarrow> errcode \<times> 'c thread" where
  "hd_loop V T i prev [] st = (SUCCESS, st)"
| "hd_loop V T i prev (a # as) st =
     (let delayTime = (case prev of None \<Rightarrow> pat_startTime a | Some p \<Rightarrow> wrap32 (pat_startTime a - p));
          st = wait_for T delayTime st
      in if th_exitFlag st then (SUCCESS, snd (device_call (CallStop i MODE_HDHAPTIC) (op_Stop V i MODE_HDHAPTIC) st))
         else let st = HandleMultipleVibrations V T i st;
                  (ret, st) = device_call (CallPlayPattern i a) (op_PlayPattern V i a) st
           in if ret \<noteq> SUCCESS then (ERROR, st) else hd_loop V T i (Some (pat_startTime a)) as st)"

definition PlayCustomByHdHptic ::
    "'c hdi_ops \<Rightarrow> (int \<Rightarrow> 'c \<Rightarrow> 'c) \<Rightarrow> VibrateInfo \<Rightarrow> VibratorIdentifierIPC \<Rightarrow> 'c thread \<Rightarrow> errcode \<times> 'c thread" where
  "PlayCustomByHdHptic V T info i st = hd_loop V T i None (pkg_patterns (vi_package info)) st"

text \<open>
  \<^verbatim>\<open>copyInfoWithIndexEvents\<close>: only the events for every vibrator (index 0) or for this one are
  kept, and the last one's duration becomes the duration of the package.
\<close>

definition index_events :: "VibratorIdentifierIPC \<Rightarrow> VibratePattern \<Rightarrow> VibrateEvent list" where
  "index_events i a = filter (\<lambda>e. ev_index e = 0 \<or> ev_index e = id_position i) (pat_events a)"

definition copy_pattern ::
    "VibratorIdentifierIPC \<Rightarrow> VibratePattern \<Rightarrow> VibratePattern list \<times> int \<Rightarrow> VibratePattern list \<times> int" where
  "copy_pattern i a = (\<lambda>(out, parseDuration).
     let es = index_events i a
     in if es \<noteq> [] then (out @ [a\<lparr>pat_events := es\<rparr>], ev_duration (last es)) else (out, parseDuration))"

definition copyInfoWithIndexEvents :: "VibrateInfo \<Rightarrow> VibratorIdentifierIPC \<Rightarrow> VibrateInfo" where
  "copyInfoWithIndexEvents info i =
     (let (patterns, parseDuration) = fold (copy_pattern i) (pkg_patterns (vi_package info)) ([], 0)
      in info\<lparr>vi_package := \<lparr>pkg_patterns = patterns, pkg_packageDuration = parseDuration\<rparr>\<rparr>)"

text \<open>The loop of \<^verbatim>\<open>PlayCompositeEffect\<close>: \<open>part\<close> and \<open>d\<close> are the collected effects and their delay.\<close>

fun composite_loop ::
    "'c hdi_ops \<Rightarrow> (int \<Rightarrow> 'c \<Rightarrow> 'c) \<Rightarrow> VibratorIdentifierIPC \<Rightarrow> HdfEffectType \<Rightarrow> CompositeEffect list \<Rightarrow> int
      \<Rightarrow> CompositeEffect list \<Rightarrow> 'c thread \<Rightarrow> errcode \<times> 'c thread" where
  "composite_loop V T i ty part d [] st = (SUCCESS, st)"
| "composite_loop V T i ty part d (e # es) st =
     (let part = part @ [e] in
      if ty \<noteq> EFFECT_TYPE_TIME \<and> ty \<noteq> EFFECT_TYPE_PRIMITIVE then (ERROR, st)
      else let d = wrap32 (d + delay e) in
        if length part \<ge> 128 \<or> es = [] then
          let h = \<lparr>hce_type = ty, hce_effects = part\<rparr>;
              (ret, st) = device_call (CallEnableCompositeEffect i h) (op_EnableCompositeEffect V i h) st
          in if ret \<noteq> SUCCESS then (ERROR, st)
             else let st = wait_for T d st
               in if th_exitFlag st then (SUCCESS, snd (device_call (CallStop i MODE_PRESET) (op_Stop V i MODE_PRESET) st))
                  else composite_loop V T i ty [] 0 es st
        else if th_exitFlag st then (SUCCESS, snd (device_call (CallStop i MODE_PRESET) (op_Stop V i MODE_PRESET) st))
        else composite_loop V T i ty part d es st)"

definition PlayCompositeEffect ::
    "'c hdi_ops \<Rightarrow> (int \<Rightarrow> 'c \<Rightarrow> 'c) \<Rightarrow> VibrateInfo \<Rightarrow> HdfCompositeEffect \<Rightarrow> VibratorIdentifierIPC \<Rightarrow> 'c thread
      \<Rightarrow> errcode \<times> 'c thread" where
  "PlayCompositeEffect V T info h i st = composite_loop V T i (hce_type h) [] 0 (hce_effects h) st"

text \<open>
  \<^verbatim>\<open>PlayCustomByCompositeEffect\<close>. The primitive effects are made from the filtered package, the
  time effects from the whole one. The type of the effects is that of an uninitialised
  \<^verbatim>\<open>HdfCompositeEffect\<close> for any other mode, which \<^verbatim>\<open>Run\<close> does not use.
\<close>

definition composite_effects ::
    "(rat option \<Rightarrow> int) \<Rightarrow> VibrateInfo \<Rightarrow> VibratorIdentifierIPC \<Rightarrow> HdfWaveInformation list
      \<Rightarrow> HdfCompositeEffect option" where
  "composite_effects U info i waves =
     (let newInfo = copyInfoWithIndexEvents info i in
      if vi_mode newInfo = VIBRATE_CUSTOM_COMPOSITE_EFFECT then
        (case TransformEffect U (CustomVibrationMatcher U waves) (vi_package newInfo) [] of
           None \<Rightarrow> None | Some effs \<Rightarrow> Some \<lparr>hce_type = EFFECT_TYPE_PRIMITIVE, hce_effects = effs\<rparr>)
      else if vi_mode newInfo = VIBRATE_CUSTOM_COMPOSITE_TIME then
        (case TransformTime U (vi_package info) [] of
           None \<Rightarrow> None | Some effs \<Rightarrow> Some \<lparr>hce_type = EFFECT_TYPE_TIME, hce_effects = effs\<rparr>)
      else Some \<lparr>hce_type = EFFECT_TYPE_BUTT, hce_effects = []\<rparr>)"

definition PlayCustomByCompositeEffect ::
    "(rat option \<Rightarrow> int) \<Rightarrow> 'c hdi_ops \<Rightarrow> (int \<Rightarrow> 'c \<Rightarrow> 'c) \<Rightarrow> VibrateInfo \<Rightarrow> VibratorIdentifierIPC
      \<Rightarrow> HdfWaveInformation list \<Rightarrow> 'c thread \<Rightarrow> errcode \<times> 'c thread" where
  "PlayCustomByCompositeEffect U V T info i waves st =
     (case composite_effects U info i waves of
        None \<Rightarrow> (ERROR, st)
      | Some h \<Rightarrow> PlayCompositeEffect V T (copyInfoWithIndexEvents info i) h i st)"

text \<open>\<^verbatim>\<open>Run\<close> dispatches on the mode; whatever the outcome, it returns false, so that it runs once.\<close>

definition play ::
    "(rat option \<Rightarrow> int) \<Rightarrow> 'c hdi_ops \<Rightarrow> (int \<Rightarrow> 'c \<Rightarrow> 'c) \<Rightarrow> 'c thread \<Rightarrow> errcode \<times> 'c thread" where
  "play U V T st =
     (let info = th_info st; i = th_params st; waves = th_waves st in
      if vi_mode info = VIBRATE_TIME then PlayOnce V T info i st
      else if vi_mode info = VIBRATE_PRESET then PlayEffect V T info i st
      else if vi_mode info = VIBRATE_CUSTOM_HD then PlayCustomByHdHptic V T info i st
      else if vi_mode info = VIBRATE_CUSTOM_COMPOSITE_EFFECT \<or> vi_mode info = VIBRATE_CUSTOM_COMPOSITE_TIME
           then PlayCustomByCompositeEffect U V T info i waves st
      else (SUCCESS, st))"

definition Run ::
    "(rat option \<Rightarrow> int) \<Rightarrow> 'c hdi_ops \<Rightarrow> (int \<Rightarrow> 'c \<Rightarrow> 'c) \<Rightarrow> 'c thread \<Rightarrow> bool \<times> 'c thread" where
  "Run U V T st = (False, snd (play U V T st))"

section \<open>The members\<close>

definition UpdateVibratorEffect ::
    "VibrateInfo \<Rightarrow> VibratorIdentifierIPC \<Rightarrow> HdfWaveInformation list \<Rightarrow> 'a vibrator_thread_scheme \<Rightarrow> 'a vibrator_thread_scheme" where
  "UpdateVibratorEffect info i waves st = st\<lparr>th_info := info, th_params := i, th_waves := waves\<rparr>"

definition SetExitStatus :: "bool \<Rightarrow> 'a vibrator_thread_scheme \<Rightarrow> 'a vibrator_thread_scheme" where
  "SetExitStatus status st = st\<lparr>th_exitFlag := status\<rparr>"

definition NotifyExit :: "'a vibrator_thread_scheme \<Rightarrow> 'a vibrator_thread_scheme" where
  "NotifyExit st = st\<lparr>th_exitFlag := True\<rparr>"

definition ResetVibrateInfo :: "'a vibrator_thread_scheme \<Rightarrow> 'a vibrator_thread_scheme" where
  "ResetVibrateInfo st = st\<lparr>th_info := (th_info st)
     \<lparr>vi_mode := [], vi_packageName := [], vi_pid := -1, vi_uid := -1, vi_usage := 0, vi_systemUsage := False,
      vi_duration := 0, vi_effect := [], vi_count := 0, vi_intensity := 0\<rparr>\<rparr>"

section \<open>Waiting\<close>

lemma device_call_fields [simp]:
  "th_exitFlag (snd (device_call k f st)) = th_exitFlag st"
  "th_clock (snd (device_call k f st)) = th_clock st"
  "th_calls (snd (device_call k f st)) = th_calls st @ [(th_clock st, k)]"
  "th_script (snd (device_call k f st)) = th_script st"
  "fst (device_call k f st) = fst (f (th_dev st))"
  "th_dev (snd (device_call k f st)) = snd (f (th_dev st))"
  by (simp_all add: device_call_def split: prod.split)

lemma device_callD:
  assumes "device_call k f st = (r, s)"
  shows "th_exitFlag s = th_exitFlag st \<and> th_clock s = th_clock st \<and> th_calls s = th_calls st @ [(th_clock st, k)] \<and>
    th_script s = th_script st \<and> r = fst (f (th_dev st))"
  using device_call_fields [of k f st] assms by (metis fst_conv snd_conv)

lemma pass_fields [simp]:
  "th_exitFlag (pass T ms st) = th_exitFlag st" "th_clock (pass T ms st) = th_clock st + ms"
  "th_calls (pass T ms st) = th_calls st" "th_script (pass T ms st) = th_script st"
  by (simp_all add: pass_def)

lemma wait_for_calls [simp]: "th_calls (wait_for T ms st) = th_calls st"
  by (auto simp: wait_for_def split: list.split option.split)

text \<open>A wait that ends without an exit request has lasted as long as asked.\<close>

lemma wait_for_full: "\<not> th_exitFlag (wait_for T ms st) \<Longrightarrow> th_clock (wait_for T ms st) = th_clock st + max 0 ms"
  by (auto simp: wait_for_def split: list.splits option.splits if_splits)

lemma wait_for_clock: "th_clock st \<le> th_clock (wait_for T ms st) \<and> th_clock (wait_for T ms st) \<le> th_clock st + max 0 ms"
  by (auto simp: wait_for_def split: list.split option.split)

text \<open>Without requests in the script, no wait is cut short.\<close>

definition undisturbed :: "'c thread \<Rightarrow> bool" where
  "undisturbed st \<longleftrightarrow> \<not> th_exitFlag st \<and> list_all (\<lambda>e. e = None) (th_script st)"

lemma undisturbed_wait: "undisturbed st \<Longrightarrow> undisturbed (wait_for T ms st)"
  by (auto simp: undisturbed_def wait_for_def split: list.split option.split)

lemma undisturbed_wait_clock: "undisturbed st \<Longrightarrow> th_clock (wait_for T ms st) = th_clock st + max 0 ms"
  by (rule wait_for_full) (use undisturbed_wait in \<open>auto simp: undisturbed_def\<close>)

lemma undisturbed_call: "device_call k f st = (r, s) \<Longrightarrow> undisturbed s = undisturbed st"
  by (drule device_callD) (simp add: undisturbed_def)

lemma undisturbed_call_snd [simp]: "undisturbed (snd (device_call k f st)) = undisturbed st"
  by (simp add: undisturbed_def)

lemma undisturbed_not_exit: "undisturbed st \<Longrightarrow> \<not> th_exitFlag st"
  by (simp add: undisturbed_def)

lemma retry_loop_effect:
  "th_exitFlag (retry_loop V T i n st) = th_exitFlag st \<and> th_calls (retry_loop V T i n st) = th_calls st \<and>
   th_script (retry_loop V T i n st) = th_script st \<and>
   th_clock st \<le> th_clock (retry_loop V T i n st) \<and> th_clock (retry_loop V T i n st) \<le> th_clock st + 5 * int n"
proof (induction n arbitrary: st)
  case (Suc n)
  from Suc [of "pass T 5 st"] show ?case by simp
qed simp

definition stop_calls :: "VibratorIdentifierIPC \<Rightarrow> (int \<times> device_call) list \<Rightarrow> bool" where
  "stop_calls i cs \<longleftrightarrow> list_all (\<lambda>(t, k). \<exists>m. k = CallStop i m) cs"

text \<open>\<^verbatim>\<open>HandleMultipleVibrations\<close> takes at most 30 ms and only stops.\<close>

lemma HandleMultipleVibrations_effect:
  "th_exitFlag (HandleMultipleVibrations V T i st) = th_exitFlag st \<and>
   th_script (HandleMultipleVibrations V T i st) = th_script st \<and>
   th_clock st \<le> th_clock (HandleMultipleVibrations V T i st) \<and>
   th_clock (HandleMultipleVibrations V T i st) \<le> th_clock st + 30 \<and>
   (\<exists>cs. th_calls (HandleMultipleVibrations V T i st) = th_calls st @ cs \<and> stop_calls i cs)"
proof -
  let ?s = "snd (device_call (CallStop i MODE_HDHAPTIC) (op_Stop V i MODE_HDHAPTIC)
      (snd (device_call (CallStop i MODE_PRESET) (op_Stop V i MODE_PRESET) st)))"
  have "th_calls ?s = th_calls st @ [(th_clock st, CallStop i MODE_PRESET), (th_clock st, CallStop i MODE_HDHAPTIC)]"
    by simp
  then show ?thesis using retry_loop_effect [of V T i 6 ?s]
    by (auto simp: HandleMultipleVibrations_def Let_def stop_calls_def)
qed

lemma HandleMultipleVibrations_undisturbed:
  "undisturbed (HandleMultipleVibrations V T i st) = undisturbed st"
  using HandleMultipleVibrations_effect [of V T i st] by (simp add: undisturbed_def)

section \<open>Stop requests\<close>

text \<open>The last thing that happened is the stop call.\<close>

definition stopped :: "VibratorIdentifierIPC \<Rightarrow> HdfVibratorMode \<Rightarrow> 'c thread \<Rightarrow> bool" where
  "stopped i m st \<longleftrightarrow> th_calls st \<noteq> [] \<and> last (th_calls st) = (th_clock st, CallStop i m)"

lemma stopped_call [simp]: "stopped i m (snd (device_call (CallStop i m) f st))"
  by (simp add: stopped_def)

lemma PlayOnce_stopped:
  "PlayOnce V T info i st = (SUCCESS, st') \<Longrightarrow> th_exitFlag st' \<Longrightarrow> stopped i MODE_ONCE st'"
  by (auto simp: PlayOnce_def Let_def split: prod.splits if_splits)

text \<open>The rounds of the loops, with the call, the wait and the exit test spelled out.\<close>

definition effect_prepare ::
    "'c hdi_ops \<Rightarrow> (int \<Rightarrow> 'c \<Rightarrow> 'c) \<Rightarrow> VibrateInfo \<Rightarrow> VibratorIdentifierIPC \<Rightarrow> nat \<Rightarrow> 'c thread \<Rightarrow> 'c thread" where
  "effect_prepare V T info i k st = (if k \<ge> 1 then HandleMultipleVibrations V T i st else st)"

definition effect_duration :: "VibrateInfo \<Rightarrow> nat \<Rightarrow> int" where
  "effect_duration info k = (if k \<ge> 1 then wrap32 (vi_duration info + 10) else vi_duration info)"

lemma effect_loop_round:
  assumes "effect_loop V T info i k (Suc n) st = (r, st')"
    and "device_call (CallStartByIntensity i (vi_effect info) (vi_intensity info))
           (op_StartByIntensity V i (vi_effect info) (vi_intensity info)) (effect_prepare V T info i k st) = (c, s)"
  shows "(c \<noteq> SUCCESS \<and> r = ERROR \<and> st' = s) \<or>
    (c = SUCCESS \<and> th_exitFlag (wait_for T (effect_duration info k) s) \<and> r = SUCCESS \<and>
       st' = snd (device_call (CallStop i MODE_PRESET) (op_Stop V i MODE_PRESET) (wait_for T (effect_duration info k) s))) \<or>
    (c = SUCCESS \<and> \<not> th_exitFlag (wait_for T (effect_duration info k) s) \<and>
       effect_loop V T info i (Suc k) n (wait_for T (effect_duration info k) s) = (r, st'))"
  using assms by (cases "k \<ge> 1") (simp_all add: effect_prepare_def effect_duration_def Let_def split: if_splits)

lemma effect_prepare_effect:
  "th_exitFlag (effect_prepare V T info i k st) = th_exitFlag st \<and>
   th_clock st \<le> th_clock (effect_prepare V T info i k st) \<and>
   (\<exists>cs. th_calls (effect_prepare V T info i k st) = th_calls st @ cs \<and> stop_calls i cs)"
  using HandleMultipleVibrations_effect [of V T i st] by (auto simp: effect_prepare_def stop_calls_def)

lemma effect_loop_stopped:
  "effect_loop V T info i k n st = (SUCCESS, st') \<Longrightarrow> \<not> th_exitFlag st \<Longrightarrow> th_exitFlag st' \<Longrightarrow> stopped i MODE_PRESET st'"
proof (induction n arbitrary: k st)
  case (Suc n)
  obtain c s where c: "device_call (CallStartByIntensity i (vi_effect info) (vi_intensity info))
      (op_StartByIntensity V i (vi_effect info) (vi_intensity info)) (effect_prepare V T info i k st) = (c, s)"
    by fastforce
  from effect_loop_round [OF Suc.prems(1) c] Suc.IH [of "Suc k" "wait_for T (effect_duration info k) s"] Suc.prems(3)
  show ?case by auto
qed simp

lemma hd_loop_stopped:
  assumes "hd_loop V T i prev as st = (SUCCESS, st')" and "\<not> th_exitFlag st" and "th_exitFlag st'"
  shows "stopped i MODE_HDHAPTIC st'"
  using assms
proof (induction V T i prev as st rule: hd_loop.induct)
  case (2 V T i prev a as st)
  let ?w = "wait_for T (case prev of None \<Rightarrow> pat_startTime a | Some p \<Rightarrow> wrap32 (pat_startTime a - p)) st"
  show ?case
  proof (cases "th_exitFlag ?w")
    case True
    with "2.prems" show ?thesis by (auto simp: Let_def)
  next
    case False
    let ?h = "HandleMultipleVibrations V T i ?w"
    obtain r s where c: "device_call (CallPlayPattern i a) (op_PlayPattern V i a) ?h = (r, s)" by fastforce
    have "\<not> th_exitFlag s" using device_callD [OF c] HandleMultipleVibrations_effect [of V T i ?w] False by simp
    with "2.IH" [OF refl refl False refl c [symmetric] refl] "2.prems" False c show ?thesis
      by (auto simp: Let_def split: if_splits)
  qed
qed simp

lemma composite_loop_round:
  assumes "composite_loop V T i ty part d (e # es) st = (r, st')" and "ty = EFFECT_TYPE_TIME \<or> ty = EFFECT_TYPE_PRIMITIVE"
    and "length (part @ [e]) \<ge> 128 \<or> es = []"
    and "device_call (CallEnableCompositeEffect i \<lparr>hce_type = ty, hce_effects = part @ [e]\<rparr>)
           (op_EnableCompositeEffect V i \<lparr>hce_type = ty, hce_effects = part @ [e]\<rparr>) st = (c, s)"
  shows "(c \<noteq> SUCCESS \<and> r = ERROR \<and> st' = s) \<or>
    (c = SUCCESS \<and> th_exitFlag (wait_for T (wrap32 (d + delay e)) s) \<and> r = SUCCESS \<and>
       st' = snd (device_call (CallStop i MODE_PRESET) (op_Stop V i MODE_PRESET) (wait_for T (wrap32 (d + delay e)) s))) \<or>
    (c = SUCCESS \<and> \<not> th_exitFlag (wait_for T (wrap32 (d + delay e)) s) \<and>
       composite_loop V T i ty [] 0 es (wait_for T (wrap32 (d + delay e)) s) = (r, st'))"
  using assms by (simp add: Let_def split: if_splits)

lemma composite_loop_collect:
  assumes "ty = EFFECT_TYPE_TIME \<or> ty = EFFECT_TYPE_PRIMITIVE" and "length part < 127" and "es \<noteq> []" and "\<not> th_exitFlag st"
  shows "composite_loop V T i ty part d (e # es) st = composite_loop V T i ty (part @ [e]) (wrap32 (d + delay e)) es st"
  using assms by (auto simp: Let_def)

lemma composite_loop_stopped:
  "composite_loop V T i ty part d es st = (SUCCESS, st') \<Longrightarrow> \<not> th_exitFlag st \<Longrightarrow> th_exitFlag st' \<Longrightarrow>
    stopped i MODE_PRESET st'"
proof (induction es arbitrary: part d st)
  case (Cons e es)
  have ty: "ty = EFFECT_TYPE_TIME \<or> ty = EFFECT_TYPE_PRIMITIVE"
    using Cons.prems(1) by (auto simp: Let_def split: if_splits)
  show ?case
  proof (cases "length (part @ [e]) \<ge> 128 \<or> es = []")
    case True
    obtain c s where c: "device_call (CallEnableCompositeEffect i \<lparr>hce_type = ty, hce_effects = part @ [e]\<rparr>)
        (op_EnableCompositeEffect V i \<lparr>hce_type = ty, hce_effects = part @ [e]\<rparr>) st = (c, s)" by fastforce
    from composite_loop_round [OF Cons.prems(1) ty True c]
      Cons.IH [of "[]" 0 "wait_for T (wrap32 (d + delay e)) s"] Cons.prems(3)
    show ?thesis by auto
  next
    case False
    then show ?thesis
      using Cons.prems Cons.IH [of "part @ [e]" "wrap32 (d + delay e)" st] composite_loop_collect [OF ty, of part es st]
      by auto
  qed
qed simp

text \<open>The mode in which a request is stopped.\<close>

definition stop_mode :: "VibrateInfo \<Rightarrow> HdfVibratorMode" where
  "stop_mode info = (if vi_mode info = VIBRATE_TIME then MODE_ONCE
                     else if vi_mode info = VIBRATE_CUSTOM_HD then MODE_HDHAPTIC else MODE_PRESET)"

lemma play_stopped:
  assumes "play U V T st = (SUCCESS, st')" and "\<not> th_exitFlag st" and "th_exitFlag st'"
  shows "stopped (th_params st) (stop_mode (th_info st)) st'"
proof -
  let ?info = "th_info st" and ?i = "th_params st"
  consider (time) "vi_mode ?info = VIBRATE_TIME" | (preset) "vi_mode ?info = VIBRATE_PRESET"
    | (hd) "vi_mode ?info = VIBRATE_CUSTOM_HD"
    | (composite) "vi_mode ?info = VIBRATE_CUSTOM_COMPOSITE_EFFECT \<or> vi_mode ?info = VIBRATE_CUSTOM_COMPOSITE_TIME"
    | (other) "vi_mode ?info \<notin> {VIBRATE_TIME, VIBRATE_PRESET, VIBRATE_CUSTOM_HD, VIBRATE_CUSTOM_COMPOSITE_EFFECT,
        VIBRATE_CUSTOM_COMPOSITE_TIME}"
    by blast
  then show ?thesis
  proof cases
    case time
    with assms PlayOnce_stopped show ?thesis by (auto simp: play_def Let_def stop_mode_def)
  next
    case preset
    then show ?thesis using assms effect_loop_stopped
      by (auto simp: play_def Let_def stop_mode_def PlayEffect_def split: if_splits)
  next
    case hd
    with assms hd_loop_stopped show ?thesis by (auto simp: play_def Let_def stop_mode_def PlayCustomByHdHptic_def)
  next
    case composite
    then have "stop_mode ?info = MODE_PRESET" by (auto simp: stop_mode_def)
    moreover have "PlayCustomByCompositeEffect U V T ?info ?i (th_waves st) st = (SUCCESS, st')"
      using composite assms(1) by (auto simp: play_def Let_def)
    ultimately show ?thesis using assms composite_loop_stopped
      by (auto simp: PlayCustomByCompositeEffect_def PlayCompositeEffect_def split: option.splits)
  next
    case other
    with assms show ?thesis by (auto simp: play_def Let_def)
  qed
qed

section \<open>Preset effects\<close>

definition is_start :: "int \<times> device_call \<Rightarrow> bool" where
  "is_start c \<longleftrightarrow> (case snd c of CallStartByIntensity _ _ _ \<Rightarrow> True | _ \<Rightarrow> False)"

lemma is_start_simps [simp]:
  "is_start (t, CallStartByIntensity i e n)" "\<not> is_start (t, CallStop i m)"
  "\<not> is_start (t, CallPlayPattern i a)" "\<not> is_start (t, CallStartOnce i d)"
  by (simp_all add: is_start_def)

lemma stop_calls_no_start: "stop_calls i cs \<Longrightarrow> filter is_start cs = []"
  by (auto simp: stop_calls_def list_all_iff filter_empty_conv)

text \<open>The times of the starts a run adds to the calls.\<close>

definition start_times :: "'c thread \<Rightarrow> 'c thread \<Rightarrow> int list" where
  "start_times st st' = map fst (filter is_start (drop (length (th_calls st)) (th_calls st')))"

definition starts_from :: "int \<Rightarrow> int \<Rightarrow> int list \<Rightarrow> bool" where
  "starts_from c d ts \<longleftrightarrow> sorted_wrt (\<lambda>s t. s + d \<le> t) ts \<and> (\<forall>t\<in>set ts. c \<le> t)"

lemma effect_loop_starts:
  assumes "0 \<le> vi_duration info" and "vi_duration info \<le> 2147483637"
  shows "effect_loop V T info i k n st = (r, st') \<Longrightarrow>
    \<exists>new. th_calls st' = th_calls st @ new \<and> length (filter is_start new) \<le> n \<and>
      (r = SUCCESS \<longrightarrow> \<not> th_exitFlag st' \<longrightarrow> length (filter is_start new) = n) \<and>
      starts_from (th_clock st) (vi_duration info) (map fst (filter is_start new))"
proof (induction n arbitrary: k st)
  case 0
  then show ?case by (simp add: starts_from_def)
next
  case (Suc n)
  let ?p = "effect_prepare V T info i k st"
  obtain c s where c: "device_call (CallStartByIntensity i (vi_effect info) (vi_intensity info))
      (op_StartByIntensity V i (vi_effect info) (vi_intensity info)) ?p = (c, s)" by fastforce
  let ?w = "wait_for T (effect_duration info k) s"
  obtain cs where cs: "th_calls ?p = th_calls st @ cs" "stop_calls i cs" "th_clock st \<le> th_clock ?p"
    using effect_prepare_effect [of V T info i k st] by auto
  have s: "th_calls s = th_calls st @ cs @ [(th_clock ?p, CallStartByIntensity i (vi_effect info) (vi_intensity info))]"
    "th_clock s = th_clock ?p"
    using device_callD [OF c] cs by auto
  have d: "vi_duration info \<le> effect_duration info k"
    using assms by (simp add: effect_duration_def wrap32_small)
  have no: "filter is_start cs = []" "\<And>x. x \<in> set cs \<Longrightarrow> \<not> is_start x"
    using stop_calls_no_start [OF cs(2)] by (auto simp: filter_empty_conv)
  from effect_loop_round [OF Suc.prems c] show ?case
  proof (elim disjE conjE)
    assume "r = ERROR" "st' = s"
    with s cs no show ?thesis by (auto simp: starts_from_def)
  next
    assume "th_exitFlag ?w" "st' = snd (device_call (CallStop i MODE_PRESET) (op_Stop V i MODE_PRESET) ?w)"
    with s cs no show ?thesis by (auto simp: starts_from_def)
  next
    assume w: "\<not> th_exitFlag ?w" and l: "effect_loop V T info i (Suc k) n ?w = (r, st')"
    from Suc.IH [OF l] obtain new where new: "th_calls st' = th_calls ?w @ new" "length (filter is_start new) \<le> n"
      "r = SUCCESS \<longrightarrow> \<not> th_exitFlag st' \<longrightarrow> length (filter is_start new) = n"
      "starts_from (th_clock ?w) (vi_duration info) (map fst (filter is_start new))" by blast
    have "th_clock ?w = th_clock ?p + effect_duration info k"
      using wait_for_full [OF w] s(2) d assms(1) by simp
    then have "starts_from (th_clock st) (vi_duration info) (th_clock ?p # map fst (filter is_start new))"
      using new(4) d cs(3) assms(1) by (fastforce simp: starts_from_def)
    with new s no show ?thesis by simp
  qed
qed

text \<open>C17. A preset effect is started at most \<^verbatim>\<open>count\<close> times, at most a thousand times, and exactly \<^verbatim>\<open>count\<close> times
  when the thread succeeds without a stop request; two starts are at least the effect's duration
  apart, and no count outside 0 to 1000 starts anything.\<close>

theorem preset_starts_spaced:
  assumes "0 \<le> vi_duration info" and "vi_duration info \<le> 2147483637"
    and "PlayEffect V T info i st = (r, st')"
  shows "length (start_times st st') \<le> nat (min (vi_count info) 1000) \<and>
    (r = SUCCESS \<longrightarrow> \<not> th_exitFlag st' \<longrightarrow> int (length (start_times st st')) = vi_count info) \<and>
    (vi_count info < 0 \<or> vi_count info > 1000 \<longrightarrow> r = ERROR \<and> st' = st) \<and>
    sorted_wrt (\<lambda>s t. s + vi_duration info \<le> t) (start_times st st')"
proof (cases "vi_count info < 0 \<or> vi_count info > 1000")
  case True
  with assms(3) show ?thesis by (auto simp: PlayEffect_def start_times_def)
next
  case False
  then have "effect_loop V T info i 0 (nat (vi_count info)) st = (r, st')" using assms(3) by (simp add: PlayEffect_def)
  from effect_loop_starts [OF assms(1,2) this] obtain new where "th_calls st' = th_calls st @ new"
    "length (filter is_start new) \<le> nat (vi_count info)"
    "r = SUCCESS \<longrightarrow> \<not> th_exitFlag st' \<longrightarrow> length (filter is_start new) = nat (vi_count info)"
    "starts_from (th_clock st) (vi_duration info) (map fst (filter is_start new))" by blast
  with False show ?thesis by (auto simp: start_times_def starts_from_def)
qed

definition idle_thread :: "VibrateInfo \<Rightarrow> compatible_state option thread" where
  "idle_thread info = \<lparr>th_info = info, th_waves = [], th_params = mk_identifier 1 2, th_exitFlag = False,
     th_dev = Some compatible_init, th_script = [], th_clock = 0, th_calls = []\<rparr>"

abbreviation mock_device :: "compatible_state option hdi_ops" where
  "mock_device \<equiv> VibratorHdiConnection CompatibleConnection"

definition sample_preset :: VibrateInfo where
  "sample_preset = default_info\<lparr>vi_mode := VIBRATE_PRESET, vi_effect := ''haptic.fail'', vi_duration := 60, vi_count := 3\<rparr>"

definition mock_time :: "int \<Rightarrow> compatible_state option \<Rightarrow> compatible_state option" where
  "mock_time ms p = map_option VibrateProcess_end p"

lemma preset_starts_spaced_witness:
  "length (start_times (idle_thread sample_preset)
     (snd (PlayEffect mock_device mock_time sample_preset (mk_identifier 1 2) (idle_thread sample_preset)))) \<le> 3 \<and>
   sorted_wrt (\<lambda>s t. s + 60 \<le> t) (start_times (idle_thread sample_preset)
     (snd (PlayEffect mock_device mock_time sample_preset (mk_identifier 1 2) (idle_thread sample_preset))))"
proof -
  have d: "vi_duration sample_preset = 60" "vi_count sample_preset = 3" by (simp_all add: sample_preset_def)
  show ?thesis
    using preset_starts_spaced [of sample_preset mock_device mock_time "mk_identifier 1 2" "idle_thread sample_preset",
        OF _ _ prod.collapse [symmetric]] d
    by simp
qed

text \<open>C7. A stop request is answered: whatever a thread plays, when it ends successfully after a request
  that came while it was playing, the last thing it did is to stop the device, at the moment it
  ends and in the mode it was started in.\<close>

theorem stop_request_stops_device:
  assumes "play U V T st = (SUCCESS, st')" and "\<not> th_exitFlag st" and "th_exitFlag st'"
  shows "th_calls st' \<noteq> [] \<and> last (th_calls st') = (th_clock st', CallStop (th_params st) (stop_mode (th_info st)))"
  using play_stopped [OF assms] by (simp add: stopped_def)

lemma stop_request_stops_device_witness:
  "last (th_calls (snd (play (\<lambda>_. 0) mock_device mock_time (idle_thread sample_preset\<lparr>th_script := [None, Some 25]\<rparr>))))
     = (85, CallStop (mk_identifier 1 2) MODE_PRESET)"
proof -
  let ?p = "play (\<lambda>_. 0) mock_device mock_time (idle_thread sample_preset\<lparr>th_script := [None, Some 25]\<rparr>)"
  have "fst ?p = SUCCESS" and x: "th_exitFlag (snd ?p)" and c: "th_clock (snd ?p) = 85" by code_simp+
  then have "?p = (SUCCESS, snd ?p)" by (simp add: prod_eq_iff)
  from stop_request_stops_device [OF this _ x] c show ?thesis
    by (simp add: idle_thread_def stop_mode_def sample_preset_def)
qed

section \<open>High definition patterns\<close>

definition is_play :: "int \<times> device_call \<Rightarrow> bool" where
  "is_play c \<longleftrightarrow> (case snd c of CallPlayPattern _ _ \<Rightarrow> True | _ \<Rightarrow> False)"

lemma is_play_simps [simp]: "is_play (t, CallPlayPattern i a)" "\<not> is_play (t, CallStop i m)"
  by (simp_all add: is_play_def)

lemma stop_calls_no_play: "stop_calls i cs \<Longrightarrow> filter is_play cs = []"
  by (auto simp: stop_calls_def list_all_iff filter_empty_conv)

definition plays :: "'c thread \<Rightarrow> 'c thread \<Rightarrow> (int \<times> device_call) list" where
  "plays st st' = filter is_play (drop (length (th_calls st)) (th_calls st'))"

text \<open>Each play is late by at most the given amount and 30 ms for every pattern so far.\<close>

fun on_time :: "VibratorIdentifierIPC \<Rightarrow> int \<Rightarrow> int \<Rightarrow> VibratePattern list \<Rightarrow> (int \<times> device_call) list \<Rightarrow> bool" where
  "on_time i base late [] cs \<longleftrightarrow> cs = []"
| "on_time i base late (a # as) cs \<longleftrightarrow>
     (case cs of [] \<Rightarrow> False
      | c # cs' \<Rightarrow> snd c = CallPlayPattern i a \<and> base + pat_startTime a \<le> fst c
          \<and> fst c \<le> base + pat_startTime a + late + 30 \<and> on_time i base (late + 30) as cs')"

fun ordered_from :: "int \<Rightarrow> VibratePattern list \<Rightarrow> bool" where
  "ordered_from t [] \<longleftrightarrow> True"
| "ordered_from t (a # as) \<longleftrightarrow> t \<le> pat_startTime a \<and> pat_startTime a \<le> 2147483647 \<and> ordered_from (pat_startTime a) as"

lemma hd_loop_round:
  assumes "hd_loop V T i prev (a # as) st = (SUCCESS, st')" and "undisturbed st"
    and "w = wait_for T (case prev of None \<Rightarrow> pat_startTime a | Some p \<Rightarrow> wrap32 (pat_startTime a - p)) st"
    and "device_call (CallPlayPattern i a) (op_PlayPattern V i a) (HandleMultipleVibrations V T i w) = (c, s)"
  shows "hd_loop V T i (Some (pat_startTime a)) as s = (SUCCESS, st')"
proof -
  have "\<not> th_exitFlag w" using undisturbed_wait [OF assms(2)] assms(3) by (auto simp: undisturbed_def)
  with assms(1,3,4) show ?thesis by (auto simp: Let_def split: if_splits)
qed

lemma hd_loop_on_time:
  "hd_loop V T i prev as st = (SUCCESS, st') \<Longrightarrow> undisturbed st \<Longrightarrow>
   ordered_from (case prev of None \<Rightarrow> 0 | Some p \<Rightarrow> p) as \<Longrightarrow> 0 \<le> (case prev of None \<Rightarrow> 0 | Some p \<Rightarrow> p) \<Longrightarrow>
   base + (case prev of None \<Rightarrow> 0 | Some p \<Rightarrow> p) \<le> th_clock st \<Longrightarrow>
   th_clock st \<le> base + (case prev of None \<Rightarrow> 0 | Some p \<Rightarrow> p) + late \<Longrightarrow>
   \<exists>new. th_calls st' = th_calls st @ new \<and> on_time i base late as (filter is_play new)"
proof (induction as arbitrary: prev st late)
  case Nil
  then show ?case by simp
next
  case (Cons a as)
  let ?p = "case prev of None \<Rightarrow> 0 | Some p \<Rightarrow> p"
  let ?delay = "case prev of None \<Rightarrow> pat_startTime a | Some p \<Rightarrow> wrap32 (pat_startTime a - p)"
  let ?w = "wait_for T ?delay st"
  let ?h = "HandleMultipleVibrations V T i ?w"
  obtain c s where c: "device_call (CallPlayPattern i a) (op_PlayPattern V i a) ?h = (c, s)" by fastforce
  have delay: "?delay = pat_startTime a - ?p" "0 \<le> pat_startTime a - ?p"
    using Cons.prems(3,4) by (auto simp: wrap32_small split: option.splits)
  have w: "undisturbed ?w" "th_clock ?w = th_clock st + (pat_startTime a - ?p)"
    using undisturbed_wait [OF Cons.prems(2)] undisturbed_wait_clock [OF Cons.prems(2), of T ?delay] delay by auto
  obtain cs where h: "th_calls ?h = th_calls st @ cs" "stop_calls i cs" "th_clock ?w \<le> th_clock ?h"
    "th_clock ?h \<le> th_clock ?w + 30"
    using HandleMultipleVibrations_effect [of V T i ?w] by auto
  have s: "undisturbed s" "th_clock s = th_clock ?h" "th_calls s = th_calls st @ cs @ [(th_clock ?h, CallPlayPattern i a)]"
    using undisturbed_call [OF c] HandleMultipleVibrations_undisturbed [of V T i ?w] w(1) device_callD [OF c] h(1) by auto
  have "\<exists>new. th_calls st' = th_calls s @ new \<and> on_time i base (late + 30) as (filter is_play new)"
  proof (rule Cons.IH [of "Some (pat_startTime a)"])
    show "hd_loop V T i (Some (pat_startTime a)) as s = (SUCCESS, st')"
      by (rule hd_loop_round [OF Cons.prems(1,2) refl c])
  qed (use s h w Cons.prems delay in auto)
  then obtain new where new: "th_calls st' = th_calls s @ new" "on_time i base (late + 30) as (filter is_play new)" by blast
  have "on_time i base late (a # as) (filter is_play (cs @ [(th_clock ?h, CallPlayPattern i a)] @ new))"
    using stop_calls_no_play [OF h(2)] new(2) h w(2) Cons.prems(5,6) by simp
  with new(1) s(3) show ?case by (metis append_assoc)
qed

lemma on_time_nth:
  "on_time i base late as cs \<Longrightarrow> map snd cs = map (CallPlayPattern i) as \<and>
   (\<forall>k < length as. base + pat_startTime (as ! k) \<le> fst (cs ! k) \<and>
      fst (cs ! k) \<le> base + pat_startTime (as ! k) + late + 30 * (int k + 1))"
proof (induction i base late as cs rule: on_time.induct)
  case (2 i base late a as cs)
  then obtain c cs' where c: "cs = c # cs'" "snd c = CallPlayPattern i a" "base + pat_startTime a \<le> fst c"
    "fst c \<le> base + pat_startTime a + late + 30" "on_time i base (late + 30) as cs'"
    by (cases cs) auto
  from "2.IH" [OF c(1,5)] c(1-4) show ?case by (auto simp: nth_Cons' less_Suc_eq_0_disj algebra_simps)
qed auto

text \<open>C16. High definition patterns are played on time: without a stop request, every pattern of the
  package is handed to the driver, in order, not before its start time, and late by no more than 30 ms for each
  pattern played so far (the time spent on stopping what still runs). The times are those of the virtual clock, on which calls of the
  driver take no time and a wait ends when it is to.\<close>

theorem hd_patterns_on_time:
  assumes "PlayCustomByHdHptic V T info i st = (SUCCESS, st')" and "undisturbed st"
    and "ordered_from 0 (pkg_patterns (vi_package info))"
  shows "map snd (plays st st') = map (CallPlayPattern i) (pkg_patterns (vi_package info)) \<and>
    (\<forall>k < length (pkg_patterns (vi_package info)).
       th_clock st + pat_startTime (pkg_patterns (vi_package info) ! k) \<le> fst (plays st st' ! k) \<and>
       fst (plays st st' ! k) \<le> th_clock st + pat_startTime (pkg_patterns (vi_package info) ! k) + 30 * (int k + 1))"
proof -
  from hd_loop_on_time [of V T i None "pkg_patterns (vi_package info)" st st' "th_clock st" 0] assms
  obtain new where "th_calls st' = th_calls st @ new"
    "on_time i (th_clock st) 0 (pkg_patterns (vi_package info)) (filter is_play new)"
    by (auto simp: PlayCustomByHdHptic_def)
  with on_time_nth [OF this(2)] show ?thesis by (simp add: plays_def)
qed

definition sample_hd :: VibrateInfo where
  "sample_hd = default_info\<lparr>vi_mode := VIBRATE_CUSTOM_HD, vi_package := \<lparr>pkg_patterns =
     [\<lparr>pat_startTime = 20, pat_patternDuration = 0, pat_events = []\<rparr>,
      \<lparr>pat_startTime = 100, pat_patternDuration = 0, pat_events = []\<rparr>], pkg_packageDuration = 0\<rparr>\<rparr>"

lemma hd_patterns_on_time_witness:
  "map snd (plays (idle_thread sample_hd)
     (snd (PlayCustomByHdHptic mock_device mock_time sample_hd (mk_identifier 1 2) (idle_thread sample_hd)))) =
   map (CallPlayPattern (mk_identifier 1 2)) (pkg_patterns (vi_package sample_hd))"
proof -
  let ?p = "PlayCustomByHdHptic mock_device mock_time sample_hd (mk_identifier 1 2) (idle_thread sample_hd)"
  have "fst ?p = SUCCESS" by code_simp
  then have "?p = (SUCCESS, snd ?p)" by (simp add: prod_eq_iff)
  from hd_patterns_on_time [OF this] show ?thesis
    by (simp add: idle_thread_def undisturbed_def sample_hd_def)
qed

section \<open>Composite effects\<close>

text \<open>A list cut into pieces of \<open>n\<close>; the last may be shorter.\<close>

function chunks :: "nat \<Rightarrow> 'a list \<Rightarrow> 'a list list" where
  "chunks n [] = []"
| "chunks n (x # xs) = (x # take (n - 1) xs) # chunks n (drop (n - 1) xs)"
  by pat_completeness auto
termination by (relation "measure (length \<circ> snd)") auto

lemma concat_chunks: "concat (chunks n xs) = xs"
  by (induction n xs rule: chunks.induct) auto

lemma length_chunks: "0 < n \<Longrightarrow> c \<in> set (chunks n xs) \<Longrightarrow> c \<noteq> [] \<and> length c \<le> n"
  by (induction n xs rule: chunks.induct) auto

lemma chunks_full: "0 < n \<Longrightarrow> length ys = n \<Longrightarrow> chunks n (ys @ xs) = ys # chunks n xs"
  by (cases ys) auto

lemma chunks_last: "ys \<noteq> [] \<Longrightarrow> length ys \<le> n \<Longrightarrow> chunks n ys = [ys]"
  by (cases ys) auto

text \<open>What should happen: piece after piece, each when the delays before it have passed.\<close>

fun chunk_schedule ::
    "VibratorIdentifierIPC \<Rightarrow> HdfEffectType \<Rightarrow> int \<Rightarrow> CompositeEffect list list \<Rightarrow> (int \<times> device_call) list" where
  "chunk_schedule i ty c [] = []"
| "chunk_schedule i ty c (p # ps) = (c, CallEnableCompositeEffect i \<lparr>hce_type = ty, hce_effects = p\<rparr>)
     # chunk_schedule i ty (c + sum_list (map delay p)) ps"

definition delays_ok :: "CompositeEffect list \<Rightarrow> bool" where
  "delays_ok effs \<longleftrightarrow> list_all (\<lambda>e. 0 \<le> delay e) effs \<and> sum_list (map delay effs) \<le> 2147483647"

lemma delays_sum_nonneg: "list_all (\<lambda>e. 0 \<le> delay e) effs \<Longrightarrow> 0 \<le> sum_list (map delay effs)"
  by (rule sum_list_nonneg) (auto simp: list_all_iff)

lemma delays_ok_part: "delays_ok (xs @ ys) \<Longrightarrow> delays_ok xs \<and> delays_ok ys"
  using delays_sum_nonneg [of xs] delays_sum_nonneg [of ys] by (auto simp: delays_ok_def)

lemma delays_ok_wrap: "delays_ok xs \<Longrightarrow> wrap32 (sum_list (map delay xs)) = sum_list (map delay xs)"
  using delays_sum_nonneg [of xs] by (simp add: delays_ok_def wrap32_small)

lemma composite_loop_schedule:
  assumes ty: "ty = EFFECT_TYPE_TIME \<or> ty = EFFECT_TYPE_PRIMITIVE"
  shows "composite_loop V T i ty part (sum_list (map delay part)) es st = (SUCCESS, st') \<Longrightarrow> undisturbed st \<Longrightarrow>
    length part < 128 \<Longrightarrow> (part \<noteq> [] \<Longrightarrow> es \<noteq> []) \<Longrightarrow> delays_ok (part @ es) \<Longrightarrow>
    th_calls st' = th_calls st @ chunk_schedule i ty (th_clock st) (chunks 128 (part @ es)) \<and>
    th_clock st' = th_clock st + sum_list (map delay (part @ es))"
proof (induction es arbitrary: part st)
  case Nil
  then show ?case by (cases "part = []") simp_all
next
  case (Cons e es)
  let ?part = "part @ [e]"
  let ?d = "sum_list (map delay ?part)"
  have ok: "delays_ok ?part" "delays_ok es" using delays_ok_part [of ?part es] Cons.prems(5) by simp_all
  then have d: "wrap32 (sum_list (map delay part) + delay e) = ?d" "0 \<le> ?d"
    using delays_ok_wrap [OF ok(1)] delays_sum_nonneg [of ?part] by (simp_all add: delays_ok_def)
  show ?case
  proof (cases "length ?part \<ge> 128 \<or> es = []")
    case True
    obtain c s where c: "device_call (CallEnableCompositeEffect i \<lparr>hce_type = ty, hce_effects = ?part\<rparr>)
        (op_EnableCompositeEffect V i \<lparr>hce_type = ty, hce_effects = ?part\<rparr>) st = (c, s)" by fastforce
    let ?w = "wait_for T ?d s"
    have u: "undisturbed s" using undisturbed_call [OF c] Cons.prems(2) by simp
    have w: "undisturbed ?w" "th_clock ?w = th_clock st + ?d"
      "th_calls ?w = th_calls st @ [(th_clock st, CallEnableCompositeEffect i \<lparr>hce_type = ty, hce_effects = ?part\<rparr>)]"
      using undisturbed_wait [OF u] undisturbed_wait_clock [OF u] device_callD [OF c] d(2) by auto
    have l: "composite_loop V T i ty [] 0 es ?w = (SUCCESS, st')"
      using composite_loop_round [OF Cons.prems(1) ty True c] undisturbed_not_exit [OF w(1)] by (auto simp: d(1) simp del: map_append)
    have ch: "chunks 128 (part @ e # es) = ?part # chunks 128 es"
    proof (cases "es = []")
      case True
      with chunks_last [of ?part 128] Cons.prems(3) show ?thesis by simp
    next
      case False
      with \<open>length ?part \<ge> 128 \<or> es = []\<close> Cons.prems(3) chunks_full [of 128 ?part es] show ?thesis by simp
    qed
    from Cons.IH [of "[]" ?w] l w(1) ok(2)
    have "th_calls st' = th_calls ?w @ chunk_schedule i ty (th_clock ?w) (chunks 128 es) \<and>
        th_clock st' = th_clock ?w + sum_list (map delay es)" by simp
    with w(2,3) ch show ?thesis by simp
  next
    case False
    then have "composite_loop V T i ty ?part ?d es st = (SUCCESS, st')"
      using Cons.prems(1) composite_loop_collect [OF ty, of part es st] undisturbed_not_exit [OF Cons.prems(2)] d(1) by simp
    from Cons.IH [OF this Cons.prems(2)] False Cons.prems(5) show ?thesis by simp
  qed
qed

text \<open>C15. Composite effects are played on schedule: without a stop request the driver gets the effects that the
  request was transformed to, all of them and in order, in pieces of at most 128, each piece when exactly
  the delays of the effects before it have passed; the thread ends after the last delay.\<close>

theorem composite_pieces_on_schedule:
  assumes "PlayCustomByCompositeEffect U V T info i waves st = (SUCCESS, st')" and "undisturbed st"
    and "composite_effects U info i waves = Some h" and "hce_type h \<noteq> EFFECT_TYPE_BUTT" and "delays_ok (hce_effects h)"
  shows "th_calls st' = th_calls st @ chunk_schedule i (hce_type h) (th_clock st) (chunks 128 (hce_effects h)) \<and>
    concat (chunks 128 (hce_effects h)) = hce_effects h \<and>
    list_all (\<lambda>p. p \<noteq> [] \<and> length p \<le> 128) (chunks 128 (hce_effects h)) \<and>
    th_clock st' = th_clock st + sum_list (map delay (hce_effects h))"
proof -
  have "hce_type h = EFFECT_TYPE_TIME \<or> hce_type h = EFFECT_TYPE_PRIMITIVE"
    using assms(4) by (cases "hce_type h") simp_all
  moreover have "list_all (\<lambda>p. p \<noteq> [] \<and> length p \<le> 128) (chunks 128 (hce_effects h))"
    using length_chunks [of 128 _ "hce_effects h"] by (auto simp: list_all_iff)
  ultimately show ?thesis using composite_loop_schedule [of "hce_type h" V T i "[]" "hce_effects h" st st'] assms
    by (simp add: PlayCustomByCompositeEffect_def PlayCompositeEffect_def concat_chunks)
qed

definition sample_time :: VibrateInfo where
  "sample_time = default_info\<lparr>vi_mode := VIBRATE_CUSTOM_COMPOSITE_TIME, vi_package := two_events\<rparr>"

definition sample_composite :: HdfCompositeEffect where
  "sample_composite = \<lparr>hce_type = EFFECT_TYPE_TIME, hce_effects =
     [TimeEffect 100 40 80 40, TimeEffect 60 48 90 30, TimeEffect 48 0 0 0]\<rparr>"

lemma composite_pieces_on_schedule_witness:
  "th_calls (snd (PlayCustomByCompositeEffect (\<lambda>_. 0) mock_device mock_time sample_time (mk_identifier 1 2) []
     (idle_thread sample_time))) = [(0, CallEnableCompositeEffect (mk_identifier 1 2) sample_composite)]"
proof -
  let ?p = "PlayCustomByCompositeEffect (\<lambda>_. 0) mock_device mock_time sample_time (mk_identifier 1 2) []
     (idle_thread sample_time)"
  have "fst ?p = SUCCESS" by code_simp
  then have p: "?p = (SUCCESS, snd ?p)" by (simp add: prod_eq_iff)
  have h: "composite_effects (\<lambda>_. 0) sample_time (mk_identifier 1 2) [] = Some sample_composite" by code_simp
  show ?thesis using composite_pieces_on_schedule [OF p _ h]
    by (simp add: idle_thread_def undisturbed_def sample_composite_def delays_ok_def)
qed

section \<open>Events of one vibrator\<close>

lemma copy_pattern_fold:
  "fst (fold (copy_pattern i) as (out, d)) =
     out @ filter (\<lambda>a. pat_events a \<noteq> []) (map (\<lambda>a. a\<lparr>pat_events := index_events i a\<rparr>) as)"
  by (induction as arbitrary: out d) (auto simp: copy_pattern_def Let_def)

lemma copy_pattern_duration:
  "snd (fold (copy_pattern i) as (out, d)) =
     (let es = concat (map (index_events i) as) in if es = [] then d else ev_duration (last es))"
proof (induction as arbitrary: out d)
  case (Cons a as)
  then show ?case by (auto simp: copy_pattern_def Let_def last_append)
qed simp

text \<open>The events of one vibrator: the package that a thread transforms to primitive effects holds exactly the events
  with index 0 or with the vibrator's position, in order and at their places; patterns left without
  events are dropped, and nothing else of the request changes. A package meant for every vibrator keeps
  all its patterns with events.\<close>

theorem index_filter_exact:
  "pkg_patterns (vi_package (copyInfoWithIndexEvents info i)) =
     filter (\<lambda>a. pat_events a \<noteq> []) (map (\<lambda>a. a\<lparr>pat_events := index_events i a\<rparr>) (pkg_patterns (vi_package info))) \<and>
   concat (map pat_events (pkg_patterns (vi_package (copyInfoWithIndexEvents info i)))) =
     filter (\<lambda>e. ev_index e \<in> {0, id_position i}) (concat (map pat_events (pkg_patterns (vi_package info)))) \<and>
   (copyInfoWithIndexEvents info i)\<lparr>vi_package := vi_package info\<rparr> = info"
proof -
  obtain out d where f: "fold (copy_pattern i) (pkg_patterns (vi_package info)) ([], 0) = (out, d)" by fastforce
  have out: "out = filter (\<lambda>a. pat_events a \<noteq> []) (map (\<lambda>a. a\<lparr>pat_events := index_events i a\<rparr>) (pkg_patterns (vi_package info)))"
    using copy_pattern_fold [of i "pkg_patterns (vi_package info)" "[]" 0] f by simp
  have "concat (map pat_events (filter (\<lambda>a. pat_events a \<noteq> []) (map (\<lambda>a. a\<lparr>pat_events := index_events i a\<rparr>) as))) =
      filter (\<lambda>e. ev_index e \<in> {0, id_position i}) (concat (map pat_events as))" for as
    by (induction as) (simp_all add: index_events_def)
  with f out show ?thesis by (simp add: copyInfoWithIndexEvents_def)
qed

text \<open>
  The time effects are not made from the filtered package: the position of the vibrator makes no
  difference to them.
\<close>

lemma time_effects_unfiltered:
  "vi_mode info = VIBRATE_CUSTOM_COMPOSITE_TIME \<Longrightarrow>
   composite_effects U info i waves = composite_effects U info j waves"
  by (simp add: composite_effects_def copyInfoWithIndexEvents_def split: prod.split)

section \<open>The thread over the driver\<close>

text \<open>With any device that keeps the contract, an effect without a name ends the thread at once, with
  the device as it was.\<close>

context vibrator_device
begin

lemma unnamed_effect:
  assumes "vi_effect info = []" and "1 \<le> vi_count info" and "vi_count info \<le> 1000"
  shows "fst (PlayEffect dev T info i st) = ERROR \<and> th_dev (snd (PlayEffect dev T info i st)) = th_dev st"
proof -
  obtain n where n: "nat (vi_count info) = Suc n" using assms(2) by (cases "nat (vi_count info)") auto
  obtain c s where c: "device_call (CallStartByIntensity i (vi_effect info) (vi_intensity info))
      (op_StartByIntensity dev i (vi_effect info) (vi_intensity info)) (effect_prepare dev T info i 0 st) = (c, s)"
    by fastforce
  have "c \<noteq> SUCCESS" "th_dev s = th_dev st"
    using arg_cong [OF c, of fst] arg_cong [OF c, of "\<lambda>p. th_dev (snd p)"]
      unnamed_fails [of i "vi_intensity info" "th_dev st"] unnamed_unchanged [of i "vi_intensity info" "th_dev st"] assms(1)
    by (simp_all add: effect_prepare_def)
  then show ?thesis using c assms n by (simp add: PlayEffect_def Let_def effect_prepare_def)
qed

end

text \<open>A preset request without an effect name reaches neither the driver nor the mock: the thread fails, and the
  connection under the wrapper is as it was.\<close>

theorem unnamed_preset_fails:
  assumes "vi_effect info = []" and "1 \<le> vi_count info" and "vi_count info \<le> 1000"
  shows "fst (PlayEffect (VibratorHdiConnection (HdiConnection D)) T info i st) = ERROR \<and>
    th_dev (snd (PlayEffect (VibratorHdiConnection (HdiConnection D)) T info i st)) = th_dev st \<and>
    fst (PlayEffect mock_device T' info i st') = ERROR \<and> th_dev (snd (PlayEffect mock_device T' info i st')) = th_dev st'"
  using hdi.wrapped.unnamed_effect [OF assms] compatible.wrapped.unnamed_effect [OF assms] by auto

lemma unnamed_preset_fails_witness:
  "th_dev (snd (PlayEffect mock_device mock_time (sample_preset\<lparr>vi_effect := []\<rparr>) (mk_identifier 1 2)
     (idle_thread sample_preset))) = Some compatible_init"
proof -
  have "vi_effect (sample_preset\<lparr>vi_effect := []\<rparr>) = []" "1 \<le> vi_count (sample_preset\<lparr>vi_effect := []\<rparr>)"
    "vi_count (sample_preset\<lparr>vi_effect := []\<rparr>) \<le> 1000"
    by (simp_all add: sample_preset_def)
  from unnamed_preset_fails [OF this, where st' = "idle_thread sample_preset" and T' = mock_time and i = "mk_identifier 1 2",
      THEN conjunct2, THEN conjunct2, THEN conjunct2]
  show ?thesis by (simp add: idle_thread_def)
qed

end
