(* ===== verification/Dump.thy ===== *)
theory Dump
  imports VibratorInfos CStrings
begin

text \<open>
  The record of vibrations, \<^verbatim>\<open>services/miscdevice_service/src/miscdevice_dump.cpp\<close>: the queue of the
  last requests and its output. \<^verbatim>\<open>getopt_long\<close> is a parameter; output is the list of the lines
  written to the descriptor, and the current time is an argument.
\<close>

section \<open>The queue\<close>

record VibrateRecord =
  rec_startTime :: string
  rec_info :: VibrateInfo

text \<open>\<^verbatim>\<open>MAX_DUMP_RECORD_SIZE\<close> is 30.\<close>

definition UpdateRecordQueue :: "VibrateRecord \<Rightarrow> VibrateRecord list \<Rightarrow> VibrateRecord list" where
  "UpdateRecordQueue r q =
     (let q = q @ [r] in if length q > 30 then tl q else q)"

definition SaveVibrateRecord :: "string \<Rightarrow> VibrateInfo \<Rightarrow> VibrateRecord list \<Rightarrow> VibrateRecord list" where
  "SaveVibrateRecord now info q = UpdateRecordQueue \<lparr>rec_startTime = now, rec_info = info\<rparr> q"

section \<open>Output\<close>

definition usageMap :: "(int \<times> string) list" where
  "usageMap = [(USAGE_UNKNOWN, ''unknown''), (USAGE_ALARM, ''alarm''), (USAGE_RING, ''ring''),
     (USAGE_NOTIFICATION, ''notification''), (USAGE_COMMUNICATION, ''communication''), (USAGE_TOUCH, ''touch''),
     (USAGE_MEDIA, ''media''), (USAGE_PHYSICAL_FEEDBACK, ''physicalFeedback''),
     (USAGE_SIMULATE_REALITY, ''simulateReality'')]"

definition GetUsageName :: "int \<Rightarrow> string" where
  "GetUsageName usage = (case map_of usageMap usage of None \<Rightarrow> [] | Some n \<Rightarrow> n)"

definition newline :: string where
  "newline = [CHR 0x0A]"

definition record_line :: "VibrateRecord \<Rightarrow> string" where
  "record_line r =
     (let info = rec_info r;
          start = ''startTime:'' @ rec_startTime r @ '' | uid:'' @ to_string (vi_uid info) @ '' | pid:'' @
                  to_string (vi_pid info) @ '' | packageName:'' @ vi_packageName info;
          usage = '' | usage:'' @ GetUsageName (vi_usage info) @ newline
      in if vi_mode info = ''time'' then start @ '' | duration:'' @ to_string (vi_duration info) @ usage
         else if vi_mode info = ''preset''
              then start @ '' | effect:'' @ vi_effect info @ '' | count:'' @ to_string (vi_count info) @ usage
         else start @ usage)"

text \<open>Every record at the front is printed and goes to the back.\<close>

fun dump_loop :: "nat \<Rightarrow> VibrateRecord list \<Rightarrow> string list \<Rightarrow> VibrateRecord list \<times> string list" where
  "dump_loop 0 q out = (q, out)"
| "dump_loop (Suc n) q out = dump_loop n (tl (q @ [hd q])) (out @ [record_line (hd q)])"

definition DumpMiscdeviceRecord :: "VibrateRecord list \<Rightarrow> string list \<Rightarrow> VibrateRecord list \<times> string list" where
  "DumpMiscdeviceRecord q out =
     (if q = [] then (q, out) else dump_loop (min 30 (length q)) q out)"

definition DumpHelp :: "string list \<Rightarrow> string list" where
  "DumpHelp out = out @ [''Usage:'' @ newline, ''      -h, --help: dump help'' @ newline,
     ''      -r, --record: dump the list of vibrate recorded'' @ newline]"

definition dump_option :: "char \<Rightarrow> VibrateRecord list \<times> string list \<Rightarrow> VibrateRecord list \<times> string list" where
  "dump_option c = (\<lambda>(q, out).
     if c = CHR ''r'' then DumpMiscdeviceRecord q out
     else if c = CHR ''h'' then (q, DumpHelp out)
     else (q, out @ [''Unrecognized option, More info with: \"hidumper -s 3602 -a -h\"'' @ newline]))"

text \<open>\<open>getopt\<close> gives the options that \<^verbatim>\<open>getopt_long\<close> finds in the arguments, one after the other.\<close>

definition RunVibratorDump ::
    "(string list \<Rightarrow> char list) \<Rightarrow> string list \<Rightarrow> VibrateRecord list \<times> string list \<Rightarrow> VibrateRecord list \<times> string list" where
  "RunVibratorDump getopt args s = fold dump_option (getopt args) s"

definition has_prefix :: "string \<Rightarrow> string \<Rightarrow> bool" where
  "has_prefix p s \<longleftrightarrow> take (length p) s = p"

definition option_count :: "string \<Rightarrow> int" where
  "option_count s = (if has_prefix ''--'' s then 1 else if has_prefix ''-'' s then int (length s) - 1 else 0)"

definition ParseCommand ::
    "(string list \<Rightarrow> char list) \<Rightarrow> string list \<Rightarrow> VibrateRecord list \<times> string list \<Rightarrow> VibrateRecord list \<times> string list" where
  "ParseCommand getopt args = (\<lambda>(q, out).
     if sum_list (map option_count args) > 32 then (q, out @ [''Cmd param number not more than 32'' @ newline])
     else RunVibratorDump getopt args (q, out))"

text \<open>\<^verbatim>\<open>MiscdeviceService::Dump\<close>; the empty string takes the place of the program name.\<close>

definition Service_Dump ::
    "(string list \<Rightarrow> char list) \<Rightarrow> int \<Rightarrow> string list \<Rightarrow> VibrateRecord list \<Rightarrow> errcode \<times> VibrateRecord list \<times> string list" where
  "Service_Dump getopt fd args q =
     (if fd < 0 then (DUMP_PARAM_ERR, q, [])
      else if args = [] then (DUMP_PARAM_ERR, q, DumpHelp [''args cannot be empty'' @ newline])
      else (ERR_OK, ParseCommand getopt ([] # args) (q, [])))"

section \<open>The queue is the recent history\<close>

lemma UpdateRecordQueue_last:
  "UpdateRecordQueue r (drop (length h - 30) h) = drop (length (h @ [r]) - 30) (h @ [r])"
proof (cases "length h < 30")
  case True
  then show ?thesis by (simp add: UpdateRecordQueue_def)
next
  case False
  then have "drop (length h - 30) h \<noteq> []" "length (drop (length h - 30) h) = 30" by auto
  moreover have "tl (drop (length h - 30) h) = drop (length h - 29) h"
  proof -
    have "Suc (length h - 30) = length h - 29" using False by simp
    then show ?thesis by (metis drop_Suc tl_drop)
  qed
  ultimately show ?thesis using False by (simp add: UpdateRecordQueue_def)
qed

lemma dump_loop_rotate:
  "k \<le> length q \<Longrightarrow> dump_loop k q out = (drop k q @ take k q, out @ map record_line (take k q))"
proof (induction k arbitrary: q out)
  case (Suc k)
  then obtain x xs where q: "q = x # xs" by (cases q) auto
  with Suc show ?case by simp
qed simp

lemma dump_loop_all: "dump_loop (length q) q out = (q, out @ map record_line q)"
  using dump_loop_rotate [of "length q" q out] by simp

text \<open>The dump shows the recent history: after any sequence of saved vibrations the queue holds the last 30
  of them, printing it writes exactly one line for each, oldest first, and leaves the queue as it was.\<close>

theorem dump_shows_last_thirty:
  "fold (\<lambda>(now, info). SaveVibrateRecord now info) saved [] =
     drop (length saved - 30) (map (\<lambda>(now, info). \<lparr>rec_startTime = now, rec_info = info\<rparr>) saved) \<and>
   DumpMiscdeviceRecord (fold (\<lambda>(now, info). SaveVibrateRecord now info) saved []) [] =
     (fold (\<lambda>(now, info). SaveVibrateRecord now info) saved [],
      map record_line (fold (\<lambda>(now, info). SaveVibrateRecord now info) saved []))"
proof -
  let ?q = "fold (\<lambda>(now, info). SaveVibrateRecord now info) saved []"
  have q: "?q = drop (length saved - 30) (map (\<lambda>(now, info). \<lparr>rec_startTime = now, rec_info = info\<rparr>) saved)"
  proof (induction saved rule: rev_induct)
    case (snoc x xs)
    obtain now info where "x = (now, info)" by fastforce
    with snoc UpdateRecordQueue_last [of "\<lparr>rec_startTime = now, rec_info = info\<rparr>"
        "map (\<lambda>(now, info). \<lparr>rec_startTime = now, rec_info = info\<rparr>) xs"]
    show ?case by (simp add: SaveVibrateRecord_def)
  qed simp
  then have "length ?q \<le> 30" by simp
  then have "DumpMiscdeviceRecord ?q [] = (?q, map record_line ?q)"
    using dump_loop_all [of ?q "[]"] by (simp add: DumpMiscdeviceRecord_def min_absorb2)
  with q show ?thesis by simp
qed

end
