(* ===== verification/Service.thy ===== *)
theory Service
  imports VibratorThread PriorityManager Dump StdMap "HOL-Library.AList"
begin

text \<open>
  The service, \<^verbatim>\<open>services/miscdevice_service/src/miscdevice_service.cpp\<close>, without its lights: the
  table of devices and their threads, the checks of requests and the functions that start and stop
  threads. The handlers of the interface are in \<open>ServiceHandlers\<close>. The handlers run under the
  service's mutexes and are modelled as steps on the whole state; what runs between them (the
  threads) is the function \<open>w_join\<close>, what a thread that is told to end still does to the device,
  and the step \<open>thread_finished\<close>.
\<close>

section \<open>State\<close>

datatype MiscdeviceServiceState = STATE_STOPPED | STATE_RUNNING

datatype MiscdeviceDeviceId = LED | VIBRATOR | UNKNOWN

record InvalidVibratorInfo =
  maxInvalidVibratorId :: int
  invalidCallTimes :: int

text \<open>A thread of the table: the members of \<^verbatim>\<open>VibratorThread\<close> and whether it is running.\<close>

record motor = vibrator_thread +
  mt_running :: bool

definition new_thread :: motor where
  "new_thread = \<lparr>th_info = default_info, th_waves = [], th_params = mk_identifier (-1) (-1),
     th_exitFlag = False, mt_running = False\<rparr>"

text \<open>
  \<^verbatim>\<open>vibratorThreads\<close> is an unordered map; the order of the list stands for the order in which it is
  walked.
\<close>

record VibratorControlInfo =
  motorCount :: int
  vibratorThreads :: "(int \<times> motor) list"

definition add_thread :: "int \<Rightarrow> (int \<times> motor) list \<Rightarrow> (int \<times> motor) list" where
  "add_thread m ts = (if map_of ts m = None then ts @ [(m, new_thread)] else ts)"

definition mk_control :: "int list \<Rightarrow> VibratorControlInfo" where
  "mk_control ids = \<lparr>motorCount = int (length ids), vibratorThreads = fold add_thread ids []\<rparr>"

record VibratorAllInfos =
  baseInfo :: "VibratorInfoIPC list"
  controlInfo :: VibratorControlInfo
  capacityInfo :: VibratorCapacity
  waveInfo :: "HdfWaveInformation list"

definition mk_infos :: "int list \<Rightarrow> VibratorAllInfos" where
  "mk_infos ids = \<lparr>baseInfo = [], controlInfo = mk_control ids, capacityInfo = default_capacity, waveInfo = []\<rparr>"

type_synonym device_table = "(int, VibratorAllInfos) stdmap"

record HdfVibratorPlugInfo =
  plug_status :: int
  plug_deviceId :: int
  plug_deviceName :: string
  plug_vibratorCnt :: int

record plug_message =
  msg_client :: nat
  msg_status :: int
  msg_deviceId :: int
  msg_vibratorCnt :: int

text \<open>
  The members and statics of the service, the device behind the connection, the priority manager
  and the dump queue (singletons), and what has been sent to the clients. Clients are
  numbered by the address of their remote object.
\<close>

record 'c service =
  sv_dev :: 'c
  sv_devices :: device_table
  sv_clients :: "(nat, int) stdmap"
  sv_watched :: "nat list"
  sv_disablePids :: "int list"
  sv_invalid :: "(string \<times> InvalidVibratorInfo) list"
  sv_invalidCount :: int
  sv_timeCalls :: int
  sv_presetCalls :: int
  sv_fileCalls :: int
  sv_patternCalls :: int
  sv_state :: MiscdeviceServiceState
  sv_deviceIds :: "(MiscdeviceDeviceId \<times> bool) list"
  sv_ready :: bool
  sv_registered :: bool
  sv_mute :: bool
  sv_priority :: priority_state
  sv_records :: "VibrateRecord list"
  sv_messages :: "plug_message list"

text \<open>
  What a call depends on outside the service: the device operations, the caller (its token, ids
  and permission), the settings, the clock, system parameters and the system ability manager.
\<close>

datatype token = HapToken "string option" | NativeToken "string option" | ShellToken "string option" | OtherToken

record ('c, 'j) world =
  w_dev :: "'c hdi_ops"
  w_join :: "motor \<Rightarrow> 'c \<Rightarrow> 'c"
  w_connect :: "'c \<Rightarrow> errcode \<times> 'c"
  w_env :: "'j settings_env"
  w_token :: token
  w_pid :: int
  w_uid :: int
  w_permission :: bool
  w_time :: string
  w_muteParameter :: bool
  w_PRESET_INFO :: bool
  w_sm :: bool
  w_remote :: bool
  w_publish :: bool
  w_proxy :: "nat \<Rightarrow> bool"

definition GetPackageName :: "token \<Rightarrow> string" where
  "GetPackageName t =
     (case t of HapToken (Some n) \<Rightarrow> n | NativeToken (Some n) \<Rightarrow> n | ShellToken (Some n) \<Rightarrow> n | _ \<Rightarrow> [])"

section \<open>Reading the table\<close>

definition GetVibratorThread :: "VibratorIdentifierIPC \<Rightarrow> 'c service \<Rightarrow> motor option" where
  "GetVibratorThread i sv =
     (case sm_find (id_deviceId i) (sv_devices sv) of
        Some a \<Rightarrow> map_of (vibratorThreads (controlInfo a)) (id_vibratorId i)
      | None \<Rightarrow> None)"

text \<open>The first device with a local vibrator.\<close>

fun first_local :: "device_table \<Rightarrow> VibratorAllInfos option" where
  "first_local [] = None"
| "first_local ((d, a) # m) = (if list_ex info_isLocalVibrator (baseInfo a) then Some a else first_local m)"

definition GetHapticCapacityInfo :: "VibratorIdentifierIPC \<Rightarrow> 'c service \<Rightarrow> errcode \<times> VibratorCapacity" where
  "GetHapticCapacityInfo i sv =
     (if id_deviceId i \<noteq> -1 then
        (case sm_find (id_deviceId i) (sv_devices sv) of
           Some a \<Rightarrow> (ERR_OK, capacityInfo a) | None \<Rightarrow> (ERR_OK, default_capacity))
      else case first_local (sv_devices sv) of
             Some a \<Rightarrow> (ERR_OK, capacityInfo a) | None \<Rightarrow> (ERR_OK, default_capacity))"

definition GetAllWaveInfo :: "VibratorIdentifierIPC \<Rightarrow> 'c service \<Rightarrow> errcode \<times> HdfWaveInformation list" where
  "GetAllWaveInfo i sv =
     (if id_deviceId i \<noteq> -1 then
        (case sm_find (id_deviceId i) (sv_devices sv) of
           Some a \<Rightarrow> (ERR_OK, waveInfo a) | None \<Rightarrow> (ERR_OK, []))
      else case first_local (sv_devices sv) of
             Some a \<Rightarrow> (ERR_OK, waveInfo a) | None \<Rightarrow> (ERR_OK, []))"

definition GetLocalDeviceId :: "'c service \<Rightarrow> errcode + int" where
  "GetLocalDeviceId sv =
     (case first_local (sv_devices sv) of
        None \<Rightarrow> Inl ERROR
      | Some a \<Rightarrow> (case filter info_isLocalVibrator (baseInfo a) of [] \<Rightarrow> Inl ERROR | x # _ \<Rightarrow> Inr (info_deviceId x)))"

definition GetOneVibrator :: "VibratorIdentifierIPC \<Rightarrow> 'c service \<Rightarrow> VibratorInfoIPC list \<Rightarrow> errcode \<times> VibratorInfoIPC list" where
  "GetOneVibrator i sv out =
     (if sv_devices sv = [] then (ERROR, out)
      else case sm_find (id_deviceId i) (sv_devices sv) of
             None \<Rightarrow> (ERROR, out)
           | Some a \<Rightarrow>
               (case filter (\<lambda>v. id_vibratorId i = info_vibratorId v) (baseInfo a) of
                  [] \<Rightarrow> (NO_ERROR, out) | v # _ \<Rightarrow> (NO_ERROR, out @ [v])))"

section \<open>Invalid vibrator ids\<close>

definition SaveInvalidVibratorInfo :: "string \<Rightarrow> int \<Rightarrow> 'c service \<Rightarrow> 'c service" where
  "SaveInvalidVibratorInfo pageName invalidVibratorId sv =
     (case map_of (sv_invalid sv) pageName of
        Some v \<Rightarrow> sv\<lparr>sv_invalid := AList.update pageName
          \<lparr>maxInvalidVibratorId = (if maxInvalidVibratorId v < invalidVibratorId then invalidVibratorId
                                   else maxInvalidVibratorId v),
           invalidCallTimes = wrap32 (invalidCallTimes v + 1)\<rparr> (sv_invalid sv)\<rparr>
      | None \<Rightarrow> sv\<lparr>sv_invalid := AList.update pageName
          \<lparr>maxInvalidVibratorId = invalidVibratorId, invalidCallTimes = 1\<rparr> (sv_invalid sv)\<rparr>)"

definition ReportInvalidVibratorInfo :: "'c service \<Rightarrow> 'c service" where
  "ReportInvalidVibratorInfo sv = (if sv_invalid sv = [] then sv else sv\<lparr>sv_invalid := []\<rparr>)"

text \<open>One round of the loop of \<^verbatim>\<open>ReportCallTimes\<close>; the report itself is an event for the log.\<close>

definition ReportCallTimes :: "'c service \<Rightarrow> 'c service" where
  "ReportCallTimes sv =
     (ReportInvalidVibratorInfo sv)\<lparr>sv_timeCalls := 0, sv_presetCalls := 0, sv_fileCalls := 0, sv_patternCalls := 0\<rparr>"

definition IsVibratorIdValid ::
    "('c, 'j) world \<Rightarrow> VibratorInfoIPC list \<Rightarrow> int \<Rightarrow> 'c service \<Rightarrow> bool \<times> 'c service" where
  "IsVibratorIdValid W base target sv =
     (if list_ex (\<lambda>v. info_vibratorId v = target \<or> target = -1) base then (True, sv)
      else let n = wrap32 (sv_invalidCount sv + 1)
        in (False, SaveInvalidVibratorInfo (GetPackageName (w_token W)) target
              (sv\<lparr>sv_invalidCount := (if n = 5 then 0 else n)\<rparr>)))"

section \<open>The vibrators of a request\<close>

definition identifier_of :: "VibratorInfoIPC \<Rightarrow> VibratorIdentifierIPC" where
  "identifier_of v = \<lparr>id_deviceId = info_deviceId v, id_vibratorId = info_vibratorId v,
     id_position = info_position v, id_isLocalVibrator = info_isLocalVibrator v\<rparr>"

definition should_add :: "VibratorIdentifierIPC \<Rightarrow> VibratorInfoIPC \<Rightarrow> bool" where
  "should_add i v =
     (if id_deviceId i = -1 \<and> id_vibratorId i \<noteq> -1
      then info_isLocalVibrator v \<and> info_vibratorId v = id_vibratorId i
      else if id_deviceId i \<noteq> -1 \<and> id_vibratorId i \<noteq> -1 then info_vibratorId v = id_vibratorId i
      else if id_deviceId i = -1 \<and> id_vibratorId i = -1 then info_isLocalVibrator v
      else True)"

definition process_device :: "VibratorIdentifierIPC \<Rightarrow> VibratorAllInfos \<Rightarrow> VibratorIdentifierIPC list" where
  "process_device i a = map identifier_of (filter (should_add i) (baseInfo a))"

fun check_devices ::
    "('c, 'j) world \<Rightarrow> VibratorIdentifierIPC \<Rightarrow> device_table \<Rightarrow> VibratorIdentifierIPC list \<Rightarrow> 'c service
      \<Rightarrow> VibratorIdentifierIPC list \<times> 'c service" where
  "check_devices W i [] result sv = (result, sv)"
| "check_devices W i ((d, a) # m) result sv =
     (let (valid, sv) = IsVibratorIdValid W (baseInfo a) (id_vibratorId i) sv
      in if \<not> valid then check_devices W i m (result @ map identifier_of (baseInfo a)) sv
         else check_devices W i m (result @ process_device i a) sv)"

definition CheckDeviceIdIsValid ::
    "('c, 'j) world \<Rightarrow> VibratorIdentifierIPC \<Rightarrow> 'c service \<Rightarrow> VibratorIdentifierIPC list \<times> 'c service" where
  "CheckDeviceIdIsValid W i sv =
     (if id_deviceId i \<noteq> -1 then
        (case sm_find (id_deviceId i) (sv_devices sv) of
           Some a \<Rightarrow> (process_device i a, sv) | None \<Rightarrow> ([], sv))
      else check_devices W i (sv_devices sv) [] sv)"

section \<open>Threads\<close>

definition upd_motor :: "VibratorIdentifierIPC \<Rightarrow> (motor \<Rightarrow> motor) \<Rightarrow> 'c service \<Rightarrow> 'c service" where
  "upd_motor i f sv = sv\<lparr>sv_devices := map (\<lambda>(d, a).
     (d, if d = id_deviceId i
         then a\<lparr>controlInfo := (controlInfo a)\<lparr>vibratorThreads :=
                map (\<lambda>(m, t). (m, if m = id_vibratorId i then f t else t)) (vibratorThreads (controlInfo a))\<rparr>\<rparr>
         else a)) (sv_devices sv)\<rparr>"

definition dev_op :: "('c \<Rightarrow> errcode \<times> 'c) \<Rightarrow> 'c service \<Rightarrow> errcode \<times> 'c service" where
  "dev_op f sv = (let (ret, d) = f (sv_dev sv) in (ret, sv\<lparr>sv_dev := d\<rparr>))"

definition dev_running :: "('c, 'j) world \<Rightarrow> VibratorIdentifierIPC \<Rightarrow> 'c service \<Rightarrow> bool" where
  "dev_running W i sv = op_IsVibratorRunning (w_dev W) i (sv_dev sv)"

definition dev_stop :: "('c, 'j) world \<Rightarrow> VibratorIdentifierIPC \<Rightarrow> HdfVibratorMode \<Rightarrow> 'c service \<Rightarrow> 'c service" where
  "dev_stop W i m sv = snd (dev_op (op_Stop (w_dev W) i m) sv)"

text \<open>
  A running thread is told to end and waited for; then its exit flag and its request are cleared.
\<close>

definition StopVibrateThread :: "('c, 'j) world \<Rightarrow> VibratorIdentifierIPC \<Rightarrow> 'c service \<Rightarrow> 'c service" where
  "StopVibrateThread W i sv =
     (case GetVibratorThread i sv of
        None \<Rightarrow> sv
      | Some t \<Rightarrow>
          if \<not> mt_running t then sv
          else upd_motor i (\<lambda>t. ResetVibrateInfo (SetExitStatus False ((NotifyExit t)\<lparr>mt_running := False\<rparr>)))
                 (sv\<lparr>sv_dev := w_join W (NotifyExit t) (sv_dev sv)\<rparr>))"

definition stop_running_device :: "('c, 'j) world \<Rightarrow> VibratorIdentifierIPC \<Rightarrow> 'c service \<Rightarrow> 'c service" where
  "stop_running_device W i sv =
     (if dev_running W i sv then dev_stop W i MODE_HDHAPTIC (dev_stop W i MODE_PRESET sv) else sv)"

definition stop_one :: "('c, 'j) world \<Rightarrow> VibratorIdentifierIPC \<Rightarrow> 'c service \<Rightarrow> 'c service" where
  "stop_one W i sv =
     (case GetVibratorThread i sv of
        None \<Rightarrow> sv
      | Some t \<Rightarrow>
          if \<not> mt_running t \<and> \<not> dev_running W i sv then sv
          else StopVibrateThread W i (stop_running_device W i sv))"

definition StopVibratorService :: "('c, 'j) world \<Rightarrow> VibratorIdentifierIPC \<Rightarrow> 'c service \<Rightarrow> errcode \<times> 'c service" where
  "StopVibratorService W i sv =
     (let (result, sv) = CheckDeviceIdIsValid W i sv
      in if result = [] then (ERROR, sv) else (NO_ERROR, fold (stop_one W) result sv))"

definition FastVibratorEffect ::
    "('c, 'j) world \<Rightarrow> VibrateInfo \<Rightarrow> VibratorIdentifierIPC \<Rightarrow> 'c service \<Rightarrow> errcode \<times> 'c service" where
  "FastVibratorEffect W info i sv =
     (NO_ERROR, snd (dev_op (op_StartByIntensity (w_dev W) i (vi_effect info) (vi_intensity info)) sv))"

definition short_preset :: "VibrateInfo \<Rightarrow> VibrateInfo \<Rightarrow> bool" where
  "short_preset info current \<longleftrightarrow> vi_duration info \<le> 50 \<and> vi_duration current \<le> 50 \<and>
     vi_mode info = VIBRATE_PRESET \<and> vi_mode current = VIBRATE_PRESET \<and> vi_count info = 1"

definition StartVibrateThread ::
    "('c, 'j) world \<Rightarrow> VibrateInfo \<Rightarrow> VibratorIdentifierIPC \<Rightarrow> 'c service \<Rightarrow> 'c service" where
  "StartVibrateThread W info i sv =
     (case GetVibratorThread i sv of
        None \<Rightarrow> sv
      | Some t \<Rightarrow>
          let (ret, waves) = GetAllWaveInfo i sv in
          if ret \<noteq> ERR_OK then sv
          else let sv =
                 (if w_PRESET_INFO W \<and> short_preset info (th_info t)
                  then snd (FastVibratorEffect W info i (upd_motor i (UpdateVibratorEffect info i waves) sv))
                  else let sv = stop_running_device W i (StopVibrateThread W i sv);
                           sv = upd_motor i (UpdateVibratorEffect info i waves) sv
                    in upd_motor i (\<lambda>t. t\<lparr>mt_running := True\<rparr>) sv)
            in sv\<lparr>sv_records := SaveVibrateRecord (w_time W) info (sv_records sv)\<rparr>)"

text \<open>The thread's function has ended by itself.\<close>

definition thread_finished :: "VibratorIdentifierIPC \<Rightarrow> 'c \<Rightarrow> 'c service \<Rightarrow> 'c service" where
  "thread_finished i d sv = upd_motor i (\<lambda>t. t\<lparr>mt_running := False\<rparr>) (sv\<lparr>sv_dev := d\<rparr>)"

section \<open>Starting a request\<close>

definition RegisterDeviceMuteObserver :: "('c, 'j) world \<Rightarrow> 'c service \<Rightarrow> 'c service" where
  "RegisterDeviceMuteObserver W sv =
     sv\<lparr>sv_mute := w_muteParameter W, sv_priority := SetIgnoreSwitchStatus (w_muteParameter W) (sv_priority sv)\<rparr>"

definition register_once :: "('c, 'j) world \<Rightarrow> 'c service \<Rightarrow> 'c service" where
  "register_once W sv = (if sv_registered sv then sv else (RegisterDeviceMuteObserver W sv)\<lparr>sv_registered := True\<rparr>)"

definition thread_view_of :: "motor option \<Rightarrow> thread_view" where
  "thread_view_of t = map_option (\<lambda>t. (mt_running t, th_info t)) t"

definition Service_ShouldIgnoreVibrate ::
    "('c, 'j) world \<Rightarrow> VibrateInfo \<Rightarrow> VibratorIdentifierIPC \<Rightarrow> 'c service \<Rightarrow> bool \<times> 'c service" where
  "Service_ShouldIgnoreVibrate W info i sv =
     (if \<not> sv_ready sv then (False, sv)
      else let sv = register_once W sv;
               (v, p) = ShouldIgnoreVibrate (w_env W) info (thread_view_of (GetVibratorThread i sv))
                          (dev_running W i sv) (sv_priority sv)
        in (v \<noteq> VIBRATION, sv\<lparr>sv_priority := p\<rparr>))"

text \<open>The indices the events of a custom request name, empty for the other modes.\<close>

definition unique_indices :: "VibrateInfo \<Rightarrow> int list" where
  "unique_indices info =
     (if vi_mode info \<in> {VIBRATE_CUSTOM_HD, VIBRATE_CUSTOM_COMPOSITE_EFFECT, VIBRATE_CUSTOM_COMPOSITE_TIME, VIBRATE_BUTT}
      then concat (map (\<lambda>a. map ev_index (pat_events a)) (pkg_patterns (vi_package info))) else [])"

definition should_process :: "VibrateInfo \<Rightarrow> VibratorIdentifierIPC \<Rightarrow> bool" where
  "should_process info i \<longleftrightarrow> unique_indices info = [] \<or> 0 \<in> set (unique_indices info)
     \<or> id_position i \<in> set (unique_indices info)"

definition start_one ::
    "('c, 'j) world \<Rightarrow> VibrateInfo \<Rightarrow> VibratorIdentifierIPC \<Rightarrow> nat \<times> 'c service \<Rightarrow> nat \<times> 'c service" where
  "start_one W info i = (\<lambda>(ignored, sv).
     let shouldProcess = should_process info i;
         (ignore, sv) = (if id_isLocalVibrator i then Service_ShouldIgnoreVibrate W info i sv else (False, sv))
     in if ignore \<and> shouldProcess then (Suc ignored, sv)
        else if shouldProcess then (ignored, StartVibrateThread W info i sv)
        else (ignored, sv))"

definition StartVibrateThreadControl ::
    "('c, 'j) world \<Rightarrow> VibratorIdentifierIPC \<Rightarrow> VibrateInfo \<Rightarrow> 'c service \<Rightarrow> errcode \<times> 'c service" where
  "StartVibrateThreadControl W i info sv =
     (let (result, sv) = CheckDeviceIdIsValid W i sv
      in if result = [] then (ERROR, sv)
         else if vi_pid info \<in> set (sv_disablePids sv) then (ERROR, sv)
         else let (ignored, sv) = fold (start_one W info) result (0, sv)
           in (if ignored = length result then ERROR else ERR_OK, sv))"

definition PerformVibrationControl ::
    "('c, 'j) world \<Rightarrow> VibratorIdentifierIPC \<Rightarrow> int \<Rightarrow> VibrateInfo \<Rightarrow> 'c service \<Rightarrow> errcode \<times> 'c service" where
  "PerformVibrationControl W i duration info sv =
     (let (ret, sv) = StartVibrateThreadControl W i info sv
      in if ret \<noteq> ERR_OK then (ERROR, sv) else (ERR_OK, sv))"

end
