(* ===== verification/MergeParameters.thy ===== *)
theory MergeParameters
  imports Float32 VibratorInfos
begin

text \<open>
  The adjustment of a package by the parameters of a request: \<^verbatim>\<open>CheckVibratorParmeters\<close> and
  \<^verbatim>\<open>MergeVibratorParmeters\<close> of \<^verbatim>\<open>miscdevice_service.cpp\<close>. \<open>U\<close> is the result of converting a float
  that does not fit \<^verbatim>\<open>int32_t\<close>.
\<close>

section \<open>Operations\<close>

definition CheckVibratorParmeters :: "VibrateParameter \<Rightarrow> bool" where
  "CheckVibratorParmeters p \<longleftrightarrow>
     \<not> (vp_intensity p < 0 \<or> vp_intensity p > 100 \<or> vp_frequency p < -100 \<or> vp_frequency p > 100)"

definition intensityScale :: "VibrateParameter \<Rightarrow> rat" where
  "intensityScale p = fl32 (fl32 (of_int (vp_intensity p)) / 100)"

definition scaled :: "(rat option \<Rightarrow> int) \<Rightarrow> VibrateParameter \<Rightarrow> int \<Rightarrow> int" where
  "scaled U p x = double_to_int32 U (Some (fl32 (fl32 (of_int x) * intensityScale p)))"

definition merge_event :: "(rat option \<Rightarrow> int) \<Rightarrow> VibrateParameter \<Rightarrow> VibrateEvent \<Rightarrow> VibrateEvent" where
  "merge_event U p e =
     (if ev_tag e = EVENT_TAG_TRANSIENT \<or> ev_points e = []
      then e\<lparr>ev_intensity := max (min (scaled U p (ev_intensity e)) 100) 0,
             ev_frequency := max (min (wrap32 (ev_frequency e + vp_frequency p)) 100) 0\<rparr>
      else e\<lparr>ev_points := map (\<lambda>c. c
             \<lparr>cp_intensity := max (min (scaled U p (cp_intensity c)) 100) 0,
              cp_frequency := max (min (wrap32 (cp_frequency c + vp_frequency p)) 100) (-100)\<rparr>) (ev_points e)\<rparr>)"

definition MergeVibratorParmeters ::
    "(rat option \<Rightarrow> int) \<Rightarrow> VibrateParameter \<Rightarrow> VibratePackage \<Rightarrow> VibratePackage" where
  "MergeVibratorParmeters U p k =
     (if vp_intensity p = 100 \<and> vp_frequency p = 0 then k
      else k\<lparr>pkg_patterns := map (\<lambda>a. a\<lparr>pat_events := map (merge_event U p) (pat_events a)\<rparr>) (pkg_patterns k)\<rparr>)"

section \<open>The scaled intensity\<close>

text \<open>Two roundings move the product of two percentages by less than a thousandth.\<close>

lemma scale_error:
  assumes "0 \<le> vp_intensity p" and "vp_intensity p \<le> 100" and "0 \<le> x" and "x \<le> 100"
  shows "\<bar>fl32 (fl32 (of_int x) * intensityScale p) - of_int (x * vp_intensity p) / 100\<bar> < 1 / 1000"
proof -
  let ?q = "of_int (vp_intensity p) / 100 :: rat" and ?x = "of_int x :: rat"
  let ?s = "intensityScale p"
  have q: "0 \<le> ?q" "?q \<le> 1" and x: "0 \<le> ?x" "?x \<le> 100" using assms by simp_all
  have s: "\<bar>?s - ?q\<bar> \<le> 1 / 16777216"
    using fl32_error [of ?q] q assms by (simp add: intensityScale_def fl32_of_int)
  have "\<bar>?x * ?s - ?x * ?q\<bar> = ?x * \<bar>?s - ?q\<bar>"
    by (simp only: right_diff_distrib [symmetric] abs_mult abs_of_nonneg [OF x(1)])
  also have "\<dots> \<le> 100 * (1 / 16777216)"
    using x s by (intro mult_mono) auto
  finally have xs: "\<bar>?x * ?s - ?x * ?q\<bar> \<le> 100 / 16777216" by simp
  have "?x * ?q \<le> 100" using mult_mono [of ?x 100 ?q 1] x q by simp
  moreover have "0 \<le> ?x * ?q" using x q by simp
  ultimately have "\<bar>?x * ?s\<bar> \<le> 101" using xs unfolding abs_le_iff by linarith
  then have "\<bar>fl32 (?x * ?s) - ?x * ?s\<bar> \<le> 101 / 16777216" using fl32_error [of "?x * ?s"] by simp
  with xs have "\<bar>fl32 (?x * ?s) - ?x * ?q\<bar> < 1 / 1000"
    unfolding abs_le_iff abs_less_iff by linarith
  then show ?thesis using assms by (simp add: fl32_of_int)
qed

lemma scaled_bounds:
  assumes "0 \<le> vp_intensity p" and "vp_intensity p \<le> 100" and "0 \<le> x" and "x \<le> 100"
  shows "scaled U p x \<le> x * vp_intensity p div 100 \<and> x * vp_intensity p div 100 - 1 \<le> scaled U p x \<and>
    (x * vp_intensity p mod 100 \<noteq> 0 \<longrightarrow> scaled U p x = x * vp_intensity p div 100)"
proof -
  let ?r = "fl32 (fl32 (of_int x) * intensityScale p)"
  define q m where "q = x * vp_intensity p div 100" and "m = x * vp_intensity p mod 100"
  have xm: "x * vp_intensity p = 100 * q + m" "0 \<le> m" "m \<le> 99" by (simp_all add: q_def m_def)
  have q: "0 \<le> q" "q \<le> 100"
    using assms mult_mono [of x 100 "vp_intensity p" 100] by (simp_all add: q_def pos_imp_zdiv_nonneg_iff)
  have r: "\<bar>?r - (of_int q + of_int m / 100)\<bar> < 1 / 1000"
    using scale_error [OF assms] by (simp add: xm(1) add_divide_distrib)
  have m: "0 \<le> (of_int m :: rat)" "(of_int m :: rat) \<le> 99" using xm(2,3) by simp_all
  have up: "?r < of_int q + 1" and low: "of_int q - 1 / 1000 < ?r"
    using r m unfolding abs_less_iff by linarith+
  have exact: "of_int q < ?r" if "m \<noteq> 0"
  proof -
    have "1 \<le> (of_int m :: rat)" using that xm(2) by simp
    with r show ?thesis unfolding abs_less_iff by linarith
  qed
  have t: "q - 1 \<le> trunc ?r" "trunc ?r \<le> q" "m \<noteq> 0 \<longrightarrow> trunc ?r = q"
    using up low exact q(1)
    by (auto simp: trunc_def le_ceiling_iff ceiling_le_iff floor_le_iff le_floor_iff floor_eq_iff ceiling_eq_iff
        less_imp_le)
  then have "int32 (trunc ?r)" using q by (simp add: int32_def)
  then have "scaled U p x = trunc ?r" by (simp add: scaled_def double_to_int32_def)
  with t show ?thesis by (simp add: q_def m_def)
qed

section \<open>Properties\<close>

text \<open>What an adjusted event may differ in: it keeps its place and shape and is not made stronger.\<close>

definition weaker_point :: "VibrateCurvePoint \<Rightarrow> VibrateCurvePoint \<Rightarrow> bool" where
  "weaker_point c d \<longleftrightarrow> cp_time d = cp_time c \<and> 0 \<le> cp_intensity d \<and> cp_intensity d \<le> cp_intensity c \<and>
     -100 \<le> cp_frequency d \<and> cp_frequency d \<le> 100"

definition weaker_event :: "VibrateEvent \<Rightarrow> VibrateEvent \<Rightarrow> bool" where
  "weaker_event e f \<longleftrightarrow> ev_tag f = ev_tag e \<and> ev_time f = ev_time e \<and> ev_duration f = ev_duration e \<and>
     ev_index f = ev_index e \<and>
     (if ev_tag e = EVENT_TAG_TRANSIENT \<or> ev_points e = []
      then 0 \<le> ev_intensity f \<and> ev_intensity f \<le> ev_intensity e \<and> 0 \<le> ev_frequency f \<and> ev_frequency f \<le> 100 \<and>
        ev_points f = ev_points e
      else ev_intensity f = ev_intensity e \<and> ev_frequency f = ev_frequency e \<and>
        list_all2 weaker_point (ev_points e) (ev_points f))"

definition percent_event :: "VibrateEvent \<Rightarrow> bool" where
  "percent_event e \<longleftrightarrow> 0 \<le> ev_intensity e \<and> ev_intensity e \<le> 100 \<and>
     list_all (\<lambda>c. 0 \<le> cp_intensity c \<and> cp_intensity c \<le> 100) (ev_points e)"

lemma scaled_weaker:
  assumes "CheckVibratorParmeters p" and "0 \<le> x" and "x \<le> 100"
  shows "max (min (scaled U p x) 100) 0 \<le> x"
proof -
  have p: "0 \<le> vp_intensity p" "vp_intensity p \<le> 100" using assms(1) by (auto simp: CheckVibratorParmeters_def)
  have "x * vp_intensity p div 100 \<le> x"
    using mult_left_mono [OF p(2) assms(2)] zdiv_mono1 [of "x * vp_intensity p" "x * 100" 100] by simp
  with scaled_bounds [OF p assms(2,3), of U] assms(2,3) show ?thesis by auto
qed

lemma merge_event_weaker:
  assumes "CheckVibratorParmeters p" and "percent_event e"
  shows "weaker_event e (merge_event U p e)"
  using assms scaled_weaker [OF assms(1), of _ U]
  by (auto simp: weaker_event_def merge_event_def percent_event_def weaker_point_def list_all2_conv_all_nth list_all_length)

text \<open>Merging the parameters of a request never makes a vibration stronger: with parameters that pass
  the check, every pattern and event keeps its place, no intensity grows (although it is scaled with floats)
  or turns negative, the frequencies are cut to their range, and full intensity without a shift changes nothing.\<close>

theorem merge_never_amplifies:
  assumes "CheckVibratorParmeters p" and "list_all (\<lambda>a. list_all percent_event (pat_events a)) (pkg_patterns k)"
  shows "(if vp_intensity p = 100 \<and> vp_frequency p = 0 then MergeVibratorParmeters U p k = k
    else pkg_packageDuration (MergeVibratorParmeters U p k) = pkg_packageDuration k \<and>
      list_all2 (\<lambda>a b. pat_startTime b = pat_startTime a \<and> pat_patternDuration b = pat_patternDuration a \<and>
          list_all2 weaker_event (pat_events a) (pat_events b))
        (pkg_patterns k) (pkg_patterns (MergeVibratorParmeters U p k)))"
  using assms merge_event_weaker [OF assms(1), of _ U]
  by (auto simp: MergeVibratorParmeters_def list_all2_conv_all_nth list_all_length)

definition half_power :: VibrateParameter where
  "half_power = \<lparr>vp_intensity = 50, vp_frequency = -20, vp_reserved = 0, vp_sessionId = 0\<rparr>"

definition one_beat :: VibratePackage where
  "one_beat = \<lparr>pkg_patterns = [\<lparr>pat_startTime = 0, pat_patternDuration = 0, pat_events =
     [\<lparr>ev_tag = EVENT_TAG_TRANSIENT, ev_time = 0, ev_duration = 48, ev_intensity = 71, ev_frequency = 10,
       ev_index = 0, ev_points = []\<rparr>]\<rparr>], pkg_packageDuration = 48\<rparr>"

lemma merge_never_amplifies_witness:
  "length (pkg_patterns (MergeVibratorParmeters (\<lambda>_. 0) half_power one_beat)) = 1 \<and>
   ev_intensity (hd (pat_events (hd (pkg_patterns (MergeVibratorParmeters (\<lambda>_. 0) half_power one_beat))))) \<le> 71"
proof -
  have "CheckVibratorParmeters half_power"
    "list_all (\<lambda>a. list_all percent_event (pat_events a)) (pkg_patterns one_beat)" by code_simp+
  from merge_never_amplifies [OF this, of "\<lambda>_. 0"] show ?thesis
    by (auto simp: half_power_def one_beat_def list_all2_Cons1 weaker_event_def)
qed

end
