(* ===== verification/ServiceHandlers.thy ===== *)
theory ServiceHandlers
  imports Service MergeParameters
begin

text \<open>
  The handlers of the service, \<^verbatim>\<open>services/miscdevice_service/src/miscdevice_service.cpp\<close>: the calls of
  the clients, the events of the driver and the system, and the life cycle of the ability. Each is a
  step on the state of \<open>Service\<close>.
\<close>

section \<open>Requests to vibrate\<close>

text \<open>What every request holds of its caller.\<close>

definition base_info :: "('c, 'j) world \<Rightarrow> string \<Rightarrow> int \<Rightarrow> bool \<Rightarrow> VibrateInfo" where
  "base_info W mode usage systemUsage = default_info
     \<lparr>vi_mode := mode, vi_packageName := GetPackageName (w_token W), vi_pid := w_pid W, vi_uid := w_uid W,
      vi_usage := usage, vi_systemUsage := systemUsage\<rparr>"

definition start_control ::
    "('c, 'j) world \<Rightarrow> VibratorIdentifierIPC \<Rightarrow> VibrateInfo \<Rightarrow> 'c service \<Rightarrow> errcode \<times> 'c service" where
  "start_control W i info sv =
     (let (ret, sv) = StartVibrateThreadControl W i info sv
      in if ret \<noteq> ERR_OK then (ERROR, sv) else (NO_ERROR, sv))"

definition Vibrate ::
    "('c, 'j) world \<Rightarrow> VibratorIdentifierIPC \<Rightarrow> int \<Rightarrow> int \<Rightarrow> bool \<Rightarrow> 'c service \<Rightarrow> errcode \<times> 'c service" where
  "Vibrate W i timeOut usage systemUsage sv =
     (let sv = sv\<lparr>sv_timeCalls := wrap32 (sv_timeCalls sv + 1)\<rparr> in
      if \<not> w_permission W then (PERMISSION_DENIED, sv)
      else if timeOut \<le> 0 \<or> timeOut > 1800000 \<or> usage \<ge> USAGE_MAX \<or> usage < 0 then (PARAMETER_ERROR, sv)
      else start_control W i ((base_info W VIBRATE_TIME usage systemUsage)\<lparr>vi_duration := timeOut\<rparr>) sv)"

definition PlayVibratorEffectCheckAuthAndParam :: "('c, 'j) world \<Rightarrow> int \<Rightarrow> int \<Rightarrow> errcode" where
  "PlayVibratorEffectCheckAuthAndParam W count usage =
     (if \<not> w_permission W then PERMISSION_DENIED
      else if count < 1 \<or> count > 1000 \<or> usage \<ge> USAGE_MAX \<or> usage < 0 then PARAMETER_ERROR
      else ERR_OK)"

definition PlayVibratorEffect ::
    "('c, 'j) world \<Rightarrow> VibratorIdentifierIPC \<Rightarrow> string \<Rightarrow> int \<Rightarrow> int \<Rightarrow> bool \<Rightarrow> 'c service \<Rightarrow> errcode \<times> 'c service" where
  "PlayVibratorEffect W i effect count usage systemUsage sv =
     (let sv = sv\<lparr>sv_presetCalls := wrap32 (sv_presetCalls sv + 1)\<rparr>;
          checkResult = PlayVibratorEffectCheckAuthAndParam W count usage in
      if checkResult \<noteq> ERR_OK then (checkResult, sv)
      else case op_FindEffectInfo (w_dev W) i effect (sv_dev sv) of
        None \<Rightarrow> (ERROR, sv)
      | Some effectInfo \<Rightarrow>
          if \<not> hei_isSupportEffect effectInfo then (PARAMETER_ERROR, sv)
          else start_control W i ((base_info W VIBRATE_PRESET usage systemUsage)
                 \<lparr>vi_duration := hei_duration effectInfo, vi_effect := effect, vi_count := count, vi_intensity := 100\<rparr>) sv)"

definition PlayPrimitiveEffectCheckAuthAndParam :: "('c, 'j) world \<Rightarrow> int \<Rightarrow> int \<Rightarrow> errcode" where
  "PlayPrimitiveEffectCheckAuthAndParam W intensity usage =
     (if \<not> w_permission W then PERMISSION_DENIED
      else if intensity \<le> 0 \<or> intensity > 100 \<or> usage \<ge> USAGE_MAX \<or> usage < 0 then PARAMETER_ERROR
      else ERR_OK)"

definition PlayPrimitiveEffect ::
    "('c, 'j) world \<Rightarrow> VibratorIdentifierIPC \<Rightarrow> string \<Rightarrow> PrimitiveEffectIPC \<Rightarrow> 'c service \<Rightarrow> errcode \<times> 'c service" where
  "PlayPrimitiveEffect W i effect p sv =
     (let sv = sv\<lparr>sv_presetCalls := wrap32 (sv_presetCalls sv + 1)\<rparr>;
          checkResult = PlayPrimitiveEffectCheckAuthAndParam W (pe_intensity p) (pe_usage p) in
      if checkResult \<noteq> ERR_OK then (checkResult, sv)
      else case op_FindEffectInfo (w_dev W) i effect (sv_dev sv) of
        None \<Rightarrow> (ERROR, sv)
      | Some effectInfo \<Rightarrow>
          if \<not> hei_isSupportEffect effectInfo then (DEVICE_OPERATION_FAILED, sv)
          else start_control W i ((base_info W VIBRATE_PRESET (pe_usage p) (pe_systemUsage p))
                 \<lparr>vi_duration := hei_duration effectInfo, vi_effect := effect, vi_count := pe_count p,
                  vi_intensity := pe_intensity p\<rparr>) sv)"

definition CheckAuthAndParam ::
    "('c, 'j) world \<Rightarrow> int \<Rightarrow> VibrateParameter \<Rightarrow> VibratorIdentifierIPC \<Rightarrow> 'c service \<Rightarrow> errcode" where
  "CheckAuthAndParam W usage p i sv =
     (if \<not> w_permission W then PERMISSION_DENIED
      else let (ret, c) = GetHapticCapacityInfo i sv in
        if ret \<noteq> ERR_OK then ERROR
        else if \<not> (isSupportHdHaptic c \<or> isSupportPresetMapping c \<or> isSupportTimeDelay c) then IS_NOT_SUPPORTED
        else if usage \<ge> USAGE_MAX \<or> usage < 0 \<or> \<not> CheckVibratorParmeters p then PARAMETER_ERROR
        else ERR_OK)"

text \<open>The mode that a capacity selects; a device without any keeps the mode it has.\<close>

definition custom_mode :: "VibratorCapacity \<Rightarrow> string \<Rightarrow> string" where
  "custom_mode c mode =
     (if isSupportHdHaptic c then VIBRATE_CUSTOM_HD
      else if isSupportPresetMapping c then VIBRATE_CUSTOM_COMPOSITE_EFFECT
      else if isSupportTimeDelay c then VIBRATE_CUSTOM_COMPOSITE_TIME else mode)"

definition PlayVibratorCustom ::
    "(rat option \<Rightarrow> int) \<Rightarrow> ('c, 'j) world \<Rightarrow> VibratorIdentifierIPC \<Rightarrow> VibratePackage \<Rightarrow> CustomHapticInfoIPC
      \<Rightarrow> 'c service \<Rightarrow> errcode \<times> 'c service" where
  "PlayVibratorCustom U W i pkg h sv =
     (let sv = sv\<lparr>sv_fileCalls := wrap32 (sv_fileCalls sv + 1)\<rparr>;
          checkResult = CheckAuthAndParam W (ch_usage h) (ch_parameter h) i sv in
      if checkResult \<noteq> ERR_OK then (checkResult, sv)
      else let info = (base_info W [] (ch_usage h) (ch_systemUsage h))
                 \<lparr>vi_package := MergeVibratorParmeters U (ch_parameter h) pkg\<rparr>;
               (ret, c) = GetHapticCapacityInfo i sv
        in if ret \<noteq> ERR_OK then (ERROR, sv)
           else start_control W i (info\<lparr>vi_mode := custom_mode c (vi_mode info)\<rparr>) sv)"

definition PlayPatternCheckAuthAndParam :: "('c, 'j) world \<Rightarrow> int \<Rightarrow> VibrateParameter \<Rightarrow> errcode" where
  "PlayPatternCheckAuthAndParam W usage p =
     (if \<not> w_permission W then PERMISSION_DENIED
      else if usage \<ge> USAGE_MAX \<or> usage < 0 \<or> \<not> CheckVibratorParmeters p then PARAMETER_ERROR
      else ERR_OK)"

text \<open>The mode without high definition support, where \<^verbatim>\<open>custom.hd\<close> has been dealt with.\<close>

definition composite_mode :: "VibratorCapacity \<Rightarrow> string \<Rightarrow> string" where
  "composite_mode c mode =
     (if isSupportPresetMapping c then VIBRATE_CUSTOM_COMPOSITE_EFFECT
      else if isSupportTimeDelay c then VIBRATE_CUSTOM_COMPOSITE_TIME else mode)"

definition PlayPattern ::
    "(rat option \<Rightarrow> int) \<Rightarrow> ('c, 'j) world \<Rightarrow> VibratorIdentifierIPC \<Rightarrow> VibratePattern \<Rightarrow> CustomHapticInfoIPC
      \<Rightarrow> 'c service \<Rightarrow> errcode \<times> 'c service" where
  "PlayPattern U W i a h sv =
     (let sv = sv\<lparr>sv_patternCalls := wrap32 (sv_patternCalls sv + 1)\<rparr>;
          checkResult = PlayPatternCheckAuthAndParam W (ch_usage h) (ch_parameter h) in
      if checkResult \<noteq> ERR_OK then (checkResult, sv)
      else let session = vp_sessionId (ch_parameter h);
               pattern = \<lparr>pat_startTime = (if session > 0 then pat_startTime a else 0), pat_patternDuration = 0,
                          pat_events = pat_events a\<rparr>;
               package = MergeVibratorParmeters U (ch_parameter h) \<lparr>pkg_patterns = [pattern], pkg_packageDuration = 0\<rparr>;
               info = (base_info W VIBRATE_BUTT (ch_usage h) (ch_systemUsage h))\<lparr>vi_sessionId := session\<rparr>;
               (ret, c) = GetHapticCapacityInfo i sv
        in if ret \<noteq> ERR_OK then (ERROR, sv)
           else if isSupportHdHaptic c then
             (let (result, sv) = PerformVibrationControl W i (pat_patternDuration a) info sv
              in if result \<noteq> ERR_OK then (result, sv)
                 else if session > 0 then dev_op (op_PlayPatternBySessionId (w_dev W) i session (hd (pkg_patterns package))) sv
                 else dev_op (op_PlayPattern (w_dev W) i (hd (pkg_patterns package))) sv)
           else PerformVibrationControl W i (pat_patternDuration a)
                  (info\<lparr>vi_mode := composite_mode c (vi_mode info), vi_package := package\<rparr>) sv)"

definition PlayPackageBySessionId ::
    "('c, 'j) world \<Rightarrow> VibratorIdentifierIPC \<Rightarrow> VibratePackage \<Rightarrow> CustomHapticInfoIPC \<Rightarrow> 'c service \<Rightarrow> errcode \<times> 'c service" where
  "PlayPackageBySessionId W i package h sv =
     (let checkResult = PlayPatternCheckAuthAndParam W (ch_usage h) (ch_parameter h) in
      if checkResult \<noteq> ERR_OK then (checkResult, sv)
      else let session = vp_sessionId (ch_parameter h);
               info = (base_info W VIBRATE_BUTT (ch_usage h) (ch_systemUsage h))\<lparr>vi_sessionId := session\<rparr>;
               (ret, c) = GetHapticCapacityInfo i sv
        in if ret \<noteq> ERR_OK then (ERROR, sv)
           else if isSupportHdHaptic c then
             (let (result, sv) = PerformVibrationControl W i (pkg_packageDuration package) info sv
              in if result \<noteq> ERR_OK then (result, sv)
                 else dev_op (op_PlayPackageBySessionId (w_dev W) i session package) sv)
           else PerformVibrationControl W i (pkg_packageDuration package)
                  (info\<lparr>vi_mode := composite_mode c (vi_mode info), vi_packageIPC := package\<rparr>) sv)"

section \<open>Requests to stop\<close>

definition StopVibrator :: "('c, 'j) world \<Rightarrow> VibratorIdentifierIPC \<Rightarrow> 'c service \<Rightarrow> errcode \<times> 'c service" where
  "StopVibrator W i sv = (if \<not> w_permission W then (PERMISSION_DENIED, sv) else StopVibratorService W i sv)"

definition stop_mode_one :: "('c, 'j) world \<Rightarrow> string \<Rightarrow> VibratorIdentifierIPC \<Rightarrow> 'c service \<Rightarrow> 'c service" where
  "stop_mode_one W mode i sv =
     (case GetVibratorThread i sv of
        None \<Rightarrow> sv
      | Some t \<Rightarrow>
          if \<not> mt_running t \<and> \<not> dev_running W i sv then sv
          else if vi_mode (th_info t) \<noteq> mode then sv
          else let sv = StopVibrateThread W i sv
            in if dev_running W i sv then dev_stop W i MODE_PRESET sv else sv)"

definition StopVibratorByMode ::
    "('c, 'j) world \<Rightarrow> VibratorIdentifierIPC \<Rightarrow> string \<Rightarrow> 'c service \<Rightarrow> errcode \<times> 'c service" where
  "StopVibratorByMode W i mode sv =
     (if \<not> w_permission W then (PERMISSION_DENIED, sv)
      else let (result, sv) = CheckDeviceIdIsValid W i sv
        in if result = [] then (ERROR, sv) else (NO_ERROR, fold (stop_mode_one W mode) result sv))"

definition stop_session_one :: "('c, 'j) world \<Rightarrow> 32 word \<Rightarrow> VibratorIdentifierIPC \<Rightarrow> 'c service \<Rightarrow> 'c service" where
  "stop_session_one W session i sv =
     (if dev_running W i sv then snd (dev_op (op_StopVibrateBySessionId (w_dev W) i session) sv) else sv)"

definition StopVibrateBySessionId ::
    "('c, 'j) world \<Rightarrow> VibratorIdentifierIPC \<Rightarrow> 32 word \<Rightarrow> 'c service \<Rightarrow> errcode \<times> 'c service" where
  "StopVibrateBySessionId W i session sv =
     (if \<not> w_permission W then (PERMISSION_DENIED, sv)
      else let (result, sv) = CheckDeviceIdIsValid W i sv
        in if result = [] then (ERROR, sv) else (NO_ERROR, fold (stop_session_one W session) result sv))"

section \<open>Queries\<close>

definition IsSupportEffect ::
    "('c, 'j) world \<Rightarrow> VibratorIdentifierIPC \<Rightarrow> string \<Rightarrow> 'c service \<Rightarrow> errcode + bool" where
  "IsSupportEffect W i effect sv =
     (case op_FindEffectInfo (w_dev W) i effect (sv_dev sv) of
        None \<Rightarrow> Inl ERROR | Some e \<Rightarrow> Inr (hei_isSupportEffect e))"

definition Service_GetDelayTime :: "('c, 'j) world \<Rightarrow> VibratorIdentifierIPC \<Rightarrow> 'c service \<Rightarrow> errcode + int" where
  "Service_GetDelayTime W i sv =
     (let (ret, c) = GetHapticCapacityInfo i sv in
      if ret \<noteq> ERR_OK then Inl ERROR else op_GetDelayTime (w_dev W) i (GetVibrateMode c) (sv_dev sv))"

definition GetHapticStartUpTime :: "('c, 'j) world \<Rightarrow> VibratorIdentifierIPC \<Rightarrow> int \<Rightarrow> 'c service \<Rightarrow> errcode + int" where
  "GetHapticStartUpTime W i mode sv =
     (case op_GetDelayTime (w_dev W) i mode (sv_dev sv) of Inl _ \<Rightarrow> Inl ERROR | Inr startUpTime \<Rightarrow> Inr startUpTime)"

definition Service_GetVibratorCapacity :: "VibratorIdentifierIPC \<Rightarrow> 'c service \<Rightarrow> errcode + VibratorCapacity" where
  "Service_GetVibratorCapacity i sv =
     (let (ret, c) = GetHapticCapacityInfo i sv in if ret \<noteq> ERR_OK then Inl ERROR else Inr c)"

section \<open>The device table\<close>

definition ConvertToServerInfos ::
    "HdfVibratorInfo list \<Rightarrow> VibratorCapacity \<Rightarrow> HdfWaveInformation list \<Rightarrow> string \<Rightarrow> VibratorAllInfos \<Rightarrow> VibratorAllInfos" where
  "ConvertToServerInfos infos c waves deviceName a =
     a\<lparr>baseInfo := baseInfo a @ map (\<lambda>v.
          \<lparr>info_deviceId = hvi_deviceId v, info_vibratorId = hvi_vibratorId v, info_deviceName = deviceName,
           info_isSupportHdHaptic = isSupportHdHaptic c, info_isLocalVibrator = hvi_isLocal v, info_position = 0\<rparr>) infos,
       capacityInfo := c, waveInfo := waves\<rparr>"

definition InsertVibratorInfo ::
    "('c, 'j) world \<Rightarrow> int \<Rightarrow> string \<Rightarrow> HdfVibratorInfo list \<Rightarrow> 'c service \<Rightarrow> 'c service" where
  "InsertVibratorInfo W deviceId deviceName vibratorInfo sv =
     (let infos = filter (\<lambda>v. sm_find (hvi_deviceId v) (sv_devices sv) = None \<and> hvi_deviceId v = deviceId) vibratorInfo
      in case infos of
           [] \<Rightarrow> sv
         | v # _ \<Rightarrow>
             let i = mk_identifier (hvi_deviceId v) (hvi_vibratorId v);
                 c = (case op_GetVibratorCapacity (w_dev W) i default_capacity (sv_dev sv) of
                        Inl _ \<Rightarrow> default_capacity | Inr c \<Rightarrow> c);
                 waves = snd (op_GetAllWaveInfo (w_dev W) i (sv_dev sv));
                 a = ConvertToServerInfos infos c waves deviceName (mk_infos (map hvi_vibratorId infos))
             in sv\<lparr>sv_devices := sm_insert (hvi_deviceId v) a (sv_devices sv)\<rparr>)"

definition online_step ::
    "('c, 'j) world \<Rightarrow> HdfVibratorInfo list \<Rightarrow> HdfVibratorInfo \<Rightarrow> 'c service \<Rightarrow> 'c service" where
  "online_step W infos v sv =
     (if sm_find (hvi_deviceId v) (sv_devices sv) \<noteq> None then sv
      else InsertVibratorInfo W (hvi_deviceId v) [] infos sv)"

definition GetOnlineVibratorInfo :: "('c, 'j) world \<Rightarrow> 'c service \<Rightarrow> 'c service" where
  "GetOnlineVibratorInfo W sv =
     (if sv_devices sv \<noteq> [] then sv
      else let (ret, infos) = op_GetVibratorInfo (w_dev W) (sv_dev sv)
        in if ret \<noteq> NO_ERROR \<or> infos = [] then sv else fold (online_step W infos) infos sv)"

definition Service_GetVibratorList ::
    "('c, 'j) world \<Rightarrow> VibratorIdentifierIPC \<Rightarrow> 'c service \<Rightarrow> VibratorInfoIPC list \<times> 'c service" where
  "Service_GetVibratorList W i sv =
     (let sv = GetOnlineVibratorInfo W sv in
      (if id_deviceId i = -1 \<and> id_vibratorId i = -1 then concat (map (\<lambda>(d, a). baseInfo a) (sv_devices sv))
       else if id_deviceId i = -1 \<and> id_vibratorId i \<noteq> -1 then
         (case GetLocalDeviceId sv of Inl _ \<Rightarrow> [] | Inr d \<Rightarrow> snd (GetOneVibrator (mk_identifier d (id_vibratorId i)) sv []))
       else if id_deviceId i \<noteq> -1 \<and> id_vibratorId i = -1 then
         (case sm_find (id_deviceId i) (sv_devices sv) of None \<Rightarrow> [] | Some a \<Rightarrow> baseInfo a)
       else snd (GetOneVibrator i sv []), sv))"

text \<open>Without a device id, the device of the last local vibrator of the table is asked.\<close>

definition Service_GetEffectInfo ::
    "('c, 'j) world \<Rightarrow> VibratorIdentifierIPC \<Rightarrow> string \<Rightarrow> 'c service \<Rightarrow> errcode + EffectInfoIPC" where
  "Service_GetEffectInfo W i effectType sv =
     (if sv_devices sv = [] then Inr \<lparr>ei_duration = 0, ei_isSupportEffect = False\<rparr>
      else let locals = filter info_isLocalVibrator (concat (map (\<lambda>(d, a). baseInfo a) (sv_devices sv)));
               localIdentifier = mk_identifier (if locals = [] then -1 else info_deviceId (last locals)) (-1);
               (ret, e) = op_GetEffectInfo (w_dev W) (if id_deviceId i = -1 then localIdentifier else i) effectType (sv_dev sv)
        in if ret \<noteq> NO_ERROR then Inl ERROR
           else Inr \<lparr>ei_duration = hei_duration e, ei_isSupportEffect = hei_isSupportEffect e\<rparr>)"

text \<open>A device is plugged in or out: the table follows, and every client with a proxy is told.\<close>

definition plug_messages :: "('c, 'j) world \<Rightarrow> HdfVibratorPlugInfo \<Rightarrow> 'c service \<Rightarrow> plug_message list" where
  "plug_messages W info sv = map (\<lambda>(k, pid). \<lparr>msg_client = k, msg_status = plug_status info,
       msg_deviceId = plug_deviceId info, msg_vibratorCnt = plug_vibratorCnt info\<rparr>)
     (filter (\<lambda>(k, pid). w_proxy W k) (sv_clients sv))"

definition stop_listed :: "('c, 'j) world \<Rightarrow> int \<Rightarrow> VibratorInfoIPC \<Rightarrow> 'c service \<Rightarrow> 'c service" where
  "stop_listed W d v sv = snd (StopVibratorService W (mk_identifier d (info_vibratorId v)) sv)"

definition SendMsgToClient :: "('c, 'j) world \<Rightarrow> HdfVibratorPlugInfo \<Rightarrow> 'c service \<Rightarrow> 'c service" where
  "SendMsgToClient W info sv =
     (let sv =
        (if plug_status info = 0 then
           (case sm_find (plug_deviceId info) (sv_devices sv) of
              None \<Rightarrow> sv
            | Some a \<Rightarrow>
                let sv = fold (stop_listed W (plug_deviceId info)) (baseInfo a) sv
                in sv\<lparr>sv_devices := sm_erase (plug_deviceId info) (sv_devices sv)\<rparr>)
         else InsertVibratorInfo W (plug_deviceId info) (plug_deviceName info)
                (snd (op_GetVibratorInfo (w_dev W) (sv_dev sv))) sv)
      in sv\<lparr>sv_messages := sv_messages sv @ plug_messages W info sv\<rparr>)"

section \<open>Clients\<close>

text \<open>A remote object is \<open>None\<close> when it is the null pointer.\<close>

definition SaveClientPid :: "nat option \<Rightarrow> int \<Rightarrow> 'c service \<Rightarrow> 'c service" where
  "SaveClientPid c pid sv =
     (case c of
        None \<Rightarrow> sv
      | Some k \<Rightarrow> if length (sv_clients sv) \<ge> 1024 then sv else sv\<lparr>sv_clients := sm_insert k pid (sv_clients sv)\<rparr>)"

definition FindClientPid :: "nat option \<Rightarrow> 'c service \<Rightarrow> int" where
  "FindClientPid c sv =
     (case c of None \<Rightarrow> -1 | Some k \<Rightarrow> (case sm_find k (sv_clients sv) of None \<Rightarrow> -1 | Some pid \<Rightarrow> pid))"

definition DestroyClientPid :: "nat option \<Rightarrow> 'c service \<Rightarrow> 'c service" where
  "DestroyClientPid c sv =
     (case c of
        None \<Rightarrow> sv
      | Some k \<Rightarrow> (case sm_find k (sv_clients sv) of
                     None \<Rightarrow> sv | Some pid \<Rightarrow> sv\<lparr>sv_clients := sm_erase k (sv_clients sv)\<rparr>))"

text \<open>\<open>sv_watched\<close> lists the remote objects whose death is watched.\<close>

definition RegisterClientDeathRecipient :: "nat option \<Rightarrow> int \<Rightarrow> 'c service \<Rightarrow> 'c service" where
  "RegisterClientDeathRecipient c pid sv =
     (case c of None \<Rightarrow> sv | Some k \<Rightarrow> SaveClientPid c pid (sv\<lparr>sv_watched := sv_watched sv @ [k]\<rparr>))"

definition UnregisterClientDeathRecipient :: "nat option \<Rightarrow> 'c service \<Rightarrow> 'c service" where
  "UnregisterClientDeathRecipient c sv =
     (case c of
        None \<Rightarrow> sv
      | Some k \<Rightarrow> if FindClientPid c sv = -1 then sv
                  else DestroyClientPid c (sv\<lparr>sv_watched := filter (\<lambda>x. x \<noteq> k) (sv_watched sv)\<rparr>))"

definition TransferClientRemoteObject :: "('c, 'j) world \<Rightarrow> nat option \<Rightarrow> 'c service \<Rightarrow> errcode \<times> 'c service" where
  "TransferClientRemoteObject W c sv =
     (if w_pid W < 0 then (ERROR, sv) else (ERR_OK, RegisterClientDeathRecipient c (w_pid W) sv))"

definition SubscribeVibratorPlugInfo :: "('c, 'j) world \<Rightarrow> nat option \<Rightarrow> errcode" where
  "SubscribeVibratorPlugInfo W c = (if w_pid W < 0 then ERROR else if c = None then ERROR else ERR_OK)"

definition motors :: "device_table \<Rightarrow> (int \<times> int) list" where
  "motors m = concat (map (\<lambda>(d, a). map (\<lambda>(v, t). (d, v)) (vibratorThreads (controlInfo a))) m)"

text \<open>The request of the motor is read in its turn, after the motors before it have been stopped.\<close>

definition death_step :: "('c, 'j) world \<Rightarrow> int \<Rightarrow> int \<times> int \<Rightarrow> 'c service \<Rightarrow> 'c service" where
  "death_step W clientPid = (\<lambda>(d, v) sv.
     case GetVibratorThread (mk_identifier d v) sv of
       None \<Rightarrow> sv
     | Some t \<Rightarrow> if clientPid \<noteq> -1 \<and> clientPid = vi_pid (th_info t)
                 then snd (StopVibratorService W (mk_identifier d v) sv) else sv)"

definition Service_ProcessDeathObserver :: "('c, 'j) world \<Rightarrow> nat option \<Rightarrow> 'c service \<Rightarrow> 'c service" where
  "Service_ProcessDeathObserver W client sv =
     (let clientPid = FindClientPid client sv
      in UnregisterClientDeathRecipient client (fold (death_step W clientPid) (motors (sv_devices sv)) sv))"

section \<open>Disabled callers\<close>

definition DisableVibratorByPid :: "('c, 'j) world \<Rightarrow> int \<Rightarrow> 'c service \<Rightarrow> errcode \<times> 'c service" where
  "DisableVibratorByPid W pid sv =
     (if \<not> w_permission W then (PERMISSION_DENIED, sv)
      else if \<not> IsSystemServiceCalling (w_env W) then (PERMISSION_DENIED, sv)
      else (ERR_OK, if pid \<in> set (sv_disablePids sv) then sv else sv\<lparr>sv_disablePids := sv_disablePids sv @ [pid]\<rparr>))"

definition EnableVibratorByPid :: "('c, 'j) world \<Rightarrow> int \<Rightarrow> 'c service \<Rightarrow> errcode \<times> 'c service" where
  "EnableVibratorByPid W pid sv =
     (if \<not> w_permission W then (PERMISSION_DENIED, sv)
      else if \<not> IsSystemServiceCalling (w_env W) then (PERMISSION_DENIED, sv)
      else (ERR_OK, sv\<lparr>sv_disablePids := remove1 pid (sv_disablePids sv)\<rparr>))"

section \<open>The ability\<close>

definition InitInterface :: "('c, 'j) world \<Rightarrow> 'c service \<Rightarrow> bool \<times> 'c service" where
  "InitInterface W sv =
     (let (ret, sv) = dev_op (w_connect W) sv
      in if ret \<noteq> ERR_OK then (False, sv) else (True, GetOnlineVibratorInfo W sv))"

definition RegisterVibratorPlugCb :: "('c, 'j) world \<Rightarrow> 'c service \<Rightarrow> bool \<times> 'c service" where
  "RegisterVibratorPlugCb W sv =
     (let (ret, sv) = dev_op (op_RegisterVibratorPlugCallback (w_dev W)) sv in (ret = ERR_OK, sv))"

text \<open>\<^verbatim>\<open>lightExist_\<close> and \<^verbatim>\<open>vibratorExist_\<close> are false and never set.\<close>

definition OnStart :: "('c, 'j) world \<Rightarrow> 'c service \<Rightarrow> 'c service" where
  "OnStart W sv =
     (if sv_state sv = STATE_RUNNING then sv
      else let sv = snd (InitInterface W sv) in
        if \<not> w_publish W then sv
        else snd (RegisterVibratorPlugCb W (sv\<lparr>sv_deviceIds :=
               AList.update VIBRATOR False (AList.update LED False (sv_deviceIds sv)), sv_state := STATE_RUNNING\<rparr>)))"

definition OnStop :: "('c, 'j) world \<Rightarrow> 'c service \<Rightarrow> 'c service" where
  "OnStop W sv =
     (if sv_state sv = STATE_STOPPED then sv
      else snd (dev_op (op_DestroyHdiConnection (w_dev W)) (sv\<lparr>sv_state := STATE_STOPPED\<rparr>)))"

text \<open>
  \<^verbatim>\<open>OnAddSystemAbility\<close>: only the data service changes the state, the other abilities lead to
  subscriptions outside; \<open>data_service\<close> is its number.
\<close>

definition init_priority :: "('c, 'j) world \<Rightarrow> 'c service \<Rightarrow> bool \<times> 'c service" where
  "init_priority W sv =
     (let (ok, p) = Init (w_env W) (w_sm W) (w_remote W) (sv_priority sv)
      in (ok, sv\<lparr>sv_priority := p, sv_ready := sv_ready sv \<or> ok\<rparr>))"

definition OnAddSystemAbility :: "('c, 'j) world \<Rightarrow> int \<Rightarrow> int \<Rightarrow> 'c service \<Rightarrow> 'c service" where
  "OnAddSystemAbility W data_service systemAbilityId sv =
     (if systemAbilityId = data_service then if sv_ready sv then sv else snd (init_priority W sv) else sv)"

definition OnReceiveEvent :: "('c, 'j) world \<Rightarrow> string \<Rightarrow> 'c service \<Rightarrow> 'c service" where
  "OnReceiveEvent W action sv =
     (if action = ''usual.event.DATA_SHARE_READY'' then
        if sv_ready sv then sv
        else let (ok, sv) = init_priority W sv in if ok then register_once W sv else sv
      else sv)"

definition OnReceiveUserSwitchEvent :: "('c, 'j) world \<Rightarrow> string \<Rightarrow> string \<Rightarrow> 'c service \<Rightarrow> 'c service" where
  "OnReceiveUserSwitchEvent W user_switched action sv =
     (if action = user_switched
      then sv\<lparr>sv_priority := ReregisterCurrentUserObserver (w_env W) (sv_priority sv)\<rparr> else sv)"

text \<open>The mute parameter has changed; muting stops every local vibrator.\<close>

definition ParameterCallback :: "('c, 'j) world \<Rightarrow> bool \<Rightarrow> 'c service \<Rightarrow> 'c service" where
  "ParameterCallback W null sv =
     (if null then sv
      else let sv = RegisterDeviceMuteObserver W sv
        in if sv_mute sv then snd (StopVibratorService W (mk_identifier (-1) (-1)) sv) else sv)"

end
