(* ===== verification/ServiceTable.thy ===== *)
theory ServiceTable
  imports ServiceHandlers
begin

text \<open>
  Lemmas on the steps of the service: what looking up a thread gives after each step, the vibrators a
  request means, and the invariant of the state with its preservation by every function of
  \<open>Service\<close> and \<open>ServiceHandlers\<close>.
\<close>

section \<open>Looking up threads\<close>

definition same_motor :: "VibratorIdentifierIPC \<Rightarrow> VibratorIdentifierIPC \<Rightarrow> bool" where
  "same_motor i j \<longleftrightarrow> id_deviceId i = id_deviceId j \<and> id_vibratorId i = id_vibratorId j"

lemma same_motor_refl [simp]: "same_motor i i"
  by (simp add: same_motor_def)

lemma same_motor_thread: "same_motor i j \<Longrightarrow> GetVibratorThread j sv = GetVibratorThread i sv"
  by (auto simp: same_motor_def GetVibratorThread_def split: option.split)

lemma sm_find_map_snd: "sm_find d (map (\<lambda>(d, a). (d, f d a)) m) = map_option (f d) (sm_find d m)"
  by (induction m) (auto simp: sm_find_def)

lemma map_of_map_snd: "map_of (map (\<lambda>(d, a). (d, f d a)) m) d = map_option (f d) (map_of m d)"
  by (induction m) auto

lemma GetVibratorThread_upd_motor [simp]:
  "GetVibratorThread j (upd_motor i f sv) =
     map_option (if same_motor i j then f else (\<lambda>t. t)) (GetVibratorThread j sv)"
proof -
  let ?g = "\<lambda>d a. if d = id_deviceId i
      then a\<lparr>controlInfo := (controlInfo a)\<lparr>vibratorThreads :=
        map (\<lambda>(m, t). (m, if m = id_vibratorId i then f t else t)) (vibratorThreads (controlInfo a))\<rparr>\<rparr> else a"
  have "sm_find (id_deviceId j) (sv_devices (upd_motor i f sv)) = map_option (?g (id_deviceId j)) (sm_find (id_deviceId j) (sv_devices sv))"
    using sm_find_map_snd [of "id_deviceId j" ?g "sv_devices sv"] by (simp add: upd_motor_def)
  then show ?thesis
    using map_of_map_snd [of "\<lambda>m t. if m = id_vibratorId i then f t else t"]
    by (auto simp: GetVibratorThread_def same_motor_def option.map_ident split: option.split)
qed

lemma GetVibratorThread_cong:
  "sv_devices sv = sv_devices sv' \<Longrightarrow> GetVibratorThread j sv = GetVibratorThread j sv'"
  by (simp add: GetVibratorThread_def)

text \<open>The steps change little besides the device and the threads.\<close>

lemma dev_op_fields [simp]:
  "sv_devices (snd (dev_op f sv)) = sv_devices sv" "sv_clients (snd (dev_op f sv)) = sv_clients sv"
  "sv_disablePids (snd (dev_op f sv)) = sv_disablePids sv" "sv_records (snd (dev_op f sv)) = sv_records sv"
  "sv_priority (snd (dev_op f sv)) = sv_priority sv" "sv_ready (snd (dev_op f sv)) = sv_ready sv"
  "sv_messages (snd (dev_op f sv)) = sv_messages sv" "sv_watched (snd (dev_op f sv)) = sv_watched sv"
  "sv_state (snd (dev_op f sv)) = sv_state sv"
  by (simp_all add: dev_op_def split: prod.split)

lemma dev_stop_fields [simp]:
  "sv_devices (dev_stop W i m sv) = sv_devices sv" "sv_clients (dev_stop W i m sv) = sv_clients sv"
  "sv_disablePids (dev_stop W i m sv) = sv_disablePids sv" "sv_records (dev_stop W i m sv) = sv_records sv"
  "sv_priority (dev_stop W i m sv) = sv_priority sv" "sv_ready (dev_stop W i m sv) = sv_ready sv"
  "sv_messages (dev_stop W i m sv) = sv_messages sv" "sv_watched (dev_stop W i m sv) = sv_watched sv"
  by (simp_all add: dev_stop_def)

lemma stop_running_device_fields [simp]:
  "sv_devices (stop_running_device W i sv) = sv_devices sv" "sv_clients (stop_running_device W i sv) = sv_clients sv"
  "sv_disablePids (stop_running_device W i sv) = sv_disablePids sv" "sv_records (stop_running_device W i sv) = sv_records sv"
  "sv_priority (stop_running_device W i sv) = sv_priority sv" "sv_ready (stop_running_device W i sv) = sv_ready sv"
  "sv_messages (stop_running_device W i sv) = sv_messages sv" "sv_watched (stop_running_device W i sv) = sv_watched sv"
  by (simp_all add: stop_running_device_def)

lemma upd_motor_fields [simp]:
  "sv_clients (upd_motor i f sv) = sv_clients sv" "sv_disablePids (upd_motor i f sv) = sv_disablePids sv"
  "sv_records (upd_motor i f sv) = sv_records sv" "sv_priority (upd_motor i f sv) = sv_priority sv"
  "sv_ready (upd_motor i f sv) = sv_ready sv" "sv_messages (upd_motor i f sv) = sv_messages sv"
  "sv_dev (upd_motor i f sv) = sv_dev sv" "sv_watched (upd_motor i f sv) = sv_watched sv"
  by (simp_all add: upd_motor_def)

lemma GetVibratorThread_fields [simp]:
  "GetVibratorThread i (sv\<lparr>sv_dev := d\<rparr>) = GetVibratorThread i sv"
  "GetVibratorThread i (sv\<lparr>sv_records := r\<rparr>) = GetVibratorThread i sv"
  "GetVibratorThread i (sv\<lparr>sv_priority := p\<rparr>) = GetVibratorThread i sv"
  "GetVibratorThread i (snd (dev_op f sv)) = GetVibratorThread i sv"
  "GetVibratorThread i (dev_stop W j m sv) = GetVibratorThread i sv"
  "GetVibratorThread i (stop_running_device W j sv) = GetVibratorThread i sv"
  by (simp_all add: GetVibratorThread_def)

section \<open>The vibrators of a request\<close>

text \<open>The specification: every vibrator the ids mean.\<close>

definition targets :: "VibratorIdentifierIPC \<Rightarrow> device_table \<Rightarrow> VibratorIdentifierIPC list" where
  "targets i m =
     (if id_deviceId i \<noteq> -1
      then (case sm_find (id_deviceId i) m of
              None \<Rightarrow> []
            | Some a \<Rightarrow> map identifier_of (filter (\<lambda>v. id_vibratorId i = -1 \<or> info_vibratorId v = id_vibratorId i) (baseInfo a)))
      else map identifier_of (concat (map (\<lambda>(d, a).
             if id_vibratorId i = -1 then filter info_isLocalVibrator (baseInfo a)
             else if \<exists>v\<in>set (baseInfo a). info_vibratorId v = id_vibratorId i
             then filter (\<lambda>v. info_isLocalVibrator v \<and> info_vibratorId v = id_vibratorId i) (baseInfo a)
             else baseInfo a) m)))"

text \<open>Only the statistics of wrong ids change.\<close>

definition counted_wrong :: "'c service \<Rightarrow> 'c service \<Rightarrow> bool" where
  "counted_wrong sv sv' \<longleftrightarrow> sv' = sv\<lparr>sv_invalid := sv_invalid sv', sv_invalidCount := sv_invalidCount sv'\<rparr>"

lemma counted_wrong_refl [simp]: "counted_wrong sv sv"
  by (simp add: counted_wrong_def)

lemma counted_wrong_trans: "counted_wrong a b \<Longrightarrow> counted_wrong b c \<Longrightarrow> counted_wrong a c"
  by (cases a; cases b; cases c) (simp add: counted_wrong_def)

lemma counted_wrong_fields:
  assumes "counted_wrong sv sv'"
  shows "sv_devices sv' = sv_devices sv" "sv_clients sv' = sv_clients sv" "sv_disablePids sv' = sv_disablePids sv"
    "sv_records sv' = sv_records sv" "sv_priority sv' = sv_priority sv" "sv_ready sv' = sv_ready sv"
    "sv_messages sv' = sv_messages sv" "sv_dev sv' = sv_dev sv" "sv_watched sv' = sv_watched sv"
    "GetVibratorThread j sv' = GetVibratorThread j sv"
  using assms by (cases sv; cases sv'; simp add: counted_wrong_def GetVibratorThread_def)+

lemma IsVibratorIdValid_result:
  assumes "IsVibratorIdValid W base target sv = (b, sv')"
  shows "b = list_ex (\<lambda>v. info_vibratorId v = target \<or> target = -1) base \<and> counted_wrong sv sv'"
  using assms
  by (auto simp: IsVibratorIdValid_def SaveInvalidVibratorInfo_def Let_def counted_wrong_def split: option.splits if_splits)

lemma should_add_cases:
  "id_deviceId i \<noteq> -1 \<Longrightarrow> should_add i v = (id_vibratorId i = -1 \<or> info_vibratorId v = id_vibratorId i)"
  "id_deviceId i = -1 \<Longrightarrow> should_add i v =
     (info_isLocalVibrator v \<and> (id_vibratorId i = -1 \<or> info_vibratorId v = id_vibratorId i))"
  by (auto simp: should_add_def)

lemma check_devices_result:
  assumes "id_deviceId i = -1" and "check_devices W i m out sv = (result, sv')"
  shows "result = out @ targets i m \<and> counted_wrong sv sv'"
  using assms
proof (induction W i m out sv rule: check_devices.induct)
  case (1 W i out sv)
  then show ?case by (simp add: targets_def)
next
  case (2 W i d a m out sv)
  obtain b sv1 where v: "IsVibratorIdValid W (baseInfo a) (id_vibratorId i) sv = (b, sv1)" by fastforce
  note valid = IsVibratorIdValid_result [OF v]
  show ?case
  proof (cases b)
    case True
    then have "check_devices W i m (out @ process_device i a) sv1 = (result, sv')" using 2 v by simp
    from "2.IH"(2) [OF v [symmetric] refl] "2.prems"(1) this True valid "2.prems"(1)
    show ?thesis
      by (auto simp: targets_def process_device_def should_add_cases list_ex_iff
          intro: counted_wrong_trans intro!: arg_cong [of _ _ "map identifier_of"] filter_cong)
  next
    case False
    then have "check_devices W i m (out @ map identifier_of (baseInfo a)) sv1 = (result, sv')" using 2 v by simp
    from "2.IH"(1) [OF v [symmetric] refl] "2.prems"(1) this False valid "2.prems"(1)
    show ?thesis by (auto simp: targets_def list_ex_iff intro: counted_wrong_trans)
  qed
qed

lemma CheckDeviceIdIsValid_result:
  assumes "CheckDeviceIdIsValid W i sv = (result, sv')"
  shows "result = targets i (sv_devices sv) \<and> counted_wrong sv sv'"
proof (cases "id_deviceId i = -1")
  case True
  with assms check_devices_result [OF True, of W "sv_devices sv" "[]" sv result sv'] show ?thesis
    by (simp add: CheckDeviceIdIsValid_def)
next
  case False
  then have "should_add i = (\<lambda>v. id_vibratorId i = -1 \<or> info_vibratorId v = id_vibratorId i)"
    by (intro ext should_add_cases)
  with False assms show ?thesis
    by (auto simp: CheckDeviceIdIsValid_def targets_def process_device_def split: option.splits)
qed

section \<open>Running threads\<close>

definition is_running :: "VibratorIdentifierIPC \<Rightarrow> 'c service \<Rightarrow> bool" where
  "is_running i sv \<longleftrightarrow> (\<exists>t. GetVibratorThread i sv = Some t \<and> mt_running t)"

lemma ResetVibrateInfo_running [simp]:
  "mt_running (ResetVibrateInfo t) = mt_running t" "mt_running (SetExitStatus b t) = mt_running t"
  "mt_running (NotifyExit t) = mt_running t" "mt_running (UpdateVibratorEffect info i w t) = mt_running t"
  by (simp_all add: ResetVibrateInfo_def SetExitStatus_def NotifyExit_def UpdateVibratorEffect_def)

definition silenced :: "motor \<Rightarrow> motor" where
  "silenced t = ResetVibrateInfo (SetExitStatus False ((NotifyExit t)\<lparr>mt_running := False\<rparr>))"

lemma silenced_running [simp]: "\<not> mt_running (silenced t)"
  by (simp add: silenced_def)

lemma silenced_info: "th_info (silenced t) = (th_info t)
     \<lparr>vi_mode := [], vi_packageName := [], vi_pid := -1, vi_uid := -1, vi_usage := 0, vi_systemUsage := False,
      vi_duration := 0, vi_effect := [], vi_count := 0, vi_intensity := 0\<rparr>"
  by (simp add: silenced_def ResetVibrateInfo_def SetExitStatus_def NotifyExit_def)

lemma StopVibrateThread_thread:
  "GetVibratorThread j (StopVibrateThread W i sv) =
     map_option (\<lambda>t. if same_motor i j \<and> mt_running t then silenced t else t) (GetVibratorThread j sv)"
proof (cases "GetVibratorThread i sv")
  case None
  then show ?thesis
    by (cases "same_motor i j") (auto simp: StopVibrateThread_def same_motor_def GetVibratorThread_def option.map_ident split: option.splits)
next
  case (Some t)
  then have "GetVibratorThread j sv = Some t" if "same_motor i j"
    using same_motor_thread [OF that] by metis
  with Some show ?thesis
    by (auto simp: StopVibrateThread_def silenced_def [abs_def] option.map_ident split: option.split)
qed

lemma StopVibrateThread_fields [simp]:
  "sv_clients (StopVibrateThread W i sv) = sv_clients sv" "sv_disablePids (StopVibrateThread W i sv) = sv_disablePids sv"
  "sv_records (StopVibrateThread W i sv) = sv_records sv" "sv_priority (StopVibrateThread W i sv) = sv_priority sv"
  "sv_ready (StopVibrateThread W i sv) = sv_ready sv" "sv_messages (StopVibrateThread W i sv) = sv_messages sv"
  "sv_watched (StopVibrateThread W i sv) = sv_watched sv"
  by (auto simp: StopVibrateThread_def split: option.split)

lemma stop_one_thread:
  "GetVibratorThread j (stop_one W i sv) =
     map_option (\<lambda>t. if same_motor i j \<and> mt_running t then silenced t else t) (GetVibratorThread j sv)"
proof (cases "GetVibratorThread i sv")
  case None
  then show ?thesis
    by (cases "same_motor i j") (auto simp: stop_one_def same_motor_def GetVibratorThread_def option.map_ident split: option.splits)
next
  case (Some t)
  then have "GetVibratorThread j sv = Some t" if "same_motor i j"
    using same_motor_thread [OF that] by metis
  with Some show ?thesis
    by (cases "GetVibratorThread j sv") (auto simp: stop_one_def StopVibrateThread_thread)
qed

lemma stop_one_fields [simp]:
  "sv_clients (stop_one W i sv) = sv_clients sv" "sv_disablePids (stop_one W i sv) = sv_disablePids sv"
  "sv_records (stop_one W i sv) = sv_records sv" "sv_priority (stop_one W i sv) = sv_priority sv"
  "sv_ready (stop_one W i sv) = sv_ready sv" "sv_messages (stop_one W i sv) = sv_messages sv"
  "sv_watched (stop_one W i sv) = sv_watched sv"
  by (auto simp: stop_one_def split: option.split)

lemma stop_fold_fields [simp]:
  "sv_clients (fold (stop_one W) is sv) = sv_clients sv" "sv_disablePids (fold (stop_one W) is sv) = sv_disablePids sv"
  "sv_records (fold (stop_one W) is sv) = sv_records sv" "sv_priority (fold (stop_one W) is sv) = sv_priority sv"
  "sv_ready (fold (stop_one W) is sv) = sv_ready sv" "sv_messages (fold (stop_one W) is sv) = sv_messages sv"
  "sv_watched (fold (stop_one W) is sv) = sv_watched sv"
  by (induction "is" arbitrary: sv) simp_all

lemma stop_fold_thread:
  "GetVibratorThread j (fold (stop_one W) is sv) =
     map_option (\<lambda>t. if (\<exists>i\<in>set is. same_motor i j) \<and> mt_running t then silenced t else t) (GetVibratorThread j sv)"
proof (induction "is" arbitrary: sv)
  case Nil
  then show ?case by (simp add: option.map_ident)
next
  case (Cons i "is")
  then show ?case by (cases "GetVibratorThread j sv") (auto simp: stop_one_thread)
qed

text \<open>Stopping silences exactly the threads of the targets.\<close>

lemma StopVibratorService_thread:
  assumes "StopVibratorService W i sv = (r, sv')"
  shows "r = (if targets i (sv_devices sv) = [] then ERROR else NO_ERROR) \<and>
    GetVibratorThread j sv' = map_option (\<lambda>t. if (\<exists>k\<in>set (targets i (sv_devices sv)). same_motor k j) \<and> mt_running t
      then silenced t else t) (GetVibratorThread j sv)"
proof -
  obtain result sv1 where c: "CheckDeviceIdIsValid W i sv = (result, sv1)" by fastforce
  note ok = CheckDeviceIdIsValid_result [OF c]
  show ?thesis
    using assms c ok counted_wrong_fields(10) [of sv sv1 j] stop_fold_thread [of j W result sv1]
    by (auto simp: StopVibratorService_def option.map_ident split: if_splits)
qed

lemma StopVibratorService_fields:
  "sv_clients (snd (StopVibratorService W i sv)) = sv_clients sv"
  "sv_disablePids (snd (StopVibratorService W i sv)) = sv_disablePids sv"
  "sv_records (snd (StopVibratorService W i sv)) = sv_records sv"
  "sv_priority (snd (StopVibratorService W i sv)) = sv_priority sv"
  "sv_ready (snd (StopVibratorService W i sv)) = sv_ready sv"
  "sv_messages (snd (StopVibratorService W i sv)) = sv_messages sv"
  "sv_watched (snd (StopVibratorService W i sv)) = sv_watched sv"
proof -
  obtain result sv1 where c: "CheckDeviceIdIsValid W i sv = (result, sv1)" by fastforce
  note ok = counted_wrong_fields [OF CheckDeviceIdIsValid_result [OF c, THEN conjunct2]]
  show "sv_clients (snd (StopVibratorService W i sv)) = sv_clients sv"
    "sv_disablePids (snd (StopVibratorService W i sv)) = sv_disablePids sv"
    "sv_records (snd (StopVibratorService W i sv)) = sv_records sv"
    "sv_priority (snd (StopVibratorService W i sv)) = sv_priority sv"
    "sv_ready (snd (StopVibratorService W i sv)) = sv_ready sv"
    "sv_messages (snd (StopVibratorService W i sv)) = sv_messages sv"
    "sv_watched (snd (StopVibratorService W i sv)) = sv_watched sv"
    by (simp_all add: StopVibratorService_def c ok)
qed

section \<open>The invariant of the table\<close>

text \<open>A request that a thread may play: what the handlers check.\<close>

definition request_ok :: "VibrateInfo \<Rightarrow> bool" where
  "request_ok info \<longleftrightarrow> 0 \<le> vi_usage info \<and> vi_usage info < USAGE_MAX \<and>
     (vi_mode info = VIBRATE_TIME \<longrightarrow> 0 < vi_duration info \<and> vi_duration info \<le> 1800000) \<and>
     (vi_mode info = VIBRATE_PRESET \<longrightarrow> 1 \<le> vi_intensity info \<and> vi_intensity info \<le> 100)"

definition motor_ok :: "motor \<Rightarrow> bool" where
  "motor_ok t \<longleftrightarrow> \<not> th_exitFlag t \<and> (mt_running t \<longrightarrow> request_ok (th_info t))"

text \<open>Every vibrator of a device has exactly one thread.\<close>

definition threads_ok :: "int set \<Rightarrow> (int \<times> motor) list \<Rightarrow> bool" where
  "threads_ok ids ts \<longleftrightarrow> distinct (map fst ts) \<and> set (map fst ts) = ids \<and> list_all (\<lambda>(m, t). motor_ok t) ts"

definition entry_ok :: "int \<Rightarrow> VibratorAllInfos \<Rightarrow> bool" where
  "entry_ok d a \<longleftrightarrow> baseInfo a \<noteq> [] \<and> (\<forall>v\<in>set (baseInfo a). info_deviceId v = d \<and> info_position v = 0) \<and>
     threads_ok (info_vibratorId ` set (baseInfo a)) (vibratorThreads (controlInfo a)) \<and>
     motorCount (controlInfo a) = int (length (baseInfo a))"

definition devices_ok :: "device_table \<Rightarrow> bool" where
  "devices_ok m \<longleftrightarrow> sm_ok m \<and> (\<forall>(d, a)\<in>set m. entry_ok d a)"

lemma devices_okD: "devices_ok m \<Longrightarrow> sm_find d m = Some a \<Longrightarrow> entry_ok d a"
  by (auto simp: devices_ok_def dest: sm_find_in_set)

lemma motor_of_table: "devices_ok (sv_devices sv) \<Longrightarrow> GetVibratorThread i sv = Some t \<Longrightarrow> motor_ok t"
  by (auto simp: GetVibratorThread_def entry_ok_def threads_ok_def list_all_iff split: option.splits
      dest!: devices_okD map_of_SomeD)

lemma targets_have_threads:
  assumes "devices_ok (sv_devices sv)" and "k \<in> set (targets i (sv_devices sv))"
  shows "\<exists>t. GetVibratorThread k sv = Some t"
proof -
  obtain d a v where da: "(d, a) \<in> set (sv_devices sv)" and v: "v \<in> set (baseInfo a)" "k = identifier_of v"
    using assms(2) by (auto simp: targets_def split: if_splits option.splits dest: sm_find_in_set sm_find_in_set [OF sym])
  have e: "entry_ok d a" "sm_find d (sv_devices sv) = Some a"
    using assms(1) da by (auto simp: devices_ok_def sm_find_iff)
  then have "info_vibratorId v \<in> set (map fst (vibratorThreads (controlInfo a)))" "info_deviceId v = d"
    using v by (auto simp: entry_ok_def threads_ok_def)
  then show ?thesis using e(2) v(2)
    by (auto simp: GetVibratorThread_def identifier_of_def dest: weak_map_of_SomeI)
qed

lemma threads_ok_map:
  assumes "threads_ok ids ts" and "\<And>t. motor_ok t \<Longrightarrow> motor_ok (f t)"
  shows "threads_ok ids (map (\<lambda>(m, t). (m, if m = v then f t else t)) ts)"
proof -
  have keys: "map fst (map (\<lambda>(m, t). (m, if m = v then f t else t)) ts) = map fst ts"
    by (induction ts) auto
  show ?thesis using assms unfolding threads_ok_def keys by (auto simp: list_all_iff)
qed

lemma devices_ok_upd_motor:
  assumes "devices_ok (sv_devices sv)" and "\<And>t. motor_ok t \<Longrightarrow> motor_ok (f t)"
  shows "devices_ok (sv_devices (upd_motor i f sv))"
proof -
  have old: "entry_ok d a" if "(d, a) \<in> set (sv_devices sv)" for d a
    using assms(1) that by (auto simp: devices_ok_def)
  have upd: "entry_ok d (a\<lparr>controlInfo := (controlInfo a)\<lparr>vibratorThreads :=
      map (\<lambda>(m, t). (m, if m = id_vibratorId i then f t else t)) (vibratorThreads (controlInfo a))\<rparr>\<rparr>)"
    if "entry_ok d a" for d a
    using that threads_ok_map [OF _ assms(2), of "info_vibratorId ` set (baseInfo a)" "vibratorThreads (controlInfo a)"]
    by (simp add: entry_ok_def)
  have new: "entry_ok d a" if a: "(d, a) \<in> set (sv_devices (upd_motor i f sv))" for d a
  proof -
    from a obtain b where b: "(d, b) \<in> set (sv_devices sv)"
      "a = (if d = id_deviceId i then b\<lparr>controlInfo := (controlInfo b)\<lparr>vibratorThreads :=
         map (\<lambda>(m, t). (m, if m = id_vibratorId i then f t else t)) (vibratorThreads (controlInfo b))\<rparr>\<rparr> else b)"
      by (auto simp: upd_motor_def)
    from old [OF b(1)] upd [of d b] b(2) show ?thesis by (cases "d = id_deviceId i") simp_all
  qed
  have "map fst (sv_devices (upd_motor i f sv)) = map fst (sv_devices sv)"
    by (auto simp: upd_motor_def)
  then have "sm_ok (sv_devices (upd_motor i f sv))"
    using assms(1) unfolding devices_ok_def sm_ok_def by simp
  with new show ?thesis unfolding devices_ok_def by blast
qed

lemma motor_ok_silenced: "motor_ok (silenced t)"
  by (simp add: motor_ok_def silenced_def ResetVibrateInfo_def SetExitStatus_def NotifyExit_def)

lemma devices_ok_StopVibrateThread:
  "devices_ok (sv_devices sv) \<Longrightarrow> devices_ok (sv_devices (StopVibrateThread W i sv))"
  using devices_ok_upd_motor [of "sv\<lparr>sv_dev := d\<rparr>" silenced i for d] motor_ok_silenced
  by (auto simp: StopVibrateThread_def silenced_def [abs_def] split: option.split)

lemma devices_ok_stop_one: "devices_ok (sv_devices sv) \<Longrightarrow> devices_ok (sv_devices (stop_one W i sv))"
  by (auto simp: stop_one_def devices_ok_StopVibrateThread split: option.split)

lemma devices_ok_stop_fold: "devices_ok (sv_devices sv) \<Longrightarrow> devices_ok (sv_devices (fold (stop_one W) is sv))"
  by (induction "is" arbitrary: sv) (simp_all add: devices_ok_stop_one)

lemma devices_ok_StopVibratorService:
  assumes "devices_ok (sv_devices sv)"
  shows "devices_ok (sv_devices (snd (StopVibratorService W i sv)))"
proof -
  obtain result sv1 where c: "CheckDeviceIdIsValid W i sv = (result, sv1)" by fastforce
  then have "sv_devices sv1 = sv_devices sv" using CheckDeviceIdIsValid_result [OF c] counted_wrong_fields(1) by blast
  with assms c show ?thesis by (simp add: StopVibratorService_def devices_ok_stop_fold)
qed

end
