(* ===== verification/ServiceInvariant.thy ===== *)
theory ServiceInvariant
  imports ServiceTable
begin

text \<open>
  Starting threads, plugging devices and the invariant of every state the service can reach:
  \<open>service_reach\<close> is the closure of the initial state under all handlers of \<open>ServiceHandlers\<close>, the end
  of a thread by itself and the daily report.
\<close>

section \<open>Starting\<close>

lemma devices_ok_cong: "devices_ok m \<Longrightarrow> m' = m \<Longrightarrow> devices_ok m'"
  by simp

lemma upd_motor_compose: "upd_motor i g (upd_motor i f sv) = upd_motor i (\<lambda>t. g (f t)) sv"
proof -
  have "(\<lambda>(m, t). (m, if m = v then g t else t)) \<circ> (\<lambda>(m, t). (m, if m = v then f t else t)) =
      (\<lambda>(m, t). (m, if m = v then g (f t) else t))" for v :: int
    by (rule ext) auto
  then show ?thesis by (cases sv) (auto simp: upd_motor_def)
qed

lemma Service_ShouldIgnoreVibrate_fields:
  assumes "Service_ShouldIgnoreVibrate W info i sv = (b, sv')"
  shows "sv_devices sv' = sv_devices sv" "sv_clients sv' = sv_clients sv" "sv_disablePids sv' = sv_disablePids sv"
    "sv_records sv' = sv_records sv" "sv_dev sv' = sv_dev sv"
  using assms by (auto simp: Service_ShouldIgnoreVibrate_def register_once_def RegisterDeviceMuteObserver_def Let_def
      split: if_splits prod.splits)

lemma GetVibratorThread_devices: "sv_devices sv' = sv_devices sv \<Longrightarrow> GetVibratorThread j sv' = GetVibratorThread j sv"
  by (simp add: GetVibratorThread_def)

definition fast_start :: "('c, 'j) world \<Rightarrow> VibrateInfo \<Rightarrow> motor \<Rightarrow> bool" where
  "fast_start W info t \<longleftrightarrow> w_PRESET_INFO W \<and> short_preset info (th_info t)"

lemma StartVibrateThread_thread:
  "GetVibratorThread j (StartVibrateThread W info i sv) =
     (case GetVibratorThread i sv of
        None \<Rightarrow> GetVibratorThread j sv
      | Some t \<Rightarrow>
          if \<not> same_motor i j then GetVibratorThread j sv
          else if fast_start W info t then Some (UpdateVibratorEffect info i (snd (GetAllWaveInfo i sv)) t)
          else Some ((UpdateVibratorEffect info i (snd (GetAllWaveInfo i sv)) (if mt_running t then silenced t else t))
                 \<lparr>mt_running := True\<rparr>))"
proof (cases "GetVibratorThread i sv")
  case None
  then show ?thesis by (simp add: StartVibrateThread_def)
next
  case (Some t)
  have waves: "fst (GetAllWaveInfo i sv) = ERR_OK"
    by (auto simp: GetAllWaveInfo_def split: option.split)
  show ?thesis
  proof (cases "same_motor i j")
    case True
    then have "GetVibratorThread j sv = Some t" using Some same_motor_thread by metis
    with True Some waves show ?thesis
      by (auto simp: StartVibrateThread_def fast_start_def Let_def StopVibrateThread_thread FastVibratorEffect_def
          split: prod.split)
  next
    case False
    with Some waves show ?thesis
      by (auto simp: StartVibrateThread_def Let_def StopVibrateThread_thread FastVibratorEffect_def option.map_ident
          split: prod.split)
  qed
qed

lemma StartVibrateThread_fields:
  "sv_clients (StartVibrateThread W info i sv) = sv_clients sv"
  "sv_disablePids (StartVibrateThread W info i sv) = sv_disablePids sv"
  "length (sv_records sv) \<le> 30 \<Longrightarrow> length (sv_records (StartVibrateThread W info i sv)) \<le> 30"
  by (auto simp: StartVibrateThread_def Let_def FastVibratorEffect_def SaveVibrateRecord_def UpdateRecordQueue_def
      split: option.split prod.split)

lemma motor_ok_started:
  assumes "request_ok info" and "motor_ok t"
  shows "motor_ok (UpdateVibratorEffect info i w t)" "motor_ok ((UpdateVibratorEffect info i w t)\<lparr>mt_running := True\<rparr>)"
  using assms by (simp_all add: motor_ok_def UpdateVibratorEffect_def)

lemma devices_ok_StartVibrateThread:
  assumes "request_ok info" and "devices_ok (sv_devices sv)"
  shows "devices_ok (sv_devices (StartVibrateThread W info i sv))"
proof (cases "GetVibratorThread i sv")
  case None
  with assms show ?thesis by (simp add: StartVibrateThread_def)
next
  case (Some t)
  let ?w = "snd (GetAllWaveInfo i sv)"
  have waves: "fst (GetAllWaveInfo i sv) = ERR_OK"
    by (auto simp: GetAllWaveInfo_def split: option.split)
  have fast: "devices_ok (sv_devices (upd_motor i (UpdateVibratorEffect info i ?w) sv))"
    using motor_ok_started(1) [OF assms(1)] by (intro devices_ok_upd_motor assms(2))
  have stopped: "devices_ok (sv_devices (stop_running_device W i (StopVibrateThread W i sv)))"
    using devices_ok_StopVibrateThread [OF assms(2)] by simp
  have slow: "devices_ok (sv_devices (upd_motor i (\<lambda>t. t\<lparr>mt_running := True\<rparr>) (upd_motor i (UpdateVibratorEffect info i ?w)
      (stop_running_device W i (StopVibrateThread W i sv)))))"
    unfolding upd_motor_compose using motor_ok_started(2) [OF assms(1)] by (intro devices_ok_upd_motor stopped)
  from Some waves fast slow show ?thesis
    by (auto simp: StartVibrateThread_def Let_def FastVibratorEffect_def split: prod.split)
qed

text \<open>What one round of the start loop leaves as it was.\<close>

definition service_kept :: "'c service \<Rightarrow> 'c service \<Rightarrow> bool" where
  "service_kept sv sv' \<longleftrightarrow> sv_clients sv' = sv_clients sv \<and> sv_disablePids sv' = sv_disablePids sv \<and>
     (length (sv_records sv) \<le> 30 \<longrightarrow> length (sv_records sv') \<le> 30)"

lemma service_kept_refl [simp]: "service_kept sv sv"
  by (simp add: service_kept_def)

lemma service_kept_trans: "service_kept a b \<Longrightarrow> service_kept b c \<Longrightarrow> service_kept a c"
  by (simp add: service_kept_def)

lemma start_one_cases:
  obtains (ignored) sv1 where "snd (start_one W info i (n, sv)) = sv1" "sv_devices sv1 = sv_devices sv"
      "fst (start_one W info i (n, sv)) = Suc n \<or> \<not> should_process info i" "service_kept sv sv1"
      "fst (start_one W info i (n, sv)) \<le> Suc n"
  | (started) sv1 where "start_one W info i (n, sv) = (n, StartVibrateThread W info i sv1)"
      "sv_devices sv1 = sv_devices sv" "service_kept sv sv1" "should_process info i"
proof -
  obtain b sv1 where s: "(if id_isLocalVibrator i then Service_ShouldIgnoreVibrate W info i sv else (False, sv)) = (b, sv1)"
    by fastforce
  then have f: "sv_devices sv1 = sv_devices sv" "service_kept sv sv1"
    using Service_ShouldIgnoreVibrate_fields [of W info i sv b sv1] by (auto simp: service_kept_def split: if_splits)
  have e: "start_one W info i (n, sv) = (if b \<and> should_process info i then (Suc n, sv1)
      else if should_process info i then (n, StartVibrateThread W info i sv1) else (n, sv1))"
    by (simp only: start_one_def s Let_def prod.case)
  show thesis
  proof (cases "should_process info i \<and> \<not> b")
    case True
    with e f started show ?thesis by simp
  next
    case False
    show ?thesis
    proof (rule ignored [of sv1])
      show "snd (start_one W info i (n, sv)) = sv1" using e False by auto
    qed (use e f False in auto)
  qed
qed

lemma start_one_ok:
  assumes "request_ok info" and "devices_ok (sv_devices sv)"
  shows "devices_ok (sv_devices (snd (start_one W info i (n, sv)))) \<and> service_kept sv (snd (start_one W info i (n, sv)))"
proof (cases rule: start_one_cases [of W info i n sv])
  case (ignored sv1)
  with assms show ?thesis by simp
next
  case (started sv1)
  moreover have "service_kept sv1 (StartVibrateThread W info i sv1)"
    by (simp add: service_kept_def StartVibrateThread_fields)
  ultimately show ?thesis
    using devices_ok_StartVibrateThread [OF assms(1), of sv1 W i] assms(2) service_kept_trans [of sv sv1] by simp
qed

lemma start_fold_ok:
  assumes "request_ok info"
  shows "devices_ok (sv_devices sv) \<Longrightarrow> devices_ok (sv_devices (snd (fold (start_one W info) is (n, sv)))) \<and>
    service_kept sv (snd (fold (start_one W info) is (n, sv)))"
proof (induction "is" arbitrary: n sv)
  case (Cons i "is")
  obtain n1 sv1 where s: "start_one W info i (n, sv) = (n1, sv1)" by fastforce
  with start_one_ok [OF assms Cons.prems, of W i n] have "devices_ok (sv_devices sv1)" "service_kept sv sv1" by simp_all
  with Cons.IH [of sv1 n1] s service_kept_trans [of sv sv1] show ?case by simp
qed simp

lemma StartVibrateThreadControl_ok:
  assumes "request_ok info" and "devices_ok (sv_devices sv)"
  shows "devices_ok (sv_devices (snd (StartVibrateThreadControl W i info sv))) \<and>
    service_kept sv (snd (StartVibrateThreadControl W i info sv))"
proof -
  obtain result sv1 where c: "CheckDeviceIdIsValid W i sv = (result, sv1)" by fastforce
  note f = counted_wrong_fields [OF CheckDeviceIdIsValid_result [OF c, THEN conjunct2]]
  have k: "service_kept sv sv1" "devices_ok (sv_devices sv1)" using f assms(2) by (simp_all add: service_kept_def)
  show ?thesis
    using start_fold_ok [OF assms(1) k(2), of W result 0] c k service_kept_trans [of sv sv1]
    by (auto simp: StartVibrateThreadControl_def split: prod.splits)
qed

lemma start_control_ok:
  assumes "request_ok info" and "devices_ok (sv_devices sv)"
  shows "devices_ok (sv_devices (snd (start_control W i info sv))) \<and> service_kept sv (snd (start_control W i info sv))"
    "devices_ok (sv_devices (snd (PerformVibrationControl W i d info sv))) \<and>
     service_kept sv (snd (PerformVibrationControl W i d info sv))"
  using StartVibrateThreadControl_ok [OF assms, of W i]
  by (auto simp: start_control_def PerformVibrationControl_def split: prod.split)

section \<open>Plugging\<close>

lemma set_sm_assign_new: "set (sm_assign k v m) \<subseteq> insert (k, v) (set m)"
  by (induction k v m rule: sm_assign.induct) auto

lemma add_thread_fold:
  "distinct (map fst ts) \<Longrightarrow> list_all (\<lambda>(m, t). motor_ok t) ts \<Longrightarrow>
   threads_ok (set ids \<union> set (map fst ts)) (fold add_thread ids ts)"
proof (induction ids arbitrary: ts)
  case Nil
  then show ?case by (simp add: threads_ok_def)
next
  case (Cons x ids)
  have "distinct (map fst (add_thread x ts))" "list_all (\<lambda>(m, t). motor_ok t) (add_thread x ts)"
    and s: "set (map fst (add_thread x ts)) = insert x (set (map fst ts))"
    using Cons.prems
    by (auto simp: add_thread_def map_of_eq_None_iff new_thread_def motor_ok_def dest: weak_map_of_SomeI)
  from Cons.IH [OF this(1,2)] have "threads_ok (set ids \<union> insert x (set (map fst ts))) (fold add_thread ids (add_thread x ts))"
    unfolding s .
  moreover have "set ids \<union> insert x (set (map fst ts)) = set (x # ids) \<union> set (map fst ts)" by simp
  ultimately show ?case by (simp only: fold_simps)
qed

lemma mk_control_threads: "threads_ok (set ids) (vibratorThreads (mk_control ids))"
  using add_thread_fold [of "[]" ids] by (simp add: mk_control_def)

lemma entry_ok_new:
  assumes "infos \<noteq> []" and "\<forall>v\<in>set infos. hvi_deviceId v = d"
  shows "entry_ok d (ConvertToServerInfos infos c waves name (mk_infos (map hvi_vibratorId infos)))"
  using assms mk_control_threads [of "map hvi_vibratorId infos"]
  by (simp add: entry_ok_def ConvertToServerInfos_def mk_infos_def image_image mk_control_def)

lemma InsertVibratorInfo_ok:
  assumes "devices_ok (sv_devices sv)"
  shows "devices_ok (sv_devices (InsertVibratorInfo W d name infos sv)) \<and> service_kept sv (InsertVibratorInfo W d name infos sv)"
proof -
  let ?infos = "filter (\<lambda>v. sm_find (hvi_deviceId v) (sv_devices sv) = None \<and> hvi_deviceId v = d) infos"
  show ?thesis
  proof (cases ?infos)
    case Nil
    then show ?thesis using assms by (simp add: InsertVibratorInfo_def)
  next
    case (Cons v vs)
    then have mem: "\<forall>x\<in>set (v # vs). hvi_deviceId x = d" by (metis (mono_tags, lifting) filter_is_subset mem_Collect_eq set_filter)
    then have v: "hvi_deviceId v = d" by simp
    have new: "entry_ok d (ConvertToServerInfos (v # vs) c w name (mk_infos (map hvi_vibratorId (v # vs))))" for c w
      by (rule entry_ok_new) (use mem in auto)
    have "devices_ok (sm_insert d a (sv_devices sv))" if "entry_ok d a" for a
      using assms that set_sm_assign_new [of d a "sv_devices sv"] by (auto simp: devices_ok_def sm_insert_def)
    with Cons new v show ?thesis
      by (simp add: InsertVibratorInfo_def Let_def service_kept_def)
  qed
qed

lemma online_fold_ok:
  "devices_ok (sv_devices sv) \<Longrightarrow> devices_ok (sv_devices (fold (online_step W infos) vs sv)) \<and>
   service_kept sv (fold (online_step W infos) vs sv)"
proof (induction vs arbitrary: sv)
  case (Cons v vs)
  have "devices_ok (sv_devices (online_step W infos v sv)) \<and> service_kept sv (online_step W infos v sv)"
    using Cons.prems InsertVibratorInfo_ok [OF Cons.prems, of W] by (simp add: online_step_def)
  with Cons.IH [of "online_step W infos v sv"] service_kept_trans [of sv "online_step W infos v sv"] show ?case by simp
qed simp

lemma GetOnlineVibratorInfo_ok:
  "devices_ok (sv_devices sv) \<Longrightarrow> devices_ok (sv_devices (GetOnlineVibratorInfo W sv)) \<and>
   service_kept sv (GetOnlineVibratorInfo W sv)"
  using online_fold_ok by (auto simp: GetOnlineVibratorInfo_def split: prod.split)

lemma stop_service_ok:
  assumes "devices_ok (sv_devices sv)"
  shows "devices_ok (sv_devices (snd (StopVibratorService W i sv))) \<and> service_kept sv (snd (StopVibratorService W i sv))"
  using devices_ok_StopVibratorService [OF assms] by (simp add: service_kept_def StopVibratorService_fields)

lemma stop_listed_fold_ok:
  "devices_ok (sv_devices sv) \<Longrightarrow> devices_ok (sv_devices (fold (stop_listed W d) vs sv)) \<and>
   service_kept sv (fold (stop_listed W d) vs sv)"
proof (induction vs arbitrary: sv)
  case (Cons v vs)
  have "devices_ok (sv_devices (stop_listed W d v sv)) \<and> service_kept sv (stop_listed W d v sv)"
    using stop_service_ok [OF Cons.prems, of W] by (simp add: stop_listed_def)
  with Cons.IH [of "stop_listed W d v sv"] service_kept_trans [of sv "stop_listed W d v sv"] show ?case by simp
qed simp

lemma devices_ok_erase: "devices_ok m \<Longrightarrow> devices_ok (sm_erase d m)"
  by (auto simp: devices_ok_def sm_erase_def [symmetric]) (auto simp: sm_erase_def)

lemma SendMsgToClient_ok:
  assumes "devices_ok (sv_devices sv)"
  shows "devices_ok (sv_devices (SendMsgToClient W info sv)) \<and> service_kept sv (SendMsgToClient W info sv)"
proof -
  have "service_kept sv (sv1\<lparr>sv_devices := m\<rparr>)" if "service_kept sv sv1" for sv1 m
    using that by (simp add: service_kept_def)
  then show ?thesis
    using assms stop_listed_fold_ok [OF assms, of W] InsertVibratorInfo_ok [OF assms, of W]
    by (auto simp: SendMsgToClient_def Let_def devices_ok_erase service_kept_def split: option.split)
qed

lemma death_fold_ok:
  "devices_ok (sv_devices sv) \<Longrightarrow> devices_ok (sv_devices (fold (death_step W pid) ms sv)) \<and>
   service_kept sv (fold (death_step W pid) ms sv)"
proof (induction ms arbitrary: sv)
  case (Cons m ms)
  obtain d v where m: "m = (d, v)" by fastforce
  have "devices_ok (sv_devices (death_step W pid m sv)) \<and> service_kept sv (death_step W pid m sv)"
    using stop_service_ok [OF Cons.prems, of W] Cons.prems by (auto simp: death_step_def m split: option.split)
  with Cons.IH [of "death_step W pid m sv"] service_kept_trans [of sv "death_step W pid m sv"] show ?case by simp
qed simp

section \<open>Handlers\<close>

text \<open>The handlers keep the table and leave clients and disabled callers alone.\<close>

definition step_ok :: "'c service \<Rightarrow> 'c service \<Rightarrow> bool" where
  "step_ok sv sv' \<longleftrightarrow> (devices_ok (sv_devices sv) \<longrightarrow> devices_ok (sv_devices sv')) \<and> service_kept sv sv'"

lemma step_ok_refl [simp]: "step_ok sv sv"
  by (simp add: step_ok_def)

lemma step_ok_trans: "step_ok a b \<Longrightarrow> step_ok b c \<Longrightarrow> step_ok a c"
  by (auto simp: step_ok_def service_kept_def)

lemma step_okI:
  "(devices_ok (sv_devices sv) \<Longrightarrow> devices_ok (sv_devices sv') \<and> service_kept sv sv') \<Longrightarrow> service_kept sv sv' \<Longrightarrow> step_ok sv sv'"
  by (auto simp: step_ok_def)

text \<open>Steps on fields other than those of the invariant.\<close>

lemma step_ok_fields:
  "sv_devices sv' = sv_devices sv \<Longrightarrow> sv_clients sv' = sv_clients sv \<Longrightarrow> sv_disablePids sv' = sv_disablePids sv \<Longrightarrow>
   sv_records sv' = sv_records sv \<Longrightarrow> step_ok sv sv'"
  by (simp add: step_ok_def service_kept_def)

lemma step_ok_dev_op: "step_ok sv sv' \<Longrightarrow> step_ok sv (snd (dev_op f sv'))"
  by (simp add: step_ok_def service_kept_def)

lemma counted_wrong_step: "counted_wrong sv sv' \<Longrightarrow> step_ok sv sv'"
  by (rule step_ok_fields) (simp_all add: counted_wrong_fields)

lemma service_kept_start:
  "service_kept sv (snd (fold (start_one W info) is (n, sv)))"
proof (induction "is" arbitrary: n sv)
  case (Cons i "is")
  obtain n1 sv1 where s: "start_one W info i (n, sv) = (n1, sv1)" by fastforce
  have "service_kept sv sv1"
  proof (cases rule: start_one_cases [of W info i n sv])
    case (ignored sv2)
    with s show ?thesis by simp
  next
    case (started sv2)
    moreover have "service_kept sv2 (StartVibrateThread W info i sv2)"
      by (simp add: service_kept_def StartVibrateThread_fields)
    ultimately show ?thesis using s service_kept_trans [of sv sv2] by simp
  qed
  with Cons.IH [of sv1 n1] s service_kept_trans [of sv sv1] show ?case by simp
qed simp

lemma start_control_kept: "service_kept sv (snd (StartVibrateThreadControl W i info sv))"
proof -
  obtain result sv1 where c: "CheckDeviceIdIsValid W i sv = (result, sv1)" by fastforce
  note f = counted_wrong_fields [OF CheckDeviceIdIsValid_result [OF c, THEN conjunct2]]
  have "service_kept sv sv1" using f by (simp add: service_kept_def)
  with c service_kept_start [of sv1 W info result 0] service_kept_trans [of sv sv1] show ?thesis
    by (auto simp: StartVibrateThreadControl_def split: prod.splits)
qed

lemma step_ok_start:
  assumes "request_ok info"
  shows "step_ok sv (snd (start_control W i info sv))" "step_ok sv (snd (PerformVibrationControl W i d info sv))"
  using StartVibrateThreadControl_ok [OF assms, of sv W i] start_control_kept [of sv W i info]
  by (auto simp: step_ok_def start_control_def PerformVibrationControl_def split: prod.split)

lemma step_ok_stop: "step_ok sv (snd (StopVibratorService W i sv))"
  using devices_ok_StopVibratorService [of sv W i]
  by (simp add: step_ok_def service_kept_def StopVibratorService_fields)

lemma request_ok_base:
  assumes "0 \<le> usage" and "usage < USAGE_MAX"
  shows "request_ok ((base_info W VIBRATE_TIME usage b)\<lparr>vi_duration := d\<rparr>) \<longleftrightarrow> 0 < d \<and> d \<le> 1800000"
    "1 \<le> n \<Longrightarrow> n \<le> 100 \<Longrightarrow> request_ok ((base_info W VIBRATE_PRESET usage b)
       \<lparr>vi_duration := d, vi_effect := e, vi_count := c, vi_intensity := n\<rparr>)"
    "request_ok ((base_info W [] usage b)\<lparr>vi_package := k, vi_mode := custom_mode cap []\<rparr>)"
    "request_ok ((base_info W VIBRATE_BUTT usage b)\<lparr>vi_sessionId := s\<rparr>)"
    "request_ok ((base_info W VIBRATE_BUTT usage b)\<lparr>vi_sessionId := s, vi_mode := composite_mode cap VIBRATE_BUTT, vi_package := k\<rparr>)"
    "request_ok ((base_info W VIBRATE_BUTT usage b)\<lparr>vi_sessionId := s, vi_mode := composite_mode cap VIBRATE_BUTT, vi_packageIPC := k\<rparr>)"
  using assms by (auto simp: request_ok_def base_info_def custom_mode_def composite_mode_def default_info_def)

lemma step_ok_calls:
  "step_ok (sv\<lparr>sv_timeCalls := n\<rparr>) sv' \<Longrightarrow> step_ok sv sv'" "step_ok (sv\<lparr>sv_presetCalls := n\<rparr>) sv' \<Longrightarrow> step_ok sv sv'"
  "step_ok (sv\<lparr>sv_fileCalls := n\<rparr>) sv' \<Longrightarrow> step_ok sv sv'" "step_ok (sv\<lparr>sv_patternCalls := n\<rparr>) sv' \<Longrightarrow> step_ok sv sv'"
  by (simp_all add: step_ok_def service_kept_def)

lemma Vibrate_step: "step_ok sv (snd (Vibrate W i timeOut usage b sv))"
proof (cases "0 < timeOut \<and> timeOut \<le> 1800000 \<and> 0 \<le> usage \<and> usage < USAGE_MAX")
  case True
  let ?sv = "sv\<lparr>sv_timeCalls := wrap32 (sv_timeCalls sv + 1)\<rparr>"
  have "step_ok ?sv (snd (Vibrate W i timeOut usage b sv))"
    using True step_ok_start(1) [of "(base_info W VIBRATE_TIME usage b)\<lparr>vi_duration := timeOut\<rparr>" ?sv W i] request_ok_base(1) [of usage timeOut W b]
    by (simp add: Vibrate_def Let_def)
  then show ?thesis by (rule step_ok_calls)
next
  case False
  then show ?thesis by (auto simp: Vibrate_def Let_def intro!: step_ok_fields)
qed

lemma PlayVibratorEffect_step: "step_ok sv (snd (PlayVibratorEffect W i effect count usage b sv))"
proof -
  let ?sv = "sv\<lparr>sv_presetCalls := wrap32 (sv_presetCalls sv + 1)\<rparr>"
  have "step_ok ?sv (snd (PlayVibratorEffect W i effect count usage b sv))"
    using step_ok_start(1) [OF request_ok_base(2), of usage 100]
    by (auto simp: PlayVibratorEffect_def PlayVibratorEffectCheckAuthAndParam_def Let_def split: option.split)
  then show ?thesis by (rule step_ok_calls)
qed

lemma PlayPrimitiveEffect_step: "step_ok sv (snd (PlayPrimitiveEffect W i effect p sv))"
proof -
  let ?sv = "sv\<lparr>sv_presetCalls := wrap32 (sv_presetCalls sv + 1)\<rparr>"
  have "step_ok ?sv (snd (PlayPrimitiveEffect W i effect p sv))"
    using step_ok_start(1) [OF request_ok_base(2), of "pe_usage p" "pe_intensity p"]
    by (auto simp: PlayPrimitiveEffect_def PlayPrimitiveEffectCheckAuthAndParam_def Let_def split: option.split)
  then show ?thesis by (rule step_ok_calls)
qed

lemma PlayVibratorCustom_step: "step_ok sv (snd (PlayVibratorCustom U W i pkg h sv))"
proof -
  let ?sv = "sv\<lparr>sv_fileCalls := wrap32 (sv_fileCalls sv + 1)\<rparr>"
  have mode: "vi_mode (base_info W [] u b) = []" for u b by (simp add: base_info_def)
  have "step_ok ?sv (snd (PlayVibratorCustom U W i pkg h sv))"
    using step_ok_start(1) [OF request_ok_base(3), of "ch_usage h"]
    by (auto simp: PlayVibratorCustom_def CheckAuthAndParam_def Let_def mode split: prod.split)
  then show ?thesis by (rule step_ok_calls)
qed

lemma perform_then:
  "step_ok sv (snd p) \<Longrightarrow> step_ok sv (snd (case p of (r, s) \<Rightarrow> if r \<noteq> ERR_OK then (r, s) else dev_op f s))"
  "step_ok sv (snd p) \<Longrightarrow> step_ok sv (snd (case p of (r, s) \<Rightarrow>
     if r \<noteq> ERR_OK then (r, s) else if c then dev_op f s else dev_op g s))"
  by (cases p; simp add: step_ok_dev_op)+

lemma GetHapticCapacityInfo_ok: "GetHapticCapacityInfo i sv = (ERR_OK, snd (GetHapticCapacityInfo i sv))"
  by (auto simp: GetHapticCapacityInfo_def split: option.split)

lemma mode_butt: "vi_mode (base_info W VIBRATE_BUTT u b) = VIBRATE_BUTT"
  by (simp add: base_info_def)

lemma PlayPatternCheck_usage:
  "PlayPatternCheckAuthAndParam W usage p = ERR_OK \<Longrightarrow> 0 \<le> usage \<and> usage < USAGE_MAX"
  by (auto simp: PlayPatternCheckAuthAndParam_def split: if_splits)

lemma PlayPattern_step: "step_ok sv (snd (PlayPattern U W i a h sv))"
proof -
  let ?sv = "sv\<lparr>sv_patternCalls := wrap32 (sv_patternCalls sv + 1)\<rparr>"
  have "step_ok ?sv (snd (PlayPattern U W i a h sv))"
  proof (cases "PlayPatternCheckAuthAndParam W (ch_usage h) (ch_parameter h) = ERR_OK")
    case True
    then have u: "0 \<le> ch_usage h" "ch_usage h < USAGE_MAX" using PlayPatternCheck_usage by blast+
    show ?thesis
      unfolding PlayPattern_def Let_def using True
      by (subst GetHapticCapacityInfo_ok)
        (simp add: mode_butt perform_then step_ok_start(2) request_ok_base(4,5) [OF u])
  next
    case False
    then show ?thesis by (simp add: PlayPattern_def)
  qed
  then show ?thesis by (rule step_ok_calls)
qed

lemma PlayPackageBySessionId_step: "step_ok sv (snd (PlayPackageBySessionId W i package h sv))"
proof (cases "PlayPatternCheckAuthAndParam W (ch_usage h) (ch_parameter h) = ERR_OK")
  case True
  then have u: "0 \<le> ch_usage h" "ch_usage h < USAGE_MAX" using PlayPatternCheck_usage by blast+
  show ?thesis
    unfolding PlayPackageBySessionId_def Let_def using True
    by (subst GetHapticCapacityInfo_ok)
      (simp add: mode_butt perform_then step_ok_start(2) request_ok_base(4,6) [OF u])
next
  case False
  then show ?thesis by (simp add: PlayPackageBySessionId_def)
qed

end
