(* ===== verification/ServiceReach.thy ===== *)
theory ServiceReach
  imports ServiceInvariant
begin

text \<open>
  Every state the service can reach: the closure of the state after construction under the
  handlers of \<open>ServiceHandlers\<close>, the end of a thread by itself and the daily report, each with
  any caller and any answers of the device. The invariant of these states is proved by rule induction.
\<close>

section \<open>The step relation\<close>

text \<open>The state after construction, over any device and any priority manager.\<close>

definition initial_service :: "'c \<Rightarrow> priority_state \<Rightarrow> 'c service" where
  "initial_service c p = \<lparr>sv_dev = c, sv_devices = [], sv_clients = [], sv_watched = [], sv_disablePids = [],
     sv_invalid = [], sv_invalidCount = 0, sv_timeCalls = 0, sv_presetCalls = 0, sv_fileCalls = 0,
     sv_patternCalls = 0, sv_state = STATE_STOPPED, sv_deviceIds = [], sv_ready = False, sv_registered = False,
     sv_mute = False, sv_priority = p, sv_records = [], sv_messages = []\<rparr>"

inductive service_step :: "(rat option \<Rightarrow> int) \<Rightarrow> ('c, 'j) world \<Rightarrow> 'c service \<Rightarrow> 'c service \<Rightarrow> bool"
  for U W where
  vibrate: "service_step U W sv (snd (Vibrate W i timeOut usage b sv))"
| effect: "service_step U W sv (snd (PlayVibratorEffect W i effect count usage b sv))"
| primitive: "service_step U W sv (snd (PlayPrimitiveEffect W i effect p sv))"
| custom: "service_step U W sv (snd (PlayVibratorCustom U W i pkg h sv))"
| pattern: "service_step U W sv (snd (PlayPattern U W i a h sv))"
| package: "service_step U W sv (snd (PlayPackageBySessionId W i pkg h sv))"
| stop: "service_step U W sv (snd (StopVibrator W i sv))"
| stop_mode: "service_step U W sv (snd (StopVibratorByMode W i mode sv))"
| stop_session: "service_step U W sv (snd (StopVibrateBySessionId W i session sv))"
| list: "service_step U W sv (snd (Service_GetVibratorList W i sv))"
| plug: "service_step U W sv (SendMsgToClient W plugged sv)"
| transfer: "service_step U W sv (snd (TransferClientRemoteObject W client sv))"
| death: "service_step U W sv (Service_ProcessDeathObserver W client sv)"
| disable: "service_step U W sv (snd (DisableVibratorByPid W pid sv))"
| enable: "service_step U W sv (snd (EnableVibratorByPid W pid sv))"
| start: "service_step U W sv (OnStart W sv)"
| halt: "service_step U W sv (OnStop W sv)"
| add_ability: "service_step U W sv (OnAddSystemAbility W data_service ability sv)"
| event: "service_step U W sv (OnReceiveEvent W action sv)"
| user_switch: "service_step U W sv (OnReceiveUserSwitchEvent W user_switched action sv)"
| mute: "service_step U W sv (ParameterCallback W null sv)"
| finished: "service_step U W sv (thread_finished i d sv)"
| report: "service_step U W sv (ReportCallTimes sv)"

inductive service_reach :: "(rat option \<Rightarrow> int) \<Rightarrow> ('c, 'j) world set \<Rightarrow> 'c service \<Rightarrow> bool"
  for U Ws where
  init: "service_reach U Ws (initial_service c p)"
| step: "service_reach U Ws sv \<Longrightarrow> W \<in> Ws \<Longrightarrow> service_step U W sv sv' \<Longrightarrow> service_reach U Ws sv'"

section \<open>The invariant\<close>

definition clients_ok :: "(nat, int) stdmap \<Rightarrow> bool" where
  "clients_ok m \<longleftrightarrow> sm_ok m \<and> length m \<le> 1024 \<and> (\<forall>(k, pid) \<in> set m. 0 \<le> pid)"

definition service_ok :: "'c service \<Rightarrow> bool" where
  "service_ok sv \<longleftrightarrow> devices_ok (sv_devices sv) \<and> clients_ok (sv_clients sv) \<and> distinct (sv_disablePids sv) \<and>
     length (sv_records sv) \<le> 30"

lemma service_ok_step: "service_ok sv \<Longrightarrow> step_ok sv sv' \<Longrightarrow> service_ok sv'"
  by (simp add: service_ok_def step_ok_def service_kept_def)

text \<open>The remaining handlers that touch neither clients nor disabled callers.\<close>

lemma stop_mode_one_step: "step_ok sv (stop_mode_one W mode i sv)"
  using devices_ok_StopVibrateThread [of sv W i]
  by (auto simp: stop_mode_one_def Let_def step_ok_def service_kept_def split: option.split)

lemma stop_session_one_step: "step_ok sv (stop_session_one W session i sv)"
  by (simp add: stop_session_one_def step_ok_dev_op)

lemma fold_step_ok: "(\<And>i sv. step_ok sv (f i sv)) \<Longrightarrow> step_ok sv (fold f is sv)"
proof (induction "is" arbitrary: sv)
  case (Cons i "is")
  from Cons.IH [OF Cons.prems] Cons.prems [of sv i] step_ok_trans show ?case by (metis fold_simps(2))
qed simp

lemma stop_targets_step:
  assumes "\<And>i sv. step_ok sv (f i sv)"
  shows "step_ok sv (snd (let (result, sv) = CheckDeviceIdIsValid W i sv
           in if result = [] then (ERROR, sv) else (NO_ERROR, fold f result sv)))"
proof -
  obtain result sv1 where c: "CheckDeviceIdIsValid W i sv = (result, sv1)" by fastforce
  have "step_ok sv sv1" using CheckDeviceIdIsValid_result [OF c] counted_wrong_step by blast
  with fold_step_ok [of f sv1 result, OF assms] step_ok_trans show ?thesis by (auto simp: c)
qed

lemma StopVibrator_step: "step_ok sv (snd (StopVibrator W i sv))"
  by (simp add: StopVibrator_def step_ok_stop)

lemma StopVibratorByMode_step: "step_ok sv (snd (StopVibratorByMode W i mode sv))"
  using stop_targets_step [of "stop_mode_one W mode" sv W i, OF stop_mode_one_step]
  by (simp add: StopVibratorByMode_def)

lemma StopVibrateBySessionId_step: "step_ok sv (snd (StopVibrateBySessionId W i session sv))"
  using stop_targets_step [of "stop_session_one W session" sv W i, OF stop_session_one_step]
  by (simp add: StopVibrateBySessionId_def)

lemma fold_kept: "(\<And>v sv. service_kept sv (f v sv)) \<Longrightarrow> service_kept sv (fold f vs sv)"
proof (induction vs arbitrary: sv)
  case (Cons v vs)
  from Cons.IH [OF Cons.prems] Cons.prems [of sv v] service_kept_trans show ?case by (metis fold_simps(2))
qed simp

lemma online_step_ok: "step_ok sv (GetOnlineVibratorInfo W sv)"
proof -
  have "service_kept sv (InsertVibratorInfo W d name infos sv)" for sv :: "'a service" and d name infos
    by (simp add: service_kept_def InsertVibratorInfo_def Let_def split: list.split)
  then have "service_kept sv (online_step W infos v sv)" for sv infos v
    by (simp add: online_step_def)
  then have "service_kept sv (fold (online_step W infos) vs sv)" for sv infos vs
    by (rule fold_kept)
  then have "service_kept sv (GetOnlineVibratorInfo W sv)"
    by (simp add: GetOnlineVibratorInfo_def split: prod.split)
  then show ?thesis using GetOnlineVibratorInfo_ok [of sv W] by (simp add: step_ok_def)
qed

lemma Service_GetVibratorList_step: "step_ok sv (snd (Service_GetVibratorList W i sv))"
  by (simp add: Service_GetVibratorList_def Let_def online_step_ok)

lemma OnStart_step: "step_ok sv (OnStart W sv)"
proof -
  have "step_ok sv (snd (InitInterface W sv))"
    using online_step_ok [of "snd (dev_op (w_connect W) sv)" W] step_ok_dev_op [OF step_ok_refl, of sv "w_connect W"] step_ok_trans
    by (auto simp: InitInterface_def split: prod.split)
  then have "step_ok sv ((snd (InitInterface W sv))\<lparr>sv_deviceIds := l, sv_state := s\<rparr>)" for l s
    by (simp add: step_ok_def service_kept_def)
  note step_ok_dev_op [OF this]
  with \<open>step_ok sv (snd (InitInterface W sv))\<close> show ?thesis
    by (simp add: OnStart_def RegisterVibratorPlugCb_def Let_def case_prod_beta)
qed

lemma OnStop_step: "step_ok sv (OnStop W sv)"
  by (auto simp: OnStop_def intro!: step_ok_dev_op step_ok_fields)

lemma system_event_steps:
  "step_ok sv (OnAddSystemAbility W data_service ability sv)" "step_ok sv (OnReceiveEvent W action sv)"
  "step_ok sv (OnReceiveUserSwitchEvent W us action sv)"
  by (auto simp: OnAddSystemAbility_def OnReceiveEvent_def OnReceiveUserSwitchEvent_def init_priority_def
      register_once_def RegisterDeviceMuteObserver_def intro!: step_ok_fields split: prod.split)

lemma ParameterCallback_step: "step_ok sv (ParameterCallback W null sv)"
proof -
  have "step_ok sv (RegisterDeviceMuteObserver W sv)"
    by (rule step_ok_fields) (simp_all add: RegisterDeviceMuteObserver_def)
  with step_ok_stop [of "RegisterDeviceMuteObserver W sv" W] step_ok_trans show ?thesis
    by (auto simp: ParameterCallback_def Let_def)
qed

lemma thread_finished_step: "step_ok sv (thread_finished i d sv)"
  using devices_ok_upd_motor [of "sv\<lparr>sv_dev := d\<rparr>" "\<lambda>t. t\<lparr>mt_running := False\<rparr>" i]
  by (simp add: step_ok_def service_kept_def thread_finished_def motor_ok_def)

lemma ReportCallTimes_step: "step_ok sv (ReportCallTimes sv)"
  by (rule step_ok_fields) (simp_all add: ReportCallTimes_def ReportInvalidVibratorInfo_def)

lemma plug_step: "step_ok sv (SendMsgToClient W info sv)"
proof -
  have "step_ok sv (InsertVibratorInfo W d name infos sv)" for d name infos
  proof -
    have "service_kept sv (InsertVibratorInfo W d name infos sv)"
      by (simp add: service_kept_def InsertVibratorInfo_def Let_def split: list.split)
    with InsertVibratorInfo_ok [of sv W d name infos] show ?thesis by (simp add: step_ok_def)
  qed
  moreover have "step_ok sv (fold (stop_listed W d) vs sv)" for d vs
    using step_ok_stop [of _ W] by (intro fold_step_ok) (simp add: stop_listed_def)
  then have "step_ok sv ((fold (stop_listed W d) vs sv)\<lparr>sv_devices := sm_erase d (sv_devices sv')\<rparr>)"
    if "sv' = fold (stop_listed W d) vs sv" for d vs sv'
    using that devices_ok_erase [of "sv_devices (fold (stop_listed W d) vs sv)" d] by (simp add: step_ok_def service_kept_def)
  moreover have "step_ok sv sv' \<Longrightarrow> step_ok sv (sv'\<lparr>sv_messages := ms\<rparr>)" for sv' ms
    by (simp add: step_ok_def service_kept_def)
  ultimately show ?thesis by (simp add: SendMsgToClient_def Let_def split: option.split)
qed

text \<open>The handlers of clients and disabled callers.\<close>

lemma clients_ok_erase: "clients_ok m \<Longrightarrow> clients_ok (sm_erase k m)"
  unfolding clients_ok_def using le_trans [OF length_sm_erase_le [of k m]] by (auto simp: sm_erase_def [of k m] intro: sm_ok_erase [unfolded sm_erase_def])

lemma clients_ok_insert: "clients_ok m \<Longrightarrow> length m < 1024 \<Longrightarrow> 0 \<le> pid \<Longrightarrow> clients_ok (sm_insert k pid m)"
  unfolding clients_ok_def using length_sm_assign [of k pid m] set_sm_assign_new [of k pid m] by (auto simp: sm_insert_def)

lemma unregister_ok: "service_ok sv \<Longrightarrow> service_ok (UnregisterClientDeathRecipient client sv)"
  by (auto simp: UnregisterClientDeathRecipient_def DestroyClientPid_def service_ok_def clients_ok_erase split: option.split)

lemma death_ok: "service_ok sv \<Longrightarrow> service_ok (Service_ProcessDeathObserver W client sv)"
proof -
  let ?sv = "fold (death_step W (FindClientPid client sv)) (motors (sv_devices sv)) sv"
  assume "service_ok sv"
  moreover have "step_ok sv (death_step W pid m sv)" for sv :: "'a service" and pid m
    using step_ok_stop [of sv W] by (simp add: death_step_def split: prod.split option.split)
  then have "step_ok sv ?sv" by (rule fold_step_ok)
  ultimately have "service_ok ?sv" by (rule service_ok_step)
  then show ?thesis unfolding Service_ProcessDeathObserver_def Let_def by (rule unregister_ok)
qed

lemma transfer_ok: "service_ok sv \<Longrightarrow> service_ok (snd (TransferClientRemoteObject W client sv))"
  by (auto simp: TransferClientRemoteObject_def RegisterClientDeathRecipient_def SaveClientPid_def service_ok_def
      clients_ok_insert split: option.split)

lemma disable_ok:
  "service_ok sv \<Longrightarrow> service_ok (snd (DisableVibratorByPid W pid sv))"
  "service_ok sv \<Longrightarrow> service_ok (snd (EnableVibratorByPid W pid sv))"
  by (auto simp: DisableVibratorByPid_def EnableVibratorByPid_def service_ok_def)

lemmas handler_steps = Vibrate_step PlayVibratorEffect_step PlayPrimitiveEffect_step PlayVibratorCustom_step PlayPattern_step
  PlayPackageBySessionId_step StopVibrator_step StopVibratorByMode_step StopVibrateBySessionId_step
  Service_GetVibratorList_step plug_step OnStart_step OnStop_step system_event_steps ParameterCallback_step
  thread_finished_step ReportCallTimes_step

lemma service_step_ok: "service_step U W sv sv' \<Longrightarrow> service_ok sv \<Longrightarrow> service_ok sv'"
  by (induction rule: service_step.induct)
    (blast intro: service_ok_step handler_steps transfer_ok death_ok disable_ok)+

lemma service_ok_init: "service_ok (initial_service c p)"
  by (simp add: service_ok_def initial_service_def devices_ok_def clients_ok_def)

lemma service_reach_ok: "service_reach U Ws sv \<Longrightarrow> service_ok sv"
  by (induction rule: service_reach.induct) (auto intro: service_ok_init service_step_ok)

end
