(* ===== verification/ServiceProps.thy ===== *)
theory ServiceProps
  imports ServiceReach
begin

text \<open>
  What the service guarantees: the well-formedness of every reachable state, which vibrators a
  request starts and a stop silences, who is turned down without effect, and what happens when
  devices and clients come and go. \<open>sample_service\<close> is a reachable state for the witnesses: the mock
  connection, with a device of two vibrators plugged in.
\<close>

section \<open>A sample\<close>

definition sample_device :: "compatible_state option hdi_ops" where
  "sample_device = mock_device\<lparr>op_GetVibratorInfo := (\<lambda>c. (ERR_OK,
     [\<lparr>hvi_deviceId = 1, hvi_vibratorId = 1, hvi_deviceName = ''motor'', hvi_isSupportHdHaptic = False,
       hvi_position = 0, hvi_isLocal = True\<rparr>,
      \<lparr>hvi_deviceId = 1, hvi_vibratorId = 2, hvi_deviceName = ''motor'', hvi_isSupportHdHaptic = False,
       hvi_position = 1, hvi_isLocal = True\<rparr>]))\<rparr>"

definition sample_world :: "(compatible_state option, json) world" where
  "sample_world = \<lparr>w_dev = sample_device, w_join = (\<lambda>t c. c), w_connect = (\<lambda>c. (ERR_OK, c)), w_env = sample_env,
     w_token = HapToken (Some ''app''), w_pid = 7, w_uid = 20, w_permission = True, w_time = ''now'',
     w_muteParameter = True, w_PRESET_INFO = False, w_sm = True, w_remote = True, w_publish = True,
     w_proxy = (\<lambda>k. True)\<rparr>"

definition plug_event :: "int \<Rightarrow> int \<Rightarrow> HdfVibratorPlugInfo" where
  "plug_event status d = \<lparr>plug_status = status, plug_deviceId = d, plug_deviceName = ''motor'', plug_vibratorCnt = 2\<rparr>"

definition start_service :: "compatible_state option service" where
  "start_service = initial_service (Some compatible_init) initial_priority"

definition sample_service :: "compatible_state option service" where
  "sample_service = SendMsgToClient sample_world (plug_event 1 1)
     (snd (TransferClientRemoteObject sample_world (Some 3) start_service))"

lemma sample_service_reach: "service_reach U {sample_world} sample_service"
  unfolding sample_service_def start_service_def
  by (rule service_reach.step [OF service_reach.step [OF service_reach.init]])
    (auto intro: service_step.plug service_step.transfer)

section \<open>Every reachable state is well formed\<close>

text \<open>C3. The table of every reachable state is well formed: the devices are in order, every device
  has a vibrator and all its vibrators carry its id, and each vibrator has exactly one thread; there
  are at most 1024 clients, no disabled process is listed twice, and at most 30 records are kept.\<close>

theorem service_state_well_formed:
  assumes "service_reach U Ws sv"
  shows "sm_ok (sv_devices sv) \<and>
    (\<forall>(d, a) \<in> set (sv_devices sv). baseInfo a \<noteq> [] \<and> (\<forall>v \<in> set (baseInfo a). info_deviceId v = d) \<and>
       distinct (map fst (vibratorThreads (controlInfo a))) \<and>
       set (map fst (vibratorThreads (controlInfo a))) = info_vibratorId ` set (baseInfo a)) \<and>
    length (sv_clients sv) \<le> 1024 \<and> distinct (sv_disablePids sv) \<and> length (sv_records sv) \<le> 30"
proof -
  note ok = service_reach_ok [OF assms, unfolded service_ok_def devices_ok_def clients_ok_def]
  have "baseInfo a \<noteq> [] \<and> (\<forall>v \<in> set (baseInfo a). info_deviceId v = d) \<and>
      distinct (map fst (vibratorThreads (controlInfo a))) \<and>
      set (map fst (vibratorThreads (controlInfo a))) = info_vibratorId ` set (baseInfo a)"
    if "(d, a) \<in> set (sv_devices sv)" for d a
  proof -
    have "entry_ok d a" using ok that by blast
    then show ?thesis by (simp add: entry_ok_def threads_ok_def)
  qed
  with ok show ?thesis by blast
qed

lemma service_state_well_formed_witness: "length (sv_clients sample_service) \<le> 1024"
  using service_state_well_formed [OF sample_service_reach [of "\<lambda>_. 0"]] by simp

lemma service_reach_devices: "service_reach U Ws sv \<Longrightarrow> devices_ok (sv_devices sv)"
  using service_reach_ok by (auto simp: service_ok_def)

text \<open>Whatever the clients send, a thread that runs plays a request that passed the checks: its
  usage is known, a timed vibration lasts between 1 ms and 30 minutes, a preset effect has an
  intensity between 1 and 100, and the thread has not been told to end.\<close>

theorem running_requests_checked:
  assumes "service_reach U Ws sv" and "GetVibratorThread i sv = Some t" and "mt_running t"
  shows "0 \<le> vi_usage (th_info t) \<and> vi_usage (th_info t) < USAGE_MAX \<and> \<not> th_exitFlag t \<and>
    (vi_mode (th_info t) = VIBRATE_TIME \<longrightarrow> 0 < vi_duration (th_info t) \<and> vi_duration (th_info t) \<le> 1800000) \<and>
    (vi_mode (th_info t) = VIBRATE_PRESET \<longrightarrow> 1 \<le> vi_intensity (th_info t) \<and> vi_intensity (th_info t) \<le> 100)"
proof -
  have "devices_ok (sv_devices sv)" by (rule service_reach_devices [OF assms(1)])
  from motor_of_table [OF this assms(2)] assms(3) show ?thesis by (auto simp: motor_ok_def request_ok_def)
qed

definition vibrating_service :: "compatible_state option service" where
  "vibrating_service = snd (Vibrate sample_world (mk_identifier (-1) (-1)) 500 5 False sample_service)"

lemma vibrating_service_reach: "service_reach U {sample_world} vibrating_service"
  unfolding vibrating_service_def
  by (rule service_reach.step [OF sample_service_reach]) (auto intro: service_step.vibrate)

lemma vibrating_thread: "GetVibratorThread (mk_identifier 1 2) vibrating_service =
    Some (new_thread\<lparr>th_info := (base_info sample_world VIBRATE_TIME 5 False)\<lparr>vi_duration := 500\<rparr>,
      th_params := (mk_identifier 1 2)\<lparr>id_isLocalVibrator := True\<rparr>, mt_running := True\<rparr>)"
  by code_simp

lemma running_requests_checked_witness:
  "vi_duration ((base_info sample_world VIBRATE_TIME 5 False)\<lparr>vi_duration := 500\<rparr>) \<le> 1800000"
  using running_requests_checked [OF vibrating_service_reach [of "\<lambda>_. 0"] vibrating_thread]
  by (simp add: base_info_def)

section \<open>The vibrators a request means\<close>

text \<open>What the ids of a request mean to a client: device -1 is the local device, vibrator -1 every one.\<close>

definition meant :: "VibratorIdentifierIPC \<Rightarrow> int \<Rightarrow> VibratorInfoIPC \<Rightarrow> bool" where
  "meant i d v \<longleftrightarrow> (if id_deviceId i = -1 then info_isLocalVibrator v else d = id_deviceId i) \<and>
     (id_vibratorId i = -1 \<or> info_vibratorId v = id_vibratorId i)"

lemma table_iff: "devices_ok m \<Longrightarrow> sm_find d m = Some a \<longleftrightarrow> (d, a) \<in> set m"
  using sm_find_iff [of m d a] by (simp add: devices_ok_def)

lemma table_device: "devices_ok m \<Longrightarrow> (d, a) \<in> set m \<Longrightarrow> v \<in> set (baseInfo a) \<Longrightarrow> info_deviceId v = d"
  by (auto simp: devices_ok_def entry_ok_def)

lemma targets_meant:
  assumes "devices_ok (sv_devices sv)" and "(d, a) \<in> set (sv_devices sv)" and "v \<in> set (baseInfo a)"
  shows "identifier_of v \<in> set (targets i (sv_devices sv)) \<longleftrightarrow> meant i d v \<or>
    (id_deviceId i = -1 \<and> id_vibratorId i \<noteq> -1 \<and> id_vibratorId i \<notin> info_vibratorId ` set (baseInfo a))"
proof -
  note find = table_iff [OF assms(1)] and dev = table_device [OF assms(1)]
  have one: "a' = a" if "(d, a') \<in> set (sv_devices sv)" for a'
    using find [of d a'] find [of d a] that assms(2) by simp
  have same: "identifier_of v' = identifier_of v \<Longrightarrow> (d', a') \<in> set (sv_devices sv) \<Longrightarrow> v' \<in> set (baseInfo a')
      \<Longrightarrow> d' = d \<and> a' = a \<and> info_vibratorId v' = info_vibratorId v \<and> info_isLocalVibrator v' = info_isLocalVibrator v" for v' d' a'
    using dev [of d' a' v'] dev [OF assms(2,3)] one by (auto simp: identifier_of_def)
  show ?thesis
  proof (cases "id_deviceId i = -1")
    case True
    define pick where "pick a = (if id_vibratorId i = -1 then filter info_isLocalVibrator (baseInfo a)
             else if \<exists>v\<in>set (baseInfo a). info_vibratorId v = id_vibratorId i
             then filter (\<lambda>v. info_isLocalVibrator v \<and> info_vibratorId v = id_vibratorId i) (baseInfo a)
             else baseInfo a)" for a :: VibratorAllInfos
    have sub: "set (pick a') \<subseteq> set (baseInfo a')" for a' by (auto simp: pick_def)
    have eq: "targets i (sv_devices sv) = map identifier_of (concat (map (\<lambda>p. pick (snd p)) (sv_devices sv)))"
      using True by (simp add: targets_def pick_def case_prod_unfold)
    have mem: "x \<in> set (targets i (sv_devices sv)) \<longleftrightarrow> (\<exists>p \<in> set (sv_devices sv). \<exists>u \<in> set (pick (snd p)). x = identifier_of u)" for x
      unfolding eq by auto
    have "identifier_of v \<in> set (targets i (sv_devices sv)) \<longleftrightarrow> v \<in> set (pick a)"
    proof
      assume "identifier_of v \<in> set (targets i (sv_devices sv))"
      then obtain p u where p: "p \<in> set (sv_devices sv)" "u \<in> set (pick (snd p))" "identifier_of u = identifier_of v"
        unfolding mem by metis
      with same [of u "fst p" "snd p"] sub [of "snd p"] have "snd p = a" "info_vibratorId u = info_vibratorId v"
        "info_isLocalVibrator u = info_isLocalVibrator v" by auto
      with p(2) assms(3) show "v \<in> set (pick a)" by (auto simp: pick_def split: if_splits)
    next
      assume "v \<in> set (pick a)"
      with assms(2) show "identifier_of v \<in> set (targets i (sv_devices sv))" unfolding mem by (intro bexI [of _ "(d, a)"] bexI [of _ v]) auto
    qed
    also have "\<dots> \<longleftrightarrow> meant i d v \<or> (id_vibratorId i \<noteq> -1 \<and> id_vibratorId i \<notin> info_vibratorId ` set (baseInfo a))"
      using True assms(3) by (auto simp: meant_def pick_def image_iff)
    finally show ?thesis using True by simp
  next
    case False
    let ?fits = "\<lambda>u. id_vibratorId i = -1 \<or> info_vibratorId u = id_vibratorId i"
    have "identifier_of v \<in> set (targets i (sv_devices sv)) \<longleftrightarrow> d = id_deviceId i \<and> ?fits v"
    proof (cases "sm_find (id_deviceId i) (sv_devices sv)")
      case None
      with False find [of d a] assms(2) show ?thesis by (auto simp: targets_def)
    next
      case (Some a')
      then have a': "(id_deviceId i, a') \<in> set (sv_devices sv)" using find by blast
      have eq: "targets i (sv_devices sv) = map identifier_of (filter ?fits (baseInfo a'))"
        using False Some by (simp add: targets_def)
      have "identifier_of v \<in> set (targets i (sv_devices sv)) \<longleftrightarrow> (\<exists>u \<in> set (baseInfo a'). ?fits u \<and> identifier_of u = identifier_of v)"
        unfolding eq set_map set_filter image_iff by auto
      also have "\<dots> \<longleftrightarrow> d = id_deviceId i \<and> ?fits v"
        using same [OF _ a'] one a' assms(3) by metis
      finally show ?thesis .
    qed
    with False show ?thesis by (simp add: meant_def)
  qed
qed

text \<open>C8. In every reachable state a request addresses exactly the vibrators its ids mean, with one
  exception: a request without a device id, for a vibrator id that a device does not have, addresses every vibrator of
  that device, local or not.\<close>

theorem request_addresses:
  assumes "service_reach U Ws sv" and "(d, a) \<in> set (sv_devices sv)" and "v \<in> set (baseInfo a)"
  shows "identifier_of v \<in> set (fst (CheckDeviceIdIsValid W i sv)) \<longleftrightarrow> meant i d v \<or>
    (id_deviceId i = -1 \<and> id_vibratorId i \<noteq> -1 \<and> id_vibratorId i \<notin> info_vibratorId ` set (baseInfo a))"
proof -
  have "devices_ok (sv_devices sv)" by (rule service_reach_devices [OF assms(1)])
  moreover obtain result sv' where c: "CheckDeviceIdIsValid W i sv = (result, sv')" by fastforce
  ultimately show ?thesis using targets_meant [OF _ assms(2,3), of i] CheckDeviceIdIsValid_result [OF c] by simp
qed

definition sample_entry :: VibratorAllInfos where
  "sample_entry = snd (hd (sv_devices sample_service))"

lemma request_addresses_witness:
  "identifier_of (hd (baseInfo sample_entry)) \<in> set (fst (CheckDeviceIdIsValid sample_world (mk_identifier (-1) 9) sample_service))"
proof -
  have m: "(1, sample_entry) \<in> set (sv_devices sample_service)" "hd (baseInfo sample_entry) \<in> set (baseInfo sample_entry)"
    by code_simp+
  have "9 \<notin> info_vibratorId ` set (baseInfo sample_entry)" by code_simp
  then show ?thesis
    using request_addresses [OF sample_service_reach [of "\<lambda>_. 0"] m, where W = sample_world and i = "mk_identifier (-1) 9"]
    by (simp add: mk_identifier_def)
qed

section \<open>Stopping\<close>

lemma StopVibratorService_running:
  assumes "StopVibratorService W i sv = (r, sv')"
  shows "is_running j sv' \<longleftrightarrow> is_running j sv \<and> (\<forall>k \<in> set (targets i (sv_devices sv)). \<not> same_motor k j)"
proof -
  have "GetVibratorThread j sv' = map_option (\<lambda>t. if (\<exists>k\<in>set (targets i (sv_devices sv)). same_motor k j) \<and> mt_running t
      then silenced t else t) (GetVibratorThread j sv)"
    using StopVibratorService_thread [OF assms] by blast
  then show ?thesis unfolding is_running_def by (cases "GetVibratorThread j sv") auto
qed

text \<open>C4. A permitted stop silences exactly the running threads it addresses and no other, and fails
  only when it addresses none.\<close>

theorem stop_silences_exactly:
  assumes "w_permission W" and "StopVibrator W i sv = (r, sv')"
  shows "r = (if fst (CheckDeviceIdIsValid W i sv) = [] then ERROR else NO_ERROR) \<and>
    (is_running j sv' \<longleftrightarrow> is_running j sv \<and> (\<forall>k \<in> set (fst (CheckDeviceIdIsValid W i sv)). \<not> same_motor k j))"
proof -
  obtain result sv1 where c: "CheckDeviceIdIsValid W i sv = (result, sv1)" by fastforce
  have "StopVibratorService W i sv = (r, sv')" using assms by (simp add: StopVibrator_def)
  from StopVibratorService_thread [OF this] StopVibratorService_running [OF this, of j] CheckDeviceIdIsValid_result [OF c] c
  show ?thesis by simp
qed

lemma stop_silences_exactly_witness:
  "\<not> is_running (mk_identifier 1 2) (snd (StopVibrator sample_world (mk_identifier 1 2) vibrating_service))"
proof -
  obtain r sv' where s: "StopVibrator sample_world (mk_identifier 1 2) vibrating_service = (r, sv')" by fastforce
  have "\<not> (\<forall>k \<in> set (fst (CheckDeviceIdIsValid sample_world (mk_identifier 1 2) vibrating_service)).
      \<not> same_motor k (mk_identifier 1 2))" by code_simp
  then show ?thesis using stop_silences_exactly [OF _ s, of "mk_identifier 1 2"] s by (simp add: sample_world_def)
qed

text \<open>C21. When the mute parameter is switched on, every local vibrator falls silent, and no other
  thread is touched.\<close>

theorem mute_silences_local:
  assumes "service_reach U Ws sv" and "w_muteParameter W" and "(d, a) \<in> set (sv_devices sv)" and "v \<in> set (baseInfo a)"
  shows "is_running (identifier_of v) (ParameterCallback W False sv) \<longleftrightarrow>
    is_running (identifier_of v) sv \<and>
    \<not> (\<exists>u \<in> set (baseInfo a). info_isLocalVibrator u \<and> info_vibratorId u = info_vibratorId v)"
proof -
  let ?sv = "RegisterDeviceMuteObserver W sv" and ?i = "mk_identifier (-1) (-1)"
  have ok: "devices_ok (sv_devices sv)" by (rule service_reach_devices [OF assms(1)])
  note dev = table_device [OF ok]
  have one: "a' = a" if "(d, a') \<in> set (sv_devices sv)" for a'
    using table_iff [OF ok, of d a'] table_iff [OF ok, of d a] that assms(3) by simp
  have t: "targets ?i (sv_devices sv) = map identifier_of (concat (map (\<lambda>(d, a). filter info_isLocalVibrator (baseInfo a)) (sv_devices sv)))"
    by (simp add: targets_def mk_identifier_def)
  have "(\<exists>k \<in> set (targets ?i (sv_devices sv)). same_motor k (identifier_of v)) \<longleftrightarrow>
      (\<exists>d' a' u. (d', a') \<in> set (sv_devices sv) \<and> u \<in> set (baseInfo a') \<and> info_isLocalVibrator u \<and>
        info_deviceId u = d \<and> info_vibratorId u = info_vibratorId v)"
    unfolding t using dev [OF assms(3,4)] by (auto simp: same_motor_def identifier_of_def)
  also have "\<dots> \<longleftrightarrow> (\<exists>u \<in> set (baseInfo a). info_isLocalVibrator u \<and> info_vibratorId u = info_vibratorId v)"
    using dev one assms(3) by blast
  finally have k: "(\<exists>k \<in> set (targets ?i (sv_devices sv)). same_motor k (identifier_of v)) \<longleftrightarrow>
      (\<exists>u \<in> set (baseInfo a). info_isLocalVibrator u \<and> info_vibratorId u = info_vibratorId v)" .
  obtain r sv' where s: "StopVibratorService W ?i ?sv = (r, sv')" by fastforce
  have d: "sv_devices ?sv = sv_devices sv" by (simp add: RegisterDeviceMuteObserver_def)
  have "ParameterCallback W False sv = sv'"
    using assms(2) s by (simp add: ParameterCallback_def Let_def RegisterDeviceMuteObserver_def)
  moreover have "is_running (identifier_of v) ?sv = is_running (identifier_of v) sv"
    using GetVibratorThread_devices [OF d, of "identifier_of v"] by (simp add: is_running_def)
  ultimately show ?thesis using StopVibratorService_running [OF s, of "identifier_of v"] k unfolding d by blast
qed

lemma mute_silences_local_witness:
  "\<not> is_running (identifier_of (hd (baseInfo sample_entry))) (ParameterCallback sample_world False sample_service)"
proof -
  have m: "(1, sample_entry) \<in> set (sv_devices sample_service)" "hd (baseInfo sample_entry) \<in> set (baseInfo sample_entry)"
    "\<exists>u \<in> set (baseInfo sample_entry). info_isLocalVibrator u \<and> info_vibratorId u = info_vibratorId (hd (baseInfo sample_entry))"
    by code_simp+
  with mute_silences_local [OF sample_service_reach [of "\<lambda>_. 0"] _ m(1,2), of sample_world] show ?thesis
    by (simp add: sample_world_def)
qed

section \<open>Requests without effect\<close>

text \<open>The request failed, and nothing was started, stopped or recorded.\<close>

definition turned_down :: "'c service \<Rightarrow> errcode \<times> 'c service \<Rightarrow> bool" where
  "turned_down sv p \<longleftrightarrow> fst p \<noteq> ERR_OK \<and> sv_devices (snd p) = sv_devices sv \<and> sv_dev (snd p) = sv_dev sv \<and>
     sv_records (snd p) = sv_records sv"

text \<open>The counters of the requests are no part of it.\<close>

definition same_work :: "'c service \<Rightarrow> 'c service \<Rightarrow> bool" where
  "same_work sv sv' \<longleftrightarrow> sv_devices sv' = sv_devices sv \<and> sv_dev sv' = sv_dev sv \<and> sv_records sv' = sv_records sv \<and>
     sv_disablePids sv' = sv_disablePids sv"

lemma same_work_simps [simp]:
  "same_work sv sv" "same_work sv (sv\<lparr>sv_timeCalls := n\<rparr>)" "same_work sv (sv\<lparr>sv_presetCalls := n\<rparr>)"
  "same_work sv (sv\<lparr>sv_fileCalls := n\<rparr>)" "same_work sv (sv\<lparr>sv_patternCalls := n\<rparr>)"
  by (simp_all add: same_work_def)

lemma turned_down_error [simp]: "same_work sv sv' \<Longrightarrow> e \<noteq> ERR_OK \<Longrightarrow> turned_down sv (e, sv')"
  by (simp add: turned_down_def same_work_def)

lemma StartVibrateThreadControl_disabled:
  assumes "vi_pid info \<in> set (sv_disablePids sv)"
  shows "fst (StartVibrateThreadControl W i info sv) = ERROR" "turned_down sv (StartVibrateThreadControl W i info sv)"
proof -
  obtain result sv1 where c: "CheckDeviceIdIsValid W i sv = (result, sv1)" by fastforce
  note f = counted_wrong_fields [OF CheckDeviceIdIsValid_result [OF c, THEN conjunct2]]
  from assms f show "fst (StartVibrateThreadControl W i info sv) = ERROR" "turned_down sv (StartVibrateThreadControl W i info sv)"
    by (simp_all add: StartVibrateThreadControl_def c turned_down_def)
qed

lemma start_disabled:
  assumes "vi_pid info \<in> set (sv_disablePids sv)" and "same_work sv sv'"
  shows "turned_down sv (start_control W i info sv')" "turned_down sv (PerformVibrationControl W i d info sv')"
  using StartVibrateThreadControl_disabled [of info sv' W i] assms
  by (auto simp: start_control_def PerformVibrationControl_def turned_down_def same_work_def split: prod.splits)

lemma turned_down_then:
  "turned_down sv p \<Longrightarrow> turned_down sv (case p of (r, s) \<Rightarrow> if r \<noteq> ERR_OK then (r, s) else f s)"
  by (cases p) (simp add: turned_down_def)

lemma base_info_pid [simp]: "vi_pid (base_info W m u b) = w_pid W"
  by (simp add: base_info_def)

text \<open>C5. A process that has been disabled starts nothing by any of the six requests: each fails and
  leaves the threads, the device and the records as they are.\<close>

theorem disabled_process_starts_nothing:
  assumes "w_pid W \<in> set (sv_disablePids sv)"
  shows "turned_down sv (Vibrate W i timeOut usage b sv) \<and> turned_down sv (PlayVibratorEffect W i effect count usage b sv) \<and>
    turned_down sv (PlayPrimitiveEffect W i effect p sv) \<and> turned_down sv (PlayVibratorCustom U W i pkg h sv) \<and>
    turned_down sv (PlayPattern U W i a h sv) \<and> turned_down sv (PlayPackageBySessionId W i pkg h sv)"
proof -
  note down = start_disabled [OF _ _] turned_down_then Let_def assms
  have "turned_down sv (Vibrate W i timeOut usage b sv)"
    by (simp add: Vibrate_def down)
  moreover have "turned_down sv (PlayVibratorEffect W i effect count usage b sv)"
    by (simp add: PlayVibratorEffect_def down split: option.split)
  moreover have "turned_down sv (PlayPrimitiveEffect W i effect p sv)"
    by (simp add: PlayPrimitiveEffect_def down split: option.split)
  moreover have "turned_down sv (PlayVibratorCustom U W i pkg h sv)"
    by (simp add: PlayVibratorCustom_def down split: prod.split)
  moreover have "turned_down sv (PlayPattern U W i a h sv)"
    by (simp add: PlayPattern_def down split: prod.split)
  moreover have "turned_down sv (PlayPackageBySessionId W i pkg h sv)"
    by (simp add: PlayPackageBySessionId_def down split: prod.split)
  ultimately show ?thesis by blast
qed

lemma disabled_process_starts_nothing_witness:
  "turned_down (snd (DisableVibratorByPid (sample_world\<lparr>w_env := sample_env\<lparr>token_native := True\<rparr>\<rparr>) 7 sample_service))
     (Vibrate sample_world (mk_identifier (-1) (-1)) 500 5 False
       (snd (DisableVibratorByPid (sample_world\<lparr>w_env := sample_env\<lparr>token_native := True\<rparr>\<rparr>) 7 sample_service)))"
proof -
  have "w_pid sample_world \<in> set (sv_disablePids
      (snd (DisableVibratorByPid (sample_world\<lparr>w_env := sample_env\<lparr>token_native := True\<rparr>\<rparr>) 7 sample_service)))"
    by code_simp
  from disabled_process_starts_nothing [OF this] show ?thesis by blast
qed

text \<open>Only the counters of the requests change.\<close>

definition only_counted :: "'c service \<Rightarrow> 'c service \<Rightarrow> bool" where
  "only_counted sv sv' \<longleftrightarrow> sv' = sv\<lparr>sv_timeCalls := sv_timeCalls sv', sv_presetCalls := sv_presetCalls sv',
     sv_fileCalls := sv_fileCalls sv', sv_patternCalls := sv_patternCalls sv'\<rparr>"

definition denied :: "'c service \<Rightarrow> errcode \<times> 'c service \<Rightarrow> bool" where
  "denied sv p \<longleftrightarrow> fst p = PERMISSION_DENIED \<and> only_counted sv (snd p)"

text \<open>C6. A caller without the permission to vibrate is told so by every request to vibrate, to stop or
  to disable a process, and nothing changes but the counters of the daily report.\<close>

theorem permission_denied_no_effect:
  assumes "\<not> w_permission W"
  shows "denied sv (Vibrate W i timeOut usage b sv) \<and> denied sv (PlayVibratorEffect W i effect count usage b sv) \<and>
    denied sv (PlayPrimitiveEffect W i effect p sv) \<and> denied sv (PlayVibratorCustom U W i pkg h sv) \<and>
    denied sv (PlayPattern U W i a h sv) \<and> denied sv (PlayPackageBySessionId W i pkg h sv) \<and>
    denied sv (StopVibrator W i sv) \<and> denied sv (StopVibratorByMode W i mode sv) \<and>
    denied sv (StopVibrateBySessionId W i session sv) \<and> denied sv (DisableVibratorByPid W pid sv) \<and>
    denied sv (EnableVibratorByPid W pid sv)"
  using assms
  by (simp add: denied_def only_counted_def Let_def Vibrate_def PlayVibratorEffect_def PlayVibratorEffectCheckAuthAndParam_def
      PlayPrimitiveEffect_def PlayPrimitiveEffectCheckAuthAndParam_def PlayVibratorCustom_def CheckAuthAndParam_def
      PlayPattern_def PlayPackageBySessionId_def PlayPatternCheckAuthAndParam_def StopVibrator_def StopVibratorByMode_def
      StopVibrateBySessionId_def DisableVibratorByPid_def EnableVibratorByPid_def)

lemma permission_denied_no_effect_witness:
  "denied sample_service (Vibrate (sample_world\<lparr>w_permission := False\<rparr>) (mk_identifier 1 1) 5 5 False sample_service)"
  using permission_denied_no_effect [of "sample_world\<lparr>w_permission := False\<rparr>"] by simp

end
