(* ===== verification/ServiceRequests.thy ===== *)
theory ServiceRequests
  imports ServiceProps
begin

text \<open>
  What an accepted request comes to: the thread that plays it, up to the first call of that thread to
  the device; and two kinds of request that are accepted and never played.
\<close>

section \<open>A started request\<close>

definition playing :: "VibrateInfo \<Rightarrow> VibratorIdentifierIPC \<Rightarrow> 'c service \<Rightarrow> bool" where
  "playing info k sv \<longleftrightarrow>
     (\<exists>t. GetVibratorThread k sv = Some t \<and> mt_running t \<and> th_info t = info \<and> th_params t = k \<and> \<not> th_exitFlag t)"

lemma start_one_playing:
  assumes ok: "devices_ok (sv_devices sv)" "request_ok info" and mode: "vi_mode info \<noteq> VIBRATE_PRESET"
    and s: "start_one W info i (n, sv) = (n', sv')" and thread: "GetVibratorThread i sv \<noteq> None"
  shows "(should_process info i \<longrightarrow> n' = n \<longrightarrow> playing info i sv') \<and>
    (playing info k sv \<longrightarrow> playing info k sv' \<or> playing info i sv') \<and> n \<le> n' \<and> n' \<le> Suc n \<and>
    (\<forall>j. GetVibratorThread j sv \<noteq> None \<longrightarrow> GetVibratorThread j sv' \<noteq> None)"
proof (cases rule: start_one_cases [of W info i n sv])
  case (ignored sv1)
  then have d: "sv_devices sv' = sv_devices sv" using s by simp
  have "n' = Suc n \<or> \<not> should_process info i" "n' \<le> Suc n" using ignored s by simp_all
  moreover have "n \<le> n'" using s by (auto simp: start_one_def Let_def split: prod.splits if_splits)
  ultimately show ?thesis using GetVibratorThread_devices [OF d] by (auto simp: playing_def)
next
  case (started sv1)
  then have sv': "sv' = StartVibrateThread W info i sv1" "n' = n" using s by simp_all
  have eq: "GetVibratorThread j sv1 = GetVibratorThread j sv" for j
    by (rule GetVibratorThread_devices) (rule started(2))
  obtain t where t: "GetVibratorThread i sv1 = Some t" using thread eq by auto
  have "motor_ok t" using motor_of_table [OF ok(1)] t eq by metis
  then have exit: "\<not> th_exitFlag t" by (simp add: motor_ok_def)
  have fast: "\<not> fast_start W info t" using mode by (simp add: fast_start_def short_preset_def)
  have new: "playing info i sv'"
    using t fast exit unfolding sv' playing_def StartVibrateThread_thread
    by (simp add: UpdateVibratorEffect_def silenced_def ResetVibrateInfo_def SetExitStatus_def NotifyExit_def)
  have old: "playing info k sv' \<or> same_motor i k" if "playing info k sv"
    using that t eq unfolding sv' playing_def StartVibrateThread_thread by (auto split: if_splits)
  have "playing info k sv' \<or> playing info i sv'" using new by blast
  moreover have "GetVibratorThread j sv' \<noteq> None" if "GetVibratorThread j sv \<noteq> None" for j
    using that t eq unfolding sv' StartVibrateThread_thread by (simp split: if_splits)
  ultimately show ?thesis using new sv'(2) by simp
qed

lemma start_fold_playing:
  assumes "request_ok info" and "vi_mode info \<noteq> VIBRATE_PRESET"
  shows "devices_ok (sv_devices sv) \<Longrightarrow> fold (start_one W info) is (n, sv) = (n', sv') \<Longrightarrow>
    \<forall>i\<in>set is. should_process info i \<and> GetVibratorThread i sv \<noteq> None \<Longrightarrow> n' < n + length is \<or> (\<exists>k\<in>S. playing info k sv) \<Longrightarrow>
    \<exists>k\<in>set is \<union> S. playing info k sv'"
proof (induction "is" arbitrary: n sv S)
  case Nil
  then show ?case by auto
next
  case (Cons i "is")
  obtain n1 sv1 where s: "start_one W info i (n, sv) = (n1, sv1)" by fastforce
  have t: "GetVibratorThread i sv \<noteq> None" "should_process info i" using Cons.prems(3) by auto
  note step = start_one_playing [OF Cons.prems(1) assms s t(1)]
  have ok: "devices_ok (sv_devices sv1)" using start_one_ok [OF assms(1) Cons.prems(1), of W i n] s by simp
  have rest: "fold (start_one W info) is (n1, sv1) = (n', sv')" using Cons.prems(2) s by simp
  have th: "\<forall>j\<in>set is. should_process info j \<and> GetVibratorThread j sv1 \<noteq> None" using Cons.prems(3) step by auto
  have "n' < n1 + length is \<or> (\<exists>k\<in>insert i S. playing info k sv1)"
  proof (cases "n1 = n")
    case True
    then show ?thesis using step t(2) by blast
  next
    case False
    moreover have "n \<le> n1" "n1 \<le> Suc n" using step [of i] by blast+
    ultimately have "n1 = Suc n" by linarith
    with Cons.prems(4) step show ?thesis by auto
  qed
  from Cons.IH [OF ok rest th this] step show ?case by auto
qed

lemma start_fold_count: "fold (start_one W info) is (n, sv) = (n', sv') \<Longrightarrow> n' \<le> n + length is"
proof (induction "is" arbitrary: n sv)
  case (Cons i "is")
  obtain n1 sv1 where s: "start_one W info i (n, sv) = (n1, sv1)" by fastforce
  then have "n1 \<le> Suc n" by (auto simp: start_one_def Let_def split: prod.splits if_splits)
  with Cons.IH [of n1 sv1] Cons.prems s show ?case by simp
qed simp

lemma StartVibrateThreadControl_playing:
  assumes "devices_ok (sv_devices sv)" and "request_ok info" and "vi_mode info \<noteq> VIBRATE_PRESET" and "unique_indices info = []"
    and "StartVibrateThreadControl W i info sv = (ERR_OK, sv')"
  shows "\<exists>k \<in> set (targets i (sv_devices sv)). playing info k sv'"
proof -
  obtain result sv1 where c: "CheckDeviceIdIsValid W i sv = (result, sv1)" by fastforce
  have r: "result = targets i (sv_devices sv)" and d: "sv_devices sv1 = sv_devices sv"
    using CheckDeviceIdIsValid_result [OF c] counted_wrong_fields(1) by auto
  obtain n sv2 where f: "fold (start_one W info) result (0, sv1) = (n, sv2)" by fastforce
  have n: "result \<noteq> []" "n \<noteq> length result" "sv' = sv2"
    using assms(5) c f by (auto simp: StartVibrateThreadControl_def split: if_splits)
  have th: "\<forall>i\<in>set result. should_process info i \<and> GetVibratorThread i sv1 \<noteq> None"
    using targets_have_threads [OF assms(1)] assms(4) GetVibratorThread_devices [OF d] unfolding r should_process_def by fastforce
  have "devices_ok (sv_devices sv1)" using assms(1) d by simp
  from start_fold_playing [OF assms(2,3) this f th, of "{}"] start_fold_count [OF f] n r show ?thesis by auto
qed

text \<open>A run of the thread of a motor, from the members that were set when it was started.\<close>

definition run_of :: "motor \<Rightarrow> 'c \<Rightarrow> int option list \<Rightarrow> 'c thread" where
  "run_of t d script = \<lparr>th_info = th_info t, th_waves = th_waves t, th_params = th_params t, th_exitFlag = th_exitFlag t,
     th_dev = d, th_script = script, th_clock = 0, th_calls = []\<rparr>"

lemma wait_for_calls_mono: "th_calls (snd (device_call k f st)) = th_calls st @ [(th_clock st, k)]"
  by (simp add: device_call_def split: prod.split)

lemma PlayOnce_first_call:
  "\<exists>cs. th_calls (snd (PlayOnce V T info i st)) = th_calls st @ (th_clock st, CallStartOnce i (word_of_int (vi_duration info))) # cs"
  by (auto simp: PlayOnce_def Let_def device_call_def split: prod.split)

lemma Vibrate_is_played:
  assumes "service_reach U Ws (sv :: 'c service)" and "Vibrate W i timeOut usage b sv = (ERR_OK, sv')"
  shows "\<exists>k t. k \<in> set (targets i (sv_devices sv)) \<and> GetVibratorThread k sv' = Some t \<and> mt_running t \<and>
    th_info t = (base_info W VIBRATE_TIME usage b)\<lparr>vi_duration := timeOut\<rparr> \<and>
    (\<forall>V T d script. \<exists>cs. th_calls (snd (play U V T (run_of t (d :: 'c) script))) = (0, CallStartOnce k (word_of_int timeOut)) # cs)"
proof -
  let ?info = "(base_info W VIBRATE_TIME usage b)\<lparr>vi_duration := timeOut\<rparr>"
  let ?sv = "sv\<lparr>sv_timeCalls := wrap32 (sv_timeCalls sv + 1)\<rparr>"
  have mode: "vi_mode ?info = VIBRATE_TIME" by (simp add: base_info_def)
  have c: "0 < timeOut" "timeOut \<le> 1800000" "0 \<le> usage" "usage < USAGE_MAX"
    and "start_control W i ?info ?sv = (ERR_OK, sv')"
    using assms(2) by (auto simp: Vibrate_def Let_def split: if_splits)
  then have s: "StartVibrateThreadControl W i ?info ?sv = (ERR_OK, sv')"
    by (auto simp: start_control_def split: prod.splits if_splits)
  have ok: "devices_ok (sv_devices ?sv)" using service_reach_devices [OF assms(1)] by simp
  have "request_ok ?info" using request_ok_base(1) [of usage timeOut W b] c by simp
  from StartVibrateThreadControl_playing [OF ok this _ _ s] mode obtain k t where k: "k \<in> set (targets i (sv_devices sv))"
    and t: "GetVibratorThread k sv' = Some t" "mt_running t" "th_info t = ?info" "th_params t = k"
    by (auto simp: playing_def unique_indices_def)
  have "\<exists>cs. th_calls (snd (play U V T (run_of t (d :: 'c) script))) = (0, CallStartOnce k (word_of_int timeOut)) # cs" for V T d script
  proof -
    have "play U V T (run_of t (d :: 'c) script) = PlayOnce V T ?info k (run_of t (d :: 'c) script)"
      using t(3,4) mode by (simp add: play_def Let_def run_of_def)
    with PlayOnce_first_call [of V T ?info k "run_of t d script"] show ?thesis by (simp add: run_of_def)
  qed
  with k t show ?thesis by blast
qed

text \<open>A vibration that the service has accepted is played: one of the vibrators the request means has
  a running thread with exactly this request, and whatever the device does and whenever the thread is told to end, the
  first call of its run starts that vibrator for the requested time.\<close>

theorem accepted_vibration_is_played:
  assumes "service_reach U Ws (sv :: 'c service)" and "Vibrate W i timeOut usage b sv = (ERR_OK, sv')"
  shows "\<exists>k t. k \<in> set (targets i (sv_devices sv)) \<and> GetVibratorThread k sv' = Some t \<and> mt_running t \<and>
    th_info t = (base_info W VIBRATE_TIME usage b)\<lparr>vi_duration := timeOut\<rparr> \<and>
    (\<forall>V T d script. \<exists>cs. th_calls (snd (play U V T (run_of t (d :: 'c) script))) = (0, CallStartOnce k (word_of_int timeOut)) # cs)"
  using Vibrate_is_played [OF assms] .

lemma accepted_vibration_is_played_witness:
  "\<exists>k t. GetVibratorThread k vibrating_service = Some t \<and> mt_running t"
proof -
  have "Vibrate sample_world (mk_identifier (-1) (-1)) 500 5 False sample_service = (ERR_OK, vibrating_service)"
    by code_simp
  from accepted_vibration_is_played [OF sample_service_reach [of "\<lambda>_. 0"] this] show ?thesis by blast
qed

section \<open>Requests that are accepted and never played\<close>

lemma targets_member:
  "k \<in> set (targets i m) \<Longrightarrow> \<exists>d a v. (d, a) \<in> set m \<and> v \<in> set (baseInfo a) \<and> k = identifier_of v"
  by (auto simp: targets_def split: if_splits option.splits dest!: sm_find_in_set sm_find_in_set [OF sym])

text \<open>In every reachable state, a custom request each of whose events names an index other than 0
  starts no thread, whatever vibrators it addresses: the service never fills in the position of a vibrator, so no vibrator
  matches. The client is told that the vibration was started all the same, as for any request that addresses a vibrator.\<close>

theorem indexed_request_starts_nothing:
  assumes "service_reach U Ws sv" and "unique_indices info \<noteq> []" and "0 \<notin> set (unique_indices info)"
  shows "sv_devices (snd (StartVibrateThreadControl W i info sv)) = sv_devices sv \<and>
    (fst (StartVibrateThreadControl W i info sv) = ERR_OK \<longleftrightarrow>
       targets i (sv_devices sv) \<noteq> [] \<and> vi_pid info \<notin> set (sv_disablePids sv))"
proof -
  obtain result sv1 where c: "CheckDeviceIdIsValid W i sv = (result, sv1)" by fastforce
  have r: "result = targets i (sv_devices sv)" and d: "sv_devices sv1 = sv_devices sv" "sv_disablePids sv1 = sv_disablePids sv"
    using CheckDeviceIdIsValid_result [OF c] counted_wrong_fields by auto
  have pos: "id_position k = 0" if "k \<in> set result" for k
    using targets_member [of k i "sv_devices sv"] that service_reach_devices [OF assms(1)] unfolding r
    by (auto simp: identifier_of_def devices_ok_def entry_ok_def)
  then have no: "\<not> should_process info k" if "k \<in> set result" for k
    using that assms(2,3) by (simp add: should_process_def)
  have "fst (fold (start_one W info) is (n, sv)) = n \<and> sv_devices (snd (fold (start_one W info) is (n, sv))) = sv_devices sv"
    if "\<forall>k\<in>set is. \<not> should_process info k" for "is" n sv
    using that
  proof (induction "is" arbitrary: n sv)
    case (Cons k "is")
    obtain b sv2 where s: "(if id_isLocalVibrator k then Service_ShouldIgnoreVibrate W info k sv else (False, sv)) = (b, sv2)"
      by fastforce
    then have "start_one W info k (n, sv) = (n, sv2)" "sv_devices sv2 = sv_devices sv"
      using Cons.prems Service_ShouldIgnoreVibrate_fields(1) [of W info k sv b sv2]
      by (auto simp: start_one_def Let_def split: if_splits)
    with Cons show ?case by simp
  qed simp
  then have "fst (fold (start_one W info) result (0, sv1)) = 0 \<and> sv_devices (snd (fold (start_one W info) result (0, sv1))) = sv_devices sv1"
    using no by blast
  then show ?thesis using c r d by (auto simp: StartVibrateThreadControl_def split: prod.split)
qed

definition indexed_request :: VibrateInfo where
  "indexed_request = default_info\<lparr>vi_mode := VIBRATE_CUSTOM_COMPOSITE_TIME, vi_package := \<lparr>pkg_patterns =
     [\<lparr>pat_startTime = 0, pat_patternDuration = 0, pat_events =
        [\<lparr>ev_tag = EVENT_TAG_TRANSIENT, ev_time = 0, ev_duration = 10, ev_intensity = 50, ev_frequency = 50,
          ev_index = 1, ev_points = []\<rparr>]\<rparr>], pkg_packageDuration = 0\<rparr>\<rparr>"

lemma indexed_request_starts_nothing_witness:
  "sv_devices (snd (StartVibrateThreadControl sample_world (mk_identifier 1 2) indexed_request sample_service)) =
     sv_devices sample_service"
proof -
  have "unique_indices indexed_request \<noteq> []" "0 \<notin> set (unique_indices indexed_request)" by code_simp+
  from indexed_request_starts_nothing [OF sample_service_reach [of "\<lambda>_. 0"] this] show ?thesis by blast
qed

text \<open>A package played by session on a device without high definition support is never heard: the
  thread that the request starts runs to its end without a single call to the device, although the client has been told
  that the vibration was started. The handler stores the package where the thread does not look for it.\<close>

theorem session_package_not_played:
  assumes "service_reach U Ws (sv :: 'c service)" and "\<not> isSupportHdHaptic (snd (GetHapticCapacityInfo i sv))"
    and "PlayPackageBySessionId W i pkg h sv = (ERR_OK, sv')"
  shows "\<exists>k t. k \<in> set (targets i (sv_devices sv)) \<and> GetVibratorThread k sv' = Some t \<and> mt_running t \<and>
    vi_packageIPC (th_info t) = pkg \<and> (\<forall>U V T d script. th_calls (snd (play U V T (run_of t (d :: 'c) script))) = [])"
proof -
  let ?c = "snd (GetHapticCapacityInfo i sv)" and ?b = "base_info W VIBRATE_BUTT (ch_usage h) (ch_systemUsage h)"
  let ?info = "?b\<lparr>vi_sessionId := vp_sessionId (ch_parameter h), vi_mode := composite_mode ?c VIBRATE_BUTT, vi_packageIPC := pkg\<rparr>"
  have check: "PlayPatternCheckAuthAndParam W (ch_usage h) (ch_parameter h) = ERR_OK"
    using assms(3) by (auto simp: PlayPackageBySessionId_def Let_def split: if_splits)
  from assms(3) have "PerformVibrationControl W i (pkg_packageDuration pkg) ?info sv = (ERR_OK, sv')"
    unfolding PlayPackageBySessionId_def Let_def using check assms(2)
    by (subst (asm) GetHapticCapacityInfo_ok) (simp add: mode_butt)
  then have s: "StartVibrateThreadControl W i ?info sv = (ERR_OK, sv')"
    by (auto simp: PerformVibrationControl_def split: prod.splits if_splits)
  have mode: "vi_mode ?info \<in> {VIBRATE_CUSTOM_COMPOSITE_EFFECT, VIBRATE_CUSTOM_COMPOSITE_TIME, VIBRATE_BUTT}"
    and pkg: "vi_package ?info = empty_package"
    by (simp_all add: composite_mode_def base_info_def default_info_def)
  have "request_ok ?info" using request_ok_base(6) PlayPatternCheck_usage [OF check] by blast
  from StartVibrateThreadControl_playing [OF service_reach_devices [OF assms(1)] this _ _ s] mode pkg
  obtain k t where k: "k \<in> set (targets i (sv_devices sv))"
    and t: "GetVibratorThread k sv' = Some t" "mt_running t" "th_info t = ?info"
    by (auto simp: playing_def unique_indices_def empty_package_def)
  have "th_calls (snd (play U V T (run_of t (d :: 'c) script))) = []" for U V T d script
    using mode pkg t(3)
    by (auto simp: play_def Let_def run_of_def PlayCustomByCompositeEffect_def composite_effects_def copyInfoWithIndexEvents_def
        empty_package_def TransformEffect_def TransformTime_def MixedWaveProcess_def placed_events_def PlayCompositeEffect_def
        split: option.splits)
  with k t show ?thesis by auto
qed

definition sample_haptic :: CustomHapticInfoIPC where
  "sample_haptic = \<lparr>ch_usage = 5, ch_systemUsage = False, ch_parameter = default_parameter\<lparr>vp_sessionId := 4\<rparr>\<rparr>"

lemma session_package_not_played_witness:
  "\<exists>k t. GetVibratorThread k (snd (PlayPackageBySessionId sample_world (mk_identifier 1 2) (vi_package indexed_request)
     sample_haptic sample_service)) = Some t \<and> mt_running t \<and>
     (\<forall>U V T d script. th_calls (snd (play U V T (run_of t (d :: compatible_state option) script))) = [])"
proof -
  have "\<not> isSupportHdHaptic (snd (GetHapticCapacityInfo (mk_identifier 1 2) sample_service))"
    and "fst (PlayPackageBySessionId sample_world (mk_identifier 1 2) (vi_package indexed_request) sample_haptic sample_service) = ERR_OK"
    by code_simp+
  moreover obtain r sv' where "PlayPackageBySessionId sample_world (mk_identifier 1 2) (vi_package indexed_request)
      sample_haptic sample_service = (r, sv')" by fastforce
  ultimately show ?thesis
    using session_package_not_played [OF sample_service_reach [of "\<lambda>_. 0"], where i = "mk_identifier 1 2" and W = sample_world]
    by (metis fst_conv snd_conv)
qed

end
