(* ===== verification/ServiceEvents.thy ===== *)
theory ServiceEvents
  imports ServiceRequests
begin

text \<open>Devices that are plugged in and out, and clients that die.\<close>

section \<open>Steps on one device\<close>

lemma upd_motor_other: "d \<noteq> id_deviceId i \<Longrightarrow> sm_find d (sv_devices (upd_motor i f sv)) = sm_find d (sv_devices sv)"
  using sm_find_map_snd [of d "\<lambda>d a. if d = id_deviceId i
      then a\<lparr>controlInfo := (controlInfo a)\<lparr>vibratorThreads :=
        map (\<lambda>(m, t). (m, if m = id_vibratorId i then f t else t)) (vibratorThreads (controlInfo a))\<rparr>\<rparr> else a" "sv_devices sv"]
  by (simp add: upd_motor_def option.map_ident)

lemma stop_one_other: "d \<noteq> id_deviceId i \<Longrightarrow> sm_find d (sv_devices (stop_one W i sv)) = sm_find d (sv_devices sv)"
  by (auto simp: stop_one_def StopVibrateThread_def upd_motor_other split: option.split)

lemma stop_fold_other:
  "\<forall>i\<in>set is. id_deviceId i \<noteq> d \<Longrightarrow> sm_find d (sv_devices (fold (stop_one W) is sv)) = sm_find d (sv_devices sv)"
  by (induction "is" arbitrary: sv) (simp_all add: stop_one_other)

lemma stop_service_other:
  assumes "devices_ok (sv_devices sv)" and "id_deviceId i \<noteq> -1" and "d \<noteq> id_deviceId i"
  shows "sm_find d (sv_devices (snd (StopVibratorService W i sv))) = sm_find d (sv_devices sv)"
proof -
  obtain result sv1 where c: "CheckDeviceIdIsValid W i sv = (result, sv1)" by fastforce
  have r: "result = targets i (sv_devices sv)" and f: "sv_devices sv1 = sv_devices sv"
    using CheckDeviceIdIsValid_result [OF c] counted_wrong_fields(1) by auto
  have "id_deviceId k = id_deviceId i" if "k \<in> set (targets i (sv_devices sv))" for k
  proof (cases "sm_find (id_deviceId i) (sv_devices sv)")
    case None
    with that assms(2) show ?thesis by (simp add: targets_def)
  next
    case (Some a)
    with that assms(2) obtain v where "v \<in> set (baseInfo a)" "k = identifier_of v"
      by (auto simp: targets_def)
    with table_device [OF assms(1), of "id_deviceId i" a v] table_iff [OF assms(1), of "id_deviceId i" a] Some
    show ?thesis by (simp add: identifier_of_def)
  qed
  then have "\<forall>k\<in>set result. id_deviceId k \<noteq> d" using r assms(3) by auto
  from stop_fold_other [OF this, of W sv1] c f show ?thesis by (simp add: StopVibratorService_def)
qed

lemma stop_listed_fold_other:
  "devices_ok (sv_devices sv) \<Longrightarrow> d \<noteq> -1 \<Longrightarrow> d' \<noteq> d \<Longrightarrow>
   sm_find d' (sv_devices (fold (stop_listed W d) vs sv)) = sm_find d' (sv_devices sv)"
proof (induction vs arbitrary: sv)
  case (Cons v vs)
  have ok: "devices_ok (sv_devices (stop_listed W d v sv))"
    using devices_ok_StopVibratorService [OF Cons.prems(1)] by (simp add: stop_listed_def)
  have "sm_find d' (sv_devices (stop_listed W d v sv)) = sm_find d' (sv_devices sv)"
    using stop_service_other [OF Cons.prems(1), of "mk_identifier d (info_vibratorId v)" d' W] Cons.prems(2,3)
    by (simp add: stop_listed_def mk_identifier_def)
  with Cons.IH [OF ok Cons.prems(2,3)] show ?case by simp
qed simp

section \<open>Plugging out\<close>

definition told :: "('c, 'j) world \<Rightarrow> HdfVibratorPlugInfo \<Rightarrow> (nat, int) stdmap \<Rightarrow> plug_message list" where
  "told W info clients = [\<lparr>msg_client = k, msg_status = plug_status info, msg_deviceId = plug_deviceId info,
     msg_vibratorCnt = plug_vibratorCnt info\<rparr>. (k, pid) \<leftarrow> clients, w_proxy W k]"

lemma plug_messages_told: "plug_messages W info sv = told W info (sv_clients sv)"
proof -
  have "told W info cs = map (\<lambda>(k, pid). \<lparr>msg_client = k, msg_status = plug_status info,
      msg_deviceId = plug_deviceId info, msg_vibratorCnt = plug_vibratorCnt info\<rparr>) (filter (\<lambda>(k, pid). w_proxy W k) cs)" for cs
    by (induction cs) (auto simp: told_def)
  then show ?thesis by (simp add: plug_messages_def)
qed

lemma stop_listed_fold_fields:
  "sv_clients (fold (stop_listed W d) vs sv) = sv_clients sv" "sv_messages (fold (stop_listed W d) vs sv) = sv_messages sv"
  by (induction vs arbitrary: sv) (simp_all add: stop_listed_def StopVibratorService_fields)

text \<open>C18. When a device is unplugged, it disappears from the table and a request for it fails from then on;
  every other device keeps its vibrators and threads, and each client with a proxy is told exactly once.\<close>

theorem unplugged_device_forgotten:
  assumes "service_reach U Ws sv" and "plug_status info = 0" and "plug_deviceId info = d" and "d \<noteq> -1"
    and "sm_find d (sv_devices sv) = Some a"
  shows "sm_find d' (sv_devices (SendMsgToClient W info sv)) = (if d' = d then None else sm_find d' (sv_devices sv)) \<and>
    fst (StartVibrateThreadControl W' (mk_identifier d v) req (SendMsgToClient W info sv)) = ERROR \<and>
    sv_messages (SendMsgToClient W info sv) = sv_messages sv @ told W info (sv_clients sv)"
proof -
  let ?sv = "fold (stop_listed W d) (baseInfo a) sv"
  note ok = service_reach_devices [OF assms(1)]
  have eq: "SendMsgToClient W info sv = ?sv\<lparr>sv_devices := sm_erase d (sv_devices ?sv),
      sv_messages := sv_messages sv @ told W info (sv_clients sv)\<rparr>"
    using assms(2,3,5) by (simp add: SendMsgToClient_def Let_def plug_messages_told stop_listed_fold_fields)
  have find: "sm_find d' (sv_devices (SendMsgToClient W info sv)) = (if d' = d then None else sm_find d' (sv_devices sv))" for d'
    using stop_listed_fold_other [OF ok assms(4), of d' W "baseInfo a"] by (simp add: eq)
  have "CheckDeviceIdIsValid W' (mk_identifier d v) (SendMsgToClient W info sv) = ([], SendMsgToClient W info sv)"
    using find [of d] assms(4) by (simp add: CheckDeviceIdIsValid_def mk_identifier_def)
  then have "fst (StartVibrateThreadControl W' (mk_identifier d v) req (SendMsgToClient W info sv)) = ERROR"
    by (simp add: StartVibrateThreadControl_def)
  with find show ?thesis by (simp add: eq)
qed

lemma unplugged_device_forgotten_witness:
  "sm_find 1 (sv_devices (SendMsgToClient sample_world (plug_event 0 1) sample_service)) = None"
proof -
  have "plug_status (plug_event 0 1) = 0" "plug_deviceId (plug_event 0 1) = 1"
    "sm_find 1 (sv_devices sample_service) = Some sample_entry" by code_simp+
  from unplugged_device_forgotten [OF sample_service_reach [of "\<lambda>_. 0"] this(1,2) _ this(3), where d' = 1 and W = sample_world and W' = sample_world]
  show ?thesis by simp
qed

lemma add_thread_fold_new:
  "list_all (\<lambda>(m, t). t = new_thread) ts \<Longrightarrow> list_all (\<lambda>(m, t). t = new_thread) (fold add_thread ids ts)"
  by (induction ids arbitrary: ts) (simp_all add: add_thread_def)

lemma mk_control_new: "m \<in> set ids \<Longrightarrow> map_of (vibratorThreads (mk_control ids)) m = Some new_thread"
proof -
  assume "m \<in> set ids"
  then have "m \<in> fst ` set (vibratorThreads (mk_control ids))"
    using mk_control_threads [of ids] by (simp add: threads_ok_def)
  moreover have "list_all (\<lambda>(m, t). t = new_thread) (vibratorThreads (mk_control ids))"
    using add_thread_fold_new [of "[]" ids] by (simp add: mk_control_def)
  ultimately show ?thesis
    by (cases "map_of (vibratorThreads (mk_control ids)) m")
      (auto simp: map_of_eq_None_iff list_all_iff dest!: map_of_SomeD)
qed

text \<open>When a device is plugged in that the table does not have, it is entered with exactly the
  vibrators that the driver lists for it, each with an idle thread; the other devices stay as they are. A device that is
  known already is left alone.\<close>

theorem plugged_device_entered:
  assumes "service_reach U Ws sv" and "plug_status info \<noteq> 0" and "plug_deviceId info = d"
    and "vs = filter (\<lambda>v. hvi_deviceId v = d) (snd (op_GetVibratorInfo (w_dev W) (sv_dev sv)))" and "vs \<noteq> []"
  shows "(sm_find d (sv_devices sv) = None \<longrightarrow>
      (\<exists>a. sm_find d (sv_devices (SendMsgToClient W info sv)) = Some a \<and>
         map info_vibratorId (baseInfo a) = map hvi_vibratorId vs \<and>
         map info_isLocalVibrator (baseInfo a) = map hvi_isLocal vs) \<and>
      (\<forall>v\<in>set vs. GetVibratorThread (mk_identifier d (hvi_vibratorId v)) (SendMsgToClient W info sv) = Some new_thread)) \<and>
    (sm_find d (sv_devices sv) \<noteq> None \<longrightarrow> sv_devices (SendMsgToClient W info sv) = sv_devices sv) \<and>
    (d' \<noteq> d \<longrightarrow> sm_find d' (sv_devices (SendMsgToClient W info sv)) = sm_find d' (sv_devices sv))"
proof -
  let ?infos = "snd (op_GetVibratorInfo (w_dev W) (sv_dev sv))"
  have devs: "sv_devices (SendMsgToClient W info sv) = sv_devices (InsertVibratorInfo W d (plug_deviceName info) ?infos sv)"
    using assms(2,3) by (simp add: SendMsgToClient_def Let_def)
  show ?thesis
  proof (cases "sm_find d (sv_devices sv)")
    case (Some a)
    then have "filter (\<lambda>v. sm_find (hvi_deviceId v) (sv_devices sv) = None \<and> hvi_deviceId v = d) ?infos = []"
      by (auto simp: filter_empty_conv)
    then have "sv_devices (SendMsgToClient W info sv) = sv_devices sv"
      unfolding devs by (simp add: InsertVibratorInfo_def)
    with Some show ?thesis by simp
  next
    case None
    then have f: "filter (\<lambda>v. sm_find (hvi_deviceId v) (sv_devices sv) = None \<and> hvi_deviceId v = d) ?infos = vs"
      unfolding assms(4) by (intro filter_cong) auto
    obtain v rest where vs: "vs = v # rest" using assms(5) by (cases vs) auto
    have v: "hvi_deviceId v = d" using vs assms(4) filter_set [of "\<lambda>v. hvi_deviceId v = d" ?infos] filter_eq_Cons_iff [of _ ?infos v rest] by auto
    obtain c waves where new: "sv_devices (SendMsgToClient W info sv) = sm_insert d
        (ConvertToServerInfos vs c waves (plug_deviceName info) (mk_infos (map hvi_vibratorId vs))) (sv_devices sv)"
      unfolding devs InsertVibratorInfo_def f Let_def by (simp add: vs v)
    let ?a = "ConvertToServerInfos vs c waves (plug_deviceName info) (mk_infos (map hvi_vibratorId vs))"
    have find: "sm_find e (sv_devices (SendMsgToClient W info sv)) = (if e = d then Some ?a else sm_find e (sv_devices sv))" for e
      unfolding new using None by (simp add: sm_insert_def)
    have base: "map info_vibratorId (baseInfo ?a) = map hvi_vibratorId vs"
      "map info_isLocalVibrator (baseInfo ?a) = map hvi_isLocal vs"
      by (simp_all add: ConvertToServerInfos_def mk_infos_def comp_def)
    have thread: "GetVibratorThread (mk_identifier d m) (SendMsgToClient W info sv) = Some new_thread"
      if "m \<in> set (map hvi_vibratorId vs)" for m
      using find [of d] mk_control_new [OF that]
      by (simp add: GetVibratorThread_def mk_identifier_def ConvertToServerInfos_def mk_infos_def)
    show ?thesis using None find base thread by auto
  qed
qed

lemma plugged_device_entered_witness:
  "GetVibratorThread (mk_identifier 1 2) (SendMsgToClient sample_world (plug_event 1 1) start_service) = Some new_thread"
proof -
  have r: "service_reach (\<lambda>_. 0) {sample_world} start_service" unfolding start_service_def by (rule service_reach.init)
  let ?vs = "filter (\<lambda>v. hvi_deviceId v = 1) (snd (op_GetVibratorInfo (w_dev sample_world) (sv_dev start_service)))"
  have "plug_status (plug_event 1 1) \<noteq> 0" "plug_deviceId (plug_event 1 1) = 1" "?vs \<noteq> []"
    "sm_find 1 (sv_devices start_service) = None" "2 \<in> hvi_vibratorId ` set ?vs" by code_simp+
  note c = this
  have "\<forall>v\<in>set ?vs. GetVibratorThread (mk_identifier 1 (hvi_vibratorId v))
      (SendMsgToClient sample_world (plug_event 1 1) start_service) = Some new_thread"
    using plugged_device_entered [OF r c(1,2) refl c(3)] c(4) by blast
  moreover obtain v where "v \<in> set ?vs" "2 = hvi_vibratorId v" using c(5) by blast
  ultimately show ?thesis by metis
qed

section \<open>Clients that die\<close>

lemma entry_threads:
  "devices_ok m \<Longrightarrow> (d, a) \<in> set m \<Longrightarrow> set (map fst (vibratorThreads (controlInfo a))) = info_vibratorId ` set (baseInfo a)"
  unfolding devices_ok_def entry_ok_def threads_ok_def by blast

lemma targets_of_motor:
  assumes "devices_ok (sv_devices sv)" and "GetVibratorThread (mk_identifier d v) sv = Some t" and "d \<noteq> -1" and "v \<noteq> -1"
  shows "(\<exists>k \<in> set (targets (mk_identifier d v) (sv_devices sv)). same_motor k j) \<longleftrightarrow> same_motor (mk_identifier d v) j"
proof -
  obtain a where a: "sm_find d (sv_devices sv) = Some a" "map_of (vibratorThreads (controlInfo a)) v = Some t"
    using assms(2) by (auto simp: GetVibratorThread_def mk_identifier_def split: option.splits)
  have mem: "(d, a) \<in> set (sv_devices sv)" using a(1) table_iff [OF assms(1)] by blast
  have "v \<in> set (map fst (vibratorThreads (controlInfo a)))" using a(2) by (force dest: map_of_SomeD)
  then obtain u where u: "u \<in> set (baseInfo a)" "info_vibratorId u = v"
    using entry_threads [OF assms(1) mem] by auto
  have "targets (mk_identifier d v) (sv_devices sv) = map identifier_of (filter (\<lambda>u. info_vibratorId u = v) (baseInfo a))"
    using a(1) assms(3,4) by (simp add: targets_def mk_identifier_def)
  then show ?thesis
    using u table_device [OF assms(1) mem] by (auto simp: same_motor_def identifier_of_def mk_identifier_def)
qed

definition silenced_by :: "int \<Rightarrow> (int \<times> int) set \<Rightarrow> VibratorIdentifierIPC \<Rightarrow> motor \<Rightarrow> motor" where
  "silenced_by pid ms j t =
     (if (id_deviceId j, id_vibratorId j) \<in> ms \<and> vi_pid (th_info t) = pid \<and> mt_running t then silenced t else t)"

lemma silenced_by_idle: "pid \<noteq> -1 \<Longrightarrow> silenced_by pid ms j (silenced t) = silenced t"
  by (simp add: silenced_by_def silenced_info)

lemma silenced_by_insert:
  "pid \<noteq> -1 \<Longrightarrow> silenced_by pid ms j (silenced_by pid ns j t) = silenced_by pid (ms \<union> ns) j t"
  by (auto simp: silenced_by_def silenced_info)

lemma death_step_thread:
  assumes "devices_ok (sv_devices sv)" and "pid \<noteq> -1" and "d \<noteq> -1" and "v \<noteq> -1"
  shows "GetVibratorThread j (death_step W pid (d, v) sv) = map_option (silenced_by pid {(d, v)} j) (GetVibratorThread j sv)"
proof (cases "GetVibratorThread (mk_identifier d v) sv")
  case None
  have "GetVibratorThread j sv = None" if "id_deviceId j = d" "id_vibratorId j = v"
    using None same_motor_thread [of "mk_identifier d v" j sv] that by (simp add: same_motor_def mk_identifier_def)
  then show ?thesis
    using None by (cases "GetVibratorThread j sv") (auto simp: death_step_def silenced_by_def)
next
  case (Some t)
  have same: "same_motor (mk_identifier d v) j \<longleftrightarrow> id_deviceId j = d \<and> id_vibratorId j = v"
    by (auto simp: same_motor_def mk_identifier_def)
  have at: "GetVibratorThread j sv = Some t" if "id_deviceId j = d" "id_vibratorId j = v"
    using Some same_motor_thread [of "mk_identifier d v" j sv] that same by simp
  show ?thesis
  proof (cases "pid = vi_pid (th_info t)")
    case True
    obtain r sv' where s: "StopVibratorService W (mk_identifier d v) sv = (r, sv')" by fastforce
    then have "death_step W pid (d, v) sv = sv'" using Some True assms(2) by (simp add: death_step_def)
    with StopVibratorService_thread [OF s, of j] targets_of_motor [OF assms(1) Some assms(3,4), of j] same at True
    show ?thesis by (cases "GetVibratorThread j sv") (auto simp: silenced_by_def)
  next
    case False
    then have "death_step W pid (d, v) sv = sv" using Some by (simp add: death_step_def)
    with at False show ?thesis by (cases "GetVibratorThread j sv") (auto simp: silenced_by_def)
  qed
qed

lemma death_fold_thread:
  assumes "pid \<noteq> -1"
  shows "devices_ok (sv_devices sv) \<Longrightarrow> \<forall>(d, v)\<in>set ms. d \<noteq> -1 \<and> v \<noteq> -1 \<Longrightarrow>
    GetVibratorThread j (fold (death_step W pid) ms sv) = map_option (silenced_by pid (set ms) j) (GetVibratorThread j sv)"
proof (induction ms arbitrary: sv)
  case Nil
  then show ?case by (cases "GetVibratorThread j sv") (simp_all add: silenced_by_def)
next
  case (Cons m ms)
  obtain d v where m: "m = (d, v)" by fastforce
  have ok: "devices_ok (sv_devices (death_step W pid m sv))"
    using devices_ok_StopVibratorService [OF Cons.prems(1), of W] Cons.prems(1) by (simp add: death_step_def m split: option.split)
  have "GetVibratorThread j (death_step W pid m sv) = map_option (silenced_by pid {(d, v)} j) (GetVibratorThread j sv)"
    using death_step_thread [OF Cons.prems(1) assms, where d = d and v = v and W = W and j = j] Cons.prems(2) m by simp
  with Cons.IH [OF ok] Cons.prems(2) m show ?case
    by (cases "GetVibratorThread j sv") (simp_all add: silenced_by_insert [OF assms])
qed

lemma GetVibratorThread_motor:
  "GetVibratorThread j sv = Some t \<Longrightarrow> (id_deviceId j, id_vibratorId j) \<in> set (motors (sv_devices sv))"
  by (force simp: GetVibratorThread_def motors_def split: option.splits dest!: sm_find_in_set map_of_SomeD)

text \<open>C19. When a client dies, every vibration its process has running is stopped and no other, and the
  client is forgotten while the others stay; no device and no vibrator may have the id -1, which a request reads as
  all of them.\<close>

theorem dead_client_silenced:
  assumes "service_reach U Ws sv" and "sm_find k (sv_clients sv) = Some pid"
    and "\<forall>(d, v)\<in>set (motors (sv_devices sv)). d \<noteq> -1 \<and> v \<noteq> -1"
    and "GetVibratorThread j sv = Some t"
  shows "(is_running j (Service_ProcessDeathObserver W (Some k) sv) \<longleftrightarrow> mt_running t \<and> vi_pid (th_info t) \<noteq> pid) \<and>
    sm_find k' (sv_clients (Service_ProcessDeathObserver W (Some k) sv)) = (if k' = k then None else sm_find k' (sv_clients sv))"
proof -
  let ?sv = "fold (death_step W pid) (motors (sv_devices sv)) sv"
  have pid: "pid \<noteq> -1"
    using service_reach_ok [OF assms(1)] assms(2) by (auto simp: service_ok_def clients_ok_def dest!: sm_find_in_set)
  have "step_ok sv (death_step W pid m sv)" for sv :: "'a service" and m
    using step_ok_stop [of sv W] by (simp add: death_step_def split: prod.split option.split)
  then have "step_ok sv ?sv" by (rule fold_step_ok)
  then have c: "sv_clients ?sv = sv_clients sv" by (simp add: step_ok_def service_kept_def)
  have f: "FindClientPid (Some k) sv = pid" "FindClientPid (Some k) ?sv = pid"
    using assms(2) c by (simp_all add: FindClientPid_def)
  have eq: "Service_ProcessDeathObserver W (Some k) sv =
      ?sv\<lparr>sv_watched := filter (\<lambda>x. x \<noteq> k) (sv_watched ?sv), sv_clients := sm_erase k (sv_clients sv)\<rparr>"
    using f pid assms(2) c
    by (simp add: Service_ProcessDeathObserver_def UnregisterClientDeathRecipient_def DestroyClientPid_def)
  have "GetVibratorThread j (Service_ProcessDeathObserver W (Some k) sv) = GetVibratorThread j ?sv"
    by (rule GetVibratorThread_devices) (simp add: eq)
  also have "\<dots> = Some (silenced_by pid (set (motors (sv_devices sv))) j t)"
    using death_fold_thread [OF pid service_reach_devices [OF assms(1)] assms(3), where j = j and W = W] assms(4) by simp
  finally show ?thesis
    using GetVibratorThread_motor [OF assms(4)] by (auto simp: is_running_def silenced_by_def eq)
qed

lemma dead_client_silenced_witness:
  "\<not> is_running (mk_identifier 1 2) (Service_ProcessDeathObserver sample_world (Some 3) vibrating_service)"
proof -
  have "sm_find 3 (sv_clients vibrating_service) = Some 7" by code_simp
  moreover have "\<forall>(d, v)\<in>set (motors (sv_devices vibrating_service)). d \<noteq> -1 \<and> v \<noteq> -1" by code_simp
  ultimately show ?thesis
    using dead_client_silenced [OF vibrating_service_reach [of "\<lambda>_. 0"] _ _ vibrating_thread, where k = 3 and pid = 7 and W = sample_world]
    by (simp add: base_info_def sample_world_def)
qed

end
