(* ===== verification/AgentProps.thy ===== *)
theory AgentProps
  imports Agent ServiceEvents
begin

text \<open>
  What an application can rely on: the documented result codes, the settings that each request takes
  and resets, and what reaches the service, for any service behind the interface and for the service of
  \<open>ServiceHandlers\<close> behind a direct connection. The client library's behaviour when the service is
  missing or turns it down is stated too.
\<close>

section \<open>The calls of an application\<close>

datatype agent_call =
    SetLoopCount misc_identifier int
  | SetUsage misc_identifier int bool
  | SetParameters misc_identifier VibratorParameter
  | StartEffect misc_identifier "string option"
  | StartOnce misc_identifier int
  | PlayCustom misc_identifier int int int
  | PlayAPattern misc_identifier VibratorPattern
  | PlayPatternInSession "32 word" VibratorPattern
  | PlayPackageInSession "32 word" VibratorPackage
  | PlayPrimitive misc_identifier "string option" int
  | StopMode misc_identifier "string option"
  | CancelAll misc_identifier
  | StopSession "32 word"
  | DisablePid int
  | EnablePid int
  | AskEffect misc_identifier "string option" bool
  | AskDelay misc_identifier
  | AskList misc_identifier
  | AskInfo misc_identifier string
  | AskCustom misc_identifier
  | AskHd misc_identifier
  | Decode RawFileDescriptor
  | Subscribe nat
  | Unsubscribe nat

definition code_of :: "(errcode + 'v) \<times> 's \<Rightarrow> errcode \<times> 's" where
  "code_of = (\<lambda>(r, st). (case r of Inl e \<Rightarrow> e | Inr _ \<Rightarrow> SUCCESS, st))"

text \<open>The code a call returns, \<^verbatim>\<open>SUCCESS\<close> for those that return an answer or a flag, and the state after it.\<close>

fun agent_run :: "'j client_env \<Rightarrow> 's misc_proxy \<Rightarrow> agent_call \<Rightarrow> 's agent_state \<Rightarrow> (errcode \<times> 's agent_state) option" where
  "agent_run E P (SetLoopCount i n) st = Some (SUCCESS, snd (AG_SetLoopCountEnhanced i n (fst st)), snd st)"
| "agent_run E P (SetUsage i u b) st = Some (SUCCESS, snd (AG_SetUsageEnhanced i u b (fst st)), snd st)"
| "agent_run E P (SetParameters i p) st = Some (SUCCESS, snd (AG_SetParametersEnhanced i p (fst st)), snd st)"
| "agent_run E P (StartEffect i e) st = Some (AG_StartVibratorEnhanced E P i e st)"
| "agent_run E P (StartOnce i d) st = Some (AG_StartVibratorOnceEnhanced E P i d st)"
| "agent_run E P (PlayCustom i fd off len) st = Some (AG_PlayVibratorCustomEnhanced E P i fd off len st)"
| "agent_run E P (PlayAPattern i a) st = AG_PlayPatternEnhanced E P i a st"
| "agent_run E P (PlayPatternInSession n a) st = AG_PlayPatternBySessionId E P n a st"
| "agent_run E P (PlayPackageInSession n k) st = AG_PlayPackageBySessionId E P n k st"
| "agent_run E P (PlayPrimitive i e n) st = Some (AG_PlayPrimitiveEffectEnhanced E P i e n st)"
| "agent_run E P (StopMode i m) st = Some (AG_StopVibratorEnhanced E P i m st)"
| "agent_run E P (CancelAll i) st = Some (AG_CancelEnhanced E P i st)"
| "agent_run E P (StopSession n) st = Some (AG_StopVibrateBySessionId E P n st)"
| "agent_run E P (DisablePid pid) st = Some (AG_DisableVibratorByPid E P pid st)"
| "agent_run E P (EnablePid pid) st = Some (AG_EnableVibratorByPid E P pid st)"
| "agent_run E P (AskEffect i e null) st = Some (code_of (AG_IsSupportEffectEnhanced E P i e null st))"
| "agent_run E P (AskDelay i) st = Some (code_of (AG_GetDelayTimeEnhanced E P i st))"
| "agent_run E P (AskList i) st = Some (code_of (AG_GetVibratorList E P i st))"
| "agent_run E P (AskInfo i e) st = (let ((code, supported), st) = AG_GetEffectInfo E P i e st in Some (code, st))"
| "agent_run E P (AskCustom i) st = Some (SUCCESS, snd (AG_IsSupportVibratorCustomEnhanced E P i st))"
| "agent_run E P (AskHd i) st = Some (SUCCESS, snd (AG_IsHdHapticSupportedEnhanced E P i st))"
| "agent_run E P (Decode fd) st =
     (case AG_PreProcess E fd (fst st) of (Crash, cl) \<Rightarrow> None | (Fail e, cl) \<Rightarrow> Some (e, cl, snd st)
      | (Done k, cl) \<Rightarrow> Some (SUCCESS, cl, snd st))"
| "agent_run E P (Subscribe u) st = Some (AG_SubscribeVibratorPlug E P u st)"
| "agent_run E P (Unsubscribe u) st = (let (ret, cl) = AG_UnSubscribeVibratorPlug E u (fst st) in Some (ret, cl, snd st))"

text \<open>The states of a process: its calls, the death of the service and the plug events it is told.\<close>

inductive agent_reach :: "('j client_env \<times> 's misc_proxy) set \<Rightarrow> 's agent_state \<Rightarrow> bool" for EPs where
  init: "agent_reach EPs (initial_client, s)"
| call: "agent_reach EPs st \<Longrightarrow> (E, P) \<in> EPs \<Longrightarrow> agent_run E P c st = Some (e, st') \<Longrightarrow> agent_reach EPs st'"
| death: "agent_reach EPs st \<Longrightarrow> (E, P) \<in> EPs \<Longrightarrow> agent_reach EPs (CL_ProcessDeathObserver E P st)"
| plug: "agent_reach EPs (cl, s) \<Longrightarrow> (E, P) \<in> EPs \<Longrightarrow>
    agent_reach EPs (snd (snd (Stub_ProcessPlugEvent E now n d m cl)), s)"
| service: "agent_reach EPs (cl, s) \<Longrightarrow> agent_reach EPs (cl, s')"

section \<open>Result codes\<close>

definition documented :: "errcode \<Rightarrow> bool" where
  "documented e \<longleftrightarrow> e \<in> {SUCCESS, PERMISSION_DENIED, PARAMETER_ERROR, IS_NOT_SUPPORTED, DEVICE_OPERATION_FAILED}"

lemma documented_codes [simp]:
  "documented PERMISSION_DENIED" "documented PARAMETER_ERROR" "documented SUCCESS"
  "documented (NormalizeErrCode e)" "documented (agent_result e)"
  by (simp_all add: documented_def NormalizeErrCode_def agent_result_def)

lemma documented_value: "documented (fst (code_of (agent_value r, st)))"
  by (simp add: agent_value_def code_of_def split: sum.splits)

lemma documented_outcome: "agent_outcome r = Fail e \<Longrightarrow> documented e"
  by (cases r) auto

lemma documented_play_calls:
  "documented (fst (AG_StartVibratorEnhanced E P i effect st))" "documented (fst (AG_StartVibratorOnceEnhanced E P i duration st))"
  "documented (fst (AG_PlayVibratorCustomEnhanced E P i fd off len st))"
  "documented (fst (AG_PlayPrimitiveEffectEnhanced E P i effect intensity st))"
  by (simp_all add: AG_StartVibratorEnhanced_def AG_StartVibratorOnceEnhanced_def AG_PlayVibratorCustomEnhanced_def
      AG_PlayPrimitiveEffectEnhanced_def Let_def split_beta split: option.split)

lemma documented_pattern_calls:
  "AG_PlayPatternEnhanced E P i a st = Some r \<Longrightarrow> documented (fst r)"
  "AG_PlayPatternBySessionId E P n a st = Some r \<Longrightarrow> documented (fst r)"
  "AG_PlayPackageBySessionId E P n k st = Some r \<Longrightarrow> documented (fst r)"
  by (auto simp: AG_PlayPatternEnhanced_def AG_PlayPatternBySessionId_def AG_PlayPackageBySessionId_def Let_def split_beta
      split: if_splits)

lemma documented_stop_calls:
  "documented (fst (AG_StopVibratorEnhanced E P i mode st))" "documented (fst (AG_CancelEnhanced E P i st))"
  "documented (fst (AG_StopVibrateBySessionId E P n st))" "documented (fst (AG_DisableVibratorByPid E P pid st))"
  "documented (fst (AG_EnableVibratorByPid E P pid st))" "documented (fst (AG_SubscribeVibratorPlug E P user st))"
  "documented (fst (AG_UnSubscribeVibratorPlug E user cl))"
  by (simp_all add: AG_StopVibratorEnhanced_def AG_CancelEnhanced_def AG_StopVibrateBySessionId_def AG_DisableVibratorByPid_def
      AG_EnableVibratorByPid_def AG_SubscribeVibratorPlug_def AG_UnSubscribeVibratorPlug_def Let_def split_beta split: option.split)

lemma documented_queries:
  "documented (fst (code_of (AG_IsSupportEffectEnhanced E P i effect null st)))"
  "documented (fst (code_of (AG_GetDelayTimeEnhanced E P i st)))" "documented (fst (code_of (AG_GetVibratorList E P i st)))"
  by (simp_all add: AG_IsSupportEffectEnhanced_def AG_GetDelayTimeEnhanced_def AG_GetVibratorList_def Let_def split_beta
      documented_value split: option.split) (simp add: code_of_def)

lemma agent_run_documented: "agent_run E P c st = Some r \<Longrightarrow> documented (fst r)"
  by (cases c)
    (auto simp: AG_PreProcess_def AG_GetEffectInfo_def Let_def split_beta documented_play_calls documented_stop_calls documented_queries
      dest: documented_outcome documented_pattern_calls split: outcome.splits prod.splits)

text \<open>C24. Whatever the service answers, an application sees only the documented codes: every function
  returns 0, 201, 401, 801 or 14600101.\<close>

theorem agent_codes_documented:
  assumes "agent_run E P c st = Some (e, st')"
  shows "e \<in> {SUCCESS, PERMISSION_DENIED, PARAMETER_ERROR, IS_NOT_SUPPORTED, DEVICE_OPERATION_FAILED}"
  using agent_run_documented [OF assms] by (simp add: documented_def)

section \<open>The settings\<close>

text \<open>The client calls change the connection only, not the settings.\<close>

lemma InitServiceClient_effects [simp]: "cl_effects (fst (snd (InitServiceClient E P st))) = cl_effects (fst st)"
  by (auto simp: InitServiceClient_def CL_TransferClientRemoteObject_def Let_def split: prod.split)

lemma client_call_effects [simp]: "cl_effects (fst (snd (client_call E P f st))) = cl_effects (fst st)"
  using InitServiceClient_effects [of E P st] by (simp add: client_call_def split_beta)

lemma client_query_effects [simp]: "cl_effects (fst (snd (client_query E P f st))) = cl_effects (fst st)"
  using InitServiceClient_effects [of E P st] by (simp add: client_query_def split_beta)

lemma LoadDecoderLibrary_effects [simp]: "cl_effects (snd (LoadDecoderLibrary E cl)) = cl_effects cl"
  by (simp add: LoadDecoderLibrary_def)

lemma CL_PlayVibratorCustom_effects [simp]:
  "cl_effects (fst (snd (CL_PlayVibratorCustom E P i fd usage b p st))) = cl_effects (fst st)"
  using InitServiceClient_effects [of E P st] LoadDecoderLibrary_effects
  by (auto simp: CL_PlayVibratorCustom_def split_beta Let_def split: sum.split)

lemma InitPlayPattern_effects: "InitPlayPattern E P i a usage b p st = Some r \<Longrightarrow> cl_effects (fst (snd r)) = cl_effects (fst st)"
  using InitServiceClient_effects [of E P st]
  by (auto simp: InitPlayPattern_def split_beta Let_def split: outcome.splits if_splits)

lemma CL_PlayPattern_effects: "CL_PlayPattern E P i a usage b p st = Some r \<Longrightarrow> cl_effects (fst (snd r)) = cl_effects (fst st)"
  using InitServiceClient_effects [of E P st] InitPlayPattern_effects
  by (fastforce simp: CL_PlayPattern_def split_beta Let_def split: if_splits)

lemma CL_PlayPackage_effects:
  "CL_PlayPackageBySessionId E P i p k st = Some r \<Longrightarrow> cl_effects (fst (snd r)) = cl_effects (fst st)"
  using InitServiceClient_effects [of E P st]
  by (auto simp: CL_PlayPackageBySessionId_def split_beta Let_def split: outcome.splits if_splits)

lemmas CL_defs = CL_Vibrate_def CL_VibrateEffect_def CL_StopVibratorByMode_def CL_StopVibrator_def CL_StopVibrateBySessionId_def
  CL_PlayPrimitiveEffect_def CL_GetDelayTime_def CL_DisableVibratorByPid_def CL_EnableVibratorByPid_def

text \<open>
  Settings in the ranges that the setters let through. The count has no upper limit here; the service has one, 1000.
\<close>

definition settings_ok :: "VibratorEffectParameter \<Rightarrow> bool" where
  "settings_ok p \<longleftrightarrow> 1 \<le> vep_loopCount p \<and> 0 \<le> vep_usage p \<and> vep_usage p < USAGE_MAX \<and>
     0 \<le> vprm_intensity (vep_vibratorParameter p) \<and> vprm_intensity (vep_vibratorParameter p) \<le> 100 \<and>
     -100 \<le> vprm_frequency (vep_vibratorParameter p) \<and> vprm_frequency (vep_vibratorParameter p) \<le> 100"

definition effects_ok :: "client \<Rightarrow> bool" where
  "effects_ok cl \<longleftrightarrow> sm_ok (cl_effects cl) \<and> list_all (\<lambda>(i, p). settings_ok p) (cl_effects cl)"

lemma effects_ok_cong: "cl_effects cl' = cl_effects cl \<Longrightarrow> effects_ok cl' \<longleftrightarrow> effects_ok cl"
  by (simp add: effects_ok_def)

lemma default_settings_ok: "settings_ok default_effect_parameter"
  by (simp add: settings_ok_def default_effect_parameter_def default_VibratorParameter_def)

lemma effects_ok_get: "effects_ok cl \<Longrightarrow> settings_ok (GetVibratorEffectParameter i cl)"
  using default_settings_ok
  by (auto simp: GetVibratorEffectParameter_def effects_ok_def list_all_iff split: option.split dest!: sm_find_in_set)

lemma set_sm_assign: "set (sm_assign k v m) \<subseteq> insert (k, v) (set m)"
  by (induction k v m rule: sm_assign.induct) auto

lemma effects_ok_upd: "effects_ok cl \<Longrightarrow> settings_ok (f (GetVibratorEffectParameter i cl)) \<Longrightarrow> effects_ok (upd_effect i f cl)"
  using set_sm_assign [of "key_of i" "f (GetVibratorEffectParameter i cl)" "cl_effects cl"]
  by (fastforce simp: upd_effect_def effects_ok_def list_all_iff)

lemma effects_ok_usage: "effects_ok cl \<Longrightarrow> 0 \<le> u \<Longrightarrow> u < USAGE_MAX \<Longrightarrow> effects_ok (CL_SetUsage i u b cl)"
  unfolding CL_SetUsage_def by (rule effects_ok_upd) (use effects_ok_get [of cl i] in \<open>auto simp: settings_ok_def\<close>)

lemma effects_ok_count: "effects_ok cl \<Longrightarrow> 1 \<le> n \<Longrightarrow> effects_ok (CL_SetLoopCount i n cl)"
  unfolding CL_SetLoopCount_def by (rule effects_ok_upd) (use effects_ok_get [of cl i] in \<open>auto simp: settings_ok_def\<close>)

lemma effects_ok_parameters:
  "effects_ok cl \<Longrightarrow> 0 \<le> vprm_intensity p \<Longrightarrow> vprm_intensity p \<le> 100 \<Longrightarrow> -100 \<le> vprm_frequency p \<Longrightarrow> vprm_frequency p \<le> 100 \<Longrightarrow>
   effects_ok (CL_SetParameters i p cl)"
  unfolding CL_SetParameters_def by (rule effects_ok_upd) (use effects_ok_get [of cl i] in \<open>auto simp: settings_ok_def\<close>)

lemma effects_ok_resets:
  "effects_ok cl \<Longrightarrow> effects_ok (reset_count i cl)" "effects_ok cl \<Longrightarrow> effects_ok (reset_usage i cl)"
  "effects_ok cl \<Longrightarrow> effects_ok (reset_parameter i p cl)"
  by (simp_all add: reset_count_def reset_usage_def reset_parameter_def effects_ok_usage effects_ok_count effects_ok_parameters)

text \<open>Calls that leave the settings alone.\<close>

lemma other_calls_effects:
  "cl_effects (fst (snd (AG_StopVibratorEnhanced E P i mode st))) = cl_effects (fst st)"
  "cl_effects (fst (snd (AG_CancelEnhanced E P i st))) = cl_effects (fst st)"
  "cl_effects (fst (snd (AG_StopVibrateBySessionId E P n st))) = cl_effects (fst st)"
  "cl_effects (fst (snd (AG_DisableVibratorByPid E P pid st))) = cl_effects (fst st)"
  "cl_effects (fst (snd (AG_EnableVibratorByPid E P pid st))) = cl_effects (fst st)"
  by (simp_all add: AG_StopVibratorEnhanced_def AG_CancelEnhanced_def AG_StopVibrateBySessionId_def AG_DisableVibratorByPid_def
      AG_EnableVibratorByPid_def CL_defs Let_def split_beta split: option.split)

lemma plug_calls_effects:
  "cl_effects (fst (snd (AG_SubscribeVibratorPlug E P user st))) = cl_effects (fst st)"
  "cl_effects (snd (AG_UnSubscribeVibratorPlug E user cl)) = cl_effects cl"
  using InitServiceClient_effects [of E P st]
  by (simp_all add: AG_SubscribeVibratorPlug_def AG_UnSubscribeVibratorPlug_def CL_SubscribeVibratorPlugInfo_def
      UnsubscribeVibratorPlugInfo_def Let_def split_beta)

lemma support_queries_effects:
  "cl_effects (fst (snd (AG_IsSupportEffectEnhanced E P i effect null st))) = cl_effects (fst st)"
  "cl_effects (fst (snd (AG_IsSupportVibratorCustomEnhanced E P i st))) = cl_effects (fst st)"
  "cl_effects (fst (snd (AG_IsHdHapticSupportedEnhanced E P i st))) = cl_effects (fst st)"
  using InitServiceClient_effects [of E P st]
  by (auto simp: AG_IsSupportEffectEnhanced_def AG_IsSupportVibratorCustomEnhanced_def AG_IsHdHapticSupportedEnhanced_def
      CL_IsSupportEffect_def CL_IsSupportVibratorCustom_def CL_IsHdHapticSupported_def CL_GetVibratorCapacity_def Let_def split_beta
      split: option.split sum.split)

lemma value_queries_effects:
  "cl_effects (fst (snd (AG_GetDelayTimeEnhanced E P i st))) = cl_effects (fst st)"
  "cl_effects (fst (snd (AG_GetVibratorList E P i st))) = cl_effects (fst st)"
  "cl_effects (snd (AG_PreProcess E fd cl)) = cl_effects cl"
  "cl_effects (fst (snd (AG_GetEffectInfo E P i e st))) = cl_effects (fst st)"
  by (auto simp: AG_GetEffectInfo_def CL_GetEffectInfo_def AG_GetDelayTimeEnhanced_def AG_GetVibratorList_def CL_GetVibratorList_def CL_GetDelayTime_def AG_PreProcess_def
      CL_PreProcess_def LoadDecoderLibrary_def Let_def split_beta split: sum.split)

lemma snd_code_of [simp]: "snd (code_of r) = snd r"
  by (simp add: code_of_def split_beta)

text \<open>Calls that use them.\<close>

lemma effects_ok_client_calls [simp]:
  "effects_ok (fst (snd (client_call E P f st))) \<longleftrightarrow> effects_ok (fst st)"
  "effects_ok (fst (snd (CL_PlayVibratorCustom E P i fd usage b p st))) \<longleftrightarrow> effects_ok (fst st)"
  by (rule effects_ok_cong; simp)+

lemma effects_ok_pattern_calls:
  "CL_PlayPattern E P i a usage b p st = Some r \<Longrightarrow> effects_ok (fst (snd r)) \<longleftrightarrow> effects_ok (fst st)"
  "CL_PlayPackageBySessionId E P i q k st = Some r \<Longrightarrow> effects_ok (fst (snd r)) \<longleftrightarrow> effects_ok (fst st)"
  by (rule effects_ok_cong, simp add: CL_PlayPattern_effects CL_PlayPackage_effects)+

lemma effects_ok_plays:
  assumes "effects_ok (fst st)"
  shows "effects_ok (fst (snd (AG_StartVibratorEnhanced E P i effect st)))"
    "effects_ok (fst (snd (AG_StartVibratorOnceEnhanced E P i duration st)))"
    "effects_ok (fst (snd (AG_PlayVibratorCustomEnhanced E P i fd off len st)))"
    "effects_ok (fst (snd (AG_PlayPrimitiveEffectEnhanced E P i effect intensity st)))"
  using assms
  by (simp_all add: AG_StartVibratorEnhanced_def AG_StartVibratorOnceEnhanced_def AG_PlayVibratorCustomEnhanced_def
      AG_PlayPrimitiveEffectEnhanced_def CL_defs Let_def split_beta effects_ok_resets split: option.split)

lemma effects_ok_pattern_plays:
  assumes "effects_ok (fst st)"
  shows "AG_PlayPatternEnhanced E P i a st = Some r \<Longrightarrow> effects_ok (fst (snd r))"
    "AG_PlayPatternBySessionId E P n a st = Some r \<Longrightarrow> effects_ok (fst (snd r))"
    "AG_PlayPackageBySessionId E P n k st = Some r \<Longrightarrow> effects_ok (fst (snd r))"
  using assms
  by (auto simp: AG_PlayPatternEnhanced_def AG_PlayPatternBySessionId_def AG_PlayPackageBySessionId_def Let_def split_beta
      split: if_splits intro!: effects_ok_resets dest!: effects_ok_pattern_calls)

lemma effects_ok_settings:
  assumes "effects_ok cl"
  shows "effects_ok (snd (AG_SetLoopCountEnhanced i n cl))" "effects_ok (snd (AG_SetUsageEnhanced i u b cl))"
    "effects_ok (snd (AG_SetParametersEnhanced i p cl))"
  using assms
  by (simp_all add: AG_SetLoopCountEnhanced_def AG_SetUsageEnhanced_def AG_SetParametersEnhanced_def effects_ok_count effects_ok_usage
      effects_ok_parameters)

lemma effects_ok_others:
  "effects_ok (fst (snd (AG_StopVibratorEnhanced E P i mode st))) \<longleftrightarrow> effects_ok (fst st)"
  "effects_ok (fst (snd (AG_CancelEnhanced E P i st))) \<longleftrightarrow> effects_ok (fst st)"
  "effects_ok (fst (snd (AG_StopVibrateBySessionId E P n st))) \<longleftrightarrow> effects_ok (fst st)"
  "effects_ok (fst (snd (AG_DisableVibratorByPid E P pid st))) \<longleftrightarrow> effects_ok (fst st)"
  "effects_ok (fst (snd (AG_EnableVibratorByPid E P pid st))) \<longleftrightarrow> effects_ok (fst st)"
  "effects_ok (fst (snd (AG_SubscribeVibratorPlug E P user st))) \<longleftrightarrow> effects_ok (fst st)"
  "effects_ok (snd (AG_UnSubscribeVibratorPlug E user cl)) \<longleftrightarrow> effects_ok cl"
  "effects_ok (fst (snd (AG_IsSupportEffectEnhanced E P i effect null st))) \<longleftrightarrow> effects_ok (fst st)"
  "effects_ok (fst (snd (AG_IsSupportVibratorCustomEnhanced E P i st))) \<longleftrightarrow> effects_ok (fst st)"
  "effects_ok (fst (snd (AG_IsHdHapticSupportedEnhanced E P i st))) \<longleftrightarrow> effects_ok (fst st)"
  "effects_ok (fst (snd (AG_GetDelayTimeEnhanced E P i st))) \<longleftrightarrow> effects_ok (fst st)"
  "effects_ok (fst (snd (AG_GetVibratorList E P i st))) \<longleftrightarrow> effects_ok (fst st)"
  "effects_ok (snd (AG_PreProcess E fd cl)) \<longleftrightarrow> effects_ok cl"
  "effects_ok (fst (snd (AG_GetEffectInfo E P i e st))) \<longleftrightarrow> effects_ok (fst st)"
  by (rule effects_ok_cong, simp only: other_calls_effects plug_calls_effects support_queries_effects value_queries_effects)+

lemma effects_ok_run:
  assumes "effects_ok (fst st)" and "agent_run E P c st = Some r"
  shows "effects_ok (fst (snd r))"
proof (cases c)
  case (Decode fd)
  then show ?thesis
    using assms effects_ok_others(13) [of E fd "fst st"] by (auto split: outcome.splits prod.splits)
qed (use assms in \<open>auto simp: Let_def split_beta effects_ok_settings effects_ok_plays effects_ok_others
       dest: effects_ok_pattern_plays [OF assms(1)]\<close>)

lemma agent_reach_effects: "agent_reach EPs st \<Longrightarrow> effects_ok (fst st)"
proof (induction rule: agent_reach.induct)
  case (init s)
  then show ?case by (simp add: effects_ok_def initial_client_def)
next
  case (call st E P c e st')
  then show ?case using effects_ok_run [of st E P c "(e, st')"] by simp
next
  case (death st E P)
  then show ?case by (simp add: CL_ProcessDeathObserver_def effects_ok_def split_beta)
next
  case (plug cl s E P now n d m)
  then show ?case
    by (auto simp: Stub_ProcessPlugEvent_def HandleVibratorData_def effects_ok_def sm_ok_def list_all_iff Let_def
        sorted_wrt_map sorted_wrt_filter)
next
  case (service cl s s')
  then show ?case by simp
qed

text \<open>C22. What the service says to the settings that an application has stored: in every state a process can reach,
  whatever it called and with whatever arguments, the usage, intensity and frequency that the library will send with the next request pass the
  checks of the service, so that a pattern or a package can only be turned down for a missing permission and a file never for its
  parameters; a preset effect is turned down for its parameters exactly when the stored count, which is at least 1, is above 1000.\<close>

theorem service_verdict_on_settings:
  assumes "agent_reach EPs st"
  shows "let p = GetVibratorEffectParameter i (fst st); v = vep_vibratorParameter p;
             h = haptic_info (vep_usage p) (vep_systemUsage p) (vprm_intensity v) (vprm_frequency v) session
    in PlayPatternCheckAuthAndParam W (ch_usage h) (ch_parameter h) = (if w_permission W then ERR_OK else PERMISSION_DENIED) \<and>
       CheckAuthAndParam W (ch_usage h) (ch_parameter h) j sv \<noteq> PARAMETER_ERROR \<and>
       1 \<le> vep_loopCount p \<and>
       PlayVibratorEffectCheckAuthAndParam W (vep_loopCount p) (vep_usage p) =
         (if \<not> w_permission W then PERMISSION_DENIED else if 1000 < vep_loopCount p then PARAMETER_ERROR else ERR_OK)"
  using effects_ok_get [OF agent_reach_effects [OF assms], of i]
  by (auto simp: Let_def PlayPatternCheckAuthAndParam_def CheckAuthAndParam_def PlayVibratorEffectCheckAuthAndParam_def haptic_info_def
      CheckVibratorParmeters_def settings_ok_def GetHapticCapacityInfo_def split: prod.splits)

text \<open>A count above 1000 is stored, and then turned down.\<close>

lemma stored_count_turned_down:
  assumes "n > 1000" and "w_permission W"
  shows "\<exists>cl'. AG_SetLoopCountEnhanced i n cl = (True, cl') \<and>
    PlayVibratorEffectCheckAuthAndParam W (vep_loopCount (GetVibratorEffectParameter i cl'))
      (vep_usage (GetVibratorEffectParameter i cl')) = PARAMETER_ERROR"
  using assms by (auto simp: AG_SetLoopCountEnhanced_def CL_SetLoopCount_def GetVibratorEffectParameter_def upd_effect_def
      PlayVibratorEffectCheckAuthAndParam_def)

lemma get_upd_effect:
  "GetVibratorEffectParameter j (upd_effect i f cl) =
     (if key_of j = key_of i then f (GetVibratorEffectParameter i cl) else GetVibratorEffectParameter j cl)"
  by (auto simp: GetVibratorEffectParameter_def upd_effect_def)

lemma get_cong: "cl_effects cl' = cl_effects cl \<Longrightarrow> GetVibratorEffectParameter j cl' = GetVibratorEffectParameter j cl"
  by (simp add: GetVibratorEffectParameter_def)

lemma get_client_calls [simp]:
  "GetVibratorEffectParameter j (fst (snd (client_call E P f st))) = GetVibratorEffectParameter j (fst st)"
  "GetVibratorEffectParameter j (fst (snd (CL_PlayVibratorCustom E P i fd usage b p st))) = GetVibratorEffectParameter j (fst st)"
  by (rule get_cong; simp)+

lemma key_of_eq: "key_of j = key_of i \<longleftrightarrow> j = i"
  by (auto simp: key_of_def)

lemma get_resets:
  "GetVibratorEffectParameter j (reset_usage i cl) = (if j = i then (GetVibratorEffectParameter i cl)
     \<lparr>vep_usage := USAGE_UNKNOWN, vep_systemUsage := False\<rparr> else GetVibratorEffectParameter j cl)"
  "GetVibratorEffectParameter j (reset_count i cl) = (if j = i then (GetVibratorEffectParameter i cl)
     \<lparr>vep_usage := USAGE_UNKNOWN, vep_systemUsage := False, vep_loopCount := 1\<rparr> else GetVibratorEffectParameter j cl)"
  "GetVibratorEffectParameter j (reset_parameter i v cl) = (if j = i then (GetVibratorEffectParameter i cl)
     \<lparr>vep_usage := USAGE_UNKNOWN, vep_systemUsage := False, vep_vibratorParameter := v\<lparr>vprm_intensity := 100, vprm_frequency := 0\<rparr>\<rparr>
     else GetVibratorEffectParameter j cl)"
  by (simp_all add: reset_usage_def reset_count_def reset_parameter_def CL_SetUsage_def CL_SetLoopCount_def CL_SetParameters_def
      get_upd_effect key_of_eq)

text \<open>C23. Settings hold for one request: whether a request succeeds or not, afterwards the vibrator it was
  for has its usage reset, an effect also the count and a custom vibration also the intensity and frequency, and the settings
  of every other vibrator are as before.\<close>

theorem settings_hold_for_one_request:
  assumes "0 < duration" and "0 \<le> fd" and "0 \<le> off" and "0 < len" and "p = GetVibratorEffectParameter i (fst st)"
  shows "GetVibratorEffectParameter j (fst (snd (AG_StartVibratorEnhanced E P i (Some effect) st))) =
      (if j = i then p\<lparr>vep_usage := USAGE_UNKNOWN, vep_systemUsage := False, vep_loopCount := 1\<rparr>
       else GetVibratorEffectParameter j (fst st)) \<and>
    GetVibratorEffectParameter j (fst (snd (AG_StartVibratorOnceEnhanced E P i duration st))) =
      (if j = i then p\<lparr>vep_usage := USAGE_UNKNOWN, vep_systemUsage := False\<rparr> else GetVibratorEffectParameter j (fst st)) \<and>
    GetVibratorEffectParameter j (fst (snd (AG_PlayVibratorCustomEnhanced E P i fd off len st))) =
      (if j = i then p\<lparr>vep_usage := USAGE_UNKNOWN, vep_systemUsage := False,
           vep_vibratorParameter := (vep_vibratorParameter p)\<lparr>vprm_intensity := 100, vprm_frequency := 0\<rparr>\<rparr>
       else GetVibratorEffectParameter j (fst st))"
  using assms
  by (simp add: AG_StartVibratorEnhanced_def AG_StartVibratorOnceEnhanced_def AG_PlayVibratorCustomEnhanced_def CL_defs Let_def
      split_beta get_resets)

text \<open>The library forgets to reset the session: after a pattern has been played in a session, whatever
  came of it, the next pattern of the application, which names no session, is sent to the service with that session.\<close>

theorem session_sticks:
  assumes "session \<noteq> 0" and "AG_PlayPatternBySessionId E P session a st = Some (ret, cl, s)"
    and "cl_proxy cl" and "play_pattern b = Done pattern"
  shows "AG_PlayPattern E P b (cl, s) =
    (let (ret', s') = px_PlayPattern P (ipc_identifier default_identifier) pattern (haptic_info USAGE_UNKNOWN False 100 0 session) s
     in Some (agent_result ret', reset_parameter default_identifier (vep_vibratorParameter (GetVibratorEffectParameter default_identifier cl)) cl, s'))"
proof -
  let ?p = "GetVibratorEffectParameter default_identifier (fst st)"
  let ?v = "(vep_vibratorParameter ?p)\<lparr>vprm_sessionId := session\<rparr>"
  obtain r where r: "CL_PlayPattern E P default_identifier a (vep_usage ?p) (vep_systemUsage ?p) ?v st = Some r"
    and cl: "cl = reset_parameter default_identifier ?v (fst (snd r))"
    using assms(1,2) by (auto simp: AG_PlayPatternBySessionId_def Let_def split_beta)
  have "GetVibratorEffectParameter default_identifier cl = ?p\<lparr>vep_usage := USAGE_UNKNOWN, vep_systemUsage := False,
      vep_vibratorParameter := ?v\<lparr>vprm_intensity := 100, vprm_frequency := 0\<rparr>\<rparr>"
    using get_cong [OF CL_PlayPattern_effects [OF r], of default_identifier] by (simp add: cl get_resets)
  then show ?thesis
    using assms(3,4) by (simp add: AG_PlayPattern_def AG_PlayPatternEnhanced_def CL_PlayPattern_def InitPlayPattern_def
        InitServiceClient_def Let_def split_beta)
qed

section \<open>The service behind the library\<close>

text \<open>The interface connected to the service itself: \<open>W\<close> has the caller's identity, \<open>k\<close> is its remote object.\<close>

definition direct_proxy :: "(rat option \<Rightarrow> int) \<Rightarrow> ('c, 'j) world \<Rightarrow> nat \<Rightarrow> 'c service misc_proxy" where
  "direct_proxy U W k = \<lparr>
     px_Vibrate = Vibrate W, px_PlayVibratorEffect = PlayVibratorEffect W, px_PlayVibratorCustom = PlayVibratorCustom U W,
     px_PlayPattern = PlayPattern U W, px_PlayPackageBySessionId = PlayPackageBySessionId W,
     px_PlayPrimitiveEffect = PlayPrimitiveEffect W, px_StopVibrator = StopVibrator W,
     px_StopVibratorByMode = StopVibratorByMode W, px_StopVibrateBySessionId = StopVibrateBySessionId W,
     px_IsSupportEffect = (\<lambda>i e sv. (IsSupportEffect W i e sv, sv)),
     px_GetDelayTime = (\<lambda>i sv. (Service_GetDelayTime W i sv, sv)),
     px_GetVibratorCapacity = (\<lambda>i sv. (Service_GetVibratorCapacity i sv, sv)),
     px_GetVibratorList = (\<lambda>i sv. let (l, sv) = Service_GetVibratorList W i sv in (Inr l, sv)),
     px_GetEffectInfo = (\<lambda>i e sv. (Service_GetEffectInfo W i e sv, sv)),
     px_TransferClientRemoteObject = TransferClientRemoteObject W (Some k),
     px_SubscribeVibratorPlugInfo = (\<lambda>sv. (SubscribeVibratorPlugInfo W (Some k), sv)),
     px_DisableVibratorByPid = DisableVibratorByPid W, px_EnableVibratorByPid = EnableVibratorByPid W\<rparr>"

definition sample_client_env :: "json client_env" where
  "sample_client_env = \<lparr>ce_sm = True, ce_service = True, ce_observer = True, ce_remote = True, ce_stubRemote = True,
     ce_library = True, ce_json = json_ops (\<lambda>_. None), ce_platform = sample_platform, ce_file = (\<lambda>_. None), ce_malloc = (\<lambda>_. True),
     ce_callback = Some\<rparr>"

definition sample_proxy :: "compatible_state option service misc_proxy" where
  "sample_proxy = direct_proxy (\<lambda>_. 0) sample_world 3"

definition sample_agent :: "compatible_state option service agent_state" where
  "sample_agent = (initial_client, sample_service)"

definition sample_pattern :: VibratorPattern where
  "sample_pattern = \<lparr>vpt_time = 0, vpt_eventNum = 1, vpt_patternDuration = 100, vpt_events =
     Some [\<lparr>ve_type = EVENT_TYPE_TRANSIENT, ve_time = 0, ve_duration = 20, ve_intensity = 50, ve_frequency = 50, ve_index = 0,
       ve_pointNum = 0, ve_points = None\<rparr>]\<rparr>"

lemma agent_codes_documented_witness:
  "fst (AG_StartVibratorOnce sample_client_env sample_proxy 500 sample_agent) \<in>
     {SUCCESS, PERMISSION_DENIED, PARAMETER_ERROR, IS_NOT_SUPPORTED, DEVICE_OPERATION_FAILED}"
proof -
  obtain e st' where "AG_StartVibratorOnce sample_client_env sample_proxy 500 sample_agent = (e, st')" using prod.exhaust by blast
  then show ?thesis
    using agent_codes_documented [of sample_client_env sample_proxy "StartOnce default_identifier 500" sample_agent e st']
    by (simp add: AG_StartVibratorOnce_def)
qed

text \<open>One application has set a count of 1001.\<close>

lemma service_verdict_on_settings_witness:
  "PlayVibratorEffectCheckAuthAndParam (sample_world\<lparr>w_permission := True\<rparr>) 1001 USAGE_UNKNOWN = PARAMETER_ERROR \<and>
   agent_reach {(sample_client_env, sample_proxy)} (CL_SetLoopCount default_identifier 1001 initial_client, sample_service)"
proof -
  let ?st = "(CL_SetLoopCount default_identifier 1001 initial_client, sample_service)"
  have run: "agent_run sample_client_env sample_proxy (SetLoopCount default_identifier 1001) (initial_client, sample_service) = Some (SUCCESS, ?st)"
    by (simp add: AG_SetLoopCountEnhanced_def)
  have reach: "agent_reach {(sample_client_env, sample_proxy)} ?st"
    by (rule agent_reach.call [OF agent_reach.init _ run]) simp
  have "vep_loopCount (GetVibratorEffectParameter default_identifier (fst ?st)) = 1001"
    "vep_usage (GetVibratorEffectParameter default_identifier (fst ?st)) = USAGE_UNKNOWN" by code_simp+
  with service_verdict_on_settings [OF reach, where i = default_identifier and W = "sample_world\<lparr>w_permission := True\<rparr>"] reach
  show ?thesis by (simp add: Let_def)
qed

lemma settings_hold_for_one_request_witness:
  "GetVibratorEffectParameter default_identifier (fst (snd (AG_StartVibratorEnhanced sample_client_env sample_proxy default_identifier
     (Some ''e'') (CL_SetLoopCount default_identifier 3 initial_client, sample_service)))) = default_effect_parameter"
proof -
  let ?st = "(CL_SetLoopCount default_identifier 3 initial_client, sample_service)"
  have "(GetVibratorEffectParameter default_identifier (fst ?st))
      \<lparr>vep_usage := USAGE_UNKNOWN, vep_systemUsage := False, vep_loopCount := 1\<rparr> = default_effect_parameter"
    by code_simp
  with settings_hold_for_one_request [where duration = 1 and fd = 0 and off = 0 and len = 1 and st = ?st and i = default_identifier
      and j = default_identifier and E = sample_client_env and P = sample_proxy and effect = "''e''", OF _ _ _ _ refl] show ?thesis by simp
qed

lemma session_sticks_witness:
  "\<exists>cl s r. AG_PlayPatternBySessionId sample_client_env sample_proxy 4 sample_pattern sample_agent = Some (SUCCESS, cl, s) \<and>
     AG_PlayPattern sample_client_env sample_proxy sample_pattern (cl, s) = Some r"
proof -
  let ?r = "AG_PlayPatternBySessionId sample_client_env sample_proxy 4 sample_pattern sample_agent"
  have r: "map_option (\<lambda>(e, cl, s). (e, cl_proxy cl)) ?r = Some (SUCCESS, True)" by code_simp
  then obtain cl s where st: "?r = Some (SUCCESS, cl, s)" and "cl_proxy cl" by auto
  moreover obtain q where "play_pattern sample_pattern = Done q"
    by (simp add: play_pattern_def sample_pattern_def indices_def elem_def play_event_def)
  ultimately show ?thesis
    using session_sticks [of 4 sample_client_env sample_proxy sample_pattern sample_agent SUCCESS cl s sample_pattern]
    by (simp add: Let_def split_beta)
qed

end
