(* ===== verification/AgentFailures.thy ===== *)
theory AgentFailures
  imports AgentProps
begin

text \<open>
  What the client library makes of a service that is missing or turns it down: the failures that
  it remembers as successes, and the answers it gives without asking.
\<close>

section \<open>Without the service\<close>

lemma Init_without_service:
  assumes "\<not> cl_proxy cl" and "\<not> ce_sm E \<or> \<not> ce_service E"
  shows "InitServiceClient E P (cl, s) = (if ce_sm E then MISC_NATIVE_GET_SERVICE_ERR else MISC_NATIVE_SAM_ERR, cl\<lparr>cl_stub := True\<rparr>, s)"
  using assms by (auto simp: InitServiceClient_def Let_def)

text \<open>When the service cannot be reached, an application is told that custom vibrations and high
  definition vibrations are supported: the library returns an error code as a truth value.\<close>

theorem missing_service_supports_all:
  assumes "\<not> cl_proxy cl" and "\<not> ce_sm E \<or> \<not> ce_service E"
  shows "fst (AG_IsHdHapticSupportedEnhanced E P i (cl, s)) \<and> fst (AG_IsSupportVibratorCustomEnhanced E P i (cl, s)) \<and>
    fst (AG_StartVibratorOnceEnhanced E P i 500 (cl, s)) = DEVICE_OPERATION_FAILED"
  using Init_without_service [OF assms, of P s] assms(1)
  by (simp add: AG_IsHdHapticSupportedEnhanced_def AG_IsSupportVibratorCustomEnhanced_def CL_IsHdHapticSupported_def
      CL_IsSupportVibratorCustom_def code_as_bool_def AG_StartVibratorOnceEnhanced_def CL_Vibrate_def client_call_def Let_def
      agent_result_def NormalizeErrCode_def)

lemma missing_service_supports_all_witness:
  "fst (AG_IsHdHapticSupportedEnhanced (sample_client_env\<lparr>ce_service := False\<rparr>) sample_proxy default_identifier sample_agent)"
  unfolding sample_agent_def
  by (rule missing_service_supports_all [THEN conjunct1]) (simp_all add: initial_client_def sample_client_env_def)

section \<open>Failures that are remembered as successes\<close>

text \<open>A client that the service turned down once is never announced to it again: the first call fails,
  but the connection counts as made, and from then on every call connects without telling the service who the client is.\<close>

theorem failed_transfer_not_repeated:
  assumes "\<not> cl_proxy cl" and "ce_sm E" and "ce_service E" and "ce_observer E" and "ce_remote E" and "ce_stubRemote E"
    and "px_TransferClientRemoteObject P s = (e, s')" and "e \<noteq> ERR_OK"
  shows "\<exists>cl'. InitServiceClient E P (cl, s) = (ERROR, cl', s') \<and> (\<forall>E P s. InitServiceClient E P (cl', s) = (ERR_OK, cl', s))"
  using assms by (simp add: InitServiceClient_def CL_TransferClientRemoteObject_def Let_def)

lemma failed_transfer_not_repeated_witness:
  "\<exists>cl'. InitServiceClient sample_client_env (direct_proxy (\<lambda>_. 0) (sample_world\<lparr>w_pid := -1\<rparr>) 3) (initial_client, sample_service) =
     (ERROR, cl', sample_service)"
proof -
  have "px_TransferClientRemoteObject (direct_proxy (\<lambda>_. 0) (sample_world\<lparr>w_pid := -1\<rparr>) 3) sample_service = (ERROR, sample_service)"
    by (simp add: direct_proxy_def TransferClientRemoteObject_def)
  from failed_transfer_not_repeated [OF _ _ _ _ _ _ this, of initial_client sample_client_env] show ?thesis
    by (auto simp: initial_client_def sample_client_env_def)
qed

text \<open>A subscription that the service turned down counts as made: the application is told that it
  failed, its callback is run at plug events all the same, and when it tries again it is told that it succeeded, without the
  service being asked.\<close>

theorem failed_subscription_kept:
  assumes "ce_callback E user = Some f" and "cl_proxy cl" and "user \<notin> set (cl_users cl)" and "ce_stubRemote E"
    and "px_SubscribeVibratorPlugInfo P s = (e, s')" and "e \<noteq> ERR_OK"
  shows "\<exists>cl'. AG_SubscribeVibratorPlug E P user (cl, s) = (NormalizeErrCode e, cl', s') \<and>
    AG_SubscribeVibratorPlug E P user (cl', s') = (SUCCESS, cl', s') \<and>
    f \<in> set (fst (HandleVibratorData E ev cl'))"
  using assms
  by (auto simp: AG_SubscribeVibratorPlug_def CL_SubscribeVibratorPlugInfo_def InitServiceClient_def agent_result_def
      HandleVibratorData_def GetSubscribeUserCallback_def Let_def set_insort_key map_filter_def image_iff intro!: bexI [of _ user])

lemma failed_subscription_kept_witness:
  "\<exists>cl'. AG_SubscribeVibratorPlug sample_client_env (direct_proxy (\<lambda>_. 0) (sample_world\<lparr>w_pid := -1\<rparr>) 3) 8
       (initial_client\<lparr>cl_proxy := True\<rparr>, sample_service) = (DEVICE_OPERATION_FAILED, cl', sample_service) \<and>
     AG_SubscribeVibratorPlug sample_client_env (direct_proxy (\<lambda>_. 0) (sample_world\<lparr>w_pid := -1\<rparr>) 3) 8 (cl', sample_service) =
       (SUCCESS, cl', sample_service)"
proof -
  have "px_SubscribeVibratorPlugInfo (direct_proxy (\<lambda>_. 0) (sample_world\<lparr>w_pid := -1\<rparr>) 3) sample_service = (ERROR, sample_service)"
    by (simp add: direct_proxy_def SubscribeVibratorPlugInfo_def)
  from failed_subscription_kept [OF _ _ _ _ this, of sample_client_env 8 8 "initial_client\<lparr>cl_proxy := True\<rparr>"] show ?thesis
    by (auto simp: initial_client_def sample_client_env_def NormalizeErrCode_def)
qed

section \<open>Answers that are kept\<close>

lemma InitServiceClient_proxy: "InitServiceClient E P st = (ERR_OK, cl, s) \<Longrightarrow> cl_proxy cl"
  by (cases st) (auto simp: InitServiceClient_def CL_TransferClientRemoteObject_def Let_def split: if_splits prod.splits)

text \<open>The answer about an effect is kept by the name of the effect alone: once a vibrator has been asked,
  every other vibrator is answered for with it, whatever its own effects are, and plugging a device in or out does not
  change it.\<close>

theorem effect_answer_for_all_vibrators:
  assumes "CL_IsSupportEffect E P i effect (cl, s) = (Inr answer, cl', s')"
  shows "\<forall>E' P' j now n d m s''. ce_sm E' \<longrightarrow>
    CL_IsSupportEffect E' P' j effect (snd (snd (Stub_ProcessPlugEvent E' now n d m cl')), s'') =
      (Inr answer, snd (snd (Stub_ProcessPlugEvent E' now n d m cl')), s'')"
proof -
  obtain ret cl1 s1 where i: "InitServiceClient E P (cl, s) = (ret, cl1, s1)" using prod.exhaust by metis
  have c: "cl_proxy cl'" "map_of (cl_supported cl') effect = Some answer"
    using assms i InitServiceClient_proxy [of E P "(cl, s)"]
    by (auto simp: CL_IsSupportEffect_def update_conv split: option.splits if_splits prod.splits sum.splits)
  then show ?thesis
    by (auto simp: Stub_ProcessPlugEvent_def HandleVibratorData_def Let_def CL_IsSupportEffect_def InitServiceClient_def)
qed

lemma effect_answer_for_all_vibrators_witness:
  "\<exists>answer cl'. CL_IsSupportEffect sample_client_env sample_proxy default_identifier ''haptic.clock.timer'' sample_agent =
       (Inr answer, cl', snd (snd (CL_IsSupportEffect sample_client_env sample_proxy default_identifier ''haptic.clock.timer'' sample_agent))) \<and>
     fst (CL_IsSupportEffect sample_client_env sample_proxy \<lparr>mi_deviceId = 9, mi_vibratorId = 9\<rparr> ''haptic.clock.timer''
       (snd (snd (Stub_ProcessPlugEvent sample_client_env 0 0 1 2 cl')), start_service)) = Inr answer"
proof -
  let ?r = "CL_IsSupportEffect sample_client_env sample_proxy default_identifier ''haptic.clock.timer'' sample_agent"
  have "(case fst ?r of Inl e \<Rightarrow> False | Inr b \<Rightarrow> True)" by code_simp
  then obtain answer cl' where r: "?r = (Inr answer, cl', snd (snd ?r))" by (metis old.sum.simps(5) prod.collapse sum.exhaust)
  have "ce_sm sample_client_env" by (simp add: sample_client_env_def)
  with effect_answer_for_all_vibrators [OF r [unfolded sample_agent_def]] r show ?thesis by (metis fst_conv sample_agent_def)
qed

end
