(* ===== verification/EndToEnd.thy ===== *)
theory EndToEnd
  imports AgentProps
begin

text \<open>
  From the application to the device and back: a request of the application as the thread of
  the service plays it, and a plug event as it travels through the proxy and the stub of the client,
  \<^verbatim>\<open>frameworks/native/vibrator/include/vibrator_client_proxy.h\<close> and
  \<^verbatim>\<open>frameworks/native/vibrator/src/vibrator_client_stub.cpp\<close>.
\<close>

section \<open>A request reaches the device\<close>

lemma InitServiceClient_service:
  assumes "InitServiceClient E (direct_proxy U W c) (cl, sv) = (r, cl', sv')"
  shows "sv' = sv \<or> sv' = snd (TransferClientRemoteObject W (Some c) sv)"
  using assms
  by (auto simp: InitServiceClient_def CL_TransferClientRemoteObject_def direct_proxy_def Let_def split_beta split: if_splits)

lemma TransferClientRemoteObject_devices [simp]: "sv_devices (snd (TransferClientRemoteObject W c sv)) = sv_devices sv"
  by (simp add: TransferClientRemoteObject_def RegisterClientDeathRecipient_def SaveClientPid_def split: option.split)

lemma InitServiceClient_reach:
  assumes "service_reach U Ws sv" and "W \<in> Ws" and "InitServiceClient E (direct_proxy U W c) (cl, sv) = (r, cl', sv')"
  shows "service_reach U Ws sv' \<and> sv_devices sv' = sv_devices sv"
  using InitServiceClient_service [OF assms(3)] assms(1,2) service_reach.step [OF assms(1,2) service_step.transfer] by auto

lemma px_Vibrate_direct: "px_Vibrate (direct_proxy U W c) = Vibrate W"
  by (simp add: direct_proxy_def)

text \<open>A vibration that the application is told has started is played on a device: with the service of
  this repository behind the interface, in any state it can reach, one of the vibrators that the identifier means has a running
  thread that carries the caller's process and the usage the application has set, and whose first call to the device starts
  that vibrator for the requested time.\<close>

theorem agent_vibration_is_played:
  assumes "service_reach U Ws (sv :: 'c service)" and "W \<in> Ws"
    and "AG_StartVibratorOnceEnhanced E (direct_proxy U W c) i duration (cl, sv) = (SUCCESS, cl', sv')"
  shows "\<exists>k t. k \<in> set (targets (ipc_identifier i) (sv_devices sv)) \<and> GetVibratorThread k sv' = Some t \<and> mt_running t \<and>
    vi_pid (th_info t) = w_pid W \<and> vi_usage (th_info t) = vep_usage (GetVibratorEffectParameter i cl) \<and>
    (\<forall>V T d script. \<exists>cs. th_calls (snd (play U V T (run_of t (d :: 'c) script))) = (0, CallStartOnce k (word_of_int duration)) # cs)"
proof -
  let ?p = "GetVibratorEffectParameter i cl" and ?P = "direct_proxy U W c"
  obtain ret cl1 sv1 where call: "CL_Vibrate E ?P i duration (vep_usage ?p) (vep_systemUsage ?p) (cl, sv) = (ret, cl1, sv1)"
    using prod.exhaust by metis
  obtain r0 cl0 sv0 where init: "InitServiceClient E ?P (cl, sv) = (r0, cl0, sv0)" using prod.exhaust by metis
  have ok: "ret = ERR_OK" "sv1 = sv'" using assms(3) call
    by (auto simp: AG_StartVibratorOnceEnhanced_def agent_result_def NormalizeErrCode_def split: if_splits)
  then have "Vibrate W (ipc_identifier i) duration (vep_usage ?p) (vep_systemUsage ?p) sv0 = (ERR_OK, sv')"
    using call init by (auto simp: CL_Vibrate_def client_call_def px_Vibrate_direct split: if_splits prod.splits)
  note played = Vibrate_is_played [OF conjunct1 [OF InitServiceClient_reach [OF assms(1,2) init]] this]
  show ?thesis
    using played InitServiceClient_reach [OF assms(1,2) init] by (auto simp: base_info_def default_info_def)
qed

lemma agent_vibration_is_played_witness:
  "\<exists>k t. GetVibratorThread k (snd (snd (AG_StartVibratorOnceEnhanced sample_client_env sample_proxy default_identifier 500 sample_agent)))
     = Some t \<and> mt_running t \<and> vi_pid (th_info t) = 7"
proof -
  let ?r = "AG_StartVibratorOnceEnhanced sample_client_env sample_proxy default_identifier 500 sample_agent"
  have "fst ?r = SUCCESS" by code_simp
  then have "?r = (SUCCESS, fst (snd ?r), snd (snd ?r))" by (metis prod.collapse)
  from agent_vibration_is_played [OF sample_service_reach singletonI this [unfolded sample_agent_def sample_proxy_def]]
  show ?thesis unfolding sample_agent_def sample_proxy_def by (auto simp: sample_world_def)
qed

section \<open>A plug event reaches the application\<close>

text \<open>
  The interface token is written and read by operations of the framework, \<open>wt\<close> and \<open>rt\<close>; \<open>p0\<close> is a new
  parcel, \<open>remote\<close> holds when the remote object is there, and \<open>send\<close> passes a request to it.
\<close>

definition Proxy_ProcessPlugEvent ::
    "'p parcel_ops \<Rightarrow> ('p \<Rightarrow> string \<Rightarrow> 'p option) \<Rightarrow> 'p \<Rightarrow> bool \<Rightarrow> (int \<Rightarrow> 'p \<Rightarrow> 's \<Rightarrow> errcode \<times> 's) \<Rightarrow> int \<Rightarrow> int \<Rightarrow> int
      \<Rightarrow> 's \<Rightarrow> errcode \<times> 's" where
  "Proxy_ProcessPlugEvent P wt p0 remote send eventCode deviceId vibratorCnt s =
     (case wt p0 ''IVibratorClient'' of
        None \<Rightarrow> (PARAMETER_ERROR, s)
      | Some p \<Rightarrow>
          (case write_items P [Int32 eventCode, Int32 deviceId, Int32 vibratorCnt] p of
             None \<Rightarrow> (PARAMETER_ERROR, s)
           | Some p \<Rightarrow>
               if \<not> remote then (ERROR, s)
               else let (error, s) = send 0 p s in if error \<noteq> ERR_OK then (PARAMETER_ERROR, s) else (SUCCESS, s)))"

text \<open>The callbacks the stub runs are returned with the client.\<close>

definition OnRemoteRequest ::
    "'p parcel_ops \<Rightarrow> ('p \<Rightarrow> string \<times> 'p) \<Rightarrow> 'j client_env \<Rightarrow> int \<Rightarrow> int \<Rightarrow> 'p \<Rightarrow> client \<Rightarrow> errcode \<times> nat list \<times> client" where
  "OnRemoteRequest P rt E now code data cl =
     (let (remoteDescriptor, data) = rt data in
      if remoteDescriptor \<noteq> ''IVibratorClient'' then (BaseErr ''OBJECT_NULL'', [], cl)
      else if code = 0 then
        (case ReadInt32 P data of
           None \<Rightarrow> (PARAMETER_ERROR, [], cl)
         | Some (eventCode, data) \<Rightarrow>
             (case ReadInt32 P data of
                None \<Rightarrow> (PARAMETER_ERROR, [], cl)
              | Some (deviceId, data) \<Rightarrow>
                  (case ReadInt32 P data of
                     None \<Rightarrow> (PARAMETER_ERROR, [], cl)
                   | Some (vibratorCnt, data) \<Rightarrow>
                       (NO_ERROR, snd (Stub_ProcessPlugEvent E now eventCode deviceId vibratorCnt cl)))))
      else (PARAMETER_ERROR, [], cl))"

text \<open>What the framework promises of the token: it is the first value that is read.\<close>

definition token_fifo :: "('p \<Rightarrow> item list) \<Rightarrow> ('p \<Rightarrow> string \<Rightarrow> 'p option) \<Rightarrow> ('p \<Rightarrow> string \<times> 'p) \<Rightarrow> bool" where
  "token_fifo unread wt rt \<longleftrightarrow>
     (\<forall>p d q. wt p d = Some q \<longrightarrow> unread q = unread p @ [Text d]) \<and>
     (\<forall>p d r. unread p = Text d # r \<longrightarrow> (\<exists>q. rt p = (d, q) \<and> unread q = r))"

text \<open>A remote object in the same process: the stub is called, and its callbacks are collected.\<close>

definition stub_send ::
    "'p parcel_ops \<Rightarrow> ('p \<Rightarrow> string \<times> 'p) \<Rightarrow> 'j client_env \<Rightarrow> int \<Rightarrow> int \<Rightarrow> 'p \<Rightarrow> nat list \<times> client \<Rightarrow> errcode \<times> nat list \<times> client" where
  "stub_send P rt E now code p = (\<lambda>(called, cl).
     let (ret, callbacks, cl) = OnRemoteRequest P rt E now code p cl in (ret, called @ callbacks, cl))"

lemma OnRemoteRequest_received:
  assumes "parcel_fifo P unread" and "token_fifo unread wt rt"
    and "unread p = [Text ''IVibratorClient'', Int32 n, Int32 d, Int32 m]"
  shows "OnRemoteRequest P rt E now 0 p cl = (NO_ERROR, snd (Stub_ProcessPlugEvent E now n d m cl))"
proof -
  obtain p1 where p1: "rt p = (''IVibratorClient'', p1)" "unread p1 = [Int32 n, Int32 d, Int32 m]"
    using assms(2,3) unfolding token_fifo_def by blast
  obtain p2 where p2: "ReadInt32 P p1 = Some (n, p2)" "unread p2 = [Int32 d, Int32 m]"
    using assms(1) p1(2) unfolding parcel_fifo_def by blast
  obtain p3 where p3: "ReadInt32 P p2 = Some (d, p3)" "unread p3 = [Int32 m]"
    using assms(1) p2(2) unfolding parcel_fifo_def by blast
  obtain p4 where "ReadInt32 P p3 = Some (m, p4)" using assms(1) p3(2) unfolding parcel_fifo_def by blast
  with p1 p2 p3 show ?thesis by (simp add: OnRemoteRequest_def)
qed

lemma callbacks_exact:
  "distinct (GetSubscribeUserCallback E cl) \<and> set (GetSubscribeUserCallback E cl) = {f. \<exists>u \<in> set (cl_users cl). ce_callback E u = Some f}"
proof -
  have "set (List.map_filter (ce_callback E) (cl_users cl)) = {f. \<exists>u \<in> set (cl_users cl). ce_callback E u = Some f}"
    by (auto simp: List.map_filter_def image_iff) (metis option.sel)
  then show ?thesis by (metis GetSubscribeUserCallback_def List.finite_set distinct_sorted_list_of_set set_sorted_list_of_set)
qed

lemma settings_after_unplug:
  "sm_find (a, b) (filter (\<lambda>((d', v), p). d' \<noteq> d) m) = (if a = d then None else sm_find (a, b) m)"
  by (induction m) (auto simp: sm_find_def)

text \<open>C20. A plug event that the service sends arrives: with any parcel that keeps the order of its values,
  a proxy that can write the message and the stub on the other side, every callback that is subscribed is run once, and when
  the device was unplugged the settings of its vibrators are forgotten and no others.\<close>

theorem plug_event_delivered:
  assumes "parcel_fifo P unread" and "token_fifo unread wt rt" and "unread p0 = []"
    and "wt p0 ''IVibratorClient'' = Some p1" and "write_items P [Int32 n, Int32 d, Int32 m] p1 = Some p2"
    and "-1 \<le> n" and "n \<le> 1"
  shows "\<exists>cl'. Proxy_ProcessPlugEvent P wt p0 True (stub_send P rt E now) n d m ([], cl) =
      (SUCCESS, GetSubscribeUserCallback E cl, cl') \<and>
    distinct (GetSubscribeUserCallback E cl) \<and> set (GetSubscribeUserCallback E cl) = {f. \<exists>u \<in> set (cl_users cl). ce_callback E u = Some f} \<and>
    GetVibratorEffectParameter i cl' = (if n = 0 \<and> mi_deviceId i = d then default_effect_parameter else GetVibratorEffectParameter i cl)"
proof -
  have "unread p1 = [Text ''IVibratorClient'']" using assms(2-4) by (simp add: token_fifo_def)
  then have "unread p2 = [Text ''IVibratorClient'', Int32 n, Int32 d, Int32 m]"
    using fifo_write_items [OF assms(1,5)] by simp
  note sent = OnRemoteRequest_received [OF assms(1,2) this, of E now cl]
  have "Proxy_ProcessPlugEvent P wt p0 True (stub_send P rt E now) n d m ([], cl) =
      (SUCCESS, snd (Stub_ProcessPlugEvent E now n d m cl))"
    using assms(4,5) sent by (simp add: Proxy_ProcessPlugEvent_def stub_send_def split_beta)
  moreover have "fst (snd (Stub_ProcessPlugEvent E now n d m cl)) = GetSubscribeUserCallback E cl"
    and "GetVibratorEffectParameter i (snd (snd (Stub_ProcessPlugEvent E now n d m cl))) =
      (if n = 0 \<and> mi_deviceId i = d then default_effect_parameter else GetVibratorEffectParameter i cl)"
    using assms(6,7)
    by (auto simp: Stub_ProcessPlugEvent_def HandleVibratorData_def Let_def GetVibratorEffectParameter_def key_of_def settings_after_unplug
        GetSubscribeUserCallback_def)
  ultimately show ?thesis using callbacks_exact [of E cl] by (metis prod.collapse)
qed

lemma plug_event_delivered_witness:
  "\<exists>cl'. Proxy_ProcessPlugEvent list_parcel (\<lambda>p d. Some (p @ [Text d])) [] True
      (stub_send list_parcel (\<lambda>p. case p of Text d # r \<Rightarrow> (d, r) | _ \<Rightarrow> ([], p)) sample_client_env 0) 0 1 2
      ([], CL_SetLoopCount \<lparr>mi_deviceId = 1, mi_vibratorId = 1\<rparr> 3 (initial_client\<lparr>cl_users := [4, 7]\<rparr>)) = (SUCCESS, [4, 7], cl') \<and>
    GetVibratorEffectParameter \<lparr>mi_deviceId = 1, mi_vibratorId = 1\<rparr> cl' = default_effect_parameter"
proof -
  let ?cl = "CL_SetLoopCount \<lparr>mi_deviceId = 1, mi_vibratorId = 1\<rparr> 3 (initial_client\<lparr>cl_users := [4, 7]\<rparr>)"
  have t: "token_fifo (\<lambda>p. p) (\<lambda>p d. Some (p @ [Text d])) (\<lambda>p. case p of Text d # r \<Rightarrow> (d, r) | _ \<Rightarrow> ([], p))"
    by (auto simp: token_fifo_def)
  have users: "GetSubscribeUserCallback sample_client_env ?cl = [4, 7]"
    by (simp add: GetSubscribeUserCallback_def CL_SetLoopCount_def upd_effect_def sample_client_env_def List.map_filter_def)
  have w: "write_items list_parcel [Int32 0, Int32 1, Int32 2] [Text ''IVibratorClient''] =
      Some ([Text ''IVibratorClient''] @ [Int32 0, Int32 1, Int32 2])"
    by (rule write_items_list_parcel)
  from plug_event_delivered [OF list_parcel_fifo t _ _ w, of "[]" sample_client_env 0 ?cl "\<lparr>mi_deviceId = 1, mi_vibratorId = 1\<rparr>"]
  show ?thesis unfolding users by fastforce
qed

end
