(* ===== verification/System.thy ===== *)
theory System
  imports EndToEnd
begin

text \<open>
  The whole system: applications, each with its own client library, over one service. The locale
  \<open>misc_service\<close> is what the client library relies on of the service behind the generated interface,
  that every operation keeps an invariant of the service; it is interpreted on the service of
  \<open>ServiceHandlers\<close>.
\<close>

section \<open>The interface between client library and service\<close>

locale misc_service =
  fixes P :: "'s misc_proxy" and inv :: "'s \<Rightarrow> bool"
  assumes vibrate: "inv s \<Longrightarrow> inv (snd (px_Vibrate P i timeOut usage b s))"
    and effect: "inv s \<Longrightarrow> inv (snd (px_PlayVibratorEffect P i e n usage b s))"
    and custom: "inv s \<Longrightarrow> inv (snd (px_PlayVibratorCustom P i pkg h s))"
    and pattern: "inv s \<Longrightarrow> inv (snd (px_PlayPattern P i a h s))"
    and package: "inv s \<Longrightarrow> inv (snd (px_PlayPackageBySessionId P i pkg h s))"
    and primitive: "inv s \<Longrightarrow> inv (snd (px_PlayPrimitiveEffect P i e p s))"
    and stop: "inv s \<Longrightarrow> inv (snd (px_StopVibrator P i s))"
    and stop_mode: "inv s \<Longrightarrow> inv (snd (px_StopVibratorByMode P i mode s))"
    and stop_session: "inv s \<Longrightarrow> inv (snd (px_StopVibrateBySessionId P i session s))"
    and support: "inv s \<Longrightarrow> inv (snd (px_IsSupportEffect P i e s))"
    and delay: "inv s \<Longrightarrow> inv (snd (px_GetDelayTime P i s))"
    and capacity: "inv s \<Longrightarrow> inv (snd (px_GetVibratorCapacity P i s))"
    and list: "inv s \<Longrightarrow> inv (snd (px_GetVibratorList P i s))"
    and info: "inv s \<Longrightarrow> inv (snd (px_GetEffectInfo P i e s))"
    and transfer: "inv s \<Longrightarrow> inv (snd (px_TransferClientRemoteObject P s))"
    and subscribe: "inv s \<Longrightarrow> inv (snd (px_SubscribeVibratorPlugInfo P s))"
    and disable: "inv s \<Longrightarrow> inv (snd (px_DisableVibratorByPid P pid s))"
    and enable: "inv s \<Longrightarrow> inv (snd (px_EnableVibratorByPid P pid s))"
begin

lemma init_inv: "inv (snd st) \<Longrightarrow> inv (snd (snd (InitServiceClient E P st)))"
  using transfer [of "snd st"]
  by (auto simp: InitServiceClient_def CL_TransferClientRemoteObject_def Let_def split_beta)

lemma call_inv: "(\<And>s. inv s \<Longrightarrow> inv (snd (f s))) \<Longrightarrow> inv (snd st) \<Longrightarrow> inv (snd (snd (client_call E P f st)))"
  using init_inv [of st E] by (simp add: client_call_def split_beta)

lemma query_inv: "(\<And>s. inv s \<Longrightarrow> inv (snd (f s))) \<Longrightarrow> inv (snd st) \<Longrightarrow> inv (snd (snd (client_query E P f st)))"
  using init_inv [of st E] by (simp add: client_query_def split_beta)

lemma custom_inv: "inv (snd st) \<Longrightarrow> inv (snd (snd (CL_PlayVibratorCustom E P i fd usage b p st)))"
  using init_inv [of st E] by (auto simp: CL_PlayVibratorCustom_def split_beta Let_def intro: custom split: sum.split)

lemma init_pattern_inv: "InitPlayPattern E P i a usage b p st = Some r \<Longrightarrow> inv (snd st) \<Longrightarrow> inv (snd (snd r))"
  using init_inv [of st E] by (auto simp: InitPlayPattern_def split_beta Let_def intro: pattern split: outcome.splits if_splits)

lemma pattern_inv: "CL_PlayPattern E P i a usage b p st = Some r \<Longrightarrow> inv (snd st) \<Longrightarrow> inv (snd (snd r))"
  using init_inv [of st E] by (auto simp: CL_PlayPattern_def split_beta Let_def dest: init_pattern_inv split: if_splits)

lemma package_inv: "CL_PlayPackageBySessionId E P i p k st = Some r \<Longrightarrow> inv (snd st) \<Longrightarrow> inv (snd (snd r))"
  using init_inv [of st E]
  by (auto simp: CL_PlayPackageBySessionId_def split_beta Let_def intro: package split: outcome.splits if_splits)

lemma plays_inv:
  assumes "inv (snd st)"
  shows "inv (snd (snd (AG_StartVibratorEnhanced E P i e st)))" "inv (snd (snd (AG_StartVibratorOnceEnhanced E P i d st)))"
    "inv (snd (snd (AG_PlayVibratorCustomEnhanced E P i fd off len st)))"
    "inv (snd (snd (AG_PlayPrimitiveEffectEnhanced E P i e n st)))"
  using assms
  by (auto simp: AG_StartVibratorEnhanced_def AG_StartVibratorOnceEnhanced_def AG_PlayVibratorCustomEnhanced_def
      AG_PlayPrimitiveEffectEnhanced_def CL_defs Let_def split_beta intro!: call_inv custom_inv vibrate effect primitive
      split: option.split)

lemma pattern_plays_inv:
  assumes "inv (snd st)"
  shows "AG_PlayPatternEnhanced E P i a st = Some r \<Longrightarrow> inv (snd (snd r))"
    "AG_PlayPatternBySessionId E P n a st = Some r \<Longrightarrow> inv (snd (snd r))"
    "AG_PlayPackageBySessionId E P n k st = Some r \<Longrightarrow> inv (snd (snd r))"
  using assms
  by (auto simp: AG_PlayPatternEnhanced_def AG_PlayPatternBySessionId_def AG_PlayPackageBySessionId_def Let_def split_beta
      split: if_splits dest: pattern_inv package_inv)

lemma stops_inv:
  assumes "inv (snd st)"
  shows "inv (snd (snd (AG_StopVibratorEnhanced E P i m st)))" "inv (snd (snd (AG_CancelEnhanced E P i st)))"
    "inv (snd (snd (AG_StopVibrateBySessionId E P n st)))" "inv (snd (snd (AG_DisableVibratorByPid E P pid st)))"
    "inv (snd (snd (AG_EnableVibratorByPid E P pid st)))"
  using assms
  by (auto simp: AG_StopVibratorEnhanced_def AG_CancelEnhanced_def AG_StopVibrateBySessionId_def AG_DisableVibratorByPid_def
      AG_EnableVibratorByPid_def CL_defs Let_def split_beta intro!: call_inv stop stop_mode stop_session disable enable
      split: option.split)

lemma queries_inv:
  assumes "inv (snd st)"
  shows "inv (snd (snd (AG_IsSupportEffectEnhanced E P i e null st)))" "inv (snd (snd (AG_GetDelayTimeEnhanced E P i st)))"
    "inv (snd (snd (AG_GetVibratorList E P i st)))" "inv (snd (snd (AG_IsSupportVibratorCustomEnhanced E P i st)))"
    "inv (snd (snd (AG_IsHdHapticSupportedEnhanced E P i st)))" "inv (snd (snd (AG_SubscribeVibratorPlug E P u st)))"
    "inv (snd (snd (AG_GetEffectInfo E P i effectType st)))"
  using assms init_inv [OF assms, of E]
  by (auto simp: AG_IsSupportEffectEnhanced_def AG_GetDelayTimeEnhanced_def AG_GetVibratorList_def
      AG_IsSupportVibratorCustomEnhanced_def AG_IsHdHapticSupportedEnhanced_def AG_SubscribeVibratorPlug_def AG_GetEffectInfo_def CL_GetEffectInfo_def
      CL_IsSupportEffect_def
      CL_IsSupportVibratorCustom_def CL_IsHdHapticSupported_def CL_GetVibratorCapacity_def CL_SubscribeVibratorPlugInfo_def
      CL_GetVibratorList_def CL_GetDelayTime_def Let_def split_beta intro!: query_inv intro: support capacity list delay subscribe info
      split: option.split sum.split)

lemma run_inv: "agent_run E P c st = Some r \<Longrightarrow> inv (snd st) \<Longrightarrow> inv (snd (snd r))"
  by (cases c)
    (auto simp: Let_def split_beta plays_inv stops_inv queries_inv dest: pattern_plays_inv split: outcome.splits prod.splits)

lemma death_inv: "inv (snd st) \<Longrightarrow> inv (snd (CL_ProcessDeathObserver E P st))"
  using init_inv [of "(fst st\<lparr>cl_proxy := False\<rparr>, snd st)" E] by (simp add: CL_ProcessDeathObserver_def split_beta)

end

text \<open>The service of this repository provides it, for its states that can be reached with the caller among the callers.\<close>

interpretation direct: misc_service "direct_proxy U W c" "service_reach U (insert W Ws)" for U W c Ws
  by unfold_locales
    (auto simp: direct_proxy_def split_beta SubscribeVibratorPlugInfo_def intro: service_reach.step service_step.intros)

section \<open>Applications over the service\<close>

text \<open>
  The client library of every process, and the service. A process makes a call with the identity of a
  world; what else happens to the service (drivers, the system, callers that bypass the library) is a step of
  the service alone; the service may die and start anew, and the processes learn of it one by one.
\<close>

record 'c system =
  sy_clients :: "nat \<Rightarrow> client"
  sy_service :: "'c service"

inductive system_reach :: "(rat option \<Rightarrow> int) \<Rightarrow> ('c, 'j) world set \<Rightarrow> 'c system \<Rightarrow> bool" for U Ws where
  init: "system_reach U Ws \<lparr>sy_clients = (\<lambda>_. initial_client), sy_service = initial_service c p\<rparr>"
| call: "system_reach U Ws S \<Longrightarrow> W \<in> Ws \<Longrightarrow>
    agent_run (E :: 'j client_env) (direct_proxy U W k) a (sy_clients S k, sy_service S) = Some (e, cl, sv) \<Longrightarrow>
    system_reach U Ws \<lparr>sy_clients = (sy_clients S)(k := cl), sy_service = sv\<rparr>"
| service: "system_reach U Ws S \<Longrightarrow> W \<in> Ws \<Longrightarrow> service_step U W (sy_service S) sv \<Longrightarrow>
    system_reach U Ws (S\<lparr>sy_service := sv\<rparr>)"
| restart: "system_reach U Ws S \<Longrightarrow> system_reach U Ws (S\<lparr>sy_service := initial_service c p\<rparr>)"
| reconnect: "system_reach U Ws S \<Longrightarrow> W \<in> Ws \<Longrightarrow>
    CL_ProcessDeathObserver (E :: 'j client_env) (direct_proxy U W k) (sy_clients S k, sy_service S) = (cl, sv) \<Longrightarrow>
    system_reach U Ws \<lparr>sy_clients = (sy_clients S)(k := cl), sy_service = sv\<rparr>"
| plug: "system_reach U Ws S \<Longrightarrow>
    system_reach U Ws (S\<lparr>sy_clients := (sy_clients S)(k := snd (snd (Stub_ProcessPlugEvent (E :: 'j client_env) now n d m (sy_clients S k))))\<rparr>)"

lemma effects_ok_death: "effects_ok cl \<Longrightarrow> CL_ProcessDeathObserver E P (cl, s) = (cl', s') \<Longrightarrow> effects_ok cl'"
  using InitServiceClient_effects [of E P "(cl\<lparr>cl_proxy := False\<rparr>, s)"]
  by (auto simp: CL_ProcessDeathObserver_def effects_ok_def)

lemma effects_ok_plug: "effects_ok cl \<Longrightarrow> effects_ok (snd (snd (Stub_ProcessPlugEvent E now n d m cl)))"
  by (auto simp: Stub_ProcessPlugEvent_def HandleVibratorData_def effects_ok_def sm_ok_def list_all_iff Let_def
      sorted_wrt_map sorted_wrt_filter)

lemma system_reach_parts: "system_reach U Ws S \<Longrightarrow> service_reach U Ws (sy_service S) \<and> (\<forall>k. effects_ok (sy_clients S k))"
proof (induction rule: system_reach.induct)
  case (init c p)
  then show ?case by (simp add: service_reach.init effects_ok_def initial_client_def)
next
  case (call S W E k a e cl sv)
  then have "service_reach U (insert W Ws) sv" using direct.run_inv [OF call.hyps(3), of Ws] by (simp add: insert_absorb)
  with call effects_ok_run [OF _ call.hyps(3)] show ?case by (simp add: insert_absorb)
next
  case (service S W sv)
  then show ?case using service_reach.step by auto
next
  case (restart S c p)
  then show ?case by (simp add: service_reach.init)
next
  case (reconnect S W E k cl sv)
  then have "service_reach U (insert W Ws) sv"
    using direct.death_inv [of U W Ws "(sy_clients S k, sy_service S)" E k] by (simp add: insert_absorb)
  with reconnect effects_ok_death [OF _ reconnect.hyps(3)] show ?case by (simp add: insert_absorb)
next
  case (plug S k E now n d m)
  then show ?case by (simp add: effects_ok_plug)
qed

text \<open>C1. In every state the whole system can reach, with any number of applications that make any calls, devices
  that come and go, and services that die and start anew: every thread that runs plays a request that passed the checks (its
  usage is known, a timed vibration lasts between 1 ms and 30 minutes, a preset effect has an intensity between 1 and 100, and it has
  not been told to end), and the settings every application has stored are in the ranges of their setters: a known usage, an
  intensity between 0 and 100, a frequency between -100 and 100, which the service accepts, and a count of at least 1, of which the
  service accepts 1000 at most.\<close>

theorem system_safe:
  assumes "system_reach U Ws S"
  shows "(GetVibratorThread i (sy_service S) = Some t \<and> mt_running t \<longrightarrow>
      0 \<le> vi_usage (th_info t) \<and> vi_usage (th_info t) < USAGE_MAX \<and> \<not> th_exitFlag t \<and>
      (vi_mode (th_info t) = VIBRATE_TIME \<longrightarrow> 0 < vi_duration (th_info t) \<and> vi_duration (th_info t) \<le> 1800000) \<and>
      (vi_mode (th_info t) = VIBRATE_PRESET \<longrightarrow> 1 \<le> vi_intensity (th_info t) \<and> vi_intensity (th_info t) \<le> 100)) \<and>
    (let p = GetVibratorEffectParameter j (sy_clients S k); v = vep_vibratorParameter p
     in 1 \<le> vep_loopCount p \<and> 0 \<le> vep_usage p \<and> vep_usage p < USAGE_MAX \<and> 0 \<le> vprm_intensity v \<and> vprm_intensity v \<le> 100 \<and>
        -100 \<le> vprm_frequency v \<and> vprm_frequency v \<le> 100)"
proof -
  note parts = system_reach_parts [OF assms]
  have "motor_ok t" if "GetVibratorThread i (sy_service S) = Some t"
    using motor_of_table [OF service_reach_devices that] parts by blast
  moreover have "settings_ok (GetVibratorEffectParameter j (sy_clients S k))" using effects_ok_get parts by blast
  ultimately show ?thesis by (auto simp: motor_ok_def request_ok_def settings_ok_def Let_def)
qed

lemma system_safe_witness:
  "\<exists>S. system_reach (\<lambda>_. 0) {sample_world} S \<and> sy_clients S 3 \<noteq> initial_client \<and>
     1 \<le> vep_loopCount (GetVibratorEffectParameter default_identifier (sy_clients S 3))"
proof -
  let ?S = "\<lparr>sy_clients = (\<lambda>_. initial_client), sy_service = initial_service (Some compatible_init) initial_priority\<rparr>"
  let ?cl = "CL_SetLoopCount default_identifier 4 initial_client"
  have run: "agent_run sample_client_env (direct_proxy (\<lambda>_. 0) sample_world 3) (SetLoopCount default_identifier 4)
      (sy_clients ?S 3, sy_service ?S) = Some (SUCCESS, ?cl, sy_service ?S)"
    by (simp add: AG_SetLoopCountEnhanced_def)
  have "system_reach (\<lambda>_. 0) {sample_world} \<lparr>sy_clients = (sy_clients ?S)(3 := ?cl), sy_service = sy_service ?S\<rparr>"
    by (rule system_reach.call [OF system_reach.init _ run]) simp
  moreover have "?cl \<noteq> initial_client"
    by (simp add: CL_SetLoopCount_def upd_effect_def initial_client_def)
  moreover from system_safe [OF calculation(1), of undefined undefined default_identifier 3]
  have "1 \<le> vep_loopCount (GetVibratorEffectParameter default_identifier ?cl)" by (simp add: Let_def)
  ultimately show ?thesis by (intro exI conjI) auto
qed

end
