(* ===== verification/Files.thy ===== *)
theory Files
  imports OhDecoder CStrings
begin

text \<open>
  File access, \<^verbatim>\<open>utils/common/src/file_utils.cpp\<close>, and the constructors of \<^verbatim>\<open>JsonParser\<close> that read a
  file. The calls of the system are a record of functions; a stream is the content of the open file and a
  position in it, with \<^verbatim>\<open>fgets\<close> as the C library defines it. \<^verbatim>\<open>ReadFd\<close> loops until \<^verbatim>\<open>ftell\<close> has passed
  the length it wants, so it is a partial function: \<open>None\<close> is a call that does not return.
\<close>

section \<open>Strings and streams of the C library\<close>

text \<open>A buffer read as a C string ends at the first zero byte.\<close>

definition c_str :: "string \<Rightarrow> string" where
  "c_str s = takeWhile (\<lambda>c. c \<noteq> CHR 0x00) s"

text \<open>\<^verbatim>\<open>find_last_of\<close> and \<^verbatim>\<open>rfind\<close> of one character.\<close>

definition find_last_of :: "char \<Rightarrow> string \<Rightarrow> nat option" where
  "find_last_of c s = (if c \<in> set s then Some (length s - 1 - length (takeWhile (\<lambda>x. x \<noteq> c) (rev s))) else None)"

record stream =
  fp_data :: string
  fp_pos :: nat

text \<open>At most \<open>n\<close> characters, up to the end of a line.\<close>

fun line_prefix :: "nat \<Rightarrow> string \<Rightarrow> string" where
  "line_prefix 0 s = []"
| "line_prefix (Suc n) [] = []"
| "line_prefix (Suc n) (c # s) = (if c = CHR 0x0A then [c] else c # line_prefix n s)"

text \<open>\<open>None\<close> is the null pointer that \<^verbatim>\<open>fgets\<close> returns when there is nothing to read; the buffer is left as it was.\<close>

definition fgets :: "nat \<Rightarrow> stream \<Rightarrow> string option \<times> stream" where
  "fgets n fp =
     (let s = line_prefix (n - 1) (drop (fp_pos fp) (fp_data fp)) in
      if s = [] then (None, fp) else (Some s, fp\<lparr>fp_pos := fp_pos fp + length s\<rparr>))"

section \<open>The calls of the system\<close>

text \<open>
  What \<^verbatim>\<open>realpath\<close>, \<^verbatim>\<open>access\<close>, \<^verbatim>\<open>stat\<close>, \<^verbatim>\<open>fstat64\<close> (the size), \<^verbatim>\<open>readlink\<close> (the whole target) and
  \<^verbatim>\<open>dup\<close> answer, \<open>None\<close> being their error; the content that can be read through an opened file, and
  whether \<^verbatim>\<open>fseek\<close> succeeds.
\<close>

record file_env =
  fs_realpath :: "string \<Rightarrow> string option"
  fs_access :: "string \<Rightarrow> bool"
  fs_stat :: "string \<Rightarrow> int option"
  fs_fstat :: "int \<Rightarrow> int option"
  fs_readlink :: "string \<Rightarrow> string option"
  fs_dup :: "int \<Rightarrow> int option"
  fs_fopen :: "string \<Rightarrow> string option"
  fs_fdopen :: "int \<Rightarrow> string option"
  fs_fseek :: "int \<Rightarrow> bool"

definition CONFIG_DIR :: string where "CONFIG_DIR = ''/vendor/etc/vibrator/''"

section \<open>Checks on files\<close>

definition GetFileSize_path :: "file_env \<Rightarrow> string \<Rightarrow> int" where
  "GetFileSize_path F path = (case fs_stat F path of None \<Rightarrow> -1 | Some st_size \<Rightarrow> wrap32 st_size)"

definition GetFileSize :: "file_env \<Rightarrow> int \<Rightarrow> int" where
  "GetFileSize F fd = (if fd < 0 then -1 else case fs_fstat F fd of None \<Rightarrow> -1 | Some st_size \<Rightarrow> st_size)"

text \<open>The second parameter is not used.\<close>

definition CheckFileDir :: "string \<Rightarrow> string \<Rightarrow> bool" where
  "CheckFileDir filePath dir \<longleftrightarrow> take (length CONFIG_DIR) filePath = CONFIG_DIR"

definition CheckFileSize :: "file_env \<Rightarrow> string \<Rightarrow> bool" where
  "CheckFileSize F path = (let fileSize = GetFileSize_path F path in \<not> (fileSize \<le> 0 \<or> fileSize > 0x5000))"

definition CheckFileExtendName :: "string \<Rightarrow> string \<Rightarrow> bool" where
  "CheckFileExtendName filePath checkExtension =
     (case find_last_of (CHR ''.'') filePath of
        None \<Rightarrow> False
      | Some pos \<Rightarrow> drop (pos + 1) filePath = checkExtension)"

definition IsFileExists :: "file_env \<Rightarrow> string \<Rightarrow> bool" where
  "IsFileExists F fileName = fs_access F fileName"

section \<open>Names\<close>

definition GetFileName :: "file_env \<Rightarrow> int \<Rightarrow> errcode + string" where
  "GetFileName F fd =
     (if fd < 0 then Inl ERROR
      else case fs_readlink F (''/proc/self/fd/'' @ to_string fd) of
        None \<Rightarrow> Inl ERROR
      | Some link \<Rightarrow>
          let fileName = c_str (take 1023 link) in
          (case find_last_of (CHR ''/'') fileName of
             None \<Rightarrow> Inl ERROR
           | Some firstSlash \<Rightarrow> Inr (take (length fileName - firstSlash) (drop (firstSlash + 1) fileName))))"

definition GetFileExtName :: "file_env \<Rightarrow> int \<Rightarrow> errcode + string" where
  "GetFileExtName F fd =
     (if fd < 0 then Inl ERROR
      else case GetFileName F fd of
        Inl _ \<Rightarrow> Inl ERROR
      | Inr fileName \<Rightarrow>
          Inr (case find_last_of (CHR ''.'') fileName of None \<Rightarrow> fileName | Some pos \<Rightarrow> drop (pos + 1) fileName))"

definition GetFileSuffix :: "file_env \<Rightarrow> int \<Rightarrow> string" where
  "GetFileSuffix F fd =
     (case fs_readlink F (''/proc/self/fd/'' @ to_string fd) of
        None \<Rightarrow> ''''
      | Some link \<Rightarrow>
          let fileAbsolutePath = c_str (take 1024 link) in
          (case find_last_of (CHR ''.'') fileAbsolutePath of
             None \<Rightarrow> '''' | Some pos \<Rightarrow> drop (pos + 1) fileAbsolutePath))"

section \<open>Reading\<close>

text \<open>The loop of \<^verbatim>\<open>ReadJsonFile\<close> ends with the file.\<close>

lemma line_prefix_split: "line_prefix n s @ drop (length (line_prefix n s)) s = s"
  by (induction n s rule: line_prefix.induct) auto

lemma line_prefix_length: "length (line_prefix n s) \<le> n" "length (line_prefix n s) \<le> length s"
  by (induction n s rule: line_prefix.induct) auto

lemma line_prefix_take: "line_prefix n s = take (length (line_prefix n s)) s"
  using line_prefix_split [of n s] by (metis append_eq_conv_conj)

lemma line_prefix_empty [simp]: "line_prefix (Suc n) s = [] \<longleftrightarrow> s = []"
  by (cases s) auto

lemma fgets_Some:
  "fgets n fp = (Some s, fp') \<Longrightarrow> s \<noteq> [] \<and> s = take (length s) (drop (fp_pos fp) (fp_data fp)) \<and> length s \<le> n - 1 \<and>
     fp' = fp\<lparr>fp_pos := fp_pos fp + length s\<rparr> \<and> fp_pos fp + length s \<le> length (fp_data fp)"
proof -
  let ?s = "line_prefix (n - 1) (drop (fp_pos fp) (fp_data fp))"
  assume "fgets n fp = (Some s, fp')"
  then have s: "s = ?s" "?s \<noteq> []" "fp' = fp\<lparr>fp_pos := fp_pos fp + length s\<rparr>"
    by (auto simp: fgets_def Let_def split: if_splits)
  then have "0 < length s" by simp
  with s line_prefix_take [of "n - 1" "drop (fp_pos fp) (fp_data fp)"] line_prefix_length [of "n - 1" "drop (fp_pos fp) (fp_data fp)"]
  show ?thesis by (auto simp del: length_greater_0_conv)
qed

lemma fgets_None: "fgets n fp = (None, fp') \<Longrightarrow> fp' = fp"
  by (auto simp: fgets_def Let_def split: if_splits)

lemma fgets_advance:
  assumes "fgets n fp = (r, fp')"
  shows "fp_data fp' = fp_data fp" and "fp_pos fp' = fp_pos fp \<or> fp_pos fp' \<le> length (fp_data fp)"
proof -
  show "fp_data fp' = fp_data fp" using assms by (auto simp: fgets_def Let_def split: if_splits)
  show "fp_pos fp' = fp_pos fp \<or> fp_pos fp' \<le> length (fp_data fp)"
  proof (cases r)
    case None
    with assms fgets_None show ?thesis by auto
  next
    case (Some s)
    with assms have "fgets n fp = (Some s, fp')" by simp
    from fgets_Some [OF this] have "fp' = fp\<lparr>fp_pos := fp_pos fp + length s\<rparr>" "fp_pos fp + length s \<le> length (fp_data fp)" by blast+
    then show ?thesis by simp
  qed
qed

lemma fgets_end: "fgets (Suc (Suc n)) fp = (None, fp') \<Longrightarrow> length (fp_data fp) \<le> fp_pos fp"
  by (auto simp: fgets_def Let_def split: if_splits)

function read_lines :: "string \<Rightarrow> stream \<Rightarrow> string" where
  "read_lines dataStr fp =
     (case fgets 256 fp of (None, fp) \<Rightarrow> dataStr | (Some buf, fp) \<Rightarrow> read_lines (dataStr @ c_str buf) fp)"
  by auto
termination
  by (relation "measure (\<lambda>(d, fp). length (fp_data fp) - fp_pos fp)")
    (auto dest!: sym [of _ "fgets _ _"] fgets_Some intro!: diff_less_mono2 simp flip: length_greater_0_conv)

declare read_lines.simps [simp del]

definition ReadJsonFile :: "file_env \<Rightarrow> string \<Rightarrow> string" where
  "ReadJsonFile F filePath =
     (if filePath = '''' then ''''
      else case fs_realpath F filePath of
        None \<Rightarrow> ''''
      | Some realPath \<Rightarrow>
          if \<not> CheckFileDir realPath CONFIG_DIR then ''''
          else if \<not> CheckFileExtendName realPath ''json'' then ''''
          else if \<not> IsFileExists F realPath then ''''
          else if \<not> CheckFileSize F realPath then ''''
          else case fs_fopen F realPath of
            None \<Rightarrow> ''''
          | Some content \<Rightarrow> read_lines '''' \<lparr>fp_data = content, fp_pos = 0\<rparr>)"

partial_function (option) read_fd_loop ::
    "int \<Rightarrow> int \<Rightarrow> string \<Rightarrow> string \<Rightarrow> int \<Rightarrow> stream \<Rightarrow> string option" where
  "read_fd_loop off len buf dataStr alreadyRead fp =
     (if alreadyRead < len then
        let onceRead = min (len - alreadyRead) 255;
            (r, fp) = fgets (nat (onceRead + 1)) fp;
            buf = (case r of None \<Rightarrow> buf | Some s \<Rightarrow> s)
        in read_fd_loop off len buf (dataStr @ c_str buf) (int (fp_pos fp) - off) fp
      else Some dataStr)"

definition ReadFd :: "file_env \<Rightarrow> RawFileDescriptor \<Rightarrow> string option" where
  "ReadFd F rawFd =
     (let fdSize = GetFileSize F (rfd_fd rawFd) in
      if rfd_fd rawFd < 0 then Some ''''
      else if rfd_offset rawFd < 0 \<or> rfd_offset rawFd > fdSize then Some ''''
      else if rfd_length rawFd \<le> 0 \<or> rfd_length rawFd > fdSize - rfd_offset rawFd then Some ''''
      else case fs_dup F (rfd_fd rawFd) of
        None \<Rightarrow> Some ''''
      | Some dupFd \<Rightarrow>
          (case fs_fdopen F dupFd of
             None \<Rightarrow> Some ''''
           | Some content \<Rightarrow>
               if \<not> fs_fseek F (rfd_offset rawFd) then Some ''''
               else read_fd_loop (rfd_offset rawFd) (rfd_length rawFd) '''' '''' 0
                 \<lparr>fp_data = content, fp_pos = nat (rfd_offset rawFd)\<rparr>))"

definition JsonParser_path :: "'j cjson \<Rightarrow> file_env \<Rightarrow> string \<Rightarrow> 'j option" where
  "JsonParser_path J F filePath =
     (let jsonStr = ReadJsonFile F filePath in if jsonStr = '''' then None else cJSON_Parse J jsonStr)"

definition JsonParser_fd :: "'j cjson \<Rightarrow> file_env \<Rightarrow> RawFileDescriptor \<Rightarrow> 'j option option" where
  "JsonParser_fd J F rawFd =
     map_option (\<lambda>jsonStr. if jsonStr = '''' then None else cJSON_Parse J jsonStr) (ReadFd F rawFd)"

section \<open>What is read\<close>

definition zero_free :: "string \<Rightarrow> bool" where
  "zero_free s \<longleftrightarrow> CHR 0x00 \<notin> set s"

lemma c_str_zero_free: "zero_free s \<Longrightarrow> c_str s = s"
  by (auto simp: zero_free_def c_str_def takeWhile_eq_all_conv)

lemma zero_free_take [simp]: "zero_free s \<Longrightarrow> zero_free (take n s)"
  by (auto simp: zero_free_def dest: in_set_takeD)

lemma zero_free_drop [simp]: "zero_free s \<Longrightarrow> zero_free (drop n s)"
  by (auto simp: zero_free_def dest: in_set_dropD)

lemma read_lines_all:
  "zero_free (fp_data fp) \<Longrightarrow> read_lines dataStr fp = dataStr @ drop (fp_pos fp) (fp_data fp)"
proof (induction dataStr fp rule: read_lines.induct)
  case (1 dataStr fp)
  obtain r fp' where r: "fgets 256 fp = (r, fp')" by (cases "fgets 256 fp")
  show ?case
  proof (cases r)
    case None
    with r fgets_end [of 254 fp fp'] have "length (fp_data fp) \<le> fp_pos fp" by simp
    with None r show ?thesis by (subst read_lines.simps) simp
  next
    case (Some s)
    with r have s: "s = take (length s) (drop (fp_pos fp) (fp_data fp))" "fp' = fp\<lparr>fp_pos := fp_pos fp + length s\<rparr>"
      using fgets_Some [of 256 fp s fp'] by auto
    have "zero_free s" by (subst s(1)) (simp add: 1(2))
    then have "read_lines dataStr fp = read_lines (dataStr @ s) fp'"
      using r Some by (subst read_lines.simps) (simp add: c_str_zero_free)
    also have "\<dots> = dataStr @ s @ drop (fp_pos fp + length s) (fp_data fp)"
      using "1.IH" [OF r [symmetric, unfolded Some]] r Some s(2) "1.prems" \<open>zero_free s\<close> by (simp add: c_str_zero_free)
    also have "s @ drop (fp_pos fp + length s) (fp_data fp) = drop (fp_pos fp) (fp_data fp)"
      using s(1) by (metis append_take_drop_id drop_drop add.commute)
    finally show ?thesis .
  qed
qed

lemma read_fd_loop_slice:
  assumes "zero_free (fp_data fp)" and "int (fp_pos fp) = off + done" and "0 \<le> off" and "done \<le> len"
    and "off + len \<le> int (length (fp_data fp))"
  shows "read_fd_loop off len buf dataStr done fp = Some (dataStr @ take (nat (len - done)) (drop (fp_pos fp) (fp_data fp)))"
  using assms
proof (induction "nat (len - done)" arbitrary: buf dataStr "done" fp rule: less_induct)
  case less
  show ?case
  proof (cases "done < len")
    case False
    with less.prems show ?thesis by (subst read_fd_loop.simps) simp
  next
    case True
    let ?n = "nat (min (len - done) 255 + 1)"
    obtain r fp' where r: "fgets ?n fp = (r, fp')" by (cases "fgets ?n fp")
    have n: "?n = Suc (Suc (nat (min (len - done) 255 - 1)))" using True by linarith
    have "r \<noteq> None"
      using r fgets_end [of "nat (min (len - done) 255 - 1)" fp fp'] True less.prems(2,3,5) unfolding n by auto
    then obtain s where s': "r = Some s" by auto
    with r have s: "s \<noteq> []" "s = take (length s) (drop (fp_pos fp) (fp_data fp))" "length s \<le> ?n - 1"
      "fp' = fp\<lparr>fp_pos := fp_pos fp + length s\<rparr>" using fgets_Some [of ?n fp s fp'] by auto
    have zs: "zero_free s" by (subst s(2)) (simp add: less.prems(1))
    have len: "int (length s) \<le> len - done" "0 < length s" using s(1,3) True by auto
    have slice: "s @ take (nat (len - (done + int (length s)))) (drop (fp_pos fp') (fp_data fp'))
        = take (nat (len - done)) (drop (fp_pos fp) (fp_data fp))"
    proof -
      have "nat (len - done) = length s + nat (len - (done + int (length s)))" using len by linarith
      then have "take (nat (len - done)) (drop (fp_pos fp) (fp_data fp))
          = take (length s) (drop (fp_pos fp) (fp_data fp))
            @ take (nat (len - (done + int (length s)))) (drop (length s) (drop (fp_pos fp) (fp_data fp)))"
        by (simp only: take_add)
      with s(2,4) show ?thesis by (simp add: add.commute)
    qed
    have "read_fd_loop off len buf dataStr done fp = read_fd_loop off len s (dataStr @ s) (done + int (length s)) fp'"
      using True r s' s(4) zs less.prems(2) by (subst read_fd_loop.simps) (simp add: c_str_zero_free algebra_simps)
    also have "\<dots> = Some ((dataStr @ s) @ take (nat (len - (done + int (length s)))) (drop (fp_pos fp') (fp_data fp')))"
      using less.prems len True by (intro less.hyps) (auto simp: s(4))
    also have "(dataStr @ s) @ take (nat (len - (done + int (length s)))) (drop (fp_pos fp') (fp_data fp'))
        = dataStr @ take (nat (len - done)) (drop (fp_pos fp) (fp_data fp))"
      using slice by simp
    finally show ?thesis .
  qed
qed

text \<open>When the file ends before the wanted length, \<^verbatim>\<open>ftell\<close> stays below it and the loop goes on for ever.\<close>

lemma read_fd_loop_stuck:
  "read_fd_loop off len buf dataStr done fp = Some r \<Longrightarrow>
     \<not> (int (length (fp_data fp)) < off + len \<and> int (fp_pos fp) < off + len \<and> done < len)"
proof (induction off len buf dataStr "done" fp r rule: read_fd_loop.raw_induct [rotated, consumes 1, case_names step])
  case (step loop off len buf dataStr "done" fp r)
  show ?case
  proof
    assume short: "int (length (fp_data fp)) < off + len \<and> int (fp_pos fp) < off + len \<and> done < len"
    let ?n = "nat (min (len - done) 255 + 1)"
    obtain x fp' where f: "fgets ?n fp = (x, fp')" by (cases "fgets ?n fp")
    have pos: "int (fp_pos fp') < off + len" "fp_data fp' = fp_data fp"
      using fgets_advance [OF f] short by auto
    from step(2) short f
    have "loop off len (case x of None \<Rightarrow> buf | Some s \<Rightarrow> s) (dataStr @ c_str (case x of None \<Rightarrow> buf | Some s \<Rightarrow> s))
        (int (fp_pos fp') - off) fp' = Some r" by (simp add: Let_def)
    from step(1) [OF this] pos short show False by simp
  qed
qed

text \<open>A request that passes the checks, for a file that can be opened.\<close>

definition readable :: "file_env \<Rightarrow> RawFileDescriptor \<Rightarrow> string \<Rightarrow> bool" where
  "readable F rawFd content \<longleftrightarrow> 0 \<le> rfd_fd rawFd \<and> 0 \<le> rfd_offset rawFd \<and> 0 < rfd_length rawFd \<and>
     (\<exists>n d. fs_fstat F (rfd_fd rawFd) = Some n \<and> rfd_offset rawFd + rfd_length rawFd \<le> n \<and>
       fs_dup F (rfd_fd rawFd) = Some d \<and> fs_fdopen F d = Some content) \<and> fs_fseek F (rfd_offset rawFd)"

lemma ReadFd_readable:
  "readable F rawFd content \<Longrightarrow> ReadFd F rawFd = read_fd_loop (rfd_offset rawFd) (rfd_length rawFd) '''' '''' 0
     \<lparr>fp_data = content, fp_pos = nat (rfd_offset rawFd)\<rparr>"
  by (auto simp: readable_def ReadFd_def GetFileSize_def Let_def)

text \<open>C39. \<^verbatim>\<open>ReadFd\<close> returns exactly the bytes it is asked for: for a valid request to a file without zero bytes the
  result is the slice of that offset and length, whatever lines the file has, and the call returns if and only if
  the file has not become shorter than the slice since its size was checked; otherwise the loop never ends.\<close>

theorem ReadFd_exact:
  assumes "readable F rawFd content" and "zero_free content"
  shows "ReadFd F rawFd =
    (if rfd_offset rawFd + rfd_length rawFd \<le> int (length content)
     then Some (take (nat (rfd_length rawFd)) (drop (nat (rfd_offset rawFd)) content)) else None)"
proof (cases "rfd_offset rawFd + rfd_length rawFd \<le> int (length content)")
  case True
  with assms read_fd_loop_slice [of "\<lparr>fp_data = content, fp_pos = nat (rfd_offset rawFd)\<rparr>" "rfd_offset rawFd" 0 "rfd_length rawFd"]
  show ?thesis by (auto simp: ReadFd_readable readable_def)
next
  case False
  then have "read_fd_loop (rfd_offset rawFd) (rfd_length rawFd) '''' '''' 0
      \<lparr>fp_data = content, fp_pos = nat (rfd_offset rawFd)\<rparr> \<noteq> Some r" for r
    using assms(1) read_fd_loop_stuck [of "rfd_offset rawFd" "rfd_length rawFd" "''''" "''''" 0
        "\<lparr>fp_data = content, fp_pos = nat (rfd_offset rawFd)\<rparr>" r] by (auto simp: readable_def)
  then have "read_fd_loop (rfd_offset rawFd) (rfd_length rawFd) '''' '''' 0
      \<lparr>fp_data = content, fp_pos = nat (rfd_offset rawFd)\<rparr> = None" by (metis not_Some_eq)
  with False assms(1) show ?thesis by (simp add: ReadFd_readable)
qed

definition sample_files :: "string \<Rightarrow> int \<Rightarrow> file_env" where
  "sample_files content n = \<lparr>fs_realpath = Some, fs_access = (\<lambda>_. True), fs_stat = (\<lambda>_. Some n), fs_fstat = (\<lambda>_. Some n),
     fs_readlink = (\<lambda>_. Some ''/data/a.b/haptic.json''), fs_dup = (\<lambda>fd. Some (fd + 1)), fs_fopen = (\<lambda>_. Some content),
     fs_fdopen = (\<lambda>_. Some content), fs_fseek = (\<lambda>_. True)\<rparr>"

lemma ReadFd_exact_witness:
  "ReadFd (sample_files ''0123456789'' 10) \<lparr>rfd_fd = 3, rfd_offset = 2, rfd_length = 5\<rparr> = Some ''23456'' \<and>
   ReadFd (sample_files ''0123'' 10) \<lparr>rfd_fd = 3, rfd_offset = 2, rfd_length = 5\<rparr> = None"
  using ReadFd_exact [of "sample_files ''0123456789'' 10" "\<lparr>rfd_fd = 3, rfd_offset = 2, rfd_length = 5\<rparr>" "''0123456789''"]
    ReadFd_exact [of "sample_files ''0123'' 10" "\<lparr>rfd_fd = 3, rfd_offset = 2, rfd_length = 5\<rparr>" "''0123''"]
  by (simp add: readable_def sample_files_def zero_free_def numeral_eq_Suc)

section \<open>Which files are read\<close>

lemma find_last_of_split:
  assumes "find_last_of c s = Some k"
  shows "s = take k s @ c # drop (k + 1) s" and "c \<notin> set (drop (k + 1) s)"
proof -
  from assms have c: "c \<in> set s" and k: "k = length s - 1 - length (takeWhile (\<lambda>x. x \<noteq> c) (rev s))"
    by (auto simp: find_last_of_def split: if_splits)
  from split_list_last [OF c] obtain ys zs where s: "s = ys @ c # zs" "c \<notin> set zs" by auto
  then have "takeWhile (\<lambda>x. x \<noteq> c) (rev s) = rev zs" by (simp add: takeWhile_append)
  with s k show "s = take k s @ c # drop (k + 1) s" "c \<notin> set (drop (k + 1) s)" by simp_all
qed

text \<open>C40. \<^verbatim>\<open>ReadJsonFile\<close> gives nothing from outside the configuration directory: when its result is not empty,
  the path resolves to a file under \<^verbatim>\<open>/vendor/etc/vibrator/\<close> whose name ends in \<^verbatim>\<open>.json\<close>, that exists and whose
  size, as a 32-bit number, is 1 to 20480; and the result is the whole content when that has no zero byte.\<close>

theorem ReadJsonFile_confined:
  assumes "ReadJsonFile F path \<noteq> ''''"
  shows "\<exists>rest stem n content. fs_realpath F path = Some (CONFIG_DIR @ rest) \<and> CONFIG_DIR @ rest = stem @ ''.json'' \<and>
    fs_access F (CONFIG_DIR @ rest) \<and> fs_stat F (CONFIG_DIR @ rest) = Some n \<and> 0 < wrap32 n \<and> wrap32 n \<le> 20480 \<and>
    fs_fopen F (CONFIG_DIR @ rest) = Some content \<and> (zero_free content \<longrightarrow> ReadJsonFile F path = content)"
proof -
  obtain p content where p: "fs_realpath F path = Some p" "CheckFileDir p CONFIG_DIR" "CheckFileExtendName p ''json''"
    "IsFileExists F p" "CheckFileSize F p" "fs_fopen F p = Some content"
    "ReadJsonFile F path = read_lines '''' \<lparr>fp_data = content, fp_pos = 0\<rparr>"
    using assms unfolding ReadJsonFile_def by (auto split: if_splits option.splits)
  have dir: "p = CONFIG_DIR @ drop (length CONFIG_DIR) p"
    using p(2) append_take_drop_id [of "length CONFIG_DIR" p] by (simp add: CheckFileDir_def)
  obtain k where k: "find_last_of (CHR ''.'') p = Some k" "drop (k + 1) p = ''json''"
    using p(3) by (auto simp: CheckFileExtendName_def split: option.splits)
  from find_last_of_split(1) [OF k(1)] k(2) have ext: "p = take k p @ ''.json''" by simp
  from p(5) obtain n where n: "fs_stat F p = Some n" "0 < wrap32 n" "wrap32 n \<le> 20480"
    by (auto simp: CheckFileSize_def GetFileSize_path_def Let_def split: option.splits)
  have "zero_free content \<longrightarrow> ReadJsonFile F path = content"
    using p(7) read_lines_all [of "\<lparr>fp_data = content, fp_pos = 0\<rparr>" "''''"] by simp
  with p n have all: "fs_realpath F path = Some p \<and> fs_access F p \<and> fs_stat F p = Some n \<and> 0 < wrap32 n \<and> wrap32 n \<le> 20480 \<and>
      fs_fopen F p = Some content \<and> (zero_free content \<longrightarrow> ReadJsonFile F path = content)"
    by (simp add: IsFileExists_def)
  from dir obtain rest where rest: "p = CONFIG_DIR @ rest" by metis
  from all ext show ?thesis unfolding rest by metis
qed

lemma ReadJsonFile_confined_witness:
  "\<exists>rest stem. Some ''/vendor/etc/vibrator/a.json'' = Some (CONFIG_DIR @ rest) \<and> CONFIG_DIR @ rest = stem @ ''.json''"
proof -
  have "ReadJsonFile (sample_files ''{}'' 2) ''/vendor/etc/vibrator/a.json'' = ''{}''"
    by (simp add: ReadJsonFile_def sample_files_def CheckFileDir_def CheckFileExtendName_def IsFileExists_def CheckFileSize_def
        GetFileSize_path_def CONFIG_DIR_def find_last_of_def wrap32_def read_lines_all zero_free_def)
  then have "ReadJsonFile (sample_files ''{}'' 2) ''/vendor/etc/vibrator/a.json'' \<noteq> ''''" by simp
  from ReadJsonFile_confined [OF this] show ?thesis by (auto simp: sample_files_def)
qed

text \<open>A file of more than 4 GiB passes the check of its size, since the size is kept in 32 bits.\<close>

lemma size_check_wraps: "CheckFileSize (sample_files '''' (4294967296 + 100)) path"
  by (simp add: CheckFileSize_def GetFileSize_path_def sample_files_def wrap32_def)

text \<open>The suffix of a file without a dot in its name may be a piece of its directory.\<close>

lemma GetFileSuffix_directory:
  "GetFileSuffix (F\<lparr>fs_readlink := \<lambda>_. Some ''/data/a.b/haptic''\<rparr>) 3 = ''b/haptic'' \<and>
   GetFileExtName (F\<lparr>fs_readlink := \<lambda>_. Some ''/data/a.b/haptic''\<rparr>) 3 = Inr ''haptic''"
  by (simp add: GetFileSuffix_def GetFileExtName_def GetFileName_def c_str_def find_last_of_def Let_def numeral_eq_Suc)

end
