(* ===== verification/JsNapi.thy ===== *)
theory JsNapi
  imports Agent Files
begin

text \<open>
  The bindings for JavaScript, first part: \<^verbatim>\<open>frameworks/js/napi/vibrator/src/vibrator_napi_utils.cpp\<close> and
  \<^verbatim>\<open>vibrator_napi_error.cpp\<close> without the asynchronous work. Node-API is not part of the repository, so its functions are a
  record over an abstract type of values; \<open>None\<close> is a status other than \<^verbatim>\<open>napi_ok\<close>. Objects are written only
  while the code builds them, so setting a property gives the object with that property. The functions have the prefix \<open>JS_\<close>.
\<close>

section \<open>Node-API\<close>

datatype napi_valuetype = napi_undefined | napi_null | napi_boolean | napi_number | napi_string | napi_symbol
  | napi_object | napi_function | napi_external | napi_bigint

text \<open>
  A string is read into a buffer of so many bytes. References, promises, work items and scopes may fail to be
  made: the last fields say whether they are.
\<close>

record 'v napi =
  napi_typeof :: "'v \<Rightarrow> napi_valuetype option"
  napi_is_array :: "'v \<Rightarrow> bool option"
  napi_get_array_length :: "'v \<Rightarrow> int option"
  napi_get_element :: "'v \<Rightarrow> int \<Rightarrow> 'v option"
  napi_has_named_property :: "'v \<Rightarrow> string \<Rightarrow> bool option"
  napi_get_named_property :: "'v \<Rightarrow> string \<Rightarrow> 'v option"
  napi_get_value_int32 :: "'v \<Rightarrow> int option"
  napi_get_value_int64 :: "'v \<Rightarrow> int option"
  napi_get_value_double :: "'v \<Rightarrow> rat option option"
  napi_get_value_bool :: "'v \<Rightarrow> bool option"
  napi_string_length :: "'v \<Rightarrow> nat option"
  napi_get_value_string_utf8 :: "'v \<Rightarrow> nat \<Rightarrow> string option"
  napi_strict_equals :: "'v \<Rightarrow> 'v \<Rightarrow> bool option"
  napi_get_undefined :: "'v option"
  napi_get_boolean :: "bool \<Rightarrow> 'v option"
  napi_create_int32 :: "int \<Rightarrow> 'v option"
  napi_create_int64 :: "int \<Rightarrow> 'v option"
  napi_create_string_utf8 :: "string \<Rightarrow> 'v option"
  napi_create_object :: "'v option"
  napi_create_array :: "'v option"
  napi_create_array_with_length :: "int \<Rightarrow> 'v option"
  napi_set_named_property :: "'v \<Rightarrow> string \<Rightarrow> 'v \<Rightarrow> 'v option"
  napi_set_element :: "'v \<Rightarrow> int \<Rightarrow> 'v \<Rightarrow> 'v option"
  napi_create_error :: "'v \<Rightarrow> 'v option"
  napi_create_reference :: "'v \<Rightarrow> bool"
  napi_get_reference_value :: "'v \<Rightarrow> bool"
  napi_create_promise :: bool
  napi_queue_work :: bool
  napi_open_handle_scope :: bool

section \<open>Types and values\<close>

definition JS_IsSameValue :: "'v napi \<Rightarrow> 'v \<Rightarrow> 'v \<Rightarrow> bool" where
  "JS_IsSameValue N lhs rhs \<longleftrightarrow> napi_strict_equals N lhs rhs = Some True"

definition JS_IsMatchArrayType :: "'v napi \<Rightarrow> 'v \<Rightarrow> bool" where
  "JS_IsMatchArrayType N v \<longleftrightarrow> napi_is_array N v = Some True"

definition JS_IsMatchType :: "'v napi \<Rightarrow> 'v \<Rightarrow> napi_valuetype \<Rightarrow> bool" where
  "JS_IsMatchType N v t \<longleftrightarrow> napi_typeof N v = Some t"

definition JS_GetInt32Value :: "'v napi \<Rightarrow> 'v \<Rightarrow> int option" where
  "JS_GetInt32Value N v = (if napi_typeof N v = Some napi_number then napi_get_value_int32 N v else None)"

definition JS_GetInt64Value :: "'v napi \<Rightarrow> 'v \<Rightarrow> int option" where
  "JS_GetInt64Value N v = (if napi_typeof N v = Some napi_number then napi_get_value_int64 N v else None)"

definition JS_GetDoubleValue :: "'v napi \<Rightarrow> 'v \<Rightarrow> rat option option" where
  "JS_GetDoubleValue N v = (if napi_typeof N v = Some napi_number then napi_get_value_double N v else None)"

definition JS_GetBoolValue :: "'v napi \<Rightarrow> 'v \<Rightarrow> bool option" where
  "JS_GetBoolValue N v = (if napi_typeof N v = Some napi_boolean then napi_get_value_bool N v else None)"

text \<open>At most 64 bytes of a string are taken over, without a notice.\<close>

definition JS_GetStringValue :: "'v napi \<Rightarrow> 'v \<Rightarrow> string option" where
  "JS_GetStringValue N v =
     (if napi_typeof N v \<noteq> Some napi_string then None
      else case napi_string_length N v of
        None \<Rightarrow> None
      | Some bufLength \<Rightarrow> map_option c_str (napi_get_value_string_utf8 N v (min bufLength 64 + 1)))"

section \<open>Properties of objects\<close>

definition JS_GetPropertyItem :: "'v napi \<Rightarrow> 'v \<Rightarrow> string \<Rightarrow> 'v option" where
  "JS_GetPropertyItem N v name =
     (if napi_has_named_property N v name \<noteq> Some True then None else napi_get_named_property N v name)"

definition JS_GetPropertyString :: "'v napi \<Rightarrow> 'v \<Rightarrow> string \<Rightarrow> string option" where
  "JS_GetPropertyString N v name =
     (if napi_has_named_property N v name \<noteq> Some True then None
      else case napi_get_named_property N v name of None \<Rightarrow> None | Some item \<Rightarrow> JS_GetStringValue N item)"

definition JS_GetPropertyInt32 :: "'v napi \<Rightarrow> 'v \<Rightarrow> string \<Rightarrow> int option" where
  "JS_GetPropertyInt32 N v name =
     (if napi_has_named_property N v name \<noteq> Some True then None
      else case napi_get_named_property N v name of None \<Rightarrow> None | Some item \<Rightarrow> JS_GetInt32Value N item)"

definition JS_GetPropertyInt64 :: "'v napi \<Rightarrow> 'v \<Rightarrow> string \<Rightarrow> int option" where
  "JS_GetPropertyInt64 N v name =
     (if napi_has_named_property N v name \<noteq> Some True then None
      else case napi_get_named_property N v name of None \<Rightarrow> None | Some item \<Rightarrow> JS_GetInt64Value N item)"

definition JS_GetPropertyBool :: "'v napi \<Rightarrow> 'v \<Rightarrow> string \<Rightarrow> bool option" where
  "JS_GetPropertyBool N v name =
     (if napi_has_named_property N v name \<noteq> Some True then None
      else case napi_get_named_property N v name of None \<Rightarrow> None | Some item \<Rightarrow> JS_GetBoolValue N item)"

definition JS_CreateInt32Property :: "'v napi \<Rightarrow> 'v \<Rightarrow> string \<Rightarrow> int \<Rightarrow> 'v option" where
  "JS_CreateInt32Property N obj name x =
     (case napi_create_int32 N x of None \<Rightarrow> None | Some propValue \<Rightarrow> napi_set_named_property N obj name propValue)"

definition JS_CreateInt64Property :: "'v napi \<Rightarrow> 'v \<Rightarrow> string \<Rightarrow> int \<Rightarrow> 'v option" where
  "JS_CreateInt64Property N obj name x =
     (case napi_create_int64 N x of None \<Rightarrow> None | Some propValue \<Rightarrow> napi_set_named_property N obj name propValue)"

definition JS_CreateStringProperty :: "'v napi \<Rightarrow> 'v \<Rightarrow> string \<Rightarrow> string \<Rightarrow> 'v option" where
  "JS_CreateStringProperty N obj name x =
     (case napi_create_string_utf8 N x of None \<Rightarrow> None | Some propValue \<Rightarrow> napi_set_named_property N obj name propValue)"

definition JS_CreateBooleanProperty :: "'v napi \<Rightarrow> 'v \<Rightarrow> string \<Rightarrow> bool \<Rightarrow> 'v option" where
  "JS_CreateBooleanProperty N obj name x =
     (case napi_get_boolean N x of None \<Rightarrow> None | Some propValue \<Rightarrow> napi_set_named_property N obj name propValue)"

section \<open>Errors\<close>

definition GetNapiError :: "errcode \<Rightarrow> string option" where
  "GetNapiError errorCode =
     (if errorCode = DEVICE_OPERATION_FAILED then Some ''Device operation failed.''
      else if errorCode = PERMISSION_DENIED then Some ''Permission denied.''
      else if errorCode = PARAMETER_ERROR then Some ''The parameter invalid.''
      else if errorCode = IS_NOT_SUPPORTED then Some ''Capability not supported.'' else None)"

text \<open>\<^verbatim>\<open>NAPI_ASSERT\<close> throws an error with its message.\<close>

definition throw_error :: "'v napi \<Rightarrow> string \<Rightarrow> 'v option \<Rightarrow> 'v option" where
  "throw_error N message pending =
     (case pending of
        Some e \<Rightarrow> Some e
      | None \<Rightarrow> (case napi_create_string_utf8 N message of None \<Rightarrow> None | Some m \<Rightarrow> napi_create_error N m))"

text \<open>The number of a code that has one; the codes with a message do.\<close>

fun errno :: "errcode \<Rightarrow> int" where
  "errno (Errno n) = n"
| "errno _ = -1"

definition CreateBusinessError :: "'v napi \<Rightarrow> errcode \<Rightarrow> string \<Rightarrow> 'v option" where
  "CreateBusinessError N errCode errMessage =
     (case napi_create_int32 N (errno errCode) of
        None \<Rightarrow> None
      | Some code \<Rightarrow>
          (case napi_create_string_utf8 N errMessage of
             None \<Rightarrow> None
           | Some msg \<Rightarrow>
               (case napi_create_error N msg of
                  None \<Rightarrow> None
                | Some businessError \<Rightarrow>
                    (case napi_set_named_property N businessError ''code'' code of
                       None \<Rightarrow> Some businessError | Some e \<Rightarrow> Some e))))"

text \<open>The pending exception after \<^verbatim>\<open>ThrowErr\<close>; an exception that is pending already stays.\<close>

definition ThrowErr :: "'v napi \<Rightarrow> errcode \<Rightarrow> 'v option \<Rightarrow> 'v option" where
  "ThrowErr N errCode pending =
     (case GetNapiError errCode of
        None \<Rightarrow> pending
      | Some msg \<Rightarrow>
          if \<not> napi_open_handle_scope N then pending
          else case pending of Some e \<Rightarrow> Some e | None \<Rightarrow> CreateBusinessError N errCode msg)"

section \<open>What the code relies on\<close>

text \<open>
  The documented behaviour of the functions that build and read objects and arrays: what is set is what is read,
  and nothing else changes.
\<close>

definition napi_objects :: "'v napi \<Rightarrow> bool" where
  "napi_objects N \<longleftrightarrow>
     (\<forall>x v. int32 x \<longrightarrow> napi_create_int32 N x = Some v \<longrightarrow> napi_typeof N v = Some napi_number \<and> napi_get_value_int32 N v = Some x) \<and>
     (\<forall>v. napi_create_object N = Some v \<longrightarrow> napi_typeof N v = Some napi_object) \<and>
     (\<forall>v name x v'. napi_set_named_property N v name x = Some v' \<longrightarrow>
        napi_typeof N v' = napi_typeof N v \<and>
        (\<forall>k. napi_has_named_property N v' k = (if k = name then Some True else napi_has_named_property N v k) \<and>
             napi_get_named_property N v' k = (if k = name then Some x else napi_get_named_property N v k)))"

definition napi_arrays :: "'v napi \<Rightarrow> bool" where
  "napi_arrays N \<longleftrightarrow>
     (\<forall>n v. 0 \<le> n \<longrightarrow> napi_create_array_with_length N n = Some v \<longrightarrow> napi_is_array N v = Some True \<and> napi_get_array_length N v = Some n) \<and>
     (\<forall>v i x v' n. napi_get_array_length N v = Some n \<longrightarrow> 0 \<le> i \<longrightarrow> i < n \<longrightarrow> napi_set_element N v i x = Some v' \<longrightarrow>
        napi_is_array N v' = napi_is_array N v \<and> napi_get_array_length N v' = Some n \<and>
        (\<forall>j. napi_get_element N v' j = (if j = i then Some x else napi_get_element N v j)))"

section \<open>A concrete engine for the witnesses\<close>

datatype js = JsUndefined | JsNull | JsBool bool | JsNum rat | JsStr string | JsObj "(string \<times> js) list"
  | JsArr "js option list" | JsFun nat

fun js_type :: "js \<Rightarrow> napi_valuetype" where
  "js_type JsUndefined = napi_undefined" | "js_type JsNull = napi_null" | "js_type (JsBool _) = napi_boolean"
| "js_type (JsNum _) = napi_number" | "js_type (JsStr _) = napi_string" | "js_type (JsObj _) = napi_object"
| "js_type (JsArr _) = napi_object" | "js_type (JsFun _) = napi_function"

fun js_fields :: "js \<Rightarrow> (string \<times> js) list" where "js_fields (JsObj fs) = fs" | "js_fields _ = []"
fun js_set :: "js \<Rightarrow> string \<Rightarrow> js \<Rightarrow> js option" where
  "js_set (JsObj fs) k x = Some (JsObj ((k, x) # fs))" | "js_set _ k x = None"
fun js_elems :: "js \<Rightarrow> js option list option" where "js_elems (JsArr xs) = Some xs" | "js_elems _ = None"
fun js_num :: "js \<Rightarrow> rat option" where "js_num (JsNum x) = Some x" | "js_num _ = None"
fun js_bool :: "js \<Rightarrow> bool option" where "js_bool (JsBool b) = Some b" | "js_bool _ = None"
fun js_str :: "js \<Rightarrow> string option" where "js_str (JsStr s) = Some s" | "js_str _ = None"

definition js_element :: "js \<Rightarrow> int \<Rightarrow> js option" where
  "js_element v i = (case js_elems v of None \<Rightarrow> None
     | Some xs \<Rightarrow> if 0 \<le> i \<and> nat i < length xs then (case xs ! nat i of None \<Rightarrow> Some JsUndefined | Some x \<Rightarrow> Some x) else Some JsUndefined)"

definition js_set_element :: "js \<Rightarrow> int \<Rightarrow> js \<Rightarrow> js option" where
  "js_set_element v i x = (case js_elems v of None \<Rightarrow> None
     | Some xs \<Rightarrow> if 0 \<le> i \<and> nat i < length xs then Some (JsArr (xs[nat i := Some x]))
         else if i = int (length xs) then Some (JsArr (xs @ [Some x])) else None)"

text \<open>An array of 2^32 elements or more is refused.\<close>

definition js_length :: "js \<Rightarrow> int option" where
  "js_length v = (case js_elems v of None \<Rightarrow> None | Some xs \<Rightarrow> if int (length xs) < 4294967296 then Some (int (length xs)) else None)"

definition js_new_array :: "int \<Rightarrow> js option" where
  "js_new_array n = (if n < 4294967296 then Some (JsArr (replicate (nat n) None)) else None)"

definition js_property :: "js \<Rightarrow> string \<Rightarrow> js option" where
  "js_property v k = Some (case map_of (js_fields v) k of None \<Rightarrow> JsUndefined | Some x \<Rightarrow> x)"

definition js_engine :: "js napi" where
  "js_engine = \<lparr>napi_typeof = (\<lambda>v. Some (js_type v)),
     napi_is_array = (\<lambda>v. Some (js_elems v \<noteq> None)), napi_get_array_length = js_length,
     napi_get_element = js_element, napi_has_named_property = (\<lambda>v k. Some (map_of (js_fields v) k \<noteq> None)),
     napi_get_named_property = js_property,
     napi_get_value_int32 = (\<lambda>v. map_option (\<lambda>x. wrap32 (trunc x)) (js_num v)), napi_get_value_int64 = (\<lambda>v. map_option trunc (js_num v)),
     napi_get_value_double = (\<lambda>v. map_option Some (js_num v)), napi_get_value_bool = js_bool,
     napi_string_length = (\<lambda>v. map_option length (js_str v)), napi_get_value_string_utf8 = (\<lambda>v n. map_option (take (n - 1)) (js_str v)),
     napi_strict_equals = (\<lambda>v w. Some (v = w)), napi_get_undefined = Some JsUndefined, napi_get_boolean = (\<lambda>b. Some (JsBool b)),
     napi_create_int32 = (\<lambda>n. Some (JsNum (of_int n))), napi_create_int64 = (\<lambda>n. Some (JsNum (of_int n))),
     napi_create_string_utf8 = (\<lambda>s. Some (JsStr s)), napi_create_object = Some (JsObj []),
     napi_create_array = Some (JsArr []), napi_create_array_with_length = js_new_array, napi_set_named_property = js_set,
     napi_set_element = js_set_element, napi_create_error = (\<lambda>m. Some (JsObj [(''message'', m)])),
     napi_create_reference = (\<lambda>_. True), napi_get_reference_value = (\<lambda>_. True), napi_create_promise = True,
     napi_queue_work = True, napi_open_handle_scope = True\<rparr>"

lemma js_set_Some: "js_set v k x = Some v' \<longleftrightarrow> (\<exists>fs. v = JsObj fs \<and> v' = JsObj ((k, x) # fs))"
  by (cases v) auto

lemma js_elems_Some: "js_elems v = Some xs \<longleftrightarrow> v = JsArr xs"
  by (cases v) auto

lemma js_engine_objects: "napi_objects js_engine"
  by (auto simp: napi_objects_def js_engine_def js_set_Some js_property_def wrap32_id)

lemma js_engine_arrays: "napi_arrays js_engine"
  by (auto simp: napi_arrays_def js_engine_def js_set_element_def js_element_def js_elems_Some nth_list_update js_length_def js_new_array_def
      split: option.splits if_splits)

end
