(* ===== verification/JsPattern.thy ===== *)
theory JsPattern
  imports JsNapi
begin

text \<open>
  The bindings for JavaScript, second part: the builder of vibration patterns,
  \<^verbatim>\<open>frameworks/js/napi/vibrator/src/vibrator_pattern_js.cpp\<close>. Its structs have the fields of those that are sent to the
  service, whose records are used. A failed check makes a function return \<open>None\<close>; \<open>U\<close> is what the platform makes of a double
  that does not fit into \<^verbatim>\<open>int32_t\<close>.
\<close>

section \<open>Options\<close>

text \<open>A number property with a default; \<open>None\<close> when it is there but cannot be read as a number.\<close>

definition JS_optional_int32 :: "'v napi \<Rightarrow> 'v \<Rightarrow> string \<Rightarrow> int \<Rightarrow> int option" where
  "JS_optional_int32 N v name dflt =
     (if napi_has_named_property N v name = Some True then
        (case napi_get_named_property N v name of
           None \<Rightarrow> None
         | Some x \<Rightarrow> if \<not> JS_IsMatchType N x napi_number then None else JS_GetInt32Value N x)
      else Some dflt)"

text \<open>The intensity of a curve point is given as a fraction of the event's.\<close>

definition JS_point_intensity :: "'v napi \<Rightarrow> (rat option \<Rightarrow> int) \<Rightarrow> 'v \<Rightarrow> int option" where
  "JS_point_intensity N U element =
     (if napi_has_named_property N element ''intensity'' = Some True then
        (case napi_get_named_property N element ''intensity'' of
           None \<Rightarrow> None
         | Some x \<Rightarrow>
             if \<not> JS_IsMatchType N x napi_number then None
             else map_option (\<lambda>d. double_to_int32 U (double_mult d 100)) (JS_GetDoubleValue N x))
      else Some 100)"

definition JS_ParsePoint :: "'v napi \<Rightarrow> (rat option \<Rightarrow> int) \<Rightarrow> 'v \<Rightarrow> VibrateCurvePoint option" where
  "JS_ParsePoint N U element =
     (case napi_get_named_property N element ''time'' of
        None \<Rightarrow> None
      | Some timeValue \<Rightarrow>
          if \<not> JS_IsMatchType N timeValue napi_number then None
          else case JS_GetInt32Value N timeValue of
            None \<Rightarrow> None
          | Some t \<Rightarrow>
              (case JS_point_intensity N U element of
                 None \<Rightarrow> None
               | Some intensity \<Rightarrow>
                   map_option (\<lambda>frequency. \<lparr>cp_time = t, cp_intensity = intensity, cp_frequency = frequency\<rparr>)
                     (JS_optional_int32 N element ''frequency'' 0)))"

definition JS_ParsePoints :: "'v napi \<Rightarrow> (rat option \<Rightarrow> int) \<Rightarrow> 'v \<Rightarrow> VibrateEvent \<Rightarrow> VibrateEvent option" where
  "JS_ParsePoints N U v event =
     (case napi_get_named_property N v ''points'' of
        None \<Rightarrow> None
      | Some points \<Rightarrow>
          if \<not> JS_IsMatchArrayType N points then None
          else case napi_get_array_length N points of
            None \<Rightarrow> None
          | Some len \<Rightarrow>
              try_fold (\<lambda>i event. case napi_get_element N points i of
                  None \<Rightarrow> None
                | Some element \<Rightarrow>
                    map_option (\<lambda>point. event\<lparr>ev_points := ev_points event @ [point]\<rparr>) (JS_ParsePoint N U element))
                (indices len) event)"

definition JS_ParseOptions :: "'v napi \<Rightarrow> (rat option \<Rightarrow> int) \<Rightarrow> 'v \<Rightarrow> VibrateEvent \<Rightarrow> VibrateEvent option" where
  "JS_ParseOptions N U v event =
     (case JS_optional_int32 N v ''intensity'' 100 of
        None \<Rightarrow> None
      | Some intensity \<Rightarrow>
          (case JS_optional_int32 N v ''frequency'' 50 of
             None \<Rightarrow> None
           | Some frequency \<Rightarrow>
               let event = event\<lparr>ev_intensity := intensity, ev_frequency := frequency\<rparr> in
               (case (if napi_has_named_property N v ''points'' = Some True then JS_ParsePoints N U v event else Some event) of
                  None \<Rightarrow> None
                | Some event \<Rightarrow> map_option (\<lambda>index. event\<lparr>ev_index := index\<rparr>) (JS_optional_int32 N v ''index'' 0))))"

definition JS_ParseTransientOptions :: "'v napi \<Rightarrow> 'v \<Rightarrow> VibrateEvent \<Rightarrow> VibrateEvent option" where
  "JS_ParseTransientOptions N v event =
     (case JS_optional_int32 N v ''intensity'' 100 of
        None \<Rightarrow> None
      | Some intensity \<Rightarrow>
          (case JS_optional_int32 N v ''frequency'' 50 of
             None \<Rightarrow> None
           | Some frequency \<Rightarrow>
               map_option (\<lambda>index. event\<lparr>ev_intensity := intensity, ev_frequency := frequency, ev_index := index\<rparr>)
                 (JS_optional_int32 N v ''index'' 0)))"

section \<open>Checks\<close>

definition JS_point_ok :: "int \<Rightarrow> VibrateCurvePoint \<Rightarrow> bool" where
  "JS_point_ok duration p \<longleftrightarrow> \<not> (cp_time p < 0 \<or> cp_time p > duration) \<and> \<not> (cp_intensity p < 0 \<or> cp_intensity p > 100) \<and>
     \<not> (cp_frequency p < -100 \<or> cp_frequency p > 100)"

definition JS_CheckCurvePoints :: "VibrateEvent \<Rightarrow> bool" where
  "JS_CheckCurvePoints event =
     (let pointNum = wrap32 (int (length (ev_points event))) in
      if pointNum < 4 \<or> pointNum > 16 then False
      else list_all (\<lambda>i. JS_point_ok (ev_duration event) (ev_points event ! nat i)) (indices pointNum))"

definition JS_CheckParameters :: "VibrateEvent \<Rightarrow> bool" where
  "JS_CheckParameters event =
     (if ev_time event < 0 \<or> ev_time event > 1800000 then False
      else if ev_frequency event < 0 \<or> ev_frequency event > 100 then False
      else if ev_intensity event < 0 \<or> ev_intensity event > 100 then False
      else if ev_duration event \<le> 0 \<or> ev_duration event > 5000 then False
      else if ev_index event < 0 \<or> ev_index event > 2 then False
      else if ev_tag event = EVENT_TAG_CONTINUOUS \<and> ev_points event \<noteq> [] then JS_CheckCurvePoints event
      else True)"

section \<open>Adding events\<close>

text \<open>
  \<open>args\<close> is \<open>None\<close> when \<^verbatim>\<open>napi_get_cb_info\<close> fails; the builder is \<open>None\<close> when it cannot be unwrapped. The result is
  the value that is returned, \<open>None\<close> being \<^verbatim>\<open>nullptr\<close>, the events of the builder and the pending exception.
\<close>

definition JS_new_event :: "VibrateTag \<Rightarrow> int \<Rightarrow> int \<Rightarrow> VibrateEvent" where
  "JS_new_event tag t duration = \<lparr>ev_tag = tag, ev_time = t, ev_duration = duration, ev_intensity = 0, ev_frequency = 0,
     ev_index = 0, ev_points = []\<rparr>"

definition JS_default_options :: "VibrateEvent \<Rightarrow> VibrateEvent" where
  "JS_default_options event = event\<lparr>ev_intensity := 100, ev_frequency := 50, ev_index := 0\<rparr>"

definition JS_AddContinuousEvent ::
    "'v napi \<Rightarrow> (rat option \<Rightarrow> int) \<Rightarrow> 'v list option \<Rightarrow> 'v \<Rightarrow> VibrateEvent list option \<Rightarrow> 'v option
      \<Rightarrow> 'v option \<times> VibrateEvent list option \<times> 'v option" where
  "JS_AddContinuousEvent N U args this builder pending =
     (case args of
        None \<Rightarrow> (None, builder, ThrowErr N PARAMETER_ERROR pending)
      | Some a \<Rightarrow>
          if length a < 2 \<or> \<not> JS_IsMatchType N (a ! 0) napi_number \<or> \<not> JS_IsMatchType N (a ! 1) napi_number
          then (None, builder, ThrowErr N PARAMETER_ERROR pending)
          else (case JS_GetInt32Value N (a ! 0) of
            None \<Rightarrow> (None, builder, pending)
          | Some t \<Rightarrow>
              (case JS_GetInt32Value N (a ! 1) of
                 None \<Rightarrow> (None, builder, pending)
               | Some duration \<Rightarrow>
                   let event = JS_new_event EVENT_TAG_CONTINUOUS t duration;
                       parsed = (if length a > 2 then
                                   if \<not> JS_IsMatchType N (a ! 2) napi_object then None else JS_ParseOptions N U (a ! 2) event
                                 else Some (JS_default_options event))
                   in (case parsed of
                         None \<Rightarrow> (None, builder, ThrowErr N PARAMETER_ERROR pending)
                       | Some event \<Rightarrow>
                           if \<not> JS_CheckParameters event then (None, builder, ThrowErr N PARAMETER_ERROR pending)
                           else (case builder of
                               None \<Rightarrow> (None, builder, pending)
                             | Some events \<Rightarrow> (Some this, Some (events @ [event]), pending))))))"

definition JS_AddTransientEvent ::
    "'v napi \<Rightarrow> 'v list option \<Rightarrow> 'v \<Rightarrow> VibrateEvent list option \<Rightarrow> 'v option
      \<Rightarrow> 'v option \<times> VibrateEvent list option \<times> 'v option" where
  "JS_AddTransientEvent N args this builder pending =
     (case args of
        None \<Rightarrow> (None, builder, ThrowErr N PARAMETER_ERROR pending)
      | Some a \<Rightarrow>
          if length a < 1 \<or> \<not> JS_IsMatchType N (a ! 0) napi_number
          then (None, builder, ThrowErr N PARAMETER_ERROR pending)
          else (case JS_GetInt32Value N (a ! 0) of
            None \<Rightarrow> (None, builder, pending)
          | Some t \<Rightarrow>
              let event = JS_new_event EVENT_TAG_TRANSIENT t 48;
                  parsed = (if length a > 1 then
                              if \<not> JS_IsMatchType N (a ! 1) napi_object then None else JS_ParseTransientOptions N (a ! 1) event
                            else Some (JS_default_options event))
              in (case parsed of
                    None \<Rightarrow> (None, builder, ThrowErr N PARAMETER_ERROR pending)
                  | Some event \<Rightarrow>
                      if \<not> JS_CheckParameters event then (None, builder, ThrowErr N PARAMETER_ERROR pending)
                      else (case builder of
                          None \<Rightarrow> (None, builder, pending)
                        | Some events \<Rightarrow> (Some this, Some (events @ [event]), pending)))))"

section \<open>Building\<close>

definition JS_ConvertVibrateCurvePoint :: "'v napi \<Rightarrow> VibrateCurvePoint \<Rightarrow> 'v option" where
  "JS_ConvertVibrateCurvePoint N point =
     (case napi_create_object N of
        None \<Rightarrow> None
      | Some obj \<Rightarrow>
          try_fold (\<lambda>(name, x) obj. JS_CreateInt32Property N obj name x)
            [(''time'', cp_time point), (''intensity'', cp_intensity point), (''frequency'', cp_frequency point)] obj)"

text \<open>An array of converted elements: \<^verbatim>\<open>napi_create_array_with_length\<close>, then each element in turn.\<close>

definition JS_make_array :: "'v napi \<Rightarrow> ('a \<Rightarrow> 'v option) \<Rightarrow> 'a list \<Rightarrow> 'v option" where
  "JS_make_array N convert xs =
     (let num = wrap32 (int (length xs)) in
      case napi_create_array_with_length N num of
        None \<Rightarrow> None
      | Some a \<Rightarrow>
          try_fold (\<lambda>i a. case convert (xs ! nat i) of None \<Rightarrow> None | Some x \<Rightarrow> napi_set_element N a i x) (indices num) a)"

definition JS_ConvertVibrateEvent :: "'v napi \<Rightarrow> VibrateEvent \<Rightarrow> 'v option" where
  "JS_ConvertVibrateEvent N event =
     (case napi_create_object N of
        None \<Rightarrow> None
      | Some obj \<Rightarrow>
          (case try_fold (\<lambda>(name, x) obj. JS_CreateInt32Property N obj name x)
                  [(''eventType'', tag_code (ev_tag event)), (''time'', ev_time event), (''duration'', ev_duration event),
                   (''intensity'', ev_intensity event), (''frequency'', ev_frequency event), (''index'', ev_index event)] obj of
             None \<Rightarrow> None
           | Some obj \<Rightarrow>
               (case JS_make_array N (JS_ConvertVibrateCurvePoint N) (ev_points event) of
                  None \<Rightarrow> None
                | Some pointsArray \<Rightarrow> napi_set_named_property N obj ''points'' pointsArray)))"

definition JS_ConvertEventArrayToNapiValue :: "'v napi \<Rightarrow> VibrateEvent list \<Rightarrow> 'v option" where
  "JS_ConvertEventArrayToNapiValue N events =
     (case napi_create_object N of
        None \<Rightarrow> None
      | Some result \<Rightarrow>
          (case JS_CreateInt32Property N result ''time'' 0 of
             None \<Rightarrow> None
           | Some result \<Rightarrow>
               (case JS_make_array N (JS_ConvertVibrateEvent N) events of
                  None \<Rightarrow> None
                | Some eventsArray \<Rightarrow> napi_set_named_property N result ''events'' eventsArray)))"

definition JS_Build :: "'v napi \<Rightarrow> 'v list option \<Rightarrow> VibrateEvent list option \<Rightarrow> 'v option \<Rightarrow> 'v option \<times> 'v option" where
  "JS_Build N args builder pending =
     (if args = None then (None, ThrowErr N PARAMETER_ERROR pending)
      else case builder of
        None \<Rightarrow> (None, pending)
      | Some events \<Rightarrow>
          let eventNum = wrap32 (int (length events)) in
          if eventNum \<le> 0 \<or> eventNum > 128 then (None, ThrowErr N PARAMETER_ERROR pending)
          else (JS_ConvertEventArrayToNapiValue N events, pending))"

text \<open>The events a builder may hold: those the two functions have added since \<^verbatim>\<open>new VibratorPatternBuilder()\<close>.\<close>

inductive builder_reach :: "'v napi \<Rightarrow> (rat option \<Rightarrow> int) \<Rightarrow> VibrateEvent list \<Rightarrow> bool" for N U where
  new: "builder_reach N U []"
| continuous: "builder_reach N U events \<Longrightarrow> JS_AddContinuousEvent N U args this (Some events) p = (r, Some events', p') \<Longrightarrow>
    builder_reach N U events'"
| transient: "builder_reach N U events \<Longrightarrow> JS_AddTransientEvent N args this (Some events) p = (r, Some events', p') \<Longrightarrow>
    builder_reach N U events'"

section \<open>What a builder holds\<close>

text \<open>An event that is in range, with a curve only when it is continuous, of no point or of 4 to 16.\<close>

definition built_event :: "VibrateEvent \<Rightarrow> bool" where
  "built_event e \<longleftrightarrow> (ev_tag e = EVENT_TAG_CONTINUOUS \<or> ev_tag e = EVENT_TAG_TRANSIENT \<and> ev_points e = [] \<and> ev_duration e = 48) \<and>
     0 \<le> ev_time e \<and> ev_time e \<le> 1800000 \<and> 0 < ev_duration e \<and> ev_duration e \<le> 5000 \<and>
     0 \<le> ev_intensity e \<and> ev_intensity e \<le> 100 \<and> 0 \<le> ev_frequency e \<and> ev_frequency e \<le> 100 \<and>
     0 \<le> ev_index e \<and> ev_index e \<le> 2 \<and>
     (ev_points e = [] \<or> 4 \<le> length (ev_points e) \<and> length (ev_points e) \<le> 16 \<and>
        list_all (JS_point_ok (ev_duration e)) (ev_points e))"

text \<open>The length of a JavaScript array is a 32-bit number.\<close>

definition napi_lengths :: "'v napi \<Rightarrow> bool" where
  "napi_lengths N \<longleftrightarrow> (\<forall>v n. napi_get_array_length N v = Some n \<longrightarrow> 0 \<le> n \<and> n < 4294967296)"

lemma js_engine_lengths: "napi_lengths js_engine"
  by (auto simp: napi_lengths_def js_engine_def js_length_def split: option.splits if_splits)

lemma wrap32_small_length: "n < 4294967296 \<Longrightarrow> 4 \<le> wrap32 n \<Longrightarrow> wrap32 n \<le> 16 \<Longrightarrow> 0 \<le> n \<Longrightarrow> wrap32 n = n"
proof (cases "n \<le> 2147483647")
  case True
  assume "0 \<le> n"
  with True show ?thesis by (simp add: wrap32_small)
next
  case False
  assume "n < 4294967296" "4 \<le> wrap32 n"
  moreover from this False have "((n - 2147483648) + 4294967296) mod 4294967296 = n - 2147483648"
    by (simp only: mod_add_self2) (simp add: mod_pos_pos_trivial)
  ultimately show ?thesis by (simp add: wrap32_def add.commute)
qed

lemma list_all_indices: "list_all (\<lambda>i. P (xs ! nat i)) (indices (int (length xs))) \<longleftrightarrow> list_all P xs"
  by (simp add: indices_def list_all_length)

lemma JS_ParsePoints_fields:
  assumes "JS_ParsePoints N U v event = Some event'" and "napi_lengths N" and "ev_points event = []"
  shows "ev_tag event' = ev_tag event \<and> ev_duration event' = ev_duration event \<and> int (length (ev_points event')) < 4294967296"
proof -
  obtain points n where n: "napi_get_array_length N points = Some n" and
    f: "try_fold (\<lambda>i event. case napi_get_element N points i of
                  None \<Rightarrow> None
                | Some element \<Rightarrow>
                    map_option (\<lambda>point. event\<lparr>ev_points := ev_points event @ [point]\<rparr>) (JS_ParsePoint N U element))
                (indices n) event = Some event'"
    using assms(1) by (auto simp: JS_ParsePoints_def split: option.splits if_splits)
  have *: "length (ev_points event') \<le> length (ev_points event) + 1 * length (indices n) \<and>
      (ev_tag event' = ev_tag event \<and> ev_duration event' = ev_duration event)"
    by (rule try_fold_bound_inv [OF f, where P = "\<lambda>e. ev_tag e = ev_tag event \<and> ev_duration e = ev_duration event"])
      (auto split: option.splits)
  have "0 \<le> n" "n < 4294967296" using assms(2) n by (auto simp: napi_lengths_def)
  with * have "length (ev_points event') \<le> nat n" "nat n < 4294967296" using assms(3) by auto
  then have "length (ev_points event') < 4294967296" by linarith
  with * show ?thesis by simp
qed

lemma JS_CheckParameters_built:
  assumes "JS_CheckParameters e" and "int (length (ev_points e)) < 4294967296"
    and "ev_tag e = EVENT_TAG_CONTINUOUS \<or> ev_tag e = EVENT_TAG_TRANSIENT \<and> ev_points e = [] \<and> ev_duration e = 48"
  shows "built_event e"
proof -
  have "4 \<le> length (ev_points e) \<and> length (ev_points e) \<le> 16 \<and> list_all (JS_point_ok (ev_duration e)) (ev_points e)"
    if c: "JS_CheckCurvePoints e"
  proof -
    from c have "4 \<le> wrap32 (int (length (ev_points e)))" "wrap32 (int (length (ev_points e))) \<le> 16"
      by (auto simp: JS_CheckCurvePoints_def Let_def split: if_splits)
    with wrap32_small_length assms(2) have "wrap32 (int (length (ev_points e))) = int (length (ev_points e))" by simp
    with c show ?thesis by (auto simp: JS_CheckCurvePoints_def Let_def list_all_indices split: if_splits)
  qed
  with assms(1,3) show ?thesis by (auto simp: JS_CheckParameters_def built_event_def split: if_splits)
qed

lemma JS_ParseOptions_fields:
  assumes "JS_ParseOptions N U v event = Some event'" and "napi_lengths N" and "ev_points event = []"
  shows "ev_tag event' = ev_tag event \<and> int (length (ev_points event')) < 4294967296"
  using assms JS_ParsePoints_fields [of N U v _ _]
  by (fastforce simp: JS_ParseOptions_def Let_def split: option.splits if_splits)

lemma JS_parsed_built:
  assumes "JS_ParseOptions N U v (JS_new_event EVENT_TAG_CONTINUOUS t d) = Some e" and "napi_lengths N" and "JS_CheckParameters e"
  shows "built_event e"
  using JS_ParseOptions_fields [OF assms(1,2)] assms(3)
  by (intro JS_CheckParameters_built) (auto simp: JS_new_event_def)

lemma JS_parsed_transient_built:
  assumes "JS_ParseTransientOptions N v (JS_new_event EVENT_TAG_TRANSIENT t 48) = Some e" and "JS_CheckParameters e"
  shows "built_event e"
  using assms
  by (intro JS_CheckParameters_built) (auto simp: JS_new_event_def JS_ParseTransientOptions_def split: option.splits)

lemma JS_default_built:
  assumes "JS_CheckParameters (JS_default_options (JS_new_event tag t d))"
    and "tag = EVENT_TAG_CONTINUOUS \<or> tag = EVENT_TAG_TRANSIENT \<and> d = 48"
  shows "built_event (JS_default_options (JS_new_event tag t d))"
  using assms by (intro JS_CheckParameters_built) (auto simp: JS_new_event_def JS_default_options_def)

lemma builder_reach_built:
  assumes "builder_reach N U events" and "napi_lengths N"
  shows "list_all built_event events"
  using assms(1)
proof induction
  case (continuous events args this p r events' p')
  have "events' = events \<or> (\<exists>e. events' = events @ [e] \<and> built_event e)"
    using continuous.hyps(2)
    by (auto simp: JS_AddContinuousEvent_def Let_def split: option.splits if_splits
        intro: JS_parsed_built [OF _ assms(2)] JS_default_built)
  with continuous.IH show ?case by auto
next
  case (transient events args this p r events' p')
  have "events' = events \<or> (\<exists>e. events' = events @ [e] \<and> built_event e)"
    using transient.hyps(2)
    by (auto simp: JS_AddTransientEvent_def Let_def split: option.splits if_splits
        intro: JS_parsed_transient_built JS_default_built)
  with transient.IH show ?case by auto
qed simp

end
