(* ===== verification/JsVibrate.thy ===== *)
theory JsVibrate
  imports JsPattern
begin

text \<open>
  The bindings for JavaScript, third part: the functions that start, stop and query vibrations,
  \<^verbatim>\<open>frameworks/js/napi/vibrator/src/vibrator_js.cpp\<close>. Each takes the arguments of the call (\<open>None\<close> when
  \<^verbatim>\<open>napi_get_cb_info\<close> fails), the state of the bindings and the state of the agent. The bookkeeping objects
  of the calls are assumed to be allocated; the arrays of patterns may not be.
\<close>

section \<open>State\<close>

datatype CallbackType = SYSTEM_VIBRATE_CALLBACK | COMMON_CALLBACK | IS_SUPPORT_EFFECT_CALLBACK | VIBRATOR_STATE_CHANGE

record JsVibrateInfo =
  jvi_type :: string
  jvi_usage :: string
  jvi_systemUsage :: bool
  jvi_duration :: int
  jvi_effectId :: string
  jvi_count :: int
  jvi_fd :: int
  jvi_offset :: int
  jvi_length :: int
  jvi_intensity :: int
  jvi_vibratorPattern :: VibratorPattern

definition default_pattern :: VibratorPattern where
  "default_pattern = \<lparr>vpt_time = -1, vpt_eventNum = 0, vpt_patternDuration = 0, vpt_events = None\<rparr>"

definition default_event :: VibratorEvent where
  "default_event = \<lparr>ve_type = EVENT_TYPE_UNKNOWN, ve_time = -1, ve_duration = -1, ve_intensity = -1, ve_frequency = -1,
     ve_index = 0, ve_pointNum = 0, ve_points = None\<rparr>"

definition default_js_info :: JsVibrateInfo where
  "default_js_info = \<lparr>jvi_type = '''', jvi_usage = '''', jvi_systemUsage = False, jvi_duration = 0, jvi_effectId = '''',
     jvi_count = 0, jvi_fd = -1, jvi_offset = 0, jvi_length = -1, jvi_intensity = 0, jvi_vibratorPattern = default_pattern\<rparr>"

text \<open>A promise is known by the number of its deferred object.\<close>

record 'v async_info =
  ai_info :: JsVibrateInfo
  ai_deferred :: "nat option"
  ai_callback0 :: "'v option"
  ai_callback1 :: "'v option"
  ai_callback2 :: "'v option"
  ai_code :: errcode
  ai_message :: string
  ai_type :: CallbackType
  ai_isSupportEffect :: bool
  ai_flag :: string
  ai_identifier :: misc_identifier
  ai_env :: nat
  ai_statusEvent :: VibratorStatusEvent

definition new_async :: "'v async_info" where
  "new_async = \<lparr>ai_info = default_js_info, ai_deferred = None, ai_callback0 = None, ai_callback1 = None, ai_callback2 = None,
     ai_code = Errno 0, ai_message = '''', ai_type = COMMON_CALLBACK, ai_isSupportEffect = False, ai_flag = '''',
     ai_identifier = default_identifier, ai_env = 0,
     ai_statusEvent = \<lparr>se_type = -1, se_deviceId = 0, se_vibratorCnt = 0, se_timestamp = 0\<rparr>\<rparr>"

datatype 'v js_work = CallbackWork "'v async_info" | PromiseWork "'v async_info"

record 'v js_state =
  js_pending :: "'v option"
  js_promises :: nat
  js_works :: "'v js_work list"

datatype 'v js_result = NullValue | Value 'v | Promise nat

definition js_throw :: "'v napi \<Rightarrow> errcode \<Rightarrow> 'v js_state \<Rightarrow> 'v js_state" where
  "js_throw N code js = js\<lparr>js_pending := ThrowErr N code (js_pending js)\<rparr>"

definition js_assert_failed :: "'v napi \<Rightarrow> string \<Rightarrow> 'v js_state \<Rightarrow> 'v js_state" where
  "js_assert_failed N message js = js\<lparr>js_pending := throw_error N message (js_pending js)\<rparr>"

section \<open>Work for later\<close>

definition EmitAsyncCallbackWork :: "'v napi \<Rightarrow> 'v async_info \<Rightarrow> 'v js_state \<Rightarrow> 'v js_state" where
  "EmitAsyncCallbackWork N ai js = (if napi_queue_work N then js\<lparr>js_works := js_works js @ [CallbackWork ai]\<rparr> else js)"

definition EmitPromiseWork :: "'v napi \<Rightarrow> 'v async_info \<Rightarrow> 'v js_state \<Rightarrow> 'v js_state" where
  "EmitPromiseWork N ai js = (if napi_queue_work N then js\<lparr>js_works := js_works js @ [PromiseWork ai]\<rparr> else js)"

text \<open>With a callback the result is \<^verbatim>\<open>nullptr\<close>, without one a promise.\<close>

definition EmitAsyncWork :: "'v napi \<Rightarrow> 'v option \<Rightarrow> 'v async_info \<Rightarrow> 'v js_state \<Rightarrow> 'v js_result \<times> 'v js_state" where
  "EmitAsyncWork N param ai js =
     (case param of
        Some callback \<Rightarrow>
          if \<not> napi_create_reference N callback then (NullValue, js)
          else (NullValue, EmitAsyncCallbackWork N (ai\<lparr>ai_callback0 := Some callback\<rparr>) js)
      | None \<Rightarrow>
          if \<not> napi_create_promise N then (NullValue, js)
          else (Promise (js_promises js),
                EmitPromiseWork N (ai\<lparr>ai_deferred := Some (js_promises js)\<rparr>) (js\<lparr>js_promises := js_promises js + 1\<rparr>)))"

text \<open>The callback among the arguments: the one at a position, when it is a function.\<close>

definition callback_arg :: "'v napi \<Rightarrow> 'v list \<Rightarrow> nat \<Rightarrow> 'v option" where
  "callback_arg N a k = (if length a > k \<and> JS_IsMatchType N (a ! k) napi_function then Some (a ! k) else None)"

section \<open>Patterns\<close>

definition JS_ParseVibratorCurvePoint :: "'v napi \<Rightarrow> 'v \<Rightarrow> int \<Rightarrow> VibratorCurvePoint option" where
  "JS_ParseVibratorCurvePoint N pointsArray index =
     do {
       element \<leftarrow> napi_get_element N pointsArray index;
       if \<not> JS_IsMatchType N element napi_object then None
       else do {
         t \<leftarrow> JS_GetPropertyInt32 N element ''time'';
         intensity \<leftarrow> JS_GetPropertyInt32 N element ''intensity'';
         frequency \<leftarrow> JS_GetPropertyInt32 N element ''frequency'';
         Some \<lparr>vcp_time = t, vcp_intensity = intensity, vcp_frequency = frequency\<rparr>
       }
     }"

definition JS_ParseVibratorCurvePointArray ::
    "'v napi \<Rightarrow> (nat \<Rightarrow> bool) \<Rightarrow> 'v \<Rightarrow> int \<Rightarrow> VibratorEvent \<Rightarrow> VibratorEvent option" where
  "JS_ParseVibratorCurvePointArray N A pointsArray pointsLength event =
     (if pointsLength \<le> 0 \<or> pointsLength > 16 then None
      else if \<not> A (nat pointsLength) then None
      else map_option (\<lambda>points. event\<lparr>ve_points := Some points\<rparr>)
        (try_fold (\<lambda>i points. map_option (\<lambda>p. points @ [p]) (JS_ParseVibratorCurvePoint N pointsArray i)) (indices pointsLength) []))"

definition JS_ParseVibrateEvent :: "'v napi \<Rightarrow> (nat \<Rightarrow> bool) \<Rightarrow> 'v \<Rightarrow> int \<Rightarrow> VibratorEvent option" where
  "JS_ParseVibrateEvent N A eventArray index =
     do {
       element \<leftarrow> napi_get_element N eventArray index;
       if \<not> JS_IsMatchType N element napi_object then None
       else do {
         type \<leftarrow> JS_GetPropertyInt32 N element ''eventType'';
         t \<leftarrow> JS_GetPropertyInt32 N element ''time'';
         duration \<leftarrow> JS_GetPropertyInt32 N element ''duration'';
         intensity \<leftarrow> JS_GetPropertyInt32 N element ''intensity'';
         frequency \<leftarrow> JS_GetPropertyInt32 N element ''frequency'';
         idx \<leftarrow> JS_GetPropertyInt32 N element ''index'';
         let event = default_event\<lparr>ve_type := type_of_tag (tag_of_code type), ve_time := t, ve_duration := duration,
               ve_intensity := intensity, ve_frequency := frequency, ve_index := idx\<rparr> in
         if napi_has_named_property N element ''points'' = Some True then do {
           pointsArray \<leftarrow> JS_GetPropertyItem N element ''points'';
           if \<not> JS_IsMatchArrayType N pointsArray then None
           else do {
             pointsLength \<leftarrow> napi_get_array_length N pointsArray;
             let event = event\<lparr>ve_pointNum := wrap32 pointsLength\<rparr> in
             if pointsLength > 0 then JS_ParseVibratorCurvePointArray N A pointsArray pointsLength event else Some event
           }
         }
         else Some event
       }
     }"

definition JS_ParseVibratorPattern :: "'v napi \<Rightarrow> (nat \<Rightarrow> bool) \<Rightarrow> 'v \<Rightarrow> JsVibrateInfo \<Rightarrow> JsVibrateInfo option" where
  "JS_ParseVibratorPattern N A arg info =
     do {
       pattern \<leftarrow> JS_GetPropertyItem N arg ''pattern'';
       if \<not> JS_IsMatchType N pattern napi_object then None
       else do {
         t \<leftarrow> JS_GetPropertyInt32 N pattern ''time'';
         eventArray \<leftarrow> JS_GetPropertyItem N pattern ''events'';
         if \<not> JS_IsMatchArrayType N eventArray then None
         else do {
           len \<leftarrow> napi_get_array_length N eventArray;
           if len \<le> 0 \<or> len > 128 then None
           else if \<not> A (nat len) then None
           else do {
             events \<leftarrow> try_fold (\<lambda>j events. map_option (\<lambda>e. events @ [e]) (JS_ParseVibrateEvent N A eventArray j)) (indices len) [];
             Some (info\<lparr>jvi_vibratorPattern :=
               (jvi_vibratorPattern info)\<lparr>vpt_time := t, vpt_eventNum := wrap32 len, vpt_events := Some events\<rparr>\<rparr>)
           }
         }
       }
     }"

definition curve_point_ok :: "int \<Rightarrow> VibratorCurvePoint \<Rightarrow> bool" where
  "curve_point_ok duration p \<longleftrightarrow> \<not> (vcp_time p < 0 \<or> vcp_time p > duration) \<and>
     \<not> (vcp_intensity p < 0 \<or> vcp_intensity p > 100) \<and> \<not> (vcp_frequency p < -100 \<or> vcp_frequency p > 100)"

text \<open>A read behind the end of an array counts as a failed check; what is parsed has the length it says.\<close>

definition JS_CheckVibratorCurvePoint :: "VibratorEvent \<Rightarrow> bool" where
  "JS_CheckVibratorCurvePoint event =
     (if ve_pointNum event < 4 \<or> ve_pointNum event > 16 then False
      else if ve_points event = None then False
      else list_all (\<lambda>j. case elem (ve_points event) j of Done p \<Rightarrow> curve_point_ok (ve_duration event) p | _ \<Rightarrow> False)
        (indices (ve_pointNum event)))"

definition JS_CheckVibratorEvent :: "VibratorEvent \<Rightarrow> bool" where
  "JS_CheckVibratorEvent event =
     (if ve_time event < 0 \<or> ve_time event > 1800000 then False
      else if ve_frequency event < 0 \<or> ve_frequency event > 100 then False
      else if ve_intensity event < 0 \<or> ve_intensity event > 100 then False
      else if ve_duration event \<le> 0 \<or> ve_duration event > 5000 then False
      else if ve_index event < 0 \<or> ve_index event > 2 then False
      else if ve_type event = EVENT_TYPE_CONTINUOUS \<and> ve_pointNum event > 0 then JS_CheckVibratorCurvePoint event
      else True)"

definition JS_CheckVibratorPatternParameter :: "VibratorPattern \<Rightarrow> bool" where
  "JS_CheckVibratorPatternParameter a =
     (if vpt_events a = None then False
      else if vpt_eventNum a \<le> 0 \<or> vpt_eventNum a > 128 then False
      else list_all (\<lambda>i. case elem (vpt_events a) i of Done e \<Rightarrow> JS_CheckVibratorEvent e | _ \<Rightarrow> False) (indices (vpt_eventNum a)))"

text \<open>The second part of the result says whether the arrays were freed.\<close>

definition JS_ClearVibratorPattern :: "VibratorPattern \<Rightarrow> VibratorPattern \<times> bool" where
  "JS_ClearVibratorPattern a =
     (if vpt_eventNum a \<le> 0 \<or> vpt_events a = None then (a, False) else (a\<lparr>vpt_events := None\<rparr>, True))"

section \<open>Parameters of \<^verbatim>\<open>startVibration\<close>\<close>

text \<open>Each property that is there replaces its part of the identifier.\<close>

definition JS_ParseVibratorIdentifier :: "'v napi \<Rightarrow> 'v \<Rightarrow> misc_identifier \<Rightarrow> bool \<times> misc_identifier" where
  "JS_ParseVibratorIdentifier N v i =
     (let d = JS_GetPropertyInt32 N v ''deviceId''; n = JS_GetPropertyInt32 N v ''vibratorId'';
          i = (case d of None \<Rightarrow> i | Some x \<Rightarrow> i\<lparr>mi_deviceId := x\<rparr>);
          i = (case n of None \<Rightarrow> i | Some x \<Rightarrow> i\<lparr>mi_vibratorId := x\<rparr>)
      in (d \<noteq> None \<or> n \<noteq> None, i))"

definition int_property :: "'v napi \<Rightarrow> 'v \<Rightarrow> string \<Rightarrow> int \<Rightarrow> int" where
  "int_property N v name dflt = (case JS_GetPropertyInt32 N v name of None \<Rightarrow> dflt | Some x \<Rightarrow> x)"

definition long_property :: "'v napi \<Rightarrow> 'v \<Rightarrow> string \<Rightarrow> int \<Rightarrow> int" where
  "long_property N v name dflt = (case JS_GetPropertyInt64 N v name of None \<Rightarrow> dflt | Some x \<Rightarrow> x)"

text \<open>The part that depends on the type; \<open>Inl\<close> is a failure and holds the information as it is left.\<close>

definition JS_parse_effect ::
    "'v napi \<Rightarrow> file_env \<Rightarrow> (nat \<Rightarrow> bool) \<Rightarrow> 'v \<Rightarrow> JsVibrateInfo \<Rightarrow> JsVibrateInfo + JsVibrateInfo" where
  "JS_parse_effect N F A v info =
     (if jvi_type info = ''time'' then
        (case JS_GetPropertyInt32 N v ''duration'' of None \<Rightarrow> Inl info | Some d \<Rightarrow> Inr (info\<lparr>jvi_duration := d\<rparr>))
      else if jvi_type info = ''preset'' then
        (case JS_GetPropertyString N v ''effectId'' of
           None \<Rightarrow> Inl info
         | Some effectId \<Rightarrow> Inr (info\<lparr>jvi_effectId := effectId, jvi_count := int_property N v ''count'' 1,
             jvi_intensity := int_property N v ''intensity'' 100\<rparr>))
      else if jvi_type info = ''file'' then
        (case JS_GetPropertyItem N v ''hapticFd'' of
           None \<Rightarrow> Inl info
         | Some hapticFd \<Rightarrow>
             if \<not> JS_IsMatchType N hapticFd napi_object then Inl info
             else case JS_GetPropertyInt32 N hapticFd ''fd'' of
               None \<Rightarrow> Inl info
             | Some fd \<Rightarrow>
                 let off = long_property N hapticFd ''offset'' (jvi_offset info);
                     fdSize = GetFileSize F fd;
                     info = info\<lparr>jvi_fd := fd, jvi_offset := off\<rparr>
                 in if \<not> (0 \<le> off \<and> off \<le> fdSize) then Inl info
                    else Inr (info\<lparr>jvi_length := long_property N hapticFd ''length'' (fdSize - off)\<rparr>))
      else if jvi_type info = ''pattern'' then
        (case JS_ParseVibratorPattern N A v info of
           None \<Rightarrow> Inl info
         | Some info \<Rightarrow>
             if \<not> JS_CheckVibratorPatternParameter (jvi_vibratorPattern info)
             then Inl (info\<lparr>jvi_vibratorPattern := fst (JS_ClearVibratorPattern (jvi_vibratorPattern info))\<rparr>)
             else Inr info)
      else Inr info)"

definition JS_ParseParameter ::
    "'v napi \<Rightarrow> file_env \<Rightarrow> (nat \<Rightarrow> bool) \<Rightarrow> 'v list \<Rightarrow> JsVibrateInfo \<Rightarrow> JsVibrateInfo + (JsVibrateInfo \<times> misc_identifier)" where
  "JS_ParseParameter N F A args info =
     (if length args < 2 then Inl info
      else case JS_GetPropertyString N (args ! 0) ''type'' of
        None \<Rightarrow> Inl info
      | Some type \<Rightarrow>
          (case JS_parse_effect N F A (args ! 0) (info\<lparr>jvi_type := type\<rparr>) of
             Inl info \<Rightarrow> Inl info
           | Inr info \<Rightarrow>
               (case JS_GetPropertyString N (args ! 1) ''usage'' of
                  None \<Rightarrow> Inl info
                | Some usage \<Rightarrow>
                    let systemUsage = (case JS_GetPropertyBool N (args ! 1) ''systemUsage'' of None \<Rightarrow> False | Some b \<Rightarrow> b);
                        vibratorId = int_property N (args ! 1) ''id'' (-1)
                    in Inr (info\<lparr>jvi_usage := usage, jvi_systemUsage := systemUsage\<rparr>,
                         \<lparr>mi_deviceId = int_property N (args ! 1) ''deviceId'' (-1),
                          mi_vibratorId = (if vibratorId = 0 then -1 else vibratorId)\<rparr>))))"

section \<open>Starting\<close>

definition g_usageType :: "(string \<times> int) list" where
  "g_usageType = [(''unknown'', 0), (''alarm'', 1), (''ring'', 2), (''notification'', 3), (''communication'', 4), (''touch'', 5),
     (''media'', 6), (''physicalFeedback'', 7), (''simulateReality'', 8)]"

definition g_allowedTypes :: "string list" where
  "g_allowedTypes = [''time'', ''preset'', ''file'', ''pattern'']"

definition JS_SetUsage :: "misc_identifier \<Rightarrow> string \<Rightarrow> bool \<Rightarrow> client \<Rightarrow> bool \<times> client" where
  "JS_SetUsage i usage systemUsage cl =
     (case map_of g_usageType usage of None \<Rightarrow> (False, cl) | Some u \<Rightarrow> AG_SetUsageEnhanced i u systemUsage cl)"

definition JS_CheckParameters_info :: "JsVibrateInfo \<Rightarrow> misc_identifier \<Rightarrow> client \<Rightarrow> errcode \<times> client" where
  "JS_CheckParameters_info info i cl =
     (let (set, cl) = JS_SetUsage i (jvi_usage info) (jvi_systemUsage info) cl in
      if \<not> set then (PARAMETER_ERROR, cl)
      else if jvi_type info \<notin> List.set g_allowedTypes then (PARAMETER_ERROR, cl)
      else (ERR_OK, cl))"

text \<open>\<open>None\<close> is a read behind the end of an array, as in \<open>Agent\<close>.\<close>

definition JS_StartVibrate_info ::
    "'j client_env \<Rightarrow> 's misc_proxy \<Rightarrow> JsVibrateInfo \<Rightarrow> misc_identifier \<Rightarrow> 's agent_state \<Rightarrow> (errcode \<times> 's agent_state) option" where
  "JS_StartVibrate_info E P info i = (\<lambda>(cl, s).
     let (ret, cl) = JS_CheckParameters_info info i cl in
     if ret \<noteq> ERR_OK then Some (PARAMETER_ERROR, cl, s)
     else if jvi_type info = ''file''
     then Some (AG_PlayVibratorCustomEnhanced E P i (jvi_fd info) (jvi_offset info) (jvi_length info) (cl, s))
     else if jvi_type info = ''pattern'' then AG_PlayPatternEnhanced E P i (jvi_vibratorPattern info) (cl, s)
     else Some (AG_StartVibratorOnceEnhanced E P i (jvi_duration info) (cl, s)))"

type_synonym ('v, 's) js_call = "'v js_state \<Rightarrow> 's agent_state \<Rightarrow> 'v js_result \<times> 'v js_state \<times> 's agent_state"

definition JS_VibrateEffect ::
    "'v napi \<Rightarrow> file_env \<Rightarrow> 'j client_env \<Rightarrow> 's misc_proxy \<Rightarrow> 'v list \<Rightarrow> 'v js_state \<Rightarrow> 's agent_state
      \<Rightarrow> ('v js_result \<times> 'v js_state \<times> 's agent_state) option" where
  "JS_VibrateEffect N F E P args js st =
     (case JS_ParseParameter N F (ce_malloc E) args default_js_info of
        Inl _ \<Rightarrow> Some (NullValue, js_throw N PARAMETER_ERROR js, st)
      | Inr (info, i) \<Rightarrow>
          if jvi_type info = ''preset'' then
            (let (set, cl) = AG_SetLoopCountEnhanced i (jvi_count info) (fst st);
                 (ret, cl) = (if set then JS_CheckParameters_info info i cl else (PARAMETER_ERROR, cl))
             in if \<not> set \<or> ret \<noteq> ERR_OK \<or> jvi_effectId info = ''''
                then Some (NullValue, js_throw N PARAMETER_ERROR js, cl, snd st)
                else let (r, js) = EmitAsyncWork N (callback_arg N args 2)
                           (new_async\<lparr>ai_info := info, ai_identifier := i, ai_flag := ''preset''\<rparr>) js
                     in Some (r, js, cl, snd st))
          else
            (case JS_StartVibrate_info E P info i st of
               None \<Rightarrow> None
             | Some (code, st) \<Rightarrow>
                 let (a, cleared) = JS_ClearVibratorPattern (jvi_vibratorPattern info);
                     info' = (if vpt_events (jvi_vibratorPattern info) \<noteq> None then info\<lparr>jvi_vibratorPattern := a\<rparr> else info)
                 in if vpt_events (jvi_vibratorPattern info) \<noteq> None \<and> \<not> cleared then Some (NullValue, js, st)
                    else if code = PARAMETER_ERROR then Some (NullValue, js_throw N PARAMETER_ERROR js, st)
                    else let (r, js) = EmitAsyncWork N (callback_arg N args 2) (new_async\<lparr>ai_info := info', ai_code := code\<rparr>) js
                         in Some (r, js, st)))"

definition JS_StartVibrate ::
    "'v napi \<Rightarrow> file_env \<Rightarrow> 'j client_env \<Rightarrow> 's misc_proxy \<Rightarrow> 'v list option \<Rightarrow> 'v js_state \<Rightarrow> 's agent_state
      \<Rightarrow> ('v js_result \<times> 'v js_state \<times> 's agent_state) option" where
  "JS_StartVibrate N F E P args js st =
     (case args of
        None \<Rightarrow> Some (NullValue, js_throw N PARAMETER_ERROR js, st)
      | Some a \<Rightarrow>
          if length a < 2 then Some (NullValue, js_throw N PARAMETER_ERROR js, st)
          else if \<not> JS_IsMatchType N (a ! 0) napi_object \<or> \<not> JS_IsMatchType N (a ! 1) napi_object
          then Some (NullValue, js_throw N PARAMETER_ERROR js, st)
          else JS_VibrateEffect N F E P a js st)"

section \<open>\<^verbatim>\<open>vibrate\<close>\<close>

definition JS_VibrateTime ::
    "'v napi \<Rightarrow> 'j client_env \<Rightarrow> 's misc_proxy \<Rightarrow> 'v list \<Rightarrow> ('v, 's) js_call" where
  "JS_VibrateTime N E P args js st =
     (if length args < 1 then (NullValue, js_assert_failed N ''Wrong argument number'' js, st)
      else case JS_GetInt32Value N (args ! 0) of
        None \<Rightarrow> (NullValue, js_assert_failed N ''Get int number fail'' js, st)
      | Some duration \<Rightarrow>
          let (code, st) = AG_StartVibratorOnce E P duration st;
              (r, js) = EmitAsyncWork N (callback_arg N args 1) (new_async\<lparr>ai_code := code\<rparr>) js
          in (r, js, st))"

definition JS_VibrateEffectId ::
    "'v napi \<Rightarrow> 'j client_env \<Rightarrow> 's misc_proxy \<Rightarrow> 'v list \<Rightarrow> ('v, 's) js_call" where
  "JS_VibrateEffectId N E P args js st =
     (if length args < 1 then (NullValue, js_assert_failed N ''Wrong argument number'' js, st)
      else case JS_GetStringValue N (args ! 0) of
        None \<Rightarrow> (NullValue, js_assert_failed N ''Wrong argument type. String or function expected'' js, st)
      | Some effectId \<Rightarrow>
          let (code, st) = AG_StartVibrator E P (Some effectId) st;
              (r, js) = EmitAsyncWork N (callback_arg N args 1) (new_async\<lparr>ai_code := code\<rparr>) js
          in (r, js, st))"

text \<open>A property with a function; \<open>None\<close> when it cannot be referenced.\<close>

definition function_property :: "'v napi \<Rightarrow> 'v \<Rightarrow> string \<Rightarrow> 'v option option" where
  "function_property N v name =
     (case napi_get_named_property N v name of
        None \<Rightarrow> Some None
      | Some f \<Rightarrow>
          if JS_IsMatchType N f napi_function then (if napi_create_reference N f then Some (Some f) else None) else Some None)"

definition JS_GetCallbackInfo :: "'v napi \<Rightarrow> 'v \<Rightarrow> 'v async_info \<Rightarrow> string \<Rightarrow> ('v async_info \<times> string) option" where
  "JS_GetCallbackInfo N v ai mode =
     do {
       success \<leftarrow> napi_get_named_property N v ''success'';
       if \<not> napi_create_reference N success then None
       else do {
         fail \<leftarrow> function_property N v ''fail'';
         complete \<leftarrow> function_property N v ''complete'';
         let mode = (case napi_get_named_property N v ''mode'' of
               None \<Rightarrow> mode
             | Some m \<Rightarrow> (case JS_GetStringValue N m of
                 None \<Rightarrow> ''long'' | Some s \<Rightarrow> if s \<noteq> ''long'' \<and> s \<noteq> ''short'' then ''long'' else s));
         Some (ai\<lparr>ai_callback0 := Some success, ai_callback1 := fail, ai_callback2 := complete\<rparr>, mode)
       }
     }"

definition JS_VibrateMode ::
    "'v napi \<Rightarrow> 'j client_env \<Rightarrow> 's misc_proxy \<Rightarrow> 'v list \<Rightarrow> ('v, 's) js_call" where
  "JS_VibrateMode N E P args js st =
     (if args = [] then (NullValue, js, snd (AG_StartVibratorOnce E P 1000 st))
      else case JS_GetCallbackInfo N (args ! 0) (new_async\<lparr>ai_type := SYSTEM_VIBRATE_CALLBACK\<rparr>) ''long'' of
        None \<Rightarrow> (NullValue, js, st)
      | Some (ai, mode) \<Rightarrow>
          let (code, st) = AG_StartVibratorOnce E P (if mode = ''long'' then 1000 else 35) st;
              ai = ai\<lparr>ai_code := code, ai_message := (if code \<noteq> SUCCESS then ''Vibrator vibrate fail'' else ai_message ai)\<rparr>
          in (NullValue, EmitAsyncCallbackWork N ai js, st))"

definition JS_Vibrate ::
    "'v napi \<Rightarrow> 'j client_env \<Rightarrow> 's misc_proxy \<Rightarrow> 'v list option \<Rightarrow> ('v, 's) js_call" where
  "JS_Vibrate N E P args js st =
     (case args of
        None \<Rightarrow> (NullValue, js_throw N PARAMETER_ERROR js, st)
      | Some a \<Rightarrow>
          if length a \<ge> 1 \<and> JS_IsMatchType N (a ! 0) napi_number then JS_VibrateTime N E P a js st
          else if length a \<ge> 1 \<and> JS_IsMatchType N (a ! 0) napi_string then JS_VibrateEffectId N E P a js st
          else JS_VibrateMode N E P a js st)"

section \<open>Stopping\<close>

definition JS_Cancel ::
    "'v napi \<Rightarrow> 'j client_env \<Rightarrow> 's misc_proxy \<Rightarrow> 'v list option \<Rightarrow> ('v, 's) js_call" where
  "JS_Cancel N E P args js st =
     (case args of
        None \<Rightarrow> (NullValue, js_throw N PARAMETER_ERROR js, st)
      | Some a \<Rightarrow>
          let i = (if a \<noteq> [] \<and> \<not> JS_IsMatchType N (a ! 0) napi_function \<and> JS_IsMatchType N (a ! 0) napi_object
                   then snd (JS_ParseVibratorIdentifier N (a ! 0) default_identifier) else default_identifier);
              (code, st) = AG_CancelEnhanced E P i st;
              (r, js) = EmitAsyncWork N (callback_arg N a 0) (new_async\<lparr>ai_code := code\<rparr>) js
          in (r, js, st))"

definition JS_Stop ::
    "'v napi \<Rightarrow> 'j client_env \<Rightarrow> 's misc_proxy \<Rightarrow> 'v list option \<Rightarrow> ('v, 's) js_call" where
  "JS_Stop N E P args js st =
     (case args of
        None \<Rightarrow> (NullValue, js_throw N PARAMETER_ERROR js, st)
      | Some a \<Rightarrow>
          if length a \<ge> 1 \<and> JS_IsMatchType N (a ! 0) napi_string then
            (case JS_GetStringValue N (a ! 0) of
               None \<Rightarrow> (NullValue, js_throw N PARAMETER_ERROR js, st)
             | Some mode \<Rightarrow>
                 let (code, st) = AG_StopVibratorEnhanced E P default_identifier (Some mode) st in
                 if code = PARAMETER_ERROR then (NullValue, js_throw N PARAMETER_ERROR js, st)
                 else let (r, js) = EmitAsyncWork N (callback_arg N a 1) (new_async\<lparr>ai_code := code\<rparr>) js in (r, js, st))
          else JS_Cancel N E P args js st)"

text \<open>The synchronous functions return the value \<^verbatim>\<open>undefined\<close> when they fail.\<close>

definition undefined_value :: "'v napi \<Rightarrow> 'v js_result" where
  "undefined_value N = (case napi_get_undefined N of None \<Rightarrow> NullValue | Some u \<Rightarrow> Value u)"

definition JS_StopVibrationSync ::
    "'v napi \<Rightarrow> 'j client_env \<Rightarrow> 's misc_proxy \<Rightarrow> 'v list option \<Rightarrow> ('v, 's) js_call" where
  "JS_StopVibrationSync N E P args js st =
     (if args = None then (undefined_value N, js_throw N PARAMETER_ERROR js, st)
      else let (ret, st) = AG_Cancel E P st in
        (undefined_value N, if ret \<noteq> SUCCESS then js_throw N ret js else js, st))"

section \<open>Queries\<close>

definition JS_IsHdHapticSupported ::
    "'v napi \<Rightarrow> 'j client_env \<Rightarrow> 's misc_proxy \<Rightarrow> 'v list option \<Rightarrow> ('v, 's) js_call" where
  "JS_IsHdHapticSupported N E P args js st =
     (if args = None then (undefined_value N, js_throw N PARAMETER_ERROR js, st)
      else let (supported, st) = AG_IsHdHapticSupported E P st in
        (case napi_get_boolean N supported of
           None \<Rightarrow> (undefined_value N, js_throw N PARAMETER_ERROR js, st)
         | Some b \<Rightarrow> (Value b, js, st)))"

text \<open>Only two codes are reported; after any other failure the answer is that the effect is not supported.\<close>

definition JS_IsSupportEffect ::
    "'v napi \<Rightarrow> 'j client_env \<Rightarrow> 's misc_proxy \<Rightarrow> 'v list option \<Rightarrow> ('v, 's) js_call" where
  "JS_IsSupportEffect N E P args js st =
     (case args of
        None \<Rightarrow> (NullValue, js_throw N PARAMETER_ERROR js, st)
      | Some a \<Rightarrow>
          if a = [] then (NullValue, js_throw N PARAMETER_ERROR js, st)
          else case JS_GetStringValue N (a ! 0) of
            None \<Rightarrow> (NullValue, js_throw N PARAMETER_ERROR js, st)
          | Some effectId \<Rightarrow>
              let (ret, st) = AG_IsSupportEffect E P (Some effectId) False st;
                  code = (case ret of Inl e \<Rightarrow> if e = PERMISSION_DENIED \<or> e = PARAMETER_ERROR then e else SUCCESS | Inr _ \<Rightarrow> SUCCESS);
                  supported = (case ret of Inl _ \<Rightarrow> False | Inr b \<Rightarrow> b);
                  (r, js) = EmitAsyncWork N (callback_arg N a 1)
                    (new_async\<lparr>ai_type := IS_SUPPORT_EFFECT_CALLBACK, ai_code := code, ai_isSupportEffect := supported\<rparr>) js
              in (r, js, st))"

definition JS_IsSupportEffectSync ::
    "'v napi \<Rightarrow> 'j client_env \<Rightarrow> 's misc_proxy \<Rightarrow> 'v list option \<Rightarrow> ('v, 's) js_call" where
  "JS_IsSupportEffectSync N E P args js st =
     (case args of
        None \<Rightarrow> (undefined_value N, js_throw N PARAMETER_ERROR js, st)
      | Some a \<Rightarrow>
          if a = [] then (undefined_value N, js_throw N PARAMETER_ERROR js, st)
          else case JS_GetStringValue N (a ! 0) of
            None \<Rightarrow> (undefined_value N, js_throw N PARAMETER_ERROR js, st)
          | Some effectId \<Rightarrow>
              let (ret, st) = AG_IsSupportEffect E P (Some effectId) False st in
              (case ret of
                 Inl e \<Rightarrow> (undefined_value N, js_throw N e js, st)
               | Inr supported \<Rightarrow>
                   (case napi_get_boolean N supported of
                      None \<Rightarrow> (undefined_value N, js_throw N PARAMETER_ERROR js, st)
                    | Some b \<Rightarrow> (Value b, js, st))))"

text \<open>Properties are added until one cannot be; the object is returned as it is then.\<close>

fun fill :: "('v \<Rightarrow> 'v option) list \<Rightarrow> 'v \<Rightarrow> 'v" where
  "fill [] obj = obj"
| "fill (f # fs) obj = (case f obj of None \<Rightarrow> obj | Some obj' \<Rightarrow> fill fs obj')"

definition ConvertToJsVibratorInfo :: "'v napi \<Rightarrow> VibratorInfos \<Rightarrow> 'v option" where
  "ConvertToJsVibratorInfo N v = map_option (fill
     [\<lambda>obj. JS_CreateInt32Property N obj ''deviceId'' (vin_deviceId v),
      \<lambda>obj. JS_CreateInt32Property N obj ''vibratorId'' (vin_vibratorId v),
      \<lambda>obj. JS_CreateStringProperty N obj ''deviceName'' (vin_deviceName v),
      \<lambda>obj. JS_CreateBooleanProperty N obj ''isHdHapticSupported'' (vin_isSupportHdHaptic v),
      \<lambda>obj. JS_CreateBooleanProperty N obj ''isLocalVibrator'' (vin_isLocalVibrator v)]) (napi_create_object N)"

definition ConvertToJsEffectInfo :: "'v napi \<Rightarrow> bool \<Rightarrow> 'v option" where
  "ConvertToJsEffectInfo N supported =
     map_option (fill [\<lambda>obj. JS_CreateBooleanProperty N obj ''isEffectSupported'' supported]) (napi_create_object N)"

text \<open>An identifier given as an optional argument.\<close>

definition identifier_arg :: "'v napi \<Rightarrow> 'v list \<Rightarrow> nat \<Rightarrow> misc_identifier" where
  "identifier_arg N a k =
     (if length a > k then snd (JS_ParseVibratorIdentifier N (a ! k) default_identifier) else default_identifier)"

definition JS_GetVibratorListSync ::
    "'v napi \<Rightarrow> 'j client_env \<Rightarrow> 's misc_proxy \<Rightarrow> 'v list option \<Rightarrow> ('v, 's) js_call" where
  "JS_GetVibratorListSync N E P args js st =
     (case args of
        None \<Rightarrow> (NullValue, js, st)
      | Some a \<Rightarrow>
          (case napi_create_array N of
             None \<Rightarrow> (NullValue, js, st)
           | Some jsArray \<Rightarrow>
               let (ret, st) = AG_GetVibratorList E P (identifier_arg N a 0) st in
               (case ret of
                  Inl _ \<Rightarrow> (Value jsArray, js, st)
                | Inr infos \<Rightarrow>
                    (case try_fold (\<lambda>(k, v) arr. case ConvertToJsVibratorInfo N v of
                               None \<Rightarrow> None | Some x \<Rightarrow> napi_set_element N arr (int k) x)
                            (enumerate 0 infos) jsArray of
                       None \<Rightarrow> (NullValue, js, st)
                     | Some arr \<Rightarrow> (Value arr, js, st)))))"

definition JS_GetSupportEffectInfoSync ::
    "'v napi \<Rightarrow> 'j client_env \<Rightarrow> 's misc_proxy \<Rightarrow> 'v list option \<Rightarrow> ('v, 's) js_call" where
  "JS_GetSupportEffectInfoSync N E P args js st =
     (case args of
        None \<Rightarrow> (NullValue, js, st)
      | Some a \<Rightarrow>
          if a = [] \<or> \<not> JS_IsMatchType N (a ! 0) napi_string then (NullValue, js, st)
          else case JS_GetStringValue N (a ! 0) of
            None \<Rightarrow> (NullValue, js, st)
          | Some effectType \<Rightarrow>
              let ((ret, supported), st) = AG_GetEffectInfo E P (identifier_arg N a 1) effectType st in
              if ret = SUCCESS then
                (case ConvertToJsEffectInfo N supported of None \<Rightarrow> (NullValue, js, st) | Some v \<Rightarrow> (Value v, js, st))
              else (NullValue, js, st))"

end
