(* ===== verification/JsAsync.thy ===== *)
theory JsAsync
  imports JsVibrate
begin

text \<open>
  The bindings for JavaScript, fourth part: the work that runs after a call has returned,
  \<^verbatim>\<open>ExecuteCallBack\<close>, \<^verbatim>\<open>CompleteCallback\<close> and the completion of promises in \<^verbatim>\<open>vibrator_napi_utils.cpp\<close>,
  and the settling of promises over any sequence of calls.
\<close>

section \<open>Results\<close>

datatype 'v js_action = CallFunction 'v "'v list" | Resolve nat 'v | Reject nat 'v

definition ConvertErrorToResult :: "'v napi \<Rightarrow> 'v async_info \<Rightarrow> 'v option" where
  "ConvertErrorToResult N ai =
     (case GetNapiError (ai_code ai) of None \<Rightarrow> None | Some msg \<Rightarrow> CreateBusinessError N (ai_code ai) msg)"

text \<open>The two values that a callback gets.\<close>

definition ConstructCommonResult :: "'v napi \<Rightarrow> 'v async_info \<Rightarrow> ('v \<times> 'v) option" where
  "ConstructCommonResult N ai =
     (if ai_code ai \<noteq> SUCCESS then
        do { e \<leftarrow> ConvertErrorToResult N ai; u \<leftarrow> napi_get_undefined N; Some (e, u) }
      else do { u \<leftarrow> napi_get_undefined N; Some (u, u) })"

definition ConstructIsSupportEffectResult :: "'v napi \<Rightarrow> 'v async_info \<Rightarrow> ('v \<times> 'v) option" where
  "ConstructIsSupportEffectResult N ai =
     (if ai_code ai \<noteq> SUCCESS then
        do { e \<leftarrow> ConvertErrorToResult N ai; u \<leftarrow> napi_get_undefined N; Some (e, u) }
      else do { u \<leftarrow> napi_get_undefined N; b \<leftarrow> napi_get_boolean N (ai_isSupportEffect ai); Some (u, b) })"

definition ConvertToJsVibratorPlungInfo :: "'v napi \<Rightarrow> VibratorStatusEvent \<Rightarrow> 'v option" where
  "ConvertToJsVibratorPlungInfo N ev = map_option (fill
     [\<lambda>obj. JS_CreateBooleanProperty N obj ''isVibratorOnline'' (se_type ev = 1),
      \<lambda>obj. JS_CreateInt32Property N obj ''deviceId'' (se_deviceId ev),
      \<lambda>obj. JS_CreateInt64Property N obj ''timestamp'' (se_timestamp ev),
      \<lambda>obj. JS_CreateInt32Property N obj ''vibratorCount'' (se_vibratorCnt ev)]) (napi_create_object N)"

text \<open>Here the event is the first value, in the place of the error.\<close>

definition ConstructVibratorPlugInfoResult :: "'v napi \<Rightarrow> 'v async_info \<Rightarrow> ('v \<times> 'v) option" where
  "ConstructVibratorPlugInfoResult N ai =
     (if ai_code ai \<noteq> SUCCESS then
        do { e \<leftarrow> ConvertErrorToResult N ai; u \<leftarrow> napi_get_undefined N; Some (e, u) }
      else do { v \<leftarrow> ConvertToJsVibratorPlungInfo N (ai_statusEvent ai); u \<leftarrow> napi_get_undefined N; Some (v, u) })"

fun g_convertFuncList :: "'v napi \<Rightarrow> CallbackType \<Rightarrow> ('v async_info \<Rightarrow> ('v \<times> 'v) option) option" where
  "g_convertFuncList N COMMON_CALLBACK = Some (ConstructCommonResult N)"
| "g_convertFuncList N IS_SUPPORT_EFFECT_CALLBACK = Some (ConstructIsSupportEffectResult N)"
| "g_convertFuncList N VIBRATOR_STATE_CHANGE = Some (ConstructVibratorPlugInfoResult N)"
| "g_convertFuncList N SYSTEM_VIBRATE_CALLBACK = None"

section \<open>Completion\<close>

definition ExecuteCallBack :: "'j client_env \<Rightarrow> 's misc_proxy \<Rightarrow> 'v async_info \<Rightarrow> 's agent_state \<Rightarrow> 'v async_info \<times> 's agent_state" where
  "ExecuteCallBack E P ai st =
     (if ai_flag ai = ''preset'' then
        let (code, st) = AG_PlayPrimitiveEffectEnhanced E P (ai_identifier ai) (Some (jvi_effectId (ai_info ai)))
              (jvi_intensity (ai_info ai)) st
        in (ai\<lparr>ai_code := code\<rparr>, st)
      else (ai, st))"

text \<open>A callback is called when its reference gives a value.\<close>

definition call_referenced :: "'v napi \<Rightarrow> 'v option \<Rightarrow> 'v list option \<Rightarrow> 'v js_action list" where
  "call_referenced N callback args =
     (case callback of
        None \<Rightarrow> []
      | Some f \<Rightarrow>
          if \<not> napi_get_reference_value N f then [] else (case args of None \<Rightarrow> [] | Some a \<Rightarrow> [CallFunction f a]))"

text \<open>The code of the error is made but not passed: \<^verbatim>\<open>napi_call_function\<close> gets one argument.\<close>

definition EmitSystemCallback :: "'v napi \<Rightarrow> 'v async_info \<Rightarrow> 'v js_action list" where
  "EmitSystemCallback N ai =
     (if ai_code ai = SUCCESS
      then call_referenced N (ai_callback0 ai) (do { u \<leftarrow> napi_get_undefined N; Some [u] })
      else call_referenced N (ai_callback1 ai)
        (do { m \<leftarrow> napi_create_string_utf8 N (ai_message ai); c \<leftarrow> napi_create_int32 N (errno (ai_code ai)); Some [m] }))"

definition CompleteCallback :: "'v napi \<Rightarrow> 'v async_info \<Rightarrow> 'v js_action list" where
  "CompleteCallback N ai =
     (if ai_type ai = SYSTEM_VIBRATE_CALLBACK then EmitSystemCallback N ai
      else if ai_flag ai = ''preset'' \<and> vpt_events (jvi_vibratorPattern (ai_info ai)) \<noteq> None \<and>
          \<not> snd (JS_ClearVibratorPattern (jvi_vibratorPattern (ai_info ai))) then []
      else call_referenced N (ai_callback0 ai)
        (do { convert \<leftarrow> g_convertFuncList N (ai_type ai); (r0, r1) \<leftarrow> convert ai; Some [r0, r1] }))"

definition CompletePromise :: "'v napi \<Rightarrow> 'v async_info \<Rightarrow> 'v js_action list" where
  "CompletePromise N ai =
     (case ai_deferred ai of
        None \<Rightarrow> []
      | Some d \<Rightarrow>
          if ai_type ai = SYSTEM_VIBRATE_CALLBACK then EmitSystemCallback N ai
          else case g_convertFuncList N (ai_type ai) of
            None \<Rightarrow> []
          | Some convert \<Rightarrow>
              (case convert ai of
                 None \<Rightarrow> []
               | Some (r0, r1) \<Rightarrow> if ai_code ai \<noteq> SUCCESS then [Reject d r0] else [Resolve d r1]))"

fun run_work ::
    "'v napi \<Rightarrow> 'j client_env \<Rightarrow> 's misc_proxy \<Rightarrow> 'v js_work \<Rightarrow> 's agent_state \<Rightarrow> 'v js_action list \<times> 's agent_state" where
  "run_work N E P (CallbackWork ai) st = (let (ai, st) = ExecuteCallBack E P ai st in (CompleteCallback N ai, st))"
| "run_work N E P (PromiseWork ai) st = (let (ai, st) = ExecuteCallBack E P ai st in (CompletePromise N ai, st))"

section \<open>The functions of the module\<close>

datatype 'v js_function = Fstart "'v list option" | Fvibrate "'v list option" | Fstop "'v list option" | FstopSync "'v list option"
  | FisHd "'v list option" | FisSupport "'v list option" | FisSupportSync "'v list option" | Flist "'v list option"
  | Feffect "'v list option"

text \<open>\<open>None\<close> is a read behind the end of an array.\<close>

fun js_run :: "'v napi \<Rightarrow> file_env \<Rightarrow> 'j client_env \<Rightarrow> 's misc_proxy \<Rightarrow> 'v js_function \<Rightarrow> 'v js_state \<Rightarrow> 's agent_state
    \<Rightarrow> ('v js_result \<times> 'v js_state \<times> 's agent_state) option" where
  "js_run N F E P (Fstart a) js st = JS_StartVibrate N F E P a js st"
| "js_run N F E P (Fvibrate a) js st = Some (JS_Vibrate N E P a js st)"
| "js_run N F E P (Fstop a) js st = Some (JS_Stop N E P a js st)"
| "js_run N F E P (FstopSync a) js st = Some (JS_StopVibrationSync N E P a js st)"
| "js_run N F E P (FisHd a) js st = Some (JS_IsHdHapticSupported N E P a js st)"
| "js_run N F E P (FisSupport a) js st = Some (JS_IsSupportEffect N E P a js st)"
| "js_run N F E P (FisSupportSync a) js st = Some (JS_IsSupportEffectSync N E P a js st)"
| "js_run N F E P (Flist a) js st = Some (JS_GetVibratorListSync N E P a js st)"
| "js_run N F E P (Feffect a) js st = Some (JS_GetSupportEffectInfoSync N E P a js st)"

definition initial_js :: "'v js_state" where
  "initial_js = \<lparr>js_pending = None, js_promises = 0, js_works = []\<rparr>"

text \<open>
  A run of an application: its calls, the work of the pool in any order with what it does to the application, and
  whatever else happens to the agent and to the pending exception.
\<close>

inductive js_reach ::
    "'v napi \<Rightarrow> file_env \<Rightarrow> ('j client_env \<times> 's misc_proxy) set \<Rightarrow> 'v js_state \<Rightarrow> 's agent_state \<Rightarrow> 'v js_action list \<Rightarrow> bool"
  for N F EPs where
  init: "js_reach N F EPs initial_js st []"
| call: "js_reach N F EPs js st done \<Longrightarrow> (E, P) \<in> EPs \<Longrightarrow> js_run N F E P f js st = Some (r, js', st') \<Longrightarrow>
    js_reach N F EPs js' st' done"
| work: "js_reach N F EPs js st done \<Longrightarrow> (E, P) \<in> EPs \<Longrightarrow> js_works js = ws @ w # ws' \<Longrightarrow>
    run_work N E P w st = (acts, st') \<Longrightarrow> js_reach N F EPs (js\<lparr>js_works := ws @ ws'\<rparr>) st' (done @ acts)"
| other: "js_reach N F EPs js st done \<Longrightarrow> js_reach N F EPs (js\<lparr>js_pending := p\<rparr>) st' done"

end
