(* ===== verification/JsProps.thy ===== *)
theory JsProps
  imports JsAsync EndToEnd
begin

text \<open>
  What a JavaScript application can rely on: its promises are settled, and a vibration whose promise is resolved is played.
\<close>

section \<open>Promises are settled\<close>

text \<open>The functions that make plain values succeed.\<close>

definition napi_delivers :: "'v napi \<Rightarrow> bool" where
  "napi_delivers N \<longleftrightarrow> napi_get_undefined N \<noteq> None \<and> (\<forall>b. napi_get_boolean N b \<noteq> None) \<and> (\<forall>n. napi_create_int32 N n \<noteq> None) \<and>
     (\<forall>s. napi_create_string_utf8 N s \<noteq> None) \<and> (\<forall>m. napi_create_error N m \<noteq> None)"

definition settleable :: "'v async_info \<Rightarrow> bool" where
  "settleable ai \<longleftrightarrow> (ai_type ai = COMMON_CALLBACK \<or> ai_type ai = IS_SUPPORT_EFFECT_CALLBACK) \<and> documented (ai_code ai)"

fun work_deferred :: "'v js_work \<Rightarrow> nat option" where
  "work_deferred (PromiseWork ai) = ai_deferred ai"
| "work_deferred (CallbackWork ai) = None"

fun work_ok :: "'v js_work \<Rightarrow> bool" where
  "work_ok (PromiseWork ai) \<longleftrightarrow> ai_deferred ai \<noteq> None \<and> settleable ai"
| "work_ok (CallbackWork ai) \<longleftrightarrow> True"

fun settles :: "nat \<Rightarrow> 'v js_action \<Rightarrow> bool" where
  "settles d (Resolve e v) \<longleftrightarrow> d = e"
| "settles d (Reject e v) \<longleftrightarrow> d = e"
| "settles d (CallFunction f a) \<longleftrightarrow> False"

definition waiting :: "nat \<Rightarrow> 'v js_work list \<Rightarrow> nat" where
  "waiting d ws = length (filter (\<lambda>w. work_deferred w = Some d) ws)"

definition settled :: "nat \<Rightarrow> 'v js_action list \<Rightarrow> nat" where
  "settled d acts = length (filter (settles d) acts)"

lemma waiting_append [simp]: "waiting d (ws @ ws') = waiting d ws + waiting d ws'"
  by (simp add: waiting_def)

lemma settled_append [simp]: "settled d (acts @ acts') = settled d acts + settled d acts'"
  by (simp add: settled_def)

lemma waiting_Cons [simp]: "waiting d (w # ws) = (if work_deferred w = Some d then Suc (waiting d ws) else waiting d ws)"
  by (simp add: waiting_def)

lemma waiting_Nil [simp]: "waiting d [] = 0" and settled_Nil [simp]: "settled d [] = 0"
  by (simp_all add: waiting_def settled_def)

text \<open>What a call does to the promises and the work.\<close>

definition extends :: "'v js_state \<Rightarrow> 'v js_result \<Rightarrow> 'v js_state \<Rightarrow> bool" where
  "extends js r js' \<longleftrightarrow>
     (\<forall>d. r \<noteq> Promise d) \<and> js_promises js' = js_promises js \<and> (js_works js' = js_works js \<or> (\<exists>ai. js_works js' = js_works js @ [CallbackWork ai])) \<or>
     r = Promise (js_promises js) \<and> js_promises js' = Suc (js_promises js) \<and>
       (\<exists>ai. js_works js' = js_works js @ [PromiseWork ai] \<and> ai_deferred ai = Some (js_promises js) \<and> settleable ai)"

lemma extends_same [simp]:
  "extends js NullValue js" "extends js (Value v) js" "extends js NullValue (js_throw N e js)" "extends js (Value v) (js_throw N e js)"
  "extends js NullValue (js_assert_failed N m js)" "extends js (undefined_value N) (js_throw N e js)" "extends js (undefined_value N) js"
  by (auto simp: extends_def js_throw_def js_assert_failed_def undefined_value_def split: option.splits)

lemma EmitAsyncCallbackWork_extends [simp]: "extends js NullValue (EmitAsyncCallbackWork N ai js)"
  by (simp add: extends_def EmitAsyncCallbackWork_def)

lemma EmitAsyncWork_extends:
  "EmitAsyncWork N p ai js = (r, js') \<Longrightarrow> settleable ai \<Longrightarrow> napi_queue_work N \<Longrightarrow> extends js r js'"
  by (auto simp: EmitAsyncWork_def EmitPromiseWork_def extends_def EmitAsyncCallbackWork_def settleable_def split: option.splits if_splits)

lemma documented_once: "AG_StartVibratorOnce E P d st = (e, st') \<Longrightarrow> documented e"
  using documented_play_calls(2) [of E P default_identifier d st] by (simp add: AG_StartVibratorOnce_def)

lemma documented_effect: "AG_StartVibrator E P m st = (e, st') \<Longrightarrow> documented e"
  using documented_play_calls(1) [of E P default_identifier m st] by (simp add: AG_StartVibrator_def)

lemma documented_stop: "AG_StopVibratorEnhanced E P i m st = (e, st') \<Longrightarrow> documented e"
  using documented_stop_calls(1) [of E P i m st] by simp

lemma documented_cancel: "AG_CancelEnhanced E P i st = (e, st') \<Longrightarrow> documented e"
  using documented_stop_calls(2) [of E P i st] by simp

lemma documented_started:
  "AG_StartVibratorOnceEnhanced E P i d st = (e, st') \<Longrightarrow> documented e"
  "AG_PlayVibratorCustomEnhanced E P i fd off len st = (e, st') \<Longrightarrow> documented e"
  "AG_PlayPatternEnhanced E P i a st = Some (e, st') \<Longrightarrow> documented e"
  "AG_PlayPrimitiveEffectEnhanced E P i m n st = (e, st') \<Longrightarrow> documented e"
  using documented_play_calls(4) [of E P i m n st] documented_play_calls(2) [of E P i d st] documented_play_calls(3) [of E P i fd off len st]
    documented_pattern_calls(1) [of E P i a st "(e, st')"] by simp_all

lemma documented_start: "JS_StartVibrate_info E P info i st = Some (e, st') \<Longrightarrow> documented e"
  by (cases st)
    (auto simp: JS_StartVibrate_info_def Let_def split: if_splits prod.splits dest: documented_started)

lemma settleable_new [simp]:
  "settleable (new_async\<lparr>ai_code := e\<rparr>) \<longleftrightarrow> documented e"
  "settleable (new_async\<lparr>ai_info := info, ai_code := e\<rparr>) \<longleftrightarrow> documented e"
  "settleable (new_async\<lparr>ai_info := info, ai_identifier := i, ai_flag := flag\<rparr>)"
  "settleable (new_async\<lparr>ai_type := IS_SUPPORT_EFFECT_CALLBACK, ai_code := e, ai_isSupportEffect := b\<rparr>) \<longleftrightarrow> documented e"
  by (simp_all add: settleable_def new_async_def)

lemma JS_VibrateEffect_extends:
  assumes "JS_VibrateEffect N F E P args js st = Some (r, js', st')" and "napi_queue_work N"
  shows "extends js r js'"
  using assms
  by (auto simp: JS_VibrateEffect_def Let_def split: sum.splits if_splits prod.splits option.splits
      dest!: documented_start elim!: EmitAsyncWork_extends)

lemma JS_StartVibrate_extends:
  assumes "JS_StartVibrate N F E P args js st = Some (r, js', st')" and "napi_queue_work N"
  shows "extends js r js'"
  using assms by (auto simp: JS_StartVibrate_def split: if_splits option.splits dest: JS_VibrateEffect_extends)

lemma JS_Vibrate_extends:
  assumes "JS_Vibrate N E P args js st = (r, js', st')" and "napi_queue_work N"
  shows "extends js r js'"
  using assms
  by (auto simp: JS_Vibrate_def JS_VibrateTime_def JS_VibrateEffectId_def JS_VibrateMode_def Let_def
      split: if_splits option.splits prod.splits
      dest!: documented_once documented_effect elim!: EmitAsyncWork_extends)

lemma JS_Stop_extends:
  assumes "JS_Stop N E P args js st = (r, js', st')" and "napi_queue_work N"
  shows "extends js r js'"
  using assms
  by (auto simp: JS_Stop_def JS_Cancel_def Let_def split: if_splits option.splits prod.splits
      dest!: documented_stop documented_cancel elim!: EmitAsyncWork_extends)

lemma JS_IsSupportEffect_extends:
  assumes "JS_IsSupportEffect N E P args js st = (r, js', st')" and "napi_queue_work N"
  shows "extends js r js'"
  using assms
  by (auto simp: JS_IsSupportEffect_def Let_def split: if_splits option.splits prod.splits sum.splits
      elim!: EmitAsyncWork_extends)

lemma JS_sync_extends:
  "JS_StopVibrationSync N E P args js st = (r, js', st') \<Longrightarrow> extends js r js'"
  "JS_IsHdHapticSupported N E P args js st = (r, js', st') \<Longrightarrow> extends js r js'"
  "JS_IsSupportEffectSync N E P args js st = (r, js', st') \<Longrightarrow> extends js r js'"
  "JS_GetVibratorListSync N E P args js st = (r, js', st') \<Longrightarrow> extends js r js'"
  "JS_GetSupportEffectInfoSync N E P args js st = (r, js', st') \<Longrightarrow> extends js r js'"
  by (auto simp: JS_StopVibrationSync_def JS_IsHdHapticSupported_def JS_IsSupportEffectSync_def JS_GetVibratorListSync_def
      JS_GetSupportEffectInfoSync_def Let_def split: if_splits option.splits prod.splits sum.splits)

lemma js_run_extends: "js_run N F E P f js st = Some (r, js', st') \<Longrightarrow> napi_queue_work N \<Longrightarrow> extends js r js'"
  by (cases f)
    (auto dest: JS_StartVibrate_extends JS_Vibrate_extends JS_Stop_extends JS_IsSupportEffect_extends JS_sync_extends)

text \<open>A work item settles its own promise, once, and no other.\<close>

lemma documented_message: "documented e \<Longrightarrow> e \<noteq> SUCCESS \<Longrightarrow> GetNapiError e \<noteq> None"
  by (auto simp: documented_def GetNapiError_def)

lemma napi_deliversD:
  assumes "napi_delivers N"
  shows "\<exists>u. napi_get_undefined N = Some u" "\<exists>v. napi_get_boolean N b = Some v" "\<exists>v. napi_create_int32 N n = Some v"
    "\<exists>v. napi_create_string_utf8 N s = Some v" "\<exists>v. napi_create_error N m = Some v"
  using assms by (auto simp: napi_delivers_def)

lemma CreateBusinessError_delivers:
  assumes "napi_delivers N"
  shows "\<exists>v. CreateBusinessError N e m = Some v"
proof -
  obtain c where c: "napi_create_int32 N (errno e) = Some c" using napi_deliversD(3) [OF assms] by blast
  obtain s where s: "napi_create_string_utf8 N m = Some s" using napi_deliversD(4) [OF assms] by blast
  obtain b where "napi_create_error N s = Some b" using napi_deliversD(5) [OF assms] by blast
  with c s show ?thesis by (auto simp: CreateBusinessError_def split: option.split)
qed

lemma convert_delivers:
  assumes "napi_delivers N" and "settleable ai"
  shows "\<exists>convert r. g_convertFuncList N (ai_type ai) = Some convert \<and> convert ai = Some r"
proof -
  obtain u b where u: "napi_get_undefined N = Some u" "napi_get_boolean N (ai_isSupportEffect ai) = Some b"
    using napi_deliversD(1,2) [OF assms(1)] by blast
  have "\<exists>e. ConvertErrorToResult N ai = Some e" if c: "ai_code ai \<noteq> SUCCESS"
  proof -
    from documented_message [OF _ c] assms(2) obtain m where "GetNapiError (ai_code ai) = Some m"
      by (auto simp: settleable_def)
    then show ?thesis using CreateBusinessError_delivers [OF assms(1)] by (simp add: ConvertErrorToResult_def)
  qed
  with u assms(2) show ?thesis
    by (auto simp: settleable_def ConstructCommonResult_def ConstructIsSupportEffectResult_def)
qed

lemma ExecuteCallBack_settleable:
  "ExecuteCallBack E P ai st = (ai', st') \<Longrightarrow> settleable ai \<Longrightarrow> settleable ai' \<and> ai_deferred ai' = ai_deferred ai"
  by (auto simp: ExecuteCallBack_def settleable_def split: if_splits prod.splits dest: documented_started(4))

lemma CompletePromise_settles:
  assumes "napi_delivers N" and "settleable ai" and "ai_deferred ai = Some d"
  shows "\<exists>v. CompletePromise N ai = [Resolve d v] \<or> CompletePromise N ai = [Reject d v]"
  using convert_delivers [OF assms(1,2)] assms(2,3) by (auto simp: CompletePromise_def settleable_def)

lemma call_referenced_settles [simp]: "settled d (call_referenced N f args) = 0"
  by (auto simp: call_referenced_def settled_def split: option.splits)

lemma CompleteCallback_settles [simp]: "settled d (CompleteCallback N ai) = 0"
  by (simp add: CompleteCallback_def EmitSystemCallback_def)

lemma run_work_settles:
  assumes "run_work N E P w st = (acts, st')" and "napi_delivers N" and "work_ok w"
  shows "settled d acts = (if work_deferred w = Some d then 1 else 0)"
proof (cases w)
  case (PromiseWork ai)
  obtain ai' st1 where x: "ExecuteCallBack E P ai st = (ai', st1)" by (cases "ExecuteCallBack E P ai st")
  with assms(3) PromiseWork ExecuteCallBack_settleable [OF x] obtain e where
    "settleable ai'" "ai_deferred ai' = Some e" "ai_deferred ai = Some e" by auto
  with CompletePromise_settles [OF assms(2)] obtain v where
    "CompletePromise N ai' = [Resolve e v] \<or> CompletePromise N ai' = [Reject e v]" by blast
  with assms(1) PromiseWork x \<open>ai_deferred ai = Some e\<close> show ?thesis by (auto simp: settled_def)
next
  case (CallbackWork ai)
  with assms(1) show ?thesis by (auto split: prod.splits)
qed

lemma js_reach_settling:
  assumes "js_reach N F EPs js st acts" and "napi_delivers N" and "napi_queue_work N"
  shows "list_all work_ok (js_works js) \<and>
    (\<forall>d. waiting d (js_works js) + settled d acts = (if d < js_promises js then 1 else 0))"
  using assms(1)
proof induction
  case (init st)
  then show ?case by (simp add: initial_js_def)
next
  case (call js st acts E P f r js' st')
  from call.IH have ok: "list_all work_ok (js_works js)"
    and one: "waiting d (js_works js) + settled d acts = (if d < js_promises js then 1 else 0)" for d by auto
  from js_run_extends [OF call.hyps(3) assms(3)] show ?case
    unfolding extends_def by (elim disjE conjE exE) (use ok one in \<open>auto simp: less_Suc_eq\<close>)
next
  case (work js st acts E P ws w ws' new st')
  from work.IH work.hyps(3) have "work_ok w" by simp
  have "waiting d (ws @ ws') + settled d (acts @ new) = waiting d (js_works js) + settled d acts" for d
    using run_work_settles [OF work.hyps(4) assms(2) \<open>work_ok w\<close>] by (simp add: work.hyps(3))
  with work.IH work.hyps(3) show ?case by simp
qed simp

text \<open>C27. No promise of the JavaScript interface is lost or settled twice: in any run of the application, with the work
  of the pool in any order, every promise that a call has returned is either waited for by exactly one work item and not yet
  settled, or settled exactly once and waited for by none; so when the work is done every promise is settled.\<close>

theorem js_promises_settled_once:
  assumes "js_reach N F EPs js st acts" and "napi_delivers N" and "napi_queue_work N" and "d < js_promises js"
  shows "waiting d (js_works js) = 1 \<and> settled d acts = 0 \<or> waiting d (js_works js) = 0 \<and> settled d acts = 1"
proof -
  from js_reach_settling [OF assms(1-3)] assms(4) have "waiting d (js_works js) + settled d acts = 1" by simp
  then show ?thesis by linarith
qed

lemma js_engine_delivers: "napi_delivers js_engine" "napi_queue_work js_engine"
  by (simp_all add: napi_delivers_def js_engine_def)

definition js_time_args :: "js list" where
  "js_time_args = [JsObj [(''type'', JsStr ''time''), (''duration'', JsNum 500)], JsObj [(''usage'', JsStr ''media'')]]"

definition js_sample_start :: "(js js_result \<times> js js_state \<times> compatible_state option service agent_state) option" where
  "js_sample_start = JS_StartVibrate js_engine (sample_files '''' 0) sample_client_env sample_proxy (Some js_time_args) initial_js sample_agent"

lemma js_sample_promise: "map_option (\<lambda>(r, js, st). (r, js_promises js, map work_deferred (js_works js))) js_sample_start
    = Some (Promise 0, 1, [Some 0])"
  by code_simp

text \<open>One call, and then its work.\<close>

lemma js_promises_settled_once_witness:
  "\<exists>(js :: js js_state) (acts :: js js_action list). js_promises js = 1 \<and> js_works js = [] \<and>
     (waiting 0 (js_works js) = 1 \<and> settled 0 acts = 0 \<or> settled 0 acts = 1)"
proof -
  let ?R = "js_reach js_engine (sample_files '''' 0) {(sample_client_env, sample_proxy)}"
  obtain r js st where s: "js_sample_start = Some (r, js, st)" "js_promises js = 1" "length (js_works js) = 1"
    using js_sample_promise by (auto simp: map_option_case split: option.splits)
  have "js_run js_engine (sample_files '''' 0) sample_client_env sample_proxy (Fstart (Some js_time_args)) initial_js sample_agent
      = Some (r, js, st)" using s(1) by (simp add: js_sample_start_def)
  from js_reach.call [OF js_reach.init _ this] have "?R js st []" by simp
  moreover obtain w where w: "js_works js = [] @ w # []" using s(3) by (cases "js_works js") auto
  moreover obtain acts st' where "run_work js_engine sample_client_env sample_proxy w st = (acts, st')" using prod.exhaust by blast
  ultimately have "?R (js\<lparr>js_works := [] @ []\<rparr>) st' ([] @ acts)" by (intro js_reach.work) auto
  from js_promises_settled_once [OF this js_engine_delivers, of 0] s(2)
  have "js_promises (js\<lparr>js_works := []\<rparr>) = 1 \<and> js_works (js\<lparr>js_works := []\<rparr>) = [] \<and> settled 0 acts = 1" by simp
  then show ?thesis by blast
qed

section \<open>A vibration whose promise is resolved is played\<close>

definition js_target :: "'v napi \<Rightarrow> 'v \<Rightarrow> misc_identifier" where
  "js_target N attribute = \<lparr>mi_deviceId = int_property N attribute ''deviceId'' (-1),
     mi_vibratorId = (let n = int_property N attribute ''id'' (-1) in if n = 0 then -1 else n)\<rparr>"

lemma JS_ParseParameter_time:
  assumes "JS_GetPropertyString N effect ''type'' = Some ''time''"
    and "JS_ParseParameter N F A (effect # attribute # rest) default_js_info = Inr (info, i)"
  shows "JS_GetPropertyInt32 N effect ''duration'' = Some (jvi_duration info) \<and>
    JS_GetPropertyString N attribute ''usage'' = Some (jvi_usage info) \<and> i = js_target N attribute \<and> jvi_type info = ''time'' \<and>
    vpt_events (jvi_vibratorPattern info) = None"
  using assms
  by (auto simp: JS_ParseParameter_def JS_parse_effect_def Let_def js_target_def default_js_info_def default_pattern_def
      split: option.splits if_splits)

lemma JS_CheckParameters_usage:
  assumes "JS_CheckParameters_info info i cl = (ERR_OK, cl')"
  shows "\<exists>u. map_of g_usageType (jvi_usage info) = Some u \<and> vep_usage (GetVibratorEffectParameter i cl') = u"
  using assms
  by (auto simp: JS_CheckParameters_info_def JS_SetUsage_def AG_SetUsageEnhanced_def CL_SetUsage_def upd_effect_def
      GetVibratorEffectParameter_def split: if_splits option.splits prod.splits)

fun work_info :: "'v js_work \<Rightarrow> 'v async_info" where
  "work_info (CallbackWork ai) = ai"
| "work_info (PromiseWork ai) = ai"

lemma EmitAsyncWork_work:
  "EmitAsyncWork N p ai js = (r, js') \<Longrightarrow> js_works js' = js_works js @ [w] \<Longrightarrow>
     ai_code (work_info w) = ai_code ai \<and> ai_flag (work_info w) = ai_flag ai"
  by (auto simp: EmitAsyncWork_def EmitAsyncCallbackWork_def EmitPromiseWork_def split: option.splits if_splits)

lemma call_referenced_no_resolve [simp]: "Resolve d v \<notin> set (call_referenced N f args)"
  by (auto simp: call_referenced_def split: option.splits)

lemma resolved_code:
  assumes "run_work N E P w st = (acts, st')" and "Resolve d v \<in> set acts" and "ai_flag (work_info w) \<noteq> ''preset''"
  shows "ai_code (work_info w) = SUCCESS"
  using assms
  by (cases w) (auto simp: ExecuteCallBack_def CompleteCallback_def EmitSystemCallback_def CompletePromise_def
      split: option.splits if_splits prod.splits)

lemma JS_time_start:
  assumes "JS_VibrateEffect N F E P (effect # attribute # rest) js (cl, s) = Some (r, js', cl', s')"
    and "JS_GetPropertyString N effect ''type'' = Some ''time''" and "js_works js' = js_works js @ [w]"
  shows "\<exists>duration usage u cl1 code. JS_GetPropertyInt32 N effect ''duration'' = Some duration \<and>
    JS_GetPropertyString N attribute ''usage'' = Some usage \<and> map_of g_usageType usage = Some u \<and>
    vep_usage (GetVibratorEffectParameter (js_target N attribute) cl1) = u \<and>
    AG_StartVibratorOnceEnhanced E P (js_target N attribute) duration (cl1, s) = (code, cl', s') \<and>
    ai_code (work_info w) = code \<and> ai_flag (work_info w) \<noteq> ''preset''"
proof -
  obtain info i where p: "JS_ParseParameter N F (ce_malloc E) (effect # attribute # rest) default_js_info = Inr (info, i)"
    using assms(1,3) by (auto simp: JS_VibrateEffect_def js_throw_def split: sum.splits)
  note t = JS_ParseParameter_time [OF assms(2) p]
  obtain ret cl1 where c: "JS_CheckParameters_info info i cl = (ret, cl1)" by (cases "JS_CheckParameters_info info i cl")
  obtain code cl2 s2 where a: "AG_StartVibratorOnceEnhanced E P i (jvi_duration info) (cl1, s) = (code, cl2, s2)"
    using prod.exhaust by metis
  have start: "JS_StartVibrate_info E P info i (cl, s) = (if ret \<noteq> ERR_OK then Some (PARAMETER_ERROR, cl1, s) else Some (code, cl2, s2))"
    using c a t by (simp add: JS_StartVibrate_info_def)
  from assms(1,3) p t start have ok: "ret = ERR_OK" "cl2 = cl'" "s2 = s'"
    and emit: "EmitAsyncWork N (callback_arg N (effect # attribute # rest) 2) (new_async\<lparr>ai_info := info, ai_code := code\<rparr>) js = (r, js')"
    by (auto simp: JS_VibrateEffect_def js_throw_def Let_def split: if_splits prod.splits)
  from EmitAsyncWork_work [OF emit assms(3)] have w: "ai_code (work_info w) = code" "ai_flag (work_info w) \<noteq> ''preset''"
    by (simp_all add: new_async_def)
  obtain u where "map_of g_usageType (jvi_usage info) = Some u" "vep_usage (GetVibratorEffectParameter i cl1) = u"
    using JS_CheckParameters_usage c ok(1) by blast
  then show ?thesis using t a ok w by (intro exI [of _ "jvi_duration info"] exI [of _ "jvi_usage info"] exI [of _ u] exI [of _ cl1] exI [of _ code]) simp
qed

text \<open>C2. A vibration that a JavaScript application is told has started is played on a device: when the promise of
  \<^verbatim>\<open>startVibration\<close> with an effect of type \<^verbatim>\<open>time\<close> is resolved, in any state the service can reach, one of the vibrators
  that the attribute means has a running thread that carries the caller's process and the usage that the attribute names, and
  whose first call to the device starts a vibration of the requested duration.\<close>

theorem js_vibration_is_played:
  assumes "service_reach U Ws (sv :: 'c service)" and "W \<in> Ws"
    and "JS_StartVibrate N F E (direct_proxy U W c) (Some (effect # attribute # rest)) js (cl, sv) = Some (r, js', cl', sv')"
    and "JS_GetPropertyString N effect ''type'' = Some ''time''"
    and "js_works js' = js_works js @ [w]" and "run_work N E' P' w st = (acts, st')" and "Resolve p v \<in> set acts"
  shows "\<exists>duration usage u k t. JS_GetPropertyInt32 N effect ''duration'' = Some duration \<and>
    JS_GetPropertyString N attribute ''usage'' = Some usage \<and> map_of g_usageType usage = Some u \<and>
    k \<in> set (targets (ipc_identifier (js_target N attribute)) (sv_devices sv)) \<and> GetVibratorThread k sv' = Some t \<and> mt_running t \<and>
    vi_pid (th_info t) = w_pid W \<and> vi_usage (th_info t) = u \<and>
    (\<forall>V T d script. \<exists>cs. th_calls (snd (play U V T (run_of t (d :: 'c) script))) = (0, CallStartOnce k (word_of_int duration)) # cs)"
proof -
  let ?P = "direct_proxy U W c"
  have "JS_VibrateEffect N F E ?P (effect # attribute # rest) js (cl, sv) = Some (r, js', cl', sv')"
    using assms(3,5) by (auto simp: JS_StartVibrate_def js_throw_def split: if_splits)
  from JS_time_start [OF this assms(4,5)] obtain duration usage u cl1 code where
    start: "JS_GetPropertyInt32 N effect ''duration'' = Some duration" "JS_GetPropertyString N attribute ''usage'' = Some usage"
      "map_of g_usageType usage = Some u" and u: "vep_usage (GetVibratorEffectParameter (js_target N attribute) cl1) = u"
    and called: "AG_StartVibratorOnceEnhanced E ?P (js_target N attribute) duration (cl1, sv) = (code, cl', sv')"
    and w: "ai_code (work_info w) = code" "ai_flag (work_info w) \<noteq> ''preset''"
    by (elim exE conjE)
  have "code = SUCCESS" using resolved_code [OF assms(6,7) w(2)] w(1) by simp
  from agent_vibration_is_played [OF assms(1,2) called [unfolded this]] start u show ?thesis by simp
qed

lemma js_sample_resolved: "map_option (\<lambda>(r, js, st). map (\<lambda>w. fst (run_work js_engine sample_client_env sample_proxy w st)) (js_works js))
    js_sample_start = Some [[Resolve 0 JsUndefined]]"
  by code_simp

lemma js_sample_type: "JS_GetPropertyString js_engine (JsObj [(''type'', JsStr ''time''), (''duration'', JsNum 500)]) ''type'' = Some ''time''"
  by code_simp

text \<open>The sample call: 500 ms of the usage \<^verbatim>\<open>media\<close>, on every vibrator.\<close>

lemma js_vibration_is_played_witness:
  "\<exists>r js cl sv k t. js_sample_start = Some (r, js, cl, sv) \<and> GetVibratorThread k sv = Some t \<and> mt_running t \<and>
     vi_pid (th_info t) = 7 \<and> Some (vi_usage (th_info t)) = map_of g_usageType ''media''"
proof -
  obtain r js cl sv w where s: "js_sample_start = Some (r, js, cl, sv)" and w: "js_works js = [w]"
    and run: "fst (run_work js_engine sample_client_env sample_proxy w (cl, sv)) = [Resolve 0 JsUndefined]"
    using js_sample_resolved by (auto simp: map_option_case split: option.splits)
  obtain acts st' where a: "run_work js_engine sample_client_env sample_proxy w (cl, sv) = (acts, st')" using prod.exhaust by blast
  have media: "JS_GetPropertyString js_engine (JsObj [(''usage'', JsStr ''media'')]) ''usage'' = Some ''media''" by code_simp
  from js_vibration_is_played [OF sample_service_reach singletonI
      s [unfolded js_sample_start_def js_time_args_def sample_agent_def sample_proxy_def] js_sample_type _ a, of 0 JsUndefined]
    w run a media
  obtain k t where "GetVibratorThread k sv = Some t" "mt_running t" "vi_pid (th_info t) = w_pid sample_world"
    "map_of g_usageType ''media'' = Some (vi_usage (th_info t))"
    by (auto simp: initial_js_def)
  with s show ?thesis
    by (intro exI [of _ r] exI [of _ js] exI [of _ cl] exI [of _ sv] exI [of _ k] exI [of _ t]) (simp add: sample_world_def)
qed

section \<open>What a rejected call leaves behind\<close>

text \<open>The usage is stored before the type is checked, and stays for the next request.\<close>

lemma rejected_type_sets_usage:
  assumes "map_of g_usageType (jvi_usage info) = Some u" and "jvi_type info \<notin> set g_allowedTypes"
  shows "fst (JS_CheckParameters_info info i cl) = PARAMETER_ERROR \<and>
    vep_usage (GetVibratorEffectParameter i (snd (JS_CheckParameters_info info i cl))) = u"
proof -
  have "0 \<le> u \<and> u < USAGE_MAX" using assms(1) by (auto simp: g_usageType_def split: if_splits)
  with assms show ?thesis
    by (simp add: JS_CheckParameters_info_def JS_SetUsage_def AG_SetUsageEnhanced_def CL_SetUsage_def upd_effect_def
        GetVibratorEffectParameter_def)
qed

text \<open>The function \<^verbatim>\<open>fail\<close> gets the message but not the code.\<close>

lemma fail_gets_no_code:
  assumes "ai_code ai \<noteq> SUCCESS" and "CallFunction f args \<in> set (EmitSystemCallback N ai)"
  shows "ai_callback1 ai = Some f \<and> (\<exists>m. napi_create_string_utf8 N (ai_message ai) = Some m \<and> args = [m])"
  using assms by (auto simp: EmitSystemCallback_def call_referenced_def split: option.splits if_splits Option.bind_splits)

end
