(* ===== verification/VibratorControl.thy ===== *)
theory VibratorControl
  imports AgentProps
begin

text \<open>
  The command line tool, \<^verbatim>\<open>tools/ohos-vibratorControl/src/main.cpp\<close>: a client of the agent that starts
  an effect or asks whether it is supported. What it prints is a list of lines of text and of objects, which the library
  cJSON prints on a line each; the strings of an object are assumed to be allocated.
\<close>

section \<open>Environment and output\<close>

datatype cli_item = Str string | Flag bool | Obj "(string \<times> cli_item) list"

datatype cli_output = Line string | Object "(string \<times> cli_item) list"

text \<open>
  Whether the first and the second object of a run can be made, whether the output stream is good, what memory holds
  between the end of an argument and the next \<^verbatim>\<open>'\\0'\<close>, and the order in which the table of the commands is traversed.
\<close>

record cli_env =
  cli_object0 :: bool
  cli_object1 :: bool
  cli_cout :: bool
  cli_after :: "nat \<Rightarrow> string"
  cli_order :: "string list"

type_synonym 's cli_result = "int \<times> cli_output list \<times> 's agent_state"

definition apostrophe :: string where "apostrophe = [CHR 0x27]"
definition nl :: string where "nl = [CHR 0x0A]"

definition OutputSuccess :: "cli_env \<Rightarrow> (string \<times> cli_item) list \<Rightarrow> int \<times> cli_output list" where
  "OutputSuccess X data =
     (if \<not> cli_object1 X then (1, [])
      else (if cli_cout X then 0 else 1, [Object [(''type'', Str ''result''), (''status'', Str ''success''), (''data'', Obj data)]]))"

definition OutputError :: "cli_env \<Rightarrow> string \<Rightarrow> string \<Rightarrow> string \<Rightarrow> int \<times> cli_output list" where
  "OutputError X code message suggestion =
     (if \<not> cli_object0 X then (1, [])
      else (1, [Object [(''type'', Str ''result''), (''status'', Str ''failed''), (''errCode'', Str code), (''errMsg'', Str message),
        (''suggestion'', Str suggestion)]]))"

definition OutputInvalidCommandError :: "cli_env \<Rightarrow> string \<Rightarrow> int \<times> cli_output list" where
  "OutputInvalidCommandError X targetCmd =
     (if \<not> cli_object0 X then (1, [])
      else (1, [Object [(''status'', Str ''failed''), (''errCode'', Str ''ERR_VIB_INVALID_COMMAND''),
        (''errMsg'', Str (''Unknown command: '' @ targetCmd)),
        (''suggestion'', Str (''Run '' @ apostrophe @ ''ohos-vibratorControl --help'' @ apostrophe @ '' to see available commands''))]]))"

section \<open>Arguments\<close>

text \<open>
  \<^verbatim>\<open>strncmp(argv[i], "--effectId", 11)\<close> compares the terminator too, so only the argument \<^verbatim>\<open>--effectId\<close>
  itself is equal; \<^verbatim>\<open>argv[i][11]\<close> is then the character behind its terminator. \<open>k\<close> is the position of the first
  argument among those of the process.
\<close>

fun ParseEffectId_loop :: "(nat \<Rightarrow> string) \<Rightarrow> nat \<Rightarrow> string list \<Rightarrow> string \<Rightarrow> string" where
  "ParseEffectId_loop after k [] eff = eff"
| "ParseEffectId_loop after k (a # rest) eff =
     (if a \<noteq> ''--effectId'' then ParseEffectId_loop after (Suc k) rest eff
      else if after k \<noteq> [] \<and> hd (after k) = CHR ''='' then ParseEffectId_loop after (Suc k) rest (tl (after k))
      else case rest of
        [] \<Rightarrow> eff
      | b # rest' \<Rightarrow>
          if b = [] \<or> hd b \<noteq> CHR ''-'' then ParseEffectId_loop after (Suc (Suc k)) rest' b
          else ParseEffectId_loop after (Suc k) rest eff)"

definition ParseEffectId :: "cli_env \<Rightarrow> nat \<Rightarrow> string list \<Rightarrow> string" where
  "ParseEffectId X k argv = ParseEffectId_loop (cli_after X) k argv []"

section \<open>Commands\<close>

datatype command_handler = CmdHelp_handler | CmdStartVibrator_handler | CmdIsSupportEffect_handler

record Command =
  cmd_name :: string
  cmd_description :: string
  cmd_usage :: string
  cmd_parameters :: string
  cmd_examples :: string
  cmd_handler :: command_handler

definition InitCommands :: "Command list" where
  "InitCommands =
     [\<lparr>cmd_name = ''help'', cmd_description = ''Show this help message'', cmd_usage = ''ohos-vibratorControl help [command]'',
        cmd_parameters = '' command           Optional. Show detailed help for a specific command.'',
        cmd_examples = '' ohos-vibratorControl help'' @ nl @ '' ohos-vibratorControl help startVibrator'',
        cmd_handler = CmdHelp_handler\<rparr>,
      \<lparr>cmd_name = ''startVibrator'', cmd_description = ''Start preset vibration'',
        cmd_usage = ''ohos-vibratorControl startVibrator --effectId <string>'',
        cmd_parameters = ''    --effectId       Required string. The preset vibration effect ID '' @
          ''(e.g., haptic.clock.timer, haptic.long.press)'',
        cmd_examples = ''    ohos-vibratorControl startVibrator --effectId haptic.clock.timer'' @ nl @
          ''    ohos-vibratorControl startVibrator --effectId haptic.long.press.heavy'',
        cmd_handler = CmdStartVibrator_handler\<rparr>,
      \<lparr>cmd_name = ''isSupportEffect'', cmd_description = ''Query if a preset effect is supported'',
        cmd_usage = ''ohos-vibratorControl isSupportEffect --effectId <string>'',
        cmd_parameters = ''    --effectId       Required string. The preset vibration effect ID to query (e.g., haptic.clock.timer)'',
        cmd_examples = ''    ohos-vibratorControl isSupportEffect --effectId haptic.clock.timer'' @ nl @
          ''    ohos-vibratorControl isSupportEffect --effectId haptic.long.press.heavy'',
        cmd_handler = CmdIsSupportEffect_handler\<rparr>]"

definition find_command :: "string \<Rightarrow> Command option" where
  "find_command name = map_of (map (\<lambda>c. (cmd_name c, c)) InitCommands) name"

text \<open>The format \<^verbatim>\<open>%-18s\<close>.\<close>

definition pad18 :: "string \<Rightarrow> string" where
  "pad18 s = s @ replicate (18 - length s) (CHR '' '')"

definition ShowGeneralHelp :: "cli_env \<Rightarrow> string \<Rightarrow> cli_output list" where
  "ShowGeneralHelp X prog =
     map Line ([prog @ '' - Vibrator control utility for starting preset vibrations and checking effect support'', '''', ''Usage:'',
       ''  '' @ prog @ '' [options]'', ''  '' @ prog @ '' <command> [options]'', '''', ''Parameters:'',
       ''  --help             Display this help message'', '''', ''SubCommands:''] @
     map (\<lambda>name. ''  '' @ pad18 name @ '' '' @ (case find_command name of None \<Rightarrow> '''' | Some c \<Rightarrow> cmd_description c)) (cli_order X) @
     ['''', ''Examples:'', ''  '' @ prog @ '' --help''] @
     (case filter (\<lambda>name. name \<noteq> ''help'') (cli_order X) of [] \<Rightarrow> [] | name # _ \<Rightarrow> [''  '' @ prog @ '' '' @ name @ '' --help'']))"

definition ShowCommandHelp :: "string \<Rightarrow> Command \<Rightarrow> cli_output list" where
  "ShowCommandHelp prog cmd =
     map Line [prog @ '' '' @ cmd_name cmd @ '' - '' @ cmd_description cmd, '''', ''Usage:'', ''  '' @ cmd_usage cmd, '''', ''Parameters:'',
       cmd_parameters cmd, ''    '' @ pad18 ''--help'' @ '' Display this help message'', '''', ''Examples:'', cmd_examples cmd]"

text \<open>The search starts at the second of the arguments it is given.\<close>

definition CmdHelp :: "cli_env \<Rightarrow> string \<Rightarrow> string list \<Rightarrow> int \<times> cli_output list" where
  "CmdHelp X prog argv =
     (let targetCmd = (case filter (\<lambda>a. a = [] \<or> hd a \<noteq> CHR ''-'') (drop 1 argv) of [] \<Rightarrow> [] | a # _ \<Rightarrow> a) in
      if targetCmd = [] then (0, ShowGeneralHelp X prog)
      else case find_command targetCmd of
        None \<Rightarrow> OutputInvalidCommandError X targetCmd
      | Some cmd \<Rightarrow> (0, ShowCommandHelp prog cmd))"

definition missing_argument :: "cli_env \<Rightarrow> string \<Rightarrow> int \<times> cli_output list" where
  "missing_argument X name = OutputError X ''ERR_VIB_ARG_MISSING'' ''Missing required parameter: --effectId''
     (''Run '' @ apostrophe @ ''ohos-vibratorControl '' @ name @ '' --help'' @ apostrophe @ '' for usage details'')"

definition argument_too_long :: "cli_env \<Rightarrow> int \<times> cli_output list" where
  "argument_too_long X = OutputError X ''ERR_VIB_ARG_TOO_LONG'' ''EffectId length exceeds maximum limit of 256 characters''
     ''Please provide a shorter effect ID''"

definition CmdStartVibrator ::
    "cli_env \<Rightarrow> 'j client_env \<Rightarrow> 's misc_proxy \<Rightarrow> string list \<Rightarrow> 's agent_state \<Rightarrow> 's cli_result" where
  "CmdStartVibrator X E P argv st =
     (let eff = ParseEffectId X 2 argv in
      if eff = [] then (let (code, out) = missing_argument X ''startVibrator'' in (code, out, st))
      else if length eff > 256 then (let (code, out) = argument_too_long X in (code, out, st))
      else let (ret, st) = AG_StartVibrator E P (Some eff) st in
        if ret \<noteq> SUCCESS then
          (let (code, out) = OutputError X ''ERR_VIB_START_FAILED'' (''Failed to start vibrator with effect: '' @ eff)
                 (''Please check if the effect is supported using '' @ apostrophe @ ''ohos-vibratorControl isSupportEffect --effectId '' @
                   eff @ apostrophe)
           in (code, out, st))
        else if \<not> cli_object0 X then (1, [], st)
        else let (code, out) = OutputSuccess X [(''effectId'', Str eff), (''status'', Str ''vibrating'')] in (code, out, st))"

definition CmdIsSupportEffect ::
    "cli_env \<Rightarrow> 'j client_env \<Rightarrow> 's misc_proxy \<Rightarrow> string list \<Rightarrow> 's agent_state \<Rightarrow> 's cli_result" where
  "CmdIsSupportEffect X E P argv st =
     (let eff = ParseEffectId X 2 argv in
      if eff = [] then (let (code, out) = missing_argument X ''isSupportEffect'' in (code, out, st))
      else if length eff > 256 then (let (code, out) = argument_too_long X in (code, out, st))
      else let (ret, st) = AG_IsSupportEffect E P (Some eff) False st in
        case ret of
          Inl _ \<Rightarrow>
            (let (code, out) = OutputError X ''ERR_VIB_QUERY_FAILED'' (''Failed to query effect support for: '' @ eff)
                   ''Please check the effect ID format and try again''
             in (code, out, st))
        | Inr state \<Rightarrow>
            if \<not> cli_object0 X then (1, [], st)
            else let (code, out) = OutputSuccess X [(''effectId'', Str eff), (''isSupported'', Flag state)] in (code, out, st))"

fun run_handler ::
    "cli_env \<Rightarrow> 'j client_env \<Rightarrow> 's misc_proxy \<Rightarrow> string \<Rightarrow> command_handler \<Rightarrow> string list \<Rightarrow> 's agent_state \<Rightarrow> 's cli_result" where
  "run_handler X E P prog CmdHelp_handler argv st = (let (code, out) = CmdHelp X prog argv in (code, out, st))"
| "run_handler X E P prog CmdStartVibrator_handler argv st = CmdStartVibrator X E P argv st"
| "run_handler X E P prog CmdIsSupportEffect_handler argv st = CmdIsSupportEffect X E P argv st"

definition PrintUsage :: "string \<Rightarrow> cli_output list" where
  "PrintUsage prog = map Line [''[ERROR] Usage: '' @ prog @ '' [options...]'',
     ''[ERROR] Run '' @ apostrophe @ prog @ '' help'' @ apostrophe @ '' for more information'']"

text \<open>The arguments include the name of the program.\<close>

definition cli_main ::
    "cli_env \<Rightarrow> 'j client_env \<Rightarrow> 's misc_proxy \<Rightarrow> string list \<Rightarrow> 's agent_state \<Rightarrow> 's cli_result" where
  "cli_main X E P argv st =
     (let prog = hd argv in
      if length argv \<ge> 2 \<and> argv ! 1 = ''--help'' then (0, snd (CmdHelp X prog [prog]), st)
      else if length argv < 2 then (1, PrintUsage prog, st)
      else let cmdName = argv ! 1 in
        if ''--help'' \<in> set (drop 2 argv) then (0, snd (CmdHelp X prog [prog, cmdName]), st)
        else case find_command cmdName of
          None \<Rightarrow> (1, Line (''[ERROR] Unknown command: '' @ cmdName) # PrintUsage prog, st)
        | Some cmd \<Rightarrow> run_handler X E P prog (cmd_handler cmd) (drop 2 argv) st)"

section \<open>What the tool does to the vibrators\<close>

text \<open>The characters behind the terminator of an argument never start with an equals sign.\<close>

definition no_equals_behind :: "cli_env \<Rightarrow> bool" where
  "no_equals_behind X \<longleftrightarrow> (\<forall>k. cli_after X k = [] \<or> hd (cli_after X k) \<noteq> CHR ''='')"

text \<open>Then the effect is the last argument that follows \<^verbatim>\<open>--effectId\<close> and does not start with a dash.\<close>

definition given_effect :: "string \<Rightarrow> string list \<Rightarrow> bool" where
  "given_effect e argv \<longleftrightarrow> (\<exists>i. Suc i < length argv \<and> argv ! i = ''--effectId'' \<and> argv ! Suc i = e \<and> (e = [] \<or> hd e \<noteq> CHR ''-''))"

lemma given_effect_Cons: "given_effect e xs \<Longrightarrow> given_effect e (x # xs)"
  unfolding given_effect_def by (metis length_Cons Suc_less_eq nth_Cons_Suc)

lemma given_effect_here: "e = [] \<or> hd e \<noteq> CHR ''-'' \<Longrightarrow> given_effect e (''--effectId'' # e # xs)"
  unfolding given_effect_def by (intro exI [of _ 0]) simp

lemma ParseEffectId_loop_step:
  assumes "no_equals_behind X"
  shows "ParseEffectId_loop (cli_after X) k (''--effectId'' # rest) e =
    (case rest of [] \<Rightarrow> e | b # rest' \<Rightarrow> if b = [] \<or> hd b \<noteq> CHR ''-'' then ParseEffectId_loop (cli_after X) (Suc (Suc k)) rest' b
       else ParseEffectId_loop (cli_after X) (Suc k) rest e)"
proof -
  have "\<not> (cli_after X k \<noteq> [] \<and> hd (cli_after X k) = CHR ''='')" using assms by (auto simp: no_equals_behind_def)
  then show ?thesis by (simp only: ParseEffectId_loop.simps(2) simp_thms if_False if_True)
qed

lemma ParseEffectId_loop_given:
  assumes "no_equals_behind X"
  shows "ParseEffectId_loop (cli_after X) k argv e = e \<or> given_effect (ParseEffectId_loop (cli_after X) k argv e) argv"
proof (induction "length argv" arbitrary: k argv e rule: less_induct)
  case less
  show ?case
  proof (cases argv)
    case (Cons a rest)
    note IH = less [of rest, unfolded Cons]
    show ?thesis
    proof (cases "a = ''--effectId''")
      case False
      then have "ParseEffectId_loop (cli_after X) k argv e = ParseEffectId_loop (cli_after X) (Suc k) rest e" by (simp add: Cons)
      with IH [of "Suc k" e] given_effect_Cons [of _ rest a] show ?thesis unfolding Cons by fastforce
    next
      case True
      show ?thesis
      proof (cases rest)
        case Nil
        with True Cons ParseEffectId_loop_step [OF assms, of k "[]" e] show ?thesis by simp
      next
        case r: (Cons b rest')
        show ?thesis
        proof (cases "b = [] \<or> hd b \<noteq> CHR ''-''")
          case b: True
          then have "ParseEffectId_loop (cli_after X) k argv e = ParseEffectId_loop (cli_after X) (Suc (Suc k)) rest' b"
            using True Cons r ParseEffectId_loop_step [OF assms, of k rest e] by simp
          moreover have "length rest' < length argv" by (simp add: Cons r)
          ultimately show ?thesis using less [of rest' "Suc (Suc k)" b] given_effect_here [OF b, of rest'] given_effect_Cons
            unfolding Cons r True by metis
        next
          case False
          then have "ParseEffectId_loop (cli_after X) k argv e = ParseEffectId_loop (cli_after X) (Suc k) rest e"
            using True Cons r ParseEffectId_loop_step [OF assms, of k rest e] by simp
          with IH [of "Suc k" e] given_effect_Cons [of _ rest a] show ?thesis unfolding Cons by fastforce
        qed
      qed
    qed
  qed simp
qed

lemma ParseEffectId_given:
  assumes "no_equals_behind X" and "ParseEffectId X k argv \<noteq> []"
  shows "given_effect (ParseEffectId X k argv) argv"
  using ParseEffectId_loop_given [OF assms(1), of k argv "[]"] assms(2) by (simp add: ParseEffectId_def)

definition help_requested :: "string list \<Rightarrow> bool" where
  "help_requested argv \<longleftrightarrow> (length argv \<ge> 2 \<and> argv ! 1 = ''--help'') \<or> ''--help'' \<in> set (drop 2 argv) \<or> (length argv \<ge> 2 \<and> argv ! 1 = ''help'')"

lemma find_command_cases:
  assumes "find_command name = Some cmd"
  obtains "name = ''help''" "cmd_handler cmd = CmdHelp_handler" | "name = ''startVibrator''" "cmd_handler cmd = CmdStartVibrator_handler"
    | "name = ''isSupportEffect''" "cmd_handler cmd = CmdIsSupportEffect_handler"
  using assms by (auto simp: find_command_def InitCommands_def split: if_splits)

lemma error_code: "fst (OutputError X c m s) = 1" "fst (missing_argument X n) = 1" "fst (argument_too_long X) = 1"
  by (simp_all add: OutputError_def missing_argument_def argument_too_long_def)

lemma CmdStartVibrator_touches:
  assumes "CmdStartVibrator X E P argv st = (code, out, st')" and "no_equals_behind X" and "code = 0 \<or> st' \<noteq> st"
  shows "\<exists>e ret. given_effect e argv \<and> e \<noteq> [] \<and> length e \<le> 256 \<and> AG_StartVibrator E P (Some e) st = (ret, st') \<and> (code = 0 \<longrightarrow> ret = SUCCESS)"
proof -
  let ?e = "ParseEffectId X 2 argv"
  have "?e \<noteq> [] \<and> length ?e \<le> 256 \<and> (\<exists>ret. AG_StartVibrator E P (Some ?e) st = (ret, st') \<and> (code = 0 \<longrightarrow> ret = SUCCESS))"
    using assms(1,3) error_code
    by (auto simp: CmdStartVibrator_def Let_def split: if_splits prod.splits) (metis fst_conv zero_neq_one)+
  with ParseEffectId_given [OF assms(2)] show ?thesis by blast
qed

lemma CmdIsSupportEffect_touches:
  assumes "CmdIsSupportEffect X E P argv st = (code, out, st')" and "no_equals_behind X" and "code = 0 \<or> st' \<noteq> st"
  shows "\<exists>e ret. given_effect e argv \<and> e \<noteq> [] \<and> length e \<le> 256 \<and> AG_IsSupportEffect E P (Some e) False st = (ret, st') \<and>
    (code = 0 \<longrightarrow> (\<exists>b. ret = Inr b))"
proof -
  let ?e = "ParseEffectId X 2 argv"
  have "?e \<noteq> [] \<and> length ?e \<le> 256 \<and> (\<exists>ret. AG_IsSupportEffect E P (Some ?e) False st = (ret, st') \<and> (code = 0 \<longrightarrow> (\<exists>b. ret = Inr b)))"
    using assms(1,3) error_code
    by (auto simp: CmdIsSupportEffect_def Let_def split: if_splits prod.splits sum.splits) (metis fst_conv zero_neq_one)+
  with ParseEffectId_given [OF assms(2)] show ?thesis by blast
qed

text \<open>C38. The tool touches the vibrators, or reports success, only for a complete command: unless help is asked for, the exit code
  0 or a change of the client or of the service means that the command is \<^verbatim>\<open>startVibrator\<close> or
  \<^verbatim>\<open>isSupportEffect\<close>, that an effect of 1 to 256 characters is given behind \<^verbatim>\<open>--effectId\<close>, and that the agent was
  called once, with this effect; with the exit code 0 the agent has succeeded. Asking for help changes nothing. What lies in memory
  behind an argument, usually the next argument, is assumed not to start with an equals sign.\<close>

theorem cli_touches_only_when_asked:
  assumes "cli_main X E P argv st = (code, out, st')" and "no_equals_behind X"
    and "st' \<noteq> st \<or> code = 0 \<and> \<not> help_requested argv"
  shows "\<not> help_requested argv \<and> (\<exists>e. given_effect e (drop 2 argv) \<and> e \<noteq> [] \<and> length e \<le> 256 \<and>
     (argv ! 1 = ''startVibrator'' \<and> (\<exists>ret. AG_StartVibrator E P (Some e) st = (ret, st') \<and> (code = 0 \<longrightarrow> ret = SUCCESS)) \<or>
      argv ! 1 = ''isSupportEffect'' \<and> (\<exists>ret. AG_IsSupportEffect E P (Some e) False st = (ret, st') \<and> (code = 0 \<longrightarrow> (\<exists>b. ret = Inr b)))))"
proof -
  have len: "length argv \<ge> 2" and no_help: "argv ! 1 \<noteq> ''--help''" "''--help'' \<notin> set (drop 2 argv)"
    using assms(1,3) by (auto simp: cli_main_def Let_def help_requested_def split: if_splits)
  obtain cmd where cmd: "find_command (argv ! 1) = Some cmd"
    "run_handler X E P (hd argv) (cmd_handler cmd) (drop 2 argv) st = (code, out, st')"
    using assms(1,3) len no_help by (auto simp: cli_main_def Let_def split: option.splits)
  from cmd(1) show ?thesis
  proof (cases rule: find_command_cases)
    case 1
    with cmd(2) assms(3) len show ?thesis by (auto simp: help_requested_def split: prod.splits)
  next
    case 2
    with cmd(2) have r: "CmdStartVibrator X E P (drop 2 argv) st = (code, out, st')" by simp
    from assms(3) have "code = 0 \<or> st' \<noteq> st" by blast
    from CmdStartVibrator_touches [OF r assms(2) this] 2 no_help show ?thesis by (auto simp: help_requested_def)
  next
    case 3
    with cmd(2) have r: "CmdIsSupportEffect X E P (drop 2 argv) st = (code, out, st')" by simp
    from assms(3) have "code = 0 \<or> st' \<noteq> st" by blast
    from CmdIsSupportEffect_touches [OF r assms(2) this] 3 no_help show ?thesis by (auto simp: help_requested_def)
  qed
qed

definition sample_cli :: cli_env where
  "sample_cli = \<lparr>cli_object0 = True, cli_object1 = True, cli_cout = True, cli_after = (\<lambda>_. []), cli_order = map cmd_name InitCommands\<rparr>"

definition sample_cli_run :: "string list \<Rightarrow> compatible_state option service cli_result" where
  "sample_cli_run argv = cli_main sample_cli sample_client_env sample_proxy (''ohos-vibratorControl'' # argv) sample_agent"

definition sample_cli_effect :: string where "sample_cli_effect = ''haptic.clock.timer''"

lemma cli_touches_only_when_asked_witness:
  "\<exists>out st'. sample_cli_run [''isSupportEffect'', ''--effectId'', sample_cli_effect] = (0, out, st') \<and>
     (\<exists>b. AG_IsSupportEffect sample_client_env sample_proxy (Some sample_cli_effect) False sample_agent = (Inr b, st'))"
proof -
  let ?argv = "[''isSupportEffect'', ''--effectId'', sample_cli_effect]"
  obtain code out st' where r: "sample_cli_run ?argv = (code, out, st')" using prod.exhaust by metis
  have "fst (sample_cli_run ?argv) = 0" by code_simp
  with r have zero: "code = 0" by simp
  have "no_equals_behind sample_cli" by (simp add: no_equals_behind_def sample_cli_def)
  from cli_touches_only_when_asked [OF r [unfolded sample_cli_run_def] this]
  obtain e ret where "given_effect e [''--effectId'', sample_cli_effect]"
    "AG_IsSupportEffect sample_client_env sample_proxy (Some e) False sample_agent = (ret, st')" "\<exists>b. ret = Inr b"
    using zero by (auto simp: help_requested_def sample_cli_effect_def)
  moreover from this(1) have "e = sample_cli_effect" by (auto simp: given_effect_def less_Suc_eq)
  ultimately show ?thesis using r zero by blast
qed

section \<open>What differs from the documents\<close>

text \<open>The form with an equals sign is not read.\<close>

lemma equals_form_ignored: "ParseEffectId X k [''--effectId='' @ e] = []"
  by (simp add: ParseEffectId_def)

text \<open>The documented \<^verbatim>\<open>help startVibrator\<close> shows the general help.\<close>

lemma help_of_command_is_general: "cli_main X E P [prog, ''help'', ''startVibrator''] st = (0, ShowGeneralHelp X prog, st)"
  by (simp add: cli_main_def find_command_def InitCommands_def CmdHelp_def Let_def)

text \<open>An unknown command gives text instead of the documented object; help for one gives the object, and the code 0.\<close>

lemma unknown_command:
  assumes "find_command cmd = None" and "cmd \<noteq> ''--help''" and "cmd \<noteq> []" and "hd cmd \<noteq> CHR ''-''"
  shows "cli_main X E P [prog, cmd] st = (1, Line (''[ERROR] Unknown command: '' @ cmd) # PrintUsage prog, st)"
    and "cli_main X E P [prog, cmd, ''--help''] st = (0, snd (OutputInvalidCommandError X cmd), st)"
  using assms by (simp_all add: cli_main_def CmdHelp_def Let_def)

end
