(* ===== verification/JsBuilder.thy ===== *)
theory JsBuilder
  imports JsVibrate
begin

text \<open>
  A pattern that comes from the builder is what \<^verbatim>\<open>startVibration\<close> reads: the two sides of
  \<^verbatim>\<open>frameworks/js/napi/vibrator/src\<close> agree on the form of the object and on the bounds of its numbers.
\<close>

section \<open>Objects and arrays that were built\<close>

text \<open>An object with these numbers.\<close>

definition has_int :: "'v napi \<Rightarrow> 'v \<Rightarrow> string \<Rightarrow> int \<Rightarrow> bool" where
  "has_int N v name x \<longleftrightarrow> JS_GetPropertyInt32 N v name = Some x"

abbreviation set_ints :: "'v napi \<Rightarrow> (string \<times> int) list \<Rightarrow> 'v \<Rightarrow> 'v option" where
  "set_ints N \<equiv> try_fold (\<lambda>(name, x) obj. JS_CreateInt32Property N obj name x)"

lemma napi_objectsD:
  assumes "napi_objects N"
  shows "int32 x \<Longrightarrow> napi_create_int32 N x = Some v \<Longrightarrow> napi_typeof N v = Some napi_number \<and> napi_get_value_int32 N v = Some x"
    and "napi_create_object N = Some v \<Longrightarrow> napi_typeof N v = Some napi_object"
    and "napi_set_named_property N v name y = Some v' \<Longrightarrow> napi_typeof N v' = napi_typeof N v"
    and "napi_set_named_property N v name y = Some v' \<Longrightarrow>
      napi_has_named_property N v' k = (if k = name then Some True else napi_has_named_property N v k)"
    and "napi_set_named_property N v name y = Some v' \<Longrightarrow>
      napi_get_named_property N v' k = (if k = name then Some y else napi_get_named_property N v k)"
  using assms unfolding napi_objects_def by blast+

lemma set_named_has_int:
  assumes "napi_objects N" and "napi_set_named_property N v name y = Some v'" and "k \<noteq> name"
  shows "has_int N v' k x = has_int N v k x"
  using assms(3) napi_objectsD(4,5) [OF assms(1,2)] by (simp add: has_int_def JS_GetPropertyInt32_def)

lemma JS_CreateInt32Property_has_int:
  assumes "napi_objects N" and "JS_CreateInt32Property N v name y = Some v'"
  shows "int32 y \<Longrightarrow> has_int N v' name y" and "k \<noteq> name \<Longrightarrow> has_int N v' k x = has_int N v k x"
    and "napi_typeof N v' = napi_typeof N v"
proof -
  obtain z where z: "napi_create_int32 N y = Some z" "napi_set_named_property N v name z = Some v'"
    using assms(2) by (auto simp: JS_CreateInt32Property_def split: option.splits)
  show "has_int N v' name y" if "int32 y"
    using napi_objectsD(1) [OF assms(1) that z(1)] napi_objectsD(4,5) [OF assms(1) z(2), of name]
    by (simp add: has_int_def JS_GetPropertyInt32_def JS_GetInt32Value_def)
  show "k \<noteq> name \<Longrightarrow> has_int N v' k x = has_int N v k x" by (rule set_named_has_int [OF assms(1) z(2)])
  show "napi_typeof N v' = napi_typeof N v" by (rule napi_objectsD(3) [OF assms(1) z(2)])
qed

lemma set_ints_keep:
  assumes "napi_objects N" and "set_ints N l v = Some v'"
  shows "napi_typeof N v' = napi_typeof N v \<and> (k \<notin> fst ` set l \<longrightarrow> has_int N v' k x = has_int N v k x)"
  using assms(2)
proof (induction l arbitrary: v)
  case (Cons a l)
  obtain name y where a: "a = (name, y)" by (cases a)
  with Cons.prems obtain u where u: "JS_CreateInt32Property N v name y = Some u" "set_ints N l u = Some v'"
    by (auto split: option.splits)
  with Cons.IH [OF u(2)] JS_CreateInt32Property_has_int [OF assms(1) u(1)] a show ?case by auto
qed simp

lemma set_ints_get:
  assumes "napi_objects N" and "set_ints N l v = Some v'" and "distinct (map fst l)" and "list_all (int32 \<circ> snd) l"
  shows "list_all (\<lambda>(name, x). has_int N v' name x) l"
  using assms(2-4)
proof (induction l arbitrary: v)
  case (Cons a l)
  obtain name y where a: "a = (name, y)" by (cases a)
  with Cons.prems obtain u where u: "JS_CreateInt32Property N v name y = Some u" "set_ints N l u = Some v'"
    by (auto split: option.splits)
  from Cons.IH [OF u(2)] Cons.prems a set_ints_keep [OF assms(1) u(2), of name y] JS_CreateInt32Property_has_int(1) [OF assms(1) u(1)]
  show ?case by auto
qed simp

lemma napi_arraysD:
  assumes "napi_arrays N"
  shows "0 \<le> n \<Longrightarrow> napi_create_array_with_length N n = Some v \<Longrightarrow>
      napi_is_array N v = Some True \<and> napi_get_array_length N v = Some n"
    and "napi_get_array_length N v = Some n \<Longrightarrow> 0 \<le> i \<Longrightarrow> i < n \<Longrightarrow> napi_set_element N v i x = Some v' \<Longrightarrow>
      napi_is_array N v' = napi_is_array N v \<and> napi_get_array_length N v' = Some n"
    and "napi_get_array_length N v = Some n \<Longrightarrow> 0 \<le> i \<Longrightarrow> i < n \<Longrightarrow> napi_set_element N v i x = Some v' \<Longrightarrow>
      napi_get_element N v' j = (if j = i then Some x else napi_get_element N v j)"
  using assms unfolding napi_arrays_def by blast+

lemma JS_make_array_elements:
  assumes "napi_arrays N" and "JS_make_array N convert xs = Some a" and "length xs < 2147483648"
  shows "napi_is_array N a = Some True \<and> napi_get_array_length N a = Some (int (length xs)) \<and>
    (\<forall>j < length xs. \<exists>v. convert (xs ! j) = Some v \<and> napi_get_element N a (int j) = Some v)"
proof -
  let ?n = "int (length xs)"
  let ?step = "\<lambda>i a. case convert (xs ! nat i) of None \<Rightarrow> None | Some x \<Rightarrow> napi_set_element N a i x"
  have n: "wrap32 ?n = ?n" using assms(3) by (intro wrap32_small) simp_all
  obtain a0 where a0: "napi_create_array_with_length N ?n = Some a0" "try_fold ?step (map int [0..<length xs]) a0 = Some a"
    using assms(2) by (auto simp: JS_make_array_def Let_def n indices_def split: option.splits)
  have "m \<le> length xs \<Longrightarrow> try_fold ?step (map int [0..<m]) a0 = Some v \<Longrightarrow>
      napi_is_array N v = Some True \<and> napi_get_array_length N v = Some ?n \<and>
      (\<forall>j < m. \<exists>x. convert (xs ! j) = Some x \<and> napi_get_element N v (int j) = Some x)" for m v
  proof (induction m arbitrary: v)
    case 0
    then show ?case using napi_arraysD(1) [OF assms(1) _ a0(1)] by simp
  next
    case (Suc m)
    from Suc.prems(2) obtain u x where u: "try_fold ?step (map int [0..<m]) a0 = Some u" "convert (xs ! m) = Some x"
        "napi_set_element N u (int m) x = Some v"
      by (auto simp: try_fold_append split: option.splits)
    from Suc.IH [OF _ u(1)] Suc.prems(1) have IH: "napi_is_array N u = Some True" "napi_get_array_length N u = Some ?n"
        "\<forall>j < m. \<exists>x. convert (xs ! j) = Some x \<and> napi_get_element N u (int j) = Some x" by simp_all
    have m: "0 \<le> int m" "int m < ?n" using Suc.prems(1) by simp_all
    note v = napi_arraysD(2,3) [OF assms(1) IH(2) m u(3)]
    have "\<exists>x. convert (xs ! j) = Some x \<and> napi_get_element N v (int j) = Some x" if "j < Suc m" for j
    proof (cases "j = m")
      case True
      with u(2) v(2) show ?thesis by simp
    next
      case False
      with that IH(3) v(2) show ?thesis by simp
    qed
    with IH(1) v(1) show ?case by simp
  qed
  from this [OF _ a0(2)] show ?thesis by simp
qed

lemma collect_indices:
  assumes "\<And>j. j < n \<Longrightarrow> f (int j) = Some (g j)"
  shows "try_fold (\<lambda>i acc. map_option (\<lambda>x. acc @ [x]) (f i)) (indices (int n)) [] = Some (map g [0..<n])"
proof -
  have "m \<le> n \<Longrightarrow> try_fold (\<lambda>i acc. map_option (\<lambda>x. acc @ [x]) (f i)) (map int [0..<m]) [] = Some (map g [0..<m])" for m
    using assms by (induction m) (simp_all add: try_fold_append)
  from this [of n] show ?thesis by (simp add: indices_def)
qed

lemma map_nth_upt: "map (\<lambda>j. f (xs ! j)) [0..<length xs] = map f xs"
  by (rule nth_equalityI) simp_all

section \<open>The form of points and events\<close>

definition js_point :: "VibrateCurvePoint \<Rightarrow> VibratorCurvePoint" where
  "js_point p = \<lparr>vcp_time = cp_time p, vcp_intensity = cp_intensity p, vcp_frequency = cp_frequency p\<rparr>"

definition js_event :: "VibrateEvent \<Rightarrow> VibratorEvent" where
  "js_event e = \<lparr>ve_type = type_of_tag (ev_tag e), ve_time = ev_time e, ve_duration = ev_duration e,
     ve_intensity = ev_intensity e, ve_frequency = ev_frequency e, ve_index = ev_index e,
     ve_pointNum = int (length (ev_points e)), ve_points = (if ev_points e = [] then None else Some (map js_point (ev_points e)))\<rparr>"

lemma built_event_bounds:
  assumes "built_event e"
  shows "int32 (ev_time e)" "int32 (ev_duration e)" "int32 (ev_intensity e)" "int32 (ev_frequency e)" "int32 (ev_index e)"
    "length (ev_points e) \<le> 16" "p \<in> set (ev_points e) \<Longrightarrow> int32 (cp_time p) \<and> int32 (cp_intensity p) \<and> int32 (cp_frequency p)"
  using assms by (auto simp: built_event_def int32_def JS_point_ok_def list_all_iff)

lemma JS_ConvertVibrateCurvePoint_form:
  assumes "napi_objects N" and "JS_ConvertVibrateCurvePoint N p = Some v"
    and "int32 (cp_time p) \<and> int32 (cp_intensity p) \<and> int32 (cp_frequency p)"
  shows "JS_IsMatchType N v napi_object \<and> has_int N v ''time'' (cp_time p) \<and> has_int N v ''intensity'' (cp_intensity p) \<and>
    has_int N v ''frequency'' (cp_frequency p)"
proof -
  let ?l = "[(''time'', cp_time p), (''intensity'', cp_intensity p), (''frequency'', cp_frequency p)]"
  obtain v0 where v0: "napi_create_object N = Some v0" "set_ints N ?l v0 = Some v"
    using assms(2) unfolding JS_ConvertVibrateCurvePoint_def by (auto simp del: try_fold.simps split: option.splits)
  have "list_all (\<lambda>(name, x). has_int N v name x) ?l" using assms(3) by (intro set_ints_get [OF assms(1) v0(2)]) simp_all
  with set_ints_keep [OF assms(1) v0(2)] napi_objectsD(2) [OF assms(1) v0(1)] show ?thesis
    by (simp add: JS_IsMatchType_def)
qed

lemma JS_ParseVibratorCurvePoint_form:
  assumes "napi_objects N" and "napi_get_element N a i = Some v" and "JS_ConvertVibrateCurvePoint N p = Some v"
    and "int32 (cp_time p) \<and> int32 (cp_intensity p) \<and> int32 (cp_frequency p)"
  shows "JS_ParseVibratorCurvePoint N a i = Some (js_point p)"
  using JS_ConvertVibrateCurvePoint_form [OF assms(1,3,4)] assms(2)
  by (simp add: JS_ParseVibratorCurvePoint_def js_point_def has_int_def)

lemma JS_ParseVibratorCurvePointArray_form:
  assumes "napi_objects N" and "napi_arrays N" and "built_event e" and "ev_points e \<noteq> []" and "\<forall>n. A n"
    and "JS_make_array N (JS_ConvertVibrateCurvePoint N) (ev_points e) = Some a"
  shows "JS_ParseVibratorCurvePointArray N A a (int (length (ev_points e))) event
    = Some (event\<lparr>ve_points := Some (map js_point (ev_points e))\<rparr>)"
proof -
  note b = built_event_bounds [OF assms(3)]
  have parse: "JS_ParseVibratorCurvePoint N a (int j) = Some (js_point (ev_points e ! j))" if "j < length (ev_points e)" for j
    using JS_make_array_elements [OF assms(2,6)] b(6) that b(7) [OF nth_mem [OF that]]
    by (auto intro: JS_ParseVibratorCurvePoint_form [OF assms(1)])
  show ?thesis
    using assms(4,5) b(6) collect_indices [of "length (ev_points e)" "JS_ParseVibratorCurvePoint N a", OF parse]
    by (simp add: JS_ParseVibratorCurvePointArray_def map_nth_upt)
qed

text \<open>The object of an event: its numbers and the array of its points.\<close>

lemma JS_ConvertVibrateEvent_form:
  assumes "napi_objects N" and "JS_ConvertVibrateEvent N e = Some v" and "built_event e"
  obtains a where "JS_IsMatchType N v napi_object" "has_int N v ''eventType'' (tag_code (ev_tag e))" "has_int N v ''time'' (ev_time e)"
    "has_int N v ''duration'' (ev_duration e)" "has_int N v ''intensity'' (ev_intensity e)" "has_int N v ''frequency'' (ev_frequency e)"
    "has_int N v ''index'' (ev_index e)" "napi_has_named_property N v ''points'' = Some True"
    "napi_get_named_property N v ''points'' = Some a" "JS_make_array N (JS_ConvertVibrateCurvePoint N) (ev_points e) = Some a"
proof -
  let ?l = "[(''eventType'', tag_code (ev_tag e)), (''time'', ev_time e), (''duration'', ev_duration e),
                   (''intensity'', ev_intensity e), (''frequency'', ev_frequency e), (''index'', ev_index e)]"
  obtain v0 v1 a where v: "napi_create_object N = Some v0" "set_ints N ?l v0 = Some v1"
      "JS_make_array N (JS_ConvertVibrateCurvePoint N) (ev_points e) = Some a" "napi_set_named_property N v1 ''points'' a = Some v"
    using assms(2) unfolding JS_ConvertVibrateEvent_def by (auto simp del: try_fold.simps split: option.splits)
  note b = built_event_bounds [OF assms(3)]
  have "int32 (tag_code (ev_tag e))" by (cases "ev_tag e") (simp_all add: int32_def)
  with b have "list_all (\<lambda>(name, x). has_int N v1 name x) ?l" by (intro set_ints_get [OF assms(1) v(2)]) simp_all
  then have "list_all (\<lambda>(name, x). has_int N v name x) ?l" by (simp add: set_named_has_int [OF assms(1) v(4)])
  moreover have "JS_IsMatchType N v napi_object"
    using napi_objectsD(3) [OF assms(1) v(4)] set_ints_keep [OF assms(1) v(2)] napi_objectsD(2) [OF assms(1) v(1)]
    by (simp add: JS_IsMatchType_def)
  ultimately show ?thesis using that v(3) napi_objectsD(4,5) [OF assms(1) v(4), of "''points''"] by simp
qed

lemma JS_ParseVibrateEvent_form:
  assumes "napi_objects N" and "napi_arrays N" and "\<forall>n. A n" and "built_event e"
    and "napi_get_element N arr i = Some v" and "JS_ConvertVibrateEvent N e = Some v"
  shows "JS_ParseVibrateEvent N A arr i = Some (js_event e)"
proof -
  obtain a where v: "JS_IsMatchType N v napi_object" "has_int N v ''eventType'' (tag_code (ev_tag e))" "has_int N v ''time'' (ev_time e)"
    "has_int N v ''duration'' (ev_duration e)" "has_int N v ''intensity'' (ev_intensity e)" "has_int N v ''frequency'' (ev_frequency e)"
    "has_int N v ''index'' (ev_index e)" "napi_has_named_property N v ''points'' = Some True"
    "napi_get_named_property N v ''points'' = Some a" "JS_make_array N (JS_ConvertVibrateCurvePoint N) (ev_points e) = Some a"
    using JS_ConvertVibrateEvent_form [OF assms(1,6,4)] by blast
  have tag: "tag_of_code (tag_code t) = t" for t by (cases t) (simp_all add: tag_of_code_def)
  have n: "length (ev_points e) \<le> 16" using built_event_bounds(6) [OF assms(4)] .
  then have a: "napi_is_array N a = Some True" "napi_get_array_length N a = Some (int (length (ev_points e)))"
    "wrap32 (int (length (ev_points e))) = int (length (ev_points e))"
    using JS_make_array_elements [OF assms(2) v(10)] by (auto intro!: wrap32_small)
  show ?thesis
  proof (cases "ev_points e = []")
    case True
    with v a assms(5) show ?thesis
      by (simp add: JS_ParseVibrateEvent_def has_int_def JS_GetPropertyItem_def JS_IsMatchArrayType_def tag js_event_def default_event_def
        Let_def)
  next
    case False
    with v a assms(5) JS_ParseVibratorCurvePointArray_form [OF assms(1,2,4) False assms(3) v(10)] show ?thesis
      by (simp add: JS_ParseVibrateEvent_def has_int_def JS_GetPropertyItem_def JS_IsMatchArrayType_def tag js_event_def default_event_def
        Let_def)
  qed
qed

section \<open>The pattern\<close>

lemma list_all_elem:
  "list_all (\<lambda>j. case elem (Some xs) j of Done p \<Rightarrow> P p | _ \<Rightarrow> False) (indices (int (length xs))) \<longleftrightarrow> list_all P xs"
  by (simp add: list_all_length indices_def elem_def)

lemma JS_CheckVibratorEvent_built:
  assumes "built_event e"
  shows "JS_CheckVibratorEvent (js_event e)"
proof -
  have "JS_CheckVibratorCurvePoint (js_event e)" if "ev_points e \<noteq> []"
  proof -
    from that have fields: "ve_points (js_event e) = Some (map js_point (ev_points e))"
      "ve_pointNum (js_event e) = int (length (map js_point (ev_points e)))" by (simp_all add: js_event_def)
    from assms that show ?thesis unfolding JS_CheckVibratorCurvePoint_def fields list_all_elem
      by (simp add: built_event_def js_event_def js_point_def curve_point_ok_def JS_point_ok_def list_all_iff)
  qed
  with assms show ?thesis
    by (auto simp: built_event_def JS_CheckVibratorEvent_def js_event_def)
qed

definition js_pattern :: "VibrateEvent list \<Rightarrow> VibratorPattern \<Rightarrow> VibratorPattern" where
  "js_pattern events a = a\<lparr>vpt_time := 0, vpt_eventNum := int (length events), vpt_events := Some (map js_event events)\<rparr>"

lemma js_pattern_checked:
  assumes "list_all built_event events" and "events \<noteq> []" and "length events \<le> 128"
  shows "JS_CheckVibratorPatternParameter (js_pattern events a)"
  using assms JS_CheckVibratorEvent_built list_all_elem [where xs = "map js_event events" and P = JS_CheckVibratorEvent]
  by (auto simp: JS_CheckVibratorPatternParameter_def js_pattern_def list.pred_map comp_def list_all_iff)

lemma wrap32_event_count: "n < 4294967296 \<Longrightarrow> 0 < wrap32 n \<Longrightarrow> 0 \<le> n \<Longrightarrow> wrap32 n = n"
proof (cases "n \<le> 2147483647")
  case True
  assume "0 \<le> n"
  with True show ?thesis by (simp add: wrap32_small)
next
  case False
  assume "n < 4294967296" "0 < wrap32 n"
  moreover from this False have "((n - 2147483648) + 4294967296) mod 4294967296 = n - 2147483648"
    by (simp only: mod_add_self2) (simp add: mod_pos_pos_trivial)
  ultimately show ?thesis by (simp add: wrap32_def add.commute)
qed

text \<open>C28. A pattern that the builder gives out is accepted, unchanged, by \<^verbatim>\<open>startVibration\<close>: whatever calls were
  made on the builder, the object that \<^verbatim>\<open>build\<close> returns is read back as exactly the events of the builder, with all
  their points, and passes the checks of their number and of every field.\<close>

theorem built_pattern_is_accepted:
  assumes "builder_reach N U events" and "napi_objects N" and "napi_arrays N" and "napi_lengths N" and "\<forall>n. A n"
    and "length events < 4294967296" and "JS_Build N args (Some events) p = (Some pattern, p')"
    and "JS_GetPropertyItem N effect ''pattern'' = Some pattern"
  shows "JS_ParseVibratorPattern N A effect info
      = Some (info\<lparr>jvi_vibratorPattern := js_pattern events (jvi_vibratorPattern info)\<rparr>) \<and>
    JS_CheckVibratorPatternParameter (js_pattern events (jvi_vibratorPattern info))"
proof -
  from assms(7) have num: "0 < wrap32 (int (length events))" "wrap32 (int (length events)) \<le> 128"
    and conv: "JS_ConvertEventArrayToNapiValue N events = Some pattern"
    by (auto simp: JS_Build_def Let_def split: if_splits)
  have n: "wrap32 (int (length events)) = int (length events)" using wrap32_event_count num assms(6) by simp
  with num have len: "events \<noteq> []" "length events \<le> 128" by auto
  have built: "list_all built_event events" by (rule builder_reach_built [OF assms(1,4)])
  obtain v0 v1 arr where v: "napi_create_object N = Some v0" "JS_CreateInt32Property N v0 ''time'' 0 = Some v1"
      "JS_make_array N (JS_ConvertVibrateEvent N) events = Some arr" "napi_set_named_property N v1 ''events'' arr = Some pattern"
    using conv unfolding JS_ConvertEventArrayToNapiValue_def by (auto split: option.splits)
  have obj: "JS_IsMatchType N pattern napi_object" "has_int N pattern ''time'' 0"
    "JS_GetPropertyItem N pattern ''events'' = Some arr"
    using napi_objectsD(2) [OF assms(2) v(1)] JS_CreateInt32Property_has_int [OF assms(2) v(2)] napi_objectsD(3-5) [OF assms(2) v(4)]
      set_named_has_int [OF assms(2) v(4), of "''time''"]
    by (simp_all add: JS_IsMatchType_def JS_GetPropertyItem_def int32_def)
  note arr = JS_make_array_elements [OF assms(3) v(3)]
  have "JS_ParseVibrateEvent N A arr (int j) = Some (js_event (events ! j))" if "j < length events" for j
    using arr len(2) that built by (auto simp: list_all_length intro: JS_ParseVibrateEvent_form [OF assms(2,3,5)])
  from collect_indices [of "length events" "JS_ParseVibrateEvent N A arr", OF this]
  have "JS_ParseVibratorPattern N A effect info = Some (info\<lparr>jvi_vibratorPattern := js_pattern events (jvi_vibratorPattern info)\<rparr>)"
    using assms(5,8) obj arr len n
    by (simp add: JS_ParseVibratorPattern_def has_int_def JS_IsMatchArrayType_def map_nth_upt js_pattern_def Let_def)
  with js_pattern_checked [OF built len] show ?thesis by simp
qed

text \<open>A builder with one continuous event that has a curve of four points.\<close>

definition js_curve_args :: "js list" where
  "js_curve_args = [JsNum 10, JsNum 400, JsObj [(''intensity'', JsNum 80), (''points'',
     JsArr (map (\<lambda>t. Some (JsObj [(''time'', JsNum t), (''intensity'', JsNum (1 / 2))])) [0, 100, 200, 400]))]]"

definition js_built_events :: "VibrateEvent list" where
  "js_built_events = [\<lparr>ev_tag = EVENT_TAG_CONTINUOUS, ev_time = 10, ev_duration = 400, ev_intensity = 80, ev_frequency = 50,
     ev_index = 0, ev_points = map (\<lambda>t. \<lparr>cp_time = t, cp_intensity = 50, cp_frequency = 0\<rparr>) [0, 100, 200, 400]\<rparr>]"

lemma js_builder_reach: "builder_reach js_engine (\<lambda>_. 0) js_built_events"
proof -
  have "fst (snd (JS_AddContinuousEvent js_engine (\<lambda>_. 0) (Some js_curve_args) JsUndefined (Some []) None)) = Some js_built_events"
    by code_simp
  then obtain r p where "JS_AddContinuousEvent js_engine (\<lambda>_. 0) (Some js_curve_args) JsUndefined (Some []) None
      = (r, Some js_built_events, p)" by (metis prod.collapse)
  then show ?thesis by (rule builder_reach.continuous [OF builder_reach.new])
qed

definition js_built :: "js option \<times> js option" where
  "js_built = JS_Build js_engine (Some []) (Some js_built_events) None"

lemma js_built_ok: "fst js_built \<noteq> None \<and> snd js_built = None"
  by code_simp

lemma js_engine_pattern: "JS_GetPropertyItem js_engine (JsObj [(''pattern'', x)]) ''pattern'' = Some x"
  by (simp add: JS_GetPropertyItem_def js_engine_def js_property_def)

lemma built_pattern_is_accepted_witness:
  "\<exists>pattern. js_built = (Some pattern, None) \<and>
     map_option jvi_vibratorPattern (JS_ParseVibratorPattern js_engine (\<lambda>_. True) (JsObj [(''pattern'', pattern)]) default_js_info)
       = Some (js_pattern js_built_events default_pattern)"
proof -
  obtain pattern where "fst js_built = Some pattern" using js_built_ok by auto
  with js_built_ok have p: "js_built = (Some pattern, None)" by (metis prod.collapse)
  have "length js_built_events < 4294967296" by (simp add: js_built_events_def)
  from built_pattern_is_accepted [OF js_builder_reach js_engine_objects js_engine_arrays js_engine_lengths _ this
      p [unfolded js_built_def] js_engine_pattern, of "\<lambda>_. True" default_js_info]
  have "map_option jvi_vibratorPattern (JS_ParseVibratorPattern js_engine (\<lambda>_. True) (JsObj [(''pattern'', pattern)]) default_js_info)
      = Some (js_pattern js_built_events (jvi_vibratorPattern default_js_info))" by simp
  moreover have "jvi_vibratorPattern default_js_info = default_pattern" by (simp add: default_js_info_def)
  ultimately show ?thesis using p by (intro exI [of _ pattern] conjI) simp_all
qed

end
