(* ===== verification/MallocHeap.thy ===== *)
theory MallocHeap
  imports Prelude "HOL-Library.Multiset"
begin

text \<open>
  The heap of \<^verbatim>\<open>malloc\<close> as far as ownership goes, for the parts that free what they have taken on their error
  paths. Blocks are numbered in the order of their allocation; \<open>A n\<close> says whether call \<open>n\<close> succeeds, \<open>mh_error\<close> whether something
  was freed that is not a live block.
\<close>

record malloc_heap =
  mh_next :: nat
  mh_live :: "nat multiset"
  mh_error :: bool

definition empty_heap :: malloc_heap where
  "empty_heap = \<lparr>mh_next = 0, mh_live = {#}, mh_error = False\<rparr>"

definition mh_malloc :: "(nat \<Rightarrow> bool) \<Rightarrow> malloc_heap \<Rightarrow> nat option \<times> malloc_heap" where
  "mh_malloc A h = (let n = mh_next h; h = h\<lparr>mh_next := Suc n\<rparr> in
     if A n then (Some n, h\<lparr>mh_live := add_mset n (mh_live h)\<rparr>) else (None, h))"

definition mh_free :: "nat option \<Rightarrow> malloc_heap \<Rightarrow> malloc_heap" where
  "mh_free p h = (case p of
     None \<Rightarrow> h
   | Some b \<Rightarrow> if b \<in># mh_live h then h\<lparr>mh_live := mh_live h - {#b#}\<rparr> else h\<lparr>mh_error := True\<rparr>)"

text \<open>Two heaps that differ by live blocks only: no error has been made in between.\<close>

definition owns_more :: "malloc_heap \<Rightarrow> nat multiset \<Rightarrow> malloc_heap \<Rightarrow> bool" where
  "owns_more h B h' \<longleftrightarrow> mh_live h' = B + mh_live h \<and> mh_error h' = mh_error h"

definition some_blocks :: "nat option list \<Rightarrow> nat multiset" where
  "some_blocks ps = mset (List.map_filter id ps)"

lemma some_blocks_simps [simp]:
  "some_blocks [] = {#}"
  "some_blocks (p # ps) = (case p of None \<Rightarrow> {#} | Some b \<Rightarrow> {#b#}) + some_blocks ps"
  "some_blocks (ps @ qs) = some_blocks ps + some_blocks qs"
  by (auto simp: some_blocks_def map_filter_simps map_filter_def split: option.splits)

lemma owns_more_refl [simp, intro]: "owns_more h {#} h"
  by (simp add: owns_more_def)

lemma owns_more_trans: "owns_more h B h1 \<Longrightarrow> owns_more h1 C h2 \<Longrightarrow> owns_more h (C + B) h2"
  by (simp add: owns_more_def add.assoc)

lemma mh_malloc_owns:
  "mh_malloc A h = (p, h') \<Longrightarrow> owns_more h (case p of None \<Rightarrow> {#} | Some b \<Rightarrow> {#b#}) h'"
  by (auto simp: mh_malloc_def owns_more_def Let_def split: if_splits)

lemma mh_malloc_result: "mh_malloc A h = (p, h') \<Longrightarrow> p = None \<longleftrightarrow> \<not> A (mh_next h)"
  by (auto simp: mh_malloc_def Let_def split: if_splits)

lemma mh_free_owns:
  "owns_more h ((case p of None \<Rightarrow> {#} | Some b \<Rightarrow> {#b#}) + B) h' \<Longrightarrow> owns_more h B (mh_free p h')"
  by (auto simp: owns_more_def mh_free_def split: option.splits)

lemma fold_mh_free_owns:
  "owns_more h (some_blocks ps + B) h' \<Longrightarrow> owns_more h B (fold mh_free ps h')"
proof (induction ps arbitrary: h')
  case (Cons p ps)
  then have "owns_more h ((case p of None \<Rightarrow> {#} | Some b \<Rightarrow> {#b#}) + (some_blocks ps + B)) h'" by (simp add: add.assoc)
  from Cons.IH [OF mh_free_owns [OF this]] show ?case by simp
qed simp

end
