(* ===== verification/CangjieFfi.thy ===== *)
theory CangjieFfi
  imports JsVibrate AgentProps MallocHeap
begin

text \<open>
  The functions for Cangjie, \<^verbatim>\<open>frameworks/cj/src/vibrator_ffi.cpp\<close>. A \<^verbatim>\<open>char*\<close> is \<open>None\<close> or a string; the
  result \<open>None\<close> of a function is a crash: a \<^verbatim>\<open>std::string\<close> made from the null pointer, or a read behind the end of an
  array as in \<open>Agent\<close>. A code is \<^verbatim>\<open>int32_t\<close> and is given as a result instead of written through a reference.
\<close>

section \<open>Requests\<close>

text \<open>\<^verbatim>\<open>CJVibrateInfo\<close> has the fields of the struct of the bindings for JavaScript.\<close>

type_synonym CJVibrateInfo = JsVibrateInfo

record RetVibrateTime =
  rvt_timeType :: "string option"
  rvt_duration :: int

record RetVibratePreset =
  rvp_presetType :: "string option"
  rvp_effectId :: "string option"
  rvp_count :: int
  rvp_intensity :: int

record RetVibrateFromFile =
  rvf_fileType :: "string option"
  rvf_fd :: int
  rvf_offSet :: int
  rvf_length :: int

record RetVibrateAttribute =
  rva_id :: int
  rva_usage :: "string option"

record RetVibrateAttributeEnhanced = RetVibrateAttribute +
  rva_deviceId :: int

record RetVibratorInfoParam =
  rvi_deviceId :: int
  rvi_vibratorId :: int

definition CJ_SetUsage :: "string \<Rightarrow> bool \<Rightarrow> client \<Rightarrow> bool \<times> client" where
  "CJ_SetUsage usage systemUsage cl =
     (case map_of g_usageType usage of None \<Rightarrow> (False, cl) | Some u \<Rightarrow> AG_SetUsage u systemUsage cl)"

definition CJ_StartVibrate ::
    "'j client_env \<Rightarrow> 's misc_proxy \<Rightarrow> CJVibrateInfo \<Rightarrow> 's agent_state \<Rightarrow> (errcode \<times> 's agent_state) option" where
  "CJ_StartVibrate E P info = (\<lambda>(cl, s).
     let (set, cl) = CJ_SetUsage (jvi_usage info) (jvi_systemUsage info) cl in
     if \<not> set then Some (PARAMETER_ERROR, cl, s)
     else if jvi_type info \<notin> List.set g_allowedTypes then Some (PARAMETER_ERROR, cl, s)
     else if jvi_type info = ''preset'' then
       (let (set, cl) = AG_SetLoopCount (jvi_count info) cl in
        if \<not> set then Some (PARAMETER_ERROR, cl, s)
        else Some (AG_PlayPrimitiveEffect E P (Some (jvi_effectId info)) (jvi_intensity info) (cl, s)))
     else if jvi_type info = ''file'' then Some (AG_PlayVibratorCustom E P (jvi_fd info) (jvi_offset info) (jvi_length info) (cl, s))
     else if jvi_type info = ''pattern'' then AG_PlayPattern E P (jvi_vibratorPattern info) (cl, s)
     else Some (AG_StartVibratorOnce E P (jvi_duration info) (cl, s)))"

definition CJ_SetUsageEnhanced :: "misc_identifier \<Rightarrow> string \<Rightarrow> bool \<Rightarrow> client \<Rightarrow> bool \<times> client" where
  "CJ_SetUsageEnhanced i usage systemUsage cl =
     (case map_of g_usageType usage of None \<Rightarrow> (False, cl) | Some u \<Rightarrow> AG_SetUsageEnhanced i u systemUsage cl)"

definition CJ_CheckParameters :: "CJVibrateInfo \<Rightarrow> misc_identifier \<Rightarrow> client \<Rightarrow> errcode \<times> client" where
  "CJ_CheckParameters info i cl =
     (let (set, cl) = CJ_SetUsageEnhanced i (jvi_usage info) (jvi_systemUsage info) cl in
      if \<not> set then (DEVICE_OPERATION_FAILED, cl)
      else if jvi_type info \<notin> List.set g_allowedTypes then (DEVICE_OPERATION_FAILED, cl)
      else (ERR_OK, cl))"

definition CJ_StartVibrateEnhanced ::
    "'j client_env \<Rightarrow> 's misc_proxy \<Rightarrow> CJVibrateInfo \<Rightarrow> misc_identifier \<Rightarrow> 's agent_state \<Rightarrow> (errcode \<times> 's agent_state) option" where
  "CJ_StartVibrateEnhanced E P info i = (\<lambda>(cl, s).
     let (ret, cl) = CJ_CheckParameters info i cl in
     if ret \<noteq> ERR_OK then Some (DEVICE_OPERATION_FAILED, cl, s)
     else if jvi_type info = ''file''
     then Some (AG_PlayVibratorCustomEnhanced E P i (jvi_fd info) (jvi_offset info) (jvi_length info) (cl, s))
     else if jvi_type info = ''pattern'' then AG_PlayPatternEnhanced E P i (jvi_vibratorPattern info) (cl, s)
     else Some (AG_StartVibratorOnceEnhanced E P i (jvi_duration info) (cl, s)))"

section \<open>Starting\<close>

definition FfiVibratorStartVibrationTime ::
    "'j client_env \<Rightarrow> 's misc_proxy \<Rightarrow> RetVibrateTime \<Rightarrow> RetVibrateAttribute \<Rightarrow> 's agent_state \<Rightarrow> (errcode \<times> 's agent_state) option" where
  "FfiVibratorStartVibrationTime E P effect attribute st =
     (case rvt_timeType effect of
        None \<Rightarrow> None
      | Some strType \<Rightarrow>
          (case rva_usage attribute of
             None \<Rightarrow> None
           | Some strUsage \<Rightarrow>
               CJ_StartVibrate E P (default_js_info\<lparr>jvi_type := strType, jvi_duration := rvt_duration effect, jvi_usage := strUsage\<rparr>) st))"

definition FfiVibratorStartVibrationPreset ::
    "'j client_env \<Rightarrow> 's misc_proxy \<Rightarrow> RetVibratePreset \<Rightarrow> RetVibrateAttribute \<Rightarrow> 's agent_state \<Rightarrow> (errcode \<times> 's agent_state) option" where
  "FfiVibratorStartVibrationPreset E P effect attribute st =
     (case rvp_presetType effect of
        None \<Rightarrow> None
      | Some strType \<Rightarrow>
          (case rvp_effectId effect of
             None \<Rightarrow> None
           | Some strEffectId \<Rightarrow>
               (case rva_usage attribute of
                  None \<Rightarrow> None
                | Some strUsage \<Rightarrow>
                    CJ_StartVibrate E P (default_js_info\<lparr>jvi_type := strType, jvi_effectId := strEffectId, jvi_count := rvp_count effect,
                      jvi_intensity := rvp_intensity effect, jvi_usage := strUsage\<rparr>) st)))"

definition FfiVibratorStartVibrationFile ::
    "'j client_env \<Rightarrow> 's misc_proxy \<Rightarrow> RetVibrateFromFile \<Rightarrow> RetVibrateAttribute \<Rightarrow> 's agent_state \<Rightarrow> (errcode \<times> 's agent_state) option" where
  "FfiVibratorStartVibrationFile E P effect attribute st =
     (case rvf_fileType effect of
        None \<Rightarrow> None
      | Some strType \<Rightarrow>
          (case rva_usage attribute of
             None \<Rightarrow> None
           | Some strUsage \<Rightarrow>
               CJ_StartVibrate E P (default_js_info\<lparr>jvi_type := strType, jvi_fd := rvf_fd effect, jvi_offset := rvf_offSet effect,
                 jvi_length := rvf_length effect, jvi_usage := strUsage\<rparr>) st))"

definition cj_identifier :: "'a RetVibrateAttributeEnhanced_scheme \<Rightarrow> misc_identifier" where
  "cj_identifier attribute = \<lparr>mi_deviceId = rva_deviceId attribute, mi_vibratorId = (if rva_id attribute = 0 then -1 else rva_id attribute)\<rparr>"

definition FfiVibratorStartVibrationTimeEnhanced ::
    "'j client_env \<Rightarrow> 's misc_proxy \<Rightarrow> RetVibrateTime \<Rightarrow> RetVibrateAttributeEnhanced \<Rightarrow> 's agent_state \<Rightarrow> (errcode \<times> 's agent_state) option" where
  "FfiVibratorStartVibrationTimeEnhanced E P effect attribute st =
     (case (rvt_timeType effect, rva_usage attribute) of
        (Some strType, Some strUsage) \<Rightarrow>
          CJ_StartVibrateEnhanced E P (default_js_info\<lparr>jvi_type := strType, jvi_duration := rvt_duration effect, jvi_usage := strUsage\<rparr>)
            (cj_identifier attribute) st
      | _ \<Rightarrow> Some (PARAMETER_ERROR, st))"

definition FfiVibratorStartVibrationFileEnhanced ::
    "'j client_env \<Rightarrow> 's misc_proxy \<Rightarrow> RetVibrateFromFile \<Rightarrow> RetVibrateAttributeEnhanced \<Rightarrow> 's agent_state \<Rightarrow> (errcode \<times> 's agent_state) option" where
  "FfiVibratorStartVibrationFileEnhanced E P effect attribute st =
     (case (rvf_fileType effect, rva_usage attribute) of
        (Some strType, Some strUsage) \<Rightarrow>
          CJ_StartVibrateEnhanced E P (default_js_info\<lparr>jvi_type := strType, jvi_fd := rvf_fd effect, jvi_offset := rvf_offSet effect,
            jvi_length := rvf_length effect, jvi_usage := strUsage\<rparr>) (cj_identifier attribute) st
      | _ \<Rightarrow> Some (PARAMETER_ERROR, st))"

definition FfiVibratorStartVibrationPresetEnhanced ::
    "'j client_env \<Rightarrow> 's misc_proxy \<Rightarrow> RetVibratePreset \<Rightarrow> RetVibrateAttributeEnhanced \<Rightarrow> 's agent_state \<Rightarrow> errcode \<times> 's agent_state" where
  "FfiVibratorStartVibrationPresetEnhanced E P effect attribute = (\<lambda>(cl, s).
     (case (rvp_presetType effect, rvp_effectId effect, rva_usage attribute) of
        (Some strType, Some strEffectId, Some strUsage) \<Rightarrow>
          let info = default_js_info\<lparr>jvi_type := strType, jvi_effectId := strEffectId, jvi_count := rvp_count effect,
                jvi_intensity := rvp_intensity effect, jvi_usage := strUsage\<rparr>;
              i = cj_identifier attribute;
              (set, cl) = AG_SetLoopCountEnhanced i (jvi_count info) cl;
              (ret, cl) = (if set then CJ_CheckParameters info i cl else (DEVICE_OPERATION_FAILED, cl))
          in if \<not> set \<or> ret \<noteq> ERR_OK \<or> jvi_effectId info = [] then (DEVICE_OPERATION_FAILED, cl, s)
             else AG_PlayPrimitiveEffectEnhanced E P i (Some (jvi_effectId info)) (jvi_intensity info) (cl, s)
      | _ \<Rightarrow> (PARAMETER_ERROR, cl, s)))"

section \<open>Stopping and queries\<close>

definition FfiVibratorStopVibration :: "'j client_env \<Rightarrow> 's misc_proxy \<Rightarrow> 's agent_state \<Rightarrow> errcode \<times> 's agent_state" where
  "FfiVibratorStopVibration E P st = AG_Cancel E P st"

definition FfiVibratorStopVibrationMode ::
    "'j client_env \<Rightarrow> 's misc_proxy \<Rightarrow> string option \<Rightarrow> 's agent_state \<Rightarrow> errcode \<times> 's agent_state" where
  "FfiVibratorStopVibrationMode E P vibMode st =
     (case vibMode of
        None \<Rightarrow> (PARAMETER_ERROR, st)
      | Some mode \<Rightarrow> if mode \<noteq> ''time'' \<and> mode \<noteq> ''preset'' then (PARAMETER_ERROR, st) else AG_StopVibrator E P (Some mode) st)"

text \<open>The answer, the code and the state.\<close>

definition FfiVibratorSupportEffect ::
    "'j client_env \<Rightarrow> 's misc_proxy \<Rightarrow> string option \<Rightarrow> 's agent_state \<Rightarrow> bool \<times> errcode \<times> 's agent_state" where
  "FfiVibratorSupportEffect E P name st =
     (case name of
        None \<Rightarrow> (False, PARAMETER_ERROR, st)
      | Some eff \<Rightarrow>
          if eff \<noteq> ''haptic.clock.timer'' then (False, PARAMETER_ERROR, st)
          else let (ret, st) = AG_IsSupportEffect E P (Some eff) False st in
            (case ret of Inl e \<Rightarrow> (False, e, st) | Inr b \<Rightarrow> (b, SUCCESS, st)))"

definition FfiVibratorIsHdHapticSupported :: "'j client_env \<Rightarrow> 's misc_proxy \<Rightarrow> 's agent_state \<Rightarrow> bool \<times> 's agent_state" where
  "FfiVibratorIsHdHapticSupported E P st = AG_IsHdHapticSupported E P st"

definition FfiVibratorStopVibrationEnhanced ::
    "'j client_env \<Rightarrow> 's misc_proxy \<Rightarrow> RetVibratorInfoParam \<Rightarrow> 's agent_state \<Rightarrow> errcode \<times> 's agent_state" where
  "FfiVibratorStopVibrationEnhanced E P param st =
     AG_CancelEnhanced E P \<lparr>mi_deviceId = rvi_deviceId param, mi_vibratorId = rvi_vibratorId param\<rparr> st"

section \<open>The list of vibrators\<close>

text \<open>A string in the heap is its block and its characters.\<close>

record RetVibratorInfos =
  rvs_deviceId :: int
  rvs_vibratorId :: int
  rvs_deviceName :: "(nat \<times> string) option"
  rvs_isSupportHdHaptic :: bool
  rvs_isLocalVibrator :: bool

definition MallocCString :: "(nat \<Rightarrow> bool) \<Rightarrow> string \<Rightarrow> malloc_heap \<Rightarrow> (nat \<times> string) option \<times> malloc_heap" where
  "MallocCString A origin h =
     (if origin = [] then (None, h)
      else let (res, h) = mh_malloc A h in (map_option (\<lambda>b. (b, origin)) res, h))"

definition FillRetVibratorInfo :: "(nat \<Rightarrow> bool) \<Rightarrow> VibratorInfos \<Rightarrow> malloc_heap \<Rightarrow> RetVibratorInfos option \<times> malloc_heap" where
  "FillRetVibratorInfo A info h =
     (let (deviceName, h) = (if vin_deviceName info = [] then (None, h) else MallocCString A (vin_deviceName info) h) in
      if vin_deviceName info \<noteq> [] \<and> deviceName = None then (None, h)
      else (Some \<lparr>rvs_deviceId = vin_deviceId info, rvs_vibratorId = vin_vibratorId info, rvs_deviceName = deviceName,
              rvs_isSupportHdHaptic = vin_isSupportHdHaptic info, rvs_isLocalVibrator = vin_isLocalVibrator info\<rparr>, h))"

text \<open>The names of the entries that are filled, and the array.\<close>

definition FreeRetVibratorInfos :: "nat \<Rightarrow> RetVibratorInfos list \<Rightarrow> malloc_heap \<Rightarrow> malloc_heap" where
  "FreeRetVibratorInfos block entries h =
     mh_free (Some block) (fold (\<lambda>e. mh_free (map_option fst (rvs_deviceName e))) entries h)"

text \<open>The loop stops at the first entry that cannot be filled; the result says whether it did not.\<close>

fun fill_entries :: "(nat \<Rightarrow> bool) \<Rightarrow> VibratorInfos list \<Rightarrow> RetVibratorInfos list \<Rightarrow> malloc_heap
    \<Rightarrow> bool \<times> RetVibratorInfos list \<times> malloc_heap" where
  "fill_entries A [] entries h = (True, entries, h)"
| "fill_entries A (info # infos) entries h =
     (case FillRetVibratorInfo A info h of
        (None, h) \<Rightarrow> (False, entries, h)
      | (Some e, h) \<Rightarrow> fill_entries A infos (entries @ [e]) h)"

record CArrRetVibratorInfo =
  arr_head :: "(nat \<times> RetVibratorInfos list) option"
  arr_size :: int

text \<open>\<open>code\<close> is what \<^verbatim>\<open>*code\<close> holds; it is not written when there is no vibrator.\<close>

definition FfiVibratorGetVibratorInfo ::
    "(nat \<Rightarrow> bool) \<Rightarrow> 'j client_env \<Rightarrow> 's misc_proxy \<Rightarrow> RetVibratorInfoParam \<Rightarrow> errcode \<Rightarrow> malloc_heap \<Rightarrow> 's agent_state
      \<Rightarrow> CArrRetVibratorInfo \<times> errcode \<times> malloc_heap \<times> 's agent_state" where
  "FfiVibratorGetVibratorInfo A E P param code h st =
     (let empty = \<lparr>arr_head = None, arr_size = 0\<rparr>;
          (ret, st) = AG_GetVibratorList E P \<lparr>mi_deviceId = rvi_deviceId param, mi_vibratorId = rvi_vibratorId param\<rparr> st
      in case ret of
        Inl e \<Rightarrow> (empty, e, h, st)
      | Inr infos \<Rightarrow>
          if infos = [] then (empty, code, h, st)
          else (case mh_malloc A h of
            (None, h) \<Rightarrow> (\<lparr>arr_head = None, arr_size = int (length infos)\<rparr>, DEVICE_OPERATION_FAILED, h, st)
          | (Some block, h) \<Rightarrow>
              let (ok, entries, h) = fill_entries A infos [] h in
              if \<not> ok then (empty, DEVICE_OPERATION_FAILED, FreeRetVibratorInfos block entries h, st)
              else (\<lparr>arr_head = Some (block, entries), arr_size = int (length infos)\<rparr>, SUCCESS, h, st)))"

section \<open>Memory of the list\<close>

abbreviation names :: "RetVibratorInfos list \<Rightarrow> nat option list" where
  "names \<equiv> map (\<lambda>e. map_option fst (rvs_deviceName e))"

definition name_blocks :: "RetVibratorInfos list \<Rightarrow> nat multiset" where
  "name_blocks entries = some_blocks (names entries)"

definition ret_info :: "RetVibratorInfos \<Rightarrow> VibratorInfos" where
  "ret_info e = \<lparr>vin_deviceId = rvs_deviceId e, vin_vibratorId = rvs_vibratorId e,
     vin_deviceName = (case rvs_deviceName e of None \<Rightarrow> [] | Some (b, s) \<Rightarrow> s),
     vin_isSupportHdHaptic = rvs_isSupportHdHaptic e, vin_isLocalVibrator = rvs_isLocalVibrator e\<rparr>"

lemma name_blocks_simps [simp]:
  "name_blocks [] = {#}"
  "name_blocks (e # es) = (case rvs_deviceName e of None \<Rightarrow> {#} | Some (b, s) \<Rightarrow> {#b#}) + name_blocks es"
  by (auto simp: name_blocks_def split: option.splits)

lemma FillRetVibratorInfo_memory:
  assumes "FillRetVibratorInfo A info h = (r, h')"
  shows "mh_error h' = mh_error h \<and> (case r of None \<Rightarrow> mh_live h' = mh_live h
    | Some e \<Rightarrow> mh_live h' = name_blocks [e] + mh_live h \<and> ret_info e = info)"
  using assms
  by (auto simp: FillRetVibratorInfo_def MallocCString_def mh_malloc_def Let_def ret_info_def split: if_splits prod.splits option.splits)

lemma fill_entries_memory:
  assumes "fill_entries A infos entries h = (ok, entries', h')"
  shows "\<exists>new. entries' = entries @ new \<and> mh_live h' = name_blocks new + mh_live h \<and> mh_error h' = mh_error h \<and>
    (ok \<longrightarrow> map ret_info new = infos)"
  using assms
proof (induction infos arbitrary: entries h)
  case (Cons info infos)
  obtain r h1 where fill: "FillRetVibratorInfo A info h = (r, h1)" by (cases "FillRetVibratorInfo A info h")
  note m = FillRetVibratorInfo_memory [OF fill]
  show ?case
  proof (cases r)
    case None
    with Cons.prems fill m show ?thesis by auto
  next
    case (Some e)
    with Cons.prems fill have "fill_entries A infos (entries @ [e]) h1 = (ok, entries', h')" by simp
    from Cons.IH [OF this] obtain new where "entries' = (entries @ [e]) @ new" "mh_live h' = name_blocks new + mh_live h1"
      "mh_error h' = mh_error h1" "ok \<longrightarrow> map ret_info new = infos" by blast
    with m Some show ?thesis by (intro exI [of _ "e # new"]) auto
  qed
qed simp

lemma FreeRetVibratorInfos_memory:
  assumes "mh_live h = add_mset block (name_blocks entries + L)"
  shows "mh_live (FreeRetVibratorInfos block entries h) = L \<and> mh_error (FreeRetVibratorInfos block entries h) = mh_error h"
proof -
  define h0 where "h0 = h\<lparr>mh_live := L\<rparr>"
  have fold: "fold (\<lambda>e. mh_free (map_option fst (rvs_deviceName e))) entries h = fold mh_free (names entries) h" by (simp add: fold_map comp_def)
  have "owns_more h0 (some_blocks (names entries) + {#block#}) h" using assms by (simp add: owns_more_def h0_def name_blocks_def)
  then have "owns_more h0 ({#block#} + {#}) (fold mh_free (names entries) h)" by (simp add: fold_mh_free_owns)
  then have "owns_more h0 {#} (mh_free (Some block) (fold mh_free (names entries) h))" by (intro mh_free_owns) simp
  then show ?thesis by (simp add: FreeRetVibratorInfos_def fold owns_more_def h0_def)
qed

text \<open>C36. The list of vibrators for Cangjie is all or nothing: either the caller gets the array with one entry for each vibrator
  that the agent lists, in the same order and with its name, and then the new blocks of the heap are exactly the array and
  the names that are not empty; or it gets no array and every block that was taken for it has been given back.
  Nothing is freed twice.\<close>

theorem cj_list_all_or_nothing:
  assumes "FfiVibratorGetVibratorInfo A E P param code h st = (arr, code', h', st')"
  shows "mh_error h' = mh_error h \<and>
    (case arr_head arr of
       None \<Rightarrow> mh_live h' = mh_live h
     | Some (block, entries) \<Rightarrow> mh_live h' = mh_live h + {#block#} + name_blocks entries \<and> code' = SUCCESS \<and>
         arr_size arr = int (length entries) \<and>
         AG_GetVibratorList E P \<lparr>mi_deviceId = rvi_deviceId param, mi_vibratorId = rvi_vibratorId param\<rparr> st
           = (Inr (map ret_info entries), st'))"
proof -
  let ?i = "\<lparr>mi_deviceId = rvi_deviceId param, mi_vibratorId = rvi_vibratorId param\<rparr>"
  obtain ret st1 where list: "AG_GetVibratorList E P ?i st = (ret, st1)" by (cases "AG_GetVibratorList E P ?i st")
  show ?thesis
  proof (cases ret)
    case (Inl e)
    with list assms show ?thesis by (auto simp: FfiVibratorGetVibratorInfo_def Let_def)
  next
    case (Inr infos)
    obtain m h1 where malloc: "mh_malloc A h = (m, h1)" by (cases "mh_malloc A h")
    then have h1: "mh_error h1 = mh_error h" "mh_live h1 = (case m of None \<Rightarrow> mh_live h | Some b \<Rightarrow> add_mset b (mh_live h))"
      by (auto simp: mh_malloc_def Let_def split: if_splits)
    show ?thesis
    proof (cases "infos = [] \<or> m = None")
      case True
      with Inr list malloc h1 assms show ?thesis by (auto simp: FfiVibratorGetVibratorInfo_def Let_def split: if_splits)
    next
      case False
      then obtain block where m: "m = Some block" by blast
      obtain ok entries h2 where fill: "fill_entries A infos [] h1 = (ok, entries, h2)" by (cases "fill_entries A infos [] h1")
      note e = fill_entries_memory [OF fill]
      show ?thesis
      proof (cases ok)
        case True
        with e have len: "length infos = length entries" by (metis append_Nil length_map)
        from True False Inr list malloc m fill assms have "arr = \<lparr>arr_head = Some (block, entries), arr_size = int (length infos)\<rparr>"
          "code' = SUCCESS" "h' = h2" "st' = st1" by (auto simp: FfiVibratorGetVibratorInfo_def Let_def)
        with True e h1 m list Inr len show ?thesis by auto
      next
        case no: False
        with False Inr list malloc m fill assms have "arr_head arr = None" "h' = FreeRetVibratorInfos block entries h2"
          by (auto simp: FfiVibratorGetVibratorInfo_def Let_def)
        with FreeRetVibratorInfos_memory [of h2 block entries "mh_live h"] e h1 m show ?thesis by auto
      qed
    qed
  qed
qed

definition sample_cj_list ::
    "CArrRetVibratorInfo \<times> errcode \<times> malloc_heap \<times> compatible_state option service agent_state" where
  "sample_cj_list = FfiVibratorGetVibratorInfo (\<lambda>n. n < 2) sample_client_env sample_proxy \<lparr>rvi_deviceId = -1, rvi_vibratorId = -1\<rparr> ERROR
     empty_heap sample_agent"

lemma cj_list_all_or_nothing_witness:
  "arr_head (fst sample_cj_list) = None \<and> mh_live (fst (snd (snd sample_cj_list))) = {#} \<and> \<not> mh_error (fst (snd (snd sample_cj_list)))"
proof -
  obtain arr code h st where r: "sample_cj_list = (arr, code, h, st)" using prod.exhaust by metis
  have "arr_head (fst sample_cj_list) = None" by code_simp
  then have none: "arr_head arr = None" unfolding r by simp
  from cj_list_all_or_nothing [OF r [unfolded sample_cj_list_def]] none show ?thesis unfolding r by (simp add: empty_heap_def)
qed

section \<open>When there is no memory, or no vibrator\<close>

text \<open>Without memory for the array its size is given back all the same, beside the null pointer.\<close>

lemma no_memory_size_kept:
  assumes "AG_GetVibratorList E P \<lparr>mi_deviceId = rvi_deviceId param, mi_vibratorId = rvi_vibratorId param\<rparr> st = (Inr infos, st')"
    and "infos \<noteq> []" and "\<not> A (mh_next h)"
  shows "fst (FfiVibratorGetVibratorInfo A E P param code h st) = \<lparr>arr_head = None, arr_size = int (length infos)\<rparr>"
  using assms by (simp add: FfiVibratorGetVibratorInfo_def mh_malloc_def)

text \<open>Without a vibrator the code is not written.\<close>

lemma no_vibrator_code_unwritten:
  assumes "AG_GetVibratorList E P \<lparr>mi_deviceId = rvi_deviceId param, mi_vibratorId = rvi_vibratorId param\<rparr> st = (Inr [], st')"
  shows "fst (snd (FfiVibratorGetVibratorInfo A E P param code h st)) = code"
  using assms by (simp add: FfiVibratorGetVibratorInfo_def)

end
