(* ===== verification/EtsVibrator.thy ===== *)
theory EtsVibrator
  imports JsBuilder StdMap CangjieFfi "HOL-Library.List_Lexorder" "HOL-Library.Char_ord"
begin

text \<open>
  The functions for ArkTS, \<^verbatim>\<open>frameworks/ets/taihe/author/src/ohos.vibrator.impl.cpp\<close>. Their arguments have the types
  that the interface description generates (\<^verbatim>\<open>ohos.vibrator.taihe\<close>): an optional field is an \<open>option\<close>, a double is
  \<open>None\<close> when it is not a number. A business error is kept in the list of those that were set; the functions of the definition have
  the prefix \<open>ETS_\<close> where others have the same name. \<open>None\<close> as a result is a read behind the end of an array.
\<close>

section \<open>Types of the interface\<close>

record ets_point =
  ep_time :: int
  ep_intensity :: "rat option option"
  ep_frequency :: "int option"

record ets_event =
  ee_eventType :: int
  ee_time :: int
  ee_duration :: "int option"
  ee_intensity :: "int option"
  ee_frequency :: "int option"
  ee_index :: "int option"
  ee_points :: "ets_point list option"

record ets_pattern =
  epa_time :: int
  epa_events :: "ets_event list"

datatype ets_effect =
    VibrateTime_type int
  | VibratePreset_type string "int option" "int option"
  | VibrateFromFile_type int "int option" "int option"
  | VibrateFromPattern_type ets_pattern

record ets_attribute =
  ea_id :: "int option"
  ea_deviceId :: "int option"
  ea_usage :: string
  ea_systemUsage :: "bool option"

record ets_info_param =
  eip_deviceId :: "int option"
  eip_vibratorId :: "int option"

definition value_or :: "'a option \<Rightarrow> 'a \<Rightarrow> 'a" where
  "value_or x dflt = (case x of None \<Rightarrow> dflt | Some v \<Rightarrow> v)"

section \<open>Patterns\<close>

definition ETS_ParseVibratorCurvePoint :: "(rat option \<Rightarrow> int) \<Rightarrow> ets_point \<Rightarrow> VibratorCurvePoint" where
  "ETS_ParseVibratorCurvePoint U p = \<lparr>vcp_time = ep_time p,
     vcp_intensity = (case ep_intensity p of None \<Rightarrow> 0 | Some d \<Rightarrow> double_to_int32 U d), vcp_frequency = value_or (ep_frequency p) 0\<rparr>"

definition ETS_ParseVibratorCurvePointArray ::
    "(rat option \<Rightarrow> int) \<Rightarrow> (nat \<Rightarrow> bool) \<Rightarrow> ets_point list \<Rightarrow> int \<Rightarrow> VibratorEvent \<Rightarrow> VibratorEvent option" where
  "ETS_ParseVibratorCurvePointArray U A pointsArray pointsLength event =
     (let pointsLength = pointsLength mod 4294967296 in
      if pointsLength \<le> 0 \<or> pointsLength > 16 then None
      else if \<not> A (nat pointsLength) then None
      else Some (event\<lparr>ve_points := Some (map (\<lambda>i. ETS_ParseVibratorCurvePoint U (pointsArray ! nat i)) (indices pointsLength))\<rparr>))"

definition ETS_ParseVibrateEvent :: "(rat option \<Rightarrow> int) \<Rightarrow> (nat \<Rightarrow> bool) \<Rightarrow> ets_event \<Rightarrow> VibratorEvent option" where
  "ETS_ParseVibrateEvent U A e =
     (let event = default_event\<lparr>ve_type := type_of_tag (tag_of_code (ee_eventType e)), ve_time := ee_time e,
            ve_duration := value_or (ee_duration e) 0, ve_intensity := value_or (ee_intensity e) 0,
            ve_frequency := value_or (ee_frequency e) 0, ve_index := value_or (ee_index e) 0\<rparr>
      in case ee_points e of
        None \<Rightarrow> Some event
      | Some points \<Rightarrow>
          let event = event\<lparr>ve_pointNum := wrap32 (int (length points))\<rparr> in
          if points = [] then Some event else ETS_ParseVibratorCurvePointArray U A points (ve_pointNum event) event)"

text \<open>The time and the number of the events are stored before anything can fail.\<close>

definition ETS_ParseVibratorPattern ::
    "(rat option \<Rightarrow> int) \<Rightarrow> (nat \<Rightarrow> bool) \<Rightarrow> ets_pattern \<Rightarrow> JsVibrateInfo \<Rightarrow> bool \<times> JsVibrateInfo" where
  "ETS_ParseVibratorPattern U A pattern info =
     (let n = wrap32 (int (length (epa_events pattern)));
          a = (jvi_vibratorPattern info)\<lparr>vpt_time := epa_time pattern, vpt_eventNum := n\<rparr>;
          failed = (False, info\<lparr>jvi_vibratorPattern := a\<rparr>)
      in if n \<le> 0 \<or> n > 128 then failed
         else if \<not> A (nat n) then failed
         else case try_fold (\<lambda>j events. map_option (\<lambda>e. events @ [e]) (ETS_ParseVibrateEvent U A (epa_events pattern ! nat j))) (indices n) [] of
           None \<Rightarrow> failed
         | Some events \<Rightarrow> (True, info\<lparr>jvi_vibratorPattern := a\<lparr>vpt_events := Some events\<rparr>\<rparr>))"

definition ets_curve_point_ok :: "int \<Rightarrow> VibratorCurvePoint \<Rightarrow> bool" where
  "ets_curve_point_ok duration p \<longleftrightarrow> \<not> (vcp_time p < 0 \<or> vcp_time p > duration) \<and>
     \<not> (vcp_intensity p < 0 \<or> vcp_intensity p > 100) \<and> \<not> (vcp_frequency p < -100 \<or> vcp_frequency p > 100)"

definition ETS_CheckVibratorCurvePoint :: "VibratorEvent \<Rightarrow> bool" where
  "ETS_CheckVibratorCurvePoint event =
     (if ve_pointNum event < 4 \<or> ve_pointNum event > 16 then False
      else list_all (\<lambda>j. case elem (ve_points event) j of Done p \<Rightarrow> ets_curve_point_ok (ve_duration event) p | _ \<Rightarrow> False)
        (indices (ve_pointNum event)))"

definition ETS_CheckVibratorEvent :: "VibratorEvent \<Rightarrow> bool" where
  "ETS_CheckVibratorEvent event =
     (if ve_time event < 0 \<or> ve_time event > 1800000 then False
      else if ve_frequency event < 0 \<or> ve_frequency event > 100 then False
      else if ve_intensity event < 0 \<or> ve_intensity event > 100 then False
      else if ve_duration event \<le> 0 \<or> ve_duration event > 5000 then False
      else if ve_index event < 0 \<or> ve_index event > 2 then False
      else if ve_type event = EVENT_TYPE_CONTINUOUS \<and> ve_pointNum event > 0 then ETS_CheckVibratorCurvePoint event
      else True)"

definition ETS_CheckVibratorPatternParameter :: "VibratorPattern \<Rightarrow> bool" where
  "ETS_CheckVibratorPatternParameter a =
     (if vpt_events a = None then False
      else if vpt_eventNum a \<le> 0 \<or> vpt_eventNum a > 128 then False
      else list_all (\<lambda>i. case elem (vpt_events a) i of Done e \<Rightarrow> ETS_CheckVibratorEvent e | _ \<Rightarrow> False) (indices (vpt_eventNum a)))"

definition ETS_ClearVibratorPattern :: "VibratorPattern \<Rightarrow> VibratorPattern \<times> bool" where
  "ETS_ClearVibratorPattern a =
     (if vpt_eventNum a \<le> 0 \<or> vpt_events a = None then (a, False) else (a\<lparr>vpt_events := None\<rparr>, True))"

section \<open>\<^verbatim>\<open>startVibration\<close>\<close>

definition ETS_parse_effect ::
    "(rat option \<Rightarrow> int) \<Rightarrow> file_env \<Rightarrow> (nat \<Rightarrow> bool) \<Rightarrow> ets_effect \<Rightarrow> JsVibrateInfo \<Rightarrow> JsVibrateInfo option" where
  "ETS_parse_effect U F A effect info =
     (case effect of
        VibrateTime_type duration \<Rightarrow> Some (info\<lparr>jvi_type := ''time'', jvi_duration := duration\<rparr>)
      | VibratePreset_type eff num intensity \<Rightarrow>
          Some (info\<lparr>jvi_type := ''preset'', jvi_effectId := eff, jvi_count := value_or num 1, jvi_intensity := value_or intensity 100\<rparr>)
      | VibrateFromFile_type fd offset len \<Rightarrow>
          let off = value_or offset 0; fdSize = GetFileSize F fd in
          if \<not> (off \<ge> 0 \<and> off \<le> fdSize) then None
          else Some (info\<lparr>jvi_type := ''file'', jvi_fd := fd, jvi_offset := off, jvi_length := value_or len (fdSize - off)\<rparr>)
      | VibrateFromPattern_type pattern \<Rightarrow>
          let info = snd (ETS_ParseVibratorPattern U A pattern (info\<lparr>jvi_type := ''pattern''\<rparr>)) in
          if \<not> ETS_CheckVibratorPatternParameter (jvi_vibratorPattern info) then None else Some info)"

definition ETS_ParseParameter ::
    "(rat option \<Rightarrow> int) \<Rightarrow> file_env \<Rightarrow> (nat \<Rightarrow> bool) \<Rightarrow> ets_effect \<Rightarrow> ets_attribute \<Rightarrow> JsVibrateInfo
      \<Rightarrow> (JsVibrateInfo \<times> misc_identifier) option" where
  "ETS_ParseParameter U F A effect attribute info =
     map_option (\<lambda>info.
        (info\<lparr>jvi_usage := ea_usage attribute, jvi_systemUsage := value_or (ea_systemUsage attribute) False\<rparr>,
         \<lparr>mi_deviceId = value_or (ea_deviceId attribute) (-1),
          mi_vibratorId = (let n = value_or (ea_id attribute) (-1) in if n = 0 then -1 else n)\<rparr>))
       (ETS_parse_effect U F A effect info)"

text \<open>The business errors that are set are added to a list.\<close>

definition ETS_SetUsageInner :: "string \<Rightarrow> bool \<Rightarrow> errcode list \<Rightarrow> client \<Rightarrow> bool \<times> errcode list \<times> client" where
  "ETS_SetUsageInner usage systemUsage errs cl =
     (case map_of g_usageType usage of
        None \<Rightarrow> (False, errs @ [PARAMETER_ERROR], cl)
      | Some u \<Rightarrow> let (set, cl) = AG_SetUsage u systemUsage cl in (set, errs, cl))"

definition ETS_CheckParameters_info :: "JsVibrateInfo \<Rightarrow> errcode list \<Rightarrow> client \<Rightarrow> errcode \<times> errcode list \<times> client" where
  "ETS_CheckParameters_info info errs cl =
     (let (set, errs, cl) = ETS_SetUsageInner (jvi_usage info) (jvi_systemUsage info) errs cl in
      if \<not> set then (PARAMETER_ERROR, errs @ [PARAMETER_ERROR], cl)
      else if jvi_type info \<notin> List.set g_allowedTypes then (PARAMETER_ERROR, errs @ [PARAMETER_ERROR], cl)
      else (ERR_OK, errs, cl))"

definition ETS_StartVibrate ::
    "'j client_env \<Rightarrow> 's misc_proxy \<Rightarrow> JsVibrateInfo \<Rightarrow> errcode list \<Rightarrow> 's agent_state \<Rightarrow> (errcode \<times> errcode list \<times> 's agent_state) option" where
  "ETS_StartVibrate E P info errs = (\<lambda>(cl, s).
     let (ret, errs, cl) = ETS_CheckParameters_info info errs cl in
     if ret \<noteq> ERR_OK then Some (PARAMETER_ERROR, errs @ [PARAMETER_ERROR], cl, s)
     else if jvi_type info = ''file''
     then (let (code, st) = AG_PlayVibratorCustom E P (jvi_fd info) (jvi_offset info) (jvi_length info) (cl, s) in Some (code, errs, st))
     else if jvi_type info = ''pattern''
     then map_option (\<lambda>(code, st). (code, errs, st)) (AG_PlayPattern E P (jvi_vibratorPattern info) (cl, s))
     else (let (code, st) = AG_StartVibratorOnce E P (jvi_duration info) (cl, s) in Some (code, errs, st)))"

definition ETS_startVibrationSync ::
    "(rat option \<Rightarrow> int) \<Rightarrow> file_env \<Rightarrow> 'j client_env \<Rightarrow> 's misc_proxy \<Rightarrow> ets_effect \<Rightarrow> ets_attribute \<Rightarrow> errcode list \<Rightarrow> 's agent_state
      \<Rightarrow> (errcode list \<times> 's agent_state) option" where
  "ETS_startVibrationSync U F E P effect attribute errs st =
     (case ETS_ParseParameter U F (ce_malloc E) effect attribute default_js_info of
        None \<Rightarrow> Some (errs @ [PARAMETER_ERROR], st)
      | Some (info, _) \<Rightarrow>
          if jvi_type info = ''preset'' then
            (let (set, cl) = AG_SetLoopCount (jvi_count info) (fst st);
                 (ret, errs, cl) = (if set then ETS_CheckParameters_info info errs cl else (PARAMETER_ERROR, errs, cl))
             in if \<not> set \<or> ret \<noteq> ERR_OK \<or> jvi_effectId info = [] then Some (errs @ [PARAMETER_ERROR], cl, snd st)
                else let (ret, st) = AG_PlayPrimitiveEffect E P (Some (jvi_effectId info)) (jvi_intensity info) (cl, snd st)
                     in Some (if ret \<noteq> SUCCESS then errs @ [ret] else errs, st))
          else
            (case ETS_StartVibrate E P info errs st of
               None \<Rightarrow> None
             | Some (ret, errs, st) \<Rightarrow>
                 let a = jvi_vibratorPattern info in
                 if vpt_events a \<noteq> None \<and> \<not> snd (ETS_ClearVibratorPattern a) then Some (errs, st)
                 else Some (if ret \<noteq> SUCCESS then errs @ [ret] else errs, st)))"

section \<open>Stopping and queries\<close>

definition report :: "errcode \<times> 's agent_state \<Rightarrow> errcode list \<Rightarrow> errcode list \<times> 's agent_state" where
  "report r errs = (if fst r \<noteq> SUCCESS then errs @ [fst r] else errs, snd r)"

definition ETS_stopVibrationByModeSync ::
    "'j client_env \<Rightarrow> 's misc_proxy \<Rightarrow> string \<Rightarrow> errcode list \<Rightarrow> 's agent_state \<Rightarrow> errcode list \<times> 's agent_state" where
  "ETS_stopVibrationByModeSync E P stopMode errs st = report (AG_StopVibrator E P (Some stopMode) st) errs"

definition ETS_stopVibrationSync ::
    "'j client_env \<Rightarrow> 's misc_proxy \<Rightarrow> errcode list \<Rightarrow> 's agent_state \<Rightarrow> errcode list \<times> 's agent_state" where
  "ETS_stopVibrationSync E P errs st = report (AG_Cancel E P st) errs"

definition ETS_stopVibrationAsync ::
    "'j client_env \<Rightarrow> 's misc_proxy \<Rightarrow> errcode list \<Rightarrow> 's agent_state \<Rightarrow> errcode list \<times> 's agent_state" where
  "ETS_stopVibrationAsync E P errs st = report (AG_Cancel E P st) errs"

definition ETS_stopVibrationParam ::
    "'j client_env \<Rightarrow> 's misc_proxy \<Rightarrow> ets_info_param option \<Rightarrow> errcode list \<Rightarrow> 's agent_state \<Rightarrow> errcode list \<times> 's agent_state" where
  "ETS_stopVibrationParam E P param errs st =
     report (case param of
         None \<Rightarrow> AG_Cancel E P st
       | Some p \<Rightarrow> AG_CancelEnhanced E P \<lparr>mi_deviceId = value_or (eip_deviceId p) (-1), mi_vibratorId = value_or (eip_vibratorId p) (-1)\<rparr> st) errs"

definition ETS_isHdHapticSupported :: "'j client_env \<Rightarrow> 's misc_proxy \<Rightarrow> 's agent_state \<Rightarrow> bool \<times> 's agent_state" where
  "ETS_isHdHapticSupported E P st = AG_IsHdHapticSupported E P st"

definition ETS_getVibratorInfoSync ::
    "'j client_env \<Rightarrow> 's misc_proxy \<Rightarrow> ets_info_param option \<Rightarrow> 's agent_state \<Rightarrow> VibratorInfos list \<times> 's agent_state" where
  "ETS_getVibratorInfoSync E P param st =
     (let i = (case param of None \<Rightarrow> default_identifier
            | Some p \<Rightarrow> \<lparr>mi_deviceId = value_or (eip_deviceId p) (-1), mi_vibratorId = value_or (eip_vibratorId p) (-1)\<rparr>);
          (ret, st) = AG_GetVibratorList E P i st
      in (case ret of Inl _ \<Rightarrow> [] | Inr infos \<Rightarrow> infos, st))"

definition ETS_isSupportEffectAsync ::
    "'j client_env \<Rightarrow> 's misc_proxy \<Rightarrow> string \<Rightarrow> errcode list \<Rightarrow> 's agent_state \<Rightarrow> bool \<times> errcode list \<times> 's agent_state" where
  "ETS_isSupportEffectAsync E P eff errs st =
     (let (ret, st) = AG_IsSupportEffect E P (Some eff) False st in
      case ret of
        Inl e \<Rightarrow> (False, if e = PERMISSION_DENIED \<or> e = PARAMETER_ERROR then errs @ [e] else errs, st)
      | Inr b \<Rightarrow> (b, errs, st))"

definition ETS_isSupportEffectSync ::
    "'j client_env \<Rightarrow> 's misc_proxy \<Rightarrow> string \<Rightarrow> errcode list \<Rightarrow> 's agent_state \<Rightarrow> bool \<times> errcode list \<times> 's agent_state" where
  "ETS_isSupportEffectSync E P eff errs st =
     (let (ret, st) = AG_IsSupportEffect E P (Some eff) False st in
      case ret of Inl e \<Rightarrow> (False, errs @ [e], st) | Inr b \<Rightarrow> (b, errs, st))"

text \<open>\<open>None\<close>: the value of an absent field is taken.\<close>

definition ETS_getEffectInfoSync ::
    "'j client_env \<Rightarrow> 's misc_proxy \<Rightarrow> string \<Rightarrow> ets_info_param option \<Rightarrow> 's agent_state \<Rightarrow> (bool \<times> 's agent_state) option" where
  "ETS_getEffectInfoSync E P eff param st =
     (case (case param of None \<Rightarrow> Some default_identifier
            | Some p \<Rightarrow> (case (eip_deviceId p, eip_vibratorId p) of
                (Some d, Some n) \<Rightarrow> Some \<lparr>mi_deviceId = d, mi_vibratorId = n\<rparr> | _ \<Rightarrow> None)) of
        None \<Rightarrow> None
      | Some i \<Rightarrow>
          let ((ret, supported), st) = AG_GetEffectInfo E P i eff st in
          Some (if ret \<noteq> ERR_OK then False else supported, st))"

end
