(* ===== verification/EtsEvents.thy ===== *)
theory EtsEvents
  imports EtsVibrator
begin

text \<open>
  The functions for ArkTS, second part: the builder of patterns and the callbacks for plug events, in
  \<^verbatim>\<open>frameworks/ets/taihe/author/src/ohos.vibrator.impl.cpp\<close>. Builders are objects that give their events
  to those made from them, so they live in a store and are known by their number.
\<close>

section \<open>The builder\<close>

record ets_transient_param =
  etp_intensity :: "int option"
  etp_frequency :: "int option"
  etp_index :: "int option"

record ets_continuous_param = ets_transient_param +
  etp_points :: "ets_point list option"

definition ets_point_ok :: "int \<Rightarrow> VibrateCurvePoint \<Rightarrow> bool" where
  "ets_point_ok duration p \<longleftrightarrow> \<not> (cp_time p < 0 \<or> cp_time p > duration) \<and> \<not> (cp_intensity p < 0 \<or> cp_intensity p > 100) \<and>
     \<not> (cp_frequency p < -100 \<or> cp_frequency p > 100)"

definition ETS_CheckCurvePoints :: "VibrateEvent \<Rightarrow> bool" where
  "ETS_CheckCurvePoints event =
     (let pointNum = wrap32 (int (length (ev_points event))) in
      if pointNum < 4 \<or> pointNum > 16 then False
      else list_all (\<lambda>i. ets_point_ok (ev_duration event) (ev_points event ! nat i)) (indices pointNum))"

definition ETS_CheckParameters :: "VibrateEvent \<Rightarrow> bool" where
  "ETS_CheckParameters event =
     (if ev_time event < 0 \<or> ev_time event > 1800000 then False
      else if ev_frequency event < 0 \<or> ev_frequency event > 100 then False
      else if ev_intensity event < 0 \<or> ev_intensity event > 100 then False
      else if ev_duration event \<le> 0 \<or> ev_duration event > 5000 then False
      else if ev_index event < 0 \<or> ev_index event > 2 then False
      else if ev_tag event = EVENT_TAG_CONTINUOUS \<and> ev_points event \<noteq> [] then ETS_CheckCurvePoints event
      else True)"

type_synonym ets_builders = "VibrateEvent list list"

definition ETS_getVibratorPatternBuilder :: "ets_builders \<Rightarrow> nat \<times> ets_builders" where
  "ETS_getVibratorPatternBuilder bs = (length bs, bs @ [[]])"

text \<open>The curve among the options is not read.\<close>

definition ETS_addContinuousEvent ::
    "nat \<Rightarrow> int \<Rightarrow> int \<Rightarrow> ets_continuous_param option \<Rightarrow> errcode list \<Rightarrow> ets_builders \<Rightarrow> nat \<times> errcode list \<times> ets_builders" where
  "ETS_addContinuousEvent b t duration options errs bs =
     (let (new, bs) = ETS_getVibratorPatternBuilder bs;
          event = \<lparr>ev_tag = EVENT_TAG_CONTINUOUS, ev_time = t, ev_duration = duration,
            ev_intensity = (case options of None \<Rightarrow> 100 | Some p \<Rightarrow> value_or (etp_intensity p) 100),
            ev_frequency = (case options of None \<Rightarrow> 50 | Some p \<Rightarrow> value_or (etp_frequency p) 50),
            ev_index = (case options of None \<Rightarrow> 0 | Some p \<Rightarrow> value_or (etp_index p) 0), ev_points = []\<rparr>
      in if \<not> ETS_CheckParameters event then (new, errs @ [PARAMETER_ERROR], bs)
         else let events = bs ! b @ [event] in (new, errs, bs[b := events, new := events]))"

definition ETS_addTransientEvent ::
    "nat \<Rightarrow> int \<Rightarrow> ets_transient_param option \<Rightarrow> errcode list \<Rightarrow> ets_builders \<Rightarrow> nat \<times> errcode list \<times> ets_builders" where
  "ETS_addTransientEvent b t options errs bs =
     (let (new, bs) = ETS_getVibratorPatternBuilder bs;
          event = \<lparr>ev_tag = EVENT_TAG_TRANSIENT, ev_time = t, ev_duration = 48,
            ev_intensity = (case options of None \<Rightarrow> 100 | Some p \<Rightarrow> value_or (etp_intensity p) 100),
            ev_frequency = (case options of None \<Rightarrow> 50 | Some p \<Rightarrow> value_or (etp_frequency p) 50),
            ev_index = (case options of None \<Rightarrow> 0 | Some p \<Rightarrow> value_or (etp_index p) 0), ev_points = []\<rparr>
      in if \<not> ETS_CheckParameters event then (new, errs @ [PARAMETER_ERROR], bs)
         else let events = bs ! b @ [event] in (new, errs, bs[b := events, new := events]))"

definition ETS_ConvertVibrateCurvePoint :: "VibrateCurvePoint \<Rightarrow> ets_point" where
  "ETS_ConvertVibrateCurvePoint p = \<lparr>ep_time = cp_time p, ep_intensity = Some (Some (of_int (cp_intensity p))), ep_frequency = Some (cp_frequency p)\<rparr>"

definition ETS_ConvertVibrateEvent :: "VibrateEvent \<Rightarrow> ets_event" where
  "ETS_ConvertVibrateEvent e = \<lparr>ee_eventType = tag_code (ev_tag e), ee_time = ev_time e, ee_duration = Some (ev_duration e),
     ee_intensity = Some (ev_intensity e), ee_frequency = Some (ev_frequency e), ee_index = Some (ev_index e),
     ee_points = Some (map ETS_ConvertVibrateCurvePoint (ev_points e))\<rparr>"

definition ETS_build :: "nat \<Rightarrow> errcode list \<Rightarrow> ets_builders \<Rightarrow> ets_pattern \<times> errcode list" where
  "ETS_build b errs bs =
     (let eventNum = length (bs ! b) in
      if eventNum \<le> 0 \<or> eventNum > 128 then (\<lparr>epa_time = 0, epa_events = []\<rparr>, errs @ [PARAMETER_ERROR])
      else (\<lparr>epa_time = 0, epa_events = map ETS_ConvertVibrateEvent (bs ! b)\<rparr>, errs))"

inductive ets_builders_reach :: "ets_builders \<Rightarrow> bool" where
  init: "ets_builders_reach []"
| new: "ets_builders_reach bs \<Longrightarrow> ETS_getVibratorPatternBuilder bs = (b, bs') \<Longrightarrow> ets_builders_reach bs'"
| continuous: "ets_builders_reach bs \<Longrightarrow> b < length bs \<Longrightarrow>
    ETS_addContinuousEvent b t d options errs bs = (new, errs', bs') \<Longrightarrow> ets_builders_reach bs'"
| transient: "ets_builders_reach bs \<Longrightarrow> b < length bs \<Longrightarrow>
    ETS_addTransientEvent b t options' errs bs = (new, errs', bs') \<Longrightarrow> ets_builders_reach bs'"

section \<open>Callbacks\<close>

text \<open>
  The environment of ANI: whether there is one, whether a global reference to a function can be made and deleted, and
  whether two functions are found to be the same. \<open>et_refs\<close> counts the references that were made and not deleted.
\<close>

record 'f ani =
  ani_env :: bool
  ani_create :: "'f \<Rightarrow> bool"
  ani_delete :: bool
  ani_equals :: "'f \<Rightarrow> 'f \<Rightarrow> bool"

record 'f ets_state =
  et_callbacks :: "(string, 'f list) stdmap"
  et_refs :: int

definition ets_subscriptions :: "string \<Rightarrow> 'f ets_state \<Rightarrow> 'f list" where
  "ets_subscriptions event es = (case sm_find event (et_callbacks es) of None \<Rightarrow> [] | Some fs \<Rightarrow> fs)"

definition ani_count :: "'f ani \<Rightarrow> nat \<Rightarrow> int" where
  "ani_count N n = (if ani_delete N then int n else 0)"

text \<open>
  \<open>mem\<close> says whether there is memory for the object that is to hold the function. Without it the reference that was made
  before is neither kept nor deleted.
\<close>

definition ETS_UpdateCallbackInfos :: "'f ani \<Rightarrow> bool \<Rightarrow> string \<Rightarrow> 'f \<Rightarrow> 'f ets_state \<Rightarrow> 'f ets_state" where
  "ETS_UpdateCallbackInfos N mem event callback es =
     (if \<not> ani_env N \<or> \<not> ani_create N callback then es
      else let es = es\<lparr>et_refs := et_refs es + 1\<rparr>; callbackInfos = ets_subscriptions event es;
               es = es\<lparr>et_callbacks := sm_insert event [] (et_callbacks es)\<rparr> in
        if list_ex (ani_equals N callback) callbackInfos then es\<lparr>et_refs := et_refs es - ani_count N 1\<rparr>
        else if \<not> mem then es
        else es\<lparr>et_callbacks := sm_assign event (callbackInfos @ [callback]) (et_callbacks es)\<rparr>)"

definition ETS_onVibratorStateChange ::
    "'f ani \<Rightarrow> 'j client_env \<Rightarrow> 's misc_proxy \<Rightarrow> bool \<Rightarrow> nat \<Rightarrow> 'f \<Rightarrow> errcode list \<Rightarrow> 'f ets_state \<Rightarrow> 's agent_state
      \<Rightarrow> errcode list \<times> 'f ets_state \<times> 's agent_state" where
  "ETS_onVibratorStateChange N E P mem u f errs es st =
     (let (ret, st) = AG_SubscribeVibratorPlug E P u st in
      if ret \<noteq> ERR_OK then (errs @ [ret], es, st)
      else (errs, ETS_UpdateCallbackInfos N mem ''vibratorStateChange'' f es, st))"

text \<open>
  All entries are erased, and then the list itself, whose size is returned after that: \<open>stale\<close> is what is read there.
\<close>

definition ETS_RemoveAllCallback :: "'f ani \<Rightarrow> int \<Rightarrow> string \<Rightarrow> 'f ets_state \<Rightarrow> int \<times> 'f ets_state" where
  "ETS_RemoveAllCallback N stale event es =
     (let n = length (ets_subscriptions event es) in
      (stale, es\<lparr>et_callbacks := sm_erase event (et_callbacks es),
         et_refs := et_refs es - (if ani_env N then ani_count N n else 0)\<rparr>))"

fun remove_equal :: "('f \<Rightarrow> bool) \<Rightarrow> 'f list \<Rightarrow> 'f list" where
  "remove_equal same [] = []"
| "remove_equal same (f # fs) = (if same f then fs else f # remove_equal same fs)"

definition ETS_RemoveCallback :: "'f ani \<Rightarrow> string \<Rightarrow> 'f \<Rightarrow> 'f ets_state \<Rightarrow> int \<times> 'f ets_state" where
  "ETS_RemoveCallback N event callback es =
     (if \<not> ani_env N \<or> \<not> ani_create N callback then (0, es)
      else let fs = ets_subscriptions event es;
               fs' = remove_equal (ani_equals N callback) fs;
               es = es\<lparr>et_refs := et_refs es + 1 - ani_count N (length fs - length fs') - ani_count N 1\<rparr> in
        if fs' = [] then (0, es\<lparr>et_callbacks := sm_erase event (et_callbacks es)\<rparr>)
        else (int (length fs'), es\<lparr>et_callbacks := sm_assign event fs' (et_callbacks es)\<rparr>))"

definition ETS_offVibratorStateChange ::
    "'f ani \<Rightarrow> 'j client_env \<Rightarrow> nat \<Rightarrow> int \<Rightarrow> 'f option \<Rightarrow> 'f ets_state \<Rightarrow> client \<Rightarrow> 'f ets_state \<times> client" where
  "ETS_offVibratorStateChange N E u stale opq es cl =
     (let (subscribeSize, es) = (case opq of
            Some f \<Rightarrow> ETS_RemoveCallback N ''vibratorStateChange'' f es
          | None \<Rightarrow> ETS_RemoveAllCallback N stale ''vibratorStateChange'' es)
      in if subscribeSize > 0 then (es, cl) else (es, snd (AG_UnSubscribeVibratorPlug E u cl)))"

record ets_status_event =
  ese_timestamp :: int
  ese_deviceId :: int
  ese_vibratorCount :: int
  ese_isVibratorOnline :: bool

definition ETS_CallbackVibratorStatusEvent :: "string \<Rightarrow> VibratorStatusEvent \<Rightarrow> 'f \<Rightarrow> ('f \<times> ets_status_event) list" where
  "ETS_CallbackVibratorStatusEvent eventType ev f =
     (if eventType \<noteq> ''vibratorStateChange'' then []
      else [(f, \<lparr>ese_timestamp = se_timestamp ev, ese_deviceId = se_deviceId ev, ese_vibratorCount = se_vibratorCnt ev,
              ese_isVibratorOnline = (se_type ev = 1)\<rparr>)])"

text \<open>The functions that are called, in their order.\<close>

definition ETS_DataCallbackImpl :: "VibratorStatusEvent option \<Rightarrow> 'f ets_state \<Rightarrow> ('f \<times> ets_status_event) list" where
  "ETS_DataCallbackImpl statusEvent es =
     (case statusEvent of
        None \<Rightarrow> []
      | Some ev \<Rightarrow>
          if se_type ev = -1 then []
          else (case sm_find ''vibratorStateChange'' (et_callbacks es) of
            None \<Rightarrow> []
          | Some fs \<Rightarrow> concat (map (ETS_CallbackVibratorStatusEvent ''vibratorStateChange'' ev) fs)))"

definition initial_ets :: "'f ets_state" where
  "initial_ets = \<lparr>et_callbacks = [], et_refs = 0\<rparr>"

text \<open>
  Whether a call of \<^verbatim>\<open>on\<close> makes a reference to a new function and then has no memory for the object that would hold it; the
  module over time, with the number of such calls.
\<close>

definition ets_out_of_memory :: "'f ani \<Rightarrow> bool \<Rightarrow> string \<Rightarrow> 'f \<Rightarrow> 'f ets_state \<Rightarrow> bool" where
  "ets_out_of_memory N mem event f es \<longleftrightarrow>
     ani_env N \<and> ani_create N f \<and> \<not> mem \<and> (\<forall>g \<in> set (ets_subscriptions event es). \<not> ani_equals N f g)"

inductive ets_reach :: "'f ani \<Rightarrow> ('j client_env \<times> 's misc_proxy) set \<Rightarrow> nat \<Rightarrow> 'f ets_state \<Rightarrow> bool" for N EPs where
  init: "ets_reach N EPs 0 initial_ets"
| on: "ets_reach N EPs lost es \<Longrightarrow> (E, P) \<in> EPs \<Longrightarrow> ETS_onVibratorStateChange N E P mem u f errs es st = (errs', es', st') \<Longrightarrow>
    lost' = (if errs' = errs \<and> ets_out_of_memory N mem ''vibratorStateChange'' f es then Suc lost else lost) \<Longrightarrow>
    ets_reach N EPs lost' es'"
| off: "ets_reach N EPs lost es \<Longrightarrow> (E, P) \<in> EPs \<Longrightarrow> ETS_offVibratorStateChange N E u stale opq es cl = (es', cl') \<Longrightarrow>
    ets_reach N EPs lost es'"

end
