(* ===== verification/JsEvents.thy ===== *)
theory JsEvents
  imports JsAsync StdMap "HOL-Library.List_Lexorder" "HOL-Library.Char_ord"
begin

text \<open>
  The bindings for JavaScript, fifth part: \<^verbatim>\<open>on\<close> and \<^verbatim>\<open>off\<close> of
  \<^verbatim>\<open>frameworks/js/napi/vibrator/src/vibrator_js.cpp\<close> and \<^verbatim>\<open>EmitUvEventLoop\<close> of
  \<^verbatim>\<open>vibrator_napi_utils.cpp\<close>. The objects of the subscriptions are shared between the table and the tasks that
  wait in the event loops, so they live in a store and are known by their number in it. Each environment has an event
  loop of its own, which runs the tasks sent to it in their order; the loops of two environments run at any pace.
  As in the first part, the objects themselves are assumed to be allocated.
\<close>

section \<open>State\<close>

record 'v event_state =
  ev_store :: "'v async_info list"
  ev_onCallbackInfos :: "(string, nat list) stdmap"
  ev_tasks :: "nat \<Rightarrow> nat list"

definition initial_events :: "'v event_state" where
  "initial_events = \<lparr>ev_store = [], ev_onCallbackInfos = [], ev_tasks = (\<lambda>_. [])\<rparr>"

definition subscriptions :: "string \<Rightarrow> 'v event_state \<Rightarrow> nat list" where
  "subscriptions event es = (case sm_find event (ev_onCallbackInfos es) of None \<Rightarrow> [] | Some ks \<Rightarrow> ks)"

section \<open>\<^verbatim>\<open>on\<close>\<close>

text \<open>The function behind the reference of an object; \<open>None\<close> when it cannot be had.\<close>

definition referenced :: "'v napi \<Rightarrow> 'v async_info \<Rightarrow> 'v option" where
  "referenced N ai = (case ai_callback0 ai of None \<Rightarrow> None | Some f \<Rightarrow> if napi_get_reference_value N f then Some f else None)"

fun same_callback_in :: "'v napi \<Rightarrow> nat \<Rightarrow> 'v \<Rightarrow> 'v async_info list \<Rightarrow> bool" where
  "same_callback_in N env callback [] = False"
| "same_callback_in N env callback (c # cs) =
     (if ai_env c \<noteq> env then same_callback_in N env callback cs
      else case referenced N c of
        None \<Rightarrow> False
      | Some f \<Rightarrow> if JS_IsSameValue N callback f then True else same_callback_in N env callback cs)"

definition JS_IsSubscribed :: "'v napi \<Rightarrow> nat \<Rightarrow> string \<Rightarrow> 'v \<Rightarrow> 'v event_state \<Rightarrow> bool" where
  "JS_IsSubscribed N env event callback es =
     same_callback_in N env callback (map ((!) (ev_store es)) (subscriptions event es))"

definition JS_UpdateCallbackInfos ::
    "'v napi \<Rightarrow> nat \<Rightarrow> string \<Rightarrow> 'v \<Rightarrow> 'v js_state \<Rightarrow> 'v event_state \<Rightarrow> 'v js_state \<times> 'v event_state" where
  "JS_UpdateCallbackInfos N env event callback js es =
     (if JS_IsSubscribed N env event callback es then (js, es)
      else
        let ai = new_async\<lparr>ai_env := env, ai_type := (if event = ''vibratorStateChange'' then VIBRATOR_STATE_CHANGE else COMMON_CALLBACK)\<rparr> in
        if \<not> napi_create_reference N callback then (js_throw N PARAMETER_ERROR js, es)
        else (js, es\<lparr>ev_store := ev_store es @ [ai\<lparr>ai_callback0 := Some callback\<rparr>],
               ev_onCallbackInfos := sm_assign event (subscriptions event es @ [length (ev_store es)]) (ev_onCallbackInfos es)\<rparr>))"

text \<open>\<open>u\<close> is the address of the module's \<^verbatim>\<open>user\<close>.\<close>

definition JS_On ::
    "'v napi \<Rightarrow> 'j client_env \<Rightarrow> 's misc_proxy \<Rightarrow> nat \<Rightarrow> nat \<Rightarrow> 'v list option \<Rightarrow> 'v js_state \<Rightarrow> 'v event_state \<Rightarrow> 's agent_state
      \<Rightarrow> 'v js_state \<times> 'v event_state \<times> 's agent_state" where
  "JS_On N E P u env args js es st =
     (case args of
        None \<Rightarrow> (js_throw N PARAMETER_ERROR js, es, st)
      | Some a \<Rightarrow>
          if length a < 2 then (js_throw N PARAMETER_ERROR js, es, st)
          else if \<not> JS_IsMatchType N (a ! 0) napi_string \<or> \<not> JS_IsMatchType N (a ! 1) napi_function
          then (js_throw N PARAMETER_ERROR js, es, st)
          else case JS_GetStringValue N (a ! 0) of
            None \<Rightarrow> (js_throw N PARAMETER_ERROR js, es, st)
          | Some eventType \<Rightarrow>
              let (ret, st) = AG_SubscribeVibratorPlug E P u st in
              if ret \<noteq> ERR_OK then (js_throw N ret js, es, st)
              else let (js, es) = JS_UpdateCallbackInfos N env eventType (a ! 1) js es in (js, es, st))"

section \<open>\<^verbatim>\<open>off\<close>\<close>

definition JS_set_subscriptions :: "string \<Rightarrow> nat list \<Rightarrow> 'v event_state \<Rightarrow> nat \<times> 'v event_state" where
  "JS_set_subscriptions event ks es =
     (if ks = [] then (0, es\<lparr>ev_onCallbackInfos := sm_erase event (ev_onCallbackInfos es)\<rparr>)
      else (length ks, es\<lparr>ev_onCallbackInfos := sm_assign event ks (ev_onCallbackInfos es)\<rparr>))"

definition JS_RemoveAllCallback :: "nat \<Rightarrow> string \<Rightarrow> 'v event_state \<Rightarrow> nat \<times> 'v event_state" where
  "JS_RemoveAllCallback env event es =
     JS_set_subscriptions event (filter (\<lambda>k. ai_env (ev_store es ! k) \<noteq> env) (subscriptions event es)) es"

text \<open>
  The loop of \<^verbatim>\<open>RemoveCallback\<close>, at a position of the list: its two \<^verbatim>\<open>continue\<close> do not move on, so it may not return.
\<close>

partial_function (option) remove_loop :: "('a \<Rightarrow> bool) \<Rightarrow> ('a \<Rightarrow> bool option) \<Rightarrow> nat \<Rightarrow> 'a list \<Rightarrow> 'a list option" where
  [code]: "remove_loop foreign same i xs =
     (if i \<ge> length xs then Some xs
      else if foreign (xs ! i) then remove_loop foreign same i xs
      else case same (xs ! i) of
        None \<Rightarrow> remove_loop foreign same i xs
      | Some b \<Rightarrow> if b then Some (take i xs @ drop (Suc i) xs) else remove_loop foreign same (Suc i) xs)"

definition JS_RemoveCallback :: "'v napi \<Rightarrow> nat \<Rightarrow> string \<Rightarrow> 'v \<Rightarrow> 'v event_state \<Rightarrow> (nat \<times> 'v event_state) option" where
  "JS_RemoveCallback N env event callback es =
     map_option (\<lambda>ks. JS_set_subscriptions event ks es)
       (remove_loop (\<lambda>k. ai_env (ev_store es ! k) \<noteq> env)
         (\<lambda>k. map_option (JS_IsSameValue N callback) (referenced N (ev_store es ! k))) 0 (subscriptions event es))"

text \<open>\<open>None\<close>: \<^verbatim>\<open>off\<close> does not return.\<close>

definition JS_Off ::
    "'v napi \<Rightarrow> 'j client_env \<Rightarrow> nat \<Rightarrow> nat \<Rightarrow> 'v list option \<Rightarrow> 'v js_state \<Rightarrow> 'v event_state \<Rightarrow> client
      \<Rightarrow> ('v js_state \<times> 'v event_state \<times> client) option" where
  "JS_Off N E u env args js es cl =
     (case args of
        None \<Rightarrow> Some (js_throw N PARAMETER_ERROR js, es, cl)
      | Some a \<Rightarrow>
          if a = [] \<or> \<not> JS_IsMatchType N (a ! 0) napi_string then Some (js_throw N PARAMETER_ERROR js, es, cl)
          else case JS_GetStringValue N (a ! 0) of
            None \<Rightarrow> Some (js_throw N PARAMETER_ERROR js, es, cl)
          | Some eventType \<Rightarrow>
              (case (if length a = 1 \<or> \<not> JS_IsMatchType N (a ! 1) napi_function then Some (JS_RemoveAllCallback env eventType es)
                     else JS_RemoveCallback N env eventType (a ! 1) es) of
                 None \<Rightarrow> None
               | Some (subscribeSize, es) \<Rightarrow>
                   if subscribeSize > 0 then Some (js, es, cl)
                   else Some (js, es, snd (AG_UnSubscribeVibratorPlug E u cl))))"

section \<open>Events\<close>

definition JS_UpdatePlugInfo :: "VibratorStatusEvent \<Rightarrow> 'v async_info \<Rightarrow> errcode \<times> 'v async_info" where
  "JS_UpdatePlugInfo ev ai = (if se_type ev = -1 then (PARAMETER_ERROR, ai) else (SUCCESS, ai\<lparr>ai_statusEvent := ev\<rparr>))"

text \<open>A task holds the object, not a copy of it; \<open>send\<close> says whether the event loop of the object takes tasks.\<close>

definition EmitUvEventLoop :: "(nat \<Rightarrow> bool) \<Rightarrow> nat \<Rightarrow> 'v event_state \<Rightarrow> 'v event_state" where
  "EmitUvEventLoop send k es =
     (let env = ai_env (ev_store es ! k)
      in if send env then es\<lparr>ev_tasks := (ev_tasks es)(env := ev_tasks es env @ [k])\<rparr> else es)"

definition notify :: "(nat \<Rightarrow> bool) \<Rightarrow> VibratorStatusEvent \<Rightarrow> nat \<Rightarrow> 'v event_state \<Rightarrow> 'v event_state" where
  "notify send ev k es =
     (if ai_type (ev_store es ! k) = VIBRATOR_STATE_CHANGE then
        let (code, ai) = JS_UpdatePlugInfo ev (ev_store es ! k)
        in EmitUvEventLoop send k (es\<lparr>ev_store := (ev_store es)[k := ai\<lparr>ai_code := code\<rparr>]\<rparr>)
      else es)"

definition DataCallbackImpl :: "(nat \<Rightarrow> bool) \<Rightarrow> VibratorStatusEvent option \<Rightarrow> 'v event_state \<Rightarrow> 'v event_state" where
  "DataCallbackImpl send statusEvent es =
     (case statusEvent of None \<Rightarrow> es | Some ev \<Rightarrow> fold (notify send ev) (concat (map snd (ev_onCallbackInfos es))) es)"

definition event_task :: "'v napi \<Rightarrow> 'v async_info \<Rightarrow> 'v js_action list" where
  "event_task N ai =
     call_referenced N (ai_callback0 ai)
       (do { convert \<leftarrow> g_convertFuncList N (ai_type ai); (r0, r1) \<leftarrow> convert ai; Some [r0, r1] })"

text \<open>One task of the loop of an environment, the first one that waits there.\<close>

definition run_task :: "'v napi \<Rightarrow> nat \<Rightarrow> 'v event_state \<Rightarrow> 'v js_action list \<times> 'v event_state" where
  "run_task N env es =
     (case ev_tasks es env of
        [] \<Rightarrow> ([], es)
      | k # ks \<Rightarrow> (event_task N (ev_store es ! k), es\<lparr>ev_tasks := (ev_tasks es)(env := ks)\<rparr>))"

text \<open>The module over time: calls from any environment, events and tasks.\<close>

inductive event_reach :: "'v napi \<Rightarrow> ('j client_env \<times> 's misc_proxy) set \<Rightarrow> 'v event_state \<Rightarrow> bool" for N EPs where
  init: "event_reach N EPs initial_events"
| on: "event_reach N EPs es \<Longrightarrow> (E, P) \<in> EPs \<Longrightarrow> JS_On N E P u env args js es st = (js', es', st') \<Longrightarrow> event_reach N EPs es'"
| off: "event_reach N EPs es \<Longrightarrow> (E, P) \<in> EPs \<Longrightarrow> JS_Off N E u env args js es cl = Some (js', es', cl') \<Longrightarrow>
    event_reach N EPs es'"
| event: "event_reach N EPs es \<Longrightarrow> event_reach N EPs (DataCallbackImpl send ev es)"
| task: "event_reach N EPs es \<Longrightarrow> run_task N env es = (acts, es') \<Longrightarrow> event_reach N EPs es'"

text \<open>
  The loops run: \<open>envs\<close> says which environment's loop runs its next task at each step. The actions are given with the
  environment they happen in.
\<close>

fun run_loops :: "'v napi \<Rightarrow> nat list \<Rightarrow> 'v event_state \<Rightarrow> (nat \<times> 'v js_action list) list \<times> 'v event_state" where
  "run_loops N [] es = ([], es)"
| "run_loops N (env # envs) es =
     (let (acts, es) = run_task N env es; (rest, es) = run_loops N envs es in ((env, acts) # rest, es))"

definition actions_in :: "nat \<Rightarrow> (nat \<times> 'v js_action list) list \<Rightarrow> 'v js_action list" where
  "actions_in env acts = concat (map snd (filter (\<lambda>a. fst a = env) acts))"

end
