(* ===== verification/CallbackTable.thy ===== *)
theory CallbackTable
  imports Prelude "HOL-Library.Sublist"
begin

text \<open>
  What the bindings promise of a table of callbacks, whatever engine their functions belong to: a callback that is there is not
  added again, and the first one that is found to be the same is taken out. Functions are compared by the engine, the one that is
  passed first.
\<close>

section \<open>Lists of callbacks\<close>

text \<open>No callback is the same as one before it.\<close>

definition apart :: "('f \<Rightarrow> 'f \<Rightarrow> bool) \<Rightarrow> 'f list \<Rightarrow> bool" where
  "apart alike fs \<longleftrightarrow> sorted_wrt (\<lambda>g f. \<not> alike f g) fs"

text \<open>The list without the first element that has a property.\<close>

definition first_out :: "('f \<Rightarrow> bool) \<Rightarrow> 'f list \<Rightarrow> 'f list" where
  "first_out P fs = takeWhile (\<lambda>f. \<not> P f) fs @ tl (dropWhile (\<lambda>f. \<not> P f) fs)"

lemma first_out_simps [simp]: "first_out P [] = []" "first_out P (f # fs) = (if P f then fs else f # first_out P fs)"
  by (simp_all add: first_out_def)

lemma first_out_none: "\<forall>f \<in> set fs. \<not> P f \<Longrightarrow> first_out P fs = fs"
  by (induction fs) simp_all

lemma first_out_last: "\<forall>f \<in> set fs. \<not> P f \<Longrightarrow> P f \<Longrightarrow> first_out P (fs @ [f]) = fs"
  by (induction fs) simp_all

lemma first_out_map: "first_out P (map h fs) = map h (first_out (\<lambda>f. P (h f)) fs)"
  by (induction fs) simp_all

lemma first_out_cong: "(\<And>f. f \<in> set fs \<Longrightarrow> P f \<longleftrightarrow> Q f) \<Longrightarrow> first_out P fs = first_out Q fs"
  by (induction fs) simp_all

lemma first_out_subseq: "subseq (first_out P fs) fs"
  by (induction fs) auto

lemma first_out_length: "length (first_out P fs) + (if list_ex P fs then 1 else 0) = length fs"
  by (induction fs) auto

text \<open>A part of a list keeps the properties.\<close>

lemma subseq_parts:
  assumes "subseq xs ys"
  shows "set xs \<subseteq> set ys" and "distinct ys \<Longrightarrow> distinct xs" and "sorted_wrt P ys \<Longrightarrow> sorted_wrt P xs"
proof -
  have "set xs \<subseteq> set ys \<and> (distinct ys \<longrightarrow> distinct xs) \<and> (sorted_wrt P ys \<longrightarrow> sorted_wrt P xs)"
    using assms by (induction rule: list_emb.induct) auto
  then show "set xs \<subseteq> set ys" and "distinct ys \<Longrightarrow> distinct xs" and "sorted_wrt P ys \<Longrightarrow> sorted_wrt P xs" by simp_all
qed

lemma apart_subseq: "subseq gs fs \<Longrightarrow> apart alike fs \<Longrightarrow> apart alike gs"
  unfolding apart_def by (rule subseq_parts(3))

lemma apart_empty [simp]: "apart alike []"
  by (simp add: apart_def)

lemma apart_last [simp]: "apart alike (fs @ [f]) \<longleftrightarrow> apart alike fs \<and> (\<forall>g \<in> set fs. \<not> alike f g)"
  by (simp add: apart_def sorted_wrt_append)

lemma apart_nth: "apart alike fs \<Longrightarrow> i < j \<Longrightarrow> j < length fs \<Longrightarrow> \<not> alike (fs ! j) (fs ! i)"
  by (simp add: apart_def sorted_wrt_iff_nth_less)

section \<open>The contract\<close>

text \<open>
  \<open>works f\<close>: the engine makes the references that the operations need for \<open>f\<close>. Taking out may not return.
\<close>

locale callback_table =
  fixes inv :: "'s \<Rightarrow> bool" and table :: "'s \<Rightarrow> 'f list" and alike :: "'f \<Rightarrow> 'f \<Rightarrow> bool" and works :: "'f \<Rightarrow> bool"
    and add :: "'f \<Rightarrow> 's \<Rightarrow> 's" and take_out :: "'f \<Rightarrow> 's \<Rightarrow> 's option"
  assumes add_inv: "inv s \<Longrightarrow> inv (add f s)"
    and add_table: "inv s \<Longrightarrow>
      table (add f s) = (if works f \<and> (\<forall>g \<in> set (table s). \<not> alike f g) then table s @ [f] else table s)"
    and out_inv: "inv s \<Longrightarrow> take_out f s = Some s' \<Longrightarrow> inv s'"
    and out_part: "inv s \<Longrightarrow> take_out f s = Some s' \<Longrightarrow> subseq (table s') (table s)"
    and out_table: "inv s \<Longrightarrow> works f \<Longrightarrow> take_out f s = Some s' \<Longrightarrow> table s' = first_out (alike f) (table s)"
begin

lemma add_apart: "inv s \<Longrightarrow> apart alike (table s) \<Longrightarrow> apart alike (table (add f s))"
  by (simp add: add_table)

lemma out_apart: "inv s \<Longrightarrow> take_out f s = Some s' \<Longrightarrow> apart alike (table s) \<Longrightarrow> apart alike (table s')"
  by (rule apart_subseq [OF out_part])

lemma add_again: "inv s \<Longrightarrow> alike f f \<Longrightarrow> table (add f (add f s)) = table (add f s)"
  by (auto simp: add_table add_inv)

lemma out_undoes_add:
  assumes "inv s" and "works f" and "alike f f" and "\<forall>g \<in> set (table s). \<not> alike f g" and "take_out f (add f s) = Some s'"
  shows "table s' = table s"
  using out_table [OF add_inv assms(2,5)] assms by (simp add: add_table first_out_last)

end

end
