(* ===== verification/JsEventProps.thy ===== *)
theory JsEventProps
  imports JsEvents AgentProps CallbackTable
begin

text \<open>
  What \<^verbatim>\<open>on\<close> and \<^verbatim>\<open>off\<close> promise: no callback is there twice, each one gets every plug event, and when
  \<^verbatim>\<open>off\<close> of one callback returns. The list of an event is a table of callbacks in the sense of \<open>CallbackTable\<close>.
\<close>

section \<open>The table of callbacks\<close>

text \<open>References that can be read: an assumption on Node-API.\<close>

definition napi_references :: "'v napi \<Rightarrow> bool" where
  "napi_references N \<longleftrightarrow> (\<forall>f. napi_get_reference_value N f)"

text \<open>A callback is a function in an environment.\<close>

definition js_alike :: "'v napi \<Rightarrow> nat \<times> 'v \<Rightarrow> nat \<times> 'v \<Rightarrow> bool" where
  "js_alike N f g \<longleftrightarrow> fst f = fst g \<and> JS_IsSameValue N (snd f) (snd g)"

definition callback_of :: "'v async_info \<Rightarrow> nat \<times> 'v" where
  "callback_of ai = (ai_env ai, the (ai_callback0 ai))"

definition js_table :: "string \<Rightarrow> 'v event_state \<Rightarrow> (nat \<times> 'v) list" where
  "js_table event es = map (\<lambda>k. callback_of (ev_store es ! k)) (subscriptions event es)"

definition event_type :: "string \<Rightarrow> CallbackType" where
  "event_type event = (if event = ''vibratorStateChange'' then VIBRATOR_STATE_CHANGE else COMMON_CALLBACK)"

definition subscription_ok :: "'v async_info list \<Rightarrow> string \<Rightarrow> nat \<Rightarrow> bool" where
  "subscription_ok store event k \<longleftrightarrow> k < length store \<and> ai_callback0 (store ! k) \<noteq> None \<and> ai_type (store ! k) = event_type event"

definition events_wf :: "'v event_state \<Rightarrow> bool" where
  "events_wf es \<longleftrightarrow> sm_ok (ev_onCallbackInfos es) \<and>
     (\<forall>event. list_all (subscription_ok (ev_store es) event) (subscriptions event es) \<and> distinct (subscriptions event es))"

definition events_ok :: "'v napi \<Rightarrow> 'v event_state \<Rightarrow> bool" where
  "events_ok N es \<longleftrightarrow> events_wf es \<and> (\<forall>event. apart (js_alike N) (js_table event es))"

lemma subscriptions_store [simp]: "subscriptions event (es\<lparr>ev_store := s\<rparr>) = subscriptions event es"
  and subscriptions_tasks [simp]: "subscriptions event (es\<lparr>ev_tasks := t\<rparr>) = subscriptions event es"
  by (simp_all add: subscriptions_def)

lemma subscriptions_assign [simp]:
  "subscriptions event (es\<lparr>ev_onCallbackInfos := sm_assign event' ks m\<rparr>) =
    (if event = event' then ks else subscriptions event (es\<lparr>ev_onCallbackInfos := m\<rparr>))"
  by (simp add: subscriptions_def)

lemma subscriptions_erase [simp]:
  "subscriptions event (es\<lparr>ev_onCallbackInfos := sm_erase event' m\<rparr>) =
    (if event = event' then [] else subscriptions event (es\<lparr>ev_onCallbackInfos := m\<rparr>))"
  by (simp add: subscriptions_def)

lemma subscriptions_same [simp]: "subscriptions event (es\<lparr>ev_onCallbackInfos := ev_onCallbackInfos es\<rparr>) = subscriptions event es"
  by simp

section \<open>Adding\<close>

lemma same_callback_in_iff:
  assumes "napi_references N" and "\<forall>c \<in> set cs. ai_callback0 c \<noteq> None"
  shows "same_callback_in N env callback cs \<longleftrightarrow> (\<exists>c \<in> set cs. js_alike N (env, callback) (callback_of c))"
  using assms by (induction cs) (auto simp: js_alike_def callback_of_def referenced_def napi_references_def split: option.splits)

lemma JS_IsSubscribed_iff:
  assumes "events_wf es" and "napi_references N"
  shows "JS_IsSubscribed N env event callback es \<longleftrightarrow> (\<exists>g \<in> set (js_table event es). js_alike N (env, callback) g)"
proof -
  have "\<forall>c \<in> set (map ((!) (ev_store es)) (subscriptions event es)). ai_callback0 c \<noteq> None"
    using assms(1) by (auto simp: events_wf_def list_all_iff subscription_ok_def)
  from same_callback_in_iff [OF assms(2) this, of env callback] show ?thesis
    by (simp add: JS_IsSubscribed_def js_table_def)
qed

lemma subscriptions_inside:
  assumes "events_wf es" and "k \<in> set (subscriptions event es)"
  shows "k < length (ev_store es)"
  using assms by (auto simp: events_wf_def list_all_iff subscription_ok_def)

lemma JS_UpdateCallbackInfos_table:
  assumes "events_wf es" and "napi_references N" and "JS_UpdateCallbackInfos N env event callback js es = (js', es')"
  shows "events_wf es' \<and> (\<forall>e. js_table e es' =
    (if e = event \<and> napi_create_reference N callback \<and> (\<forall>g \<in> set (js_table event es). \<not> js_alike N (env, callback) g)
     then js_table e es @ [(env, callback)] else js_table e es))"
proof (cases "JS_IsSubscribed N env event callback es \<or> \<not> napi_create_reference N callback")
  case True
  then have "es' = es" using assms(3) by (auto simp: JS_UpdateCallbackInfos_def Let_def split: if_splits)
  with True assms(1) show ?thesis by (auto simp: JS_IsSubscribed_iff [OF assms(1,2)])
next
  case False
  let ?new = "new_async\<lparr>ai_env := env, ai_type := event_type event, ai_callback0 := Some callback\<rparr>"
  let ?k = "length (ev_store es)" and ?store = "ev_store es @ [?new]"
  have es': "es' = es\<lparr>ev_store := ?store, ev_onCallbackInfos := sm_assign event (subscriptions event es @ [?k]) (ev_onCallbackInfos es)\<rparr>"
    using False assms(3) by (simp add: JS_UpdateCallbackInfos_def Let_def event_type_def)
  have old: "list_all (subscription_ok (ev_store es) e) (subscriptions e es)" "distinct (subscriptions e es)" for e
    using assms(1) by (simp_all add: events_wf_def)
  note inside = subscriptions_inside [OF assms(1)]
  have table: "map (\<lambda>k. callback_of (?store ! k)) (subscriptions e es) = js_table e es" for e
    by (simp add: js_table_def nth_append inside)
  have ok: "list_all (subscription_ok ?store e) (subscriptions e es)" for e
    using old(1) [of e] inside [of _ e] by (auto simp: list_all_iff subscription_ok_def nth_append less_SucI)
  have fresh: "?k \<notin> set (subscriptions e es)" for e using inside by blast
  have "events_wf es'" using assms(1) ok old(2) fresh by (simp add: events_wf_def es' subscription_ok_def)
  moreover have "js_table e es' = (if e = event then js_table e es @ [(env, callback)] else js_table e es)" for e
    using table [of e] by (simp add: js_table_def es' callback_of_def)
  ultimately show ?thesis using False by (auto simp: JS_IsSubscribed_iff [OF assms(1,2)])
qed

section \<open>Taking out\<close>

lemma JS_set_subscriptions_result:
  assumes "JS_set_subscriptions event ks es = (n, es')"
  shows "n = length ks \<and> ev_store es' = ev_store es \<and> ev_tasks es' = ev_tasks es \<and>
    subscriptions e es' = (if e = event then ks else subscriptions e es) \<and> (sm_ok (ev_onCallbackInfos es) \<longrightarrow> sm_ok (ev_onCallbackInfos es'))"
  using assms by (auto simp: JS_set_subscriptions_def split: if_splits)

lemma JS_set_subscriptions_wf:
  assumes "events_wf es" and "subseq ks (subscriptions event es)" and "JS_set_subscriptions event ks es = (n, es')"
  shows "events_wf es'"
  using assms(1) subseq_parts [OF assms(2)] JS_set_subscriptions_result [OF assms(3)]
  by (auto simp: events_wf_def list_all_iff)

lemma JS_set_subscriptions_table:
  assumes "JS_set_subscriptions event ks es = (n, es')"
  shows "js_table e es' = (if e = event then map (\<lambda>k. callback_of (ev_store es ! k)) ks else js_table e es)"
  using JS_set_subscriptions_result [OF assms] by (simp add: js_table_def)

section \<open>The loop of \<^verbatim>\<open>RemoveCallback\<close>\<close>

text \<open>Where the loop stops: behind elements that are neither foreign nor the same.\<close>

definition stops_at :: "('a \<Rightarrow> bool) \<Rightarrow> ('a \<Rightarrow> bool option) \<Rightarrow> nat \<Rightarrow> 'a list \<Rightarrow> nat \<Rightarrow> bool" where
  "stops_at foreign same i xs j \<longleftrightarrow> i \<le> j \<and> (\<forall>m. i \<le> m \<longrightarrow> m < j \<longrightarrow> m < length xs \<and> \<not> foreign (xs ! m) \<and> same (xs ! m) = Some False) \<and>
     (j \<ge> length xs \<or> \<not> foreign (xs ! j) \<and> same (xs ! j) = Some True)"

lemma remove_loop_step:
  assumes "(if i \<ge> length xs then Some xs else if F then L i else case S of None \<Rightarrow> L i
      | Some b \<Rightarrow> if b then Some (take i xs @ drop (Suc i) xs) else L (Suc i)) = Some r"
  shows "L i = Some r \<or> (i \<ge> length xs \<and> r = xs \<or> i < length xs \<and> \<not> F \<and> S = Some True \<and> r = take i xs @ drop (Suc i) xs) \<or>
    i < length xs \<and> \<not> F \<and> S = Some False \<and> L (Suc i) = Some r"
proof (cases S)
  case (Some b)
  with assms show ?thesis by (cases b; cases F; cases "length xs \<le> i") auto
qed (use assms in \<open>auto split: if_splits\<close>)

lemma remove_loop_Some:
  assumes "remove_loop foreign same i xs = Some r"
  shows "\<exists>j. stops_at foreign same i xs j \<and> r = take j xs @ drop (Suc j) xs"
  using assms
proof (induction foreign same i xs r rule: remove_loop.raw_induct [rotated, consumes 1, case_names step])
  case (step loop foreign same i xs r)
  note IH = step(1)
  consider "loop foreign same i xs = Some r"
    | "i \<ge> length xs \<and> r = xs \<or> i < length xs \<and> \<not> foreign (xs ! i) \<and> same (xs ! i) = Some True \<and> r = take i xs @ drop (Suc i) xs"
    | "i < length xs" "\<not> foreign (xs ! i)" "same (xs ! i) = Some False" "loop foreign same (Suc i) xs = Some r"
    using remove_loop_step [of xs i "foreign (xs ! i)" "\<lambda>i. loop foreign same i xs" "same (xs ! i)" r, OF step(2)] by blast
  then show ?case
  proof cases
    case 1
    from IH [OF this] show ?thesis .
  next
    case 2
    then show ?thesis by (intro exI [of _ i]) (auto simp: stops_at_def)
  next
    case 3
    from IH [OF 3(4)] obtain j where j: "stops_at foreign same (Suc i) xs j" "r = take j xs @ drop (Suc j) xs" by blast
    have "m < length xs \<and> \<not> foreign (xs ! m) \<and> same (xs ! m) = Some False" if "i \<le> m" "m < j" for m
      using j(1) 3(1-3) that by (cases "m = i") (simp_all add: stops_at_def)
    with j(1) have "stops_at foreign same i xs j" by (simp add: stops_at_def)
    with j(2) show ?thesis by blast
  qed
qed

lemma remove_loop_stops:
  assumes "stops_at foreign same i xs j"
  shows "remove_loop foreign same i xs = Some (take j xs @ drop (Suc j) xs)"
  using assms
proof (induction "j - i" arbitrary: i)
  case 0
  then show ?case by (subst remove_loop.simps) (auto simp: stops_at_def)
next
  case (Suc n)
  then have "i < j" "stops_at foreign same (Suc i) xs j" "i < length xs" "\<not> foreign (xs ! i)" "same (xs ! i) = Some False"
    by (auto simp: stops_at_def)
  with Suc.hyps(1) [of "Suc i"] Suc.hyps(2) show ?case by (subst remove_loop.simps) simp
qed

lemma remove_loop_iff:
  "remove_loop foreign same i xs = Some r \<longleftrightarrow> (\<exists>j. stops_at foreign same i xs j \<and> r = take j xs @ drop (Suc j) xs)"
  using remove_loop_Some remove_loop_stops by metis

lemma remove_loop_total:
  fixes foreign s
  defines "h \<equiv> \<lambda>x. \<not> (\<not> foreign x \<and> s x)"
  assumes "\<forall>x \<in> set xs. same x = Some (s x)"
  shows "remove_loop foreign same 0 xs =
    (if list_all (\<lambda>x. \<not> foreign x) (takeWhile h xs) then Some (takeWhile h xs @ tl (dropWhile h xs)) else None)"
proof (cases "list_all (\<lambda>x. \<not> foreign x) (takeWhile h xs)")
  case True
  let ?j = "length (takeWhile h xs)"
  have "m < length xs \<and> \<not> foreign (xs ! m) \<and> same (xs ! m) = Some False" if "m < ?j" for m
  proof -
    have m: "m < length xs" using that length_takeWhile_le [of h xs] by linarith
    have "h (xs ! m)" "\<not> foreign (xs ! m)"
      using that True takeWhile_nth [OF that] nth_mem [OF that] set_takeWhileD [of "takeWhile h xs ! m" h xs]
      by (auto simp: list_all_length)
    with m assms(2) show ?thesis by (simp add: h_def)
  qed
  moreover have "?j \<ge> length xs \<or> \<not> foreign (xs ! ?j) \<and> same (xs ! ?j) = Some True"
    using nth_length_takeWhile [of h xs] assms(2) by (auto simp: h_def)
  ultimately have "stops_at foreign same 0 xs ?j" by (simp add: stops_at_def)
  from remove_loop_stops [OF this] True show ?thesis
    by (simp add: takeWhile_eq_take [symmetric] dropWhile_eq_drop drop_Suc tl_drop)
next
  case False
  have "remove_loop foreign same 0 xs \<noteq> Some r" for r
  proof
    assume "remove_loop foreign same 0 xs = Some r"
    then obtain j where j: "stops_at foreign same 0 xs j" using remove_loop_Some by blast
    then have "takeWhile h xs = take j xs"
      using assms(2) by (intro takeWhile_eq_take_P_nth) (auto simp: stops_at_def h_def)
    moreover have "list_all (\<lambda>x. \<not> foreign x) (take j xs)" using j by (auto simp: stops_at_def list_all_length)
    ultimately show False using False by simp
  qed
  with False show ?thesis by (cases "remove_loop foreign same 0 xs") auto
qed

text \<open>The subscriptions up to, and behind, the one of a callback.\<close>

definition is_callback :: "'v napi \<Rightarrow> nat \<Rightarrow> 'v \<Rightarrow> 'v async_info \<Rightarrow> bool" where
  "is_callback N env callback ai \<longleftrightarrow> ai_env ai = env \<and> (\<exists>f. ai_callback0 ai = Some f \<and> JS_IsSameValue N callback f)"

text \<open>Whether it returns, and what it does then.\<close>

lemma JS_RemoveCallback_result:
  assumes "events_wf es" and "napi_references N"
    and "before = takeWhile (\<lambda>k. \<not> is_callback N env callback (ev_store es ! k)) (subscriptions event es)"
    and "behind = tl (dropWhile (\<lambda>k. \<not> is_callback N env callback (ev_store es ! k)) (subscriptions event es))"
  shows "JS_RemoveCallback N env event callback es =
    (if \<forall>k \<in> set before. ai_env (ev_store es ! k) = env then Some (JS_set_subscriptions event (before @ behind) es) else None)"
proof -
  let ?ks = "subscriptions event es" and ?foreign = "\<lambda>k. ai_env (ev_store es ! k) \<noteq> env"
  let ?same = "\<lambda>k. map_option (JS_IsSameValue N callback) (referenced N (ev_store es ! k))"
  let ?s = "\<lambda>k. \<exists>f. ai_callback0 (ev_store es ! k) = Some f \<and> JS_IsSameValue N callback f"
  have "list_all (subscription_ok (ev_store es) event) ?ks" using assms(1) by (simp add: events_wf_def)
  with assms(2) have same: "\<forall>k \<in> set ?ks. ?same k = Some (?s k)"
    by (auto simp: list_all_iff subscription_ok_def referenced_def napi_references_def split: option.splits)
  have h: "(\<lambda>k. \<not> is_callback N env callback (ev_store es ! k)) = (\<lambda>k. \<not> (\<not> ?foreign k \<and> ?s k))"
    by (simp add: is_callback_def fun_eq_iff)
  have "remove_loop ?foreign ?same 0 ?ks = (if list_all (\<lambda>k. \<not> ?foreign k) before then Some (before @ behind) else None)"
    using remove_loop_total [OF same, of ?foreign] unfolding assms(3,4) h .
  then show ?thesis by (simp add: JS_RemoveCallback_def list_all_iff)
qed

lemma JS_RemoveCallback_table:
  assumes "events_wf es" and "napi_references N" and "JS_RemoveCallback N env event callback es = Some (n, es')"
  shows "events_wf es' \<and>
    js_table e es' = (if e = event then first_out (js_alike N (env, callback)) (js_table event es) else js_table e es)"
proof -
  let ?P = "\<lambda>k. is_callback N env callback (ev_store es ! k)" and ?ks = "subscriptions event es"
  let ?rest = "takeWhile (\<lambda>k. \<not> ?P k) ?ks @ tl (dropWhile (\<lambda>k. \<not> ?P k) ?ks)"
  have r: "JS_set_subscriptions event ?rest es = (n, es')"
    using assms(3) JS_RemoveCallback_result [OF assms(1,2) refl refl, where env = env and callback = callback and event = event] by (simp split: if_splits)
  have rest: "?rest = first_out ?P ?ks" by (simp add: first_out_def)
  have "?P k \<longleftrightarrow> js_alike N (env, callback) (callback_of (ev_store es ! k))" if "k \<in> set ?ks" for k
  proof -
    have "ai_callback0 (ev_store es ! k) \<noteq> None" using that assms(1) by (auto simp: events_wf_def list_all_iff subscription_ok_def)
    then show ?thesis by (auto simp: is_callback_def js_alike_def callback_of_def)
  qed
  then have "first_out ?P ?ks = first_out (\<lambda>k. js_alike N (env, callback) (callback_of (ev_store es ! k))) ?ks"
    by (rule first_out_cong)
  then have "first_out (js_alike N (env, callback)) (js_table event es) = map (\<lambda>k. callback_of (ev_store es ! k)) ?rest"
    by (simp only: js_table_def first_out_map rest)
  then show ?thesis
    using JS_set_subscriptions_table [OF r, of e] JS_set_subscriptions_wf [OF assms(1) _ r] first_out_subseq [of ?P ?ks]
    by (simp add: rest)
qed

lemma JS_RemoveAllCallback_table:
  assumes "events_wf es" and "JS_RemoveAllCallback env event es = (n, es')"
  shows "events_wf es' \<and> subseq (js_table e es') (js_table e es)"
proof -
  let ?ks = "subscriptions event es" and ?rest = "filter (\<lambda>k. ai_env (ev_store es ! k) \<noteq> env) (subscriptions event es)"
  have r: "JS_set_subscriptions event ?rest es = (n, es')" using assms(2) by (simp add: JS_RemoveAllCallback_def)
  have "subseq (map (\<lambda>k. callback_of (ev_store es ! k)) ?rest) (js_table event es)"
    unfolding js_table_def by (intro subseq_map subseq_filter_left)
  then show ?thesis using JS_set_subscriptions_table [OF r, of e] JS_set_subscriptions_wf [OF assms(1) _ r] by simp
qed

text \<open>The table of an event keeps the contract.\<close>

definition js_add :: "'v napi \<Rightarrow> string \<Rightarrow> nat \<times> 'v \<Rightarrow> 'v event_state \<Rightarrow> 'v event_state" where
  "js_add N event f es = snd (JS_UpdateCallbackInfos N (fst f) event (snd f) initial_js es)"

definition js_take_out :: "'v napi \<Rightarrow> string \<Rightarrow> nat \<times> 'v \<Rightarrow> 'v event_state \<Rightarrow> 'v event_state option" where
  "js_take_out N event f es = map_option snd (JS_RemoveCallback N (fst f) event (snd f) es)"

interpretation js: callback_table "\<lambda>es. events_wf es \<and> napi_references N" "js_table event" "js_alike N"
    "\<lambda>f. napi_create_reference N (snd f)" "js_add N event" "js_take_out N event" for N :: "'v napi" and event
proof
  fix s s' :: "'v event_state" and f
  assume inv: "events_wf s \<and> napi_references N"
  note add = JS_UpdateCallbackInfos_table [OF conjunct1 [OF inv] conjunct2 [OF inv] surjective_pairing, of "fst f" event "snd f" initial_js]
  show "events_wf (js_add N event f s) \<and> napi_references N" using add inv by (simp add: js_add_def)
  show "js_table event (js_add N event f s) =
      (if napi_create_reference N (snd f) \<and> (\<forall>g \<in> set (js_table event s). \<not> js_alike N f g) then js_table event s @ [f] else js_table event s)"
    using add by (simp add: js_add_def)
  assume "js_take_out N event f s = Some s'"
  then obtain n where "JS_RemoveCallback N (fst f) event (snd f) s = Some (n, s')" by (auto simp: js_take_out_def)
  from JS_RemoveCallback_table [OF conjunct1 [OF inv] conjunct2 [OF inv] this, of event] inv
  show "events_wf s' \<and> napi_references N" and table: "js_table event s' = first_out (js_alike N f) (js_table event s)" by simp_all
  show "subseq (js_table event s') (js_table event s)" by (simp add: table first_out_subseq)
qed

section \<open>Events keep the table\<close>

definition same_subscriptions :: "'v event_state \<Rightarrow> 'v event_state \<Rightarrow> bool" where
  "same_subscriptions es es' \<longleftrightarrow> ev_onCallbackInfos es' = ev_onCallbackInfos es \<and> length (ev_store es') = length (ev_store es) \<and>
     (\<forall>k. ai_env (ev_store es' ! k) = ai_env (ev_store es ! k) \<and> ai_callback0 (ev_store es' ! k) = ai_callback0 (ev_store es ! k) \<and>
        ai_type (ev_store es' ! k) = ai_type (ev_store es ! k))"

lemma same_subscriptions_refl [simp]: "same_subscriptions es es"
  by (simp add: same_subscriptions_def)

lemma same_subscriptions_trans: "same_subscriptions es es' \<Longrightarrow> same_subscriptions es' es'' \<Longrightarrow> same_subscriptions es es''"
  by (simp add: same_subscriptions_def)

lemma same_subscriptions_ok:
  assumes "same_subscriptions es es'" and "events_ok N es"
  shows "events_ok N es'"
proof -
  have "subscription_ok (ev_store es') event = subscription_ok (ev_store es) event"
    "subscriptions event es' = subscriptions event es" "js_table event es' = js_table event es" for event
    using assms(1) by (simp_all add: same_subscriptions_def subscriptions_def subscription_ok_def js_table_def callback_of_def fun_eq_iff)
  with assms show ?thesis by (simp add: same_subscriptions_def events_ok_def events_wf_def)
qed

lemma nth_update_fields:
  assumes "f x = f (xs ! k)"
  shows "f (xs[k := x] ! j) = f (xs ! j)"
  using assms by (cases "k < length xs") (auto simp: nth_list_update list_update_beyond)

lemma notify_same: "same_subscriptions es (notify send ev k es)"
proof -
  have "ai_env ai' = ai_env ai \<and> ai_callback0 ai' = ai_callback0 ai \<and> ai_type ai' = ai_type ai"
    if "JS_UpdatePlugInfo ev ai = (code, ai')" for ai ai' :: "'a async_info" and code
    using that by (auto simp: JS_UpdatePlugInfo_def split: if_splits)
  then show ?thesis
    by (auto simp: notify_def EmitUvEventLoop_def Let_def same_subscriptions_def split: prod.splits intro!: nth_update_fields)
qed

lemma fold_notify_same: "same_subscriptions es (fold (notify send ev) ks es)"
  by (induction ks arbitrary: es) (auto intro: same_subscriptions_trans notify_same)

lemma DataCallbackImpl_same: "same_subscriptions es (DataCallbackImpl send ev es)"
  by (auto simp: DataCallbackImpl_def fold_notify_same split: option.splits)

lemma run_task_same: "run_task N env es = (acts, es') \<Longrightarrow> same_subscriptions es es'"
  by (auto simp: run_task_def same_subscriptions_def split: list.splits)

lemma JS_UpdateCallbackInfos_ok:
  assumes "events_ok N es" and "napi_references N" and "JS_UpdateCallbackInfos N env event callback js es = (js', es')"
  shows "events_ok N es'"
  using assms(1) JS_UpdateCallbackInfos_table [OF _ assms(2,3)] by (simp add: events_ok_def)

lemma JS_Off_ok:
  assumes "events_ok N es" and "napi_references N" and "JS_Off N E u env args js es cl = Some (js', es', cl')"
  shows "events_ok N es'"
proof -
  have "events_ok N e" if "JS_RemoveAllCallback env event es = (n, e)" for n e event
    using assms(1) JS_RemoveAllCallback_table [OF _ that] by (auto simp: events_ok_def intro: apart_subseq)
  moreover have "events_ok N e" if "JS_RemoveCallback N env event callback es = Some (n, e)" for n e event callback
    using assms(1) JS_RemoveCallback_table [OF _ assms(2) that] by (auto simp: events_ok_def intro: apart_subseq first_out_subseq)
  ultimately show ?thesis using assms
    by (auto simp: JS_Off_def split: option.splits if_splits)
qed

lemma event_reach_ok:
  assumes "event_reach N EPs es" and "napi_references N"
  shows "events_ok N es"
  using assms(1)
proof induction
  case init
  show ?case by (simp add: events_ok_def events_wf_def js_table_def initial_events_def subscriptions_def)
next
  case (on es E P u env args js st js' es' st')
  then show ?case using JS_UpdateCallbackInfos_ok [OF on.IH assms(2)]
    by (auto simp: JS_On_def Let_def split: option.splits if_splits prod.splits)
next
  case (event es send ev)
  then show ?case using same_subscriptions_ok DataCallbackImpl_same by blast
next
  case (task es env acts es')
  then show ?case using same_subscriptions_ok run_task_same by blast
qed (use JS_Off_ok assms(2) in blast)

section \<open>No callback twice\<close>

text \<open>A callback is never subscribed twice: whatever calls and events have come before, the objects in the table for an
  event that belong to the same environment have different functions, and each of them is of the type of its event.\<close>

theorem js_no_callback_twice:
  assumes "event_reach N EPs es" and "napi_references N" and "i < j" and "j < length (subscriptions event es)"
    and "old = ev_store es ! (subscriptions event es ! i)" and "new = ev_store es ! (subscriptions event es ! j)"
    and "ai_env old = ai_env new"
  shows "\<exists>f g. ai_callback0 old = Some f \<and> ai_callback0 new = Some g \<and> \<not> JS_IsSameValue N g f \<and> ai_type new = event_type event"
proof -
  let ?ks = "subscriptions event es"
  have ok: "list_all (subscription_ok (ev_store es) event) ?ks" "apart (js_alike N) (js_table event es)"
    using event_reach_ok [OF assms(1,2)] by (simp_all add: events_ok_def events_wf_def)
  have "\<not> js_alike N (callback_of new) (callback_of old)"
    using apart_nth [OF ok(2) assms(3)] assms(3-6) by (simp add: js_table_def)
  moreover have "subscription_ok (ev_store es) event (?ks ! i)" "subscription_ok (ev_store es) event (?ks ! j)"
    using ok(1) assms(3,4) by (simp_all add: list_all_length)
  ultimately show ?thesis using assms(5-7) by (auto simp: js_alike_def callback_of_def subscription_ok_def)
qed

text \<open>Subscribing again changes nothing, and \<^verbatim>\<open>off\<close> of a new subscription, when it returns, gives the table back.\<close>

lemma js_on_again:
  assumes "event_reach N EPs es" and "napi_references N" and "JS_IsSameValue N f f"
  shows "js_table event (js_add N event (env, f) (js_add N event (env, f) es)) = js_table event (js_add N event (env, f) es)"
  using event_reach_ok [OF assms(1,2)] assms(2,3) by (intro js.add_again) (simp_all add: events_ok_def js_alike_def)

lemma js_off_undoes_on:
  assumes "event_reach N EPs es" and "napi_references N" and "JS_IsSameValue N f f" and "napi_create_reference N f"
    and "\<forall>g \<in> set (js_table event es). \<not> js_alike N (env, f) g" and "js_take_out N event (env, f) (js_add N event (env, f) es) = Some es'"
  shows "js_table event es' = js_table event es"
  using event_reach_ok [OF assms(1,2)] assms by (intro js.out_undoes_add [OF _ _ _ assms(5,6)]) (simp_all add: events_ok_def js_alike_def)

section \<open>Every subscriber is told\<close>

lemma filter_concat_key:
  assumes "distinct (map fst m)" and "\<And>e ks k. (e, ks) \<in> set m \<Longrightarrow> k \<in> set ks \<Longrightarrow> P k \<longleftrightarrow> e = key"
  shows "filter P (concat (map snd m)) = (case map_of m key of None \<Rightarrow> [] | Some ks \<Rightarrow> ks)"
  using assms
proof (induction m)
  case (Cons a m)
  obtain e ks where a: "a = (e, ks)" by (cases a)
  have IH: "filter P (concat (map snd m)) = (case map_of m key of None \<Rightarrow> [] | Some ks \<Rightarrow> ks)"
    using Cons.prems by (intro Cons.IH) auto
  have ks: "filter P ks = (if e = key then ks else [])"
    using Cons.prems(2) a by (auto intro: filter_True simp: filter_empty_conv)
  show ?case
  proof (cases "e = key")
    case True
    with Cons.prems(1) a have "map_of m key = None" by (simp add: map_of_eq_None_iff)
    with IH ks a True show ?thesis by simp
  qed (use IH ks a in simp)
qed simp

lemma notify_event:
  assumes "se_type ev \<noteq> -1" and "ai_type (ev_store es ! k) = VIBRATOR_STATE_CHANGE"
  shows "ev_store (notify send ev k es) = (ev_store es)[k := (ev_store es ! k)\<lparr>ai_statusEvent := ev, ai_code := SUCCESS\<rparr>]"
    and "k < length (ev_store es) \<Longrightarrow> ev_tasks (notify send ev k es) env =
      ev_tasks es env @ (if send env \<and> ai_env (ev_store es ! k) = env then [k] else [])"
  using assms by (auto simp: notify_def JS_UpdatePlugInfo_def EmitUvEventLoop_def Let_def)

lemma fold_notify:
  assumes "send env" and "se_type ev \<noteq> -1" and "\<forall>k \<in> set ks. k < length (ev_store es)"
  shows "ev_tasks (fold (notify send ev) ks es) env =
      ev_tasks es env @ filter (\<lambda>k. ai_type (ev_store es ! k) = VIBRATOR_STATE_CHANGE \<and> ai_env (ev_store es ! k) = env) ks \<and>
    (\<forall>k < length (ev_store es). (k \<in> set ks \<and> ai_type (ev_store es ! k) = VIBRATOR_STATE_CHANGE \<longrightarrow>
        ev_store (fold (notify send ev) ks es) ! k = (ev_store es ! k)\<lparr>ai_statusEvent := ev, ai_code := SUCCESS\<rparr>) \<and>
      (k \<notin> set ks \<longrightarrow> ev_store (fold (notify send ev) ks es) ! k = ev_store es ! k))"
  using assms(3)
proof (induction ks arbitrary: es)
  case (Cons k ks)
  let ?es = "notify send ev k es"
  have same: "ai_type (ev_store ?es ! j) = ai_type (ev_store es ! j)" "ai_env (ev_store ?es ! j) = ai_env (ev_store es ! j)"
    and len: "length (ev_store ?es) = length (ev_store es)" for j
    using notify_same [of es send ev k] by (simp_all add: same_subscriptions_def)
  show ?case
  proof (cases "ai_type (ev_store es ! k) = VIBRATOR_STATE_CHANGE")
    case True
    note event = notify_event [OF assms(2) True, of send]
    have store: "ev_store ?es ! j = (if j = k then (ev_store es ! k)\<lparr>ai_statusEvent := ev, ai_code := SUCCESS\<rparr> else ev_store es ! j)"
      if "j < length (ev_store es)" for j using that by (simp add: event(1) nth_list_update)
    have tasks: "ev_tasks ?es env = ev_tasks es env @ (if ai_env (ev_store es ! k) = env then [k] else [])"
      using event(2) [of env] assms(1) Cons.prems by simp
    show ?thesis using Cons.IH [of ?es] Cons.prems True tasks store by (auto simp: same len)
  next
    case False
    then have es: "?es = es" by (simp add: notify_def)
    show ?thesis using Cons.IH [of es] Cons.prems False by (auto simp: es)
  qed
qed simp

text \<open>The loop of an environment runs the tasks of the environment in their order, whatever the other loops do.\<close>

lemma run_task_store [simp]: "ev_store (snd (run_task N env es)) = ev_store es"
  by (simp add: run_task_def split: list.split)

lemma run_task_other: "env' \<noteq> env \<Longrightarrow> ev_tasks (snd (run_task N env es)) env' = ev_tasks es env'"
  by (simp add: run_task_def split: list.split)

lemma run_task_first:
  "run_task N env es = (acts, es') \<Longrightarrow> ev_tasks es env = [] \<and> acts = [] \<and> es' = es \<or>
    ev_tasks es env \<noteq> [] \<and> acts = event_task N (ev_store es ! hd (ev_tasks es env)) \<and> ev_tasks es' env = tl (ev_tasks es env)"
  by (auto simp: run_task_def split: list.splits)

lemma actions_in_Nil [simp]: "actions_in env [] = []"
  by (simp add: actions_in_def)

lemma actions_in_Cons [simp]: "actions_in env (a # acts) = (if fst a = env then snd a @ actions_in env acts else actions_in env acts)"
  by (simp add: actions_in_def)

lemma run_loops_actions:
  "actions_in env (fst (run_loops N envs es)) =
    concat (map (\<lambda>k. event_task N (ev_store es ! k)) (take (count_list envs env) (ev_tasks es env)))"
proof (induction envs arbitrary: es)
  case (Cons e envs)
  obtain acts es' where t: "run_task N e es = (acts, es')" by (cases "run_task N e es")
  obtain rest es'' where r: "run_loops N envs es' = (rest, es'')" by (cases "run_loops N envs es'")
  have store: "ev_store es' = ev_store es" using run_task_store [of N e es] t by simp
  from Cons.IH [of es'] r have IH: "actions_in env rest =
    concat (map (\<lambda>k. event_task N (ev_store es ! k)) (take (count_list envs env) (ev_tasks es' env)))" by (simp add: store)
  have run: "fst (run_loops N (e # envs) es) = (e, acts) # rest" by (simp add: t r)
  show ?case
  proof (cases "e = env")
    case True
    with run_task_first [OF t] IH show ?thesis unfolding run by (cases "ev_tasks es env") auto
  next
    case False
    with run_task_other [of env e N es] t IH show ?thesis unfolding run by simp
  qed
qed simp

text \<open>C29. Every subscriber is told of a plug event: when an event comes in, then in each environment whose event loop takes
  tasks, once the loop has run the tasks that wait there (the loops of other environments running in between in any way),
  each callback of the environment that is subscribed to \<^verbatim>\<open>vibratorStateChange\<close> has been called with the event exactly
  once, in the order of the subscriptions, and this after the tasks that already waited; nothing else has been called. What
  the tasks that already waited do depends on the event too: they hold the object of their subscription, in which the event
  has replaced the earlier one.\<close>

theorem js_event_reaches_every_subscriber:
  assumes "event_reach N EPs es" and "napi_references N" and "send env" and "se_type ev \<noteq> -1"
    and "ConvertToJsVibratorPlungInfo N ev = Some v" and "napi_get_undefined N = Some w"
    and "es' = DataCallbackImpl send (Some ev) es" and "length (ev_tasks es' env) \<le> count_list envs env"
  shows "actions_in env (fst (run_loops N envs es')) =
    concat (map (\<lambda>k. event_task N (ev_store es' ! k)) (ev_tasks es env)) @
    map (\<lambda>k. CallFunction (the (ai_callback0 (ev_store es ! k))) [v, w])
      (filter (\<lambda>k. ai_env (ev_store es ! k) = env) (subscriptions ''vibratorStateChange'' es))"
proof -
  let ?ks = "concat (map snd (ev_onCallbackInfos es))" and ?subs = "subscriptions ''vibratorStateChange'' es"
  let ?here = "filter (\<lambda>k. ai_env (ev_store es ! k) = env) ?subs"
  have ok: "sm_ok (ev_onCallbackInfos es)" "list_all (subscription_ok (ev_store es) event) (subscriptions event es)" for event
    using event_reach_ok [OF assms(1,2)] by (simp_all add: events_ok_def events_wf_def)
  have entry: "subscription_ok (ev_store es) e k" if "(e, ks) \<in> set (ev_onCallbackInfos es)" "k \<in> set ks" for e ks k
    using that ok(2) [of e] sm_find_iff [OF ok(1)] by (auto simp: subscriptions_def list_all_iff)
  then have type: "ai_type (ev_store es ! k) = event_type e" if "(e, ks) \<in> set (ev_onCallbackInfos es)" "k \<in> set ks" for e ks k
    using that by (auto simp: subscription_ok_def)
  have len: "\<forall>k \<in> set ?ks. k < length (ev_store es)" using entry by (fastforce simp: subscription_ok_def)
  have "distinct (map fst (ev_onCallbackInfos es))" using ok(1) by (simp add: sm_ok_def strict_sorted_iff)
  then have subs: "filter (\<lambda>k. ai_type (ev_store es ! k) = VIBRATOR_STATE_CHANGE) ?ks = ?subs"
    unfolding subscriptions_def sm_find_def by (intro filter_concat_key) (simp_all add: type event_type_def)
  have es': "es' = fold (notify send ev) ?ks es" using assms(7) by (simp add: DataCallbackImpl_def)
  note fold = fold_notify [where send = send and env = env, OF assms(3,4) len]
  have here: "?here = filter (\<lambda>k. ai_type (ev_store es ! k) = VIBRATOR_STATE_CHANGE \<and> ai_env (ev_store es ! k) = env) ?ks"
    by (subst subs [symmetric]) (simp add: conj_commute)
  have tasks: "ev_tasks es' env = ev_tasks es env @ ?here" using fold unfolding es' here by blast
  have told: "event_task N (ev_store es' ! k) = [CallFunction (the (ai_callback0 (ev_store es ! k))) [v, w]]" if k: "k \<in> set ?here" for k
  proof -
    have sub: "subscription_ok (ev_store es) ''vibratorStateChange'' k" using ok(2) k by (auto simp: list_all_iff)
    have "k \<in> set ?ks" "ai_type (ev_store es ! k) = VIBRATOR_STATE_CHANGE"
      using k unfolding here by (simp_all only: set_filter mem_Collect_eq)
    with fold sub have "ev_store es' ! k = (ev_store es ! k)\<lparr>ai_statusEvent := ev, ai_code := SUCCESS\<rparr>"
      by (simp add: es' subscription_ok_def)
    with sub assms(2,5,6) show ?thesis
      by (auto simp: event_task_def call_referenced_def napi_references_def subscription_ok_def event_type_def ConstructVibratorPlugInfoResult_def)
  qed
  have "concat (map (\<lambda>k. event_task N (ev_store es' ! k)) ?here) =
      concat (map (\<lambda>k. [CallFunction (the (ai_callback0 (ev_store es ! k))) [v, w]]) ?here)"
    by (intro arg_cong [of _ _ concat] map_cong refl told)
  then show ?thesis using assms(8) by (simp add: run_loops_actions tasks concat_map_singleton)
qed

section \<open>When \<^verbatim>\<open>off\<close> returns\<close>

text \<open>C31. When \<^verbatim>\<open>off\<close> of one callback returns, and what it does then: it returns if and only if no subscription of
  another environment comes before the one of the callback (or, when the callback is not subscribed, if there is no such
  subscription at all); then exactly the callback is taken out, the number of the others is given back, and
  the subscriptions to other events are untouched.\<close>

theorem js_off_returns_iff:
  assumes "event_reach N EPs es" and "napi_references N"
    and "before = takeWhile (\<lambda>k. \<not> is_callback N env callback (ev_store es ! k)) (subscriptions event es)"
    and "behind = tl (dropWhile (\<lambda>k. \<not> is_callback N env callback (ev_store es ! k)) (subscriptions event es))"
  shows "case JS_RemoveCallback N env event callback es of
      None \<Rightarrow> \<exists>k \<in> set before. ai_env (ev_store es ! k) \<noteq> env
    | Some (n, es') \<Rightarrow> (\<forall>k \<in> set before. ai_env (ev_store es ! k) = env) \<and> n = length (before @ behind) \<and>
        (\<forall>e. subscriptions e es' = (if e = event then before @ behind else subscriptions e es))"
proof -
  let ?here = "\<forall>k \<in> set before. ai_env (ev_store es ! k) = env"
  have "events_wf es" using event_reach_ok [OF assms(1,2)] by (simp add: events_ok_def)
  note result = JS_RemoveCallback_result [OF this assms(2-4)]
  show ?thesis
  proof (cases ?here)
    case True
    obtain n es' where r: "JS_set_subscriptions event (before @ behind) es = (n, es')" by (cases "JS_set_subscriptions event (before @ behind) es")
    with True result JS_set_subscriptions_result [OF r] show ?thesis by simp
  next
    case False
    with result show ?thesis by auto
  qed
qed

section \<open>Examples\<close>

definition js_on :: "nat \<Rightarrow> nat \<Rightarrow> js event_state \<Rightarrow> js event_state" where
  "js_on env f es = fst (snd (JS_On js_engine sample_client_env sample_proxy 5 env (Some [JsStr ''vibratorStateChange'', JsFun f])
     initial_js es sample_agent))"

abbreviation js_event_reach :: "js event_state \<Rightarrow> bool" where
  "js_event_reach \<equiv> event_reach js_engine {(sample_client_env, sample_proxy)}"

lemma js_on_reach:
  assumes "js_event_reach es"
  shows "js_event_reach (js_on env f es)"
proof -
  obtain js' es' st' where r: "JS_On js_engine sample_client_env sample_proxy 5 env (Some [JsStr ''vibratorStateChange'', JsFun f])
      initial_js es sample_agent = (js', es', st')" using prod.exhaust by metis
  from event_reach.on [OF assms singletonI r] r show ?thesis by (simp add: js_on_def)
qed

lemma js_engine_references: "napi_references js_engine"
  by (simp add: napi_references_def js_engine_def)

definition js_one :: "js event_state" where "js_one = js_on 0 0 initial_events"
definition js_two :: "js event_state" where "js_two = js_on 1 0 (js_on 0 0 initial_events)"
definition js_both :: "js event_state" where "js_both = js_on 0 1 (js_on 0 0 initial_events)"

lemma js_states_reach: "js_event_reach js_one" "js_event_reach js_two" "js_event_reach js_both"
  by (simp_all add: js_one_def js_two_def js_both_def js_on_reach event_reach.init)

lemma js_no_callback_twice_witness:
  "\<exists>f g. map ai_callback0 (ev_store js_both) = [Some f, Some g] \<and> \<not> JS_IsSameValue js_engine g f"
proof -
  have subs: "subscriptions ''vibratorStateChange'' js_both = [0, 1]" by code_simp
  have envs: "map ai_env (ev_store js_both) = [0, 0]" by code_simp
  then have store: "length (ev_store js_both) = 2" "ai_env (ev_store js_both ! 0) = ai_env (ev_store js_both ! 1)"
    by (metis length_map list.size(3,4) One_nat_def Suc_1 add.commute plus_1_eq_Suc, auto simp: map_eq_Cons_conv)
  from js_no_callback_twice [OF js_states_reach(3) js_engine_references, of 0 1 "''vibratorStateChange''" "ev_store js_both ! 0"
      "ev_store js_both ! 1"] subs store
  obtain f g where "ai_callback0 (ev_store js_both ! 0) = Some f" "ai_callback0 (ev_store js_both ! 1) = Some g"
    "\<not> JS_IsSameValue js_engine g f" by auto
  moreover have "ev_store js_both = [ev_store js_both ! 0, ev_store js_both ! 1]"
    using store(1) by (auto simp: list_eq_iff_nth_eq less_Suc_eq numeral_2_eq_2)
  ultimately show ?thesis by (metis list.map(1,2))
qed

definition sample_plug :: VibratorStatusEvent where
  "sample_plug = \<lparr>se_type = 1, se_deviceId = 3, se_vibratorCnt = 2, se_timestamp = 99\<rparr>"

text \<open>Two environments subscribe; the loop of the second runs first, and the first has an earlier event to deliver.\<close>

definition js_waiting :: "js event_state" where
  "js_waiting = js_on 1 0 (DataCallbackImpl (\<lambda>_. True) (Some (sample_plug\<lparr>se_type := 0\<rparr>)) js_one)"

lemma js_waiting_reach: "js_event_reach js_waiting"
  unfolding js_waiting_def by (intro js_on_reach event_reach.event js_states_reach(1))

lemma js_event_reaches_every_subscriber_witness:
  "\<exists>v. actions_in 1 (fst (run_loops js_engine [1, 0, 0] (DataCallbackImpl (\<lambda>_. True) (Some sample_plug) js_waiting)))
       = [CallFunction (JsFun 0) [v, JsUndefined]] \<and>
     actions_in 0 (fst (run_loops js_engine [1, 0, 0] (DataCallbackImpl (\<lambda>_. True) (Some sample_plug) js_waiting)))
       = [CallFunction (JsFun 0) [v, JsUndefined], CallFunction (JsFun 0) [v, JsUndefined]]"
proof -
  let ?es = "DataCallbackImpl (\<lambda>_. True) (Some sample_plug) js_waiting"
  have subs: "subscriptions ''vibratorStateChange'' js_waiting = [0, 1]"
    and fields: "map ai_callback0 (ev_store js_waiting) = [Some (JsFun 0), Some (JsFun 0)]" "map ai_env (ev_store js_waiting) = [0, 1]"
    and n: "length (ev_tasks ?es 0) = 2" "length (ev_tasks ?es 1) = 1"
    and waiting: "ev_tasks js_waiting 0 = [0]" "ev_tasks js_waiting 1 = []" by code_simp+
  have type: "se_type sample_plug \<noteq> -1" by (simp add: sample_plug_def)
  have "ConvertToJsVibratorPlungInfo js_engine sample_plug \<noteq> None" by code_simp
  then obtain v where v: "ConvertToJsVibratorPlungInfo js_engine sample_plug = Some v" by blast
  have "event_task js_engine (ev_store ?es ! 0) = [CallFunction (JsFun 0) [the (ConvertToJsVibratorPlungInfo js_engine sample_plug), JsUndefined]]"
    by code_simp
  with v have first: "event_task js_engine (ev_store ?es ! 0) = [CallFunction (JsFun 0) [v, JsUndefined]]" by simp
  have undef: "napi_get_undefined js_engine = Some JsUndefined" by (simp add: js_engine_def)
  have store: "ai_callback0 (ev_store js_waiting ! 0) = Some (JsFun 0)" "ai_callback0 (ev_store js_waiting ! Suc 0) = Some (JsFun 0)"
    "ai_env (ev_store js_waiting ! 0) = 0" "ai_env (ev_store js_waiting ! Suc 0) = 1"
    using fields by (auto simp: map_eq_Cons_conv)
  note told = js_event_reaches_every_subscriber [where envs = "[1, 0, 0]" and send = "\<lambda>_. True",
    OF js_waiting_reach js_engine_references _ type v undef refl]
  from told [of 1] told [of 0] n subs store waiting first show ?thesis by simp
qed

text \<open>The callback of the second environment cannot be taken out, that of the first can.\<close>

lemma js_off_returns_iff_witness:
  "JS_RemoveCallback js_engine 1 ''vibratorStateChange'' (JsFun 0) js_two = None \<and>
   JS_RemoveCallback js_engine 0 ''vibratorStateChange'' (JsFun 0) js_two \<noteq> None"
proof -
  let ?before = "\<lambda>env. takeWhile (\<lambda>k. \<not> is_callback js_engine env (JsFun 0) (ev_store js_two ! k)) (subscriptions ''vibratorStateChange'' js_two)"
  have subs: "subscriptions ''vibratorStateChange'' js_two = [0, 1]" and fields: "map ai_env (ev_store js_two) = [0, 1]"
    "map ai_callback0 (ev_store js_two) = [Some (JsFun 0), Some (JsFun 0)]" by code_simp+
  have store: "ai_env (ev_store js_two ! 0) = 0" "ai_env (ev_store js_two ! Suc 0) = 1"
    "ai_callback0 (ev_store js_two ! 0) = Some (JsFun 0)" "ai_callback0 (ev_store js_two ! Suc 0) = Some (JsFun 0)"
    using fields by (auto simp: map_eq_Cons_conv)
  have same: "JS_IsSameValue js_engine (JsFun 0) (JsFun 0)" by code_simp
  have before: "?before 1 = [0]" "?before 0 = []" using store same by (simp_all add: subs is_callback_def)
  have "JS_RemoveCallback js_engine 1 ''vibratorStateChange'' (JsFun 0) js_two = None"
    using js_off_returns_iff [OF js_states_reach(2) js_engine_references before(1) [symmetric] refl] store(1)
    by (auto split: option.splits)
  moreover have "JS_RemoveCallback js_engine 0 ''vibratorStateChange'' (JsFun 0) js_two \<noteq> None"
    using js_off_returns_iff [OF js_states_reach(2) js_engine_references before(2) [symmetric] refl] by (auto split: option.splits)
  ultimately show ?thesis by simp
qed

text \<open>
  \<^verbatim>\<open>off\<close> with an event that nobody subscribes to takes the process out of the client's subscribers although the
  callback for \<^verbatim>\<open>vibratorStateChange\<close> is still in the table.
\<close>

lemma off_other_event_unsubscribes:
  "map_option (\<lambda>(js, es, cl). (subscriptions ''vibratorStateChange'' es, cl_users cl))
     (JS_Off js_engine sample_client_env 5 0 (Some [JsStr ''other'']) initial_js js_one (initial_client\<lparr>cl_users := [5]\<rparr>)) = Some ([0], [])"
  by code_simp

text \<open>A second event that comes before the task of the first has run replaces it: the callback is told of the second twice.\<close>

lemma second_event_replaces_first:
  "actions_in 0 (fst (run_loops js_engine [0, 0] (DataCallbackImpl (\<lambda>_. True) (Some (sample_plug\<lparr>se_type := 0\<rparr>))
       (DataCallbackImpl (\<lambda>_. True) (Some sample_plug) js_one))))
   = replicate 2 (CallFunction (JsFun 0) [the (ConvertToJsVibratorPlungInfo js_engine (sample_plug\<lparr>se_type := 0\<rparr>)), JsUndefined])"
  by code_simp

end
