(* ===== verification/EtsProps.thy ===== *)
theory EtsProps
  imports EtsEvents JsEventProps JsProps
begin

text \<open>
  What the functions for ArkTS promise, and how the three bindings compare: a pattern from the builder passes the checks
  of \<^verbatim>\<open>startVibration\<close>, the global references are kept account of, and a request to vibrate for a time does the same in all three
  when it is for all vibrators.
\<close>

section \<open>The builder\<close>

definition ets_built :: "VibrateEvent \<Rightarrow> bool" where
  "ets_built e \<longleftrightarrow> built_event e \<and> ev_points e = []"

lemma ETS_CheckParameters_built:
  assumes "ETS_CheckParameters e" and "ev_points e = []"
    and "ev_tag e = EVENT_TAG_CONTINUOUS \<or> ev_tag e = EVENT_TAG_TRANSIENT \<and> ev_duration e = 48"
  shows "ets_built e"
  using assms by (auto simp: ets_built_def built_event_def ETS_CheckParameters_def split: if_splits)

lemma builders_update:
  assumes "list_all (list_all P) bs" and "list_all P xs"
  shows "list_all (list_all P) (bs[i := xs])"
  using assms set_update_subset_insert [of bs i xs] by (auto simp: list_all_iff)

lemma builders_extended:
  assumes "list_all (list_all P) bs" and "b < length bs" and "Q \<Longrightarrow> P e"
    and "bs' = bs @ [[]] \<or> Q \<and> bs' = (bs @ [[]])[b := bs ! b @ [e], length bs := bs ! b @ [e]]"
  shows "list_all (list_all P) bs'"
proof -
  have base: "list_all (list_all P) (bs @ [[]])" using assms(1) by simp
  have "list_all P (bs ! b)" using assms(1) nth_mem [OF assms(2)] unfolding list_all_iff by blast
  then have "list_all P (bs ! b @ [e])" if Q using assms(3) that by simp
  with base assms(4) show ?thesis by (elim disjE conjE) (simp_all only: builders_update)
qed

lemma ets_builders_reach_built:
  assumes "ets_builders_reach bs"
  shows "list_all (list_all ets_built) bs"
  using assms
proof induction
  case (new bs b bs')
  then show ?case by (auto simp: ETS_getVibratorPatternBuilder_def)
next
  case (continuous bs b t d options errs new errs' bs')
  let ?e = "\<lparr>ev_tag = EVENT_TAG_CONTINUOUS, ev_time = t, ev_duration = d,
            ev_intensity = (case options of None \<Rightarrow> 100 | Some p \<Rightarrow> value_or (etp_intensity p) 100),
            ev_frequency = (case options of None \<Rightarrow> 50 | Some p \<Rightarrow> value_or (etp_frequency p) 50),
            ev_index = (case options of None \<Rightarrow> 0 | Some p \<Rightarrow> value_or (etp_index p) 0), ev_points = []\<rparr>"
  have bs: "bs' = bs @ [[]] \<or> ETS_CheckParameters ?e \<and> bs' = (bs @ [[]])[b := bs ! b @ [?e], length bs := bs ! b @ [?e]]"
    using continuous.hyps by (auto simp: ETS_addContinuousEvent_def ETS_getVibratorPatternBuilder_def Let_def nth_append split: if_splits)
  have "ETS_CheckParameters ?e \<Longrightarrow> ets_built ?e" by (rule ETS_CheckParameters_built) simp_all
  from builders_extended [OF continuous.IH continuous.hyps(2) this bs] show ?case .
next
  case (transient bs b t options' errs new errs' bs')
  let ?e = "\<lparr>ev_tag = EVENT_TAG_TRANSIENT, ev_time = t, ev_duration = 48,
            ev_intensity = (case options' of None \<Rightarrow> 100 | Some p \<Rightarrow> value_or (etp_intensity p) 100),
            ev_frequency = (case options' of None \<Rightarrow> 50 | Some p \<Rightarrow> value_or (etp_frequency p) 50),
            ev_index = (case options' of None \<Rightarrow> 0 | Some p \<Rightarrow> value_or (etp_index p) 0), ev_points = []\<rparr>"
  have bs: "bs' = bs @ [[]] \<or> ETS_CheckParameters ?e \<and> bs' = (bs @ [[]])[b := bs ! b @ [?e], length bs := bs ! b @ [?e]]"
    using transient.hyps by (auto simp: ETS_addTransientEvent_def ETS_getVibratorPatternBuilder_def Let_def nth_append split: if_splits)
  have "ETS_CheckParameters ?e \<Longrightarrow> ets_built ?e" by (rule ETS_CheckParameters_built) simp_all
  from builders_extended [OF transient.IH transient.hyps(2) this bs] show ?case .
qed simp

lemma ETS_ParseVibrateEvent_built: "ets_built e \<Longrightarrow> ETS_ParseVibrateEvent U A (ETS_ConvertVibrateEvent e) = Some (js_event e)"
  by (cases "ev_tag e") (simp_all add: ets_built_def ETS_ParseVibrateEvent_def ETS_ConvertVibrateEvent_def js_event_def default_event_def
      value_or_def tag_of_code_def Let_def wrap32_small)

lemma ETS_CheckVibratorEvent_built: "ets_built e \<Longrightarrow> ETS_CheckVibratorEvent (js_event e)"
  by (auto simp: ets_built_def built_event_def ETS_CheckVibratorEvent_def js_event_def)

text \<open>A pattern that the builder for ArkTS gives out is accepted, unchanged, by \<^verbatim>\<open>startVibration\<close>: whatever builders were made
  and extended before, the pattern that \<^verbatim>\<open>build\<close> returns without an error is parsed to exactly the events of the builder,
  and passes the checks of their number and of every field.\<close>

theorem ets_built_pattern_is_accepted:
  assumes "ets_builders_reach bs" and "b < length bs" and "ETS_build b errs bs = (pattern, errs)" and "\<forall>n. A n"
  shows "ETS_ParseVibratorPattern U A pattern info
      = (True, info\<lparr>jvi_vibratorPattern := js_pattern (bs ! b) (jvi_vibratorPattern info)\<rparr>) \<and>
    ETS_CheckVibratorPatternParameter (js_pattern (bs ! b) (jvi_vibratorPattern info))"
proof -
  let ?es = "bs ! b"
  have built: "list_all ets_built ?es" using ets_builders_reach_built [OF assms(1)] assms(2) by (simp add: list_all_length)
  have len: "?es \<noteq> []" "length ?es \<le> 128" and pattern: "pattern = \<lparr>epa_time = 0, epa_events = map ETS_ConvertVibrateEvent ?es\<rparr>"
    using assms(3) by (auto simp: ETS_build_def Let_def split: if_splits)
  have n: "wrap32 (int (length ?es)) = int (length ?es)" using len(2) by (intro wrap32_small) simp_all
  have "ETS_ParseVibrateEvent U A (map ETS_ConvertVibrateEvent ?es ! nat (int j)) = Some (js_event (?es ! j))" if "j < length ?es" for j
    using that built by (simp add: list_all_length ETS_ParseVibrateEvent_built)
  from collect_indices [of "length ?es" "\<lambda>j. ETS_ParseVibrateEvent U A (map ETS_ConvertVibrateEvent ?es ! nat j)", OF this]
  have "ETS_ParseVibratorPattern U A pattern info = (True, info\<lparr>jvi_vibratorPattern := js_pattern ?es (jvi_vibratorPattern info)\<rparr>)"
    using len n assms(4) by (simp add: ETS_ParseVibratorPattern_def pattern Let_def map_nth_upt js_pattern_def)
  moreover have "ETS_CheckVibratorPatternParameter (js_pattern ?es (jvi_vibratorPattern info))"
    using built len ETS_CheckVibratorEvent_built list_all_elem [where xs = "map js_event ?es" and P = ETS_CheckVibratorEvent]
    by (auto simp: ETS_CheckVibratorPatternParameter_def js_pattern_def list.pred_map comp_def list_all_iff)
  ultimately show ?thesis by simp
qed

definition sample_builders :: ets_builders where
  "sample_builders = snd (snd (ETS_addTransientEvent 0 20 None [] (snd (ETS_getVibratorPatternBuilder []))))"

lemma ets_built_pattern_is_accepted_witness:
  "fst (ETS_ParseVibratorPattern (\<lambda>_. 0) (\<lambda>_. True) (fst (ETS_build 1 [] sample_builders)) default_js_info) \<and>
   map ev_time (sample_builders ! 1) = [20]"
proof -
  obtain b bs where new: "ETS_getVibratorPatternBuilder [] = (b, bs)" by (cases "ETS_getVibratorPatternBuilder []")
  then have bs: "ets_builders_reach bs" "0 < length bs" "bs = snd (ETS_getVibratorPatternBuilder [])"
    using ets_builders_reach.new [OF ets_builders_reach.init new] by (auto simp: ETS_getVibratorPatternBuilder_def)
  obtain n errs bs' where add: "ETS_addTransientEvent 0 20 None [] bs = (n, errs, bs')" using prod.exhaust by metis
  have "ets_builders_reach sample_builders"
    using ets_builders_reach.transient [OF bs(1,2) add] add bs(3) by (simp add: sample_builders_def)
  moreover have "1 < length sample_builders" "ETS_build 1 [] sample_builders = (fst (ETS_build 1 [] sample_builders), [])"
    "map ev_time (sample_builders ! 1) = [20]" by code_simp+
  ultimately show ?thesis
    using ets_built_pattern_is_accepted [of sample_builders 1 "[]" _ "\<lambda>_. True" "\<lambda>_. 0" default_js_info] by simp
qed

section \<open>References\<close>

lemma remove_equal_first_out: "remove_equal same fs = first_out same fs"
  by (induction fs) simp_all

definition ets_ok :: "'f ani \<Rightarrow> nat \<Rightarrow> 'f ets_state \<Rightarrow> bool" where
  "ets_ok N lost es \<longleftrightarrow> et_refs es = int (length (ets_subscriptions ''vibratorStateChange'' es)) + int lost \<and>
     apart (ani_equals N) (ets_subscriptions ''vibratorStateChange'' es)"

lemma ets_subscriptions_simps [simp]:
  "ets_subscriptions e (es\<lparr>et_refs := n\<rparr>) = ets_subscriptions e es"
  "ets_subscriptions e (es\<lparr>et_callbacks := sm_assign e' fs m\<rparr>) = (if e = e' then fs else ets_subscriptions e (es\<lparr>et_callbacks := m\<rparr>))"
  "ets_subscriptions e (es\<lparr>et_callbacks := sm_erase e' m\<rparr>) = (if e = e' then [] else ets_subscriptions e (es\<lparr>et_callbacks := m\<rparr>))"
  "ets_subscriptions e (es\<lparr>et_callbacks := sm_insert e' [] (et_callbacks es)\<rparr>) = ets_subscriptions e es"
  "ets_subscriptions e (es\<lparr>et_refs := n, et_callbacks := sm_insert e' [] (et_callbacks es)\<rparr>) = ets_subscriptions e es"
  by (auto simp: ets_subscriptions_def sm_insert_def)

text \<open>The list of an event keeps the contract of a table of callbacks.\<close>

interpretation ets: callback_table "\<lambda>es. ani_env N" "ets_subscriptions event" "ani_equals N" "\<lambda>f. ani_create N f \<and> mem"
    "ETS_UpdateCallbackInfos N mem event" "\<lambda>f es. Some (snd (ETS_RemoveCallback N event f es))" for N :: "'f ani" and mem event
proof
  fix s s' :: "'f ets_state" and f
  assume "ani_env N"
  then show "ets_subscriptions event (ETS_UpdateCallbackInfos N mem event f s) =
      (if (ani_create N f \<and> mem) \<and> (\<forall>g \<in> set (ets_subscriptions event s). \<not> ani_equals N f g) then ets_subscriptions event s @ [f]
       else ets_subscriptions event s)"
    by (auto simp: ETS_UpdateCallbackInfos_def Let_def list_ex_iff)
  assume "Some (snd (ETS_RemoveCallback N event f s)) = Some s'"
  with \<open>ani_env N\<close> have table: "ets_subscriptions event s' =
      (if ani_create N f then first_out (ani_equals N f) (ets_subscriptions event s) else ets_subscriptions event s)"
    by (auto simp: ETS_RemoveCallback_def Let_def remove_equal_first_out split: if_splits)
  then show "subseq (ets_subscriptions event s') (ets_subscriptions event s)" by (simp add: first_out_subseq)
  show "ani_create N f \<and> mem \<Longrightarrow> ets_subscriptions event s' = first_out (ani_equals N f) (ets_subscriptions event s)" using table by simp
qed simp_all

lemma ETS_UpdateCallbackInfos_ok:
  assumes "ets_ok N lost es" and "ani_env N" and "ani_delete N"
  shows "ets_ok N (if ets_out_of_memory N mem ''vibratorStateChange'' f es then Suc lost else lost)
    (ETS_UpdateCallbackInfos N mem ''vibratorStateChange'' f es)"
  using assms ets.add_apart [OF assms(2), of "''vibratorStateChange''" es mem f]
  by (auto simp: ets_ok_def ETS_UpdateCallbackInfos_def ets_out_of_memory_def Let_def ani_count_def list_ex_iff)

lemma ETS_RemoveCallback_ok:
  assumes "ets_ok N lost es" and "ani_env N" and "ani_delete N" and "ETS_RemoveCallback N ''vibratorStateChange'' f es = (n, es')"
  shows "ets_ok N lost es'"
  using assms ets.out_apart [OF assms(2), of "''vibratorStateChange''" f es es']
    first_out_length [of "ani_equals N f" "ets_subscriptions ''vibratorStateChange'' es"]
  by (auto simp: ets_ok_def ETS_RemoveCallback_def Let_def ani_count_def remove_equal_first_out split: if_splits)

lemma ETS_RemoveAllCallback_ok:
  assumes "ets_ok N lost es" and "ani_env N" and "ani_delete N" and "ETS_RemoveAllCallback N stale ''vibratorStateChange'' es = (n, es')"
  shows "ets_ok N lost es'"
  using assms by (auto simp: ets_ok_def ETS_RemoveAllCallback_def Let_def ani_count_def)

lemma functions_called: "map fst (concat (map (ETS_CallbackVibratorStatusEvent ''vibratorStateChange'' ev) fs)) = fs"
  by (induction fs) (simp_all add: ETS_CallbackVibratorStatusEvent_def)

text \<open>C37. The global references are kept account of: as long as there is an environment and it deletes references, the references that
  were made and not deleted are as many as the functions in the table and the calls of \<^verbatim>\<open>on\<close> that had no memory for the
  object of a new function (each of these loses exactly one), whatever calls of \<^verbatim>\<open>on\<close> and \<^verbatim>\<open>off\<close> have come
  before; no two functions in the table are the same, and each of them is called once for each plug event, in the order of the table.\<close>

theorem ets_references_balanced:
  assumes "ets_reach N EPs lost es" and "ani_env N" and "ani_delete N" and "fs = ets_subscriptions ''vibratorStateChange'' es"
  shows "et_refs es = int (length fs) + int lost \<and> sorted_wrt (\<lambda>f g. \<not> ani_equals N g f) fs \<and>
    map fst (ETS_DataCallbackImpl (Some ev) es) = (if se_type ev = -1 then [] else fs)"
proof -
  have "ets_ok N lost es" using assms(1)
  proof induction
    case init
    show ?case by (simp add: ets_ok_def initial_ets_def ets_subscriptions_def)
  next
    case (on lost es E P mem u f errs st errs' es' st' lost')
    then show ?case using ETS_UpdateCallbackInfos_ok [OF on.IH assms(2,3), of mem f]
      by (auto simp: ETS_onVibratorStateChange_def split: prod.splits if_splits)
  next
    case (off lost es E P u stale opq cl es' cl')
    obtain n e where r: "(case opq of Some f \<Rightarrow> ETS_RemoveCallback N ''vibratorStateChange'' f es
        | None \<Rightarrow> ETS_RemoveAllCallback N stale ''vibratorStateChange'' es) = (n, e)" by (meson surj_pair)
    then have "es' = e" using off.hyps by (auto simp: ETS_offVibratorStateChange_def split: if_splits)
    moreover have "ets_ok N lost e" using r ETS_RemoveCallback_ok [OF off.IH assms(2,3)] ETS_RemoveAllCallback_ok [OF off.IH assms(2,3)]
      by (auto split: option.splits)
    ultimately show ?case by simp
  qed
  then show ?thesis using assms(4)
    by (auto simp: ets_ok_def apart_def ETS_DataCallbackImpl_def ets_subscriptions_def functions_called split: option.splits)
qed

text \<open>As in the binding for JavaScript, \<^verbatim>\<open>off\<close> gives back the list that was there before \<^verbatim>\<open>on\<close>.\<close>

lemma ets_off_undoes_on:
  assumes "ani_env N" and "ani_create N f \<and> mem" and "ani_equals N f f" and "\<forall>g \<in> set (ets_subscriptions event es). \<not> ani_equals N f g"
  shows "ets_subscriptions event (snd (ETS_RemoveCallback N event f (ETS_UpdateCallbackInfos N mem event f es))) = ets_subscriptions event es"
  by (rule ets.out_undoes_add [OF assms refl])

text \<open>The reference that \<^verbatim>\<open>on\<close> makes is lost when there is no memory for the object that would hold it.\<close>

lemma ets_reference_lost:
  assumes "ets_out_of_memory N mem event f es"
  shows "et_refs (ETS_UpdateCallbackInfos N mem event f es) = et_refs es + 1 \<and>
    ets_subscriptions event (ETS_UpdateCallbackInfos N mem event f es) = ets_subscriptions event es"
  using assms by (auto simp: ets_out_of_memory_def ETS_UpdateCallbackInfos_def Let_def list_ex_iff)

definition sample_ani :: "nat ani" where
  "sample_ani = \<lparr>ani_env = True, ani_create = (\<lambda>_. True), ani_delete = True, ani_equals = (=)\<rparr>"

definition ets_on :: "bool \<Rightarrow> nat \<Rightarrow> nat ets_state \<Rightarrow> nat ets_state" where
  "ets_on mem f es = fst (snd (ETS_onVibratorStateChange sample_ani sample_client_env sample_proxy mem 6 f [] es sample_agent))"

lemma ets_on_reach:
  assumes "ets_reach sample_ani {(sample_client_env, sample_proxy)} lost es"
  shows "ets_reach sample_ani {(sample_client_env, sample_proxy)}
    (if \<not> mem \<and> f \<notin> set (ets_subscriptions ''vibratorStateChange'' es) then Suc lost else lost) (ets_on mem f es)"
proof -
  obtain errs es' st where r: "ETS_onVibratorStateChange sample_ani sample_client_env sample_proxy mem 6 f [] es sample_agent = (errs, es', st)"
    using prod.exhaust by metis
  have "fst (AG_SubscribeVibratorPlug sample_client_env sample_proxy 6 sample_agent) = ERR_OK" by code_simp
  with r have "errs = []" by (auto simp: ETS_onVibratorStateChange_def split: prod.splits)
  moreover have "ets_out_of_memory sample_ani mem ''vibratorStateChange'' f es \<longleftrightarrow>
      \<not> mem \<and> f \<notin> set (ets_subscriptions ''vibratorStateChange'' es)"
    by (auto simp: ets_out_of_memory_def sample_ani_def)
  ultimately show ?thesis using ets_reach.on [OF assms singletonI r refl] r by (simp add: ets_on_def)
qed

lemma ets_references_balanced_witness:
  "et_refs (ets_on True 4 (ets_on False 7 (ets_on True 2 initial_ets))) = 3 \<and>
   map fst (ETS_DataCallbackImpl (Some sample_plug) (ets_on True 4 (ets_on False 7 (ets_on True 2 initial_ets)))) = [2, 4]"
proof -
  let ?one = "ets_on True 2 initial_ets"
  let ?es = "ets_on True 4 (ets_on False 7 ?one)"
  have subs: "ets_subscriptions ''vibratorStateChange'' ?es = [2, 4]" "ets_subscriptions ''vibratorStateChange'' ?one = [2]" by code_simp+
  from ets_on_reach [OF ets_on_reach [OF ets_on_reach [OF ets_reach.init, of True 2], of False 7], of True 4]
  have reach: "ets_reach sample_ani {(sample_client_env, sample_proxy)} 1 ?es" by (simp add: subs)
  have "ani_env sample_ani" "ani_delete sample_ani" by (simp_all add: sample_ani_def)
  from ets_references_balanced [OF reach this refl, of sample_plug] subs show ?thesis by (simp add: sample_plug_def)
qed

section \<open>The three bindings\<close>

lemma errors_apart: "map_option (\<lambda>(code, errs, st). (code, st)) (map_option (\<lambda>(code, st). (code, errs, st)) x) = x"
  by (cases x) auto

text \<open>
  On the same parsed information, but for presets, the three bindings do the same: the newer one for Cangjie what the one for JavaScript does,
  except that a rejected parameter is a failed device operation there; the one for ArkTS, and the older one for Cangjie, what
  the one for JavaScript does for all vibrators.
\<close>

lemma bindings_start_alike:
  assumes "jvi_type info \<noteq> ''preset''"
  shows "CJ_StartVibrateEnhanced E P info i st = map_option (\<lambda>(code, st').
      (if fst (JS_CheckParameters_info info i (fst st)) \<noteq> ERR_OK then DEVICE_OPERATION_FAILED else code, st')) (JS_StartVibrate_info E P info i st) \<and>
    map_option (\<lambda>(code, errs, st). (code, st)) (ETS_StartVibrate E P info errs st) = JS_StartVibrate_info E P info default_identifier st \<and>
    CJ_StartVibrate E P info st = JS_StartVibrate_info E P info default_identifier st"
proof -
  obtain cl s where st: "st = (cl, s)" by (cases st)
  have "CJ_StartVibrateEnhanced E P info i st = map_option (\<lambda>(code, st').
      (if fst (JS_CheckParameters_info info i (fst st)) \<noteq> ERR_OK then DEVICE_OPERATION_FAILED else code, st')) (JS_StartVibrate_info E P info i st)"
    by (auto simp: st CJ_StartVibrateEnhanced_def JS_StartVibrate_info_def CJ_CheckParameters_def JS_CheckParameters_info_def
        CJ_SetUsageEnhanced_def JS_SetUsage_def Let_def option.map_id split: option.splits prod.splits if_splits)
  moreover have "map_option (\<lambda>(code, errs, st). (code, st)) (ETS_StartVibrate E P info errs st) = JS_StartVibrate_info E P info default_identifier st"
    by (auto simp: st ETS_StartVibrate_def JS_StartVibrate_info_def ETS_CheckParameters_info_def JS_CheckParameters_info_def
        ETS_SetUsageInner_def JS_SetUsage_def AG_SetUsage_def AG_PlayVibratorCustom_def AG_PlayPattern_def AG_StartVibratorOnce_def Let_def
        errors_apart split: option.splits prod.splits if_splits)
  moreover have "CJ_StartVibrate E P info st = JS_StartVibrate_info E P info default_identifier st"
    using assms by (auto simp: st CJ_StartVibrate_def JS_StartVibrate_info_def CJ_SetUsage_def JS_CheckParameters_info_def
        JS_SetUsage_def AG_SetUsage_def AG_PlayVibratorCustom_def AG_PlayPattern_def AG_StartVibratorOnce_def Let_def
        split: option.splits prod.splits if_splits)
  ultimately show ?thesis by simp
qed

text \<open>From the arguments of the three bindings to the same information.\<close>

definition time_info :: "int \<Rightarrow> string \<Rightarrow> JsVibrateInfo" where
  "time_info d usage = default_js_info\<lparr>jvi_type := ''time'', jvi_duration := d, jvi_usage := usage\<rparr>"

lemma time_info_fields [simp]:
  "jvi_type (time_info d usage) = ''time''" "jvi_usage (time_info d usage) = usage"
  "vpt_events (jvi_vibratorPattern (time_info d usage)) = None"
  by (simp_all add: time_info_def default_js_info_def default_pattern_def)

lemma JS_ParseParameter_time_info:
  assumes "JS_GetPropertyString N effect ''type'' = Some ''time''" and "JS_GetPropertyInt32 N effect ''duration'' = Some d"
    and "JS_GetPropertyString N attribute ''usage'' = Some usage" and "JS_GetPropertyBool N attribute ''systemUsage'' \<noteq> Some True"
  shows "JS_ParseParameter N F A [effect, attribute] default_js_info = Inr (time_info d usage, js_target N attribute)"
  using assms
  by (auto simp: JS_ParseParameter_def JS_parse_effect_def js_target_def time_info_def default_js_info_def Let_def split: option.splits)

lemma ETS_StartVibrate_errors:
  assumes "ETS_StartVibrate E P (time_info d usage) errs st = Some (code, errs', st')"
  shows "code = SUCCESS \<longrightarrow> errs' = errs" and "length errs \<le> length errs'"
proof -
  have "(code = SUCCESS \<longrightarrow> errs' = errs) \<and> length errs \<le> length errs'"
    using assms by (cases st)
      (auto simp: ETS_StartVibrate_def ETS_CheckParameters_info_def ETS_SetUsageInner_def Let_def split: if_splits prod.splits option.splits)
  then show "code = SUCCESS \<longrightarrow> errs' = errs" and "length errs \<le> length errs'" by simp_all
qed

lemma ETS_startVibrationSync_time:
  assumes "ETS_startVibrationSync U F E P (VibrateTime_type d) \<lparr>ea_id = n, ea_deviceId = dev, ea_usage = usage, ea_systemUsage = None\<rparr>
      errs st = Some (errs', st')"
  shows "\<exists>code. JS_StartVibrate_info E P (time_info d usage) default_identifier st = Some (code, st') \<and> (errs' = errs \<longleftrightarrow> code = SUCCESS)"
proof -
  have "ETS_ParseParameter U F A (VibrateTime_type d) \<lparr>ea_id = n, ea_deviceId = dev, ea_usage = usage, ea_systemUsage = None\<rparr> default_js_info =
      Some (time_info d usage, \<lparr>mi_deviceId = value_or dev (-1), mi_vibratorId = (let n = value_or n (-1) in if n = 0 then -1 else n)\<rparr>)" for A
    by (simp add: ETS_ParseParameter_def ETS_parse_effect_def value_or_def time_info_def default_js_info_def)
  with assms obtain code errs1 where start: "ETS_StartVibrate E P (time_info d usage) errs st = Some (code, errs1, st')"
    and errs': "errs' = (if code \<noteq> SUCCESS then errs1 @ [code] else errs1)"
    by (auto simp: ETS_startVibrationSync_def Let_def split: option.splits)
  have "JS_StartVibrate_info E P (time_info d usage) default_identifier st = Some (code, st')"
    using bindings_start_alike [of "time_info d usage" E P default_identifier st errs] start by simp
  moreover have "errs' = errs \<longleftrightarrow> code = SUCCESS" using ETS_StartVibrate_errors [OF start] errs' by auto
  ultimately show ?thesis by blast
qed

lemma JS_StartVibrate_time:
  assumes "JS_StartVibrate N F E P (Some [effect, attribute]) js st = Some (r, js', st')"
    and "JS_IsMatchType N effect napi_object" and "JS_IsMatchType N attribute napi_object"
    and "JS_ParseParameter N F (ce_malloc E) [effect, attribute] default_js_info = Inr (time_info d usage, i)"
  shows "\<exists>code. JS_StartVibrate_info E P (time_info d usage) i st = Some (code, st') \<and>
    (if code = PARAMETER_ERROR then js' = js_throw N PARAMETER_ERROR js
     else js_pending js' = js_pending js \<and> (\<forall>w. js_works js' = js_works js @ [w] \<longrightarrow> ai_code (work_info w) = code))"
proof -
  obtain code st1 where start: "JS_StartVibrate_info E P (time_info d usage) i st = Some (code, st1)"
    using assms by (auto simp: JS_StartVibrate_def JS_VibrateEffect_def split: option.splits)
  show ?thesis
  proof (cases "code = PARAMETER_ERROR")
    case True
    with start assms show ?thesis by (auto simp: JS_StartVibrate_def JS_VibrateEffect_def Let_def)
  next
    case False
    obtain r1 js1 where emit: "EmitAsyncWork N (callback_arg N [effect, attribute] 2)
        (new_async\<lparr>ai_info := time_info d usage, ai_code := code\<rparr>) js = (r1, js1)"
      using prod.exhaust by metis
    with False start assms have r: "js' = js1" "st' = st1" by (auto simp: JS_StartVibrate_def JS_VibrateEffect_def Let_def)
    have "js_pending js1 = js_pending js"
      using emit by (auto simp: EmitAsyncWork_def EmitAsyncCallbackWork_def EmitPromiseWork_def split: option.splits if_splits)
    then show ?thesis using False start r EmitAsyncWork_work [OF emit] by (simp add: new_async_def)
  qed
qed

text \<open>C32. A request to vibrate for a time, made with the same duration, usage and target, does the same to the client and the service through
  \<^verbatim>\<open>startVibration\<close> of JavaScript and through the newer function for Cangjie, and also through the older one and through
  \<^verbatim>\<open>startVibration\<close> of ArkTS when the target is all vibrators (these two always address all of them); and either all of them report
  success or none: JavaScript by a work item with the code \<^verbatim>\<open>SUCCESS\<close> and no exception, ArkTS by setting no business error. Which
  code a failure has may differ between them, and presets, files and patterns are not compared.\<close>

theorem bindings_time_request_alike:
  assumes "JS_IsMatchType N effect napi_object" and "JS_IsMatchType N attribute napi_object"
    and "JS_GetPropertyString N effect ''type'' = Some ''time''" and "JS_GetPropertyInt32 N effect ''duration'' = Some d"
    and "JS_GetPropertyString N attribute ''usage'' = Some usage" and "JS_GetPropertyBool N attribute ''systemUsage'' \<noteq> Some True"
    and "int_property N attribute ''deviceId'' (-1) = dev" and "int_property N attribute ''id'' (-1) = n"
    and js: "JS_StartVibrate N F E P (Some [effect, attribute]) js st = Some (r, js', st1)"
    and cj: "FfiVibratorStartVibrationTimeEnhanced E P \<lparr>rvt_timeType = Some ''time'', rvt_duration = d\<rparr>
      \<lparr>rva_id = n, rva_usage = Some usage, rva_deviceId = dev\<rparr> st = Some (code, st2)"
    and cj_old: "FfiVibratorStartVibrationTime E P \<lparr>rvt_timeType = Some ''time'', rvt_duration = d\<rparr>
      \<lparr>rva_id = n, rva_usage = Some usage\<rparr> st = Some (old_code, st3)"
    and ets: "ETS_startVibrationSync U F E P (VibrateTime_type d)
      \<lparr>ea_id = Some n, ea_deviceId = Some dev, ea_usage = usage, ea_systemUsage = None\<rparr> errs st = Some (errs', st4)"
  shows "st2 = st1 \<and>
    (code = SUCCESS \<longrightarrow> js_pending js' = js_pending js) \<and>
    (\<forall>w. js_works js' = js_works js @ [w] \<longrightarrow> (ai_code (work_info w) = SUCCESS \<longleftrightarrow> code = SUCCESS)) \<and>
    (dev = -1 \<and> (n = -1 \<or> n = 0) \<longrightarrow>
      st3 = st1 \<and> st4 = st1 \<and> (old_code = SUCCESS \<longleftrightarrow> code = SUCCESS) \<and> (errs' = errs \<longleftrightarrow> code = SUCCESS))"
proof -
  let ?info = "time_info d usage" and ?i = "js_target N attribute"
  have i: "?i = \<lparr>mi_deviceId = dev, mi_vibratorId = (if n = 0 then -1 else n)\<rparr>" using assms(7,8) by (simp add: js_target_def)
  from JS_StartVibrate_time [OF js assms(1,2) JS_ParseParameter_time_info [OF assms(3-6)]] obtain jcode where
    started: "JS_StartVibrate_info E P ?info ?i st = Some (jcode, st1)" and
    reported: "if jcode = PARAMETER_ERROR then js' = js_throw N PARAMETER_ERROR js
     else js_pending js' = js_pending js \<and> (\<forall>w. js_works js' = js_works js @ [w] \<longrightarrow> ai_code (work_info w) = jcode)" by blast
  note alike = bindings_start_alike [of ?info, simplified]
  have "CJ_StartVibrateEnhanced E P ?info ?i st = Some (code, st2)"
    using cj by (simp add: FfiVibratorStartVibrationTimeEnhanced_def i cj_identifier_def time_info_def split: if_splits)
  with alike [of E P ?i st] started have st2: "st2 = st1"
    and code: "code = (if fst (JS_CheckParameters_info ?info ?i (fst st)) \<noteq> ERR_OK then DEVICE_OPERATION_FAILED else jcode)" by simp_all
  have "fst (JS_CheckParameters_info ?info ?i (fst st)) \<noteq> ERR_OK \<Longrightarrow> jcode = PARAMETER_ERROR"
    using started by (cases st) (auto simp: JS_StartVibrate_info_def Let_def split: prod.splits)
  with code have same: "code = SUCCESS \<longleftrightarrow> jcode = SUCCESS" by auto
  have all: "st3 = st1 \<and> st4 = st1 \<and> (old_code = SUCCESS \<longleftrightarrow> code = SUCCESS) \<and> (errs' = errs \<longleftrightarrow> code = SUCCESS)"
    if "dev = -1 \<and> (n = -1 \<or> n = 0)"
  proof -
    from that i have target: "?i = default_identifier" by (auto simp: default_identifier_def)
    have "CJ_StartVibrate E P ?info st = Some (old_code, st3)" using cj_old by (simp add: FfiVibratorStartVibrationTime_def time_info_def)
    with alike [of E P ?i st] started target same have "st3 = st1" "old_code = SUCCESS \<longleftrightarrow> code = SUCCESS" by simp_all
    moreover from ETS_startVibrationSync_time [OF ets] started target same have "st4 = st1" "errs' = errs \<longleftrightarrow> code = SUCCESS" by auto
    ultimately show ?thesis by simp
  qed
  show ?thesis
  proof (cases "jcode = PARAMETER_ERROR")
    case True
    with reported have "js_works js' = js_works js" by (simp add: js_throw_def)
    with True same st2 all show ?thesis by auto
  qed (use reported same st2 all in auto)
qed

lemma bindings_time_request_alike_witness:
  "\<exists>st. FfiVibratorStartVibrationTimeEnhanced sample_client_env sample_proxy \<lparr>rvt_timeType = Some ''time'', rvt_duration = 500\<rparr>
       \<lparr>rva_id = -1, rva_usage = Some ''media'', rva_deviceId = -1\<rparr> sample_agent = Some (SUCCESS, st) \<and>
     ETS_startVibrationSync (\<lambda>_. 0) (sample_files '''' 0) sample_client_env sample_proxy (VibrateTime_type 500)
       \<lparr>ea_id = Some (-1), ea_deviceId = Some (-1), ea_usage = ''media'', ea_systemUsage = None\<rparr> [] sample_agent = Some ([], st) \<and>
     map_option (\<lambda>(r, js, st). st) js_sample_start = Some st"
proof -
  let ?cj = "FfiVibratorStartVibrationTimeEnhanced sample_client_env sample_proxy \<lparr>rvt_timeType = Some ''time'', rvt_duration = 500\<rparr>
    \<lparr>rva_id = -1, rva_usage = Some ''media'', rva_deviceId = -1\<rparr> sample_agent"
  let ?old = "FfiVibratorStartVibrationTime sample_client_env sample_proxy \<lparr>rvt_timeType = Some ''time'', rvt_duration = 500\<rparr>
    \<lparr>rva_id = -1, rva_usage = Some ''media''\<rparr> sample_agent"
  let ?ets = "ETS_startVibrationSync (\<lambda>_. 0) (sample_files '''' 0) sample_client_env sample_proxy (VibrateTime_type 500)
    \<lparr>ea_id = Some (-1), ea_deviceId = Some (-1), ea_usage = ''media'', ea_systemUsage = None\<rparr> [] sample_agent"
  have "map_option fst ?cj = Some SUCCESS" by code_simp
  then obtain st2 where cj: "?cj = Some (SUCCESS, st2)" by (auto simp: map_option_case split: option.splits)
  have "?old \<noteq> None" by code_simp
  then obtain old st3 where old: "?old = Some (old, st3)" by auto
  have "?ets \<noteq> None" by code_simp
  then obtain errs' st4 where ets: "?ets = Some (errs', st4)" by auto
  obtain r js' st1 where js: "js_sample_start = Some (r, js', st1)"
    using js_sample_promise by (auto simp: map_option_case split: option.splits)
  have props: "JS_IsMatchType js_engine (js_time_args ! 0) napi_object" "JS_IsMatchType js_engine (js_time_args ! 1) napi_object"
    "JS_GetPropertyString js_engine (js_time_args ! 0) ''type'' = Some ''time''"
    "JS_GetPropertyInt32 js_engine (js_time_args ! 0) ''duration'' = Some 500"
    "JS_GetPropertyString js_engine (js_time_args ! 1) ''usage'' = Some ''media''"
    "JS_GetPropertyBool js_engine (js_time_args ! 1) ''systemUsage'' \<noteq> Some True"
    "int_property js_engine (js_time_args ! 1) ''deviceId'' (-1) = -1" "int_property js_engine (js_time_args ! 1) ''id'' (-1) = -1"
    by code_simp+
  have args: "js_time_args = [js_time_args ! 0, js_time_args ! 1]" by (simp add: js_time_args_def)
  have "JS_StartVibrate js_engine (sample_files '''' 0) sample_client_env sample_proxy (Some [js_time_args ! 0, js_time_args ! 1])
      initial_js sample_agent = Some (r, js', st1)" using js unfolding js_sample_start_def by (simp only: args [symmetric])
  from bindings_time_request_alike [OF props this cj old ets] have "st2 = st1" "st4 = st1" "errs' = []" by simp_all
  with cj ets js show ?thesis by (cases st1) auto
qed

section \<open>What differs from the interface description\<close>

text \<open>The curve of a continuous event is dropped.\<close>

lemma ets_curve_dropped:
  "ETS_addContinuousEvent b t d (Some (p\<lparr>etp_points := points\<rparr>)) errs bs = ETS_addContinuousEvent b t d (Some p) errs bs"
  by (simp add: ETS_addContinuousEvent_def)

text \<open>An event is added to the builder that was called as well as to the one that is returned.\<close>

lemma ets_builder_changed:
  assumes "b < length bs" and "ETS_addTransientEvent b t options errs bs = (new, errs, bs')"
  shows "new = length bs \<and> bs' ! b = bs' ! new \<and> length (bs' ! b) = Suc (length (bs ! b))"
  using assms by (auto simp: ETS_addTransientEvent_def ETS_getVibratorPatternBuilder_def Let_def nth_append nth_list_update split: if_splits)

text \<open>The vibrator that the attribute names is parsed, but the request goes to all of them.\<close>

lemma ets_target_ignored:
  "ETS_startVibrationSync U F E P effect (a\<lparr>ea_id := n, ea_deviceId := d\<rparr>) errs st = ETS_startVibrationSync U F E P effect a errs st"
  by (simp add: ETS_startVibrationSync_def ETS_ParseParameter_def split: option.splits)

text \<open>A fraction of the event's intensity is cut to 0, where the binding for JavaScript takes it for a percentage.\<close>

lemma ets_fraction_lost:
  "vcp_intensity (ETS_ParseVibratorCurvePoint U \<lparr>ep_time = t, ep_intensity = Some (Some (1 / 2)), ep_frequency = f\<rparr>) = 0"
proof -
  have "\<lfloor>1 / 2 :: rat\<rfloor> = 0" by (rule floor_unique) simp_all
  then show ?thesis by (simp add: ETS_ParseVibratorCurvePoint_def double_to_int32_def trunc_def int32_def)
qed

text \<open>A parameter of which a field is absent has no value to take.\<close>

lemma ets_absent_field_taken:
  "eip_deviceId p = None \<or> eip_vibratorId p = None \<Longrightarrow> ETS_getEffectInfoSync E P eff (Some p) st = None"
  by (auto simp: ETS_getEffectInfoSync_def split: option.splits)

text \<open>What is read from the erased list decides whether the process stays subscribed.\<close>

lemma ets_off_reads_erased_list:
  "snd (ETS_offVibratorStateChange N E u 1 None es cl) = cl \<and>
   snd (ETS_offVibratorStateChange N E u 0 None es cl) = snd (AG_UnSubscribeVibratorPlug E u cl)"
  by (simp add: ETS_offVibratorStateChange_def ETS_RemoveAllCallback_def Let_def)

end
