(* ===== verification/ContinuousSlices.thy ===== *)
theory ContinuousSlices
  imports Matcher
begin

text \<open>
  \<^verbatim>\<open>ProcessContinuousEvent\<close> and \<^verbatim>\<open>ProcessContinuousEventSlice\<close> of
  \<^verbatim>\<open>services/miscdevice_service/haptic_matcher/src/custom_vibration_matcher.cpp\<close>, which turn a continuous event into
  primitive effects: the curve is cut into slices of 50 ms, each slice gets the grade of its intensity, and
  a slice of the same grade as the effect before it makes that one longer. An effect's number is its duration times 100 plus the
  grade. The class has the two functions but does not call them. \<open>junk\<close> is the member \<^verbatim>\<open>intensity\<close>, which they do not set.
\<close>

section \<open>Slices\<close>

text \<open>\<^verbatim>\<open>round\<close> of the C library: to the nearest integer, a half away from zero.\<close>

definition c_round :: "rat \<Rightarrow> int" where
  "c_round x = (if x < 0 then \<lceil>x - 1 / 2\<rceil> else \<lfloor>x + 1 / 2\<rfloor>)"

definition slice_grade :: "int \<Rightarrow> int" where
  "slice_grade intensity =
     (if intensity = 100 then 7
      else c_round (fl32 (fl32 (fl32 (of_int intensity) / (25 / 2)) + 1 / 2)) - 1)"

definition ProcessContinuousEventSlice :: "int \<Rightarrow> VibrateSlice \<Rightarrow> effect_state \<Rightarrow> effect_state" where
  "ProcessContinuousEventSlice junk sl = (\<lambda>(preStart, preDuration, effs).
     let grade = slice_grade (sl_intensity sl);
         new = (sl_time sl, sl_duration sl,
           effs @ [PrimitiveEffect (wrap32 (sl_time sl - preStart)) (wrap32 (sl_duration sl * 100 + grade)) junk])
     in if effs \<noteq> [] \<and> sl_time sl = wrap32 (preStart + preDuration) then
          let pre = last effs;
              mergeDuration = wrap32 (preDuration + sl_duration sl)
          in if effectId pre > 1000 \<and> effectId pre smod 100 = grade \<and> mergeDuration < 1600
             then (preStart, mergeDuration,
                   butlast effs @ [PrimitiveEffect (delay pre) (wrap32 (mergeDuration * 100 + grade)) (eff_intensity pre)])
             else new
        else new)"

section \<open>The curve\<close>

text \<open>\<^verbatim>\<open>while (curve[i].time < nextTime) { ++i; }\<close>; \<open>None\<close> is a read behind the end.\<close>

function curve_index :: "VibrateCurvePoint list \<Rightarrow> int \<Rightarrow> nat \<Rightarrow> nat option" where
  "curve_index curve nextTime i =
     (if i \<ge> length curve then None
      else if cp_time (curve ! i) < nextTime then curve_index curve nextTime (Suc i) else Some i)"
  by auto
termination by (relation "measure (\<lambda>(c, t, i). length c - i)") auto

declare curve_index.simps [simp del]

text \<open>The end of the slice; the sum cannot overflow since \<^verbatim>\<open>endTime\<close> lies behind it.\<close>

definition slice_end :: "int \<Rightarrow> int \<Rightarrow> int" where
  "slice_end endTime curTime = (if wrap32 (endTime - curTime) \<ge> 100 then curTime + 50 else endTime)"

lemma wrap32_le: "0 \<le> x \<Longrightarrow> wrap32 x \<le> x"
proof -
  assume "0 \<le> x"
  then have "(x + 2147483648) mod 4294967296 \<le> x + 2147483648" by (intro zmod_le_nonneg_dividend) simp
  then show ?thesis by (simp add: wrap32_def)
qed

lemma slice_end_bounds: "curTime < endTime \<Longrightarrow> curTime < slice_end endTime curTime \<and> slice_end endTime curTime \<le> endTime"
  using wrap32_le [of "endTime - curTime"] by (auto simp: slice_end_def)

function slices ::
    "(rat option \<Rightarrow> int) \<Rightarrow> int \<Rightarrow> VibrateCurvePoint list \<Rightarrow> int \<Rightarrow> int \<Rightarrow> int \<Rightarrow> int \<Rightarrow> nat \<Rightarrow> effect_state \<Rightarrow> effect_state option" where
  "slices U junk curve endTime curTime curIntensity curFrequency i st =
     (if \<not> curTime < endTime then Some st
      else let nextTime = slice_end endTime curTime in
        case curve_index curve nextTime i of
          None \<Rightarrow> None
        | Some i \<Rightarrow>
            if i < 1 then slices U junk curve endTime nextTime curIntensity curFrequency i st
            else let l = curve ! (i - 1); r = curve ! i;
                     nextIntensity = Interpolation U (cp_time l) (cp_time r) (cp_intensity l) (cp_intensity r) nextTime;
                     nextFrequency = Interpolation U (cp_time l) (cp_time r) (cp_frequency l) (cp_frequency r) nextTime
              in slices U junk curve endTime nextTime nextIntensity nextFrequency i
                   (ProcessContinuousEventSlice junk
                      \<lparr>sl_time = curTime, sl_duration = wrap32 (nextTime - curTime),
                       sl_intensity = wrap32 (curIntensity + nextIntensity) sdiv 2,
                       sl_frequency = wrap32 (curFrequency + nextFrequency) sdiv 2\<rparr> st))"
  by auto
termination
  by (relation "measure (\<lambda>(U, junk, curve, endTime, curTime, r). nat (endTime - curTime))")
    (auto dest: slice_end_bounds)

declare slices.simps [simp del]

definition ProcessContinuousEvent :: "(rat option \<Rightarrow> int) \<Rightarrow> int \<Rightarrow> VibrateEvent \<Rightarrow> effect_state \<Rightarrow> effect_state option" where
  "ProcessContinuousEvent U junk event st =
     (if ev_duration event < 100 then
        Some (ProcessContinuousEventSlice junk
          \<lparr>sl_time = ev_time event, sl_duration = ev_duration event, sl_intensity = ev_intensity event,
           sl_frequency = ev_frequency event\<rparr> st)
      else let curve = ev_points event in
        if curve = [] then Some st
        else slices U junk curve (cp_time (last curve)) (cp_time (hd curve)) (cp_intensity (hd curve)) (cp_frequency (hd curve)) 0 st)"

section \<open>Grades and levels\<close>

lemma slice_grade_exact: "slice_grade 0 = 0" "slice_grade 25 = 2" "slice_grade 50 = 4" "slice_grade 75 = 6" "slice_grade 100 = 7"
  by code_simp+

text \<open>The grade is an eighth of the scale; the floating-point errors do not matter.\<close>

lemma slice_grade_eq:
  assumes "0 \<le> i" and "i \<le> 100"
  shows "slice_grade i = min (8 * i div 100) 7"
proof (cases "i \<in> {0, 25, 50, 75, 100}")
  case True
  then show ?thesis using slice_grade_exact by auto
next
  case False
  define y where "y = fl32 (of_int i / (25 / 2))"
  define z where "z = fl32 (y + 1 / 2)"
  define n where "n = 2 * i div 25"
  have i: "fl32 (of_int i) = of_int i" using assms by (intro fl32_of_int) simp
  have n: "25 * n + 1 \<le> 2 * i" "2 * i \<le> 25 * n + 24" "n \<le> 7" "0 \<le> n" using False assms unfolding n_def by auto presburger+
  define r :: rat where "r = of_int i / (25 / 2)"
  have r: "0 \<le> r" "r \<le> 8" using assms by (simp_all add: r_def)
  have y: "\<bar>y - r\<bar> \<le> 1 / 2000000" using fl32_error [of r] r unfolding y_def r_def [symmetric] by simp
  then have "\<bar>y + 1 / 2\<bar> \<le> 10" using r by (auto simp: abs_if split: if_splits)
  moreover have "\<bar>z - (y + 1 / 2)\<bar> \<le> \<bar>y + 1 / 2\<bar> / 16777216" unfolding z_def by (rule fl32_error)
  ultimately have "\<bar>z - (y + 1 / 2)\<bar> \<le> 10 / 16777216" by (meson divide_right_mono order_trans zero_le_numeral)
  with y have z: "\<bar>z - (r + 1 / 2)\<bar> \<le> 1 / 1000" by (auto simp: abs_if split: if_splits)
  have "of_int (25 * n + 1) \<le> (of_int (2 * i) :: rat)" "(of_int (2 * i) :: rat) \<le> of_int (25 * n + 24)" using n(1,2) by (simp_all only: of_int_le_iff)
  then have "of_int n + 1 / 25 \<le> r" "r \<le> of_int n + 24 / 25" by (simp_all add: r_def)
  with z have "of_int (n + 1) \<le> z + 1 / 2" "z + 1 / 2 < of_int (n + 1) + 1" by (auto simp: abs_if split: if_splits)
  then have floor: "\<lfloor>z + 1 / 2\<rfloor> = n + 1" by (simp add: floor_unique)
  have "\<not> z < 0" using z r by (auto simp: abs_if split: if_splits)
  with floor False have "slice_grade i = n" by (simp add: slice_grade_def c_round_def i r_def y_def z_def)
  with n(3) show ?thesis by (simp add: n_def)
qed

lemma slice_grade_bounds: "0 \<le> i \<Longrightarrow> i \<le> 100 \<Longrightarrow> 0 \<le> slice_grade i \<and> slice_grade i \<le> 7"
  by (simp add: slice_grade_eq)

text \<open>An interpolated value stays in the range of the values.\<close>

lemma fl32_error_le: "\<bar>x\<bar> \<le> B \<Longrightarrow> \<bar>fl32 x - x\<bar> \<le> B / 16777216"
  using fl32_error [of x] divide_right_mono [of "\<bar>x\<bar>" B 16777216] by linarith

lemma product_error:
  fixes q m q' m' B N :: rat
  assumes "0 \<le> m" and "\<bar>q\<bar> * m \<le> B" and "\<bar>q' - q\<bar> \<le> \<bar>q\<bar> / N" and "\<bar>m' - m\<bar> \<le> m / N" and "1 \<le> N"
  shows "\<bar>q' * m' - q * m\<bar> \<le> 3 * B / N"
proof -
  have N: "0 < N" using assms(5) by simp
  have "q' * m' - q * m = q * (m' - m) + (q' - q) * m + (q' - q) * (m' - m)" by (simp add: algebra_simps)
  then have "\<bar>q' * m' - q * m\<bar> \<le> \<bar>q * (m' - m)\<bar> + \<bar>(q' - q) * m\<bar> + \<bar>(q' - q) * (m' - m)\<bar>"
    using abs_triangle_ineq [of "q * (m' - m) + (q' - q) * m" "(q' - q) * (m' - m)"] abs_triangle_ineq [of "q * (m' - m)" "(q' - q) * m"] by simp
  moreover have "\<bar>q * (m' - m)\<bar> \<le> B / N"
  proof -
    have "\<bar>q * (m' - m)\<bar> \<le> \<bar>q\<bar> * (m / N)" unfolding abs_mult by (rule mult_left_mono [OF assms(4)]) simp
    also have "\<dots> \<le> B / N" using divide_right_mono [OF assms(2), of N] N by simp
    finally show ?thesis .
  qed
  moreover have "\<bar>(q' - q) * m\<bar> \<le> B / N"
  proof -
    have "\<bar>(q' - q) * m\<bar> \<le> (\<bar>q\<bar> / N) * m" using mult_right_mono [OF assms(3,1)] assms(1) by (simp add: abs_mult)
    also have "\<dots> \<le> B / N" using divide_right_mono [OF assms(2), of N] N by simp
    finally show ?thesis .
  qed
  moreover have "\<bar>(q' - q) * (m' - m)\<bar> \<le> B / N"
  proof -
    have "\<bar>(q' - q) * (m' - m)\<bar> \<le> (\<bar>q\<bar> / N) * (m / N)" unfolding abs_mult using assms N by (intro mult_mono) simp_all
    also have "\<dots> = (\<bar>q\<bar> * m / N) / N" by simp
    also have "\<dots> \<le> (\<bar>q\<bar> * m / N) / 1" using assms(1,5) N by (intro divide_left_mono) simp_all
    also have "\<dots> \<le> B / N" using divide_right_mono [OF assms(2), of N] N by simp
    finally show ?thesis .
  qed
  ultimately show ?thesis by simp
qed

lemma Interpolation_range:
  assumes "x1 < x \<and> x \<le> x2" and "0 \<le> x1" and "x2 \<le> 2147483647"
    and "0 \<le> y1 \<and> y1 \<le> 100" and "0 \<le> y2 \<and> y2 \<le> 100"
  shows "0 \<le> Interpolation U x1 x2 y1 y2 x \<and> Interpolation U x1 x2 y1 y2 x \<le> 100"
proof -
  define D X M :: rat where "D = of_int (y2 - y1)" and "X = of_int (x2 - x1)" and "M = of_int (x - x1)"
  have wraps: "wrap32 (y2 - y1) = y2 - y1" "wrap32 (x2 - x1) = x2 - x1" "wrap32 (x - x1) = x - x1"
    using assms by (auto intro!: wrap32_small)
  have M: "0 < M" "M \<le> X" "0 < X" using assms(1) by (simp_all add: M_def X_def)
  have y: "(0::rat) \<le> of_int y1" "of_int y1 \<le> (100::rat)" "0 \<le> of_int y1 + D" "of_int y1 + D \<le> 100" "\<bar>D\<bar> \<le> 100"
    using assms(4,5) by (simp_all add: D_def abs_le_iff)
  have ints: "fl32 (of_int y1) = of_int y1" "fl32 D = D" unfolding D_def using assms(4,5) by (auto simp del: of_int_diff intro!: fl32_of_int)
  define X' M' where "X' = fl32 X" and "M' = fl32 M"
  define q where "q = D / X'"
  define P where "P = fl32 q * M'"
  define S where "S = of_int y1 + fl32 P"
  have X': "\<bar>X' - X\<bar> \<le> X / 16777216" using fl32_error [of X] M by (simp add: X'_def)
  then have "X - X / 16777216 \<le> X'" by linarith
  then have "16777215 * X \<le> 16777216 * X'" by (simp add: field_simps)
  then have "0 < X'" and "8000000 * X \<le> 8000001 * X'" using M by linarith+
  then have X'_ge: "X \<le> X' * (1 + 1 / 8000000)" "0 < X'" by (simp_all add: field_simps)
  have qm: "\<bar>q\<bar> * M \<le> 101"
  proof -
    have "\<bar>q\<bar> * M = \<bar>D\<bar> * (M / X')" using X'_ge by (simp add: q_def abs_divide)
    also have "\<dots> \<le> 100 * (1 + 1 / 8000000)"
      using y(5) M X'_ge by (intro mult_mono) (simp_all add: divide_le_eq algebra_simps)
    finally show ?thesis by simp
  qed
  have "\<bar>P - q * M\<bar> \<le> 3 * 101 / 16777216" unfolding P_def M'_def
    using M fl32_error [of q] fl32_error [of M] by (intro product_error qm) simp_all
  then have P: "\<bar>P - q * M\<bar> \<le> 1 / 10000" by simp
  have bound: "\<bar>P\<bar> \<le> 102"
  proof -
    have "\<bar>q * M\<bar> \<le> 101" using qm M by (simp add: abs_mult)
    with P show ?thesis by linarith
  qed
  have fP: "\<bar>fl32 P - P\<bar> \<le> 1 / 10000" using fl32_error_le [OF bound] by simp
  have share: "0 \<le> M / X'" "M / X' \<le> 1 + 1 / 8000000" using M X'_ge by (simp_all add: divide_le_eq algebra_simps)
  have range: "-1/10000 \<le> of_int y1 + q * M \<and> of_int y1 + q * M \<le> 100 + 1/10000"
  proof (cases "0 \<le> D")
    case True
    have "q * M = D * (M / X')" by (simp add: q_def)
    moreover have "0 \<le> D * (M / X')" "D * (M / X') \<le> D * (1 + 1 / 8000000)"
      using mult_left_mono [OF share(1) True] mult_left_mono [OF share(2) True] by simp_all
    moreover have "D * (1 + 1 / 8000000) = D + D / 8000000" by (simp add: algebra_simps)
    ultimately show ?thesis using y by linarith
  next
    case False
    then have D: "D \<le> 0" by simp
    have "q * M = D * (M / X')" by (simp add: q_def)
    moreover have "D * (M / X') \<le> 0" "D * (1 + 1 / 8000000) \<le> D * (M / X')"
      using mult_left_mono_neg [OF share(1) D] mult_left_mono_neg [OF share(2) D] by simp_all
    moreover have "D * (1 + 1 / 8000000) = D + D / 8000000" by (simp add: algebra_simps)
    ultimately show ?thesis using y by linarith
  qed
  have S: "-1/1000 \<le> S" "S \<le> 100 + 1/1000" "\<bar>S\<bar> \<le> 101" using P fP range unfolding S_def by linarith+
  then have fS: "-1/100 \<le> fl32 S" "fl32 S \<le> 100 + 1/100" using fl32_error_le [OF S(3)] by linarith+
  have "0 \<le> trunc (fl32 S)" "trunc (fl32 S) \<le> 100" using fS trunc_bounds [of 0 "fl32 S" 100] by simp_all
  then have "float_to_int32 U (fl32 S) = trunc (fl32 S)" by (simp add: float_to_int32_def double_to_int32_def int32_def)
  moreover have "Interpolation U x1 x2 y1 y2 x = float_to_int32 U (fl32 S)"
    using assms(1) ints by (simp add: Interpolation_def Let_def wraps S_def P_def q_def X'_def M'_def D_def X_def M_def del: of_int_diff)
  ultimately show ?thesis using \<open>0 \<le> trunc (fl32 S)\<close> \<open>trunc (fl32 S) \<le> 100\<close> by simp
qed

section \<open>What the effects play\<close>

text \<open>The pieces of the effects: where each one starts, how long it is and its grade.\<close>

type_synonym piece = "int \<times> int \<times> int"

fun piece_effects :: "int \<Rightarrow> int \<Rightarrow> piece list \<Rightarrow> CompositeEffect list" where
  "piece_effects junk before [] = []"
| "piece_effects junk before ((start, dur, grade) # ps) =
     PrimitiveEffect (start - before) (dur * 100 + grade) junk # piece_effects junk start ps"

text \<open>Piece after piece without a gap, each with a number that can be taken apart again.\<close>

fun seamless :: "int \<Rightarrow> piece list \<Rightarrow> int \<Rightarrow> bool" where
  "seamless from [] til \<longleftrightarrow> from = til"
| "seamless from ((start, dur, grade) # ps) til \<longleftrightarrow>
     start = from \<and> 0 < dur \<and> dur < 1600 \<and> 0 \<le> grade \<and> grade \<le> 7 \<and> seamless (from + dur) ps til"

text \<open>The grade of every millisecond.\<close>

definition played :: "piece list \<Rightarrow> int list" where
  "played ps = concat (map (\<lambda>(start, dur, grade). replicate (nat dur) grade) ps)"

lemma piece_effects_last:
  "piece_effects junk before (ps @ [(s, d, g)]) =
    piece_effects junk before ps @ [PrimitiveEffect (s - (if ps = [] then before else fst (last ps))) (d * 100 + g) junk]"
  by (induction junk before ps rule: piece_effects.induct) auto

lemma seamless_last: "seamless a (ps @ [(s, d, g)]) b \<longleftrightarrow> seamless a ps s \<and> 0 < d \<and> d < 1600 \<and> 0 \<le> g \<and> g \<le> 7 \<and> b = s + d"
  by (induction ps arbitrary: a) auto

lemma seamless_le: "seamless a ps b \<Longrightarrow> a \<le> b"
  by (induction ps arbitrary: a) force+

lemma played_last: "played (ps @ [(s, d, g)]) = played ps @ replicate (nat d) g"
  by (simp add: played_def)

text \<open>The state in the middle of an event that began at \<open>from\<close>, after other effects.\<close>

definition playing :: "int \<Rightarrow> CompositeEffect list \<Rightarrow> int \<Rightarrow> int \<Rightarrow> int \<Rightarrow> piece list \<Rightarrow> int \<Rightarrow> effect_state \<Rightarrow> bool" where
  "playing junk effs0 from p0 d0 ps til st \<longleftrightarrow> seamless from ps til \<and> snd (snd st) = effs0 @ piece_effects junk p0 ps \<and>
     (fst st, fst (snd st)) = (if ps = [] then (p0, d0) else (fst (last ps), fst (snd (last ps))))"

lemma slice_step:
  assumes "playing junk effs0 from p0 d0 ps til st" and "0 < d" and "d < 150" and "0 \<le> i" and "i \<le> 100"
    and "0 \<le> p0" and "0 \<le> from" and "til + d \<le> 2147483647" and "effs0 = [] \<or> p0 + d0 < from" and "p0 \<le> from" and "0 \<le> d0"
  shows "\<exists>ps'. playing junk effs0 from p0 d0 ps' (til + d)
      (ProcessContinuousEventSlice junk \<lparr>sl_time = til, sl_duration = d, sl_intensity = i, sl_frequency = f\<rparr> st) \<and>
    ps' \<noteq> [] \<and> played ps' = played ps @ replicate (nat d) (slice_grade i)"
proof -
  obtain p q effs where st: "st = (p, q, effs)" by (cases st)
  let ?g = "slice_grade i" and ?new = "ps @ [(til, d, slice_grade i)]"
  let ?r = "ProcessContinuousEventSlice junk \<lparr>sl_time = til, sl_duration = d, sl_intensity = i, sl_frequency = f\<rparr> st"
  have g: "0 \<le> ?g" "?g \<le> 7" using slice_grade_bounds [OF assms(4,5)] by simp_all
  have til: "from \<le> til" using assms(1) seamless_le by (auto simp: playing_def)
  have new: "playing junk effs0 from p0 d0 ?new (til + d) (til, d, effs @ [PrimitiveEffect (wrap32 (til - p)) (wrap32 (d * 100 + ?g)) junk])"
  proof -
    have "wrap32 (d * 100 + ?g) = d * 100 + ?g" using g assms(2,3) by (intro wrap32_small) simp_all
    moreover have "p = (if ps = [] then p0 else fst (last ps))" "0 \<le> p" "p \<le> til"
      using assms(1,6,7,10) til by (cases ps rule: rev_cases; force simp: playing_def st seamless_last dest: seamless_le)+
    moreover have "wrap32 (til - p) = til - p" using calculation(3,4) assms(2,8) by (intro wrap32_small) simp_all
    ultimately show ?thesis using assms(1-3) g by (simp add: playing_def st seamless_last piece_effects_last)
  qed
  show ?thesis
  proof (cases ps rule: rev_cases)
    case Nil
    with assms(1) have "p = p0" "q = d0" "effs = effs0" "til = from" by (auto simp: playing_def st)
    moreover have "wrap32 (p0 + d0) = p0 + d0" if "effs0 \<noteq> []" using that assms(2,6,8,9,11) til by (intro wrap32_small) auto
    ultimately have "?r = (til, d, effs @ [PrimitiveEffect (wrap32 (til - p)) (wrap32 (d * 100 + ?g)) junk])"
      using assms(9) by (auto simp: ProcessContinuousEventSlice_def st Let_def)
    with new show ?thesis using played_last [of ps til d ?g] by auto
  next
    case (snoc qs x)
    obtain s e h where x: "x = (s, e, h)" by (cases x)
    have e: "0 < e" "e < 1600" "0 \<le> h" "h \<le> 7" "til = s + e" "p = s" "q = e" "seamless from qs s"
      "effs = effs0 @ piece_effects junk p0 qs @ [PrimitiveEffect (s - (if qs = [] then p0 else fst (last qs))) (e * 100 + h) junk]"
      using assms(1) by (simp_all add: playing_def st snoc x seamless_last piece_effects_last)
    have s: "0 \<le> s" using seamless_le [OF e(8)] assms(7) by simp
    have sum: "wrap32 (s + e) = s + e" using e s assms(2,8) by (intro wrap32_small) simp_all
    have merge: "wrap32 (e + d) = e + d" using e assms(2,3) by (intro wrap32_small) simp_all
    have number: "(e * 100 + h) smod 100 = h" using e by (simp add: smod_int_alt_def sgn_if)
    show ?thesis
    proof (cases "e * 100 + h > 1000 \<and> h = ?g \<and> e + d < 1600")
      case True
      have id: "wrap32 (e * 100 + d * 100 + ?g) = e * 100 + d * 100 + ?g" using True e g assms(2) by (intro wrap32_small) simp_all
      have r: "?r = (s, e + d, effs0 @ piece_effects junk p0 (qs @ [(s, e + d, ?g)]))"
        using e(5-7,9) sum merge number True by (simp add: ProcessContinuousEventSlice_def st id piece_effects_last butlast_append)
      have "playing junk effs0 from p0 d0 (qs @ [(s, e + d, ?g)]) (til + d) ?r"
        using e True g assms(2) unfolding r by (simp add: playing_def seamless_last)
      moreover have "played (qs @ [(s, e + d, ?g)]) = played ps @ replicate (nat d) ?g"
        using True e(1) assms(2) by (simp add: snoc x played_last nat_add_distrib replicate_add)
      ultimately show ?thesis by blast
    next
      case False
      then have "?r = (til, d, effs @ [PrimitiveEffect (wrap32 (til - p)) (wrap32 (d * 100 + ?g)) junk])"
        using e sum merge number by (auto simp: ProcessContinuousEventSlice_def st Let_def)
      with new show ?thesis using played_last [of ps til d ?g] by auto
    qed
  qed
qed

section \<open>The whole curve\<close>

text \<open>The curve as a function of the time, and the slices without the merging.\<close>

definition point_index :: "VibrateCurvePoint list \<Rightarrow> int \<Rightarrow> nat" where
  "point_index curve t = length (takeWhile (\<lambda>p. cp_time p < t) curve)"

definition level :: "(rat option \<Rightarrow> int) \<Rightarrow> VibrateCurvePoint list \<Rightarrow> int \<Rightarrow> int" where
  "level U curve t =
     (let k = point_index curve t in
      if k = 0 then cp_intensity (hd curve)
      else Interpolation U (cp_time (curve ! (k - 1))) (cp_time (curve ! k)) (cp_intensity (curve ! (k - 1))) (cp_intensity (curve ! k)) t)"

function cuts :: "int \<Rightarrow> int \<Rightarrow> (int \<times> int) list" where
  "cuts til t = (if t < til then (t, slice_end til t) # cuts til (slice_end til t) else [])"
  by auto
termination by (relation "measure (\<lambda>(til, t). nat (til - t))") (auto dest: slice_end_bounds)

declare cuts.simps [simp del]

definition grades :: "(rat option \<Rightarrow> int) \<Rightarrow> VibrateCurvePoint list \<Rightarrow> (int \<times> int) list \<Rightarrow> int list" where
  "grades U curve cs =
     concat (map (\<lambda>(a, b). replicate (nat (b - a)) (slice_grade ((level U curve a + level U curve b) sdiv 2))) cs)"

definition curve_ok :: "VibrateCurvePoint list \<Rightarrow> bool" where
  "curve_ok curve \<longleftrightarrow>
     list_all (\<lambda>p. 0 \<le> cp_time p \<and> cp_time p \<le> 2147483647 \<and> 0 \<le> cp_intensity p \<and> cp_intensity p \<le> 100) curve"

lemma point_index_before: "j < point_index curve t \<Longrightarrow> cp_time (curve ! j) < t"
  unfolding point_index_def using takeWhile_nth [of j] nth_mem [of j] set_takeWhileD by metis

lemma point_index_at: "point_index curve t < length curve \<Longrightarrow> t \<le> cp_time (curve ! point_index curve t)"
  unfolding point_index_def using nth_length_takeWhile by fastforce

lemma point_index_inside:
  assumes "curve \<noteq> []" and "t \<le> cp_time (last curve)"
  shows "point_index curve t < length curve"
proof (rule ccontr)
  assume "\<not> point_index curve t < length curve"
  moreover have "0 < length curve" using assms(1) by simp
  ultimately have "length curve - 1 < point_index curve t" by linarith
  from point_index_before [OF this] show False using assms by (simp add: last_conv_nth)
qed

lemma point_index_pos: "curve \<noteq> [] \<Longrightarrow> cp_time (hd curve) < t \<Longrightarrow> 0 < point_index curve t"
  by (cases curve) (simp_all add: point_index_def)

lemma point_index_mono: "s \<le> t \<Longrightarrow> point_index curve s \<le> point_index curve t"
  unfolding point_index_def by (induction curve) auto

lemma curve_index_eq:
  assumes "i \<le> point_index curve t" and "point_index curve t < length curve"
  shows "curve_index curve t i = Some (point_index curve t)"
  using assms
proof (induction curve t i rule: curve_index.induct)
  case (1 curve t i)
  show ?case
  proof (cases "i = point_index curve t")
    case True
    with 1 point_index_at [of curve t] show ?thesis by (subst curve_index.simps) simp
  next
    case False
    with 1 point_index_before [of i curve t] show ?thesis by (subst curve_index.simps) simp
  qed
qed

lemma level_range:
  assumes "curve \<noteq> []" and "curve_ok curve" and "t \<le> cp_time (last curve)"
  shows "0 \<le> level U curve t \<and> level U curve t \<le> 100"
proof -
  let ?k = "point_index curve t"
  have k: "?k < length curve" by (rule point_index_inside [OF assms(1,3)])
  have ok: "0 \<le> cp_time (curve ! j) \<and> cp_time (curve ! j) \<le> 2147483647 \<and> 0 \<le> cp_intensity (curve ! j) \<and> cp_intensity (curve ! j) \<le> 100"
    if "j < length curve" for j using assms(2) that by (simp add: curve_ok_def list_all_length)
  show ?thesis
  proof (cases "?k = 0")
    case True
    then show ?thesis using ok [of 0] assms(1) by (simp add: level_def hd_conv_nth)
  next
    case False
    then have "cp_time (curve ! (?k - 1)) < t" "t \<le> cp_time (curve ! ?k)"
      using point_index_before [of "?k - 1" curve t] point_index_at [OF k] by simp_all
    with ok [of "?k - 1"] ok [OF k] k False show ?thesis
      unfolding level_def Let_def by (auto intro!: Interpolation_range [THEN conjunct1] Interpolation_range [THEN conjunct2])
  qed
qed

lemma sdiv_2_nonneg: "0 \<le> x \<Longrightarrow> x sdiv 2 = x div (2::int)"
  by (simp add: signed_divide_int_def sgn_if)

lemma slices_play:
  assumes "curve \<noteq> []" and "curve_ok curve" and "til = cp_time (last curve)"
    and "0 \<le> p0" and "effs0 = [] \<or> p0 + d0 < from" and "p0 \<le> from" and "0 \<le> d0" and "from = cp_time (hd curve)"
  shows "playing junk effs0 from p0 d0 ps t st \<Longrightarrow> from \<le> t \<Longrightarrow> t \<le> til \<Longrightarrow> i = point_index curve t \<Longrightarrow> lv = level U curve t \<Longrightarrow>
    \<exists>st' ps'. slices U junk curve til t lv f i st = Some st' \<and> playing junk effs0 from p0 d0 ps' til st' \<and>
      (ps' = [] \<longrightarrow> ps = [] \<and> t = til) \<and> played ps' = played ps @ grades U curve (cuts til t)"
proof (induction "nat (til - t)" arbitrary: t ps st i lv f rule: less_induct)
  case less
  show ?case
  proof (cases "t < til")
    case False
    with less.prems have "t = til" by simp
    with less.prems(1) show ?thesis
      by (intro exI [of _ st] exI [of _ ps]) (simp add: slices.simps [of _ _ _ til] cuts.simps [of til] grades_def)
  next
    case True
    let ?n = "slice_end til t"
    note n = slice_end_bounds [OF True]
    have bounds: "0 \<le> from" "til \<le> 2147483647"
      using assms(1-3,8) by (auto simp: curve_ok_def list_all_iff)
    have short: "?n - t < 150"
    proof -
      have "wrap32 (til - t) = til - t" using True bounds less.prems(2) by (intro wrap32_small) simp_all
      then show ?thesis by (simp add: slice_end_def)
    qed
    have inside: "point_index curve ?n < length curve" using assms(1,3) n by (intro point_index_inside) simp_all
    have index: "curve_index curve ?n i = Some (point_index curve ?n)"
      unfolding less.prems(4) using n inside by (intro curve_index_eq point_index_mono) simp_all
    have pos: "0 < point_index curve ?n" using assms(1,8) n less.prems(2) by (intro point_index_pos) simp_all
    have lv: "0 \<le> lv" "lv \<le> 100" "0 \<le> level U curve ?n" "level U curve ?n \<le> 100"
      using level_range [OF assms(1,2), of t U] level_range [OF assms(1,2), of ?n U] less.prems(3,5) n assms(3) by simp_all
    let ?l = "curve ! (point_index curve ?n - 1)" and ?r = "curve ! point_index curve ?n"
    let ?i = "wrap32 (lv + level U curve ?n) sdiv 2"
    let ?f = "Interpolation U (cp_time ?l) (cp_time ?r) (cp_frequency ?l) (cp_frequency ?r) ?n"
    let ?st = "ProcessContinuousEventSlice junk
      \<lparr>sl_time = t, sl_duration = ?n - t, sl_intensity = ?i, sl_frequency = wrap32 (f + ?f) sdiv 2\<rparr> st"
    have average: "?i = (level U curve t + level U curve ?n) sdiv 2"
      using lv less.prems(5) by (simp add: wrap32_small)
    then have i: "0 \<le> ?i" "?i \<le> 100" using lv less.prems(5) by (simp_all add: sdiv_2_nonneg)
    obtain ps1 where ps1: "playing junk effs0 from p0 d0 ps1 ?n ?st" "ps1 \<noteq> []" "played ps1 = played ps @ replicate (nat (?n - t)) (slice_grade ?i)"
      using slice_step [OF less.prems(1) _ short i assms(4) bounds(1) _ assms(5-7)] n bounds(2) by fastforce
    have wrap: "wrap32 (?n - t) = ?n - t" using n short by (intro wrap32_small) simp_all
    have step: "slices U junk curve til t lv f i st = slices U junk curve til ?n (level U curve ?n) ?f (point_index curve ?n) ?st"
      using pos by (subst slices.simps) (simp add: True index Let_def wrap level_def)
    have "nat (til - ?n) < nat (til - t)" using n True by simp
    from less.hyps [OF this ps1(1) _ _ refl refl, of ?f] n less.prems(2) obtain st' ps' where
      rec: "slices U junk curve til ?n (level U curve ?n) ?f (point_index curve ?n) ?st = Some st'" "playing junk effs0 from p0 d0 ps' til st'"
        "ps' \<noteq> []" "played ps' = played ps1 @ grades U curve (cuts til ?n)"
      using ps1(2) by fastforce
    have "grades U curve (cuts til t) = replicate (nat (?n - t)) (slice_grade ?i) @ grades U curve (cuts til ?n)"
      by (subst cuts.simps) (simp add: True grades_def average)
    with rec ps1(3) step show ?thesis by auto
  qed
qed

text \<open>A continuous event becomes effects that follow each other without a gap from the first to the last point of its curve and play
  in every millisecond the grade of its slice of the curve, the one halfway between the levels at the ends of
  the slice; the merging of slices changes nothing of it, and no loop leaves the curve.\<close>

theorem continuous_event_on_curve:
  assumes "100 \<le> ev_duration e" and "curve = ev_points e" and "curve \<noteq> []" and "curve_ok curve"
    and "from = cp_time (hd curve)" and "til = cp_time (last curve)" and "from < til"
    and "0 \<le> p" and "0 \<le> d" and "p \<le> from" and "effs = [] \<or> p + d < from"
  shows "\<exists>start dur ps. ProcessContinuousEvent U junk e (p, d, effs) = Some (start, dur, effs @ piece_effects junk p ps) \<and>
    seamless from ps til \<and> start + dur = til \<and> played ps = grades U curve (cuts til from)"
proof -
  have zero: "point_index curve from = 0" using assms(3,5) by (cases curve) (simp_all add: point_index_def)
  then have level: "level U curve from = cp_intensity (hd curve)" by (simp add: level_def)
  have "playing junk effs from p d [] from (p, d, effs)" by (simp add: playing_def)
  from slices_play [OF assms(3,4,6,8,11,10,9,5) this order_refl _ zero [symmetric] level [symmetric], where f = "cp_frequency (hd curve)"] assms(7)
  obtain st' ps where r: "slices U junk curve til from (cp_intensity (hd curve)) (cp_frequency (hd curve)) 0 (p, d, effs) = Some st'"
      "playing junk effs from p d ps til st'" "ps \<noteq> []" "played ps = grades U curve (cuts til from)"
    by (auto simp: played_def)
  obtain qs s n g where ps: "ps = qs @ [(s, n, g)]" using r(3) by (metis rev_exhaust prod_cases3)
  have "ProcessContinuousEvent U junk e (p, d, effs) = Some st'"
    using assms(1,3) r(1) by (simp add: ProcessContinuousEvent_def assms(2,5,6) [symmetric] Let_def)
  moreover have "st' = (s, n, effs @ piece_effects junk p ps)" "s + n = til" "seamless from ps til"
    using r(2) by (cases st'; simp add: playing_def ps seamless_last)+
  ultimately show ?thesis using r(4) by blast
qed

definition sample_continuous :: VibrateEvent where
  "sample_continuous = \<lparr>ev_tag = EVENT_TAG_CONTINUOUS, ev_time = 0, ev_duration = 240, ev_intensity = 100, ev_frequency = 50, ev_index = 0,
     ev_points = [\<lparr>cp_time = 10, cp_intensity = 40, cp_frequency = 0\<rparr>, \<lparr>cp_time = 110, cp_intensity = 40, cp_frequency = 0\<rparr>,
       \<lparr>cp_time = 250, cp_intensity = 100, cp_frequency = 0\<rparr>]\<rparr>"

lemma continuous_event_on_curve_witness:
  "ProcessContinuousEvent (\<lambda>_. 0) 0 sample_continuous (0, 0, []) = Some (160, 90,
     [PrimitiveEffect 10 10003 0, PrimitiveEffect 100 5004 0, PrimitiveEffect 50 9006 0]) \<and>
   (\<exists>ps. seamless 10 ps 250 \<and> played ps = grades (\<lambda>_. 0) (ev_points sample_continuous) (cuts 250 10))"
proof
  show "ProcessContinuousEvent (\<lambda>_. 0) 0 sample_continuous (0, 0, []) = Some (160, 90,
     [PrimitiveEffect 10 10003 0, PrimitiveEffect 100 5004 0, PrimitiveEffect 50 9006 0])" by code_simp
  have "curve_ok (ev_points sample_continuous)" "100 \<le> ev_duration sample_continuous" "ev_points sample_continuous \<noteq> []"
    "cp_time (hd (ev_points sample_continuous)) = 10" "cp_time (last (ev_points sample_continuous)) = 250" by code_simp+
  from continuous_event_on_curve [OF this(2) refl this(3,1) this(4,5) [symmetric], where p = 0 and d = 0 and effs = "[]" and U = "\<lambda>_. 0" and junk = 0]
  show "\<exists>ps. seamless 10 ps 250 \<and> played ps = grades (\<lambda>_. 0) (ev_points sample_continuous) (cuts 250 10)" by auto
qed

end
