(* ===== verification/PlugCallback.thy ===== *)
theory PlugCallback
  imports ServiceHandlers
begin

text \<open>
  The classes that pass an event on to the service: \<^verbatim>\<open>vibrator_plug_callback.cpp\<close>, which the driver calls,
  \<^verbatim>\<open>miscdevice_common_event_subscriber.cpp\<close>, which the event service calls, and \<^verbatim>\<open>permission_util.cpp\<close>. A function object is
  \<open>None\<close> or a step on the state of the service. The function of plug events is a static of \<^verbatim>\<open>HdiConnection\<close>, so the object that
  \<^verbatim>\<open>vibrator_plug_callback.cpp\<close> makes for itself sees the one that the service has registered.
\<close>

definition HdiConnection_GetVibratorPlugCb :: "'s \<Rightarrow> 'd hdi_state \<Rightarrow> 's option" where
  "HdiConnection_GetVibratorPlugCb cb c = (if hs_plugCb c then Some cb else None)"

definition OnVibratorPlugEvent ::
    "(HdfVibratorPlugInfo \<Rightarrow> 's \<Rightarrow> 's) \<Rightarrow> 'd hdi_state \<Rightarrow> HdfVibratorPlugInfo \<Rightarrow> 's \<Rightarrow> errcode \<times> 's" where
  "OnVibratorPlugEvent cb c info s =
     (case HdiConnection_GetVibratorPlugCb cb c of None \<Rightarrow> (ERR_NO_INIT, s) | Some f \<Rightarrow> (ERR_OK, f info s))"

definition Subscriber_OnReceiveEvent :: "('e \<Rightarrow> 's \<Rightarrow> 's) option \<Rightarrow> 'e \<Rightarrow> 's \<Rightarrow> 's" where
  "Subscriber_OnReceiveEvent eventReceiver data s = (case eventReceiver of None \<Rightarrow> s | Some f \<Rightarrow> f data s)"

definition CheckVibratePermission :: "('t \<Rightarrow> string \<Rightarrow> int) \<Rightarrow> 't \<Rightarrow> string \<Rightarrow> int" where
  "CheckVibratePermission VerifyAccessToken callerToken permissionName = VerifyAccessToken callerToken permissionName"

section \<open>Events of the driver\<close>

text \<open>Once the service has registered, the driver's events are its steps.\<close>

lemma registered_events_handled:
  assumes "HdiConnection_RegisterVibratorPlugCallback D True c = (ERR_OK, c')"
  shows "OnVibratorPlugEvent (SendMsgToClient W) c' info sv = (ERR_OK, SendMsgToClient W info sv)"
  using assms by (auto simp: HdiConnection_RegisterVibratorPlugCallback_def OnVibratorPlugEvent_def HdiConnection_GetVibratorPlugCb_def Let_def
      split: prod.splits if_splits)

section \<open>A restart of the driver\<close>

text \<open>The connection that is made after the driver service has died does not register again: whatever registering does,
  the result is the same. The new driver does not know of the service, so it reports no plug event.\<close>

lemma connect_loop_registers_nothing:
  "connect_loop (D\<lparr>drv_RegVibratorPlugCallback := reg\<rparr>) found c = connect_loop D found c"
  by (induction found arbitrary: c) (simp_all add: RegisterHdiDeathRecipient_def Let_def)

lemma reconnect_registers_nothing:
  "HdiConnection_ProcessDeathObserver (D\<lparr>drv_RegVibratorPlugCallback := reg\<rparr>) found promoted c =
   HdiConnection_ProcessDeathObserver D found promoted c"
  by (simp add: HdiConnection_ProcessDeathObserver_def Reconnect_def HdiConnection_ConnectHdi_def connect_loop_registers_nothing)

end
