(* ===== verification/PackageMemory.thy ===== *)
theory PackageMemory
  imports ClientModulation MallocHeap
begin

text \<open>
  The memory of the packages of the client library, \<^verbatim>\<open>vibrator_service_client.cpp\<close>: who owns the arrays that the conversion
  and the modulation of a package allocate, what they give back when they fail, and what \<^verbatim>\<open>FreeVibratorPackage\<close> frees. The values are those of
  \<open>ClientPackages\<close> and \<open>ClientModulation\<close>; each array comes with its block. \<open>A n\<close> says whether the \<open>n\<close>-th
  allocation succeeds, so any of them may fail.
\<close>

section \<open>Structs with their blocks\<close>

type_synonym owned_event = "VibratorEvent \<times> nat option"
type_synonym owned_pattern = "VibratorPattern \<times> nat option \<times> nat option list"
type_synonym owned_package = "VibratorPackage \<times> nat option \<times> owned_pattern list"

definition pattern_blocks :: "owned_pattern \<Rightarrow> nat multiset" where
  "pattern_blocks = (\<lambda>(p, events, points). some_blocks (events # points))"

definition package_blocks :: "owned_package \<Rightarrow> nat multiset" where
  "package_blocks = (\<lambda>(k, patterns, ps). some_blocks [patterns] + sum_list (map pattern_blocks ps))"

section \<open>Freeing\<close>

definition free_pattern :: "owned_pattern \<Rightarrow> malloc_heap \<Rightarrow> malloc_heap" where
  "free_pattern = (\<lambda>(p, events, points) h.
     if vpt_eventNum p \<le> 0 \<or> events = None then h
     else mh_free events (fold mh_free (take (nat (vpt_eventNum p)) points) h))"

definition FreeVibratorPackage_mem :: "owned_package \<Rightarrow> malloc_heap \<Rightarrow> errcode \<times> malloc_heap" where
  "FreeVibratorPackage_mem = (\<lambda>(k, patterns, ps) h.
     if vpk_patternNum k \<le> 0 \<or> patterns = None then (ERROR, h)
     else (ERR_OK, mh_free patterns (fold free_pattern (take (nat (vpk_patternNum k)) ps) h)))"

definition FreePartiallyAllocatedVibratorEvents :: "nat option \<Rightarrow> nat option list \<Rightarrow> int \<Rightarrow> malloc_heap \<Rightarrow> malloc_heap" where
  "FreePartiallyAllocatedVibratorEvents events points partialIdx h =
     (if events = None then h
      else mh_free events (fold mh_free (rev (take (nat (partialIdx + 1)) points)) h))"

definition FreePartiallyAllocatedVibratorPatterns :: "nat option \<Rightarrow> owned_pattern list \<Rightarrow> int \<Rightarrow> malloc_heap \<Rightarrow> malloc_heap" where
  "FreePartiallyAllocatedVibratorPatterns patterns ps partialIdx h =
     (if patterns = None then h
      else mh_free patterns (fold (\<lambda>(p, events, points). FreePartiallyAllocatedVibratorEvents events points (vpt_eventNum p - 1))
             (rev (take (nat (partialIdx + 1)) ps)) h))"

section \<open>Modulation\<close>

definition GetCurveListAfterModulation_mem ::
    "(nat \<Rightarrow> bool) \<Rightarrow> VibratorCurveInterval list \<Rightarrow> VibratorEvent \<Rightarrow> int \<Rightarrow> malloc_heap
      \<Rightarrow> (VibratorCurvePoint list \<times> nat option) outcome \<times> malloc_heap" where
  "GetCurveListAfterModulation_mem A ivs e patternOffset h =
     (case mh_malloc A h of
        (None, h) \<Rightarrow> (Fail ERROR, h)
      | (Some b, h) \<Rightarrow>
          (obind (ofold (\<lambda>i s. obind (elem (ve_points e) i) (\<lambda>c. curve_round ivs (wrap32 (patternOffset + ve_time e)) c s))
                    (indices (ve_pointNum e)) (0, []))
             (\<lambda>(modIdx, out). Done (out, Some b)), h))"

definition ModulateEventWithCurvePoints_mem ::
    "(nat \<Rightarrow> bool) \<Rightarrow> VibratorCurveInterval list \<Rightarrow> int \<Rightarrow> VibratorEvent \<Rightarrow> malloc_heap \<Rightarrow> owned_event outcome \<times> malloc_heap" where
  "ModulateEventWithCurvePoints_mem A ivs patternStartTime e h =
     (if ve_pointNum e = 0 \<or> ve_points e = None then (Fail ERROR, h)
      else if ve_pointNum e < 4 \<or> ve_pointNum e > 16 then (Fail ERROR, h)
      else let (r, h) = GetCurveListAfterModulation_mem A ivs e patternStartTime h in
        (obind r (\<lambda>(ps, b). Done (e\<lparr>ve_points := Some ps\<rparr>, b)), h))"

definition ModulateVibratorEvent_mem ::
    "(nat \<Rightarrow> bool) \<Rightarrow> VibratorEvent \<Rightarrow> int \<Rightarrow> VibratorEvent \<Rightarrow> malloc_heap \<Rightarrow> owned_event outcome \<times> malloc_heap" where
  "ModulateVibratorEvent_mem A curve patternStartTime e h =
     (case ConvertVibratorEventsToCurveIntervals curve 0 of
        Crash \<Rightarrow> (Crash, h)
      | Fail c \<Rightarrow> (Fail c, h)
      | Done ivs \<Rightarrow>
          if ve_type e \<noteq> EVENT_TYPE_CONTINUOUS \<or> ve_pointNum e = 0 \<or> ve_points e = None
          then (obind (ModulateEventWithoutCurvePoints ivs patternStartTime e) (\<lambda>e. Done (e, None)), h)
          else ModulateEventWithCurvePoints_mem A ivs patternStartTime e h)"

text \<open>The loops; \<open>out\<close> holds the elements that are done. The arrays are zeroed when they are allocated.\<close>

definition not_yet :: "int \<Rightarrow> 'a list \<Rightarrow> nat" where
  "not_yet n out = nat n - length out"

fun modulate_events ::
    "(nat \<Rightarrow> bool) \<Rightarrow> VibratorEvent \<Rightarrow> VibratorPattern \<Rightarrow> nat option \<Rightarrow> int list \<Rightarrow> owned_event list \<Rightarrow> malloc_heap
      \<Rightarrow> owned_event list outcome \<times> malloc_heap" where
  "modulate_events A curve p events [] out h = (Done out, h)"
| "modulate_events A curve p events (i # is) out h =
     (case elem (vpt_events p) i of
        Crash \<Rightarrow> (Crash, h)
      | Fail c \<Rightarrow> (Fail c, h)
      | Done e \<Rightarrow>
          (case ModulateVibratorEvent_mem A curve (vpt_time p) e h of
             (Crash, h) \<Rightarrow> (Crash, h)
           | (Fail c, h) \<Rightarrow>
               (Fail ERROR, FreePartiallyAllocatedVibratorEvents events
                  (map snd out @ replicate (not_yet (vpt_eventNum p) out) None) i h)
           | (Done e', h) \<Rightarrow> modulate_events A curve p events is (out @ [e']) h))"

definition ModulateVibratorPattern_mem ::
    "(nat \<Rightarrow> bool) \<Rightarrow> VibratorEvent \<Rightarrow> VibratorPattern \<Rightarrow> malloc_heap \<Rightarrow> owned_pattern outcome \<times> malloc_heap" where
  "ModulateVibratorPattern_mem A curve p h =
     (if vpt_eventNum p \<le> 0 \<or> vpt_events p = None then (Fail ERROR, h)
      else case mh_malloc A h of
        (None, h) \<Rightarrow> (Fail ERROR, h)
      | (Some b, h) \<Rightarrow>
          let (r, h) = modulate_events A curve p (Some b) (indices (vpt_eventNum p)) [] h in
          (obind r (\<lambda>es. Done (p\<lparr>vpt_events := Some (map fst es)\<rparr>, Some b, map snd es)), h))"

definition blank_pattern :: owned_pattern where
  "blank_pattern = (\<lparr>vpt_time = 0, vpt_eventNum = 0, vpt_patternDuration = 0, vpt_events = None\<rparr>, None, [])"

fun modulate_patterns ::
    "(nat \<Rightarrow> bool) \<Rightarrow> VibratorEvent \<Rightarrow> VibratorPackage \<Rightarrow> nat option \<Rightarrow> int list \<Rightarrow> owned_pattern list \<Rightarrow> malloc_heap
      \<Rightarrow> owned_pattern list outcome \<times> malloc_heap" where
  "modulate_patterns A curve k patterns [] out h = (Done out, h)"
| "modulate_patterns A curve k patterns (i # is) out h =
     (case elem (vpk_patterns k) i of
        Crash \<Rightarrow> (Crash, h)
      | Fail c \<Rightarrow> (Fail c, h)
      | Done p \<Rightarrow>
          (case ModulateVibratorPattern_mem A curve p h of
             (Crash, h) \<Rightarrow> (Crash, h)
           | (Fail c, h) \<Rightarrow>
               (Fail ERROR, FreePartiallyAllocatedVibratorPatterns patterns
                  (out @ replicate (not_yet (vpk_patternNum k) out) blank_pattern) i h)
           | (Done p', h) \<Rightarrow> modulate_patterns A curve k patterns is (out @ [p']) h))"

definition ModulatePackage_mem ::
    "(nat \<Rightarrow> bool) \<Rightarrow> VibratorEvent \<Rightarrow> VibratorPackage \<Rightarrow> malloc_heap \<Rightarrow> owned_package outcome \<times> malloc_heap" where
  "ModulatePackage_mem A curve k h =
     (if vpk_patternNum k \<le> 0 \<or> vpk_patterns k = None then (Fail ERROR, h)
      else if ve_time curve < 0 \<or> ve_duration curve < 0 \<or> ve_pointNum curve \<le> 0 \<or> ve_points curve = None then (Fail ERROR, h)
      else case mh_malloc A h of
        (None, h) \<Rightarrow> (Fail ERROR, h)
      | (Some b, h) \<Rightarrow>
          let (r, h) = modulate_patterns A curve k (Some b) (indices (vpk_patternNum k)) [] h in
          (obind r (\<lambda>ps. Done (k\<lparr>vpk_patterns := Some (map fst ps)\<rparr>, Some b, ps)), h))"

section \<open>Conversion\<close>

fun c_events_mem :: "(nat \<Rightarrow> bool) \<Rightarrow> VibrateEvent list \<Rightarrow> owned_event list \<Rightarrow> malloc_heap \<Rightarrow> owned_event list outcome \<times> malloc_heap" where
  "c_events_mem A [] out h = (Done out, h)"
| "c_events_mem A (e # es) out h =
     (case mh_malloc A h of
        (None, h) \<Rightarrow> (Fail ERROR, h)
      | (Some b, h) \<Rightarrow>
          c_events_mem A es (out @ [(\<lparr>ve_type = type_of_tag (ev_tag e), ve_time = ev_time e, ve_duration = ev_duration e,
             ve_intensity = ev_intensity e, ve_frequency = ev_frequency e, ve_index = ev_index e,
             ve_pointNum = wrap32 (int (length (ev_points e))), ve_points = Some (map c_point (ev_points e))\<rparr>, Some b)]) h)"

fun c_patterns_mem ::
    "(nat \<Rightarrow> bool) \<Rightarrow> nat option \<Rightarrow> int \<Rightarrow> VibratePattern list \<Rightarrow> owned_pattern list \<Rightarrow> malloc_heap
      \<Rightarrow> owned_pattern list outcome \<times> malloc_heap" where
  "c_patterns_mem A patterns d [] out h = (Done out, h)"
| "c_patterns_mem A patterns d (a # as) out h =
     (case mh_malloc A h of
        (None, h) \<Rightarrow> (Fail ERROR, mh_free patterns h)
      | (Some b, h) \<Rightarrow>
          (case c_events_mem A (pat_events a) [] h of
             (Crash, h) \<Rightarrow> (Crash, h)
           | (Fail c, h) \<Rightarrow> (Fail ERROR, mh_free (Some b) (mh_free patterns h))
           | (Done es, h) \<Rightarrow>
               let d' = pattern_end d (pat_events a) in
               c_patterns_mem A patterns d' as (out @ [(\<lparr>vpt_time = pat_startTime a, vpt_eventNum = wrap32 (int (length (pat_events a))),
                 vpt_patternDuration = d', vpt_events = Some (map fst es)\<rparr>, Some b, map snd es)]) h))"

definition ConvertVibratorPackage_c_mem ::
    "(nat \<Rightarrow> bool) \<Rightarrow> VibratePackage \<Rightarrow> malloc_heap \<Rightarrow> owned_package outcome \<times> malloc_heap" where
  "ConvertVibratorPackage_c_mem A k h =
     (case mh_malloc A h of
        (None, h) \<Rightarrow> (Fail ERROR, h)
      | (Some b, h) \<Rightarrow>
          let (r, h) = c_patterns_mem A (Some b) 0 (pkg_patterns k) [] h in
          (obind r (\<lambda>ps. Done (\<lparr>vpk_patternNum = wrap32 (int (length (pkg_patterns k))),
             vpk_packageDuration = pkg_packageDuration k, vpk_patterns = Some (map fst ps)\<rparr>, Some b, ps)), h))"

section \<open>What a step gives back\<close>

text \<open>
  The value is the one that the function has when there is memory; a result that is done owns its blocks and nothing else, a failure owns
  nothing.
\<close>

definition settles ::
    "(nat \<Rightarrow> bool) \<Rightarrow> ('a \<Rightarrow> nat multiset) \<Rightarrow> ('a \<Rightarrow> bool) \<Rightarrow> ('a \<Rightarrow> 'b) \<Rightarrow> 'b outcome \<Rightarrow> malloc_heap \<Rightarrow> 'a outcome \<times> malloc_heap \<Rightarrow> bool" where
  "settles A blocks good val result h x \<longleftrightarrow>
     (case fst x of
        Crash \<Rightarrow> result = Crash
      | Fail c \<Rightarrow> c = ERROR \<and> ((\<forall>n. A n) \<longrightarrow> result = Fail ERROR) \<and> owns_more h {#} (snd x)
      | Done y \<Rightarrow> result = Done (val y) \<and> good y \<and> owns_more h (blocks y) (snd x))"

lemma settles_cases [consumes 1, case_names Crash Fail Done]:
  assumes "settles A blocks good val result h x"
  obtains h' where "x = (Crash, h')" "result = Crash"
  | h' where "x = (Fail ERROR, h')" "(\<forall>n. A n) \<Longrightarrow> result = Fail ERROR" "owns_more h {#} h'"
  | y h' where "x = (Done y, h')" "result = Done (val y)" "good y" "owns_more h (blocks y) h'"
  using assms by (cases x; cases "fst x") (auto simp: settles_def)

lemma settles_simps [simp]:
  "settles A blocks good val result h (Crash, h') \<longleftrightarrow> result = Crash"
  "settles A blocks good val result h (Fail c, h') \<longleftrightarrow> c = ERROR \<and> ((\<forall>n. A n) \<longrightarrow> result = Fail ERROR) \<and> owns_more h {#} h'"
  "settles A blocks good val result h (Done y, h') \<longleftrightarrow> result = Done (val y) \<and> good y \<and> owns_more h (blocks y) h'"
  by (auto simp: settles_def)

lemma obind_Fail: "obind r f = Fail c \<longleftrightarrow> r = Fail c \<or> (\<exists>x. r = Done x \<and> f x = Fail c)"
  by (cases r) auto

lemma obind_all_Done [simp]: "obind r Done = r"
  by (cases r) auto

lemma elem_no_failure [simp]: "elem a i \<noteq> Fail c"
  by (simp add: elem_def split: option.splits)

lemma interval_loop_no_failure [simp]: "interval_loop v off m i \<noteq> Fail c"
  by (induction v off m i rule: interval_loop.induct) (auto simp: obind_Fail split: if_splits)

lemma curve_loop_no_failure [simp]:
  "ofold (\<lambda>i s. obind (elem a i) (\<lambda>c. curve_round ivs t c s)) is s \<noteq> Fail c"
  by (induction "is" arbitrary: s) (auto simp: obind_Fail curve_round_def Let_def split: prod.splits if_splits)

lemma malloc_cases:
  obtains h' where "mh_malloc A h = (None, h')" "\<not> A (mh_next h)" "owns_more h {#} h'"
  | b h' where "mh_malloc A h = (Some b, h')" "A (mh_next h)" "owns_more h {#b#} h'" "mh_next h' = Suc (mh_next h)"
  using that(1) [of "snd (mh_malloc A h)"] that(2) [of "mh_next h" "snd (mh_malloc A h)"]
  by (cases "A (mh_next h)") (simp_all add: mh_malloc_def Let_def owns_more_def)

lemma some_blocks_rev [simp]: "some_blocks (rev ps) = some_blocks ps"
  by (induction ps) (auto split: option.splits)

lemma some_blocks_none [simp]: "some_blocks (replicate n None) = {#}"
  by (induction n) auto

section \<open>Modulation gives back what it takes\<close>

lemma ModulateVibratorEvent_settles:
  "settles A (\<lambda>e. some_blocks [snd e]) (\<lambda>_. True) fst (ModulateVibratorEvent (\<lambda>_. True) curve t e) h (ModulateVibratorEvent_mem A curve t e h)"
proof (cases "ConvertVibratorEventsToCurveIntervals curve 0")
  case (Done ivs)
  have without: "settles A (\<lambda>e. some_blocks [snd e]) (\<lambda>_. True) fst (ModulateEventWithoutCurvePoints ivs t e) h
      (obind (ModulateEventWithoutCurvePoints ivs t e) (\<lambda>e. Done (e, None)), h)"
    by (simp add: ModulateEventWithoutCurvePoints_def Let_def)
  let ?loop = "ofold (\<lambda>i s. obind (elem (ve_points e) i) (\<lambda>c. curve_round ivs (wrap32 (t + ve_time e)) c s)) (indices (ve_pointNum e)) (0, [])"
  have "settles A (\<lambda>e. some_blocks [snd e]) (\<lambda>_. True) fst (ModulateEventWithCurvePoints (\<lambda>_. True) ivs t e) h (ModulateEventWithCurvePoints_mem A ivs t e h)"
    by (cases ?loop; rule malloc_cases [of A h])
      (auto simp: ModulateEventWithCurvePoints_def ModulateEventWithCurvePoints_mem_def
        GetCurveListAfterModulation_def GetCurveListAfterModulation_mem_def)
  with without show ?thesis by (simp add: Done ModulateVibratorEvent_def ModulateVibratorEvent_mem_def)
qed (simp_all add: ModulateVibratorEvent_def ModulateVibratorEvent_mem_def ConvertVibratorEventsToCurveIntervals_def)

lemma free_events_partially:
  "owns_more h (some_blocks (Some b # take (nat (i + 1)) points) + B) h' \<Longrightarrow>
   owns_more h B (FreePartiallyAllocatedVibratorEvents (Some b) points i h')"
  unfolding FreePartiallyAllocatedVibratorEvents_def
  by (simp, rule mh_free_owns, rule fold_mh_free_owns) (simp add: ac_simps)

lemma upt_Cons_map: "i # is = map int [m..<n] \<Longrightarrow> m < n \<and> i = int m \<and> is = map int [Suc m..<n]"
  by (cases "m < n") (simp_all add: upt_conv_Cons)

lemma modulate_events_settles:
  assumes "owns_more h0 (some_blocks (Some b # map snd out)) h" and "is = map int [length out..<n]" and "length out \<le> n"
    and "vpt_eventNum p = int n"
  shows "settles A (\<lambda>es. some_blocks (Some b # map snd es)) (\<lambda>es. length es = n) (map fst)
    (obind (collect (\<lambda>i. obind (elem (vpt_events p) i) (ModulateVibratorEvent (\<lambda>_. True) curve (vpt_time p))) is) (\<lambda>xs. Done (map fst out @ xs)))
    h0 (modulate_events A curve p (Some b) is out h)"
  using assms
proof (induction "is" arbitrary: out h)
  case Nil
  then have "length out = n" by (cases "length out < n") (simp_all add: upt_conv_Cons)
  with Nil show ?case by simp
next
  case (Cons i "is")
  note i = upt_Cons_map [OF Cons.prems(2)]
  show ?case
  proof (cases "elem (vpt_events p) i")
    case (Done e)
    show ?thesis
    proof (cases rule: settles_cases [OF ModulateVibratorEvent_settles [of A curve "vpt_time p" e h]])
      case (1 h')
      then show ?thesis by (simp add: Done)
    next
      case (2 h')
      let ?points = "map snd out @ replicate (n - length out) None"
      have "take (Suc (length out)) ?points = map snd out @ [None]"
        using i by (cases "n - length out") simp_all
      moreover have "nat (1 + int (length out)) = Suc (length out)" by simp
      ultimately have "owns_more h0 {#} (FreePartiallyAllocatedVibratorEvents (Some b) ?points i h')"
        using owns_more_trans [OF Cons.prems(1) 2(3)] i by (intro free_events_partially) (simp add: add.commute)
      then show ?thesis using Cons.prems(4) by (simp add: Done 2 not_yet_def)
    next
      case (3 e' h')
      have "owns_more h0 (some_blocks (Some b # map snd (out @ [e']))) h'"
        using owns_more_trans [OF Cons.prems(1) 3(4)] by (simp add: ac_simps)
      from Cons.IH [OF this _ _ Cons.prems(4)] i
      have "settles A (\<lambda>es. some_blocks (Some b # map snd es)) (\<lambda>es. length es = n) (map fst)
        (obind (collect (\<lambda>i. obind (elem (vpt_events p) i) (ModulateVibratorEvent (\<lambda>_. True) curve (vpt_time p))) is) (\<lambda>xs. Done (map fst (out @ [e']) @ xs)))
        h0 (modulate_events A curve p (Some b) is (out @ [e']) h')" by simp
      then show ?thesis
        by (cases "collect (\<lambda>i. obind (elem (vpt_events p) i) (ModulateVibratorEvent (\<lambda>_. True) curve (vpt_time p))) is")
          (simp_all add: Done 3)
    qed
  qed simp_all
qed

text \<open>A pattern that \<^verbatim>\<open>FreeVibratorPackage\<close> frees as a whole.\<close>

definition freeable :: "owned_pattern \<Rightarrow> bool" where
  "freeable = (\<lambda>(p, events, points). 0 < vpt_eventNum p \<and> events \<noteq> None \<and> vpt_eventNum p = int (length points))"

lemma ModulateVibratorPattern_settles:
  "settles A pattern_blocks freeable fst (ModulateVibratorPattern (\<lambda>_. True) curve p) h (ModulateVibratorPattern_mem A curve p h)"
proof (cases "vpt_eventNum p \<le> 0 \<or> vpt_events p = None")
  case False
  show ?thesis
  proof (cases rule: malloc_cases [of A h])
    case (2 b h')
    have start: "owns_more h (some_blocks (Some b # map snd ([] :: owned_event list))) h'" using 2(3) by simp
    have "indices (vpt_eventNum p) = map int [length ([] :: owned_event list)..<nat (vpt_eventNum p)]" by (simp add: indices_def)
    from modulate_events_settles [OF start this, of p A curve] False
    have "settles A (\<lambda>es. some_blocks (Some b # map snd es)) (\<lambda>es. length es = nat (vpt_eventNum p)) (map fst)
      (collect (\<lambda>i. obind (elem (vpt_events p) i) (ModulateVibratorEvent (\<lambda>_. True) curve (vpt_time p))) (indices (vpt_eventNum p)))
      h (modulate_events A curve p (Some b) (indices (vpt_eventNum p)) [] h')"
      by simp
    then show ?thesis using False 2
      by (cases rule: settles_cases) (auto simp: ModulateVibratorPattern_def ModulateVibratorPattern_mem_def freeable_def pattern_blocks_def)
  qed (use False in \<open>auto simp: ModulateVibratorPattern_def ModulateVibratorPattern_mem_def\<close>)
qed (auto simp: ModulateVibratorPattern_def ModulateVibratorPattern_mem_def)

lemma FreePartially_pattern:
  "freeable q \<Longrightarrow> owns_more h (pattern_blocks q + B) h' \<Longrightarrow>
   owns_more h B ((\<lambda>(p, events, points). FreePartiallyAllocatedVibratorEvents events points (vpt_eventNum p - 1)) q h')"
  by (cases q) (auto simp: freeable_def pattern_blocks_def intro!: free_events_partially)

lemma free_pattern_owns: "freeable q \<Longrightarrow> owns_more h (pattern_blocks q + B) h' \<Longrightarrow> owns_more h B (free_pattern q h')"
  by (cases q) (auto simp: freeable_def pattern_blocks_def free_pattern_def add.assoc intro!: mh_free_owns fold_mh_free_owns simp: ac_simps)

lemma fold_frees:
  assumes "\<And>q h' B. q \<in> set qs \<Longrightarrow> owns_more h (pattern_blocks q + B) h' \<Longrightarrow> owns_more h B (f q h')"
    and "owns_more h (sum_list (map pattern_blocks qs) + B) h'"
  shows "owns_more h B (fold f qs h')"
  using assms
proof (induction qs arbitrary: h')
  case (Cons q qs)
  have "owns_more h (sum_list (map pattern_blocks qs) + B) (f q h')"
    using Cons.prems by (simp add: add.assoc)
  with Cons show ?case by simp
qed simp

lemma modulate_patterns_settles:
  assumes "owns_more h0 (add_mset b (sum_list (map pattern_blocks out))) h" and "list_all freeable out"
    and "is = map int [length out..<n]" and "length out \<le> n" and "vpk_patternNum k = int n"
  shows "settles A (\<lambda>ps. add_mset b (sum_list (map pattern_blocks ps))) (\<lambda>ps. length ps = n \<and> list_all freeable ps) (map fst)
    (obind (collect (\<lambda>i. obind (elem (vpk_patterns k) i) (ModulateVibratorPattern (\<lambda>_. True) curve)) is) (\<lambda>xs. Done (map fst out @ xs)))
    h0 (modulate_patterns A curve k (Some b) is out h)"
  using assms
proof (induction "is" arbitrary: out h)
  case Nil
  then have "length out = n" by (cases "length out < n") (simp_all add: upt_conv_Cons)
  with Nil show ?case by simp
next
  case (Cons i "is")
  note i = upt_Cons_map [OF Cons.prems(3)]
  show ?case
  proof (cases "elem (vpk_patterns k) i")
    case (Done p)
    show ?thesis
    proof (cases rule: settles_cases [OF ModulateVibratorPattern_settles [of A curve p h]])
      case (1 h')
      then show ?thesis by (simp add: Done)
    next
      case (2 h')
      let ?ps = "out @ replicate (n - length out) blank_pattern"
      let ?free = "\<lambda>(p, events, points). FreePartiallyAllocatedVibratorEvents events points (vpt_eventNum p - 1)"
      have taken: "take (nat (i + 1)) ?ps = out @ [blank_pattern]"
        using i by (cases "n - length out") (simp_all add: nat_add_distrib)
      have blank: "?free blank_pattern h' = h'" by (simp add: blank_pattern_def FreePartiallyAllocatedVibratorEvents_def)
      have "owns_more h0 (sum_list (map pattern_blocks (rev out)) + {#b#}) h'"
        using owns_more_trans [OF Cons.prems(1) 2(3)] by (simp add: rev_map [symmetric] sum_list_rev)
      from fold_frees [where f = ?free, OF FreePartially_pattern this] Cons.prems(2)
      have "owns_more h0 ({#b#} + {#}) (fold ?free (rev out) h')" by (auto simp: list_all_iff)
      then have "owns_more h0 {#} (FreePartiallyAllocatedVibratorPatterns (Some b) ?ps i h')"
        unfolding FreePartiallyAllocatedVibratorPatterns_def taken using mh_free_owns [of h0 "Some b" "{#}"] by (simp add: blank)
      then show ?thesis using Cons.prems(5) by (simp add: Done 2 not_yet_def)
    next
      case (3 p' h')
      have "owns_more h0 (add_mset b (sum_list (map pattern_blocks (out @ [p'])))) h'"
        using owns_more_trans [OF Cons.prems(1) 3(4)] by (simp add: ac_simps)
      from Cons.IH [OF this _ _ _ Cons.prems(5)] i 3(3) Cons.prems(2)
      have "settles A (\<lambda>ps. add_mset b (sum_list (map pattern_blocks ps))) (\<lambda>ps. length ps = n \<and> list_all freeable ps) (map fst)
        (obind (collect (\<lambda>i. obind (elem (vpk_patterns k) i) (ModulateVibratorPattern (\<lambda>_. True) curve)) is) (\<lambda>xs. Done (map fst (out @ [p']) @ xs)))
        h0 (modulate_patterns A curve k (Some b) is (out @ [p']) h')" by simp
      then show ?thesis
        by (cases "collect (\<lambda>i. obind (elem (vpk_patterns k) i) (ModulateVibratorPattern (\<lambda>_. True) curve)) is") (simp_all add: Done 3)
    qed
  qed simp_all
qed

lemma ModulatePackage_settles:
  "settles A package_blocks (\<lambda>(k, patterns, ps). 0 < vpk_patternNum k \<and> patterns \<noteq> None \<and> vpk_patternNum k = int (length ps) \<and> list_all freeable ps)
     fst (ModulatePackage (\<lambda>_. True) curve k) h (ModulatePackage_mem A curve k h)"
proof (cases "vpk_patternNum k \<le> 0 \<or> vpk_patterns k = None \<or> ve_time curve < 0 \<or> ve_duration curve < 0 \<or> ve_pointNum curve \<le> 0 \<or> ve_points curve = None")
  case False
  show ?thesis
  proof (cases rule: malloc_cases [of A h])
    case (2 b h')
    have start: "owns_more h (add_mset b (sum_list (map pattern_blocks []))) h'" using 2(3) by simp
    have "indices (vpk_patternNum k) = map int [length ([] :: owned_pattern list)..<nat (vpk_patternNum k)]" by (simp add: indices_def)
    from modulate_patterns_settles [OF start _ this, of k A curve] False
    have "settles A (\<lambda>ps. add_mset b (sum_list (map pattern_blocks ps))) (\<lambda>ps. length ps = nat (vpk_patternNum k) \<and> list_all freeable ps) (map fst)
      (collect (\<lambda>i. obind (elem (vpk_patterns k) i) (ModulateVibratorPattern (\<lambda>_. True) curve)) (indices (vpk_patternNum k)))
      h (modulate_patterns A curve k (Some b) (indices (vpk_patternNum k)) [] h')"
      by simp
    then show ?thesis using False 2
      by (cases rule: settles_cases) (auto simp: ModulatePackage_def ModulatePackage_mem_def package_blocks_def)
  qed (use False in \<open>auto simp: ModulatePackage_def ModulatePackage_mem_def\<close>)
qed (auto simp: ModulatePackage_def ModulatePackage_mem_def)

lemma FreeVibratorPackage_frees:
  assumes "0 < vpk_patternNum k" and "patterns \<noteq> None" and "vpk_patternNum k = int (length ps)" and "list_all freeable ps"
    and "owns_more h (package_blocks (k, patterns, ps)) h'"
  shows "fst (FreeVibratorPackage_mem (k, patterns, ps) h') = ERR_OK \<and> owns_more h {#} (snd (FreeVibratorPackage_mem (k, patterns, ps) h'))"
proof -
  obtain b where b: "patterns = Some b" using assms(2) by blast
  have "owns_more h (sum_list (map pattern_blocks ps) + {#b#}) h'" using assms(5) by (simp add: b package_blocks_def)
  from fold_frees [where f = free_pattern, OF free_pattern_owns this] assms(4)
  have "owns_more h ({#b#} + {#}) (fold free_pattern ps h')" by (auto simp: list_all_iff)
  then show ?thesis using assms(1-3) mh_free_owns [of h "Some b" "{#}"] by (simp add: FreeVibratorPackage_mem_def b)
qed

text \<open>C34. \<^verbatim>\<open>ModulatePackage\<close> and \<^verbatim>\<open>FreeVibratorPackage\<close> neither leak nor free twice, whichever allocation fails: a failed modulation has given
  back everything, and a package that was made is given back as a whole.\<close>

theorem modulation_memory_returned:
  assumes "ModulatePackage_mem A curve k h = (r, h')"
  shows "case r of
      Crash \<Rightarrow> ModulatePackage (\<lambda>_. True) curve k = Crash
    | Fail c \<Rightarrow> mh_live h' = mh_live h \<and> mh_error h' = mh_error h \<and> ((\<forall>n. A n) \<longrightarrow> ModulatePackage (\<lambda>_. True) curve k = Fail c)
    | Done m \<Rightarrow> ModulatePackage (\<lambda>_. True) curve k = Done (fst m) \<and>
        (\<exists>h''. FreeVibratorPackage_mem m h' = (ERR_OK, h'') \<and> mh_live h'' = mh_live h \<and> mh_error h'' = mh_error h)"
proof (cases rule: settles_cases [OF ModulatePackage_settles [of A curve k h]])
  case (3 m h'')
  then show ?thesis
    using assms FreeVibratorPackage_frees [of "fst m" "fst (snd m)" "snd (snd m)" h h'']
    by (cases m; cases "FreeVibratorPackage_mem m h''") (simp add: owns_more_def)
qed (use assms in \<open>auto simp: owns_more_def\<close>)

section \<open>Conversion\<close>

text \<open>How many arrays a conversion that fails has filled and does not give back: the points of the events before, the events and points of
  the patterns before.\<close>

fun lost :: "(nat \<Rightarrow> bool) \<Rightarrow> nat \<Rightarrow> VibratePattern list \<Rightarrow> nat" where
  "lost A n [] = 0"
| "lost A n (a # as) =
     (let m = Suc n + length (pat_events a) in
      if \<not> A n then 0
      else if list_all A [Suc n..<m] then Suc (length (pat_events a)) + lost A m as
      else length (takeWhile A [Suc n..<m]))"

lemma c_events_memory:
  assumes "owns_more h0 (B + some_blocks (map snd out)) h" and "size (some_blocks (map snd out)) = length out"
    and "c_events_mem A es out h = (r, h')"
  shows "case r of
      Crash \<Rightarrow> False
    | Fail c \<Rightarrow> c = ERROR \<and> \<not> list_all A [mh_next h..<mh_next h + length es] \<and>
        (\<exists>C. owns_more h0 (B + C) h' \<and> size C = length out + length (takeWhile A [mh_next h..<mh_next h + length es]))
    | Done xs \<Rightarrow> list_all A [mh_next h..<mh_next h + length es] \<and> mh_next h' = mh_next h + length es \<and>
        owns_more h0 (B + some_blocks (map snd xs)) h' \<and> size (some_blocks (map snd xs)) = length xs \<and> length xs = length out + length es \<and>
        Done (map fst xs) = obind (collect (c_event (\<lambda>_. True)) es) (\<lambda>ys. Done (map fst out @ ys))"
  using assms
proof (induction es arbitrary: out h)
  case Nil
  then show ?case by auto
next
  case (Cons e es)
  have step: "[mh_next h..<mh_next h + length (e # es)] = mh_next h # [Suc (mh_next h)..<Suc (mh_next h) + length es]"
    by (simp add: upt_conv_Cons del: upt_Suc)
  show ?case
  proof (cases rule: malloc_cases [of A h])
    case (1 h1)
    have "owns_more h0 (B + some_blocks (map snd out)) h1" using owns_more_trans [OF Cons.prems(1) 1(3)] by simp
    moreover have "r = Fail ERROR" "h' = h1" using Cons.prems(3) 1 by simp_all
    ultimately show ?thesis unfolding step using 1(2) Cons.prems(2) by auto
  next
    case (2 b h1)
    let ?e = "(\<lparr>ve_type = type_of_tag (ev_tag e), ve_time = ev_time e, ve_duration = ev_duration e,
             ve_intensity = ev_intensity e, ve_frequency = ev_frequency e, ve_index = ev_index e,
             ve_pointNum = wrap32 (int (length (ev_points e))), ve_points = Some (map c_point (ev_points e))\<rparr>, Some b)"
    have owned: "owns_more h0 (B + some_blocks (map snd (out @ [?e]))) h1"
      using owns_more_trans [OF Cons.prems(1) 2(3)] by (simp add: ac_simps)
    have count: "size (some_blocks (map snd (out @ [?e]))) = length (out @ [?e])"
      using Cons.prems(2) by simp
    have rest: "c_events_mem A es (out @ [?e]) h1 = (r, h')" using Cons.prems(3) 2 by simp
    have "obind (collect (c_event (\<lambda>_. True)) (e # es)) (\<lambda>ys. Done (map fst out @ ys)) =
        obind (collect (c_event (\<lambda>_. True)) es) (\<lambda>ys. Done (map fst (out @ [?e]) @ ys))"
      by (cases "collect (c_event (\<lambda>_. True)) es") (simp_all add: c_event_def)
    with Cons.IH [OF owned count rest] 2(2,4) show ?thesis
      unfolding step by (cases r) auto
  qed
qed

text \<open>A pattern from a conversion; an array of no elements is allocated like any other.\<close>

definition converted :: "VibratePattern \<Rightarrow> owned_pattern \<Rightarrow> bool" where
  "converted a = (\<lambda>(p, events, points). vpt_eventNum p = wrap32 (int (length (pat_events a))) \<and> events \<noteq> None \<and> length points = length (pat_events a))"

lemma c_patterns_memory:
  assumes "owns_more h0 (add_mset b (sum_list (map pattern_blocks out))) h"
    and "size (sum_list (map pattern_blocks out)) = n" and "list_all2 converted done out"
    and "c_patterns_mem A (Some b) d as out h = (r, h')"
  shows "case r of
      Crash \<Rightarrow> False
    | Fail c \<Rightarrow> \<not> All A \<and> (\<exists>C. owns_more h0 C h' \<and> size C = n + lost A (mh_next h) as)
    | Done xs \<Rightarrow> owns_more h0 (add_mset b (sum_list (map pattern_blocks xs))) h' \<and> list_all2 converted (done @ as) xs \<and>
        Done (map fst xs) = obind (c_patterns (\<lambda>_. True) d as) (\<lambda>ys. Done (map fst out @ ys))"
  using assms
proof (induction as arbitrary: out h d n "done")
  case Nil
  then show ?case by auto
next
  case (Cons a as)
  show ?case
  proof (cases rule: malloc_cases [of A h])
    case (1 h1)
    have "owns_more h0 (some_blocks [Some b] + sum_list (map pattern_blocks out)) h1" using owns_more_trans [OF Cons.prems(1) 1(3)] by simp
    then have "owns_more h0 (sum_list (map pattern_blocks out)) (mh_free (Some b) h1)" by (intro mh_free_owns) simp
    moreover have "r = Fail ERROR" "h' = mh_free (Some b) h1" using Cons.prems(4) 1 by simp_all
    ultimately show ?thesis using 1(2) Cons.prems(2) by auto
  next
    case (2 e h1)
    define B where "B = add_mset e (add_mset b (sum_list (map pattern_blocks out)))"
    obtain r1 h2 where events: "c_events_mem A (pat_events a) [] h1 = (r1, h2)" by force
    have "owns_more h0 (B + some_blocks (map snd ([] :: owned_event list))) h1"
      using owns_more_trans [OF Cons.prems(1) 2(3)] by (simp add: B_def add_mset_commute)
    note memory = c_events_memory [OF this _ events]
    let ?next = "[Suc (mh_next h)..<Suc (mh_next h) + length (pat_events a)]"
    have owned: "case r1 of
         Crash \<Rightarrow> False
       | Fail c \<Rightarrow> c = ERROR \<and> \<not> list_all A ?next \<and> (\<exists>C. owns_more h0 (B + C) h2 \<and> size C = length (takeWhile A ?next))
       | Done xs \<Rightarrow> list_all A ?next \<and> mh_next h2 = Suc (mh_next h) + length (pat_events a) \<and>
           owns_more h0 (B + some_blocks (map snd xs)) h2 \<and>
           size (some_blocks (map snd xs)) = length xs \<and> length xs = length (pat_events a) \<and>
           Done (map fst xs) = collect (c_event (\<lambda>_. True)) (pat_events a)"
      using memory 2(4) by (cases r1) simp_all
    show ?thesis
    proof (cases r1)
      case Crash
      with owned show ?thesis by simp
    next
      case (Fail c)
      with owned obtain C where C: "owns_more h0 (B + C) h2" "size C = length (takeWhile A ?next)" "\<not> list_all A ?next" by auto
      from C(1) have "owns_more h0 ({#b#} + ({#e#} + (sum_list (map pattern_blocks out) + C))) h2"
        by (simp add: B_def add_mset_commute)
      then have "owns_more h0 (sum_list (map pattern_blocks out) + C) (mh_free (Some e) (mh_free (Some b) h2))"
        by (intro mh_free_owns) simp
      moreover have "size (sum_list (map pattern_blocks out) + C) = n + lost A (mh_next h) (a # as)" using Cons.prems(2) C(2,3) 2(2) by (simp add: Let_def)
      moreover have "\<not> All A" using C(3) by (auto simp: list_all_iff)
      moreover have "r = Fail ERROR" "h' = mh_free (Some e) (mh_free (Some b) h2)" using Cons.prems(4) Fail 2 events by simp_all
      ultimately show ?thesis by auto
    next
      case (Done es)
      let ?q = "(\<lparr>vpt_time = pat_startTime a, vpt_eventNum = wrap32 (int (length (pat_events a))),
                 vpt_patternDuration = pattern_end d (pat_events a), vpt_events = Some (map fst es)\<rparr>, Some e, map snd es) :: owned_pattern"
      have es: "list_all A ?next" "owns_more h0 (B + some_blocks (map snd es)) h2"
        "size (some_blocks (map snd es)) = length es" "length es = length (pat_events a)" "mh_next h2 = Suc (mh_next h) + length (pat_events a)"
        "collect (c_event (\<lambda>_. True)) (pat_events a) = Done (map fst es)" using owned Done by simp_all
      have "owns_more h0 (add_mset b (sum_list (map pattern_blocks (out @ [?q])))) h2"
        using es(2) by (simp add: B_def pattern_blocks_def ac_simps add_mset_commute)
      moreover have "size (sum_list (map pattern_blocks (out @ [?q]))) = n + Suc (length (pat_events a))"
        using Cons.prems(2) es(3,4) by (simp add: pattern_blocks_def)
      moreover have "list_all2 converted (done @ [a]) (out @ [?q])"
      proof -
        have "converted a ?q" using es(4) by (simp add: converted_def)
        with Cons.prems(3) show ?thesis by (intro list_all2_appendI) simp_all
      qed
      moreover have "c_patterns_mem A (Some b) (pattern_end d (pat_events a)) as (out @ [?q]) h2 = (r, h')"
        using Cons.prems(4) 2 events Done by (simp add: Let_def)
      ultimately have "case r of
           Crash \<Rightarrow> False
         | Fail c \<Rightarrow> \<not> All A \<and> (\<exists>C. owns_more h0 C h' \<and> size C = n + Suc (length (pat_events a)) + lost A (mh_next h2) as)
         | Done xs \<Rightarrow> owns_more h0 (add_mset b (sum_list (map pattern_blocks xs))) h' \<and> list_all2 converted ((done @ [a]) @ as) xs \<and>
             Done (map fst xs) = obind (c_patterns (\<lambda>_. True) (pattern_end d (pat_events a)) as) (\<lambda>ys. Done (map fst (out @ [?q]) @ ys))"
        by (rule Cons.IH)
      moreover have "obind (c_patterns (\<lambda>_. True) d (a # as)) (\<lambda>ys. Done (map fst out @ ys)) =
          obind (c_patterns (\<lambda>_. True) (pattern_end d (pat_events a)) as) (\<lambda>ys. Done (map fst (out @ [?q]) @ ys))"
        by (cases "c_patterns (\<lambda>_. True) (pattern_end d (pat_events a)) as") (simp_all add: Let_def es(6))
      moreover have "lost A (mh_next h) (a # as) = Suc (length (pat_events a)) + lost A (mh_next h2) as"
        using es(1,5) 2(2) by (simp add: Let_def)
      ultimately show ?thesis by (auto split: outcome.splits)
    qed
  qed
qed

text \<open>What is not freed of a converted package: the arrays of its patterns without events.\<close>

lemma free_converted:
  assumes "list_all2 converted as qs" and "list_all (\<lambda>a. length (pat_events a) < 2147483648) as"
    and "owns_more h (sum_list (map pattern_blocks qs) + B) h'"
  shows "\<exists>C. owns_more h (C + B) (fold free_pattern qs h') \<and> size C = length (filter (\<lambda>a. pat_events a = []) as)"
  using assms
proof (induction arbitrary: B h' rule: list_all2_induct)
  case Nil
  then show ?case by (intro exI [of _ "{#}"]) simp
next
  case (Cons a as q qs)
  obtain p b points where q: "q = (p, Some b, points)" "vpt_eventNum p = int (length (pat_events a))" "length points = length (pat_events a)"
    using Cons.hyps(1) Cons.prems(1) by (cases q) (auto simp: converted_def wrap32_small)
  show ?case
  proof (cases "pat_events a = []")
    case True
    then have "free_pattern q h' = h'" "pattern_blocks q = {#b#}" using q by (simp_all add: free_pattern_def pattern_blocks_def)
    moreover have "owns_more h (sum_list (map pattern_blocks qs) + add_mset b B) h'"
      using Cons.prems(2) calculation(2) by (simp add: ac_simps)
    then obtain C where "owns_more h (C + add_mset b B) (fold free_pattern qs h')" "size C = length (filter (\<lambda>a. pat_events a = []) as)"
      using Cons.IH Cons.prems(1) by fastforce
    ultimately show ?thesis using True by (intro exI [of _ "add_mset b C"]) simp
  next
    case False
    then have "freeable q" using q by (simp add: freeable_def)
    then have "owns_more h (sum_list (map pattern_blocks qs) + B) (free_pattern q h')"
      using Cons.prems(2) by (intro free_pattern_owns) (simp_all add: add.assoc)
    then show ?thesis using Cons.IH Cons.prems(1) False by fastforce
  qed
qed

text \<open>A conversion never frees twice. One that fails keeps what it has filled; one that succeeds is given back, but for the arrays of patterns
  without events, which \<^verbatim>\<open>malloc\<close> makes and \<^verbatim>\<open>FreeVibratorPackage\<close> leaves out.\<close>

theorem conversion_memory_counted:
  assumes "ConvertVibratorPackage_c_mem A k h = (r, h')" and "pkg_patterns k \<noteq> []" and "length (pkg_patterns k) < 2147483648"
    and "list_all (\<lambda>a. length (pat_events a) < 2147483648) (pkg_patterns k)"
  shows "mh_error h' = mh_error h \<and>
    (case r of
       Crash \<Rightarrow> False
     | Fail c \<Rightarrow> \<not> All A \<and> size (mh_live h') = size (mh_live h) + (if A (mh_next h) then lost A (Suc (mh_next h)) (pkg_patterns k) else 0)
     | Done m \<Rightarrow> ConvertVibratorPackage_c (\<lambda>_. True) k = Done (fst m) \<and> (\<exists>h''. FreeVibratorPackage_mem m h' = (ERR_OK, h'') \<and> mh_error h'' = mh_error h \<and>
         size (mh_live h'') = size (mh_live h) + length (filter (\<lambda>a. pat_events a = []) (pkg_patterns k))))"
proof (cases rule: malloc_cases [of A h])
  case (1 h1)
  with assms(1) show ?thesis by (auto simp: ConvertVibratorPackage_c_def ConvertVibratorPackage_c_mem_def owns_more_def)
next
  case (2 b h1)
  obtain r1 h2 where r1: "c_patterns_mem A (Some b) 0 (pkg_patterns k) [] h1 = (r1, h2)" by force
  have start: "owns_more h (add_mset b (sum_list (map pattern_blocks []))) h1" using 2(3) by simp
  from c_patterns_memory [OF start _ _ r1, of 0 "[]"]
  have memory: "case r1 of Crash \<Rightarrow> False
     | Fail c \<Rightarrow> \<not> All A \<and> (\<exists>C. owns_more h C h2 \<and> size C = lost A (Suc (mh_next h)) (pkg_patterns k))
     | Done xs \<Rightarrow> owns_more h (add_mset b (sum_list (map pattern_blocks xs))) h2 \<and> list_all2 converted (pkg_patterns k) xs \<and>
         c_patterns (\<lambda>_. True) 0 (pkg_patterns k) = Done (map fst xs)"
    using 2(4) by (cases r1) simp_all
  note conversion = ConvertVibratorPackage_c_def ConvertVibratorPackage_c_mem_def
  show ?thesis
  proof (cases r1)
    case Crash
    with memory show ?thesis by simp
  next
    case (Fail c)
    with memory 2 assms(1) r1 show ?thesis by (auto simp: conversion owns_more_def)
  next
    case (Done qs)
    have qs: "owns_more h (sum_list (map pattern_blocks qs) + {#b#}) h2" "list_all2 converted (pkg_patterns k) qs"
      using memory Done by simp_all
    from free_converted [OF qs(2) assms(4) qs(1)] obtain C where
      C: "owns_more h ({#b#} + C) (fold free_pattern qs h2)" "size C = length (filter (\<lambda>a. pat_events a = []) (pkg_patterns k))"
      by (auto simp: add.commute)
    have "owns_more h C (mh_free (Some b) (fold free_pattern qs h2))" using C(1) by (intro mh_free_owns) simp
    moreover have "length qs = length (pkg_patterns k)" using list_all2_lengthD [OF qs(2)] by simp
    moreover have "c_patterns (\<lambda>_. True) 0 (pkg_patterns k) = Done (map fst qs)" using memory Done by simp
    ultimately show ?thesis using Done 2 assms(1-3) r1 C(2) qs(1)
      by (auto simp: conversion FreeVibratorPackage_mem_def wrap32_small owns_more_def)
  qed
qed

definition sample_curved :: VibratorPackage where
  "sample_curved = (let e = \<lparr>ve_type = EVENT_TYPE_CONTINUOUS, ve_time = 0, ve_duration = 100, ve_intensity = 50, ve_frequency = 0, ve_index = 0,
       ve_pointNum = 4, ve_points = Some (map (\<lambda>t. \<lparr>vcp_time = t, vcp_intensity = 50, vcp_frequency = 0\<rparr>) [0, 10, 20, 30])\<rparr> in
     \<lparr>vpk_patternNum = 1, vpk_packageDuration = 300, vpk_patterns =
       Some [\<lparr>vpt_time = 0, vpt_eventNum = 2, vpt_patternDuration = 300, vpt_events = Some [e, e\<lparr>ve_time := 200\<rparr>]\<rparr>]\<rparr>)"

lemma modulation_memory_returned_witness:
  "\<exists>h'. ModulatePackage_mem (\<lambda>n. n < 3) sample_curve sample_curved empty_heap = (Fail ERROR, h') \<and> mh_live h' = {#} \<and> \<not> mh_error h'"
proof -
  have "fst (ModulatePackage_mem (\<lambda>n. n < 3) sample_curve sample_curved empty_heap) = Fail ERROR" by code_simp
  then obtain h' where r: "ModulatePackage_mem (\<lambda>n. n < 3) sample_curve sample_curved empty_heap = (Fail ERROR, h')"
    by (metis prod.collapse)
  from modulation_memory_returned [OF r] show ?thesis by (simp add: r) (simp add: empty_heap_def)
qed

text \<open>The points of the first event are lost when there is no memory for those of the second.\<close>

lemma conversion_memory_counted_witness:
  "\<exists>h'. ConvertVibratorPackage_c_mem (\<lambda>n. n < 3) sample_pkg empty_heap = (Fail ERROR, h') \<and> size (mh_live h') = 1"
proof -
  have "fst (ConvertVibratorPackage_c_mem (\<lambda>n. n < 3) sample_pkg empty_heap) = Fail ERROR" by code_simp
  then obtain h' where r: "ConvertVibratorPackage_c_mem (\<lambda>n. n < 3) sample_pkg empty_heap = (Fail ERROR, h')"
    by (metis prod.collapse)
  have "lost (\<lambda>n. n < 3) 1 (pkg_patterns sample_pkg) = 1" "mh_next empty_heap = 0" "mh_live empty_heap = {#}"
    "pkg_patterns sample_pkg \<noteq> []" "length (pkg_patterns sample_pkg) < 2147483648"
    "list_all (\<lambda>a. length (pat_events a) < 2147483648) (pkg_patterns sample_pkg)"
    by (simp_all add: sample_pkg_def empty_heap_def upt_rec)
  with conversion_memory_counted [OF r] r show ?thesis by simp
qed

end
