(* ===== verification/PatternMemory.thy ===== *)
theory PatternMemory
  imports PackageMemory
begin

text \<open>
  The memory of a pattern that a binding parses: an array of events, each with an array of points or none. The bindings for JavaScript and for
  ArkTS have the same loop over the events, which frees what it has when an event cannot be parsed; the locale \<open>event_parser\<close> is what
  the loop relies on of the functions for one event. \<open>A n\<close> says whether the \<open>n\<close>-th allocation succeeds.
\<close>

section \<open>What parsing owns\<close>

definition parsed ::
    "(nat \<Rightarrow> bool) \<Rightarrow> ('a \<Rightarrow> nat multiset) \<Rightarrow> ('a \<Rightarrow> bool) \<Rightarrow> ('a \<Rightarrow> 'b) \<Rightarrow> 'b option \<Rightarrow> malloc_heap \<Rightarrow> 'a option \<times> malloc_heap \<Rightarrow> bool" where
  "parsed A blocks good val result h x \<longleftrightarrow>
     (case fst x of
        None \<Rightarrow> ((\<forall>n. A n) \<longrightarrow> result = None) \<and> owns_more h {#} (snd x)
      | Some y \<Rightarrow> result = Some (val y) \<and> good y \<and> owns_more h (blocks y) (snd x))"

lemma parsed_simps [simp]:
  "parsed A blocks good val result h (None, h') \<longleftrightarrow> ((\<forall>n. A n) \<longrightarrow> result = None) \<and> owns_more h {#} h'"
  "parsed A blocks good val result h (Some y, h') \<longleftrightarrow> result = Some (val y) \<and> good y \<and> owns_more h (blocks y) h'"
  by (auto simp: parsed_def)

lemma parsed_cases [consumes 1, case_names None Some]:
  assumes "parsed A blocks good val result h x"
  obtains h' where "x = (None, h')" "(\<forall>n. A n) \<Longrightarrow> result = None" "owns_more h {#} h'"
  | y h' where "x = (Some y, h')" "result = Some (val y)" "good y" "owns_more h (blocks y) h'"
  using assms by (cases x; cases "fst x") (auto simp: parsed_def)

text \<open>An event holds a block when it has points.\<close>

definition points_owned :: "owned_event \<Rightarrow> bool" where
  "points_owned e \<longleftrightarrow> (snd e = None \<longleftrightarrow> ve_points (fst e) = None)"

section \<open>The loop over the events\<close>

fun parse_events ::
    "(int \<Rightarrow> malloc_heap \<Rightarrow> owned_event option \<times> malloc_heap) \<Rightarrow> (nat option list \<Rightarrow> int \<Rightarrow> malloc_heap \<Rightarrow> malloc_heap)
      \<Rightarrow> int list \<Rightarrow> owned_event list \<Rightarrow> malloc_heap \<Rightarrow> owned_event list option \<times> malloc_heap" where
  "parse_events parse clear [] out h = (Some out, h)"
| "parse_events parse clear (j # js) out h =
     (case parse j h of
        (None, h) \<Rightarrow> (None, clear (map snd out) j h)
      | (Some e, h) \<Rightarrow> parse_events parse clear js (out @ [e]) h)"

locale event_parser =
  fixes A :: "nat \<Rightarrow> bool"
    and parse :: "int \<Rightarrow> malloc_heap \<Rightarrow> owned_event option \<times> malloc_heap"
    and val :: "int \<Rightarrow> VibratorEvent option"
    and clear :: "nat \<Rightarrow> nat option list \<Rightarrow> int \<Rightarrow> malloc_heap \<Rightarrow> malloc_heap"
  assumes parse_parsed: "parsed A (\<lambda>e. some_blocks [snd e]) points_owned fst (val i) h (parse i h)"
    and clear_owns: "owns_more h (some_blocks (Some b # points)) h' \<Longrightarrow> owns_more h {#} (clear b points (int (length points)) h')"
begin

lemma loop_parsed:
  assumes "owns_more h0 (some_blocks (Some b # map snd out)) h" and "js = map int [length out..<n]" and "length out \<le> n"
    and "list_all points_owned out"
  shows "parsed A (\<lambda>es. some_blocks (Some b # map snd es)) (\<lambda>es. length es = n \<and> list_all points_owned es) (map fst)
    (try_fold (\<lambda>j events. map_option (\<lambda>e. events @ [e]) (val j)) js (map fst out))
    h0 (parse_events parse (clear b) js out h)"
  using assms
proof (induction js arbitrary: out h)
  case Nil
  then have "length out = n" by (cases "length out < n") (simp_all add: upt_conv_Cons)
  with Nil show ?case by simp
next
  case (Cons j js)
  note j = upt_Cons_map [OF Cons.prems(2)]
  show ?case
  proof (cases rule: parsed_cases [OF parse_parsed [of j h]])
    case (1 h')
    have "owns_more h0 (some_blocks (Some b # map snd out)) h'" using owns_more_trans [OF Cons.prems(1) 1(3)] by simp
    from clear_owns [OF this] j 1(1,2) show ?thesis by simp
  next
    case (2 e h')
    have "owns_more h0 (some_blocks (Some b # map snd (out @ [e]))) h'"
      using owns_more_trans [OF Cons.prems(1) 2(4)] by (simp add: ac_simps)
    from Cons.IH [OF this] j 2 Cons.prems(4) show ?thesis by simp
  qed
qed

lemma events_parsed:
  assumes "owns_more h0 {#b#} h"
  shows "parsed A (\<lambda>es. some_blocks (Some b # map snd es)) (\<lambda>es. length es = nat n \<and> list_all points_owned es) (map fst)
    (try_fold (\<lambda>j events. map_option (\<lambda>e. events @ [e]) (val j)) (indices n) [])
    h0 (parse_events parse (clear b) (indices n) [] h)"
  using loop_parsed [of h0 b "[]" h "indices n" "nat n"] assms by (simp add: indices_def)

end

section \<open>A pattern and its blocks\<close>

definition owned_blocks :: "nat option \<times> nat option list \<Rightarrow> nat multiset" where
  "owned_blocks = (\<lambda>(events, points). some_blocks (events # points))"

definition pattern_owned :: "VibratorPattern \<Rightarrow> nat option \<times> nat option list \<Rightarrow> bool" where
  "pattern_owned a = (\<lambda>(events, points).
     events \<noteq> None \<and> 0 < vpt_eventNum a \<and> vpt_eventNum a = int (length points) \<and>
     (\<exists>es. vpt_events a = Some es \<and> length es = length points \<and> list_all points_owned (zip es points)))"

lemma pattern_owned_events: "pattern_owned a blocks \<Longrightarrow> vpt_events a \<noteq> None"
  by (cases blocks) (auto simp: pattern_owned_def)

text \<open>Freeing the points and then the events gives all of it back.\<close>

lemma pattern_owned_free:
  assumes "pattern_owned a (events, points)" and "owns_more h (owned_blocks (events, points)) h'"
  shows "owns_more h {#} (mh_free events (fold mh_free (take (nat (vpt_eventNum a)) points) h'))"
proof -
  have "take (nat (vpt_eventNum a)) points = points" using assms(1) by (simp add: pattern_owned_def)
  with assms(2) show ?thesis by (auto simp: owned_blocks_def ac_simps intro!: mh_free_owns fold_mh_free_owns)
qed

lemma some_blocks_size: "size (some_blocks ps) = length (filter (\<lambda>p. p \<noteq> None) ps)"
  by (induction ps) (auto split: option.splits)

lemma points_owned_count:
  "list_all points_owned (zip es ps) \<Longrightarrow> length es = length ps \<Longrightarrow>
   length (filter (\<lambda>p. p \<noteq> None) ps) = length (filter (\<lambda>e. ve_points e \<noteq> None) es)"
proof (induction es arbitrary: ps)
  case (Cons e es)
  then show ?case by (cases ps) (auto simp: points_owned_def)
qed simp

lemma pattern_owned_count:
  assumes "pattern_owned a blocks"
  shows "size (owned_blocks blocks) = 1 + length (filter (\<lambda>e. ve_points e \<noteq> None) (the (vpt_events a)))"
proof -
  obtain events points es where "blocks = (events, points)" "events \<noteq> None" and
    es: "vpt_events a = Some es" "length es = length points" "list_all points_owned (zip es points)"
    using assms by (cases blocks) (auto simp: pattern_owned_def)
  with points_owned_count [OF es(3,2)] show ?thesis
    by (simp add: owned_blocks_def some_blocks_size del: some_blocks_simps)
qed

end
