(* ===== verification/JsPatternMemory.thy ===== *)
theory JsPatternMemory
  imports JsProps PatternMemory
begin

text \<open>
  The memory of a pattern that JavaScript passes to \<^verbatim>\<open>startVibration\<close>: the arrays that \<^verbatim>\<open>ParseVibratorPattern\<close> and
  \<^verbatim>\<open>ParseVibratorCurvePointArray\<close> of \<^verbatim>\<open>vibrator_js.cpp\<close> allocate, and where \<^verbatim>\<open>ClearVibratorEvents\<close> and
  \<^verbatim>\<open>ClearVibratorPattern\<close> of \<^verbatim>\<open>vibrator_napi_utils.cpp\<close> free them. The values are those of \<open>JsVibrate\<close>; \<open>A n\<close> says whether the
  \<open>n\<close>-th allocation succeeds.
\<close>

section \<open>Parsing\<close>

definition JS_ParseVibratorCurvePointArray_mem ::
    "'v napi \<Rightarrow> (nat \<Rightarrow> bool) \<Rightarrow> 'v \<Rightarrow> int \<Rightarrow> VibratorEvent \<Rightarrow> malloc_heap \<Rightarrow> owned_event option \<times> malloc_heap" where
  "JS_ParseVibratorCurvePointArray_mem N A pointsArray pointsLength event h =
     (if pointsLength \<le> 0 \<or> pointsLength > 16 then (None, h)
      else case mh_malloc A h of
        (None, h) \<Rightarrow> (None, h)
      | (Some b, h) \<Rightarrow>
          (case try_fold (\<lambda>i points. map_option (\<lambda>p. points @ [p]) (JS_ParseVibratorCurvePoint N pointsArray i)) (indices pointsLength) [] of
             None \<Rightarrow> (None, mh_free (Some b) h)
           | Some points \<Rightarrow> (Some (event\<lparr>ve_points := Some points\<rparr>, Some b), h)))"

text \<open>What \<^verbatim>\<open>ParseVibrateEvent\<close> reads before the points, and the array of the points with its length.\<close>

definition JS_event_head :: "'v napi \<Rightarrow> 'v \<Rightarrow> int \<Rightarrow> (VibratorEvent \<times> ('v \<times> int) option) option" where
  "JS_event_head N eventArray index =
     do {
       element \<leftarrow> napi_get_element N eventArray index;
       if \<not> JS_IsMatchType N element napi_object then None
       else do {
         type \<leftarrow> JS_GetPropertyInt32 N element ''eventType'';
         t \<leftarrow> JS_GetPropertyInt32 N element ''time'';
         duration \<leftarrow> JS_GetPropertyInt32 N element ''duration'';
         intensity \<leftarrow> JS_GetPropertyInt32 N element ''intensity'';
         frequency \<leftarrow> JS_GetPropertyInt32 N element ''frequency'';
         idx \<leftarrow> JS_GetPropertyInt32 N element ''index'';
         let event = default_event\<lparr>ve_type := type_of_tag (tag_of_code type), ve_time := t, ve_duration := duration,
               ve_intensity := intensity, ve_frequency := frequency, ve_index := idx\<rparr> in
         if napi_has_named_property N element ''points'' = Some True then do {
           pointsArray \<leftarrow> JS_GetPropertyItem N element ''points'';
           if \<not> JS_IsMatchArrayType N pointsArray then None
           else do {
             pointsLength \<leftarrow> napi_get_array_length N pointsArray;
             Some (event\<lparr>ve_pointNum := wrap32 pointsLength\<rparr>, Some (pointsArray, pointsLength))
           }
         }
         else Some (event, None)
       }
     }"

definition JS_ParseVibrateEvent_mem ::
    "'v napi \<Rightarrow> (nat \<Rightarrow> bool) \<Rightarrow> 'v \<Rightarrow> int \<Rightarrow> malloc_heap \<Rightarrow> owned_event option \<times> malloc_heap" where
  "JS_ParseVibrateEvent_mem N A eventArray index h =
     (case JS_event_head N eventArray index of
        None \<Rightarrow> (None, h)
      | Some (event, None) \<Rightarrow> (Some (event, None), h)
      | Some (event, Some (pointsArray, pointsLength)) \<Rightarrow>
          if pointsLength > 0 then JS_ParseVibratorCurvePointArray_mem N A pointsArray pointsLength event h
          else (Some (event, None), h))"

definition ClearVibratorEvents :: "nat option \<Rightarrow> nat option list \<Rightarrow> int \<Rightarrow> malloc_heap \<Rightarrow> malloc_heap" where
  "ClearVibratorEvents events points eventSize h =
     (if events = None then h
      else if eventSize \<le> 0 then mh_free events h
      else mh_free events (fold mh_free (take (nat eventSize) points) h))"

definition ClearVibratorPattern_mem :: "owned_pattern \<Rightarrow> malloc_heap \<Rightarrow> (VibratorPattern \<times> bool) \<times> malloc_heap" where
  "ClearVibratorPattern_mem = (\<lambda>(p, events, points) h.
     if vpt_eventNum p \<le> 0 \<or> events = None then ((p, False), h)
     else ((p\<lparr>vpt_events := None\<rparr>, True), mh_free events (fold mh_free (take (nat (vpt_eventNum p)) points) h)))"

text \<open>The time, the array of the events and its length.\<close>

definition JS_pattern_head :: "'v napi \<Rightarrow> 'v \<Rightarrow> (int \<times> 'v \<times> int) option" where
  "JS_pattern_head N arg =
     do {
       pattern \<leftarrow> JS_GetPropertyItem N arg ''pattern'';
       if \<not> JS_IsMatchType N pattern napi_object then None
       else do {
         t \<leftarrow> JS_GetPropertyInt32 N pattern ''time'';
         eventArray \<leftarrow> JS_GetPropertyItem N pattern ''events'';
         if \<not> JS_IsMatchArrayType N eventArray then None
         else do {
           len \<leftarrow> napi_get_array_length N eventArray;
           Some (t, eventArray, len)
         }
       }
     }"

definition JS_ParseVibratorPattern_mem ::
    "'v napi \<Rightarrow> (nat \<Rightarrow> bool) \<Rightarrow> 'v \<Rightarrow> JsVibrateInfo \<Rightarrow> malloc_heap \<Rightarrow> (JsVibrateInfo \<times> nat option \<times> nat option list) option \<times> malloc_heap" where
  "JS_ParseVibratorPattern_mem N A arg info h =
     (case JS_pattern_head N arg of
        None \<Rightarrow> (None, h)
      | Some (t, eventArray, len) \<Rightarrow>
          if len \<le> 0 \<or> len > 128 then (None, h)
          else case mh_malloc A h of
            (None, h) \<Rightarrow> (None, h)
          | (Some b, h) \<Rightarrow>
              (case parse_events (JS_ParseVibrateEvent_mem N A eventArray) (ClearVibratorEvents (Some b)) (indices len) [] h of
                 (None, h) \<Rightarrow> (None, h)
               | (Some es, h) \<Rightarrow>
                   (Some (info\<lparr>jvi_vibratorPattern :=
                      (jvi_vibratorPattern info)\<lparr>vpt_time := t, vpt_eventNum := wrap32 len, vpt_events := Some (map fst es)\<rparr>\<rparr>,
                      Some b, map snd es), h)))"

section \<open>\<^verbatim>\<open>startVibration\<close>\<close>

text \<open>The blocks that the pattern of the call holds come with each result.\<close>

type_synonym pattern_memory = "nat option \<times> nat option list"

definition JS_parse_effect_mem ::
    "'v napi \<Rightarrow> file_env \<Rightarrow> (nat \<Rightarrow> bool) \<Rightarrow> 'v \<Rightarrow> JsVibrateInfo \<Rightarrow> malloc_heap
      \<Rightarrow> (JsVibrateInfo + JsVibrateInfo) \<times> pattern_memory \<times> malloc_heap" where
  "JS_parse_effect_mem N F A v info h =
     (if jvi_type info = ''pattern'' then
        (case JS_ParseVibratorPattern_mem N A v info h of
           (None, h) \<Rightarrow> (Inl info, (None, []), h)
         | (Some (info, blocks), h) \<Rightarrow>
             if \<not> JS_CheckVibratorPatternParameter (jvi_vibratorPattern info)
             then (let ((p, _), h) = ClearVibratorPattern_mem (jvi_vibratorPattern info, blocks) h
                   in (Inl (info\<lparr>jvi_vibratorPattern := p\<rparr>), (None, []), h))
             else (Inr info, blocks, h))
      else (JS_parse_effect N F (\<lambda>_. True) v info, (None, []), h))"

definition JS_ParseParameter_mem ::
    "'v napi \<Rightarrow> file_env \<Rightarrow> (nat \<Rightarrow> bool) \<Rightarrow> 'v list \<Rightarrow> JsVibrateInfo \<Rightarrow> malloc_heap
      \<Rightarrow> (JsVibrateInfo + (JsVibrateInfo \<times> misc_identifier)) \<times> pattern_memory \<times> malloc_heap" where
  "JS_ParseParameter_mem N F A args info h =
     (if length args < 2 then (Inl info, (None, []), h)
      else case JS_GetPropertyString N (args ! 0) ''type'' of
        None \<Rightarrow> (Inl info, (None, []), h)
      | Some type \<Rightarrow>
          (case JS_parse_effect_mem N F A (args ! 0) (info\<lparr>jvi_type := type\<rparr>) h of
             (Inl info, blocks, h) \<Rightarrow> (Inl info, blocks, h)
           | (Inr info, blocks, h) \<Rightarrow>
               (case JS_GetPropertyString N (args ! 1) ''usage'' of
                  None \<Rightarrow> (Inl info, blocks, h)
                | Some usage \<Rightarrow>
                    let systemUsage = (case JS_GetPropertyBool N (args ! 1) ''systemUsage'' of None \<Rightarrow> False | Some b \<Rightarrow> b);
                        vibratorId = int_property N (args ! 1) ''id'' (-1)
                    in (Inr (info\<lparr>jvi_usage := usage, jvi_systemUsage := systemUsage\<rparr>,
                         \<lparr>mi_deviceId = int_property N (args ! 1) ''deviceId'' (-1),
                          mi_vibratorId = (if vibratorId = 0 then -1 else vibratorId)\<rparr>), blocks, h))))"

definition JS_VibrateEffect_mem ::
    "'v napi \<Rightarrow> file_env \<Rightarrow> 'j client_env \<Rightarrow> 's misc_proxy \<Rightarrow> (nat \<Rightarrow> bool) \<Rightarrow> 'v list \<Rightarrow> 'v js_state \<Rightarrow> 's agent_state \<Rightarrow> malloc_heap
      \<Rightarrow> ('v js_result \<times> 'v js_state \<times> 's agent_state) option \<times> malloc_heap" where
  "JS_VibrateEffect_mem N F E P A args js st h =
     (case JS_ParseParameter_mem N F A args default_js_info h of
        (Inl _, blocks, h) \<Rightarrow> (Some (NullValue, js_throw N PARAMETER_ERROR js, st), h)
      | (Inr (info, i), blocks, h) \<Rightarrow>
          if jvi_type info = ''preset'' then
            (let (set, cl) = AG_SetLoopCountEnhanced i (jvi_count info) (fst st);
                 (ret, cl) = (if set then JS_CheckParameters_info info i cl else (PARAMETER_ERROR, cl))
             in if \<not> set \<or> ret \<noteq> ERR_OK \<or> jvi_effectId info = ''''
                then (Some (NullValue, js_throw N PARAMETER_ERROR js, cl, snd st), h)
                else let (r, js) = EmitAsyncWork N (callback_arg N args 2)
                           (new_async\<lparr>ai_info := info, ai_identifier := i, ai_flag := ''preset''\<rparr>) js
                     in (Some (r, js, cl, snd st), h))
          else
            (case JS_StartVibrate_info E P info i st of
               None \<Rightarrow> (None, h)
             | Some (code, st) \<Rightarrow>
                 let held = (vpt_events (jvi_vibratorPattern info) \<noteq> None);
                     ((p, cleared), h) = (if held then ClearVibratorPattern_mem (jvi_vibratorPattern info, blocks) h
                                          else ((jvi_vibratorPattern info, False), h));
                     info' = info\<lparr>jvi_vibratorPattern := p\<rparr>
                 in if held \<and> \<not> cleared then (Some (NullValue, js, st), h)
                    else if code = PARAMETER_ERROR then (Some (NullValue, js_throw N PARAMETER_ERROR js, st), h)
                    else let (r, js) = EmitAsyncWork N (callback_arg N args 2) (new_async\<lparr>ai_info := info', ai_code := code\<rparr>) js
                         in (Some (r, js, st), h)))"

section \<open>What parsing owns\<close>

lemma JS_ParseVibrateEvent_head:
  "JS_ParseVibrateEvent N (\<lambda>_. True) eventArray i =
     (case JS_event_head N eventArray i of
        None \<Rightarrow> None
      | Some (event, None) \<Rightarrow> Some event
      | Some (event, Some (pointsArray, n)) \<Rightarrow>
          if n > 0 then JS_ParseVibratorCurvePointArray N (\<lambda>_. True) pointsArray n event else Some event)"
  by (auto simp: JS_ParseVibrateEvent_def JS_event_head_def Let_def bind_eq_None_conv split: Option.bind_split option.splits)

lemma JS_event_head_points: "JS_event_head N eventArray i = Some (event, r) \<Longrightarrow> ve_points event = None"
  by (auto simp: JS_event_head_def default_event_def Let_def split: Option.bind_splits if_splits)

lemma JS_ParseVibrateEvent_parsed:
  "parsed A (\<lambda>e. some_blocks [snd e]) points_owned fst (JS_ParseVibrateEvent N (\<lambda>_. True) eventArray i) h
     (JS_ParseVibrateEvent_mem N A eventArray i h)"
proof (cases "JS_event_head N eventArray i")
  case None
  then show ?thesis by (simp add: JS_ParseVibrateEvent_head JS_ParseVibrateEvent_mem_def)
next
  case (Some x)
  obtain event r where x: "x = (event, r)" by (cases x)
  note points = JS_event_head_points [OF Some [unfolded x]]
  show ?thesis
  proof (cases "\<exists>pointsArray n. r = Some (pointsArray, n) \<and> n > 0")
    case False
    then show ?thesis using points
      by (cases r) (auto simp: JS_ParseVibrateEvent_head JS_ParseVibrateEvent_mem_def Some x points_owned_def)
  next
    case True
    then obtain pointsArray n where r: "r = Some (pointsArray, n)" "n > 0" by blast
    let ?loop = "try_fold (\<lambda>i points. map_option (\<lambda>p. points @ [p]) (JS_ParseVibratorCurvePoint N pointsArray i)) (indices n) []"
    show ?thesis
    proof (cases rule: malloc_cases [of A h])
      case (1 h')
      then show ?thesis using r
        by (auto simp: JS_ParseVibrateEvent_head JS_ParseVibrateEvent_mem_def Some x JS_ParseVibratorCurvePointArray_mem_def JS_ParseVibratorCurvePointArray_def)
    next
      case (2 b h')
      have "owns_more h {#} (mh_free (Some b) h')" using 2(3) by (intro mh_free_owns) simp
      with 2 r show ?thesis
        by (cases ?loop) (auto simp: JS_ParseVibrateEvent_head JS_ParseVibrateEvent_mem_def Some x
          JS_ParseVibratorCurvePointArray_mem_def JS_ParseVibratorCurvePointArray_def points_owned_def)
    qed
  qed
qed

lemma ClearVibratorEvents_owns:
  "owns_more h (some_blocks (Some b # points)) h' \<Longrightarrow> owns_more h {#} (ClearVibratorEvents (Some b) points (int (length points)) h')"
  unfolding ClearVibratorEvents_def
  by (cases points) (auto intro!: mh_free_owns fold_mh_free_owns simp: ac_simps)

interpretation js_parser: event_parser A "JS_ParseVibrateEvent_mem N A eventArray" "JS_ParseVibrateEvent N (\<lambda>_. True) eventArray"
    "\<lambda>b. ClearVibratorEvents (Some b)" for A N eventArray
  by unfold_locales (rule JS_ParseVibrateEvent_parsed, rule ClearVibratorEvents_owns)

lemma JS_ParseVibratorPattern_head:
  "JS_ParseVibratorPattern N (\<lambda>_. True) arg info =
     (case JS_pattern_head N arg of
        None \<Rightarrow> None
      | Some (t, eventArray, len) \<Rightarrow>
          if len \<le> 0 \<or> len > 128 then None
          else map_option (\<lambda>es. info\<lparr>jvi_vibratorPattern :=
              (jvi_vibratorPattern info)\<lparr>vpt_time := t, vpt_eventNum := wrap32 len, vpt_events := Some es\<rparr>\<rparr>)
            (try_fold (\<lambda>j events. map_option (\<lambda>e. events @ [e]) (JS_ParseVibrateEvent N (\<lambda>_. True) eventArray j)) (indices len) []))"
  by (auto simp: JS_ParseVibratorPattern_def JS_pattern_head_def bind_eq_None_conv map_option_case split: Option.bind_split option.splits)

lemma JS_ParseVibratorPattern_parsed:
  "parsed A (\<lambda>x. owned_blocks (snd x)) (\<lambda>x. pattern_owned (jvi_vibratorPattern (fst x)) (snd x) \<and> jvi_type (fst x) = jvi_type info) fst
     (JS_ParseVibratorPattern N (\<lambda>_. True) arg info) h (JS_ParseVibratorPattern_mem N A arg info h)"
proof (cases "JS_pattern_head N arg")
  case None
  then show ?thesis by (simp add: JS_ParseVibratorPattern_head JS_ParseVibratorPattern_mem_def)
next
  case (Some x)
  obtain t eventArray len where x: "x = (t, eventArray, len)" by (cases x)
  show ?thesis
  proof (cases "len \<le> 0 \<or> len > 128")
    case True
    then show ?thesis by (auto simp: JS_ParseVibratorPattern_head JS_ParseVibratorPattern_mem_def Some x)
  next
    case False
    then have len: "wrap32 len = len" by (intro wrap32_small) auto
    show ?thesis
    proof (cases rule: malloc_cases [of A h])
      case (1 h')
      with False show ?thesis by (auto simp: JS_ParseVibratorPattern_head JS_ParseVibratorPattern_mem_def Some x)
    next
      case (2 b h')
      show ?thesis
      proof (cases rule: parsed_cases [OF js_parser.events_parsed [OF 2(3), where A = A and N = N and eventArray = eventArray and n = len]])
        case (1 h1)
        with 2 False show ?thesis by (simp add: JS_ParseVibratorPattern_head JS_ParseVibratorPattern_mem_def Some x)
      next
        case es: (2 es h1)
        have "zip (map fst es) (map snd es) = es" by (simp add: zip_map_fst_snd)
        with 2 es False show ?thesis
          by (simp add: JS_ParseVibratorPattern_head JS_ParseVibratorPattern_mem_def Some x len owned_blocks_def pattern_owned_def)
      qed
    qed
  qed
qed

lemma ClearVibratorPattern_owns:
  assumes "pattern_owned a blocks" and "owns_more h (owned_blocks blocks) h'"
  obtains h'' where "ClearVibratorPattern_mem (a, blocks) h' = (JS_ClearVibratorPattern a, h'')"
    "snd (JS_ClearVibratorPattern a)" "owns_more h {#} h''"
proof -
  obtain events points where b: "blocks = (events, points)" by (cases blocks)
  note free = pattern_owned_free [OF assms [unfolded b]]
  from assms(1) show ?thesis by (intro that [OF _ _ free]) (auto simp: b ClearVibratorPattern_mem_def JS_ClearVibratorPattern_def pattern_owned_def)
qed

lemma JS_parse_effect_keeps:
  "jvi_type info \<noteq> ''pattern'' \<Longrightarrow> JS_parse_effect N F A v info = Inr info' \<Longrightarrow>
   jvi_vibratorPattern info' = jvi_vibratorPattern info \<and> jvi_type info' = jvi_type info"
  by (auto simp: JS_parse_effect_def Let_def split: if_splits option.splits)

lemma JS_parse_effect_memory:
  assumes "JS_parse_effect_mem N F A v info h = (r, blocks, h')" and "vpt_events (jvi_vibratorPattern info) = None"
  shows "case r of
      Inl _ \<Rightarrow> ((\<forall>n. A n) \<longrightarrow> JS_parse_effect N F (\<lambda>_. True) v info = r) \<and> owns_more h {#} h'
    | Inr info' \<Rightarrow> JS_parse_effect N F (\<lambda>_. True) v info = r \<and> jvi_type info' = jvi_type info \<and>
        (if jvi_type info = ''pattern'' then pattern_owned (jvi_vibratorPattern info') blocks \<and> owns_more h (owned_blocks blocks) h'
         else vpt_events (jvi_vibratorPattern info') = None \<and> h' = h)"
proof (cases "jvi_type info = ''pattern''")
  case False
  show ?thesis
  proof (cases "JS_parse_effect N F (\<lambda>_. True) v info")
    case (Inl info')
    with False assms(1) have "r = Inl info'" "h' = h" by (simp_all add: JS_parse_effect_mem_def)
    with Inl show ?thesis by simp
  next
    case (Inr info')
    with False assms(1) have "r = Inr info'" "h' = h" by (simp_all add: JS_parse_effect_mem_def)
    with Inr False assms(2) JS_parse_effect_keeps [OF False Inr] show ?thesis by simp
  qed
next
  case True
  show ?thesis
  proof (cases rule: parsed_cases [OF JS_ParseVibratorPattern_parsed [of A info N v h]])
    case (1 h1)
    with True assms(1) show ?thesis by (auto simp: JS_parse_effect_mem_def JS_parse_effect_def)
  next
    case (2 y h1)
    obtain info1 b where y: "y = (info1, b)" by (cases y)
    with 2 have owned: "pattern_owned (jvi_vibratorPattern info1) b" "owns_more h (owned_blocks b) h1" by simp_all
    obtain h2 where clear: "ClearVibratorPattern_mem (jvi_vibratorPattern info1, b) h1 = (JS_ClearVibratorPattern (jvi_vibratorPattern info1), h2)"
      "owns_more h {#} h2" by (rule ClearVibratorPattern_owns [OF owned])
    with True assms(1) 2 y owned show ?thesis
      by (auto simp: JS_parse_effect_mem_def JS_parse_effect_def split: if_splits prod.splits)
  qed
qed

text \<open>What the parameters own when they are parsed, and when they are not.\<close>

lemma JS_ParseParameter_memory:
  assumes "JS_ParseParameter_mem N F A args info h = (r, blocks, h')" and "vpt_events (jvi_vibratorPattern info) = None"
  shows "case r of
      Inl info' \<Rightarrow> ((\<forall>n. A n) \<longrightarrow> JS_ParseParameter N F (\<lambda>_. True) args info = r) \<and>
        (owns_more h {#} h' \<or>
         JS_GetPropertyString N (args ! 1) ''usage'' = None \<and> pattern_owned (jvi_vibratorPattern info') blocks \<and> owns_more h (owned_blocks blocks) h')
    | Inr (info', i) \<Rightarrow> JS_ParseParameter N F (\<lambda>_. True) args info = r \<and>
        (if jvi_type info' = ''pattern'' then pattern_owned (jvi_vibratorPattern info') blocks \<and> owns_more h (owned_blocks blocks) h'
         else vpt_events (jvi_vibratorPattern info') = None \<and> h' = h)"
proof (cases "length args < 2 \<or> JS_GetPropertyString N (args ! 0) ''type'' = None")
  case True
  with assms(1) have "r = Inl info" "h' = h" by (auto simp: JS_ParseParameter_mem_def split: if_splits)
  with True show ?thesis by (auto simp: JS_ParseParameter_def)
next
  case False
  then obtain type where type: "JS_GetPropertyString N (args ! 0) ''type'' = Some type" "\<not> length args < 2" by blast
  let ?info = "info\<lparr>jvi_type := type\<rparr>"
  obtain r1 b1 h1 where effect: "JS_parse_effect_mem N F A (args ! 0) ?info h = (r1, b1, h1)" by (metis prod_cases3)
  note memory = JS_parse_effect_memory [OF effect]
  show ?thesis
  proof (cases r1)
    case (Inl info1)
    with effect type assms(1) have r: "r = Inl info1" "h' = h1" by (simp_all add: JS_ParseParameter_mem_def)
    from memory Inl assms(2) have "(\<forall>n. A n) \<longrightarrow> JS_parse_effect N F (\<lambda>_. True) (args ! 0) ?info = Inl info1" "owns_more h {#} h1" by simp_all
    with r type show ?thesis by (simp add: JS_ParseParameter_def)
  next
    case (Inr info1)
    with memory assms(2) have m: "JS_parse_effect N F (\<lambda>_. True) (args ! 0) ?info = Inr info1" "jvi_type info1 = type"
      "if type = ''pattern'' then pattern_owned (jvi_vibratorPattern info1) b1 \<and> owns_more h (owned_blocks b1) h1
       else vpt_events (jvi_vibratorPattern info1) = None \<and> h1 = h" by simp_all
    show ?thesis
    proof (cases "JS_GetPropertyString N (args ! 1) ''usage''")
      case None
      with effect type assms(1) Inr have "r = Inl info1" "h' = h1" "blocks = b1" by (simp_all add: JS_ParseParameter_mem_def)
      with None m type show ?thesis by (simp add: JS_ParseParameter_def split: if_splits)
    next
      case (Some usage)
      then show ?thesis using effect type assms(1) Inr m
        by (auto simp: JS_ParseParameter_mem_def JS_ParseParameter_def Let_def split: if_splits)
    qed
  qed
qed

text \<open>C30. \<^verbatim>\<open>startVibration\<close> gives back the arrays of a pattern on every path, whichever allocation fails, and never frees twice; only a call
  without a usage may keep them. With memory its result is the one of \<open>JsVibrate\<close>.\<close>

theorem js_pattern_memory_returned:
  assumes "JS_VibrateEffect_mem N F E P A args js st h = (Some result, h')"
  shows "mh_error h' = mh_error h \<and>
    (JS_GetPropertyString N (args ! 1) ''usage'' \<noteq> None \<longrightarrow> mh_live h' = mh_live h) \<and>
    ((\<forall>n. A n \<and> ce_malloc E n) \<longrightarrow> JS_VibrateEffect N F E P args js st = Some result)"
proof -
  obtain r blocks h1 where parse: "JS_ParseParameter_mem N F A args default_js_info h = (r, blocks, h1)" by (metis prod_cases3)
  have none: "vpt_events (jvi_vibratorPattern default_js_info) = None" by (simp add: default_js_info_def default_pattern_def)
  note memory = JS_ParseParameter_memory [OF parse none]
  have enough: "JS_ParseParameter N F (ce_malloc E) = JS_ParseParameter N F (\<lambda>_. True)" if "\<forall>n. A n \<and> ce_malloc E n"
  proof -
    have "ce_malloc E = (\<lambda>_. True)" using that by (intro ext) simp
    then show ?thesis by simp
  qed
  show ?thesis
  proof (cases r)
    case (Inl info)
    with parse assms have "result = (NullValue, js_throw N PARAMETER_ERROR js, st)" "h' = h1" by (simp_all add: JS_VibrateEffect_mem_def)
    with memory Inl show ?thesis by (auto simp: JS_VibrateEffect_def enough owns_more_def)
  next
    case (Inr x)
    obtain info i where x: "x = (info, i)" by (cases x)
    from memory Inr x have m: "JS_ParseParameter N F (\<lambda>_. True) args default_js_info = Inr (info, i)"
      "if jvi_type info = ''pattern'' then pattern_owned (jvi_vibratorPattern info) blocks \<and> owns_more h (owned_blocks blocks) h1
       else vpt_events (jvi_vibratorPattern info) = None \<and> h1 = h" by simp_all
    show ?thesis
    proof (cases "vpt_events (jvi_vibratorPattern info) = None")
      case True
      with m(2) have "h1 = h" using pattern_owned_events [of "jvi_vibratorPattern info" blocks] by (auto split: if_splits)
      with True parse Inr x assms m(1) show ?thesis
        by (auto simp: JS_VibrateEffect_mem_def JS_VibrateEffect_def enough Let_def split: if_splits option.splits prod.splits)
    next
      case False
      with m(2) have type: "jvi_type info = ''pattern''" and owned: "pattern_owned (jvi_vibratorPattern info) blocks" "owns_more h (owned_blocks blocks) h1"
        by (auto split: if_splits)
      obtain h2 where clear: "ClearVibratorPattern_mem (jvi_vibratorPattern info, blocks) h1 = (JS_ClearVibratorPattern (jvi_vibratorPattern info), h2)"
        "snd (JS_ClearVibratorPattern (jvi_vibratorPattern info))" "owns_more h {#} h2" by (rule ClearVibratorPattern_owns [OF owned])
      with False type parse Inr x assms m(1) show ?thesis
        by (auto simp: JS_VibrateEffect_mem_def JS_VibrateEffect_def enough Let_def owns_more_def split: if_splits option.splits prod.splits)
    qed
  qed
qed

section \<open>A call without a usage\<close>

text \<open>A pattern that is parsed and checked but comes without a usage is kept for good: the array of its events and those of their points.\<close>

lemma js_missing_usage_leaks:
  assumes "\<not> length args < 2" and "JS_GetPropertyString N (args ! 0) ''type'' = Some ''pattern''"
    and "JS_parse_effect N F (\<lambda>_. True) (args ! 0) (default_js_info\<lparr>jvi_type := ''pattern''\<rparr>) = Inr info"
    and "JS_GetPropertyString N (args ! 1) ''usage'' = None" and "\<forall>n. A n"
  shows "\<exists>h'. JS_VibrateEffect_mem N F E P A args js st h = (Some (NullValue, js_throw N PARAMETER_ERROR js, st), h') \<and>
    size (mh_live h') = size (mh_live h) + 1 + length (filter (\<lambda>e. ve_points e \<noteq> None) (the (vpt_events (jvi_vibratorPattern info))))"
proof -
  let ?info = "default_js_info\<lparr>jvi_type := ''pattern''\<rparr>"
  obtain r b h' where effect: "JS_parse_effect_mem N F A (args ! 0) ?info h = (r, b, h')" by (metis prod_cases3)
  have "vpt_events (jvi_vibratorPattern ?info) = None" by (simp add: default_js_info_def default_pattern_def)
  from JS_parse_effect_memory [OF effect this] assms(3,5) have r: "r = Inr info"
    and owned: "pattern_owned (jvi_vibratorPattern info) b" "owns_more h (owned_blocks b) h'"
    by (cases r; simp)+
  have "JS_VibrateEffect_mem N F E P A args js st h = (Some (NullValue, js_throw N PARAMETER_ERROR js, st), h')"
    using effect r assms(1,2,4) by (simp add: JS_VibrateEffect_mem_def JS_ParseParameter_mem_def)
  then show ?thesis using owned(2) pattern_owned_count [OF owned(1)] by (simp add: owns_more_def)
qed

section \<open>A call where memory runs out\<close>

definition js_curve_event :: "rat \<Rightarrow> js" where
  "js_curve_event t = JsObj [(''eventType'', JsNum 0), (''time'', JsNum t), (''duration'', JsNum 100), (''intensity'', JsNum 50),
     (''frequency'', JsNum 50), (''index'', JsNum 0), (''points'',
       JsArr (map (\<lambda>t. Some (JsObj [(''time'', JsNum t), (''intensity'', JsNum 50), (''frequency'', JsNum 0)])) [0, 10, 20, 30]))]"

definition js_pattern_args :: "js list" where
  "js_pattern_args =
     [JsObj [(''type'', JsStr ''pattern''),
        (''pattern'', JsObj [(''time'', JsNum 0), (''events'', JsArr [Some (js_curve_event 0), Some (js_curve_event 200)])])],
      JsObj [(''usage'', JsStr ''alarm'')]]"

lemma js_pattern_memory_returned_witness:
  "mh_live (snd (JS_VibrateEffect_mem js_engine (sample_files '''' 0) sample_client_env sample_proxy (\<lambda>n. n < 2) js_pattern_args initial_js
     sample_agent empty_heap)) = {#}"
proof -
  let ?r = "JS_VibrateEffect_mem js_engine (sample_files '''' 0) sample_client_env sample_proxy (\<lambda>n. n < 2) js_pattern_args initial_js
     sample_agent empty_heap"
  have "fst ?r \<noteq> None" by code_simp
  then obtain result where "?r = (Some result, snd ?r)" by (metis not_None_eq prod.collapse)
  from js_pattern_memory_returned [OF this]
  have "JS_GetPropertyString js_engine (js_pattern_args ! 1) ''usage'' \<noteq> None \<longrightarrow> mh_live (snd ?r) = mh_live empty_heap" by blast
  moreover have "JS_GetPropertyString js_engine (js_pattern_args ! 1) ''usage'' \<noteq> None" by code_simp
  ultimately show ?thesis by (simp add: empty_heap_def)
qed

end
