(* ===== verification/EtsPatternMemory.thy ===== *)
theory EtsPatternMemory
  imports EtsProps PatternMemory
begin

text \<open>
  The memory of a pattern that ArkTS passes to \<^verbatim>\<open>startVibrationSync\<close>, as \<open>JsPatternMemory\<close> has it for JavaScript: the arrays that
  \<^verbatim>\<open>ohos.vibrator.impl.cpp\<close> allocates and frees. The values are those of \<open>EtsVibrator\<close>.
\<close>

section \<open>Parsing\<close>

text \<open>A point can always be parsed, so the points are never freed here.\<close>

definition ETS_ParseVibratorCurvePointArray_mem ::
    "(rat option \<Rightarrow> int) \<Rightarrow> (nat \<Rightarrow> bool) \<Rightarrow> ets_point list \<Rightarrow> int \<Rightarrow> VibratorEvent \<Rightarrow> malloc_heap \<Rightarrow> owned_event option \<times> malloc_heap" where
  "ETS_ParseVibratorCurvePointArray_mem U A pointsArray pointsLength event h =
     (let pointsLength = pointsLength mod 4294967296 in
      if pointsLength \<le> 0 \<or> pointsLength > 16 then (None, h)
      else case mh_malloc A h of
        (None, h) \<Rightarrow> (None, h)
      | (Some b, h) \<Rightarrow>
          (Some (event\<lparr>ve_points := Some (map (\<lambda>i. ETS_ParseVibratorCurvePoint U (pointsArray ! nat i)) (indices pointsLength))\<rparr>, Some b), h))"

definition ETS_ParseVibrateEvent_mem ::
    "(rat option \<Rightarrow> int) \<Rightarrow> (nat \<Rightarrow> bool) \<Rightarrow> ets_event \<Rightarrow> malloc_heap \<Rightarrow> owned_event option \<times> malloc_heap" where
  "ETS_ParseVibrateEvent_mem U A e h =
     (let event = default_event\<lparr>ve_type := type_of_tag (tag_of_code (ee_eventType e)), ve_time := ee_time e,
            ve_duration := value_or (ee_duration e) 0, ve_intensity := value_or (ee_intensity e) 0,
            ve_frequency := value_or (ee_frequency e) 0, ve_index := value_or (ee_index e) 0\<rparr>
      in case ee_points e of
        None \<Rightarrow> (Some (event, None), h)
      | Some points \<Rightarrow>
          let event = event\<lparr>ve_pointNum := wrap32 (int (length points))\<rparr> in
          if points = [] then (Some (event, None), h)
          else ETS_ParseVibratorCurvePointArray_mem U A points (ve_pointNum event) event h)"

definition ETS_ClearVibratorEvents :: "nat option \<Rightarrow> nat option list \<Rightarrow> int \<Rightarrow> malloc_heap \<Rightarrow> malloc_heap" where
  "ETS_ClearVibratorEvents events points eventSize h =
     (if events = None then h
      else if eventSize \<le> 0 then mh_free events h
      else mh_free events (fold mh_free (take (nat eventSize) points) h))"

definition ETS_ParseVibratorPattern_mem ::
    "(rat option \<Rightarrow> int) \<Rightarrow> (nat \<Rightarrow> bool) \<Rightarrow> ets_pattern \<Rightarrow> JsVibrateInfo \<Rightarrow> malloc_heap
      \<Rightarrow> (bool \<times> JsVibrateInfo) \<times> (nat option \<times> nat option list) \<times> malloc_heap" where
  "ETS_ParseVibratorPattern_mem U A pattern info h =
     (let n = wrap32 (int (length (epa_events pattern)));
          a = (jvi_vibratorPattern info)\<lparr>vpt_time := epa_time pattern, vpt_eventNum := n\<rparr>;
          failed = (False, info\<lparr>jvi_vibratorPattern := a\<rparr>)
      in if n \<le> 0 \<or> n > 128 then (failed, (None, []), h)
         else case mh_malloc A h of
           (None, h) \<Rightarrow> (failed, (None, []), h)
         | (Some b, h) \<Rightarrow>
             (case parse_events (\<lambda>j. ETS_ParseVibrateEvent_mem U A (epa_events pattern ! nat j)) (ETS_ClearVibratorEvents (Some b))
                     (indices n) [] h of
                (None, h) \<Rightarrow> (failed, (None, []), h)
              | (Some es, h) \<Rightarrow>
                  ((True, info\<lparr>jvi_vibratorPattern := a\<lparr>vpt_events := Some (map fst es)\<rparr>\<rparr>), (Some b, map snd es), h)))"

definition ETS_ClearVibratorPattern_mem :: "owned_pattern \<Rightarrow> malloc_heap \<Rightarrow> (VibratorPattern \<times> bool) \<times> malloc_heap" where
  "ETS_ClearVibratorPattern_mem = (\<lambda>(p, events, points) h.
     if vpt_eventNum p \<le> 0 \<or> vpt_events p = None then ((p, False), h)
     else ((p\<lparr>vpt_events := None\<rparr>, True), mh_free events (fold mh_free (take (nat (vpt_eventNum p)) points) h)))"

section \<open>\<^verbatim>\<open>startVibrationSync\<close>\<close>

definition ETS_parse_effect_mem ::
    "(rat option \<Rightarrow> int) \<Rightarrow> file_env \<Rightarrow> (nat \<Rightarrow> bool) \<Rightarrow> ets_effect \<Rightarrow> JsVibrateInfo \<Rightarrow> malloc_heap
      \<Rightarrow> JsVibrateInfo option \<times> (nat option \<times> nat option list) \<times> malloc_heap" where
  "ETS_parse_effect_mem U F A effect info h =
     (case effect of
        VibrateFromPattern_type pattern \<Rightarrow>
          let ((_, info), blocks, h) = ETS_ParseVibratorPattern_mem U A pattern (info\<lparr>jvi_type := ''pattern''\<rparr>) h in
          if \<not> ETS_CheckVibratorPatternParameter (jvi_vibratorPattern info)
          then (None, (None, []), snd (ETS_ClearVibratorPattern_mem (jvi_vibratorPattern info, blocks) h))
          else (Some info, blocks, h)
      | _ \<Rightarrow> (ETS_parse_effect U F (\<lambda>_. True) effect info, (None, []), h))"

definition ETS_ParseParameter_mem ::
    "(rat option \<Rightarrow> int) \<Rightarrow> file_env \<Rightarrow> (nat \<Rightarrow> bool) \<Rightarrow> ets_effect \<Rightarrow> ets_attribute \<Rightarrow> JsVibrateInfo \<Rightarrow> malloc_heap
      \<Rightarrow> (JsVibrateInfo \<times> misc_identifier) option \<times> (nat option \<times> nat option list) \<times> malloc_heap" where
  "ETS_ParseParameter_mem U F A effect attribute info h =
     (let (r, blocks, h) = ETS_parse_effect_mem U F A effect info h in
      (map_option (\<lambda>info.
        (info\<lparr>jvi_usage := ea_usage attribute, jvi_systemUsage := value_or (ea_systemUsage attribute) False\<rparr>,
         \<lparr>mi_deviceId = value_or (ea_deviceId attribute) (-1),
          mi_vibratorId = (let n = value_or (ea_id attribute) (-1) in if n = 0 then -1 else n)\<rparr>)) r, blocks, h))"

definition ETS_startVibrationSync_mem ::
    "(rat option \<Rightarrow> int) \<Rightarrow> file_env \<Rightarrow> 'j client_env \<Rightarrow> 's misc_proxy \<Rightarrow> (nat \<Rightarrow> bool) \<Rightarrow> ets_effect \<Rightarrow> ets_attribute \<Rightarrow> errcode list
      \<Rightarrow> 's agent_state \<Rightarrow> malloc_heap \<Rightarrow> (errcode list \<times> 's agent_state) option \<times> malloc_heap" where
  "ETS_startVibrationSync_mem U F E P A effect attribute errs st h =
     (case ETS_ParseParameter_mem U F A effect attribute default_js_info h of
        (None, blocks, h) \<Rightarrow> (Some (errs @ [PARAMETER_ERROR], st), h)
      | (Some (info, _), blocks, h) \<Rightarrow>
          if jvi_type info = ''preset'' then
            (let (set, cl) = AG_SetLoopCount (jvi_count info) (fst st);
                 (ret, errs, cl) = (if set then ETS_CheckParameters_info info errs cl else (PARAMETER_ERROR, errs, cl))
             in if \<not> set \<or> ret \<noteq> ERR_OK \<or> jvi_effectId info = [] then (Some (errs @ [PARAMETER_ERROR], cl, snd st), h)
                else let (ret, st) = AG_PlayPrimitiveEffect E P (Some (jvi_effectId info)) (jvi_intensity info) (cl, snd st)
                     in (Some (if ret \<noteq> SUCCESS then errs @ [ret] else errs, st), h))
          else
            (case ETS_StartVibrate E P info errs st of
               None \<Rightarrow> (None, h)
             | Some (ret, errs, st) \<Rightarrow>
                 let a = jvi_vibratorPattern info;
                     held = (vpt_events a \<noteq> None);
                     ((_, cleared), h) = (if held then ETS_ClearVibratorPattern_mem (a, blocks) h else ((a, False), h))
                 in if held \<and> \<not> cleared then (Some (errs, st), h)
                    else (Some (if ret \<noteq> SUCCESS then errs @ [ret] else errs, st), h)))"

section \<open>What parsing owns\<close>

lemma ETS_ParseVibrateEvent_parsed:
  "parsed A (\<lambda>e. some_blocks [snd e]) points_owned fst (ETS_ParseVibrateEvent U (\<lambda>_. True) e) h (ETS_ParseVibrateEvent_mem U A e h)"
  by (cases "ee_points e"; rule malloc_cases [of A h])
    (auto simp: ETS_ParseVibrateEvent_def ETS_ParseVibrateEvent_mem_def ETS_ParseVibratorCurvePointArray_def
      ETS_ParseVibratorCurvePointArray_mem_def points_owned_def default_event_def Let_def)

lemma ETS_ClearVibratorEvents_owns:
  "owns_more h (some_blocks (Some b # points)) h' \<Longrightarrow> owns_more h {#} (ETS_ClearVibratorEvents (Some b) points (int (length points)) h')"
  unfolding ETS_ClearVibratorEvents_def
  by (cases points) (auto intro!: mh_free_owns fold_mh_free_owns simp: ac_simps)

interpretation ets_parser: event_parser A "\<lambda>j. ETS_ParseVibrateEvent_mem U A (es ! nat j)" "\<lambda>j. ETS_ParseVibrateEvent U (\<lambda>_. True) (es ! nat j)"
    "\<lambda>b. ETS_ClearVibratorEvents (Some b)" for A U es
  by unfold_locales (rule ETS_ParseVibrateEvent_parsed, rule ETS_ClearVibratorEvents_owns)

lemma ETS_ParseVibratorPattern_memory:
  assumes "ETS_ParseVibratorPattern_mem U A pattern info h = ((ok, info'), blocks, h')" and "vpt_events (jvi_vibratorPattern info) = None"
  shows "(if ok then ETS_ParseVibratorPattern U (\<lambda>_. True) pattern info = (True, info') \<and>
       pattern_owned (jvi_vibratorPattern info') blocks \<and> owns_more h (owned_blocks blocks) h'
     else ((\<forall>n. A n) \<longrightarrow> ETS_ParseVibratorPattern U (\<lambda>_. True) pattern info = (False, info')) \<and>
       vpt_events (jvi_vibratorPattern info') = None \<and> owns_more h {#} h') \<and> jvi_type info' = jvi_type info"
proof -
  let ?n = "wrap32 (int (length (epa_events pattern)))"
  show ?thesis
  proof (cases "?n \<le> 0 \<or> ?n > 128")
    case True
    with assms show ?thesis by (auto simp: ETS_ParseVibratorPattern_mem_def ETS_ParseVibratorPattern_def Let_def)
  next
    case False
    show ?thesis
    proof (cases rule: malloc_cases [of A h])
      case (1 h1)
      with False assms show ?thesis by (auto simp: ETS_ParseVibratorPattern_mem_def ETS_ParseVibratorPattern_def Let_def)
    next
      case (2 b h1)
      show ?thesis
      proof (cases rule: parsed_cases [OF ets_parser.events_parsed [OF 2(3), where A = A and U = U and es = "epa_events pattern" and n = ?n]])
        case (1 h2)
        with 2 False assms show ?thesis by (auto simp: ETS_ParseVibratorPattern_mem_def ETS_ParseVibratorPattern_def Let_def)
      next
        case es: (2 es h2)
        have "zip (map fst es) (map snd es) = es" by (simp add: zip_map_fst_snd)
        with 2 es False assms show ?thesis
          by (auto simp: ETS_ParseVibratorPattern_mem_def ETS_ParseVibratorPattern_def Let_def owned_blocks_def pattern_owned_def)
      qed
    qed
  qed
qed

lemma ETS_ClearVibratorPattern_owns:
  assumes "pattern_owned a blocks" and "owns_more h (owned_blocks blocks) h'"
  obtains h'' where "ETS_ClearVibratorPattern_mem (a, blocks) h' = (ETS_ClearVibratorPattern a, h'')"
    "snd (ETS_ClearVibratorPattern a)" "owns_more h {#} h''"
proof -
  obtain events points where b: "blocks = (events, points)" by (cases blocks)
  note free = pattern_owned_free [OF assms [unfolded b]]
  from assms(1) show ?thesis
    by (intro that [OF _ _ free]) (auto simp: b ETS_ClearVibratorPattern_mem_def ETS_ClearVibratorPattern_def pattern_owned_def)
qed

lemma ETS_parse_effect_memory:
  assumes "ETS_parse_effect_mem U F A effect info h = (r, blocks, h')" and "vpt_events (jvi_vibratorPattern info) = None"
  shows "case r of
      None \<Rightarrow> ((\<forall>n. A n) \<longrightarrow> ETS_parse_effect U F (\<lambda>_. True) effect info = None) \<and> owns_more h {#} h'
    | Some info' \<Rightarrow> ETS_parse_effect U F (\<lambda>_. True) effect info = Some info' \<and>
        (if vpt_events (jvi_vibratorPattern info') = None then h' = h
         else jvi_type info' = ''pattern'' \<and> pattern_owned (jvi_vibratorPattern info') blocks \<and> owns_more h (owned_blocks blocks) h')"
proof (cases effect)
  case (VibrateFromPattern_type pattern)
  let ?info = "info\<lparr>jvi_type := ''pattern''\<rparr>"
  obtain x b h1 where "ETS_ParseVibratorPattern_mem U A pattern ?info h = (x, b, h1)" by (metis prod_cases3)
  moreover obtain ok info1 where "x = (ok, info1)" by (cases x)
  ultimately have parse: "ETS_ParseVibratorPattern_mem U A pattern ?info h = ((ok, info1), b, h1)" by simp
  note memory = ETS_ParseVibratorPattern_memory [OF parse]
  show ?thesis
  proof (cases ok)
    case False
    with memory assms(2) have m: "(\<forall>n. A n) \<longrightarrow> ETS_ParseVibratorPattern U (\<lambda>_. True) pattern ?info = (False, info1)"
      "vpt_events (jvi_vibratorPattern info1) = None" "owns_more h {#} h1" by simp_all
    from m(2) have "\<not> ETS_CheckVibratorPatternParameter (jvi_vibratorPattern info1)" by (simp add: ETS_CheckVibratorPatternParameter_def)
    with m parse assms(1) VibrateFromPattern_type show ?thesis
      by (auto simp: ETS_parse_effect_mem_def ETS_parse_effect_def ETS_ClearVibratorPattern_mem_def Let_def split: prod.splits)
  next
    case True
    with memory assms(2) have m: "ETS_ParseVibratorPattern U (\<lambda>_. True) pattern ?info = (True, info1)" "jvi_type info1 = ''pattern''"
      and owned: "pattern_owned (jvi_vibratorPattern info1) b" "owns_more h (owned_blocks b) h1" by simp_all
    obtain h2 where clear: "ETS_ClearVibratorPattern_mem (jvi_vibratorPattern info1, b) h1 = (ETS_ClearVibratorPattern (jvi_vibratorPattern info1), h2)"
      "owns_more h {#} h2" by (rule ETS_ClearVibratorPattern_owns [OF owned])
    with m owned parse assms(1) VibrateFromPattern_type pattern_owned_events [OF owned(1)] show ?thesis
      by (auto simp: ETS_parse_effect_mem_def ETS_parse_effect_def Let_def split: if_splits)
  qed
next
  case (VibrateFromFile_type fd offset len)
  with assms show ?thesis by (auto simp: ETS_parse_effect_mem_def ETS_parse_effect_def Let_def split: if_splits)
qed (use assms in \<open>auto simp: ETS_parse_effect_mem_def ETS_parse_effect_def\<close>)

section \<open>A call gives back what it takes\<close>

text \<open>\<^verbatim>\<open>startVibrationSync\<close> gives back the arrays of a pattern on every path, whichever allocation fails, and never frees twice. With
  memory its result is the one of \<open>EtsVibrator\<close>.\<close>

theorem ets_pattern_memory_returned:
  assumes "ETS_startVibrationSync_mem U F E P A effect attribute errs st h = (Some result, h')"
  shows "mh_live h' = mh_live h \<and> mh_error h' = mh_error h \<and>
    ((\<forall>n. A n \<and> ce_malloc E n) \<longrightarrow> ETS_startVibrationSync U F E P effect attribute errs st = Some result)"
proof -
  obtain r blocks h1 where parse: "ETS_parse_effect_mem U F A effect default_js_info h = (r, blocks, h1)" by (metis prod_cases3)
  have none: "vpt_events (jvi_vibratorPattern default_js_info) = None" by (simp add: default_js_info_def default_pattern_def)
  note memory = ETS_parse_effect_memory [OF parse none]
  have enough: "ETS_parse_effect U F (ce_malloc E) = ETS_parse_effect U F (\<lambda>_. True)" if "\<forall>n. A n \<and> ce_malloc E n"
  proof -
    have "ce_malloc E = (\<lambda>_. True)" using that by (intro ext) simp
    then show ?thesis by simp
  qed
  note calls = ETS_startVibrationSync_mem_def ETS_startVibrationSync_def ETS_ParseParameter_mem_def ETS_ParseParameter_def
  show ?thesis
  proof (cases r)
    case None
    with parse assms have "result = (errs @ [PARAMETER_ERROR], st)" "h' = h1" by (simp_all add: calls)
    with memory None show ?thesis by (auto simp: calls enough owns_more_def)
  next
    case (Some info)
    with memory have m: "ETS_parse_effect U F (\<lambda>_. True) effect default_js_info = Some info"
      "if vpt_events (jvi_vibratorPattern info) = None then h1 = h
       else jvi_type info = ''pattern'' \<and> pattern_owned (jvi_vibratorPattern info) blocks \<and> owns_more h (owned_blocks blocks) h1" by simp_all
    show ?thesis
    proof (cases "vpt_events (jvi_vibratorPattern info) = None")
      case True
      with parse Some assms m show ?thesis
        by (auto simp: calls enough Let_def split: if_splits option.splits prod.splits)
    next
      case False
      with m(2) have type: "jvi_type info = ''pattern''" and owned: "pattern_owned (jvi_vibratorPattern info) blocks" "owns_more h (owned_blocks blocks) h1"
        by simp_all
      obtain h2 where clear: "ETS_ClearVibratorPattern_mem (jvi_vibratorPattern info, blocks) h1 = (ETS_ClearVibratorPattern (jvi_vibratorPattern info), h2)"
        "snd (ETS_ClearVibratorPattern (jvi_vibratorPattern info))" "owns_more h {#} h2" by (rule ETS_ClearVibratorPattern_owns [OF owned])
      with False type parse Some assms m(1) show ?thesis
        by (auto simp: calls enough Let_def owns_more_def split: if_splits option.splits prod.splits)
    qed
  qed
qed

definition ets_curve_event :: "int \<Rightarrow> ets_event" where
  "ets_curve_event t = \<lparr>ee_eventType = 0, ee_time = t, ee_duration = Some 100, ee_intensity = Some 50, ee_frequency = Some 50, ee_index = None,
     ee_points = Some (map (\<lambda>t. \<lparr>ep_time = t, ep_intensity = None, ep_frequency = None\<rparr>) [0, 10, 20, 30])\<rparr>"

definition ets_sample_effect :: ets_effect where
  "ets_sample_effect = VibrateFromPattern_type \<lparr>epa_time = 0, epa_events = [ets_curve_event 0, ets_curve_event 200]\<rparr>"

definition ets_sample_attribute :: ets_attribute where
  "ets_sample_attribute = \<lparr>ea_id = None, ea_deviceId = None, ea_usage = ''alarm'', ea_systemUsage = None\<rparr>"

lemma ets_pattern_memory_returned_witness:
  "mh_live (snd (ETS_startVibrationSync_mem (\<lambda>_. 0) (sample_files '''' 0) sample_client_env sample_proxy (\<lambda>n. n < 2) ets_sample_effect
     ets_sample_attribute [] sample_agent empty_heap)) = {#}"
proof -
  let ?r = "ETS_startVibrationSync_mem (\<lambda>_. 0) (sample_files '''' 0) sample_client_env sample_proxy (\<lambda>n. n < 2) ets_sample_effect
     ets_sample_attribute [] sample_agent empty_heap"
  have "fst ?r \<noteq> None" by code_simp
  then obtain result where "?r = (Some result, snd ?r)" by (metis not_None_eq prod.collapse)
  from ets_pattern_memory_returned [OF this] show ?thesis by (simp add: empty_heap_def)
qed

end
