(* ===== verification/Spec2Isabelle.thy ===== *)
theory Spec2Isabelle
  imports VibrationPolicy LightClient AgentFailures System JsProps VibratorControl EtsProps ContinuousSlices PlugCallback JsPatternMemory EtsPatternMemory
begin

text \<open>
  A verification development of the vibrator and light service of OpenHarmony (\<^verbatim>\<open>sensors_miscdevice\<close>):
  the C++ code under \<^verbatim>\<open>src/frameworks\<close> (the native libraries and the bindings for JavaScript, ArkTS and Cangjie),
  \<^verbatim>\<open>src/services/miscdevice_service\<close>, \<^verbatim>\<open>src/utils\<close> and \<^verbatim>\<open>src/tools\<close>.

  \<^bold>\<open>The program.\<close> An application calls the agent (\<^verbatim>\<open>vibrator_agent.cpp\<close>, \<^verbatim>\<open>light_agent.cpp\<close>, and the C
  interface \<^verbatim>\<open>capi/vibrator.cpp\<close>), directly or through a binding (\<^verbatim>\<open>frameworks/js/napi/vibrator\<close>,
  \<^verbatim>\<open>frameworks/ets/taihe\<close>, \<^verbatim>\<open>frameworks/cj\<close>) or the command line tool (\<^verbatim>\<open>tools/ohos-vibratorControl\<close>). A
  binding checks and converts the arguments, and answers later, by a promise or a callback. The agent calls the client library
  (\<^verbatim>\<open>vibrator_service_client.cpp\<close>, \<^verbatim>\<open>light_client.cpp\<close>). The library decodes haptic files, keeps the settings of the next request, and passes calls
  through the generated interface \<^verbatim>\<open>IMiscdeviceService\<close>, with the marshalling of \<^verbatim>\<open>utils/common\<close>, to the service
  (\<^verbatim>\<open>miscdevice_service.cpp\<close>). The service checks a request, asks the priority manager
  (\<^verbatim>\<open>vibration_priority_manager.cpp\<close>) and starts a thread for each vibrator the request means
  (\<^verbatim>\<open>vibrator_thread.cpp\<close>), which maps custom vibrations to effects (\<^verbatim>\<open>custom_vibration_matcher.cpp\<close>) and
  calls the driver connection (\<^verbatim>\<open>hdi_connection\<close>). Drivers report plugged devices; the service tells the clients.

  \<^bold>\<open>The theories\<close>, in the order of their imports.
  \<^item> \<open>Prelude\<close>: the error codes, 32-bit integers with wrap-around, loops that give up. \<open>StdMap\<close>: \<^verbatim>\<open>std::map\<close> as
    a sorted list, with the locale \<open>map_store\<close>. \<open>CStrings\<close>: the string functions the code calls. \<open>Float32\<close>: \<^verbatim>\<open>float\<close>
    and \<^verbatim>\<open>double\<close> as rounded rationals.
  \<^item> \<open>Parcel\<close>, \<open>VibratorInfos\<close>, \<open>Marshalling\<close>, \<open>IpcInfos\<close>: the messages, \<^verbatim>\<open>vibrator_infos.cpp\<close>,
    \<^verbatim>\<open>light_info_ipc.cpp\<close> and \<^verbatim>\<open>light_animation_ipc.cpp\<close>, over any parcel that is first in, first out; the locale
    \<open>parcel_codec\<close> gives the round trip of each, \<open>strict_codec\<close> also what is rejected.
  \<^item> \<open>Files\<close>: \<^verbatim>\<open>file_utils.cpp\<close> over streams of the C library, and the constructors of \<^verbatim>\<open>JsonParser\<close>.
  \<^item> \<open>Json\<close>, \<open>OhDecoder\<close>, \<open>HeDecoder\<close>: \<^verbatim>\<open>json_parser.cpp\<close> over an abstract cJSON and the two decoders with the
    choice between them; the locale \<open>vibrator_decoder\<close> is their contract.
  \<^item> \<open>Matcher\<close>: \<^verbatim>\<open>custom_vibration_matcher.cpp\<close>, with the locale \<open>effect_transformer\<close> for both outputs.
    \<open>ContinuousSlices\<close>: its slices of 50 ms, with the grade that the effects play in every millisecond of a curve.
  \<^item> \<open>PriorityManager\<close>: the settings, their observers and \<^verbatim>\<open>ShouldIgnoreVibrate\<close>. \<open>VibrationPolicy\<close>: who may vibrate, stated
    over the values that the settings service holds; the manager decides accordingly once its observers have been told.
  \<^item> \<open>Hdi\<close>, \<open>Compatible\<close>: the driver connection, the wrapper and the mock; the locales \<open>hdi_connection\<close> and
    \<open>vibrator_device\<close> are what the service relies on of them.
  \<^item> \<open>VibratorThread\<close>: a run of a thread as a function of its request, the device and a script of stop requests.
  \<^item> \<open>Dump\<close>, \<open>MergeParameters\<close>: the dump of the last requests and the adjustment of a package.
  \<^item> \<open>Service\<close>, \<open>ServiceHandlers\<close>: the state of the service as a record and every handler as a step on it.
    \<open>ServiceTable\<close>, \<open>ServiceInvariant\<close>: lemmas on the device table and the threads. \<open>ServiceReach\<close>: the step relation, the
    states that can be reached and their invariant by rule induction. \<open>ServiceProps\<close>, \<open>ServiceRequests\<close>, \<open>ServiceEvents\<close>: what
    the service guarantees.
  \<^item> \<open>PlugCallback\<close>: the classes that pass driver and system events on to the service, and what a restarted driver knows of it.
  \<^item> \<open>ClientPackages\<close>, \<open>ClientSeek\<close>, \<open>ClientModulation\<close>: the packages of applications, with arrays that may be read
    behind their end; conversion, seeking and modulation against their specifications. That of seeking is over the sounds of a
    package: when each event begins, with all its fields and its curve.
  \<^item> \<open>Client\<close>, \<open>Agent\<close>: the client library and the functions for applications. \<open>AgentProps\<close>, \<open>AgentFailures\<close>: result
    codes, settings and what the service says to them (a stored count may be above the 1000 that it accepts), and what the library
    makes of a missing or refusing service.
  \<^item> \<open>EndToEnd\<close>: a request from the application to the device, and a plug event from the service to the
    application. \<open>System\<close>: any number of applications over one service; the locale \<open>misc_service\<close> is what the library
    relies on of the service, and it is interpreted on the handlers.
  \<^item> \<open>Lights\<close>, \<open>LightClient\<close>: the lights, from the agent to the driver; \<open>LightClient\<close> shows which requests reach the
    driver. The locales \<open>light_device\<close> and \<open>light_relay\<close> say what is on after any requests; they hold for the mock connection, which
    keeps a list of the lights that are on, as the driver connection keeps none.

  \<^item> \<open>JsNapi\<close>, \<open>JsPattern\<close>, \<open>JsVibrate\<close>, \<open>JsAsync\<close>, \<open>JsEvents\<close>: the binding for JavaScript over a record of the
    functions of Node-API: \<^verbatim>\<open>vibrator_napi_utils.cpp\<close>, \<^verbatim>\<open>vibrator_pattern_js.cpp\<close>, \<^verbatim>\<open>vibrator_js.cpp\<close>. \<open>JsBuilder\<close>,
    \<open>JsProps\<close>, \<open>JsEventProps\<close>: patterns from the builder, promises, a resolved promise down to the device, and the table of callbacks,
    over the states that any calls, work items and tasks reach. Every environment has its own event loop with the tasks that wait there,
    and the loops run in any order. The locale \<open>callback_table\<close> of
    \<open>CallbackTable\<close> is the contract of a table of callbacks; the tables of JavaScript and of ArkTS are its interpretations.
  \<^item> \<open>MallocHeap\<close>: the blocks of \<^verbatim>\<open>malloc\<close> as a multiset. \<open>CangjieFfi\<close>: \<^verbatim>\<open>vibrator_ffi.cpp\<close> over it. \<open>EtsVibrator\<close>, \<open>EtsEvents\<close>:
    \<^verbatim>\<open>ohos.vibrator.impl.cpp\<close>. \<open>EtsProps\<close>: the same for ArkTS, with the references that are
    lost when there is no memory, and what the three bindings have in common: requests to vibrate for a time. In other requests they differ,
    and the lemmas say where.
  \<^item> \<open>PackageMemory\<close>: the arrays of the packages of the client library on that heap, from their allocation in the conversion and the
    modulation to \<^verbatim>\<open>FreeVibratorPackage\<close>. \<open>PatternMemory\<close>: the loop by which the bindings parse events, with the locale \<open>event_parser\<close>
    for one event. \<open>JsPatternMemory\<close>, \<open>EtsPatternMemory\<close>: its interpretations, and what a call of \<^verbatim>\<open>startVibration\<close> gives back.
  \<^item> \<open>VibratorControl\<close>: the command line tool, with what it prints.

  \<^bold>\<open>Conventions.\<close> \<^verbatim>\<open>int32_t\<close> is \<open>int\<close> with \<open>wrap32\<close> wherever a sum or product is not bounded by a check before it;
  \<^verbatim>\<open>uint32_t\<close> session ids and durations are 32-bit words. A result code is a value of \<open>errcode\<close>; a function that
  returns a code and a value through a reference returns a sum. A read behind the end of an array is a value (\<open>Crash\<close>, or \<open>None\<close>).
  Statics, singletons and members are fields of the state that each function takes and returns. Handlers hold the
  mutexes of the service and are steps on the whole state; what a thread still does to the device when it is told to end is a function
  of the environment (\<open>w_join\<close>), its end by itself a step. The model is of a build with the vibrator driver
  interface, the light driver interface and custom vibrations; the remaining switches are fields of the environment.

  \<^bold>\<open>Bounds and termination.\<close> Every function is total but for two loops that need not end and have no fuel: they are partial functions with the
  result \<open>None\<close>, the reading loop of \<^verbatim>\<open>ReadFd\<close> and the loop of \<^verbatim>\<open>RemoveCallback\<close> in \<open>JsEvents\<close>, and it is proved
  exactly when they return. Loops with a
  fixed number of rounds (ten attempts to connect, six retries of a busy device) are recursions on it; the binary search
  and the loop of \<^verbatim>\<open>MergeCurve\<close> have a measure. Waits read the script of stop requests, which may be of any length.

  \<^bold>\<open>Time.\<close> The thread of a vibrator runs on a virtual clock: a call of the driver takes no time, and a wait ends exactly at its time or
  at a stop request. What is shown of its times is about the schedule that the code follows, not about delays of driver and system.

  \<^bold>\<open>Parameters.\<close> What is not in the repository is an argument: the parcel, cJSON, the drivers, the settings store,
  tokens and permissions, the system ability manager, the file system, the engines of the bindings, memory and the clock. The laws that a property needs of one are its hypotheses,
  and each has an instance in a witness.

  \<^bold>\<open>Not modelled.\<close> The registration of the modules (\<^verbatim>\<open>Init\<close>, the enumerations and the class of the builder are
  handed to the engine once), the debug output of patterns, logging, tracing, the quality
  of service of threads, and destructors other than that of the priority manager. Data races are outside the model:
  a handler that reads shared state without its mutex is a step all the same.
\<close>

end
